(* ===== verification/Prelude.thy ===== *)
theory Prelude
  imports Main
    "HOL-Library.AList"
    "HOL-Library.Product_Lexorder"
    "HOL-Library.List_Lexorder"
    "HOL-Library.Char_ord"
begin

text \<open>
  Shared vocabulary of the development: identifiers and instants, API errors as values, the
  sequencing of fallible steps, JavaScript string trimming, the SQL order of a nullable column,
  \<open>GROUP BY ... SUM\<close> over a table and the \<open>UPDATE ... WHERE\<close> of a table held as a list of rows.
  The generic lemmas here carry the component proofs; most are simp rules or belong to the
  collections \<open>res_simps\<close> (inversion of fallible steps) and \<open>tbl_simps\<close> (tables).
\<close>

named_theorems res_simps \<open>inversion of successful fallible steps\<close>
named_theorems tbl_simps \<open>lookups in updated and extended tables\<close>

section \<open>Names for the basic types\<close>

text \<open>
  A UUID is its canonical text; strings are UTF-8 byte strings. An instant is the number of
  microseconds since the epoch, the precision of the \<open>timestamptz(6)\<close> columns. A JavaScript \<open>Date\<close>
  holds whole milliseconds: \<open>js_date\<close> is what is left of a column once it was read into a \<open>Date\<close>.
\<close>

type_synonym uid = string
type_synonym time = int

definition ms :: "int \<Rightarrow> time" where
  "ms n = 1000 * n"

definition js_date :: "time \<Rightarrow> time" where
  "js_date t = t div 1000 * 1000"

lemma js_date_le: "js_date t \<le> t" and js_date_gt: "t < js_date t + 1000"
  unfolding js_date_def by presburger+

text \<open>
  What a request can fail with: the HTTP exceptions the services throw (with the message that
  identifies the branch), the SQLSTATE of a violated database constraint, and a plain \<open>Error\<close>.
\<close>

datatype sqlstate = Unique_Violation | Foreign_Key_Violation | Numeric_Out_Of_Range | Check_Violation | Invalid_Text

datatype api_error =
    Bad_Request string
  | Unauthorized string
  | Insufficient_Credits
  | Forbidden string
  | Not_Found string
  | Conflict string
  | Service_Unavailable string
  | Too_Many_Requests string
  | Db_Error sqlstate
  | Plain_Error string

type_synonym 'a res = "api_error + 'a"

section \<open>Sequencing fallible steps\<close>

definition bindR :: "'e + 'a \<Rightarrow> ('a \<Rightarrow> 'e + 'b) \<Rightarrow> 'e + 'b" where
  "bindR m f = (case m of Inl e \<Rightarrow> Inl e | Inr x \<Rightarrow> f x)"

definition ensure :: "bool \<Rightarrow> 'e \<Rightarrow> 'e + unit" where
  "ensure c e = (if c then Inr () else Inl e)"

definition require_some :: "'a option \<Rightarrow> 'e \<Rightarrow> 'e + 'a" where
  "require_some x e = (case x of None \<Rightarrow> Inl e | Some y \<Rightarrow> Inr y)"

lemma bindR_simps [simp]:
  "bindR (Inl e) f = Inl e"
  "bindR (Inr x) f = f x"
  by (simp_all add: bindR_def)

lemma bindR_Inr_iff [res_simps]: "bindR m f = Inr y \<longleftrightarrow> (\<exists>x. m = Inr x \<and> f x = Inr y)"
  by (cases m) simp_all

lemma bindR_Inl_iff: "bindR m f = Inl e \<longleftrightarrow> m = Inl e \<or> (\<exists>x. m = Inr x \<and> f x = Inl e)"
  by (cases m) simp_all

lemma ensure_simps [simp]:
  "ensure True e = Inr ()"
  "ensure False e = Inl e"
  by (simp_all add: ensure_def)

lemma ensure_Inr_iff [res_simps]: "ensure c e = Inr u \<longleftrightarrow> c"
  by (simp add: ensure_def)

lemma ensure_Inl_iff: "ensure c e = Inl e' \<longleftrightarrow> \<not> c \<and> e' = e"
  by (auto simp: ensure_def)

lemma require_some_simps [simp]:
  "require_some None e = Inl e"
  "require_some (Some x) e = Inr x"
  by (simp_all add: require_some_def)

lemma require_some_Inr_iff [res_simps]: "require_some x e = Inr y \<longleftrightarrow> x = Some y"
  by (cases x) auto

text \<open>
  A transaction returns its result with the new database or an error; \<open>ROLLBACK\<close> is that an
  error carries no database. \<open>commit\<close> runs a transaction as one step of a longer operation, whose
  outcome is paired with the database it leaves behind.
\<close>

definition commit :: "('s \<Rightarrow> 'e + ('a \<times> 's)) \<Rightarrow> 's \<Rightarrow> ('e + 'a) \<times> 's" where
  "commit tx s = (case tx s of Inl e \<Rightarrow> (Inl e, s) | Inr (x, s') \<Rightarrow> (Inr x, s'))"

lemma commit_Inl [simp]: "tx s = Inl e \<Longrightarrow> commit tx s = (Inl e, s)"
  by (simp add: commit_def)

lemma commit_Inr [simp]: "tx s = Inr (x, s') \<Longrightarrow> commit tx s = (Inr x, s')"
  by (simp add: commit_def)

section \<open>Strings\<close>

text \<open>
  \<open>String.prototype.trim\<close> on the ASCII white space; bytes of multi-byte characters are kept.
\<close>

definition js_space :: "char \<Rightarrow> bool" where
  "js_space c \<longleftrightarrow> (let n = (of_char c :: nat) in (9 \<le> n \<and> n \<le> 13) \<or> n = 32)"

definition trim :: "string \<Rightarrow> string" where
  "trim xs = rev (dropWhile js_space (rev (dropWhile js_space xs)))"

lemma dropWhile_idem: "dropWhile P (dropWhile P xs) = dropWhile P xs"
  by (induction xs) auto

lemma dropWhile_rev_dropWhile:
  "dropWhile P (rev (dropWhile P (rev (dropWhile P xs)))) = rev (dropWhile P (rev (dropWhile P xs)))"
proof (cases "dropWhile P xs")
  case Nil
  show ?thesis unfolding Nil by simp
next
  case (Cons y ys)
  then have y: "\<not> P y" by (metis dropWhile_eq_Cons_conv)
  have "dropWhile P (rev ys @ [y]) = dropWhile P (rev ys) @ [y]"
    using y by (induction "rev ys") (auto simp: dropWhile_append)
  with Cons y show ?thesis by simp
qed

lemma trim_trim [simp]: "trim (trim s) = trim s"
  unfolding trim_def by (simp add: dropWhile_rev_dropWhile dropWhile_idem)

text \<open>\<open>value?.trim()\<close> followed by a truthiness test: absent and blank strings are the same.\<close>

definition trimmed :: "string option \<Rightarrow> string option" where
  "trimmed x = (case x of None \<Rightarrow> None | Some s \<Rightarrow> if trim s = [] then None else Some (trim s))"

lemma trimmed_simps [simp]:
  "trimmed None = None"
  "trim s = [] \<Longrightarrow> trimmed (Some s) = None"
  "trim s \<noteq> [] \<Longrightarrow> trimmed (Some s) = Some (trim s)"
  by (simp_all add: trimmed_def)

definition truthy :: "string option \<Rightarrow> bool" where
  "truthy x \<longleftrightarrow> (case x of None \<Rightarrow> False | Some s \<Rightarrow> s \<noteq> [])"

lemma truthy_simps [simp]: "\<not> truthy None" "truthy (Some s) \<longleftrightarrow> s \<noteq> []"
  by (simp_all add: truthy_def)

text \<open>ASCII case mapping: \<open>toUpperCase\<close> and \<open>toLowerCase\<close>.\<close>

definition to_upper_char :: "char \<Rightarrow> char" where
  "to_upper_char c = (let n = (of_char c :: nat) in if 97 \<le> n \<and> n \<le> 122 then char_of (n - 32) else c)"

definition to_lower_char :: "char \<Rightarrow> char" where
  "to_lower_char c = (let n = (of_char c :: nat) in if 65 \<le> n \<and> n \<le> 90 then char_of (n + 32) else c)"

definition to_upper :: "string \<Rightarrow> string" where
  "to_upper = map to_upper_char"

definition to_lower :: "string \<Rightarrow> string" where
  "to_lower = map to_lower_char"

text \<open>Decimal digits of a number, as template literals print it.\<close>

definition digit :: "nat \<Rightarrow> char" where
  "digit n = ''0123456789'' ! n"

function show_digits :: "int \<Rightarrow> string" where
  "show_digits n = (if n < 10 then [digit (nat n)] else show_digits (n div 10) @ [digit (nat (n mod 10))])"
  by auto
termination by (relation "measure nat") auto

declare show_digits.simps [simp del]

definition show_int :: "int \<Rightarrow> string" where
  "show_int i = (if i < 0 then ''-'' @ show_digits (- i) else show_digits i)"

section \<open>Numbers received\<close>

text \<open>
  A number received in a request: \<open>Number.isInteger\<close> tells the integers from every other number
  (fractions, infinities, \<open>NaN\<close>) and from \<open>undefined\<close>.
\<close>

datatype js_number = Js_Int int | Js_Other

section \<open>URLs\<close>

text \<open>What \<open>new URL(text)\<close> gives, as far as the services look at it. The parser itself is a parameter of the
  definitions that use it: \<open>None\<close> when it throws.\<close>

record url =
  url_protocol :: string
  url_origin :: string
  url_username :: string
  url_password :: string
  url_hostname :: string
  url_pathname :: string
  url_search :: string
  url_params :: "(string \<times> string) list"
  url_hash :: string

section \<open>The SQL order of a nullable column\<close>

text \<open>
  \<open>ORDER BY x ASC\<close> in PostgreSQL puts \<open>NULL\<close> after every value.
\<close>

datatype 'a sql_key = Val 'a | Null

fun nulls_last :: "'a option \<Rightarrow> 'a sql_key" where
  "nulls_last None = Null"
| "nulls_last (Some x) = Val x"

instantiation sql_key :: (linorder) linorder
begin

fun less_eq_sql_key :: "'a sql_key \<Rightarrow> 'a sql_key \<Rightarrow> bool" where
  "less_eq_sql_key (Val x) (Val y) \<longleftrightarrow> x \<le> y"
| "less_eq_sql_key (Val x) Null \<longleftrightarrow> True"
| "less_eq_sql_key Null (Val y) \<longleftrightarrow> False"
| "less_eq_sql_key Null Null \<longleftrightarrow> True"

definition less_sql_key :: "'a sql_key \<Rightarrow> 'a sql_key \<Rightarrow> bool" where
  "less_sql_key a b \<longleftrightarrow> a \<le> b \<and> \<not> b \<le> (a :: 'a sql_key)"

instance
proof
  fix x y z :: "'a sql_key"
  show "x < y \<longleftrightarrow> x \<le> y \<and> \<not> y \<le> x" by (simp add: less_sql_key_def)
  show "x \<le> x" by (cases x) simp_all
  show "x \<le> y \<Longrightarrow> y \<le> z \<Longrightarrow> x \<le> z" by (cases x; cases y; cases z) auto
  show "x \<le> y \<Longrightarrow> y \<le> x \<Longrightarrow> x = y" by (cases x; cases y) auto
  show "x \<le> y \<or> y \<le> x" by (cases x; cases y) auto
qed

end

lemma less_sql_key_simps [simp]:
  "Val x < Val y \<longleftrightarrow> x < y"
  "Val x < Null"
  "\<not> (Null < (k :: 'a :: linorder sql_key))"
  by (auto simp: less_sql_key_def) (cases k; simp)

section \<open>Sums and groups\<close>

text \<open>
  A JavaScript \<open>Map\<close> with integer values is an association list in insertion order; \<open>get(k) ?? 0\<close>
  is \<open>lookup0\<close> and \<open>set\<close> is \<open>AList.update\<close>.
\<close>

definition lookup0 :: "('k \<times> int) list \<Rightarrow> 'k \<Rightarrow> int" where
  "lookup0 al k = (case map_of al k of None \<Rightarrow> 0 | Some v \<Rightarrow> v)"

lemma lookup0_Nil [simp]: "lookup0 [] k = 0"
  by (simp add: lookup0_def)

lemma lookup0_Cons: "lookup0 ((k, v) # al) k' = (if k = k' then v else lookup0 al k')"
  by (simp add: lookup0_def)

lemma lookup0_update [simp]:
  "lookup0 (AList.update k v al) k' = (if k = k' then v else lookup0 al k')"
  by (simp add: lookup0_def update_conv')

lemma lookup0_notin: "k \<notin> fst ` set al \<Longrightarrow> lookup0 al k = 0"
  by (induction al) (auto simp: lookup0_def)

definition total :: "('k \<times> int) list \<Rightarrow> int" where
  "total al = sum_list (map snd al)"

lemma total_simps [simp]: "total [] = 0" "total ((k, v) # al) = v + total al"
  by (simp_all add: total_def)

lemma total_update:
  "distinct (map fst al) \<Longrightarrow> total (AList.update k v al) = total al - lookup0 al k + v"
  by (induction al) (auto simp: lookup0_Cons lookup0_notin image_iff)

text \<open>\<open>SELECT key, SUM(val) ... GROUP BY key\<close>.\<close>

fun group_sum :: "('r \<Rightarrow> 'k) \<Rightarrow> ('r \<Rightarrow> int) \<Rightarrow> 'r list \<Rightarrow> ('k \<times> int) list" where
  "group_sum key val [] = []"
| "group_sum key val (r # rs) =
     (let al = group_sum key val rs in AList.update (key r) (lookup0 al (key r) + val r) al)"

definition sum_where :: "('r \<Rightarrow> bool) \<Rightarrow> ('r \<Rightarrow> int) \<Rightarrow> 'r list \<Rightarrow> int" where
  "sum_where p val rs = sum_list (map val (filter p rs))"

lemma sum_where_simps [simp]:
  "sum_where p val [] = 0"
  "sum_where p val (r # rs) = (if p r then val r else 0) + sum_where p val rs"
  "sum_where p val (rs @ rs') = sum_where p val rs + sum_where p val rs'"
  by (simp_all add: sum_where_def)

lemma sum_where_filter [simp]: "sum_where p val (filter q rs) = sum_where (\<lambda>r. p r \<and> q r) val rs"
  by (induction rs) auto

lemma sum_where_nonneg: "(\<And>r. r \<in> set rs \<Longrightarrow> p r \<Longrightarrow> 0 \<le> val r) \<Longrightarrow> 0 \<le> sum_where p val rs"
  by (induction rs) auto

lemma sum_where_cong:
  "(\<And>r. r \<in> set rs \<Longrightarrow> p r = q r) \<Longrightarrow> (\<And>r. r \<in> set rs \<Longrightarrow> p r \<Longrightarrow> f r = g r) \<Longrightarrow>
   sum_where p f rs = sum_where q g rs"
  by (induction rs) auto

lemma sum_where_False: "(\<And>r. r \<in> set rs \<Longrightarrow> \<not> p r) \<Longrightarrow> sum_where p val rs = 0"
  by (induction rs) auto

lemma distinct_group_sum [simp]: "distinct (map fst (group_sum key val rs))"
  by (induction rs) (simp_all add: Let_def distinct_update)

lemma lookup0_group_sum [simp]:
  "lookup0 (group_sum key val rs) k = sum_where (\<lambda>r. key r = k) val rs"
  by (induction rs) (auto simp: Let_def)

lemma total_group_sum [simp]: "total (group_sum key val rs) = sum_list (map val rs)"
  by (induction rs) (auto simp: Let_def total_update)

lemma keys_group_sum [simp]: "fst ` set (group_sum key val rs) = key ` set rs"
  by (induction rs) (auto simp: Let_def dom_update)

section \<open>Tables\<close>

text \<open>
  A table is the list of its rows. \<open>SELECT ... LIMIT 1\<close> is \<open>find\<close>; \<open>UPDATE ... WHERE\<close> is
  \<open>update_where\<close>.
\<close>

definition update_where :: "('r \<Rightarrow> bool) \<Rightarrow> ('r \<Rightarrow> 'r) \<Rightarrow> 'r list \<Rightarrow> 'r list" where
  "update_where p f rs = map (\<lambda>r. if p r then f r else r) rs"

lemma update_where_simps [simp]:
  "update_where p f [] = []"
  "update_where p f (r # rs) = (if p r then f r else r) # update_where p f rs"
  "update_where p f (rs @ rs') = update_where p f rs @ update_where p f rs'"
  by (simp_all add: update_where_def)

lemma length_update_where [simp]: "length (update_where p f rs) = length rs"
  by (simp add: update_where_def)

lemma set_update_where: "set (update_where p f rs) = (\<lambda>r. if p r then f r else r) ` set rs"
  by (simp add: update_where_def)

lemma map_update_where [simp]:
  "(\<And>r. g (f r) = g r) \<Longrightarrow> map g (update_where p f rs) = map g rs"
  by (simp add: update_where_def)

lemma update_whereE:
  assumes "r \<in> set (update_where p f rs)"
  obtains q where "q \<in> set rs" "r = (if p q then f q else q)"
  using assms by (auto simp: update_where_def)

lemma update_where_id: "(\<And>r. r \<in> set rs \<Longrightarrow> p r \<Longrightarrow> f r = r) \<Longrightarrow> update_where p f rs = rs"
  by (induction rs) auto

lemma find_append [tbl_simps]:
  "find p (xs @ ys) = (case find p xs of None \<Rightarrow> find p ys | Some x \<Rightarrow> Some x)"
  by (induction xs) auto

lemma find_update_where:
  "(\<And>r. q (f r) = q r) \<Longrightarrow>
   find q (update_where p f rs) = map_option (\<lambda>r. if p r then f r else r) (find q rs)"
  by (induction rs) auto

lemma find_in_set: "find p xs = Some x \<Longrightarrow> x \<in> set xs \<and> p x"
  by (induction xs) (auto split: if_splits)

lemma find_None_iff_all: "find p xs = None \<longleftrightarrow> (\<forall>x \<in> set xs. \<not> p x)"
  by (auto simp: find_None_iff)

text \<open>In a table with a unique key a row found by its key is the only one with it.\<close>

lemma find_unique:
  "distinct (map k xs) \<Longrightarrow> x \<in> set xs \<Longrightarrow> find (\<lambda>r. k r = k x) xs = Some x"
  by (induction xs) (auto simp: image_iff)

lemma find_unique_and:
  "distinct (map k xs) \<Longrightarrow> x \<in> set xs \<Longrightarrow> Q x \<Longrightarrow> find (\<lambda>r. k r = k x \<and> Q r) xs = Some x"
  by (induction xs) (auto simp: image_iff)

lemma unique_key_eq:
  "distinct (map k xs) \<Longrightarrow> x \<in> set xs \<Longrightarrow> y \<in> set xs \<Longrightarrow> k x = k y \<Longrightarrow> x = y"
  by (induction xs) (auto simp: image_iff)

lemma filter_eq_single: "distinct xs \<Longrightarrow> x \<in> set xs \<Longrightarrow> filter (\<lambda>y. y = x) xs = [x]"
  by (induction xs) (auto simp: filter_empty_conv)

text \<open>The state and the result of a run that succeeds, for evaluation on concrete inputs.\<close>

abbreviation out :: "'e + 'a \<times> 's \<Rightarrow> 'a" where
  "out r \<equiv> fst (projr r)"

abbreviation after :: "'e + 'a \<times> 's \<Rightarrow> 's" where
  "after r \<equiv> snd (projr r)"

lemma run_ok: "\<not> isl r \<Longrightarrow> r = Inr (out r, after r)"
  by (cases r) auto

end
