(* ===== verification/Js_Number.thy ===== *)
theory Js_Number
  imports Prelude "HOL-Library.Log_Nat" Complex_Main
begin

text \<open>
  JavaScript numbers. The services compute money with IEEE doubles: \<open>Math.floor(a * b / c)\<close> and
  \<open>Math.floor(gross * 0.05)\<close>. A finite double is modelled by the rational it denotes, and every
  operation rounds the exact result to 53 significant bits, ties to even (overflow and subnormals
  cannot arise at the magnitudes of a price). The lemmas show where flooring the rounded result is
  exact integer division.
\<close>

section \<open>Rounding to 53 significant bits\<close>

definition ilog2 :: "rat \<Rightarrow> int" where
  "ilog2 x = (let (n, d) = quotient_of x;
                  e = int (floorlog 2 (nat n)) - int (floorlog 2 (nat d))
              in if x < 2 powi e then e - 1 else e)"

definition round_even :: "rat \<Rightarrow> int" where
  "round_even x = (let f = \<lfloor>x\<rfloor>; r = x - of_int f
                   in if r < 1 / 2 then f else if 1 / 2 < r then f + 1 else if even f then f else f + 1)"

definition fl :: "rat \<Rightarrow> rat" where
  "fl x = (if x = 0 then 0
           else let q = 2 powi (ilog2 \<bar>x\<bar> - 52) in of_int (round_even (x / q)) * q)"

definition js_mul :: "rat \<Rightarrow> rat \<Rightarrow> rat" where
  "js_mul a b = fl (a * b)"

definition js_div :: "rat \<Rightarrow> rat \<Rightarrow> rat" where
  "js_div a b = fl (a / b)"

definition js_floor :: "rat \<Rightarrow> int" where
  "js_floor x = \<lfloor>x\<rfloor>"

definition js_ceil :: "rat \<Rightarrow> int" where
  "js_ceil x = \<lceil>x\<rceil>"

section \<open>The exponent\<close>

lemma floorlog_bounds:
  assumes "0 < n"
  shows "(2::rat) ^ (floorlog 2 n - 1) \<le> of_nat n" and "of_nat n < (2::rat) ^ floorlog 2 n"
proof -
  have "2 ^ (floorlog 2 n - 1) \<le> n" and "n < 2 ^ floorlog 2 n"
    using floorlog_bounds [of n 2] assms by auto
  then show "(2::rat) ^ (floorlog 2 n - 1) \<le> of_nat n" and "of_nat n < (2::rat) ^ floorlog 2 n"
    by (metis of_nat_le_iff of_nat_numeral of_nat_power, metis of_nat_less_iff of_nat_numeral of_nat_power)
qed

lemma powi_diff_nat: "(2::rat) powi (int m - int k) = 2 ^ m / 2 ^ k"
  by (simp add: power_int_diff)

lemma ilog2_bounds:
  assumes "0 < x"
  shows "2 powi (ilog2 x) \<le> x" and "x < 2 powi (ilog2 x + 1)"
proof -
  obtain n d where q: "quotient_of x = (n, d)" by (cases "quotient_of x")
  have d: "0 < d" using q by (rule quotient_of_denom_pos)
  have x: "x = of_int n / of_int d" using q by (rule quotient_of_div)
  have n: "0 < n" using assms d unfolding x by (simp add: zero_less_divide_iff)
  define a where "a = floorlog 2 (nat n)"
  define b where "b = floorlog 2 (nat d)"
  have a0: "0 < a" and b0: "0 < b" using n d unfolding a_def b_def by (simp_all add: floorlog_def)
  have na: "2 ^ (a - 1) \<le> (of_int n :: rat)" "(of_int n :: rat) < 2 ^ a"
    using floorlog_bounds [of "nat n"] n unfolding a_def by auto
  have db: "2 ^ (b - 1) \<le> (of_int d :: rat)" "(of_int d :: rat) < 2 ^ b"
    using floorlog_bounds [of "nat d"] d unfolding b_def by auto
  define e where "e = int a - int b"
  have pw: "(2::rat) powi (e + 1) = 2 ^ a / 2 ^ (b - 1)" "(2::rat) powi (e - 1) = 2 ^ (a - 1) / 2 ^ b"
  proof -
    have "e + 1 = int a - int (b - 1)" and "e - 1 = int (a - 1) - int b"
      using a0 b0 by (simp_all add: e_def)
    then show "(2::rat) powi (e + 1) = 2 ^ a / 2 ^ (b - 1)" "(2::rat) powi (e - 1) = 2 ^ (a - 1) / 2 ^ b"
      by (simp_all only: powi_diff_nat)
  qed
  have up: "x < 2 powi (e + 1)"
    unfolding x pw using na db n by (intro frac_less) (auto intro: less_le_trans)
  have lo: "2 powi (e - 1) \<le> x"
    unfolding x pw using na db n d by (intro frac_le) auto
  have il: "ilog2 x = (if x < 2 powi e then e - 1 else e)"
    using q by (simp add: ilog2_def e_def a_def b_def)
  show "2 powi (ilog2 x) \<le> x" "x < 2 powi (ilog2 x + 1)"
    using up lo il by (auto split: if_splits)
qed

section \<open>Error and monotonicity of rounding\<close>

lemma round_even_error:
  shows "of_int (round_even x) \<le> x + 1 / 2" and "x - 1 / 2 \<le> of_int (round_even x)"
  unfolding round_even_def Let_def
  by (auto split: if_splits simp: field_simps) (linarith | simp)+

lemma floor_le_round_even: "\<lfloor>x\<rfloor> \<le> round_even x"
  by (simp add: round_even_def Let_def)

lemma round_even_of_int [simp]: "round_even (of_int n) = n"
  by (simp add: round_even_def)

lemma fl_upper:
  assumes "0 < x"
  shows "fl x \<le> x + x / 2 ^ 53"
proof -
  define q where "q = (2::rat) powi (ilog2 x - 52)"
  have q: "0 < q" by (simp add: q_def)
  have "q * 2 ^ 52 = 2 powi (ilog2 x)"
    unfolding q_def by (simp add: power_int_diff)
  then have qx: "q * 2 ^ 52 \<le> x" using ilog2_bounds(1) [OF assms] by simp
  have "fl x = of_int (round_even (x / q)) * q"
    using assms by (simp add: fl_def q_def Let_def)
  also have "\<dots> \<le> (x / q + 1 / 2) * q"
    using q round_even_error(1) [of "x / q"] by (intro mult_right_mono) auto
  also have "\<dots> = x + q / 2" using q by (simp add: field_simps)
  also have "\<dots> \<le> x + x / 2 ^ 53" using qx by simp
  finally show ?thesis .
qed

text \<open>Below \<open>2 ^ 53\<close> the spacing of doubles divides 1, so rounding never falls under an integer.\<close>

lemma fl_quantum:
  assumes "0 < x" "x < 2 ^ 53"
  obtains m :: nat where "2 powi (ilog2 x - 52) = 1 / (2::rat) ^ m"
proof -
  have "ilog2 x < 53"
  proof (rule ccontr)
    assume "\<not> ilog2 x < 53"
    then have "(2::rat) powi 53 \<le> 2 powi (ilog2 x)" by (intro power_int_increasing) auto
    with ilog2_bounds(1) [OF assms(1)] assms(2) show False by simp
  qed
  then have "2 powi (ilog2 x - 52) = (2::rat) powi (int 0 - int (nat (52 - ilog2 x)))" by simp
  also have "\<dots> = 1 / 2 ^ nat (52 - ilog2 x)" unfolding powi_diff_nat by simp
  finally show ?thesis by (rule that)
qed

lemma fl_ge_int:
  assumes "0 < x" "x < 2 ^ 53" "of_int k \<le> x"
  shows "of_int k \<le> fl x"
proof -
  obtain m where m: "2 powi (ilog2 x - 52) = 1 / (2::rat) ^ m" using fl_quantum assms(1,2) .
  have "fl x = of_int (round_even (x * 2 ^ m)) / 2 ^ m"
    using assms(1) m by (simp add: fl_def Let_def)
  moreover have "k * 2 ^ m \<le> \<lfloor>x * 2 ^ m\<rfloor>"
    using assms(3) by (simp add: le_floor_iff)
  then have "k * 2 ^ m \<le> round_even (x * 2 ^ m)"
    using floor_le_round_even [of "x * 2 ^ m"] by linarith
  then have "of_int (k * 2 ^ m) \<le> (of_int (round_even (x * 2 ^ m)) :: rat)"
    by (simp only: of_int_le_iff)
  ultimately show ?thesis by (simp add: pos_le_divide_eq)
qed

lemma fl_of_int:
  assumes "0 \<le> n" "n < 2 ^ 53"
  shows "fl (of_int n) = of_int n"
proof (cases "n = 0")
  case False
  then have p: "0 < (of_int n :: rat)" "(of_int n :: rat) < 2 ^ 53"
    using assms by (simp, metis of_int_less_iff of_int_numeral of_int_power)
  obtain m where m: "2 powi (ilog2 (of_int n) - 52) = 1 / (2::rat) ^ m" using fl_quantum p .
  have "of_int n * (2::rat) ^ m = of_int (n * 2 ^ m)" by simp
  then have "round_even (of_int n * 2 ^ m) = n * 2 ^ m"
    by (simp only: round_even_of_int)
  then show ?thesis using p(1) m by (simp add: fl_def Let_def)
qed (simp add: fl_def)

section \<open>Where flooring is exact\<close>

lemma floor_fl_eq:
  assumes "0 < x" "x < 2 ^ 53" "x + x / 2 ^ 53 < of_int \<lfloor>x\<rfloor> + 1"
  shows "\<lfloor>fl x\<rfloor> = \<lfloor>x\<rfloor>"
  using fl_ge_int [OF assms(1,2), of "\<lfloor>x\<rfloor>"] fl_upper [OF assms(1)] assms(3)
  by (intro floor_unique) auto

lemma js_floor_div:
  assumes "0 \<le> a" "a < 2 ^ 53" "0 < b"
  shows "js_floor (js_div (of_int a) (of_int b)) = a div b"
proof (cases "a = 0")
  case False
  let ?x = "of_int a / of_int b :: rat"
  have a: "0 < (of_int a :: rat)" and b: "1 \<le> (of_int b :: rat)"
    using False assms by auto
  have a53: "(of_int a :: rat) < 2 ^ 53" using assms(2) by (metis of_int_less_iff of_int_numeral of_int_power)
  have fx: "\<lfloor>?x\<rfloor> = a div b" by (simp add: floor_divide_of_int_eq)
  have "a < b * (a div b + 1)"
    using assms(3) by (simp add: algebra_simps) (metis add.commute mult.commute mod_less_divisor pos_mod_bound
      div_mult_mod_eq add_strict_left_mono)
  then have "a + 1 \<le> b * (a div b + 1)" by simp
  then have "of_int (a + 1) \<le> (of_int (b * (a div b + 1)) :: rat)" by (simp only: of_int_le_iff)
  then have le: "?x + 1 / of_int b \<le> of_int (a div b) + 1"
    using b by (simp add: field_simps)
  have "?x / 2 ^ 53 < 1 / of_int b" using a53 b by (simp add: field_simps)
  with le have "?x + ?x / 2 ^ 53 < of_int \<lfloor>?x\<rfloor> + 1" unfolding fx by linarith
  moreover have "?x < 2 ^ 53"
  proof -
    have "?x \<le> of_int a" using a b by (simp add: field_simps)
    with a53 show ?thesis by linarith
  qed
  ultimately show ?thesis
    using a b floor_fl_eq [of ?x] fx by (simp add: js_floor_def js_div_def)
qed (simp add: js_floor_def js_div_def fl_def)

lemma js_mul_exact:
  "0 \<le> a * b \<Longrightarrow> a * b < 2 ^ 53 \<Longrightarrow> js_mul (of_int a) (of_int b) = of_int (a * b)"
  unfolding js_mul_def using fl_of_int [of "a * b"] by simp

text \<open>The literal \<open>0.05\<close> and the fee computed with it.\<close>

definition five_percent :: rat where
  "five_percent = 3602879701896397 / 72057594037927936"

lemma five_percent_is_nearest: "fl (1 / 20) = five_percent"
  by code_simp

lemma js_floor_five_percent:
  assumes "0 \<le> g" "g < 2 ^ 40"
  shows "js_floor (js_mul (of_int g) five_percent) = g div 20"
proof (cases "g = 0")
  case False
  let ?x = "of_int g * five_percent"
  have g: "1 \<le> (of_int g :: rat)" using assms False by simp
  have g40: "(of_int g :: rat) < 2 ^ 40" using assms(2) by (metis of_int_less_iff of_int_numeral of_int_power)
  have "20 * (g div 20) \<le> g" "g \<le> 20 * (g div 20) + 19" by presburger+
  then have "of_int (20 * (g div 20)) \<le> (of_int g :: rat)" "of_int g \<le> (of_int (20 * (g div 20) + 19) :: rat)"
    by (simp_all only: of_int_le_iff)
  then have k: "20 * of_int (g div 20) \<le> (of_int g :: rat)" "of_int g \<le> 20 * of_int (g div 20) + (19 :: rat)"
    by simp_all
  have lo: "of_int (g div 20) \<le> ?x" using k(1) g by (simp add: five_percent_def)
  have hi: "?x + ?x / 2 ^ 53 < of_int (g div 20) + 1" using k(2) g40 g by (simp add: five_percent_def)
  have pos: "0 < ?x" using g by (simp add: five_percent_def)
  then have "0 < ?x / 2 ^ 53" by simp
  with hi have "?x < of_int (g div 20) + 1" by linarith
  with lo have fx: "\<lfloor>?x\<rfloor> = g div 20" by (rule floor_unique)
  have "?x < 2 ^ 53" using g40 by (simp add: five_percent_def)
  then show ?thesis
    using floor_fl_eq [of ?x] pos hi fx by (simp add: js_floor_def js_mul_def)
qed (simp add: js_floor_def js_mul_def fl_def)

end
