(* ===== verification/Cursor.thy ===== *)
theory Cursor
  imports Js_Number
begin

text \<open>
  Page cursors: \<open>src/shared/utils/page.ts\<close> and \<open>src/shared/utils/uuid.ts\<close>. A cursor is the base64url
  text of a JSON object with the id of the last row of a page. Decoding follows the runtime: base64
  letters of either alphabet are read and other characters skipped, and the JSON text is parsed in
  full (a repeated key keeps its last value). The fuel of the parser is twice the length of the text,
  which its calls, each of which consumes a character or descends once per character, cannot exceed.
\<close>

section \<open>UUIDs\<close>

definition hex_char :: "char \<Rightarrow> bool" where
  "hex_char c \<longleftrightarrow> (let n = (of_char c :: nat) in (48 \<le> n \<and> n \<le> 57) \<or> (97 \<le> n \<and> n \<le> 102) \<or> (65 \<le> n \<and> n \<le> 70))"

definition uuid_dashes :: "nat list" where
  "uuid_dashes = [8, 13, 18, 23]"

definition is_uuid :: "string \<Rightarrow> bool" where
  "is_uuid xs \<longleftrightarrow> length xs = 36 \<and>
     list_all (\<lambda>i. if i \<in> set uuid_dashes then xs ! i = CHR ''-'' else hex_char (xs ! i)) [0..<36]"

text \<open>
  A \<open>uuid\<close> column holds the lower-case text; a parameter compared with it is cast, so its letter case
  does not matter.
\<close>

definition uuid_cast :: "string \<Rightarrow> uid" where
  "uuid_cast = to_lower"

definition canonical :: "uid \<Rightarrow> bool" where
  "canonical i \<longleftrightarrow> is_uuid i \<and> uuid_cast i = i"

section \<open>Base64url\<close>

definition b64_alphabet :: string where
  "b64_alphabet = ''ABCDEFGHIJKLMNOPQRSTUVWXYZabcdefghijklmnopqrstuvwxyz0123456789-_''"

definition b64_char :: "nat \<Rightarrow> char" where
  "b64_char n = b64_alphabet ! n"

definition b64_value :: "char \<Rightarrow> nat option" where
  "b64_value c = (let n = (of_char c :: nat) in
     if 65 \<le> n \<and> n \<le> 90 then Some (n - 65)
     else if 97 \<le> n \<and> n \<le> 122 then Some (n - 71)
     else if 48 \<le> n \<and> n \<le> 57 then Some (n + 4)
     else if n = 45 \<or> n = 43 then Some 62
     else if n = 95 \<or> n = 47 then Some 63
     else None)"

fun b64_sextets :: "nat list \<Rightarrow> nat list" where
  "b64_sextets (x # y # z # bs) =
     [x div 4, x mod 4 * 16 + y div 16, y mod 16 * 4 + z div 64, z mod 64] @ b64_sextets bs"
| "b64_sextets [x, y] = [x div 4, x mod 4 * 16 + y div 16, y mod 16 * 4]"
| "b64_sextets [x] = [x div 4, x mod 4 * 16]"
| "b64_sextets [] = []"

fun b64_bytes :: "nat list \<Rightarrow> nat list" where
  "b64_bytes (a # b # c # d # ss) =
     [a * 4 + b div 16, b mod 16 * 16 + c div 4, c mod 4 * 64 + d] @ b64_bytes ss"
| "b64_bytes [a, b, c] = [a * 4 + b div 16, b mod 16 * 16 + c div 4]"
| "b64_bytes [a, b] = [a * 4 + b div 16]"
| "b64_bytes [a] = []"
| "b64_bytes [] = []"

definition base64url :: "string \<Rightarrow> string" where
  "base64url xs = map b64_char (b64_sextets (map of_char xs))"

definition from_base64url :: "string \<Rightarrow> string" where
  "from_base64url xs = map char_of (b64_bytes (List.map_filter b64_value xs))"

section \<open>JSON\<close>

datatype json = J_Null | J_Bool bool | J_Number string | J_String string | J_Array "json list"
  | J_Object "(string \<times> json) list"

definition json_space :: "char \<Rightarrow> bool" where
  "json_space c \<longleftrightarrow> c \<in> {CHR '' '', CHR 0x09, CHR 0x0A, CHR 0x0D}"

definition skip_space :: "string \<Rightarrow> string" where
  "skip_space = dropWhile json_space"

definition digit_char :: "char \<Rightarrow> bool" where
  "digit_char c \<longleftrightarrow> (let n = (of_char c :: nat) in 48 \<le> n \<and> n \<le> 57)"

definition hex_value :: "char \<Rightarrow> nat" where
  "hex_value c = (let n = (of_char c :: nat) in if n \<le> 57 then n - 48 else if n \<le> 70 then n - 55 else n - 87)"

text \<open>The bytes of an escaped code unit.\<close>

definition unit_bytes :: "nat \<Rightarrow> string" where
  "unit_bytes n =
     (if n < 128 then [char_of n]
      else if n < 2048 then [char_of (192 + n div 64), char_of (128 + n mod 64)]
      else [char_of (224 + n div 4096), char_of (128 + n div 64 mod 64), char_of (128 + n mod 64)])"

definition simple_escape :: "char \<Rightarrow> char option" where
  "simple_escape = map_of
     [(CHR 0x22, CHR 0x22), (CHR 0x5C, CHR 0x5C), (CHR ''/'', CHR ''/''), (CHR ''b'', CHR 0x08),
      (CHR ''f'', CHR 0x0C), (CHR ''n'', CHR 0x0A), (CHR ''r'', CHR 0x0D), (CHR ''t'', CHR 0x09)]"

text \<open>The characters after the opening quote up to the closing one.\<close>

function json_chars :: "string \<Rightarrow> (string \<times> string) option" where
  "json_chars [] = None"
| "json_chars (c # xs) =
     (if c = CHR 0x22 then Some ([], xs)
      else if c = CHR 0x5C then
        (case xs of
           [] \<Rightarrow> None
         | e # ys \<Rightarrow>
             (if e = CHR ''u'' then
                (if 4 \<le> length ys \<and> list_all hex_char (take 4 ys)
                 then map_option (\<lambda>(s, r). (unit_bytes (foldl (\<lambda>n h. 16 * n + hex_value h) 0 (take 4 ys)) @ s, r))
                        (json_chars (drop 4 ys))
                 else None)
              else (case simple_escape e of
                      None \<Rightarrow> None
                    | Some d \<Rightarrow> map_option (\<lambda>(s, r). (d # s, r)) (json_chars ys))))
      else if (of_char c :: nat) < 32 then None
      else map_option (\<lambda>(s, r). (c # s, r)) (json_chars xs))"
  by pat_completeness auto
termination by (relation "measure length") auto

definition json_digits :: "string \<Rightarrow> (string \<times> string) option" where
  "json_digits xs = (case takeWhile digit_char xs of [] \<Rightarrow> None | ds \<Rightarrow> Some (ds, dropWhile digit_char xs))"

definition json_int_part :: "string \<Rightarrow> (string \<times> string) option" where
  "json_int_part xs = (case xs of
       c # r \<Rightarrow> if c = CHR ''0'' then Some ([c], r) else json_digits xs
     | [] \<Rightarrow> None)"

definition json_fraction :: "string \<Rightarrow> (string \<times> string) option" where
  "json_fraction xs = (case xs of
       c # r \<Rightarrow> if c = CHR ''.'' then map_option (\<lambda>(d, r'). (c # d, r')) (json_digits r) else Some ([], xs)
     | [] \<Rightarrow> Some ([], []))"

definition json_exponent :: "string \<Rightarrow> (string \<times> string) option" where
  "json_exponent xs = (case xs of
       c # r \<Rightarrow>
         if c = CHR ''e'' \<or> c = CHR ''E'' then
           (case r of
              d # r' \<Rightarrow> if d = CHR ''+'' \<or> d = CHR ''-''
                         then map_option (\<lambda>(ds, q). (c # d # ds, q)) (json_digits r')
                         else map_option (\<lambda>(ds, q). (c # ds, q)) (json_digits r)
            | [] \<Rightarrow> None)
         else Some ([], xs)
     | [] \<Rightarrow> Some ([], []))"

definition json_number :: "string \<Rightarrow> (string \<times> string) option" where
  "json_number xs =
     (let (sign, ys) = (case xs of c # r \<Rightarrow> if c = CHR ''-'' then ([c], r) else ([], xs) | [] \<Rightarrow> ([], []))
      in Option.bind (json_int_part ys) (\<lambda>(a, r1).
         Option.bind (json_fraction r1) (\<lambda>(b, r2).
         Option.bind (json_exponent r2) (\<lambda>(c, r3). Some (sign @ a @ b @ c, r3)))))"

fun json_literal :: "string \<Rightarrow> json \<Rightarrow> string \<Rightarrow> (json \<times> string) option" where
  "json_literal word v xs = (if take (length word) xs = word then Some (v, drop (length word) xs) else None)"

fun json_value :: "nat \<Rightarrow> string \<Rightarrow> (json \<times> string) option"
  and json_members :: "nat \<Rightarrow> string \<Rightarrow> ((string \<times> json) list \<times> string) option"
  and json_elements :: "nat \<Rightarrow> string \<Rightarrow> (json list \<times> string) option" where
  "json_value 0 xs = None"
| "json_value (Suc n) xs =
     (case skip_space xs of
        [] \<Rightarrow> None
      | c # r \<Rightarrow>
          if c = CHR 0x22 then map_option (\<lambda>(s, q). (J_String s, q)) (json_chars r)
          else if c = CHR 0x7B then
            (case skip_space r of
               d # q \<Rightarrow> if d = CHR 0x7D then Some (J_Object [], q)
                        else map_option (\<lambda>(kvs, q). (J_Object kvs, q)) (json_members n (d # q))
             | [] \<Rightarrow> None)
          else if c = CHR ''['' then
            (case skip_space r of
               d # q \<Rightarrow> if d = CHR '']'' then Some (J_Array [], q)
                        else map_option (\<lambda>(vs, q). (J_Array vs, q)) (json_elements n (d # q))
             | [] \<Rightarrow> None)
          else if c = CHR ''t'' then json_literal ''true'' (J_Bool True) (c # r)
          else if c = CHR ''f'' then json_literal ''false'' (J_Bool False) (c # r)
          else if c = CHR ''n'' then json_literal ''null'' J_Null (c # r)
          else map_option (\<lambda>(t, q). (J_Number t, q)) (json_number (c # r)))"
| "json_members 0 xs = None"
| "json_members (Suc n) xs =
     (case skip_space xs of
        c # r \<Rightarrow>
          if c \<noteq> CHR 0x22 then None
          else Option.bind (json_chars r) (\<lambda>(k, r1).
            case skip_space r1 of
              d # r2 \<Rightarrow>
                if d \<noteq> CHR '':'' then None
                else Option.bind (json_value n r2) (\<lambda>(v, r3).
                  case skip_space r3 of
                    e # r4 \<Rightarrow>
                      if e = CHR 0x7D then Some ([(k, v)], r4)
                      else if e = CHR '','' then map_option (\<lambda>(kvs, q). ((k, v) # kvs, q)) (json_members n r4)
                      else None
                  | [] \<Rightarrow> None)
            | [] \<Rightarrow> None)
      | [] \<Rightarrow> None)"
| "json_elements 0 xs = None"
| "json_elements (Suc n) xs =
     Option.bind (json_value n xs) (\<lambda>(v, r1).
       case skip_space r1 of
         d # r2 \<Rightarrow>
           if d = CHR '']'' then Some ([v], r2)
           else if d = CHR '','' then map_option (\<lambda>(vs, q). (v # vs, q)) (json_elements n r2)
           else None
       | [] \<Rightarrow> None)"

definition json_parse :: "string \<Rightarrow> json option" where
  "json_parse xs = (case json_value (2 * length xs + 2) xs of
       Some (v, r) \<Rightarrow> if skip_space r = [] then Some v else None
     | None \<Rightarrow> None)"

text \<open>
  Reading a property: \<open>None\<close> is \<open>undefined\<close>; only an object has named properties, and a repeated key keeps
  its last value. \<open>parsed.id\<close> of \<open>null\<close> throws; that and an id that is no string end the same way.
\<close>

fun json_field :: "string \<Rightarrow> json \<Rightarrow> json option" where
  "json_field k (J_Object kvs) = map_of (rev kvs) k"
| "json_field k _ = None"

fun json_text :: "json option \<Rightarrow> string option" where
  "json_text (Some (J_String x)) = Some x"
| "json_text _ = None"

definition json_id :: "json \<Rightarrow> string option" where
  "json_id j = json_text (json_field ''id'' j)"

section \<open>Cursors and pages\<close>

definition decode_cursor :: "string option \<Rightarrow> uid option res" where
  "decode_cursor cursor = (case cursor of
       None \<Rightarrow> Inr None
     | Some c \<Rightarrow>
         if c = [] then Inr None
         else (case Option.bind (json_parse (from_base64url c)) json_id of
                 Some i \<Rightarrow> if is_uuid i then Inr (Some i) else Inl (Bad_Request ''Invalid cursor'')
               | None \<Rightarrow> Inl (Bad_Request ''Invalid cursor'')))"

definition json_quote :: "string \<Rightarrow> string" where
  "json_quote s = CHR 0x22 # s @ [CHR 0x22]"

text \<open>\<open>JSON.stringify({ id })\<close>, for an id without characters that need escaping, as a row's UUID is.\<close>

definition encode_cursor :: "uid \<Rightarrow> string" where
  "encode_cursor i = base64url ([CHR 0x7B] @ json_quote ''id'' @ [CHR '':''] @ json_quote i @ [CHR 0x7D])"

record 'a page =
  items :: "'a list"
  next_cursor :: "string option"

definition page_from_rows :: "('a \<Rightarrow> uid) \<Rightarrow> 'a list \<Rightarrow> int \<Rightarrow> 'a page" where
  "page_from_rows row_id rows limit =
     (let its = take (nat limit) rows in
      \<lparr>items = its,
       next_cursor = (if limit < int (length rows) \<and> its \<noteq> [] then Some (encode_cursor (row_id (last its)))
                      else None)\<rparr>)"

section \<open>The page query\<close>

text \<open>
  \<open>Number(text)\<close>: blank text is 0; a decimal literal or a \<open>0x\<close>, \<open>0o\<close>, \<open>0b\<close> integer denotes the
  nearest double; \<open>None\<close> stands for everything that is not a finite number.
\<close>

definition finite_double :: "rat \<Rightarrow> rat option" where
  "finite_double x = (if 2 ^ 1024 \<le> \<bar>x\<bar> then None else Some (fl x))"

definition radix_number :: "nat \<Rightarrow> string \<Rightarrow> rat option" where
  "radix_number b ds =
     (if ds \<noteq> [] \<and> list_all (\<lambda>c. hex_char c \<and> hex_value c < b) ds
      then finite_double (of_nat (foldl (\<lambda>n c. b * n + hex_value c) 0 ds)) else None)"

definition split_sign :: "string \<Rightarrow> bool \<times> string" where
  "split_sign xs = (case xs of
       c # r \<Rightarrow> if c = CHR ''-'' then (True, r) else if c = CHR ''+'' then (False, r) else (False, xs)
     | [] \<Rightarrow> (False, []))"

definition exponent_of :: "string \<Rightarrow> int option" where
  "exponent_of xs = (case xs of
       [] \<Rightarrow> Some 0
     | c # r \<Rightarrow>
         if c = CHR ''e'' \<or> c = CHR ''E'' then
           (let (neg, ds) = split_sign r;
                v = int (foldl (\<lambda>n d. 10 * n + hex_value d) 0 ds)
            in if ds \<noteq> [] \<and> list_all digit_char ds then Some (if neg then - v else v) else None)
         else None)"

definition decimal_number :: "string \<Rightarrow> rat option" where
  "decimal_number xs =
     (let (neg, ys) = split_sign xs;
          ds = takeWhile digit_char ys;
          r = dropWhile digit_char ys;
          fs = (case r of c # q \<Rightarrow> if c = CHR ''.'' then takeWhile digit_char q else [] | [] \<Rightarrow> []);
          r' = (case r of c # q \<Rightarrow> if c = CHR ''.'' then dropWhile digit_char q else r | [] \<Rightarrow> [])
      in if ds @ fs = [] then None
         else case exponent_of r' of
                None \<Rightarrow> None
              | Some e \<Rightarrow>
                  (let v = of_nat (foldl (\<lambda>n d. 10 * n + hex_value d) 0 (ds @ fs)) * 10 powi (e - int (length fs))
                   in finite_double (if neg then - v else v)))"

definition number_of :: "string \<Rightarrow> rat option" where
  "number_of text =
     (let t = trim text; p = to_lower (take 2 t) in
      if t = [] then Some 0
      else if p = ''0x'' then radix_number 16 (drop 2 t)
      else if p = ''0o'' then radix_number 8 (drop 2 t)
      else if p = ''0b'' then radix_number 2 (drop 2 t)
      else decimal_number t)"

definition to_number :: "string \<Rightarrow> js_number" where
  "to_number text =
     (case number_of text of
        Some y \<Rightarrow> if of_int \<lfloor>y\<rfloor> = y then Js_Int \<lfloor>y\<rfloor> else Js_Other
      | None \<Rightarrow> Js_Other)"

record page_input =
  pg_cursor :: "string option"
  pg_limit :: int

definition parse_page_query :: "string option \<Rightarrow> string option \<Rightarrow> page_input res" where
  "parse_page_query cursor limit_value =
     (case (case limit_value of None \<Rightarrow> Js_Int 20 | Some v \<Rightarrow> to_number v) of
        Js_Int limit \<Rightarrow>
          if limit \<le> 0 then Inl (Bad_Request ''limit must be a positive integer'')
          else Inr \<lparr>pg_cursor = trimmed cursor, pg_limit = min limit 50\<rparr>
      | Js_Other \<Rightarrow> Inl (Bad_Request ''limit must be a positive integer''))"

text \<open>A page size is always between 1 and 50, and a cursor is never blank.\<close>

lemma parse_page_query_bounds:
  "parse_page_query cursor limit_value = Inr q \<Longrightarrow>
   1 \<le> pg_limit q \<and> pg_limit q \<le> 50 \<and> pg_cursor q \<noteq> Some []"
  by (auto simp: parse_page_query_def trimmed_def split: option.splits js_number.splits if_splits)

section \<open>Decoding undoes encoding\<close>

lemma b64_value_char:
  assumes "n < 64"
  shows "b64_value (b64_char n) = Some n"
proof -
  have l: "length b64_alphabet = 64" by (simp add: b64_alphabet_def)
  have "map b64_value b64_alphabet = map Some [0..<64]"
    by (simp add: b64_alphabet_def b64_value_def upt_rec)
  then have "map b64_value b64_alphabet ! n = map Some [0..<64] ! n" by (simp only:)
  then show ?thesis using assms l by (simp add: b64_char_def)
qed

lemma b64_parts:
  fixes x y :: nat
  assumes "y < 256"
  shows "y div 4 < 64" "y div 16 < 16" "y div 64 < 4"
    and "x mod 4 * 16 + y div 16 < 64" "x mod 16 * 4 + y div 64 < 64" "y mod 64 < 64" "x mod 4 * 16 < 64"
    "x mod 16 * 4 < 64"
proof -
  show *: "y div 4 < 64" "y div 16 < 16" "y div 64 < 4" using assms by (simp_all add: less_mult_imp_div_less)
  have "x mod 4 < 4" "x mod 16 < 16" by simp_all
  with * show "x mod 4 * 16 + y div 16 < 64" "x mod 16 * 4 + y div 64 < 64" "x mod 4 * 16 < 64" "x mod 16 * 4 < 64"
    by linarith+
qed simp

lemma b64_sextets_less: "\<forall>b \<in> set bs. b < 256 \<Longrightarrow> \<forall>x \<in> set (b64_sextets bs). x < 64"
  by (induction bs rule: b64_sextets.induct) (simp_all add: b64_parts)

lemma b64_bytes_sextets: "\<forall>b \<in> set bs. b < 256 \<Longrightarrow> b64_bytes (b64_sextets bs) = bs"
proof (induction bs rule: b64_sextets.induct)
  case (1 x y z bs)
  then show ?case using b64_parts(2) [of y] b64_parts(3) [of z] by simp
next
  case (2 x y)
  then show ?case using b64_parts(2) [of y] by simp
qed simp_all

lemma from_base64url_base64url [simp]: "from_base64url (base64url xs) = xs"
proof -
  let ?bs = "map of_char xs :: nat list"
  have small: "\<forall>b \<in> set ?bs. b < 256" by auto
  have "List.map_filter b64_value (map b64_char ss) = ss" if "\<forall>x \<in> set ss. x < 64" for ss
    using that by (induction ss) (auto simp: List.map_filter_def b64_value_char)
  then have "List.map_filter b64_value (base64url xs) = b64_sextets ?bs"
    using b64_sextets_less [OF small] by (simp add: base64url_def)
  then show ?thesis
    using b64_bytes_sextets [OF small] by (simp add: from_base64url_def comp_def)
qed

definition plain_char :: "char \<Rightarrow> bool" where
  "plain_char c \<longleftrightarrow> c \<noteq> CHR 0x22 \<and> c \<noteq> CHR 0x5C \<and> \<not> (of_char c :: nat) < 32"

lemma json_chars_plain: "\<forall>c \<in> set s. plain_char c \<Longrightarrow> json_chars (s @ CHR 0x22 # r) = Some (s, r)"
  by (induction s) (auto simp: plain_char_def)

lemma uuid_plain: "is_uuid i \<Longrightarrow> c \<in> set i \<Longrightarrow> plain_char c"
proof -
  assume i: "is_uuid i" and c: "c \<in> set i"
  obtain k where k: "k < 36" "c = i ! k" using i c by (auto simp: is_uuid_def in_set_conv_nth)
  then have "hex_char c \<or> c = CHR ''-''"
    using i by (auto simp: is_uuid_def list_all_iff split: if_splits)
  then show "plain_char c"
    by (auto simp: plain_char_def hex_char_def Let_def)
qed

lemma json_parse_id:
  assumes "\<forall>c \<in> set i. plain_char c"
  shows "json_parse ([CHR 0x7B] @ json_quote ''id'' @ [CHR '':''] @ json_quote i @ [CHR 0x7D])
           = Some (J_Object [(''id'', J_String i)])"
proof -
  let ?t = "[CHR 0x7B] @ json_quote ''id'' @ [CHR '':''] @ json_quote i @ [CHR 0x7D]"
  obtain n where n: "2 * length ?t + 2 = Suc (Suc (Suc n))"
    by (intro that [of "2 * length ?t - 1"]) simp
  have sp: "skip_space (c # xs) = c # xs" if "c \<notin> {CHR '' '', CHR 0x09, CHR 0x0A, CHR 0x0D}" for c xs
    using that by (simp add: skip_space_def json_space_def)
  have key: "json_chars (''id'' @ CHR 0x22 # xs) = Some (''id'', xs)" for xs
    by (rule json_chars_plain) (simp add: plain_char_def)
  have "json_value (Suc (Suc (Suc n))) ?t = Some (J_Object [(''id'', J_String i)], [])"
    using key json_chars_plain [OF assms, of "[CHR 0x7D]"]
    by (simp add: json_quote_def sp)
  then show ?thesis unfolding json_parse_def n by (simp add: skip_space_def)
qed

text \<open>Decoding the cursor of a page gives back the id of its last row.\<close>

theorem cursor_roundtrip:
  assumes "is_uuid i"
  shows "decode_cursor (Some (encode_cursor i)) = Inr (Some i)"
proof -
  have "from_base64url (encode_cursor i) \<noteq> []" by (simp add: encode_cursor_def)
  then have "encode_cursor i \<noteq> []" by (auto simp: from_base64url_def List.map_filter_def)
  moreover have "json_parse (from_base64url (encode_cursor i)) = Some (J_Object [(''id'', J_String i)])"
    using json_parse_id [of i] uuid_plain [OF assms] by (simp only: encode_cursor_def from_base64url_base64url) simp
  ultimately show ?thesis using assms by (simp add: decode_cursor_def json_id_def)
qed

theorem cursor_roundtrip_witness:
  "decode_cursor (Some (encode_cursor ''0192f0a0-1111-7abc-8def-0123456789ab'')) =
     Inr (Some ''0192f0a0-1111-7abc-8def-0123456789ab'')"
  by (rule cursor_roundtrip) code_simp

end
