(* ===== verification/Schema.thy ===== *)
theory Schema
  imports Cursor
begin

text \<open>
  The PostgreSQL schema of \<open>src/core/database/schema.ts\<close>, for the tables the modelled services use:
  an enum is a datatype, a table row is a record with a field for each column that the modelled
  services read or write (columns that only the admin service uses and update stamps that nothing
  reads are left out; nullable columns are options, \<open>integer\<close> columns are \<open>int\<close> checked against their 32-bit range on insertion), and the
  database is the record of its tables, each the list of its rows in insertion order. An insertion
  enforces what the schema declares: the range of \<open>integer\<close> columns, primary keys and unique
  indexes, then foreign keys. Ids of new rows (\<open>createUuidV7()\<close>) are arguments of the operations
  that insert.
\<close>

section \<open>Enumerations\<close>

datatype credit_kind = Free | Paid
datatype ledger_type = Grant | Usage | Refund_Recovery | Adjustment
datatype reservation_status = Reserved | Captured | Released
datatype refund_state = Rf_Reserved | Rf_Payment_Processing | Rf_Payment_Succeeded | Rf_Completed
  | Rf_Failed | Rf_Canceled
datatype payment_channel = Web | Apple | Google
datatype payment_status = Pay_Pending | Pay_Verified | Pay_Processing | Pay_Paid | Pay_Failed
  | Pay_Canceled | Pay_Partially_Refunded | Pay_Refunded | Pay_Reversed
datatype payment_ledger_type = Capture | Refund | Chargeback | Pl_Adjustment
datatype payment_direction = Inflow | Outflow
datatype event_status = Ev_Processing | Ev_Processed | Ev_Failed
datatype purchase_status = Pur_Pending | Pur_Payment_Processing | Pur_Completed | Pur_Failed
  | Pur_Canceled | Pur_Refunded | Pur_Reversed
datatype job_status = Queued | Running | Completed | Failed
datatype sender_type = From_User | From_Character
datatype character_status = Active | Inactive
datatype post_content_type = Feed_Post | Reel_Post

text \<open>An enum column sorts in the order of its declaration: \<open>free\<close> before \<open>paid\<close>.\<close>

instantiation credit_kind :: linorder
begin

definition less_eq_credit_kind :: "credit_kind \<Rightarrow> credit_kind \<Rightarrow> bool" where
  "less_eq_credit_kind a b \<longleftrightarrow> a = Free \<or> b = Paid"

definition less_credit_kind :: "credit_kind \<Rightarrow> credit_kind \<Rightarrow> bool" where
  "less_credit_kind a b \<longleftrightarrow> a = Free \<and> b = Paid"

instance
proof
  fix x y z :: credit_kind
  show "x < y \<longleftrightarrow> x \<le> y \<and> \<not> y \<le> x"
    by (cases x; cases y) (simp_all add: less_eq_credit_kind_def less_credit_kind_def)
  show "x \<le> x" by (cases x) (simp_all add: less_eq_credit_kind_def)
  show "x \<le> y \<Longrightarrow> y \<le> z \<Longrightarrow> x \<le> z"
    by (cases x; cases y; cases z) (simp_all add: less_eq_credit_kind_def)
  show "x \<le> y \<Longrightarrow> y \<le> x \<Longrightarrow> x = y"
    by (cases x; cases y) (simp_all add: less_eq_credit_kind_def)
  show "x \<le> y \<or> y \<le> x" by (cases x; cases y) (simp_all add: less_eq_credit_kind_def)
qed

end

section \<open>Rows\<close>

record user_row =
  usr_id :: uid
  usr_email :: "string option"
  usr_password_hash :: "string option"
  usr_password_salt :: "string option"
  usr_display_name :: string
  usr_bio :: string
  usr_image_url :: "string option"
  usr_created :: time
  usr_deleted :: "time option"
  usr_adult_verified :: "time option"
  usr_adult_hash :: "string option"
  usr_debt_hash :: "string option"

record ledger_row =
  led_id :: uid
  led_user :: uid
  led_type :: ledger_type
  led_kind :: "credit_kind option"
  led_purchase :: "uid option"
  led_promo :: "string option"
  led_amount :: int
  led_expires :: "time option"
  led_reason :: string
  led_ref :: "string option"
  led_created :: time

record reservation_row =
  rsv_id :: uid
  rsv_user :: uid
  rsv_action :: string
  rsv_amount :: int
  rsv_status :: reservation_status
  rsv_ref :: string
  rsv_expires :: "time option"
  rsv_created :: time
  rsv_updated :: time

record usage_row =
  use_usage :: uid
  use_grant :: uid
  use_amount :: int

record check_in_row =
  chk_id :: uid
  chk_user :: uid
  chk_date :: string
  chk_created :: time

record product_row =
  prd_id :: uid
  prd_code :: string
  prd_name :: string
  prd_credits :: int
  prd_active :: bool
  prd_order :: int

record mapping_row =
  pm_id :: uid
  pm_product :: uid
  pm_channel :: payment_channel
  pm_provider :: string
  pm_environment :: string
  pm_provider_product :: string
  pm_price :: "int option"
  pm_currency :: "string option"
  pm_active :: bool

record purchase_row =
  pur_id :: uid
  pur_user :: uid
  pur_status :: purchase_status
  pur_credits :: int
  pur_created :: time
  pur_updated :: time
  pur_fulfilled :: "time option"
  pur_key :: string
  pur_product_code :: string
  pur_product :: uid

record payment_row =
  pay_id :: uid
  pay_purchase :: uid
  pay_channel :: payment_channel
  pay_provider :: string
  pay_status :: payment_status
  pay_amount :: "int option"
  pay_currency :: "string option"
  pay_checkout_id :: "string option"
  pay_checkout_url :: "string option"
  pay_tx_id :: "string option"
  pay_tx_key :: "string option"
  pay_provider_product :: string
  pay_environment :: "string option"
  pay_paid_at :: "time option"
  pay_refunded_at :: "time option"
  pay_created :: time
  pay_updated :: time
  pay_net :: "int option"
  pay_tax :: "int option"

record payment_ledger_row =
  pl_id :: uid
  pl_payment :: uid
  pl_type :: payment_ledger_type
  pl_direction :: payment_direction
  pl_amount :: "int option"
  pl_currency :: "string option"
  pl_tx_id :: "string option"
  pl_event_id :: "string option"
  pl_details :: "(int \<times> int option) option"
  pl_occurred :: time

record event_row =
  evt_id :: uid
  evt_payment :: "uid option"
  evt_provider :: string
  evt_external :: string
  evt_type :: string
  evt_status :: event_status
  evt_attempts :: int
  evt_error :: "string option"
  evt_processed :: "time option"

record refund_row =
  rf_id :: uid
  rf_purchase :: uid
  rf_status :: refund_state
  rf_reason :: string
  rf_key :: string
  rf_credits :: int
  rf_promotion :: int
  rf_locked :: int
  rf_recovery :: int
  rf_debt :: int
  rf_gross :: int
  rf_fee :: int
  rf_refund :: int
  rf_currency :: string
  rf_provider_refund :: "string option"
  rf_provider_tx :: "string option"
  rf_completed :: "time option"
  rf_created :: time
  rf_provider :: string
  rf_free_promotion :: int

record notification_row =
  ntf_id :: uid
  ntf_user :: uid
  ntf_type :: string
  ntf_title :: string
  ntf_body :: "string option"
  ntf_target_type :: "string option"
  ntf_target :: "uid option"
  ntf_read :: "time option"
  ntf_created :: time

record character_row =
  chr_id :: uid
  chr_public :: string
  chr_name :: string
  chr_bio :: string
  chr_interests :: "string list option"
  chr_status :: character_status
  chr_created :: time
  chr_crop_x :: rat
  chr_crop_y :: rat
  chr_crop_zoom :: rat
  chr_image :: "uid option"
  chr_timezone :: "string option"

record conversation_row =
  cnv_id :: uid
  cnv_user :: uid
  cnv_character :: uid
  cnv_created :: time
  cnv_last_read :: "time option"
  cnv_last_message :: time

record job_row =
  job_id :: uid
  job_conversation :: uid
  job_turn :: uid
  job_status :: job_status
  job_reservation :: "string option"
  job_ready :: time
  job_attempts :: int
  job_lease :: "time option"
  job_started :: "time option"
  job_deadline :: "time option"
  job_completed :: "time option"
  job_failed :: "time option"
  job_reason :: "string option"
  job_created :: time

record message_row =
  msg_id :: uid
  msg_conversation :: uid
  msg_sender :: sender_type
  msg_body :: string
  msg_experience :: "json option"
  msg_created :: time
  msg_job :: "uid option"

record log_row =
  log_source :: string
  log_level :: string
  log_event :: string
  log_message :: string
  log_context :: json

record follow_row =
  flw_user :: uid
  flw_character :: uid
  flw_created :: time
  flw_notified :: time

record post_row =
  pst_id :: uid
  pst_character :: uid
  pst_type :: post_content_type
  pst_content :: string
  pst_created :: time

record story_row =
  sty_id :: uid
  sty_character :: uid
  sty_media :: uid
  sty_caption :: string
  sty_created :: time
  sty_expires :: time

record debt_row =
  ud_hash :: string
  ud_debt :: int

section \<open>The database\<close>

record db =
  users :: "user_row list"
  ledger :: "ledger_row list"
  reservations :: "reservation_row list"
  usages :: "usage_row list"
  check_ins :: "check_in_row list"
  products :: "product_row list"
  mappings :: "mapping_row list"
  purchases :: "purchase_row list"
  payments :: "payment_row list"
  payment_entries :: "payment_ledger_row list"
  events :: "event_row list"
  refunds :: "refund_row list"
  notifications :: "notification_row list"
  characters :: "character_row list"
  conversations :: "conversation_row list"
  jobs :: "job_row list"
  messages :: "message_row list"
  logs :: "log_row list"
  settings :: "(string \<times> string) list"
  debts :: "debt_row list"
  follows :: "follow_row list"
  posts :: "post_row list"
  stories :: "story_row list"

definition empty_db :: db where
  "empty_db = \<lparr>users = [], ledger = [], reservations = [], usages = [], check_ins = [],
     products = [], mappings = [], purchases = [], payments = [], payment_entries = [], events = [],
     refunds = [], notifications = [], characters = [], conversations = [], jobs = [],
     messages = [], logs = [], settings = [], debts = [], follows = [], posts = [],
     stories = []\<rparr>"

definition has_user :: "db \<Rightarrow> uid \<Rightarrow> bool" where
  "has_user s u \<longleftrightarrow> u \<in> usr_id ` set (users s)"

definition has_purchase :: "db \<Rightarrow> uid \<Rightarrow> bool" where
  "has_purchase s p \<longleftrightarrow> p \<in> pur_id ` set (purchases s)"

section \<open>Constraints\<close>

definition int4 :: "int \<Rightarrow> bool" where
  "int4 n \<longleftrightarrow> - 2147483648 \<le> n \<and> n \<le> 2147483647"

definition int4_opt :: "int option \<Rightarrow> bool" where
  "int4_opt x \<longleftrightarrow> (case x of None \<Rightarrow> True | Some n \<Rightarrow> int4 n)"

text \<open>A unique index ignores rows whose key is \<open>NULL\<close>.\<close>

definition unique_opt :: "'k option \<Rightarrow> 'k option list \<Rightarrow> bool" where
  "unique_opt k ks \<longleftrightarrow> k = None \<or> k \<notin> set ks"

lemma unique_opt_simps [simp]:
  "unique_opt None ks"
  "unique_opt (Some k) ks \<longleftrightarrow> Some k \<notin> set ks"
  by (simp_all add: unique_opt_def)

lemma int4_opt_simps [simp]: "int4_opt None" "int4_opt (Some n) = int4 n"
  by (simp_all add: int4_opt_def)

definition constrained :: "bool \<Rightarrow> bool \<Rightarrow> bool \<Rightarrow> unit res" where
  "constrained in_range unique referenced =
     (if \<not> in_range then Inl (Db_Error Numeric_Out_Of_Range)
      else if \<not> unique then Inl (Db_Error Unique_Violation)
      else if \<not> referenced then Inl (Db_Error Foreign_Key_Violation)
      else Inr ())"

lemma constrained_Inr_iff [res_simps]: "constrained a b c = Inr u \<longleftrightarrow> a \<and> b \<and> c"
  by (simp add: constrained_def)

lemma constrained_simps [simp]: "constrained True True True = Inr ()"
  by (simp add: constrained_def)

section \<open>Insertions\<close>

definition ins_ledger :: "ledger_row \<Rightarrow> db \<Rightarrow> (ledger_row \<times> db) res" where
  "ins_ledger row s =
     bindR (constrained (int4 (led_amount row))
              (led_id row \<notin> led_id ` set (ledger s) \<and> unique_opt (led_ref row) (map led_ref (ledger s)))
              (has_user s (led_user row) \<and>
               (case led_purchase row of None \<Rightarrow> True | Some p \<Rightarrow> has_purchase s p)))
       (\<lambda>_. Inr (row, s\<lparr>ledger := ledger s @ [row]\<rparr>))"

definition ins_reservation :: "reservation_row \<Rightarrow> db \<Rightarrow> (reservation_row \<times> db) res" where
  "ins_reservation row s =
     bindR (constrained (int4 (rsv_amount row))
              (rsv_id row \<notin> rsv_id ` set (reservations s) \<and> rsv_ref row \<notin> rsv_ref ` set (reservations s))
              (has_user s (rsv_user row)))
       (\<lambda>_. Inr (row, s\<lparr>reservations := reservations s @ [row]\<rparr>))"

text \<open>A multi-row insertion is one statement: a violation by any row fails it as a whole.\<close>

definition ins_usages :: "usage_row list \<Rightarrow> db \<Rightarrow> db res" where
  "ins_usages rows s =
     bindR (constrained (\<forall>r \<in> set rows. int4 (use_amount r))
              (distinct (map (\<lambda>r. (use_usage r, use_grant r)) (usages s @ rows)))
              (\<forall>r \<in> set rows. use_usage r \<in> led_id ` set (ledger s) \<and> use_grant r \<in> led_id ` set (ledger s)))
       (\<lambda>_. Inr (s\<lparr>usages := usages s @ rows\<rparr>))"

definition ins_check_in :: "check_in_row \<Rightarrow> db \<Rightarrow> db res" where
  "ins_check_in row s =
     bindR (constrained True
              (chk_id row \<notin> chk_id ` set (check_ins s) \<and>
               (chk_user row, chk_date row) \<notin> (\<lambda>r. (chk_user r, chk_date r)) ` set (check_ins s))
              (has_user s (chk_user row)))
       (\<lambda>_. Inr (s\<lparr>check_ins := check_ins s @ [row]\<rparr>))"

definition ins_purchase :: "purchase_row \<Rightarrow> db \<Rightarrow> (purchase_row \<times> db) res" where
  "ins_purchase row s =
     bindR (constrained (int4 (pur_credits row))
              (pur_id row \<notin> pur_id ` set (purchases s) \<and>
               (pur_user row, pur_key row) \<notin> (\<lambda>r. (pur_user r, pur_key r)) ` set (purchases s))
              (has_user s (pur_user row) \<and> pur_product row \<in> prd_id ` set (products s)))
       (\<lambda>_. Inr (row, s\<lparr>purchases := purchases s @ [row]\<rparr>))"

definition checkout_key :: "payment_row \<Rightarrow> (string \<times> string) option" where
  "checkout_key p = map_option (Pair (pay_provider p)) (pay_checkout_id p)"

definition transaction_key :: "payment_row \<Rightarrow> (string \<times> string) option" where
  "transaction_key p = map_option (Pair (pay_provider p)) (pay_tx_key p)"

definition ins_payment :: "payment_row \<Rightarrow> db \<Rightarrow> (payment_row \<times> db) res" where
  "ins_payment row s =
     bindR (constrained (int4_opt (pay_amount row) \<and> int4_opt (pay_net row) \<and> int4_opt (pay_tax row))
              (pay_id row \<notin> pay_id ` set (payments s) \<and> pay_purchase row \<notin> pay_purchase ` set (payments s) \<and>
               unique_opt (checkout_key row) (map checkout_key (payments s)) \<and>
               unique_opt (transaction_key row) (map transaction_key (payments s)))
              (has_purchase s (pay_purchase row)))
       (\<lambda>_. Inr (row, s\<lparr>payments := payments s @ [row]\<rparr>))"

definition ins_payment_entry :: "payment_ledger_row \<Rightarrow> db \<Rightarrow> db res" where
  "ins_payment_entry row s =
     bindR (constrained (int4_opt (pl_amount row))
              (pl_id row \<notin> pl_id ` set (payment_entries s))
              (pl_payment row \<in> pay_id ` set (payments s)))
       (\<lambda>_. Inr (s\<lparr>payment_entries := payment_entries s @ [row]\<rparr>))"

definition refund_provider_key :: "refund_row \<Rightarrow> (string \<times> string) option" where
  "refund_provider_key r = map_option (Pair (rf_provider r)) (rf_provider_refund r)"

definition ins_refund :: "refund_row \<Rightarrow> db \<Rightarrow> (refund_row \<times> db) res" where
  "ins_refund row s =
     bindR (constrained
              (int4 (rf_credits row) \<and> int4 (rf_promotion row) \<and> int4 (rf_locked row) \<and>
               int4 (rf_recovery row) \<and> int4 (rf_debt row) \<and> int4 (rf_gross row) \<and> int4 (rf_fee row) \<and>
               int4 (rf_refund row) \<and> int4 (rf_free_promotion row))
              (rf_id row \<notin> rf_id ` set (refunds s) \<and>
               (rf_purchase row, rf_key row) \<notin> (\<lambda>r. (rf_purchase r, rf_key r)) ` set (refunds s) \<and>
               unique_opt (refund_provider_key row) (map refund_provider_key (refunds s)))
              (has_purchase s (rf_purchase row)))
       (\<lambda>_. Inr (row, s\<lparr>refunds := refunds s @ [row]\<rparr>))"

definition ins_notification :: "notification_row \<Rightarrow> db \<Rightarrow> (notification_row \<times> db) res" where
  "ins_notification row s =
     bindR (constrained True (ntf_id row \<notin> ntf_id ` set (notifications s)) (has_user s (ntf_user row)))
       (\<lambda>_. Inr (row, s\<lparr>notifications := notifications s @ [row]\<rparr>))"

definition ins_job :: "job_row \<Rightarrow> db \<Rightarrow> (job_row \<times> db) res" where
  "ins_job row s =
     bindR (constrained (int4 (job_attempts row))
              (job_id row \<notin> job_id ` set (jobs s) \<and> job_turn row \<notin> job_turn ` set (jobs s))
              (job_conversation row \<in> cnv_id ` set (conversations s)))
       (\<lambda>_. Inr (row, s\<lparr>jobs := jobs s @ [row]\<rparr>))"

definition ins_message :: "message_row \<Rightarrow> db \<Rightarrow> (message_row \<times> db) res" where
  "ins_message row s =
     bindR (constrained True
              (msg_id row \<notin> msg_id ` set (messages s))
              (msg_conversation row \<in> cnv_id ` set (conversations s) \<and>
               (case msg_job row of None \<Rightarrow> True | Some j \<Rightarrow> j \<in> job_id ` set (jobs s))))
       (\<lambda>_. Inr (row, s\<lparr>messages := messages s @ [row]\<rparr>))"

section \<open>Updates of rows with unique columns\<close>

definition distinct_opt :: "'k option list \<Rightarrow> bool" where
  "distinct_opt ks = distinct (filter (\<lambda>k. k \<noteq> None) ks)"

definition upd_payments :: "(payment_row \<Rightarrow> bool) \<Rightarrow> (payment_row \<Rightarrow> payment_row) \<Rightarrow> db \<Rightarrow> db res" where
  "upd_payments p f s =
     (let rows = update_where p f (payments s) in
      bindR (constrained
               (\<forall>r \<in> set rows. int4_opt (pay_amount r) \<and> int4_opt (pay_net r) \<and> int4_opt (pay_tax r))
               (distinct_opt (map checkout_key rows) \<and> distinct_opt (map transaction_key rows)) True)
        (\<lambda>_. Inr (s\<lparr>payments := rows\<rparr>)))"

definition upd_refunds :: "(refund_row \<Rightarrow> bool) \<Rightarrow> (refund_row \<Rightarrow> refund_row) \<Rightarrow> db \<Rightarrow> db res" where
  "upd_refunds p f s =
     (let rows = update_where p f (refunds s) in
      bindR (constrained True (distinct_opt (map refund_provider_key rows)) True)
        (\<lambda>_. Inr (s\<lparr>refunds := rows\<rparr>)))"

lemma upd_payments_Inr_iff [res_simps]:
  "upd_payments p f s = Inr s' \<longleftrightarrow>
     s' = s\<lparr>payments := update_where p f (payments s)\<rparr> \<and>
     (\<forall>r \<in> set (update_where p f (payments s)). int4_opt (pay_amount r) \<and> int4_opt (pay_net r) \<and> int4_opt (pay_tax r)) \<and>
     distinct_opt (map checkout_key (update_where p f (payments s))) \<and>
     distinct_opt (map transaction_key (update_where p f (payments s)))"
  by (auto simp: upd_payments_def res_simps Let_def)

lemma upd_refunds_Inr_iff [res_simps]:
  "upd_refunds p f s = Inr s' \<longleftrightarrow>
     s' = s\<lparr>refunds := update_where p f (refunds s)\<rparr> \<and>
     distinct_opt (map refund_provider_key (update_where p f (refunds s)))"
  by (auto simp: upd_refunds_def res_simps Let_def)

text \<open>What a successful insertion does, for use by simplification and inversion.\<close>

lemma ins_ledger_Inr_iff [res_simps]:
  "ins_ledger row s = Inr (r, s') \<longleftrightarrow>
     r = row \<and> s' = s\<lparr>ledger := ledger s @ [row]\<rparr> \<and> int4 (led_amount row) \<and>
     led_id row \<notin> led_id ` set (ledger s) \<and> unique_opt (led_ref row) (map led_ref (ledger s)) \<and>
     has_user s (led_user row) \<and> (case led_purchase row of None \<Rightarrow> True | Some p \<Rightarrow> has_purchase s p)"
  by (auto simp: ins_ledger_def res_simps)

lemma ins_reservation_Inr_iff [res_simps]:
  "ins_reservation row s = Inr (r, s') \<longleftrightarrow>
     r = row \<and> s' = s\<lparr>reservations := reservations s @ [row]\<rparr> \<and> int4 (rsv_amount row) \<and>
     rsv_id row \<notin> rsv_id ` set (reservations s) \<and> rsv_ref row \<notin> rsv_ref ` set (reservations s) \<and>
     has_user s (rsv_user row)"
  by (auto simp: ins_reservation_def res_simps)

lemma ins_usages_Inr_iff [res_simps]:
  "ins_usages rows s = Inr s' \<longleftrightarrow>
     s' = s\<lparr>usages := usages s @ rows\<rparr> \<and> (\<forall>r \<in> set rows. int4 (use_amount r)) \<and>
     distinct (map (\<lambda>r. (use_usage r, use_grant r)) (usages s @ rows)) \<and>
     (\<forall>r \<in> set rows. use_usage r \<in> led_id ` set (ledger s) \<and> use_grant r \<in> led_id ` set (ledger s))"
  by (auto simp: ins_usages_def res_simps simp del: distinct_append map_append)

lemma ins_check_in_Inr_iff [res_simps]:
  "ins_check_in row s = Inr s' \<longleftrightarrow>
     s' = s\<lparr>check_ins := check_ins s @ [row]\<rparr> \<and> chk_id row \<notin> chk_id ` set (check_ins s) \<and>
     (chk_user row, chk_date row) \<notin> (\<lambda>r. (chk_user r, chk_date r)) ` set (check_ins s) \<and>
     has_user s (chk_user row)"
  by (auto simp: ins_check_in_def res_simps)

lemma ins_purchase_Inr_iff [res_simps]:
  "ins_purchase row s = Inr (r, s') \<longleftrightarrow>
     r = row \<and> s' = s\<lparr>purchases := purchases s @ [row]\<rparr> \<and> int4 (pur_credits row) \<and>
     pur_id row \<notin> pur_id ` set (purchases s) \<and>
     (pur_user row, pur_key row) \<notin> (\<lambda>r. (pur_user r, pur_key r)) ` set (purchases s) \<and>
     has_user s (pur_user row) \<and> pur_product row \<in> prd_id ` set (products s)"
  by (auto simp: ins_purchase_def res_simps)

lemma ins_payment_Inr_iff [res_simps]:
  "ins_payment row s = Inr (r, s') \<longleftrightarrow>
     r = row \<and> s' = s\<lparr>payments := payments s @ [row]\<rparr> \<and>
     int4_opt (pay_amount row) \<and> int4_opt (pay_net row) \<and> int4_opt (pay_tax row) \<and>
     pay_id row \<notin> pay_id ` set (payments s) \<and> pay_purchase row \<notin> pay_purchase ` set (payments s) \<and>
     unique_opt (checkout_key row) (map checkout_key (payments s)) \<and>
     unique_opt (transaction_key row) (map transaction_key (payments s)) \<and>
     has_purchase s (pay_purchase row)"
  by (auto simp: ins_payment_def res_simps)

lemma ins_payment_entry_Inr_iff [res_simps]:
  "ins_payment_entry row s = Inr s' \<longleftrightarrow>
     s' = s\<lparr>payment_entries := payment_entries s @ [row]\<rparr> \<and> int4_opt (pl_amount row) \<and>
     pl_id row \<notin> pl_id ` set (payment_entries s) \<and> pl_payment row \<in> pay_id ` set (payments s)"
  by (auto simp: ins_payment_entry_def res_simps)

lemma ins_refund_Inr_iff [res_simps]:
  "ins_refund row s = Inr (r, s') \<longleftrightarrow>
     r = row \<and> s' = s\<lparr>refunds := refunds s @ [row]\<rparr> \<and>
     int4 (rf_credits row) \<and> int4 (rf_promotion row) \<and> int4 (rf_locked row) \<and>
     int4 (rf_recovery row) \<and> int4 (rf_debt row) \<and> int4 (rf_gross row) \<and> int4 (rf_fee row) \<and>
     int4 (rf_refund row) \<and> int4 (rf_free_promotion row) \<and>
     rf_id row \<notin> rf_id ` set (refunds s) \<and>
     (rf_purchase row, rf_key row) \<notin> (\<lambda>r. (rf_purchase r, rf_key r)) ` set (refunds s) \<and>
     unique_opt (refund_provider_key row) (map refund_provider_key (refunds s)) \<and>
     has_purchase s (rf_purchase row)"
  by (auto simp: ins_refund_def res_simps)

lemma ins_notification_Inr_iff [res_simps]:
  "ins_notification row s = Inr (r, s') \<longleftrightarrow>
     r = row \<and> s' = s\<lparr>notifications := notifications s @ [row]\<rparr> \<and>
     ntf_id row \<notin> ntf_id ` set (notifications s) \<and> has_user s (ntf_user row)"
  by (auto simp: ins_notification_def res_simps)

lemma ins_job_Inr_iff [res_simps]:
  "ins_job row s = Inr (r, s') \<longleftrightarrow>
     r = row \<and> s' = s\<lparr>jobs := jobs s @ [row]\<rparr> \<and> int4 (job_attempts row) \<and>
     job_id row \<notin> job_id ` set (jobs s) \<and> job_turn row \<notin> job_turn ` set (jobs s) \<and>
     job_conversation row \<in> cnv_id ` set (conversations s)"
  by (auto simp: ins_job_def res_simps)

lemma ins_message_Inr_iff [res_simps]:
  "ins_message row s = Inr (r, s') \<longleftrightarrow>
     r = row \<and> s' = s\<lparr>messages := messages s @ [row]\<rparr> \<and>
     msg_id row \<notin> msg_id ` set (messages s) \<and> msg_conversation row \<in> cnv_id ` set (conversations s) \<and>
     (case msg_job row of None \<Rightarrow> True | Some j \<Rightarrow> j \<in> job_id ` set (jobs s))"
  by (auto simp: ins_message_def res_simps)

section \<open>Reading the enums as text\<close>

definition sql_limit :: "int \<Rightarrow> 'r list \<Rightarrow> 'r list" where
  "sql_limit n rows = take (nat n) rows"

end
