(* ===== verification/Credits.thy ===== *)
theory Credits
  imports Schema
begin

text \<open>
  The credit ledger: \<open>src/credits/credits.service.ts\<close> with the prices of
  \<open>src/credits/credit-pricing.ts\<close>. Each operation is a function of the instant it runs at (read both
  by \<open>new Date()\<close> and by \<open>CURRENT_TIMESTAMP\<close>), the ids it draws and the database; one that runs inside a transaction returns a result with the new
  database or an error (the rollback). The advisory lock \<open>credits:<user>\<close> that the service takes
  makes the transactions of one user atomic steps, so the lock calls leave no trace in the
  definitions and the second reads of the same row read the same table.
\<close>

section \<open>Prices\<close>

datatype credit_action = Chat_Reply

fun action_name :: "credit_action \<Rightarrow> string" where
  "action_name Chat_Reply = ''chat_reply''"

fun credit_action_price :: "credit_action \<Rightarrow> int" where
  "credit_action_price Chat_Reply = 2"

definition free_credit_ttl_days :: int where "free_credit_ttl_days = 30"
definition signup_bonus_credits :: int where "signup_bonus_credits = 100"
definition daily_check_in_credits :: int where "daily_check_in_credits = 10"
definition reservation_ttl_ms :: int where "reservation_ttl_ms = 5 * 60 * 1000"

definition check_in_milestones :: "(int \<times> int) list" where
  "check_in_milestones = [(7, 20), (14, 30), (30, 50)]"

section \<open>Inputs and results\<close>

record grant_input =
  gi_user :: uid
  gi_amount :: js_number
  gi_reason :: "string option"
  gi_kind :: "credit_kind option"
  gi_purchase :: "uid option"
  gi_promo :: "string option"
  gi_ref :: "string option"
  gi_expires :: "time option"

record credit_record =
  cr_id :: uid
  cr_user :: uid
  cr_type :: ledger_type
  cr_kind :: "credit_kind option"
  cr_purchase :: "uid option"
  cr_promo :: "string option"
  cr_amount :: int
  cr_expires :: "time option"
  cr_reason :: string
  cr_ref :: "string option"
  cr_created :: time

record credit_reservation_record =
  crr_id :: uid
  crr_user :: uid
  crr_action :: string
  crr_amount :: int
  crr_status :: reservation_status
  crr_ref :: string
  crr_expires :: "time option"
  crr_created :: time

text \<open>Optional fields are spread only when truthy, so an empty text is dropped.\<close>

definition if_truthy :: "string option \<Rightarrow> string option" where
  "if_truthy x = (if truthy x then x else None)"

definition to_record :: "ledger_row \<Rightarrow> credit_record" where
  "to_record r = \<lparr>cr_id = led_id r, cr_user = led_user r, cr_type = led_type r, cr_kind = led_kind r,
     cr_purchase = if_truthy (led_purchase r), cr_promo = if_truthy (led_promo r),
     cr_amount = led_amount r, cr_expires = map_option js_date (led_expires r), cr_reason = led_reason r,
     cr_ref = if_truthy (led_ref r), cr_created = js_date (led_created r)\<rparr>"

definition to_reservation :: "reservation_row \<Rightarrow> credit_reservation_record" where
  "to_reservation r = \<lparr>crr_id = rsv_id r, crr_user = rsv_user r, crr_action = rsv_action r,
     crr_amount = rsv_amount r, crr_status = rsv_status r, crr_ref = rsv_ref r,
     crr_expires = map_option js_date (rsv_expires r), crr_created = js_date (rsv_created r)\<rparr>"

section \<open>Balances\<close>

definition active_reservation :: "time \<Rightarrow> reservation_row \<Rightarrow> bool" where
  "active_reservation now r \<longleftrightarrow>
     rsv_status r = Reserved \<and> (case rsv_expires r of None \<Rightarrow> True | Some t \<Rightarrow> now < t)"

type_synonym snapshot = "ledger_row \<times> int"

definition grant_rows :: "uid \<Rightarrow> db \<Rightarrow> ledger_row list" where
  "grant_rows u s =
     sort_key (\<lambda>r. (nulls_last (led_kind r), nulls_last (led_expires r), led_created r, led_id r))
       (filter (\<lambda>r. led_user r = u \<and> led_type r = Grant) (ledger s))"

definition usage_sums :: "uid \<Rightarrow> db \<Rightarrow> (uid \<times> int) list" where
  "usage_sums u s = group_sum use_grant use_amount
     (filter (\<lambda>x. list_ex (\<lambda>l. led_id l = use_grant x \<and> led_user l = u) (ledger s)) (usages s))"

definition recovery_sums :: "uid \<Rightarrow> db \<Rightarrow> (uid \<times> int) list" where
  "recovery_sums u s = group_sum (\<lambda>r. the (led_purchase r)) led_amount
     (filter (\<lambda>r. led_user r = u \<and> led_type r = Refund_Recovery \<and> led_purchase r \<noteq> None) (ledger s))"

definition locking_refund :: "refund_row \<Rightarrow> bool" where
  "locking_refund r \<longleftrightarrow>
     rf_status r \<in> {Rf_Reserved, Rf_Payment_Processing, Rf_Payment_Succeeded}"

definition lock_sums :: "uid \<Rightarrow> db \<Rightarrow> (uid \<times> int) list" where
  "lock_sums u s = group_sum rf_purchase rf_locked
     (filter (\<lambda>r. list_ex (\<lambda>p. pur_id p = rf_purchase r \<and> pur_user p = u) (purchases s) \<and>
        locking_refund r) (refunds s))"

definition grant_available :: "time \<Rightarrow> (uid \<times> int) list \<Rightarrow> ledger_row \<Rightarrow> int" where
  "grant_available now used g =
     (if (case led_expires g of None \<Rightarrow> False | Some t \<Rightarrow> t \<le> now) then 0
      else max 0 (led_amount g - lookup0 used (led_id g)))"

text \<open>
  The loop over the grants: a purchase's recoveries, then its refund locks, are taken from the
  grants of the purchase in order; what is left of them is carried to the next grant.
\<close>

fun snapshot_loop :: "time \<Rightarrow> (uid \<times> int) list \<Rightarrow> bool \<Rightarrow> (uid \<times> int) list \<Rightarrow> (uid \<times> int) list \<Rightarrow>
    ledger_row list \<Rightarrow> snapshot list \<times> (uid \<times> int) list" where
  "snapshot_loop now used incl recs locks [] = ([], recs)"
| "snapshot_loop now used incl recs locks (g # gs) =
     (let avail = grant_available now used g in
      case led_purchase g of
        None \<Rightarrow>
          (let (snaps, recs') = snapshot_loop now used incl recs locks gs in ((g, avail) # snaps, recs'))
      | Some p \<Rightarrow>
          (let recovery = lookup0 recs p;
               recovered = min avail recovery;
               avail1 = avail - recovered;
               recs1 = AList.update p (recovery - recovered) recs;
               lock = lookup0 locks p;
               locked = (if incl then min avail1 lock else 0);
               locks1 = (if incl then AList.update p (lock - locked) locks else locks);
               (snaps, recs') = snapshot_loop now used incl recs1 locks1 gs
           in ((g, avail1 - locked) # snaps, recs')))"

definition grant_state :: "time \<Rightarrow> uid \<Rightarrow> bool \<Rightarrow> db \<Rightarrow> snapshot list \<times> int" where
  "grant_state now u incl s =
     (let (snaps, recs) = snapshot_loop now (usage_sums u s) incl (recovery_sums u s) (lock_sums u s)
                            (grant_rows u s)
      in (snaps, total recs))"

record balance =
  paid_balance :: int
  free_balance :: int
  available_balance :: int

definition adjustment_sum :: "uid \<Rightarrow> credit_kind \<Rightarrow> db \<Rightarrow> int" where
  "adjustment_sum u k s =
     sum_where (\<lambda>r. led_user r = u \<and> led_type r = Adjustment \<and> led_kind r = Some k) led_amount (ledger s)"

definition reserved_sum :: "time \<Rightarrow> uid \<Rightarrow> db \<Rightarrow> int" where
  "reserved_sum now u s =
     sum_where (\<lambda>r. rsv_user r = u \<and> active_reservation now r) rsv_amount (reservations s)"

definition available_by_kind :: "snapshot list \<Rightarrow> credit_kind \<Rightarrow> int" where
  "available_by_kind snaps k = sum_where (\<lambda>(g, a). led_kind g = Some k) snd snaps"

definition balance_breakdown :: "time \<Rightarrow> uid \<Rightarrow> db \<Rightarrow> balance" where
  "balance_breakdown now u s =
     (let (snaps, debt) = grant_state now u True s;
          paid = available_by_kind snaps Paid - debt + adjustment_sum u Paid s;
          free = available_by_kind snaps Free + adjustment_sum u Free s
      in \<lparr>paid_balance = paid, free_balance = free,
          available_balance = (if paid < 0 then paid else paid + free - reserved_sum now u s)\<rparr>)"

section \<open>Allocation of a usage to grants\<close>

fun allocate_loop :: "snapshot list \<Rightarrow> int \<Rightarrow> int \<Rightarrow> snapshot list \<times> int" where
  "allocate_loop [] cap remaining = ([], remaining)"
| "allocate_loop ((g, avail) # snaps) cap remaining =
     (if remaining = 0 then ([], remaining)
      else let capacity = (if led_kind g = Some Paid then min avail cap else avail);
               takes = min remaining capacity
           in if takes \<le> 0 then allocate_loop snaps cap remaining
              else let (rest, left) = allocate_loop snaps
                         (if led_kind g = Some Paid then cap - takes else cap) (remaining - takes)
                   in ((g, takes) # rest, left))"

definition allocate_usage :: "time \<Rightarrow> uid \<Rightarrow> int \<Rightarrow> db \<Rightarrow> snapshot list res" where
  "allocate_usage now u amount s =
     (let (allocs, left) = allocate_loop (fst (grant_state now u True s))
                             (max 0 (paid_balance (balance_breakdown now u s))) amount
      in if 0 < left then Inl Insufficient_Credits else Inr allocs)"

text \<open>The ledger entry of a usage with its allocations, as capture and spend write them.\<close>

definition write_usage :: "ledger_row \<Rightarrow> snapshot list \<Rightarrow> db \<Rightarrow> db res" where
  "write_usage row allocs s =
     bindR (ins_ledger row s) (\<lambda>(usage, s1).
       if allocs = [] then Inr s1
       else ins_usages (map (\<lambda>(g, n). \<lparr>use_usage = led_id usage, use_grant = led_id g, use_amount = n\<rparr>)
              allocs) s1)"

section \<open>Reservations\<close>

definition find_reservation :: "db \<Rightarrow> string \<Rightarrow> reservation_row option" where
  "find_reservation s ref = find (\<lambda>r. rsv_ref r = ref) (reservations s)"

definition find_reservation_by_id :: "db \<Rightarrow> uid \<Rightarrow> reservation_row option" where
  "find_reservation_by_id s i = find (\<lambda>r. rsv_id r = i) (reservations s)"

definition set_status :: "time \<Rightarrow> reservation_status \<Rightarrow> reservation_row \<Rightarrow> reservation_row" where
  "set_status now st r = r\<lparr>rsv_status := st, rsv_updated := now\<rparr>"

definition update_reservations ::
  "(reservation_row \<Rightarrow> bool) \<Rightarrow> (reservation_row \<Rightarrow> reservation_row) \<Rightarrow> db \<Rightarrow> db" where
  "update_reservations p f s = s\<lparr>reservations := update_where p f (reservations s)\<rparr>"

text \<open>
  \<open>expires\<close> is the optional input: absent (\<open>None\<close>, the default TTL), \<open>null\<close> (\<open>Some None\<close>, no expiry) or
  a date.
\<close>

definition reserve_tx :: "time \<Rightarrow> uid \<Rightarrow> uid \<Rightarrow> credit_action \<Rightarrow> string \<Rightarrow> time option option \<Rightarrow> db \<Rightarrow>
    (credit_reservation_record \<times> db) res" where
  "reserve_tx now rid u act reference expires s =
     (let amount = credit_action_price act in
      case find_reservation s reference of
        Some existing \<Rightarrow>
          bindR (ensure (rsv_user existing = u \<and> rsv_action existing = action_name act \<and>
                         rsv_amount existing = amount)
                   (Conflict ''Credit reservation reference conflict''))
            (\<lambda>_. Inr (to_reservation existing, s))
      | None \<Rightarrow>
          (let b = balance_breakdown now u s in
           if paid_balance b < 0 \<or> available_balance b < amount then Inl Insufficient_Credits
           else bindR (ins_reservation
                  \<lparr>rsv_id = rid, rsv_user = u, rsv_action = action_name act, rsv_amount = amount,
                   rsv_status = Reserved, rsv_ref = reference,
                   rsv_expires = (case expires of None \<Rightarrow> Some (now + ms reservation_ttl_ms) | Some e \<Rightarrow> e),
                   rsv_created = now, rsv_updated = now\<rparr> s)
                  (\<lambda>(row, s1). Inr (to_reservation row, s1))))"

definition reserve_credits :: "time \<Rightarrow> uid \<Rightarrow> uid \<Rightarrow> uid \<Rightarrow> credit_action \<Rightarrow> string option \<Rightarrow>
    time option option \<Rightarrow> db \<Rightarrow> (credit_reservation_record \<times> db) res" where
  "reserve_credits now rid random_uuid u act reference expires s =
     reserve_tx now rid u act
       (case trimmed reference of None \<Rightarrow> random_uuid | Some r \<Rightarrow> r) expires s"

definition require_reference :: "string option \<Rightarrow> string res" where
  "require_reference reference =
     require_some (trimmed reference) (Bad_Request ''Credit reservation reference is required'')"

definition expired_at :: "time \<Rightarrow> reservation_row \<Rightarrow> bool" where
  "expired_at now r \<longleftrightarrow> (case rsv_expires r of None \<Rightarrow> False | Some t \<Rightarrow> t \<le> now)"

text \<open>\<open>captureReservationInTx\<close>: the flag says that the reservation had expired and was released.\<close>

definition capture_in_tx :: "time \<Rightarrow> uid \<Rightarrow> string \<Rightarrow> db \<Rightarrow> ((bool \<times> reservation_row) \<times> db) res" where
  "capture_in_tx now lid reference s =
     bindR (require_some (find_reservation s reference) (Bad_Request ''Credit reservation not found''))
       (\<lambda>found.
     bindR (require_some (find_reservation s reference) (Bad_Request ''Credit reservation not found''))
       (\<lambda>r.
     case rsv_status r of
       Captured \<Rightarrow> Inr ((False, r), s)
     | Released \<Rightarrow> Inl (Conflict ''Credit reservation was released'')
     | Reserved \<Rightarrow>
         if expired_at now r then
           Inr ((True, set_status now Released r),
                update_reservations (\<lambda>x. rsv_id x = rsv_id r) (set_status now Released) s)
         else
           bindR (allocate_usage now (rsv_user r) (rsv_amount r) s) (\<lambda>allocs.
           bindR (write_usage
                    \<lparr>led_id = lid, led_user = rsv_user r, led_type = Usage, led_kind = None,
                     led_purchase = None, led_promo = None, led_amount = rsv_amount r,
                     led_expires = None, led_reason = rsv_action r,
                     led_ref = Some (''credit_reservation:'' @ rsv_id r), led_created = now\<rparr> allocs s)
             (\<lambda>s1. Inr ((False, set_status now Captured r),
                update_reservations (\<lambda>x. rsv_id x = rsv_id r) (set_status now Captured) s1)))))"

text \<open>
  \<open>captureReservation\<close> commits its own transaction, the release of an expired reservation included,
  and throws afterwards; \<open>captureReservationWithClient\<close> throws inside the caller's transaction, which
  takes that release back.
\<close>

definition capture_reservation :: "time \<Rightarrow> uid \<Rightarrow> string option \<Rightarrow> db \<Rightarrow>
    credit_reservation_record res \<times> db" where
  "capture_reservation now lid reference s =
     (case commit (\<lambda>s. bindR (require_reference reference) (\<lambda>ref. capture_in_tx now lid ref s)) s of
        (Inl e, s') \<Rightarrow> (Inl e, s')
      | (Inr (expired, r), s') \<Rightarrow>
          (if expired then Inl (Conflict ''Credit reservation expired'') else Inr (to_reservation r), s'))"

definition capture_with_client :: "time \<Rightarrow> uid \<Rightarrow> string option \<Rightarrow> db \<Rightarrow>
    (credit_reservation_record \<times> db) res" where
  "capture_with_client now lid reference s =
     bindR (require_reference reference) (\<lambda>ref.
     bindR (capture_in_tx now lid ref s) (\<lambda>((expired, r), s').
       if expired then Inl (Conflict ''Credit reservation expired'') else Inr (to_reservation r, s')))"

definition release_in_tx :: "time \<Rightarrow> string \<Rightarrow> db \<Rightarrow> (credit_reservation_record \<times> db) res" where
  "release_in_tx now reference s =
     bindR (require_some (find_reservation s reference) (Bad_Request ''Credit reservation not found''))
       (\<lambda>found.
     bindR (require_some (find_reservation s reference) (Bad_Request ''Credit reservation not found''))
       (\<lambda>r.
     if rsv_status r \<noteq> Reserved then Inr (to_reservation r, s)
     else
       (let cond = (\<lambda>x. rsv_id x = rsv_id r \<and> rsv_status x = Reserved) in
        case filter cond (reservations s) of
          x # _ \<Rightarrow> Inr (to_reservation (set_status now Released x),
                     update_reservations cond (set_status now Released) s)
        | [] \<Rightarrow>
            bindR (require_some (find_reservation_by_id s (rsv_id r))
                     (Bad_Request ''Credit reservation not found''))
              (\<lambda>current. Inr (to_reservation current, s)))))"

definition release_reservation :: "time \<Rightarrow> string \<Rightarrow> db \<Rightarrow> (credit_reservation_record \<times> db) res" where
  "release_reservation now reference s = release_in_tx now reference s"

section \<open>Grants\<close>

definition free_credit_expiry :: "time \<Rightarrow> time" where
  "free_credit_expiry now = now + ms (free_credit_ttl_days * 24 * 60 * 60 * 1000)"

definition grant_with_client :: "time \<Rightarrow> uid \<Rightarrow> grant_input \<Rightarrow> db \<Rightarrow> (credit_record \<times> db) res" where
  "grant_with_client now lid inp s =
     (let kind = (case gi_kind inp of None \<Rightarrow> Free | Some k \<Rightarrow> k);
          insert = (\<lambda>amount reason.
            bindR (ins_ledger
              \<lparr>led_id = lid, led_user = gi_user inp, led_type = Grant, led_kind = Some kind,
               led_purchase = gi_purchase inp, led_promo = gi_promo inp, led_amount = amount,
               led_expires = (case gi_expires inp of
                   Some t \<Rightarrow> Some t
                 | None \<Rightarrow> if kind = Free then Some (free_credit_expiry now) else None),
               led_reason = reason, led_ref = gi_ref inp, led_created = now\<rparr> s)
              (\<lambda>(row, s1). Inr (to_record row, s1)))
      in case (gi_amount inp, trimmed (gi_reason inp)) of
           (Js_Int amount, Some reason) \<Rightarrow>
             bindR (ensure (0 < amount) (Bad_Request ''Credit amount and reason are required'')) (\<lambda>_.
             bindR (ensure (\<not> (kind = Paid \<and> \<not> truthy (gi_purchase inp)))
                      (Bad_Request ''Paid credits require a purchase ID'')) (\<lambda>_.
             bindR (ensure (\<not> (truthy (gi_promo inp) \<and> \<not> truthy (gi_purchase inp)))
                      (Bad_Request ''Purchase-linked promotion requires a purchase ID'')) (\<lambda>_.
             if truthy (gi_ref inp) then
               (case find (\<lambda>r. led_ref r = gi_ref inp) (ledger s) of
                  Some existing \<Rightarrow>
                    bindR (ensure (led_user existing = gi_user inp \<and> led_type existing = Grant \<and>
                                   led_amount existing = amount \<and> led_kind existing = Some kind \<and>
                                   led_purchase existing = gi_purchase inp)
                             (Conflict ''Credit grant reference conflict''))
                      (\<lambda>_. Inr (to_record existing, s))
                | None \<Rightarrow> insert amount reason)
             else insert amount reason)))
         | _ \<Rightarrow> Inl (Bad_Request ''Credit amount and reason are required''))"

definition grant_credits :: "time \<Rightarrow> uid \<Rightarrow> grant_input \<Rightarrow> db \<Rightarrow> (credit_record \<times> db) res" where
  "grant_credits now lid inp s = grant_with_client now lid inp s"

definition grant_signup_bonus :: "time \<Rightarrow> uid \<Rightarrow> uid \<Rightarrow> db \<Rightarrow> (credit_record \<times> db) res" where
  "grant_signup_bonus now lid u s = grant_credits now lid
     \<lparr>gi_user = u, gi_amount = Js_Int signup_bonus_credits, gi_reason = Some ''signup bonus'',
      gi_kind = Some Free, gi_purchase = None, gi_promo = None,
      gi_ref = Some (''signup_bonus:'' @ u), gi_expires = None\<rparr> s"

section \<open>Spending, recoveries and balances\<close>

definition spend_credits :: "time \<Rightarrow> uid \<Rightarrow> uid \<Rightarrow> js_number \<Rightarrow> string option \<Rightarrow> db \<Rightarrow>
    (credit_record \<times> db) res" where
  "spend_credits now lid u amount reason s =
     (case (amount, trimmed reason) of
        (Js_Int n, Some why) \<Rightarrow>
          bindR (ensure (0 < n) (Bad_Request ''Credit amount and reason are required'')) (\<lambda>_.
          let b = balance_breakdown now u s in
          if paid_balance b < 0 \<or> available_balance b < n then Inl Insufficient_Credits
          else
            (let row = \<lparr>led_id = lid, led_user = u, led_type = Usage, led_kind = None,
                        led_purchase = None, led_promo = None, led_amount = n, led_expires = None,
                        led_reason = why, led_ref = None, led_created = now\<rparr>
             in bindR (allocate_usage now u n s) (\<lambda>allocs.
                bindR (write_usage row allocs s) (\<lambda>s1. Inr (to_record row, s1)))))
      | _ \<Rightarrow> Inl (Bad_Request ''Credit amount and reason are required''))"

definition record_refund_recovery :: "time \<Rightarrow> uid \<Rightarrow> uid \<Rightarrow> uid \<Rightarrow> int \<Rightarrow> uid \<Rightarrow> string \<Rightarrow> db \<Rightarrow>
    (credit_record \<times> db) res" where
  "record_refund_recovery now lid u purchase amount refund reason s =
     bindR (ins_ledger
       \<lparr>led_id = lid, led_user = u, led_type = Refund_Recovery, led_kind = Some Paid,
        led_purchase = Some purchase, led_promo = None, led_amount = amount, led_expires = None,
        led_reason = reason, led_ref = Some (''credit_refund:'' @ refund), led_created = now\<rparr> s)
       (\<lambda>(row, s1). Inr (to_record row, s1))"

record balance_view =
  bv_user :: uid
  bv_balance :: int
  bv_paid :: int
  bv_free :: "int option"

definition get_balance :: "time \<Rightarrow> uid \<Rightarrow> db \<Rightarrow> balance_view" where
  "get_balance now u s =
     (let v = balance_breakdown now u s in
      if paid_balance v < 0
      then \<lparr>bv_user = u, bv_balance = paid_balance v, bv_paid = paid_balance v, bv_free = None\<rparr>
      else \<lparr>bv_user = u, bv_balance = available_balance v, bv_paid = paid_balance v,
            bv_free = Some (free_balance v)\<rparr>)"

definition get_paid_balance :: "time \<Rightarrow> uid \<Rightarrow> db \<Rightarrow> int" where
  "get_paid_balance now u s = paid_balance (balance_breakdown now u s)"

definition list_entries :: "uid \<Rightarrow> db \<Rightarrow> credit_record list" where
  "list_entries u s = map to_record
     (sort_key (\<lambda>r. (led_created r, led_id r)) (filter (\<lambda>r. led_user r = u) (ledger s)))"

section \<open>The credits of one purchase\<close>

record purchase_snapshot =
  original_paid :: int
  original_promotion :: int
  original_paid_promotion :: int
  remaining_paid :: int
  remaining_promotion :: int
  remaining_paid_promotion :: int
  snap_locked :: int

definition purchase_credit_snapshot :: "time \<Rightarrow> uid \<Rightarrow> uid \<Rightarrow> db \<Rightarrow> purchase_snapshot" where
  "purchase_credit_snapshot now u p s =
     (let grants = filter (\<lambda>(g, a). led_purchase g = Some p) (fst (grant_state now u False s));
          base = (\<lambda>(g, a). led_kind g = Some Paid \<and> \<not> truthy (led_promo g));
          promo = (\<lambda>(g, a). truthy (led_promo g));
          paid_promo = (\<lambda>(g, a). led_kind g = Some Paid \<and> truthy (led_promo g));
          original = (\<lambda>(g, a). led_amount g)
      in \<lparr>original_paid = sum_where base original grants,
          original_promotion = sum_where promo original grants,
          original_paid_promotion = sum_where paid_promo original grants,
          remaining_paid = sum_where base snd grants,
          remaining_promotion = sum_where promo snd grants,
          remaining_paid_promotion = sum_where paid_promo snd grants,
          snap_locked = sum_where (\<lambda>r. rf_purchase r = p \<and> locking_refund r) rf_locked (refunds s)\<rparr>)"

end
