(* ===== verification/Credits_Laws.thy ===== *)
theory Credits_Laws
  imports Credits
begin

text \<open>
  What the credit ledger guarantees: how the grant snapshots account for recoveries and refund
  locks, what an allocation takes and when it succeeds, and the ledger invariant
  \<open>ledger_ok\<close> (nothing is spent twice, every usage entry is fully allocated to grants of its own
  user) with its preservation by every operation of \<open>Credits\<close>.
\<close>

section \<open>Snapshots\<close>

lemma snapshot_loop_grants [simp]:
  "map fst (fst (snapshot_loop now used incl recs locks gs)) = gs"
  by (induction gs arbitrary: recs locks) (auto simp: Let_def case_prod_beta split: option.splits)

lemma snapshot_loop_recs_distinct:
  "distinct (map fst recs) \<Longrightarrow> distinct (map fst (snd (snapshot_loop now used incl recs locks gs)))"
  by (induction gs arbitrary: recs locks)
    (auto simp: Let_def case_prod_beta distinct_update split: option.splits)

lemma grant_available_nonneg [simp]: "0 \<le> grant_available now used g"
  by (simp add: grant_available_def)

lemma snapshot_loop_bounds:
  assumes "(g, a) \<in> set (fst (snapshot_loop now used incl recs locks gs))"
    and "\<And>p. 0 \<le> lookup0 recs p" "\<And>p. 0 \<le> lookup0 locks p"
  shows "g \<in> set gs \<and> 0 \<le> a \<and> a \<le> grant_available now used g"
  using assms
proof (induction gs arbitrary: recs locks)
  case (Cons h gs)
  show ?case
  proof (cases "led_purchase h")
    case None
    with Cons.prems Cons.IH [of recs locks] show ?thesis
      by (auto simp: Let_def case_prod_beta)
  next
    case (Some p)
    let ?av = "grant_available now used h"
    let ?r = "lookup0 recs p"
    let ?l = "lookup0 locks p"
    let ?av1 = "?av - min ?av ?r"
    let ?recs1 = "AList.update p (?r - min ?av ?r) recs"
    let ?locks1 = "if incl then AList.update p (?l - min ?av1 ?l) locks else locks"
    have r: "0 \<le> ?r" "0 \<le> ?l" using Cons.prems by auto
    have nn: "0 \<le> lookup0 ?recs1 q" "0 \<le> lookup0 ?locks1 q" for q
      using Cons.prems(2,3) by auto
    have "(g, a) = (h, ?av1 - (if incl then min ?av1 ?l else 0)) \<or>
          (g, a) \<in> set (fst (snapshot_loop now used incl ?recs1 ?locks1 gs))"
      using Cons.prems(1) Some by (auto simp: Let_def case_prod_beta)
    then show ?thesis
    proof
      assume "(g, a) = (h, ?av1 - (if incl then min ?av1 ?l else 0))"
      with r show ?thesis by (auto simp: min_def)
    next
      assume "(g, a) \<in> set (fst (snapshot_loop now used incl ?recs1 ?locks1 gs))"
      from Cons.IH [OF this nn] show ?thesis by simp
    qed
  qed
qed simp

lemma snapshot_loop_recs_nonneg:
  assumes "\<And>p. 0 \<le> lookup0 recs p"
  shows "0 \<le> lookup0 (snd (snapshot_loop now used incl recs locks gs)) q"
  using assms
proof (induction gs arbitrary: recs locks)
  case (Cons h gs)
  show ?case
  proof (cases "led_purchase h")
    case None
    with Cons show ?thesis by (simp add: Let_def case_prod_beta)
  next
    case (Some p)
    let ?recs1 = "AList.update p (lookup0 recs p - min (grant_available now used h) (lookup0 recs p)) recs"
    have "0 \<le> lookup0 ?recs1 r" for r using Cons.prems by (auto simp: min_def)
    from Cons.IH [OF this] Some show ?thesis
      by (simp add: Let_def case_prod_beta)
  qed
qed simp

text \<open>
  Conservation: without refund locks the snapshots and the debt that no grant could cover account
  for every available credit and every recovery.
\<close>

lemma snapshot_loop_total:
  assumes "distinct (map fst recs)"
  shows "sum_list (map snd (fst (snapshot_loop now used False recs locks gs)))
           - total (snd (snapshot_loop now used False recs locks gs))
         = sum_list (map (grant_available now used) gs) - total recs"
  using assms
proof (induction gs arbitrary: recs)
  case (Cons h gs)
  show ?case
  proof (cases "led_purchase h")
    case None
    with Cons show ?thesis by (simp add: Let_def case_prod_beta)
  next
    case (Some p)
    let ?r = "lookup0 recs p - min (grant_available now used h) (lookup0 recs p)"
    have d: "distinct (map fst (AList.update p ?r recs))" using Cons.prems by (rule distinct_update)
    have t: "total (AList.update p ?r recs) = total recs - min (grant_available now used h) (lookup0 recs p)"
      using Cons.prems by (simp add: total_update)
    from Cons.IH [OF d] Some t show ?thesis
      by (simp add: Let_def case_prod_beta)
  qed
qed simp

section \<open>Allocation\<close>

definition alloc_take :: "ledger_row \<Rightarrow> int \<Rightarrow> int \<Rightarrow> int \<Rightarrow> int" where
  "alloc_take g a cap n = min n (if led_kind g = Some Paid then min a cap else a)"

definition alloc_cap :: "ledger_row \<Rightarrow> int \<Rightarrow> int \<Rightarrow> int" where
  "alloc_cap g t cap = (if led_kind g = Some Paid then cap - t else cap)"

lemma allocate_loop_Cons:
  "allocate_loop ((g, a) # snaps) cap n =
     (if n = 0 then ([], n)
      else let t = alloc_take g a cap n in
        if t \<le> 0 then allocate_loop snaps cap n
        else ((g, t) # fst (allocate_loop snaps (alloc_cap g t cap) (n - t)),
              snd (allocate_loop snaps (alloc_cap g t cap) (n - t))))"
  by (simp add: alloc_take_def alloc_cap_def Let_def case_prod_beta)

declare allocate_loop.simps(2) [simp del]

text \<open>Induction over the snapshots with the three outcomes of a step: done, skipped, taken.\<close>

lemma allocate_loop_cases:
  assumes "\<And>cap n. P [] cap n ([], n)"
    and "\<And>g a snaps cap. P ((g, a) # snaps) cap 0 ([], 0)"
    and "\<And>g a snaps cap n. n \<noteq> 0 \<Longrightarrow> alloc_take g a cap n \<le> 0 \<Longrightarrow>
           P snaps cap n (allocate_loop snaps cap n) \<Longrightarrow>
           P ((g, a) # snaps) cap n (allocate_loop snaps cap n)"
    and "\<And>g a snaps cap n t res left. n \<noteq> 0 \<Longrightarrow> t = alloc_take g a cap n \<Longrightarrow> 0 < t \<Longrightarrow>
           P snaps (alloc_cap g t cap) (n - t) (res, left) \<Longrightarrow>
           allocate_loop snaps (alloc_cap g t cap) (n - t) = (res, left) \<Longrightarrow>
           P ((g, a) # snaps) cap n ((g, t) # res, left)"
  shows "P snaps cap n (allocate_loop snaps cap n)"
proof (induction snaps arbitrary: cap n)
  case Nil
  show ?case using assms(1) by simp
next
  case (Cons x snaps)
  obtain g a where x: "x = (g, a)" by (cases x)
  show ?case
  proof (cases "n = 0 \<or> alloc_take g a cap n \<le> 0")
    case True
    then show ?thesis using x assms(2,3) Cons.IH by (auto simp: allocate_loop_Cons Let_def)
  next
    case False
    obtain res left where rl:
      "allocate_loop snaps (alloc_cap g (alloc_take g a cap n) cap) (n - alloc_take g a cap n) = (res, left)"
      by (cases "allocate_loop snaps (alloc_cap g (alloc_take g a cap n) cap) (n - alloc_take g a cap n)")
    have "P ((g, a) # snaps) cap n ((g, alloc_take g a cap n) # res, left)"
      using False Cons.IH [of "alloc_cap g (alloc_take g a cap n) cap" "n - alloc_take g a cap n"] rl
      by (intro assms(4)) simp_all
    with False x rl show ?thesis by (simp add: allocate_loop_Cons Let_def)
  qed
qed

abbreviation taken :: "snapshot list \<Rightarrow> int" where
  "taken allocs \<equiv> sum_list (map snd allocs)"

lemma allocate_loop_sum: "taken (fst (allocate_loop snaps cap n)) + snd (allocate_loop snaps cap n) = n"
  by (rule allocate_loop_cases [where P = "\<lambda>snaps cap n r. taken (fst r) + snd r = n"]) simp_all

lemma allocate_loop_left_nonneg: "0 \<le> n \<Longrightarrow> 0 \<le> snd (allocate_loop snaps cap n)"
  by (rule allocate_loop_cases [where P = "\<lambda>snaps cap n r. 0 \<le> n \<longrightarrow> 0 \<le> snd r", rule_format])
    (simp_all add: alloc_take_def)

lemma allocate_loop_bounds:
  "(g, k) \<in> set (fst (allocate_loop snaps cap n)) \<Longrightarrow> 0 < k \<and> (\<exists>a. (g, a) \<in> set snaps \<and> k \<le> a)"
  by (rule allocate_loop_cases
      [where P = "\<lambda>snaps cap n r. (g, k) \<in> set (fst r) \<longrightarrow> 0 < k \<and> (\<exists>a. (g, a) \<in> set snaps \<and> k \<le> a)",
       rule_format])
    (auto simp: alloc_take_def split: if_splits)

lemma allocate_loop_subset: "fst ` set (fst (allocate_loop snaps cap n)) \<subseteq> fst ` set snaps"
  using allocate_loop_bounds [of _ _ snaps cap n] by (force simp: image_iff)

lemma allocate_loop_distinct:
  assumes "distinct (map fst snaps)"
  shows "distinct (map fst (fst (allocate_loop snaps cap n)))"
proof -
  have "distinct (map fst snaps) \<longrightarrow> distinct (map fst (fst (allocate_loop snaps cap n)))"
  proof (rule allocate_loop_cases
      [where P = "\<lambda>snaps cap n r. distinct (map fst snaps) \<longrightarrow> distinct (map fst (fst r))"])
    fix g a snaps cap n t res and left :: int
    assume *: "allocate_loop snaps (alloc_cap g t cap) (n - t) = (res, left)"
      "distinct (map fst snaps) \<longrightarrow> distinct (map fst (fst (res, left)))"
    have "fst ` set res \<subseteq> fst ` set snaps"
      using allocate_loop_subset [of snaps "alloc_cap g t cap" "n - t"] *(1) by simp
    with *(2) show "distinct (map fst ((g, a) # snaps)) \<longrightarrow> distinct (map fst (fst ((g, t) # res, left)))"
      by auto
  qed simp_all
  with assms show ?thesis by simp
qed

abbreviation paid_part :: "snapshot list \<Rightarrow> int" where
  "paid_part allocs \<equiv> sum_where (\<lambda>(g, k). led_kind g = Some Paid) snd allocs"

abbreviation unpaid_part :: "snapshot list \<Rightarrow> int" where
  "unpaid_part snaps \<equiv> sum_where (\<lambda>(g, k). led_kind g \<noteq> Some Paid) snd snaps"

lemma allocate_loop_paid_cap:
  "0 \<le> cap \<Longrightarrow> paid_part (fst (allocate_loop snaps cap n)) \<le> cap"
  by (rule allocate_loop_cases [where P = "\<lambda>snaps cap n r. 0 \<le> cap \<longrightarrow> paid_part (fst r) \<le> cap", rule_format])
    (auto simp: alloc_take_def alloc_cap_def min.coboundedI2)

text \<open>
  The allocation fails exactly when the amount exceeds what the free grants hold plus what the paid
  grants hold up to the paid balance.
\<close>

lemma parts_nonneg:
  "\<forall>x \<in> set snaps. 0 \<le> snd x \<Longrightarrow> 0 \<le> unpaid_part snaps \<and> 0 \<le> paid_part snaps"
  by (auto intro!: sum_where_nonneg)

lemma allocate_loop_left:
  assumes "\<forall>x \<in> set snaps. 0 \<le> snd x" "0 \<le> cap" "0 \<le> n"
  shows "snd (allocate_loop snaps cap n) = max 0 (n - (unpaid_part snaps + min cap (paid_part snaps)))"
  using assms
proof (induction snaps arbitrary: cap n)
  case (Cons x snaps)
  obtain g a where x: "x = (g, a)" by (cases x)
  have nn: "0 \<le> unpaid_part snaps" "0 \<le> paid_part snaps" "0 \<le> a"
    using Cons.prems(1) parts_nonneg [of snaps] x by auto
  let ?t = "alloc_take g a cap n"
  let ?c = "alloc_cap g ?t cap"
  have IH: "snd (allocate_loop snaps ?c (n - ?t)) =
      max 0 (n - ?t - (unpaid_part snaps + min ?c (paid_part snaps)))" if "0 < ?t"
    using that Cons.prems by (intro Cons.IH) (auto simp: alloc_take_def alloc_cap_def)
  show ?case
  proof (cases "n = 0 \<or> ?t \<le> 0")
    case True
    with Cons nn x show ?thesis
      by (auto simp: allocate_loop_Cons Let_def alloc_take_def min_def max_def split: if_splits)
  next
    case False
    with IH Cons.prems nn x show ?thesis
      by (auto simp: allocate_loop_Cons Let_def alloc_take_def alloc_cap_def min_def max_def)
  qed
qed simp

text \<open>Order of consumption: a grant that is not paid is used up before any later grant is touched.\<close>

lemma allocate_loop_zero [simp]: "allocate_loop ys cap 0 = ([], 0)"
  by (cases ys) (auto simp: allocate_loop_Cons)

lemma allocate_loop_priority:
  assumes "distinct (map fst (xs @ (g, a) # ys))" and "led_kind g \<noteq> Some Paid" and "0 < a" and "0 \<le> n"
    and "(h, k) \<in> set (fst (allocate_loop (xs @ (g, a) # ys) cap n))" and "h \<in> fst ` set ys"
  shows "(g, a) \<in> set (fst (allocate_loop (xs @ (g, a) # ys) cap n))"
  using assms
proof (induction xs arbitrary: cap n)
  case Nil
  have "h \<noteq> g" using Nil.prems(1,6) by auto
  with Nil show ?case
    by (cases "n \<le> a") (auto simp: allocate_loop_Cons Let_def alloc_take_def min_def split: if_splits)
next
  case (Cons x xs)
  obtain g' a' where x: "x = (g', a')" by (cases x)
  have h: "h \<noteq> g'" using Cons.prems(1,6) x by auto
  let ?t = "alloc_take g' a' cap n"
  show ?case
  proof (cases "n = 0 \<or> ?t \<le> 0")
    case True
    with Cons x show ?thesis by (auto simp: allocate_loop_Cons Let_def)
  next
    case False
    have "(g, a) \<in> set (fst (allocate_loop (xs @ (g, a) # ys) (alloc_cap g' ?t cap) (n - ?t)))"
      using Cons.prems False h x
      by (intro Cons.IH) (auto simp: allocate_loop_Cons Let_def alloc_take_def)
    with False x show ?thesis by (simp add: allocate_loop_Cons Let_def)
  qed
qed

end
