(* ===== verification/Credits_Inv.thy ===== *)
theory Credits_Inv
  imports Credits_Laws
begin

text \<open>
  The invariant of the credit tables and its preservation. \<open>ledger_ok\<close> says that ids are unique,
  that amounts have the sign their entry type promises, that no grant is used beyond its amount,
  and that every usage entry is exactly covered by allocations to grants of the same user.
\<close>

named_theorems ledger_intros \<open>preservation of the ledger invariant\<close>

section \<open>The invariant\<close>

definition used_of :: "uid \<Rightarrow> db \<Rightarrow> int" where
  "used_of g s = sum_where (\<lambda>x. use_grant x = g) use_amount (usages s)"

definition allocated_of :: "uid \<Rightarrow> db \<Rightarrow> int" where
  "allocated_of u s = sum_where (\<lambda>x. use_usage x = u) use_amount (usages s)"

definition entry_ok :: "db \<Rightarrow> ledger_row \<Rightarrow> bool" where
  "entry_ok s r \<longleftrightarrow> (case led_type r of
       Grant \<Rightarrow> led_kind r \<noteq> None \<and> 0 < led_amount r \<and> used_of (led_id r) s \<le> led_amount r
     | Usage \<Rightarrow> 0 < led_amount r \<and> allocated_of (led_id r) s = led_amount r
     | Refund_Recovery \<Rightarrow> 0 \<le> led_amount r
     | Adjustment \<Rightarrow> True)"

definition usage_ok :: "db \<Rightarrow> usage_row \<Rightarrow> bool" where
  "usage_ok s x \<longleftrightarrow> 0 < use_amount x \<and>
     (\<exists>g \<in> set (ledger s). \<exists>u \<in> set (ledger s). led_id g = use_grant x \<and> led_type g = Grant \<and>
        led_id u = use_usage x \<and> led_type u = Usage \<and> led_user g = led_user u)"

definition ledger_ok :: "db \<Rightarrow> bool" where
  "ledger_ok s \<longleftrightarrow>
     distinct (map led_id (ledger s)) \<and>
     (\<forall>r \<in> set (ledger s). entry_ok s r) \<and>
     (\<forall>x \<in> set (usages s). usage_ok s x) \<and>
     distinct (map rsv_id (reservations s)) \<and> distinct (map rsv_ref (reservations s)) \<and>
     (\<forall>r \<in> set (reservations s). 0 < rsv_amount r) \<and>
     (\<forall>r \<in> set (refunds s). 0 \<le> rf_locked r \<and> 0 \<le> rf_recovery r)"

lemma ledger_okD:
  assumes "ledger_ok s"
  shows "distinct (map led_id (ledger s))"
    and "r \<in> set (ledger s) \<Longrightarrow> entry_ok s r"
    and "x \<in> set (usages s) \<Longrightarrow> usage_ok s x"
    and "distinct (map rsv_id (reservations s))" and "distinct (map rsv_ref (reservations s))"
    and "v \<in> set (reservations s) \<Longrightarrow> 0 < rsv_amount v"
    and "f \<in> set (refunds s) \<Longrightarrow> 0 \<le> rf_locked f \<and> 0 \<le> rf_recovery f"
  using assms unfolding ledger_ok_def by auto

lemma ledger_ok_empty [simp]: "ledger_ok empty_db"
  by (simp add: ledger_ok_def empty_db_def)

lemma entry_ok_cong: "usages s' = usages s \<Longrightarrow> entry_ok s' r = entry_ok s r"
  by (simp add: entry_ok_def used_of_def allocated_of_def split: ledger_type.splits)

lemma ledger_ok_cong:
  assumes "ledger s' = ledger s" "usages s' = usages s" "reservations s' = reservations s"
    and "refunds s' = refunds s"
  shows "ledger_ok s' = ledger_ok s"
proof -
  have "entry_ok s' r = entry_ok s r" for r by (rule entry_ok_cong) (fact assms(2))
  moreover have "usage_ok s' x = usage_ok s x" for x by (simp only: usage_ok_def assms(1))
  ultimately show ?thesis by (simp only: ledger_ok_def assms)
qed

section \<open>Extending the tables\<close>

text \<open>No usage refers to an id that is not in the ledger.\<close>

lemma fresh_unused:
  assumes "ledger_ok s" "i \<notin> led_id ` set (ledger s)"
  shows "used_of i s = 0" and "allocated_of i s = 0"
  unfolding used_of_def allocated_of_def
  using assms ledger_okD(3) [OF assms(1)]
  by (force intro!: sum_where_False simp: usage_ok_def)+

lemma ledger_ok_add_entry:
  assumes ok: "ledger_ok s" and fresh: "led_id r \<notin> led_id ` set (ledger s)"
    and t: "led_type r \<noteq> Usage"
    and a: "led_type r = Grant \<Longrightarrow> led_kind r \<noteq> None \<and> 0 < led_amount r" "led_type r = Refund_Recovery \<Longrightarrow> 0 \<le> led_amount r"
  shows "ledger_ok (s\<lparr>ledger := ledger s @ [r]\<rparr>)"
proof -
  let ?s = "s\<lparr>ledger := ledger s @ [r]\<rparr>"
  have e: "entry_ok ?s q = entry_ok s q" for q by (rule entry_ok_cong) simp
  have "entry_ok s r"
    using t a fresh_unused(1) [OF ok fresh] by (auto simp: entry_ok_def split: ledger_type.splits)
  moreover have "usage_ok ?s x" if "x \<in> set (usages s)" for x
    using ledger_okD(3) [OF ok that] by (auto simp: usage_ok_def)
  ultimately show ?thesis
    using ok fresh by (auto simp: ledger_ok_def e)
qed

lemma ledger_ok_reservations:
  assumes "ledger_ok s"
    and "distinct (map rsv_id rs)" "distinct (map rsv_ref rs)" "\<forall>r \<in> set rs. 0 < rsv_amount r"
  shows "ledger_ok (s\<lparr>reservations := rs\<rparr>)"
proof -
  have "entry_ok (s\<lparr>reservations := rs\<rparr>) q = entry_ok s q" for q by (rule entry_ok_cong) simp
  then show ?thesis using assms by (auto simp: ledger_ok_def usage_ok_def)
qed

lemma ledger_ok_refunds:
  assumes "ledger_ok s" and "\<forall>f \<in> set rs. 0 \<le> rf_locked f \<and> 0 \<le> rf_recovery f"
  shows "ledger_ok (s\<lparr>refunds := rs\<rparr>)"
proof -
  have "entry_ok (s\<lparr>refunds := rs\<rparr>) q = entry_ok s q" for q by (rule entry_ok_cong) simp
  then show ?thesis using assms by (auto simp: ledger_ok_def usage_ok_def)
qed

lemma ledger_ok_update_reservations [ledger_intros]:
  "ledger_ok s \<Longrightarrow> ledger_ok (update_reservations p (set_status now st) s)"
  unfolding update_reservations_def
  by (rule ledger_ok_reservations)
    (auto simp: set_status_def set_update_where dest: ledger_okD split: if_splits)

section \<open>Allocations respect the invariant\<close>

lemma grant_rows_set [simp]:
  "set (grant_rows u s) = {r \<in> set (ledger s). led_user r = u \<and> led_type r = Grant}"
  by (simp add: grant_rows_def)

lemma distinct_grant_rows: "distinct (map led_id (ledger s)) \<Longrightarrow> distinct (grant_rows u s)"
  by (simp add: grant_rows_def distinct_map)

lemma lookup_usage_sums:
  assumes "g \<in> set (ledger s)" "led_user g = u"
  shows "lookup0 (usage_sums u s) (led_id g) = used_of (led_id g) s"
proof -
  have "list_ex (\<lambda>l. led_id l = use_grant x \<and> led_user l = u) (ledger s)"
    if "use_grant x = led_id g" for x
    using assms that by (auto simp: list_ex_iff)
  then show ?thesis by (auto simp: usage_sums_def used_of_def intro!: sum_where_cong)
qed

lemma sums_nonneg:
  assumes "ledger_ok s"
  shows "0 \<le> lookup0 (recovery_sums u s) p" and "0 \<le> lookup0 (lock_sums u s) p"
  using ledger_okD(2,7) [OF assms]
  by (force simp: recovery_sums_def lock_sums_def entry_ok_def intro!: sum_where_nonneg)+

lemma grant_state_snapshot:
  assumes ok: "ledger_ok s" and "(g, a) \<in> set (fst (grant_state now u incl s))"
  shows "g \<in> set (ledger s)" and "led_user g = u" and "led_type g = Grant"
    and "0 \<le> a" and "a \<le> led_amount g - used_of (led_id g) s"
proof -
  have *: "(g, a) \<in> set (fst (snapshot_loop now (usage_sums u s) incl (recovery_sums u s) (lock_sums u s)
      (grant_rows u s)))"
    using assms(2) by (simp add: grant_state_def case_prod_beta)
  note b = snapshot_loop_bounds [OF * sums_nonneg [OF ok]]
  from b show g: "g \<in> set (ledger s)" "led_user g = u" "led_type g = Grant" "0 \<le> a" by auto
  have "used_of (led_id g) s \<le> led_amount g"
    using ledger_okD(2) [OF ok g(1)] g(3) by (simp add: entry_ok_def)
  with b lookup_usage_sums [OF g(1,2)] show "a \<le> led_amount g - used_of (led_id g) s"
    by (auto simp: grant_available_def split: if_splits)
qed

lemma grant_state_grants [simp]: "map fst (fst (grant_state now u incl s)) = grant_rows u s"
  by (simp add: grant_state_def case_prod_beta)

lemma grant_state_nonneg:
  "ledger_ok s \<Longrightarrow> \<forall>x \<in> set (fst (grant_state now u incl s)). 0 \<le> snd x"
  using grant_state_snapshot(4) by fastforce

definition good_allocation :: "uid \<Rightarrow> int \<Rightarrow> db \<Rightarrow> snapshot list \<Rightarrow> bool" where
  "good_allocation u n s allocs \<longleftrightarrow>
     taken allocs = n \<and> distinct (map fst allocs) \<and>
     (\<forall>(g, k) \<in> set allocs. g \<in> set (ledger s) \<and> led_user g = u \<and> led_type g = Grant \<and>
        0 < k \<and> k \<le> led_amount g - used_of (led_id g) s)"

lemma allocate_usage_good:
  assumes ok: "ledger_ok s" and "0 < n" and a: "allocate_usage now u n s = Inr allocs"
  shows "good_allocation u n s allocs"
proof -
  let ?snaps = "fst (grant_state now u True s)"
  let ?cap = "max 0 (paid_balance (balance_breakdown now u s))"
  have al: "allocs = fst (allocate_loop ?snaps ?cap n)" and "\<not> 0 < snd (allocate_loop ?snaps ?cap n)"
    using a by (auto simp: allocate_usage_def case_prod_beta split: if_splits)
  then have "snd (allocate_loop ?snaps ?cap n) = 0"
    using allocate_loop_left_nonneg [of n ?snaps ?cap] assms(2) by linarith
  then have "taken allocs = n" using allocate_loop_sum [of ?snaps ?cap n] al by simp
  moreover have "distinct (map fst allocs)"
    unfolding al using distinct_grant_rows ledger_okD(1) [OF ok] by (intro allocate_loop_distinct) simp
  moreover have "g \<in> set (ledger s) \<and> led_user g = u \<and> led_type g = Grant \<and> 0 < k \<and>
      k \<le> led_amount g - used_of (led_id g) s" if "(g, k) \<in> set allocs" for g k
    using allocate_loop_bounds [OF that [unfolded al]] grant_state_snapshot [OF ok] by fastforce
  ultimately show ?thesis by (auto simp: good_allocation_def)
qed

section \<open>Writing a usage\<close>

definition usage_row_of :: "uid \<Rightarrow> snapshot \<Rightarrow> usage_row" where
  "usage_row_of i = (\<lambda>(g, n). \<lparr>use_usage = i, use_grant = led_id g, use_amount = n\<rparr>)"

lemma usage_row_of_simps [simp]:
  "use_usage (usage_row_of i x) = i"
  "use_grant (usage_row_of i x) = led_id (fst x)"
  "use_amount (usage_row_of i x) = snd x"
  by (simp_all add: usage_row_of_def split: prod.splits)

lemma write_usage_state:
  assumes "write_usage row allocs s = Inr s'"
  shows "s' = s\<lparr>ledger := ledger s @ [row], usages := usages s @ map (usage_row_of (led_id row)) allocs\<rparr>"
    and "led_id row \<notin> led_id ` set (ledger s)"
    and "unique_opt (led_ref row) (map led_ref (ledger s))"
  using assms by (auto simp: write_usage_def res_simps usage_row_of_def split: if_splits prod.splits)

lemma sum_alloc_grant:
  assumes "distinct (map fst allocs)" "\<forall>(g, k) \<in> set allocs. g \<in> G" "inj_on led_id G" "g \<in> G"
  shows "sum_where (\<lambda>x. use_grant x = led_id g) use_amount (map (usage_row_of i) allocs)
       = lookup0 allocs g"
  using assms
proof (induction allocs)
  case (Cons x xs)
  obtain h k where x: "x = (h, k)" by (cases x)
  have "led_id h = led_id g \<longleftrightarrow> h = g" using Cons.prems x by (auto dest: inj_onD)
  moreover have "g = h \<Longrightarrow> lookup0 xs g = 0"
    using Cons.prems(1) x by (intro lookup0_notin) auto
  ultimately show ?case using Cons x by (auto simp: lookup0_Cons)
qed simp

lemma lookup0_bound:
  "(\<And>k. (g, k) \<in> set al \<Longrightarrow> k \<le> b) \<Longrightarrow> 0 \<le> b \<Longrightarrow> lookup0 al g \<le> b"
  by (auto simp: lookup0_def split: option.splits dest: map_of_SomeD)

lemma ledger_ok_write_usage:
  assumes ok: "ledger_ok s" and w: "write_usage row allocs s = Inr s'"
    and row: "led_type row = Usage" "led_amount row = n" "0 < n"
    and good: "good_allocation (led_user row) n s allocs"
  shows "ledger_ok s'"
proof -
  note st = write_usage_state [OF w]
  let ?new = "map (usage_row_of (led_id row)) allocs"
  have inj: "inj_on led_id (set (ledger s))" using ledger_okD(1) [OF ok] by (simp add: distinct_map)
  have alloc: "g \<in> set (ledger s) \<and> led_user g = led_user row \<and> led_type g = Grant \<and> 0 < k \<and>
      k \<le> led_amount g - used_of (led_id g) s" if "(g, k) \<in> set allocs" for g k
    using good that by (auto simp: good_allocation_def)
  have used: "used_of (led_id g) s' \<le> led_amount g" if g: "g \<in> set (ledger s)" "led_type g = Grant" for g
  proof -
    have "used_of (led_id g) s \<le> led_amount g"
      using ledger_okD(2) [OF ok g(1)] g(2) by (simp add: entry_ok_def)
    then have "lookup0 allocs g \<le> led_amount g - used_of (led_id g) s"
      using alloc by (intro lookup0_bound) auto
    moreover have "used_of (led_id g) s' = used_of (led_id g) s + lookup0 allocs g"
      using sum_alloc_grant [of allocs "set (ledger s)" g "led_id row"] good inj g(1)
      by (auto simp: st(1) used_of_def good_allocation_def)
    ultimately show ?thesis by simp
  qed
  have old: "allocated_of (led_id q) s' = allocated_of (led_id q) s" if "q \<in> set (ledger s)" for q
    using st(2) that by (auto simp: st(1) allocated_of_def intro!: sum_where_False)
  have "sum_where (\<lambda>x. use_usage x = led_id row) use_amount ?new = taken allocs"
    by (induction allocs) auto
  then have new: "allocated_of (led_id row) s' = n"
    using good fresh_unused(2) [OF ok st(2)]
    by (simp add: st(1) allocated_of_def good_allocation_def)
  have "entry_ok s' q" if "q \<in> set (ledger s')" for q
  proof (cases "q = row")
    case True
    with row new show ?thesis by (simp add: entry_ok_def)
  next
    case False
    with that have q: "q \<in> set (ledger s)" by (simp add: st(1))
    with ledger_okD(2) [OF ok q] used [OF q] old [OF q] show ?thesis
      by (auto simp: entry_ok_def split: ledger_type.splits)
  qed
  moreover have "usage_ok s' x" if "x \<in> set (usages s')" for x
  proof (cases "x \<in> set (usages s)")
    case True
    from ledger_okD(3) [OF ok this] show ?thesis by (auto simp: usage_ok_def st(1))
  next
    case False
    with that obtain g k where "(g, k) \<in> set allocs" "x = usage_row_of (led_id row) (g, k)"
      by (auto simp: st(1))
    with alloc row(1) show ?thesis by (fastforce simp: usage_ok_def st(1))
  qed
  ultimately show ?thesis
    using ok st(2) by (auto simp: ledger_ok_def st(1))
qed

section \<open>Every operation keeps the invariant\<close>

lemma ledger_ok_ins_reservation:
  assumes "ledger_ok s" "ins_reservation row s = Inr (r, s')" "0 < rsv_amount row"
  shows "ledger_ok s'"
  using assms ledger_okD(4-6) [OF assms(1)]
  by (auto simp: res_simps intro!: ledger_ok_reservations)

lemma reserve_tx_ok [ledger_intros]:
  "ledger_ok s \<Longrightarrow> reserve_tx now rid u act reference expires s = Inr (r, s') \<Longrightarrow> ledger_ok s'"
  by (cases act) (auto simp: reserve_tx_def Let_def bindR_Inr_iff ensure_Inr_iff
      split: option.splits if_splits intro: ledger_ok_ins_reservation)

lemma reserve_credits_ok [ledger_intros]:
  "ledger_ok s \<Longrightarrow> reserve_credits now rid ru u act reference expires s = Inr (r, s') \<Longrightarrow> ledger_ok s'"
  unfolding reserve_credits_def by (rule reserve_tx_ok)

lemma find_reservation_in:
  "find_reservation s ref = Some r \<Longrightarrow> r \<in> set (reservations s) \<and> rsv_ref r = ref"
  unfolding find_reservation_def by (rule find_in_set)

text \<open>The three ways a capture can succeed.\<close>

lemma capture_in_tx_elim:
  assumes "capture_in_tx now lid ref s = Inr ((expired, r'), s')"
  obtains (again) r where "find_reservation s ref = Some r" "rsv_status r = Captured"
      "expired = False" "r' = r" "s' = s"
  | (lapsed) r where "find_reservation s ref = Some r" "rsv_status r = Reserved" "expired_at now r"
      "expired = True" "r' = set_status now Released r"
      "s' = update_reservations (\<lambda>x. rsv_id x = rsv_id r) (set_status now Released) s"
  | (charged) r allocs row s1 where "find_reservation s ref = Some r" "rsv_status r = Reserved"
      "\<not> expired_at now r" "allocate_usage now (rsv_user r) (rsv_amount r) s = Inr allocs"
      "row = \<lparr>led_id = lid, led_user = rsv_user r, led_type = Usage, led_kind = None,
               led_purchase = None, led_promo = None, led_amount = rsv_amount r,
               led_expires = None, led_reason = rsv_action r,
               led_ref = Some (''credit_reservation:'' @ rsv_id r), led_created = now\<rparr>"
      "write_usage row allocs s = Inr s1" "expired = False" "r' = set_status now Captured r"
      "s' = update_reservations (\<lambda>x. rsv_id x = rsv_id r) (set_status now Captured) s1"
proof -
  obtain r where r: "find_reservation s ref = Some r"
    using assms by (auto simp: capture_in_tx_def bindR_Inr_iff require_some_Inr_iff)
  show ?thesis
  proof (cases "rsv_status r")
    case Reserved
    show ?thesis
    proof (cases "expired_at now r")
      case True
      with assms r Reserved show ?thesis by (intro lapsed) (auto simp: capture_in_tx_def)
    next
      case False
      from assms r Reserved False obtain allocs where a: "allocate_usage now (rsv_user r) (rsv_amount r) s = Inr allocs"
        by (auto simp: capture_in_tx_def bindR_Inr_iff)
      with assms r Reserved False obtain s1 where
        "write_usage
           \<lparr>led_id = lid, led_user = rsv_user r, led_type = Usage, led_kind = None,
            led_purchase = None, led_promo = None, led_amount = rsv_amount r,
            led_expires = None, led_reason = rsv_action r,
            led_ref = Some (''credit_reservation:'' @ rsv_id r), led_created = now\<rparr> allocs s = Inr s1"
        "expired = False" "r' = set_status now Captured r"
        "s' = update_reservations (\<lambda>x. rsv_id x = rsv_id r) (set_status now Captured) s1"
        by (auto simp: capture_in_tx_def bindR_Inr_iff)
      with r Reserved False a show ?thesis by (intro charged) (rule refl | assumption)+
    qed
  next
    case Captured
    with assms r show ?thesis by (intro again) (auto simp: capture_in_tx_def)
  next
    case Released
    with assms r show ?thesis by (auto simp: capture_in_tx_def)
  qed
qed

lemma capture_in_tx_ok [ledger_intros]:
  assumes ok: "ledger_ok s" and c: "capture_in_tx now lid ref s = Inr (x, s')"
  shows "ledger_ok s'"
proof -
  obtain expired r' where x: "x = (expired, r')" by (cases x)
  from c [unfolded x] show ?thesis
  proof (cases rule: capture_in_tx_elim)
    case (charged r allocs row s1)
    have n: "0 < rsv_amount r"
      using charged(1) find_reservation_in ledger_okD(6) [OF ok] by blast
    have "ledger_ok s1"
      using charged(5) allocate_usage_good [OF ok n charged(4)] n
      by (intro ledger_ok_write_usage [OF ok charged(6), of "rsv_amount r"]) simp_all
    with charged(9) show ?thesis by (simp add: ledger_ok_update_reservations)
  qed (simp_all add: ok ledger_ok_update_reservations)
qed

lemma capture_with_client_ok [ledger_intros]:
  "ledger_ok s \<Longrightarrow> capture_with_client now lid ref s = Inr (x, s') \<Longrightarrow> ledger_ok s'"
  by (auto simp: capture_with_client_def bindR_Inr_iff split: prod.splits if_splits intro: capture_in_tx_ok)

lemma capture_reservation_ok [ledger_intros]:
  "ledger_ok s \<Longrightarrow> ledger_ok (snd (capture_reservation now lid ref s))"
  by (auto simp: capture_reservation_def commit_def bindR_def
      split: sum.splits prod.splits intro: capture_in_tx_ok)

lemma release_in_tx_ok [ledger_intros]:
  "ledger_ok s \<Longrightarrow> release_in_tx now ref s = Inr (x, s') \<Longrightarrow> ledger_ok s'"
  by (auto simp: release_in_tx_def res_simps Let_def split: if_splits list.splits
      intro: ledger_ok_update_reservations)

definition grant_kind :: "grant_input \<Rightarrow> credit_kind" where
  "grant_kind inp = (case gi_kind inp of None \<Rightarrow> Free | Some k \<Rightarrow> k)"

text \<open>A grant either finds its reference already granted or adds one entry.\<close>

lemma grant_with_client_elim:
  assumes "grant_with_client now lid inp s = Inr (r, s')"
  obtains (again) n existing where "gi_amount inp = Js_Int n" "0 < n" "truthy (gi_ref inp)"
      "find (\<lambda>r. led_ref r = gi_ref inp) (ledger s) = Some existing"
      "led_user existing = gi_user inp" "led_type existing = Grant" "led_amount existing = n"
      "led_kind existing = Some (grant_kind inp)" "led_purchase existing = gi_purchase inp"
      "trimmed (gi_reason inp) \<noteq> None" "grant_kind inp = Paid \<longrightarrow> truthy (gi_purchase inp)"
      "truthy (gi_promo inp) \<longrightarrow> truthy (gi_purchase inp)"
      "r = to_record existing" "s' = s"
  | (added) n why row where "gi_amount inp = Js_Int n" "0 < n" "trimmed (gi_reason inp) = Some why"
      "grant_kind inp = Paid \<longrightarrow> truthy (gi_purchase inp)"
      "truthy (gi_promo inp) \<longrightarrow> truthy (gi_purchase inp)"
      "truthy (gi_ref inp) \<longrightarrow> find (\<lambda>r. led_ref r = gi_ref inp) (ledger s) = None"
      "row = \<lparr>led_id = lid, led_user = gi_user inp, led_type = Grant, led_kind = Some (grant_kind inp),
               led_purchase = gi_purchase inp, led_promo = gi_promo inp, led_amount = n,
               led_expires = (case gi_expires inp of
                   Some t \<Rightarrow> Some t
                 | None \<Rightarrow> if grant_kind inp = Free then Some (free_credit_expiry now) else None),
               led_reason = why, led_ref = gi_ref inp, led_created = now\<rparr>"
      "ins_ledger row s = Inr (row, s')" "r = to_record row"
proof -
  obtain n where n: "gi_amount inp = Js_Int n"
    using assms by (cases "gi_amount inp") (auto simp: grant_with_client_def)
  obtain why where why: "trimmed (gi_reason inp) = Some why"
    using assms n by (cases "trimmed (gi_reason inp)") (auto simp: grant_with_client_def)
  note g = assms [unfolded grant_with_client_def Let_def grant_kind_def [symmetric], simplified n why]
  show ?thesis
  proof (cases "truthy (gi_ref inp)")
    case False
    with g n why show ?thesis
      by (auto simp: bindR_Inr_iff ensure_Inr_iff ins_ledger_Inr_iff intro!: added)
  next
    case True
    show ?thesis
    proof (cases "find (\<lambda>r. led_ref r = gi_ref inp) (ledger s)")
      case None
      with True g n why show ?thesis
        by (auto simp: bindR_Inr_iff ensure_Inr_iff ins_ledger_Inr_iff intro!: added)
    next
      case (Some existing)
      with True g n why show ?thesis
        by (auto simp: bindR_Inr_iff ensure_Inr_iff intro!: again)
    qed
  qed
qed

lemma grant_with_client_ok [ledger_intros]:
  assumes "ledger_ok s" "grant_with_client now lid inp s = Inr (r, s')"
  shows "ledger_ok s'"
  using assms(2)
proof (cases rule: grant_with_client_elim)
  case (added n why row)
  with assms(1) show ?thesis
    by (auto simp: ins_ledger_Inr_iff intro!: ledger_ok_add_entry)
qed (simp add: assms(1))

lemma grant_signup_bonus_ok [ledger_intros]:
  "ledger_ok s \<Longrightarrow> grant_signup_bonus now lid u s = Inr (r, s') \<Longrightarrow> ledger_ok s'"
  unfolding grant_signup_bonus_def grant_credits_def by (rule grant_with_client_ok)

lemma spend_credits_elim:
  assumes "spend_credits now lid u amount reason s = Inr (r, s')"
  obtains n why allocs row where "amount = Js_Int n" "trimmed reason = Some why" "0 < n"
    "\<not> paid_balance (balance_breakdown now u s) < 0"
    "n \<le> available_balance (balance_breakdown now u s)"
    "allocate_usage now u n s = Inr allocs"
    "row = \<lparr>led_id = lid, led_user = u, led_type = Usage, led_kind = None,
             led_purchase = None, led_promo = None, led_amount = n, led_expires = None,
             led_reason = why, led_ref = None, led_created = now\<rparr>"
    "write_usage row allocs s = Inr s'" "r = to_record row"
proof -
  obtain n where n: "amount = Js_Int n"
    using assms by (cases amount) (auto simp: spend_credits_def)
  obtain why where why: "trimmed reason = Some why"
    using assms n by (cases "trimmed reason") (auto simp: spend_credits_def)
  show ?thesis
    using assms n why
    by (auto simp: spend_credits_def bindR_Inr_iff ensure_Inr_iff Let_def split: if_splits intro!: that)
qed

lemma spend_credits_ok [ledger_intros]:
  assumes ok: "ledger_ok s" and sp: "spend_credits now lid u amount reason s = Inr (r, s')"
  shows "ledger_ok s'"
  using sp
proof (cases rule: spend_credits_elim)
  case (1 n why allocs row)
  then show ?thesis
    by (intro ledger_ok_write_usage [OF ok \<open>write_usage row allocs s = Inr s'\<close>, of n])
      (simp_all add: allocate_usage_good [OF ok])
qed

lemma record_refund_recovery_ok [ledger_intros]:
  "ledger_ok s \<Longrightarrow> 0 \<le> amount \<Longrightarrow>
   record_refund_recovery now lid u p amount rf reason s = Inr (r, s') \<Longrightarrow> ledger_ok s'"
  by (auto simp: record_refund_recovery_def res_simps intro!: ledger_ok_add_entry)

end
