(* ===== verification/Credits_Balance.thy ===== *)
theory Credits_Balance
  imports Credits_Inv
begin

text \<open>
  The accounting equations of the credit service: what each operation does to the paid, the free
  and the available balance of a user. They rest on one fact about the snapshot loop: taking credits
  from a grant lowers the availability of that grant, by that amount, and of no other.
\<close>

section \<open>Snapshots after a usage\<close>

lemma snapshot_loop_spend:
  assumes "\<And>g. g \<in> set gs \<Longrightarrow> lookup0 used' (led_id g) = lookup0 used (led_id g) + k g"
    and "\<And>g a. (g, a) \<in> set (fst (snapshot_loop now used incl recs locks gs)) \<Longrightarrow> 0 \<le> k g \<and> k g \<le> a"
    and "\<And>p. 0 \<le> lookup0 recs p" "\<And>p. 0 \<le> lookup0 locks p"
  shows "snapshot_loop now used' incl recs locks gs =
     (map (\<lambda>(g, a). (g, a - k g)) (fst (snapshot_loop now used incl recs locks gs)),
      snd (snapshot_loop now used incl recs locks gs))"
  using assms
proof (induction gs arbitrary: recs locks)
  case (Cons h gs)
  let ?b = "grant_available now used h"
  let ?b' = "grant_available now used' h"
  have u: "lookup0 used' (led_id h) = lookup0 used (led_id h) + k h" using Cons.prems(1) by simp
  show ?case
  proof (cases "led_purchase h")
    case None
    have "0 \<le> k h \<and> k h \<le> ?b"
      using Cons.prems(2) [of h ?b] None by (auto simp: Let_def case_prod_beta)
    then have "?b' = ?b - k h" using u by (auto simp: grant_available_def split: if_splits)
    moreover have "snapshot_loop now used' incl recs locks gs =
       (map (\<lambda>(g, a). (g, a - k g)) (fst (snapshot_loop now used incl recs locks gs)),
        snd (snapshot_loop now used incl recs locks gs))"
      using Cons.prems None by (intro Cons.IH) (auto simp: Let_def case_prod_beta)
    ultimately show ?thesis using None by (simp add: Let_def case_prod_beta)
  next
    case (Some p)
    let ?R = "lookup0 recs p"
    let ?L = "lookup0 locks p"
    let ?av1 = "?b - min ?b ?R"
    let ?lk = "if incl then min ?av1 ?L else 0"
    let ?recs1 = "AList.update p (?R - min ?b ?R) recs"
    let ?locks1 = "if incl then AList.update p (?L - ?lk) locks else locks"
    have loop: "snapshot_loop now used incl recs locks (h # gs) =
        ((h, ?av1 - ?lk) # fst (snapshot_loop now used incl ?recs1 ?locks1 gs),
         snd (snapshot_loop now used incl ?recs1 ?locks1 gs))"
      using Some by (simp add: Let_def case_prod_beta)
    have R: "0 \<le> ?R" "0 \<le> ?L" using Cons.prems by auto
    have k: "0 \<le> k h" "k h \<le> ?av1 - ?lk" using Cons.prems(2) loop by auto
    have bk: "?b' = ?b - k h"
      using u k R by (auto simp: grant_available_def min_def max_def split: if_splits)
    have same: "min ?b' ?R = min ?b ?R"
      "(if incl then min (?b' - min ?b ?R) ?L else 0) = ?lk"
      using k R bk by (auto simp: min_def split: if_splits)
    have rest: "snapshot_loop now used' incl ?recs1 ?locks1 gs =
       (map (\<lambda>(g, a). (g, a - k g)) (fst (snapshot_loop now used incl ?recs1 ?locks1 gs)),
        snd (snapshot_loop now used incl ?recs1 ?locks1 gs))"
      using Cons.prems loop R by (intro Cons.IH) (auto simp: min_def)
    have step: "snapshot_loop now used' incl recs locks (h # gs) =
        ((h, ?b' - min ?b' ?R - ?lk) # fst (snapshot_loop now used' incl ?recs1 ?locks1 gs),
         snd (snapshot_loop now used' incl ?recs1 ?locks1 gs))"
      by (simp only: snapshot_loop.simps Some option.case Let_def case_prod_beta same fst_conv snd_conv)
    have head: "?b' - min ?b' ?R - ?lk = ?av1 - ?lk - k h" unfolding same(1) using bk by simp
    show ?thesis unfolding step loop head rest by simp
  qed
qed simp

lemma sum_lookup_superset:
  assumes "distinct gs" "distinct (map fst al)" "fst ` set al \<subseteq> set gs"
  shows "sum_list (map (\<lambda>g. if P g then lookup0 al g else 0) gs) = sum_where (\<lambda>(g, k). P g) snd al"
  using assms
proof (induction al)
  case Nil
  show ?case by (induction gs) auto
next
  case (Cons x al)
  obtain h k where x: "x = (h, k)" by (cases x)
  have h: "h \<in> set gs" "lookup0 al h = 0" using Cons.prems x by (auto intro: lookup0_notin)
  have split: "sum_list (map (\<lambda>g. if P g then lookup0 ((h, k) # al) g else 0) xs) =
      (if h \<in> set xs \<and> P h then k else 0) + sum_list (map (\<lambda>g. if P g then lookup0 al g else 0) xs)"
    if "distinct xs" for xs
    using that h(2) by (induction xs) (auto simp: lookup0_Cons)
  from Cons x h split [OF Cons.prems(1)] show ?case by auto
qed

lemma available_by_kind_shift:
  "available_by_kind (map (\<lambda>(g, a). (g, a - k g)) snaps) K =
   available_by_kind snaps K - sum_list (map (\<lambda>g. if led_kind g = Some K then k g else 0) (map fst snaps))"
  by (induction snaps) (auto simp: available_by_kind_def)

lemma write_usage_grant_state:
  assumes ok: "ledger_ok s" and w: "write_usage row allocs s = Inr s'" and t: "led_type row = Usage"
    and good: "good_allocation u n s allocs"
    and snaps: "\<And>g a. (g, a) \<in> set (fst (grant_state now u True s)) \<Longrightarrow> lookup0 allocs g \<le> a"
  shows "grant_state now u True s' =
    (map (\<lambda>(g, a). (g, a - lookup0 allocs g)) (fst (grant_state now u True s)),
     snd (grant_state now u True s))"
proof -
  note st = write_usage_state [OF w]
  have inj: "inj_on led_id (set (ledger s))" using ledger_okD(1) [OF ok] by (simp add: distinct_map)
  have same: "grant_rows u s' = grant_rows u s" "recovery_sums u s' = recovery_sums u s"
    "lock_sums u s' = lock_sums u s"
    using t by (auto simp: st(1) grant_rows_def recovery_sums_def lock_sums_def)
  have nn: "0 \<le> lookup0 allocs g" for g
    using good by (auto simp: lookup0_def good_allocation_def split: option.splits dest!: map_of_SomeD)
  have used: "lookup0 (usage_sums u s') (led_id g) = lookup0 (usage_sums u s) (led_id g) + lookup0 allocs g"
    if "g \<in> set (grant_rows u s)" for g
  proof -
    from that have g: "g \<in> set (ledger s)" "led_user g = u" by auto
    then have g': "g \<in> set (ledger s')" by (simp add: st(1))
    have "used_of (led_id g) s' = used_of (led_id g) s + lookup0 allocs g"
      using sum_alloc_grant [of allocs "set (ledger s)" g "led_id row"] good inj g(1)
      by (auto simp: st(1) used_of_def good_allocation_def)
    then show ?thesis
      using lookup_usage_sums [OF g] lookup_usage_sums [OF g' g(2)] by simp
  qed
  show ?thesis
    using snapshot_loop_spend [of "grant_rows u s" "usage_sums u s'" "usage_sums u s" "lookup0 allocs" now True
        "recovery_sums u s" "lock_sums u s"] used nn snaps sums_nonneg [OF ok]
    by (simp add: grant_state_def same case_prod_beta)
qed

section \<open>Balances after a usage\<close>

lemma allocate_usage_snaps:
  assumes ok: "ledger_ok s" and a: "allocate_usage now u n s = Inr allocs"
    and m: "(g, a) \<in> set (fst (grant_state now u True s))"
  shows "lookup0 allocs g \<le> a"
proof -
  let ?snaps = "fst (grant_state now u True s)"
  have d: "distinct (map fst ?snaps)" using distinct_grant_rows ledger_okD(1) [OF ok] by simp
  show ?thesis
  proof (rule lookup0_bound)
    fix k assume "(g, k) \<in> set allocs"
    then obtain b where "(g, b) \<in> set ?snaps" "k \<le> b"
      using a allocate_loop_bounds [of g k ?snaps]
      by (auto simp: allocate_usage_def case_prod_beta split: if_splits)
    moreover have "a = b" by (rule eq_key_imp_eq_value [OF d m]) fact
    ultimately show "k \<le> a" by simp
  next
    show "0 \<le> a" using grant_state_snapshot(4) [OF ok m] .
  qed
qed

lemma balance_after_usage:
  assumes ok: "ledger_ok s" and n: "0 < n" and a: "allocate_usage now u n s = Inr allocs"
    and w: "write_usage row allocs s = Inr s'" and t: "led_type row = Usage"
  shows "paid_balance (balance_breakdown now u s') = paid_balance (balance_breakdown now u s) - paid_part allocs"
    and "free_balance (balance_breakdown now u s') = free_balance (balance_breakdown now u s) - (n - paid_part allocs)"
    and "0 \<le> paid_part allocs" and "paid_part allocs \<le> max 0 (paid_balance (balance_breakdown now u s))"
    and "reserved_sum now u s' = reserved_sum now u s"
proof -
  note st = write_usage_state [OF w]
  note good = allocate_usage_good [OF ok n a]
  let ?snaps = "fst (grant_state now u True s)"
  let ?cap = "max 0 (paid_balance (balance_breakdown now u s))"
  have gs: "grant_state now u True s' =
      (map (\<lambda>(g, a). (g, a - lookup0 allocs g)) ?snaps, snd (grant_state now u True s))"
    using write_usage_grant_state [OF ok w t good] allocate_usage_snaps [OF ok a] by blast
  have rows: "distinct (grant_rows u s)" "fst ` set allocs \<subseteq> set (grant_rows u s)" "distinct (map fst allocs)"
    using distinct_grant_rows ledger_okD(1) [OF ok] good by (auto simp: good_allocation_def)
  have kind: "available_by_kind (fst (grant_state now u True s')) K =
      available_by_kind ?snaps K - sum_where (\<lambda>(g, k). led_kind g = Some K) snd allocs" for K
    using sum_lookup_superset [OF rows(1,3,2), of "\<lambda>g. led_kind g = Some K"]
    by (simp add: gs available_by_kind_shift)
  have adj: "adjustment_sum u K s' = adjustment_sum u K s" for K
    using t by (simp add: st(1) adjustment_sum_def)
  have "sum_where (\<lambda>(g, k). led_kind g = Some Free) snd al + paid_part al = taken al"
    if "\<forall>(g, k) \<in> set al. led_kind g \<noteq> None" for al
    using that by (induction al) (auto intro: credit_kind.exhaust)
  moreover have "\<forall>(g, k) \<in> set allocs. led_kind g \<noteq> None"
    using good ledger_okD(2) [OF ok] by (fastforce simp: good_allocation_def entry_ok_def)
  ultimately have free: "sum_where (\<lambda>(g, k). led_kind g = Some Free) snd allocs = n - paid_part allocs"
    using good by (simp add: good_allocation_def eq_diff_eq)
  show "paid_balance (balance_breakdown now u s') = paid_balance (balance_breakdown now u s) - paid_part allocs"
    using kind [of Paid] adj by (simp add: balance_breakdown_def gs Let_def case_prod_beta)
  show "free_balance (balance_breakdown now u s') = free_balance (balance_breakdown now u s) - (n - paid_part allocs)"
    using kind [of Free] adj free by (simp add: balance_breakdown_def gs Let_def case_prod_beta)
  show "paid_part allocs \<le> ?cap"
    using a allocate_loop_paid_cap [of ?cap ?snaps n]
    by (auto simp: allocate_usage_def case_prod_beta split: if_splits)
  show "0 \<le> paid_part allocs"
    using good by (intro sum_where_nonneg) (auto simp: good_allocation_def)
  show "reserved_sum now u s' = reserved_sum now u s" by (simp add: st(1) reserved_sum_def)
qed

section \<open>Reservations and the available balance\<close>

lemma available_balance_eq:
  "available_balance (balance_breakdown now u s) =
     (if paid_balance (balance_breakdown now u s) < 0 then paid_balance (balance_breakdown now u s)
      else paid_balance (balance_breakdown now u s) + free_balance (balance_breakdown now u s)
             - reserved_sum now u s)"
  by (simp add: balance_breakdown_def Let_def case_prod_beta)

lemma balance_cong:
  assumes "ledger s' = ledger s" "usages s' = usages s" "refunds s' = refunds s" "purchases s' = purchases s"
  shows "paid_balance (balance_breakdown now u s') = paid_balance (balance_breakdown now u s)"
    and "free_balance (balance_breakdown now u s') = free_balance (balance_breakdown now u s)"
  using assms
  by (simp_all add: balance_breakdown_def grant_state_def grant_rows_def usage_sums_def recovery_sums_def
      lock_sums_def adjustment_sum_def Let_def case_prod_beta)

lemma reserved_sum_set_status:
  assumes "distinct (map rsv_id rs)" "r \<in> set rs" "st \<noteq> Reserved"
  shows "sum_where (\<lambda>x. rsv_user x = u \<and> active_reservation now x) rsv_amount
           (update_where (\<lambda>x. rsv_id x = rsv_id r) (set_status t st) rs) =
         sum_where (\<lambda>x. rsv_user x = u \<and> active_reservation now x) rsv_amount rs
           - (if rsv_user r = u \<and> active_reservation now r then rsv_amount r else 0)"
  using assms
proof (induction rs)
  case (Cons x rs)
  show ?case
  proof (cases "x = r")
    case True
    then have "rsv_id y \<noteq> rsv_id r" if "y \<in> set rs" for y
      using Cons.prems(1) that by (auto simp: image_iff)
    then have "update_where (\<lambda>x. rsv_id x = rsv_id r) (set_status t st) rs = rs"
      by (intro update_where_id) auto
    moreover have "\<not> active_reservation now (set_status t st r)"
      using assms(3) by (simp add: active_reservation_def set_status_def)
    ultimately show ?thesis unfolding True by simp
  next
    case False
    with Cons.prems have "r \<in> set rs" "rsv_id x \<noteq> rsv_id r" by (auto simp: image_iff)
    with Cons show ?thesis by simp
  qed
qed simp

lemma reserved_sum_nonneg: "ledger_ok s \<Longrightarrow> 0 \<le> reserved_sum now u s"
  unfolding reserved_sum_def by (intro sum_where_nonneg) (auto dest: ledger_okD(6) intro: less_imp_le)

text \<open>
  Charging a usage of \<open>n\<close> moves \<open>n\<close> credits out of the two balances together; a negative paid
  balance stays as it was, a non-negative one stays non-negative.
\<close>

lemma available_after_usage:
  assumes ok: "ledger_ok s" and n: "0 < n" and a: "allocate_usage now u n s = Inr allocs"
    and w: "write_usage row allocs s = Inr s'" and t: "led_type row = Usage"
  shows "paid_balance (balance_breakdown now u s') + free_balance (balance_breakdown now u s') =
           paid_balance (balance_breakdown now u s) + free_balance (balance_breakdown now u s) - n"
    and "0 \<le> paid_balance (balance_breakdown now u s) \<Longrightarrow> 0 \<le> paid_balance (balance_breakdown now u s')"
    and "paid_balance (balance_breakdown now u s) < 0 \<Longrightarrow>
           paid_balance (balance_breakdown now u s') = paid_balance (balance_breakdown now u s)"
    and "0 \<le> paid_balance (balance_breakdown now u s) \<Longrightarrow>
           available_balance (balance_breakdown now u s') = available_balance (balance_breakdown now u s) - n"
  using balance_after_usage [OF ok n a w t] by (simp_all add: available_balance_eq)

end
