(* ===== verification/Credits_Accounts.thy ===== *)
theory Credits_Accounts
  imports Credits_Balance "HOL-Library.Multiset"
begin

text \<open>
  Grants and recoveries move the sum of the paid and the free balance by exactly their amount,
  whatever debt the user has: a conservation law over all grants of the user. The inversion lemmas
  of reserve and release follow, and the equations every credit operation satisfies.
\<close>

section \<open>The sum of the balances\<close>

definition credit_total :: "time \<Rightarrow> uid \<Rightarrow> db \<Rightarrow> int" where
  "credit_total now u s =
     paid_balance (balance_breakdown now u s) + free_balance (balance_breakdown now u s)"

definition no_locks :: "uid \<Rightarrow> db \<Rightarrow> bool" where
  "no_locks u s \<longleftrightarrow> (\<forall>x \<in> set (lock_sums u s). snd x = 0)"

lemma no_locks_lookup: "no_locks u s \<Longrightarrow> lookup0 (lock_sums u s) p = 0"
  by (auto simp: no_locks_def lookup0_def split: option.splits dest!: map_of_SomeD)

lemma snapshot_loop_no_locks:
  assumes "\<And>p. lookup0 locks p = 0"
  shows "snapshot_loop now used True recs locks gs = snapshot_loop now used False recs [] gs"
  using assms
proof (induction gs arbitrary: recs locks)
  case (Cons h gs)
  have "lookup0 (AList.update p (lookup0 locks p - min a (lookup0 locks p)) locks) q = 0"
    if "0 \<le> a" for p q a using Cons.prems that by simp
  moreover have "0 \<le> grant_available now used h - min (grant_available now used h) r" for r
    by (simp add: min_def)
  ultimately show ?case
    using Cons by (simp add: Let_def case_prod_beta split: option.splits)
qed simp

lemma sum_by_kind:
  "\<forall>x \<in> set snaps. led_kind (fst x) \<noteq> None \<Longrightarrow>
   available_by_kind snaps Paid + available_by_kind snaps Free = sum_list (map snd snaps)"
  by (induction snaps) (auto simp: available_by_kind_def intro: credit_kind.exhaust)

lemma sum_list_sort_key: "sum_list (map f (sort_key k xs)) = (sum_list (map f xs) :: int)"
  by (metis mset_map mset_sort sum_mset_sum_list)

definition unexpired_left :: "time \<Rightarrow> db \<Rightarrow> ledger_row \<Rightarrow> int" where
  "unexpired_left now s g =
     (if (case led_expires g of None \<Rightarrow> False | Some t \<Rightarrow> t \<le> now) then 0
      else led_amount g - used_of (led_id g) s)"

lemma grant_available_left:
  assumes "ledger_ok s" "g \<in> set (ledger s)" "led_user g = u" "led_type g = Grant"
  shows "grant_available now (usage_sums u s) g = unexpired_left now s g"
  using ledger_okD(2) [OF assms(1,2)] assms(4) lookup_usage_sums [OF assms(2,3)]
  by (auto simp: grant_available_def unexpired_left_def entry_ok_def)

text \<open>
  Without open refund locks the two balances add up to: what the unexpired grants have left, less
  the recoveries, plus the adjustments.
\<close>

lemma credit_total_eq:
  assumes ok: "ledger_ok s" and nl: "no_locks u s"
  shows "credit_total now u s =
      sum_where (\<lambda>g. led_user g = u \<and> led_type g = Grant) (unexpired_left now s) (ledger s)
      - sum_where (\<lambda>r. led_user r = u \<and> led_type r = Refund_Recovery \<and> led_purchase r \<noteq> None) led_amount (ledger s)
      + adjustment_sum u Paid s + adjustment_sum u Free s"
proof -
  let ?used = "usage_sums u s" and ?recs = "recovery_sums u s"
  have gs: "grant_state now u True s =
      (fst (snapshot_loop now ?used False ?recs [] (grant_rows u s)),
       total (snd (snapshot_loop now ?used False ?recs [] (grant_rows u s))))"
    using snapshot_loop_no_locks [of "lock_sums u s" now ?used ?recs "grant_rows u s"] no_locks_lookup [OF nl]
    by (simp add: grant_state_def case_prod_beta)
  have kinds: "\<forall>x \<in> set (fst (grant_state now u True s)). led_kind (fst x) \<noteq> None"
  proof
    fix x assume x: "x \<in> set (fst (grant_state now u True s))"
    obtain g a where "x = (g, a)" by (cases x)
    with x have g: "g \<in> set (ledger s)" "led_type g = Grant" "fst x = g"
      using grant_state_snapshot(1,3) [OF ok] by auto
    from ledger_okD(2) [OF ok g(1)] g(2,3) show "led_kind (fst x) \<noteq> None" by (simp add: entry_ok_def)
  qed
  have "sum_list (map (grant_available now ?used) (grant_rows u s)) =
        sum_list (map (grant_available now ?used) (filter (\<lambda>r. led_user r = u \<and> led_type r = Grant) (ledger s)))"
    unfolding grant_rows_def by (rule sum_list_sort_key)
  also have "\<dots> = sum_where (\<lambda>g. led_user g = u \<and> led_type g = Grant) (unexpired_left now s) (ledger s)"
    unfolding sum_where_def using grant_available_left [OF ok]
    by (intro arg_cong [where f = sum_list] map_cong) auto
  finally have avail: "sum_list (map (grant_available now ?used) (grant_rows u s)) =
      sum_where (\<lambda>g. led_user g = u \<and> led_type g = Grant) (unexpired_left now s) (ledger s)" .
  have "total ?recs = sum_where (\<lambda>r. led_user r = u \<and> led_type r = Refund_Recovery \<and> led_purchase r \<noteq> None)
      led_amount (ledger s)"
    by (simp add: recovery_sums_def sum_where_def)
  moreover have "sum_list (map snd (fst (grant_state now u True s))) - snd (grant_state now u True s) =
      sum_list (map (grant_available now ?used) (grant_rows u s)) - total ?recs"
    using snapshot_loop_total [of ?recs now ?used "[]" "grant_rows u s"]
    by (simp add: gs recovery_sums_def)
  ultimately show ?thesis
    using sum_by_kind [OF kinds] avail
    by (simp add: credit_total_def balance_breakdown_def Let_def case_prod_beta)
qed

section \<open>Adding a grant or a recovery\<close>

lemma add_entry_cong:
  assumes "s' = s\<lparr>ledger := ledger s @ [r]\<rparr>"
  shows "used_of g s' = used_of g s" and "lock_sums u s' = lock_sums u s"
    and "no_locks u s' = no_locks u s" and "unexpired_left now s' = unexpired_left now s"
    and "reserved_sum now u s' = reserved_sum now u s"
  using assms by (simp_all add: used_of_def lock_sums_def no_locks_def unexpired_left_def reserved_sum_def fun_eq_iff)

lemma credit_total_add_entry:
  assumes ok: "ledger_ok s" and ok': "ledger_ok s'" and nl: "no_locks u s"
    and s': "s' = s\<lparr>ledger := ledger s @ [r]\<rparr>" and r: "led_id r \<notin> led_id ` set (ledger s)" "led_user r = u"
  shows "led_type r = Grant \<Longrightarrow> credit_total now u s' = credit_total now u s + unexpired_left now s r"
    and "led_type r = Refund_Recovery \<Longrightarrow> led_purchase r \<noteq> None \<Longrightarrow>
           credit_total now u s' = credit_total now u s - led_amount r"
proof -
  note c = add_entry_cong [OF s']
  have nl': "no_locks u s'" using nl by (simp add: c)
  show "led_type r = Grant \<Longrightarrow> credit_total now u s' = credit_total now u s + unexpired_left now s r"
    using r unfolding credit_total_eq [OF ok nl] credit_total_eq [OF ok' nl'] c adjustment_sum_def
    by (simp add: s')
  show "led_type r = Refund_Recovery \<Longrightarrow> led_purchase r \<noteq> None \<Longrightarrow>
           credit_total now u s' = credit_total now u s - led_amount r"
    using r unfolding credit_total_eq [OF ok nl] credit_total_eq [OF ok' nl'] c adjustment_sum_def
    by (simp add: s')
qed

section \<open>Inversion of reserve and release\<close>

lemma reserve_tx_elim:
  assumes "reserve_tx now rid u act ref expires s = Inr (r, s')"
  obtains (again) e where "find_reservation s ref = Some e" "rsv_user e = u" "rsv_action e = action_name act"
      "rsv_amount e = credit_action_price act" "r = to_reservation e" "s' = s"
  | (added) row where "find_reservation s ref = None"
      "0 \<le> paid_balance (balance_breakdown now u s)"
      "credit_action_price act \<le> available_balance (balance_breakdown now u s)"
      "row = \<lparr>rsv_id = rid, rsv_user = u, rsv_action = action_name act, rsv_amount = credit_action_price act,
         rsv_status = Reserved, rsv_ref = ref,
         rsv_expires = (case expires of None \<Rightarrow> Some (now + ms reservation_ttl_ms) | Some e \<Rightarrow> e),
         rsv_created = now, rsv_updated = now\<rparr>"
      "ins_reservation row s = Inr (row, s')" "r = to_reservation row"
proof (cases "find_reservation s ref")
  case None
  with assms show ?thesis
    by (auto simp: reserve_tx_def bindR_Inr_iff Let_def ins_reservation_Inr_iff split: if_splits intro!: added)
next
  case (Some e)
  with assms show ?thesis
    by (auto simp: reserve_tx_def bindR_Inr_iff ensure_Inr_iff Let_def intro!: again)
qed

lemma release_in_tx_elim:
  assumes "release_in_tx now ref s = Inr (r, s')" and ok: "ledger_ok s"
  obtains (settled) e where "find_reservation s ref = Some e" "rsv_status e \<noteq> Reserved"
      "r = to_reservation e" "s' = s"
  | (released) e where "find_reservation s ref = Some e" "rsv_status e = Reserved"
      "r = to_reservation (set_status now Released e)"
      "s' = update_reservations (\<lambda>x. rsv_id x = rsv_id e) (set_status now Released) s"
proof -
  obtain e where e: "find_reservation s ref = Some e"
    using assms by (auto simp: release_in_tx_def bindR_Inr_iff require_some_Inr_iff)
  show ?thesis
  proof (cases "rsv_status e = Reserved")
    case False
    with assms e show ?thesis by (intro settled) (auto simp: release_in_tx_def)
  next
    case True
    have ein: "e \<in> set (reservations s)" using find_reservation_in [OF e] by simp
    have same: "rsv_id x = rsv_id e \<and> rsv_status x = Reserved \<longleftrightarrow> x = e"
      if "x \<in> set (reservations s)" for x
      using unique_key_eq [OF ledger_okD(4) [OF ok] that ein] True by auto
    have d: "distinct (reservations s)" using ledger_okD(4) [OF ok] by (simp add: distinct_map)
    have "filter (\<lambda>x. rsv_id x = rsv_id e \<and> rsv_status x = Reserved) (reservations s) =
        filter (\<lambda>x. x = e) (reservations s)"
      using same by (rule filter_cong [OF refl])
    then have f: "filter (\<lambda>x. rsv_id x = rsv_id e \<and> rsv_status x = Reserved) (reservations s) = [e]"
      using filter_eq_single [OF d ein] by simp
    have "update_where (\<lambda>x. rsv_id x = rsv_id e \<and> rsv_status x = Reserved) (set_status now Released) (reservations s)
        = update_where (\<lambda>x. rsv_id x = rsv_id e) (set_status now Released) (reservations s)"
      using same unique_key_eq [OF ledger_okD(4) [OF ok] _ ein] True
      by (auto simp: update_where_def)
    with assms(1) e True f show ?thesis
      by (intro released) (auto simp: release_in_tx_def Let_def update_reservations_def)
  qed
qed

end
