(* ===== verification/Credits_Props.thy ===== *)
theory Credits_Props
  imports Credits_Accounts
begin

text \<open>
  The contract of the credit service: what each operation does to the balances of its user, which
  references make it repeatable, and how a usage is spread over the grants. The witnesses run on
  \<open>demo_wallet\<close>: one user with a free grant, a paid grant of a purchase and an open reservation.
\<close>

section \<open>A concrete wallet\<close>

definition demo_user :: "uid \<Rightarrow> user_row" where
  "demo_user u = \<lparr>usr_id = u, usr_email = None, usr_password_hash = None, usr_password_salt = None,
     usr_display_name = u, usr_bio = [], usr_image_url = None, usr_created = 0, usr_deleted = None,
     usr_adult_verified = None, usr_adult_hash = None, usr_debt_hash = None\<rparr>"

definition demo_purchase :: "uid \<Rightarrow> uid \<Rightarrow> int \<Rightarrow> purchase_row" where
  "demo_purchase p u n = \<lparr>pur_id = p, pur_user = u, pur_status = Pur_Completed, pur_credits = n,
     pur_created = 10, pur_updated = 20, pur_fulfilled = Some 20, pur_key = ''key-'' @ p,
     pur_product_code = ''c'', pur_product = ''prod''\<rparr>"

definition demo_grant :: "uid \<Rightarrow> uid \<Rightarrow> credit_kind \<Rightarrow> uid option \<Rightarrow> int \<Rightarrow> time option \<Rightarrow> ledger_row" where
  "demo_grant i u k p n e = \<lparr>led_id = i, led_user = u, led_type = Grant, led_kind = Some k,
     led_purchase = p, led_promo = None, led_amount = n, led_expires = e, led_reason = ''grant'',
     led_ref = None, led_created = 20\<rparr>"

definition demo_reservation :: "uid \<Rightarrow> uid \<Rightarrow> string \<Rightarrow> reservation_row" where
  "demo_reservation i u ref = \<lparr>rsv_id = i, rsv_user = u, rsv_action = ''chat_reply'', rsv_amount = 2,
     rsv_status = Reserved, rsv_ref = ref, rsv_expires = None, rsv_created = 30, rsv_updated = 30\<rparr>"

definition demo_wallet :: db where
  "demo_wallet = empty_db\<lparr>users := [demo_user ''ana''], purchases := [demo_purchase ''p1'' ''ana'' 10],
     ledger := [demo_grant ''g1'' ''ana'' Paid (Some ''p1'') 10 None,
                demo_grant ''g2'' ''ana'' Free None 1 (Some 900)],
     reservations := [demo_reservation ''r1'' ''ana'' ''msg1'']\<rparr>"

lemma demo_wallet_ok [simp]: "ledger_ok demo_wallet" by code_simp

lemma demo_balances:
  "balance_breakdown 100 ''ana'' demo_wallet = \<lparr>paid_balance = 10, free_balance = 1, available_balance = 9\<rparr>"
  by code_simp

section \<open>Reservations\<close>

definition lasting :: "time \<Rightarrow> time option option \<Rightarrow> bool" where
  "lasting now expires \<longleftrightarrow> (case expires of Some (Some t) \<Rightarrow> now < t | _ \<Rightarrow> True)"

lemma reserve_fresh_balances:
  assumes ok: "ledger_ok s" and r: "reserve_tx now rid u act ref expires s = Inr (r, s')"
    and fresh: "s' \<noteq> s" and l: "lasting now expires"
  shows "available_balance (balance_breakdown now u s') =
           available_balance (balance_breakdown now u s) - credit_action_price act \<and>
         0 \<le> available_balance (balance_breakdown now u s') \<and>
         paid_balance (balance_breakdown now u s') = paid_balance (balance_breakdown now u s) \<and>
         free_balance (balance_breakdown now u s') = free_balance (balance_breakdown now u s)"
  using r
proof (cases rule: reserve_tx_elim)
  case (added row)
  from added(5) have s': "s' = s\<lparr>reservations := reservations s @ [row]\<rparr>" by (simp add: res_simps)
  have b: "paid_balance (balance_breakdown now u s') = paid_balance (balance_breakdown now u s)"
    "free_balance (balance_breakdown now u s') = free_balance (balance_breakdown now u s)"
    by (rule balance_cong; simp add: s')+
  have "active_reservation now row"
    using l by (auto simp: added(4) active_reservation_def lasting_def reservation_ttl_ms_def ms_def split: option.splits)
  then have "reserved_sum now u s' = reserved_sum now u s + credit_action_price act"
    by (simp add: s' reserved_sum_def added(4))
  with b added(2,3) show ?thesis by (simp add: available_balance_eq)
qed (use fresh in simp)

text \<open>Reserving credits for an action lowers the available balance by exactly the price of the
  action, never below zero, and leaves the paid and the free balance alone.\<close>

theorem reserve_opens:
  assumes "ledger_ok s" "reserve_credits now rid ru u act ref expires s = Inr (r, s')"
    and "s' \<noteq> s" "lasting now expires"
  shows "available_balance (balance_breakdown now u s') =
           available_balance (balance_breakdown now u s) - credit_action_price act \<and>
         0 \<le> available_balance (balance_breakdown now u s') \<and>
         paid_balance (balance_breakdown now u s') = paid_balance (balance_breakdown now u s) \<and>
         free_balance (balance_breakdown now u s') = free_balance (balance_breakdown now u s)"
  using assms unfolding reserve_credits_def by (intro reserve_fresh_balances)

abbreviation demo_reserved :: "(credit_reservation_record \<times> db) res" where
  "demo_reserved \<equiv> reserve_credits 100 ''r2'' ''x'' ''ana'' Chat_Reply (Some ''msg2'') None demo_wallet"

theorem reserve_opens_witness:
  "available_balance (balance_breakdown 100 ''ana'' (after demo_reserved)) = 7"
proof -
  have "\<not> isl demo_reserved" "after demo_reserved \<noteq> demo_wallet" by code_simp+
  from reserve_opens [OF demo_wallet_ok run_ok [OF this(1)] this(2)] show ?thesis
    by (simp add: lasting_def demo_balances)
qed

text \<open>A reservation reference is an idempotency key: once a reservation was made under it, the
  same request (at any later time, whatever id it draws) returns that reservation and changes
  nothing.\<close>

theorem reserve_repeat:
  assumes "reserve_credits now rid ru u act (Some ref) expires s = Inr (r, s')" "trim ref \<noteq> []"
  shows "reserve_credits now' rid' ru' u act (Some ref) expires' s' = Inr (r, s')"
  using assms(1) [unfolded reserve_credits_def]
proof (cases rule: reserve_tx_elim)
  case (again e)
  with assms(2) show ?thesis by (simp add: reserve_credits_def reserve_tx_def)
next
  case (added row)
  from added(5) have "s' = s\<lparr>reservations := reservations s @ [row]\<rparr>" by (simp add: res_simps)
  then have "find_reservation s' (trim ref) = Some row"
    using added(1,4) assms(2) by (simp add: find_reservation_def find_append)
  with added(4,6) assms(2) show ?thesis by (simp add: reserve_credits_def reserve_tx_def)
qed

theorem reserve_repeat_witness:
  "reserve_credits 500 ''r9'' ''y'' ''ana'' Chat_Reply (Some ''msg1'') None demo_wallet =
     Inr (to_reservation (demo_reservation ''r1'' ''ana'' ''msg1''), demo_wallet)"
  by (rule reserve_repeat [of 100 "''r2''" "''x''" "''ana''" Chat_Reply "''msg1''" None demo_wallet]) code_simp+

text \<open>A user whose paid balance is negative can neither reserve credits under a new reference nor
  spend any, however many free credits there are.\<close>

theorem debt_blocks:
  assumes "paid_balance (balance_breakdown now u s) < 0" "find_reservation s (trim ref) = None"
    and "trim ref \<noteq> []"
  shows "reserve_credits now rid ru u act (Some ref) expires s = Inl Insufficient_Credits \<and>
     (\<forall>n why. 0 < n \<longrightarrow> trimmed why \<noteq> None \<longrightarrow>
        spend_credits now lid u (Js_Int n) why s = Inl Insufficient_Credits) \<and>
     get_balance now u s = \<lparr>bv_user = u, bv_balance = paid_balance (balance_breakdown now u s),
        bv_paid = paid_balance (balance_breakdown now u s), bv_free = None\<rparr>"
  using assms
  by (auto simp: reserve_credits_def reserve_tx_def spend_credits_def get_balance_def Let_def)

definition demo_debtor :: db where
  "demo_debtor = demo_wallet\<lparr>ledger := ledger demo_wallet @
     [\<lparr>led_id = ''rec1'', led_user = ''ana'', led_type = Refund_Recovery, led_kind = Some Paid,
       led_purchase = Some ''p1'', led_promo = None, led_amount = 14, led_expires = None,
       led_reason = ''chargeback'', led_ref = None, led_created = 50\<rparr>]\<rparr>"

lemma demo_debtor_ok [simp]: "ledger_ok demo_debtor" by code_simp

theorem debt_blocks_witness:
  "reserve_credits 100 ''r3'' ''x'' ''ana'' Chat_Reply (Some ''m'') None demo_debtor = Inl Insufficient_Credits \<and>
   bv_balance (get_balance 100 ''ana'' demo_debtor) = - 4"
proof -
  have "paid_balance (balance_breakdown 100 ''ana'' demo_debtor) = - 4" by code_simp
  moreover have "find_reservation demo_debtor (trim ''m'') = None" "trim ''m'' \<noteq> []" by code_simp+
  ultimately show ?thesis
    using debt_blocks [of 100 "''ana''" demo_debtor "''m''"] by simp
qed

section \<open>Capture\<close>

lemma update_reservations_balances:
  "paid_balance (balance_breakdown now u (update_reservations p f s)) = paid_balance (balance_breakdown now u s)"
  "free_balance (balance_breakdown now u (update_reservations p f s)) = free_balance (balance_breakdown now u s)"
  by (rule balance_cong; simp add: update_reservations_def)+

lemma reserved_sum_update:
  assumes "distinct (map rsv_id (reservations s))" "r \<in> set (reservations s)" "st \<noteq> Reserved"
  shows "reserved_sum now u (update_reservations (\<lambda>x. rsv_id x = rsv_id r) (set_status t st) s) =
     reserved_sum now u s - (if rsv_user r = u \<and> active_reservation now r then rsv_amount r else 0)"
  using reserved_sum_set_status [OF assms]
  by (simp add: reserved_sum_def update_reservations_def)

lemma live_reservation: "rsv_status r = Reserved \<Longrightarrow> \<not> expired_at now r \<Longrightarrow> active_reservation now r"
  by (auto simp: active_reservation_def expired_at_def split: option.splits)

lemma capture_in_tx_balances:
  assumes ok: "ledger_ok s" and c: "capture_in_tx now lid ref s = Inr ((False, r'), s')"
    and f: "find_reservation s ref = Some r" and st: "rsv_status r = Reserved"
  defines "u \<equiv> rsv_user r"
  shows "credit_total now u s' = credit_total now u s - rsv_amount r"
    and "0 \<le> paid_balance (balance_breakdown now u s) \<Longrightarrow> 0 \<le> paid_balance (balance_breakdown now u s')"
    and "available_balance (balance_breakdown now u s') = available_balance (balance_breakdown now u s)"
    and "reserved_sum now u s' = reserved_sum now u s - rsv_amount r"
proof -
  obtain allocs row s1 where q: "\<not> expired_at now r" "allocate_usage now u (rsv_amount r) s = Inr allocs"
    "led_type row = Usage" "write_usage row allocs s = Inr s1"
    "s' = update_reservations (\<lambda>x. rsv_id x = rsv_id r) (set_status now Captured) s1"
    using c
  proof (cases rule: capture_in_tx_elim)
    case (charged r0 allocs row s1)
    with f st show ?thesis by (intro that [of allocs row s1]) (auto simp: u_def)
  qed (use f st in auto)
  have rin: "r \<in> set (reservations s)" using find_reservation_in [OF f] by simp
  have n: "0 < rsv_amount r" using ledger_okD(6) [OF ok rin] .
  have s1: "reservations s1 = reservations s" by (simp add: write_usage_state(1) [OF q(4)])
  note charge = available_after_usage [OF ok n q(2,4,3)]
  have b: "paid_balance (balance_breakdown now u s') = paid_balance (balance_breakdown now u s1)"
    "free_balance (balance_breakdown now u s') = free_balance (balance_breakdown now u s1)"
    by (simp_all add: q(5) update_reservations_balances)
  have "reserved_sum now u s' = reserved_sum now u s1 - rsv_amount r"
    using reserved_sum_update [of s1 r Captured now u now] rin ledger_okD(4) [OF ok] live_reservation [OF st q(1)]
    by (simp add: s1 q(5) u_def)
  then show res: "reserved_sum now u s' = reserved_sum now u s - rsv_amount r"
    using balance_after_usage(5) [OF ok n q(2,4,3)] by simp
  show "credit_total now u s' = credit_total now u s - rsv_amount r"
    and "0 \<le> paid_balance (balance_breakdown now u s) \<Longrightarrow> 0 \<le> paid_balance (balance_breakdown now u s')"
    using charge by (simp_all add: credit_total_def b)
  show "available_balance (balance_breakdown now u s') = available_balance (balance_breakdown now u s)"
    using charge(1-3)
    by (cases "paid_balance (balance_breakdown now u s) < 0") (auto simp: available_balance_eq b res)
qed

text \<open>C1: Capturing a live reservation turns the hold into a charge: paid and free credits together
  drop by the reserved amount, the available balance does not move, and the paid balance does not
  become negative.\<close>

theorem capture_charges:
  assumes "ledger_ok s" "capture_with_client now lid (Some ref) s = Inr (rec, s')"
    and "find_reservation s (trim ref) = Some r" "rsv_status r = Reserved" "u = rsv_user r"
  shows "credit_total now u s' = credit_total now u s - rsv_amount r \<and>
     available_balance (balance_breakdown now u s') = available_balance (balance_breakdown now u s) \<and>
     (0 \<le> paid_balance (balance_breakdown now u s) \<longrightarrow> 0 \<le> paid_balance (balance_breakdown now u s'))"
proof -
  obtain r' where "capture_in_tx now lid (trim ref) s = Inr ((False, r'), s')"
    using assms(2) by (auto simp: capture_with_client_def require_reference_def trimmed_def
        bindR_Inr_iff require_some_Inr_iff split: if_splits prod.splits)
  from capture_in_tx_balances [OF assms(1) this assms(3,4)] assms(5) show ?thesis by simp
qed

abbreviation demo_captured :: "(credit_reservation_record \<times> db) res" where
  "demo_captured \<equiv> capture_with_client 100 ''l1'' (Some ''msg1'') demo_wallet"

theorem capture_charges_witness:
  "credit_total 100 ''ana'' (after demo_captured) = 9 \<and>
   available_balance (balance_breakdown 100 ''ana'' (after demo_captured)) = 9"
proof -
  have "\<not> isl demo_captured" by code_simp
  moreover have "find_reservation demo_wallet (trim ''msg1'') = Some (demo_reservation ''r1'' ''ana'' ''msg1'')"
    by code_simp
  ultimately show ?thesis
    using capture_charges [OF demo_wallet_ok run_ok, of 100 "''l1''" "''msg1''"
        "demo_reservation ''r1'' ''ana'' ''msg1''" "''ana''"]
    by (simp add: demo_reservation_def credit_total_def demo_balances)
qed

text \<open>C4: Captured and released are final. Capturing a captured reservation returns it and charges
  nothing again, capturing a released one is a conflict, and releasing a settled one returns it
  unchanged.\<close>

theorem settled_reservations:
  assumes "find_reservation s (trim ref) = Some r" "trim ref \<noteq> []"
  shows "(rsv_status r = Captured \<longrightarrow> capture_with_client now lid (Some ref) s = Inr (to_reservation r, s)) \<and>
     (rsv_status r = Released \<longrightarrow>
        capture_with_client now lid (Some ref) s = Inl (Conflict ''Credit reservation was released'')) \<and>
     (rsv_status r \<noteq> Reserved \<longrightarrow> release_reservation now (trim ref) s = Inr (to_reservation r, s))"
  using assms by (simp add: capture_with_client_def require_reference_def capture_in_tx_def
      release_reservation_def release_in_tx_def)

theorem settled_reservations_witness:
  "capture_with_client 300 ''l2'' (Some ''msg1'') (after demo_captured) =
     Inr (to_reservation (set_status 100 Captured (demo_reservation ''r1'' ''ana'' ''msg1'')), after demo_captured)"
proof -
  have "find_reservation (after demo_captured) (trim ''msg1'') =
      Some (set_status 100 Captured (demo_reservation ''r1'' ''ana'' ''msg1''))" "trim ''msg1'' \<noteq> []"
    by code_simp+
  from settled_reservations [OF this, of 300 "''l2''"] show ?thesis by (simp add: set_status_def)
qed

text \<open>A reservation past its expiry is never charged. \<open>captureReservation\<close> fails and commits
  the release; inside a caller's transaction the same capture fails and changes nothing.\<close>

theorem expired_capture:
  assumes "find_reservation s (trim ref) = Some r" "trim ref \<noteq> []"
    and "rsv_status r = Reserved" "expired_at now r"
  shows "capture_reservation now lid (Some ref) s =
      (Inl (Conflict ''Credit reservation expired''),
       update_reservations (\<lambda>x. rsv_id x = rsv_id r) (set_status now Released) s) \<and>
     capture_with_client now lid (Some ref) s = Inl (Conflict ''Credit reservation expired'')"
  using assms
  by (simp add: capture_reservation_def capture_with_client_def require_reference_def capture_in_tx_def
      commit_def)

definition demo_lapsed :: db where
  "demo_lapsed = demo_wallet\<lparr>reservations :=
     [(demo_reservation ''r1'' ''ana'' ''msg1'')\<lparr>rsv_expires := Some 90\<rparr>]\<rparr>"

theorem expired_capture_witness:
  "fst (capture_reservation 100 ''l1'' (Some ''msg1'') demo_lapsed) =
     Inl (Conflict ''Credit reservation expired'')"
proof -
  have "find_reservation demo_lapsed (trim ''msg1'') =
      Some ((demo_reservation ''r1'' ''ana'' ''msg1'')\<lparr>rsv_expires := Some 90\<rparr>)" "trim ''msg1'' \<noteq> []"
    by code_simp+
  from expired_capture [OF this, of 100 "''l1''"] show ?thesis
    by (simp add: demo_reservation_def expired_at_def)
qed

section \<open>Release\<close>

text \<open>Releasing an active reservation gives the held credits back: the available balance of a user
  who is not in debt rises by the reserved amount, and paid and free balances do not move.\<close>

theorem release_returns:
  assumes "ledger_ok s" "release_reservation now ref s = Inr (rec, s')"
    and "find_reservation s ref = Some r" "active_reservation now r"
    and "u = rsv_user r" "0 \<le> paid_balance (balance_breakdown now u s)"
  shows "available_balance (balance_breakdown now u s') =
           available_balance (balance_breakdown now u s) + rsv_amount r \<and>
         paid_balance (balance_breakdown now u s') = paid_balance (balance_breakdown now u s) \<and>
         free_balance (balance_breakdown now u s') = free_balance (balance_breakdown now u s) \<and>
         crr_status rec = Released"
  using assms(2) [unfolded release_reservation_def] assms(1)
proof (cases rule: release_in_tx_elim)
  case (settled e)
  with assms(3,4) show ?thesis by (simp add: active_reservation_def)
next
  case (released e)
  with assms(3) have r: "e = r" "r \<in> set (reservations s)"
    using find_reservation_in by simp_all
  have "reserved_sum now u s' = reserved_sum now u s - rsv_amount r"
    using reserved_sum_update [of s r Released now u now] ledger_okD(4) [OF assms(1)] assms(4,5) r
    by (simp add: released(4))
  with released(3,4) assms(6) r show ?thesis
    by (simp add: available_balance_eq update_reservations_balances to_reservation_def set_status_def)
qed

theorem release_returns_witness:
  "available_balance (balance_breakdown 100 ''ana'' (after (release_reservation 100 ''msg1'' demo_wallet))) = 11"
proof -
  have "\<not> isl (release_reservation 100 ''msg1'' demo_wallet)"
    "find_reservation demo_wallet ''msg1'' = Some (demo_reservation ''r1'' ''ana'' ''msg1'')"
    by code_simp+
  from release_returns [OF demo_wallet_ok run_ok [OF this(1)] this(2), of "''ana''"] show ?thesis
    by (simp add: demo_reservation_def active_reservation_def demo_balances)
qed

section \<open>Spending and allocation\<close>

text \<open>Spending \<open>n\<close> credits succeeds only when the available balance covers them; it lowers the
  available balance by exactly \<open>n\<close>, never below zero, keeps the paid balance non-negative and adds one
  usage entry of amount \<open>n\<close>.\<close>

theorem spend_charges:
  assumes "ledger_ok s" "spend_credits now lid u (Js_Int n) reason s = Inr (rec, s')"
  shows "available_balance (balance_breakdown now u s') = available_balance (balance_breakdown now u s) - n \<and>
         0 \<le> available_balance (balance_breakdown now u s') \<and>
         0 \<le> paid_balance (balance_breakdown now u s') \<and>
         credit_total now u s' = credit_total now u s - n \<and>
         (\<exists>row. ledger s' = ledger s @ [row] \<and> led_type row = Usage \<and> led_user row = u \<and> led_amount row = n)"
  using assms(2)
proof (cases rule: spend_credits_elim)
  case (1 m why allocs row)
  have row: "led_type row = Usage" "led_user row = u" "led_amount row = m" by (simp_all add: 1)
  note charge = available_after_usage [OF assms(1) 1(3,6,8) row(1)]
  from 1(4,5) charge write_usage_state(1) [OF 1(8)] row 1(1) show ?thesis
    by (auto simp: credit_total_def)
qed

abbreviation demo_spent :: "(credit_record \<times> db) res" where
  "demo_spent \<equiv> spend_credits 100 ''l1'' ''ana'' (Js_Int 4) (Some ''tip'') demo_wallet"

theorem spend_charges_witness: "available_balance (balance_breakdown 100 ''ana'' (after demo_spent)) = 5"
proof -
  have "\<not> isl demo_spent" by code_simp
  from spend_charges [OF demo_wallet_ok run_ok [OF this]] show ?thesis by (simp add: demo_balances)
qed

definition free_capacity :: "time \<Rightarrow> uid \<Rightarrow> db \<Rightarrow> int" where
  "free_capacity now u s = unpaid_part (fst (grant_state now u True s))"

definition paid_capacity :: "time \<Rightarrow> uid \<Rightarrow> db \<Rightarrow> int" where
  "paid_capacity now u s = paid_part (fst (grant_state now u True s))"

lemma allocate_usage_iff:
  assumes "ledger_ok s" "0 \<le> n"
  shows "allocate_usage now u n s = Inl Insufficient_Credits \<longleftrightarrow>
     free_capacity now u s + min (max 0 (paid_balance (balance_breakdown now u s))) (paid_capacity now u s) < n"
  using allocate_loop_left [OF grant_state_nonneg [OF assms(1)], of
      "max 0 (paid_balance (balance_breakdown now u s))" n now u True] assms(2)
  by (auto simp: allocate_usage_def case_prod_beta free_capacity_def paid_capacity_def less_max_iff_disj)

text \<open>A charge of \<open>n\<close> credits finds grants exactly when the free grants, and the paid grants up to
  the paid balance, hold \<open>n\<close> credits; then the parts it takes are positive, lie within what each grant
  has left, belong to distinct grants of the user and add up to \<open>n\<close>.\<close>

theorem allocation_complete:
  assumes "ledger_ok s" "0 < n"
  shows "(allocate_usage now u n s = Inl Insufficient_Credits \<longleftrightarrow>
      free_capacity now u s + min (max 0 (paid_balance (balance_breakdown now u s))) (paid_capacity now u s) < n) \<and>
    (\<forall>allocs. allocate_usage now u n s = Inr allocs \<longrightarrow>
      taken allocs = n \<and> distinct (map fst allocs) \<and>
      (\<forall>(g, k) \<in> set allocs. g \<in> set (ledger s) \<and> led_user g = u \<and> led_type g = Grant \<and>
         0 < k \<and> k \<le> led_amount g - used_of (led_id g) s))"
  using allocate_usage_iff [OF assms(1)] allocate_usage_good [OF assms(1,2)] assms(2)
  by (simp add: good_allocation_def)

theorem allocation_complete_witness:
  "\<not> free_capacity 100 ''ana'' demo_wallet +
       min (max 0 (paid_balance (balance_breakdown 100 ''ana'' demo_wallet))) (paid_capacity 100 ''ana'' demo_wallet) < 11 \<and>
   allocate_usage 100 ''ana'' 12 demo_wallet = Inl Insufficient_Credits"
proof -
  have "\<exists>a. allocate_usage 100 ''ana'' 11 demo_wallet = Inr a"
    "allocate_usage 100 ''ana'' 12 demo_wallet = Inl Insufficient_Credits"
    by (rule exI [of _ "projr (allocate_usage 100 ''ana'' 11 demo_wallet)"]) code_simp+
  then show ?thesis using allocation_complete [OF demo_wallet_ok, of 11 100 "''ana''"] by auto
qed









section \<open>Grants and recoveries\<close>

text \<open>A grant that is not yet expired raises the sum of the paid and the free balance by exactly
  its amount, also when older recoveries eat into it: a debt of 200 and a purchase of 500 leave 300.\<close>

theorem grant_adds:
  assumes "ledger_ok s" "no_locks (gi_user inp) s" "grant_credits now lid inp s = Inr (rec, s')" "s' \<noteq> s"
    and "case gi_expires inp of None \<Rightarrow> True | Some t \<Rightarrow> now < t"
  shows "gi_amount inp = Js_Int (cr_amount rec) \<and> 0 < cr_amount rec \<and>
     credit_total now (gi_user inp) s' = credit_total now (gi_user inp) s + cr_amount rec"
  using assms(3) [unfolded grant_credits_def]
proof (cases rule: grant_with_client_elim)
  case (added n why row)
  have s': "s' = s\<lparr>ledger := ledger s @ [row]\<rparr>" and fresh: "led_id row \<notin> led_id ` set (ledger s)"
    using added(8) by (simp_all add: res_simps)
  have "used_of (led_id row) s = 0" using fresh_unused(1) [OF assms(1) fresh] .
  then have "unexpired_left now s row = n"
    using assms(5) by (auto simp: unexpired_left_def added(7) free_credit_expiry_def free_credit_ttl_days_def ms_def
        split: option.splits)
  moreover have "ledger_ok s'" using assms(1,3) unfolding grant_credits_def by (rule grant_with_client_ok)
  ultimately show ?thesis
    using credit_total_add_entry(1) [OF assms(1) _ assms(2) s' fresh, of now] added(1,2,9)
    by (simp add: added(7) to_record_def)
qed (use assms(4) in simp)

definition top_up :: "int \<Rightarrow> grant_input" where
  "top_up n = \<lparr>gi_user = ''ana'', gi_amount = Js_Int n, gi_reason = Some ''purchase'', gi_kind = Some Paid,
     gi_purchase = Some ''p1'', gi_promo = None, gi_ref = Some ''purchase:p1'', gi_expires = None\<rparr>"

theorem grant_adds_witness:
  "credit_total 100 ''ana'' (after (grant_credits 100 ''g7'' (top_up 500) demo_debtor)) =
     credit_total 100 ''ana'' demo_debtor + 500"
proof -
  let ?r = "grant_credits 100 ''g7'' (top_up 500) demo_debtor"
  have "\<not> isl ?r" "after ?r \<noteq> demo_debtor" "no_locks ''ana'' demo_debtor" "cr_amount (out ?r) = 500"
    by code_simp+
  then show ?thesis
    using grant_adds [OF demo_debtor_ok _ run_ok, of "top_up 500" 100 "''g7''"] by (simp add: top_up_def)
qed

text \<open>A refund recovery lowers the sum of the balances by exactly its amount, so that what the
  grants of the purchase cannot cover becomes debt.\<close>

theorem recovery_subtracts:
  assumes "ledger_ok s" "no_locks u s" "0 \<le> amount"
    and "record_refund_recovery now lid u p amount refund reason s = Inr (rec, s')"
  shows "credit_total now u s' = credit_total now u s - amount"
proof -
  have ok': "ledger_ok s'" using record_refund_recovery_ok [OF assms(1,3,4)] .
  show ?thesis
    using assms(4) credit_total_add_entry(2) [OF assms(1) ok' assms(2), of _ now]
    by (auto simp: record_refund_recovery_def bindR_Inr_iff ins_ledger_Inr_iff)
qed

theorem recovery_subtracts_witness:
  "credit_total 100 ''ana'' (after (record_refund_recovery 100 ''rec2'' ''ana'' ''p1'' 14 ''rf1'' ''fraud'' demo_wallet))
     = - 3"
proof -
  have "\<not> isl (record_refund_recovery 100 ''rec2'' ''ana'' ''p1'' 14 ''rf1'' ''fraud'' demo_wallet)"
    "no_locks ''ana'' demo_wallet"
    by code_simp+
  from recovery_subtracts [OF demo_wallet_ok this(2) _ run_ok [OF this(1)]] show ?thesis
    by (simp add: credit_total_def demo_balances)
qed

text \<open>A grant carries an idempotency key. Granting again under the same reference, later and with
  another id, returns the first entry and adds nothing; in particular a user gets one signup bonus.\<close>

theorem grant_repeat:
  assumes "grant_credits now lid inp s = Inr (rec, s')" "truthy (gi_ref inp)"
  shows "grant_credits now' lid' inp s' = Inr (rec, s')"
proof -
  have hit: "grant_credits now' lid' inp s' = Inr (to_record e, s')"
    if "find (\<lambda>r. led_ref r = gi_ref inp) (ledger s') = Some e" "led_user e = gi_user inp" "led_type e = Grant"
      "gi_amount inp = Js_Int (led_amount e)" "0 < led_amount e" "led_kind e = Some (grant_kind inp)"
      "led_purchase e = gi_purchase inp" "trimmed (gi_reason inp) \<noteq> None"
      "grant_kind inp = Paid \<longrightarrow> truthy (gi_purchase inp)"
      "truthy (gi_promo inp) \<longrightarrow> truthy (gi_purchase inp)" for e
    using that assms(2)
    by (auto simp: grant_credits_def grant_with_client_def Let_def grant_kind_def [symmetric])
  show ?thesis
    using assms(1) [unfolded grant_credits_def]
  proof (cases rule: grant_with_client_elim)
    case (again n existing)
    then show ?thesis using hit [of existing] by simp
  next
    case (added n why row)
    have "ledger s' = ledger s @ [row]" using added(8) by (simp add: res_simps)
    then have "find (\<lambda>r. led_ref r = gi_ref inp) (ledger s') = Some row"
      using added(6) assms(2) by (simp add: find_append added(7))
    from hit [OF this] added(1-5,7,9) show ?thesis by simp
  qed
qed

theorem grant_repeat_witness:
  "grant_signup_bonus 700 ''g9'' ''ana'' (after (grant_signup_bonus 100 ''g8'' ''ana'' demo_wallet)) =
     Inr (out (grant_signup_bonus 100 ''g8'' ''ana'' demo_wallet), after (grant_signup_bonus 100 ''g8'' ''ana'' demo_wallet))"
proof -
  have "\<not> isl (grant_signup_bonus 100 ''g8'' ''ana'' demo_wallet)" by code_simp
  from grant_repeat [OF run_ok [OF this, unfolded grant_signup_bonus_def], of 700 "''g9''"]
  show ?thesis by (simp add: grant_signup_bonus_def)
qed

end
