(* ===== verification/Check_In.thy ===== *)
theory Check_In
  imports Credits_Props
begin

text \<open>
  Daily check-ins: \<open>checkIn\<close>, \<open>getCheckInStatus\<close> and \<open>kstDateString\<close> of
  \<open>src/credits/credits.service.ts\<close>. The date of an instant is its civil date nine hours ahead of UTC
  (Seoul has kept that offset without daylight saving since 1988), computed from the day number by
  the proleptic Gregorian calendar.
\<close>

section \<open>The date in Seoul\<close>

definition civil_from_days :: "int \<Rightarrow> int \<times> int \<times> int" where
  "civil_from_days z =
     (let z' = z + 719468;
          era = z' div 146097;
          doe = z' mod 146097;
          yoe = (doe - doe div 1460 + doe div 36524 - doe div 146096) div 365;
          doy = doe - (365 * yoe + yoe div 4 - yoe div 100);
          mp = (5 * doy + 2) div 153;
          d = doy - (153 * mp + 2) div 5 + 1;
          m = (if mp < 10 then mp + 3 else mp - 9)
      in (yoe + era * 400 + (if m \<le> 2 then 1 else 0), m, d))"

definition kst_day :: "time \<Rightarrow> int" where
  "kst_day t = (t + ms (9 * 60 * 60 * 1000)) div ms (24 * 60 * 60 * 1000)"

definition two_digits :: "int \<Rightarrow> string" where
  "two_digits n = (if n < 10 then ''0'' else []) @ show_int n"

definition kst_date_string :: "time \<Rightarrow> string" where
  "kst_date_string t =
     (let (y, m, d) = civil_from_days (kst_day t)
      in show_int y @ ''-'' @ two_digits m @ ''-'' @ two_digits d)"

section \<open>Checking in\<close>

definition prefixed :: "string \<Rightarrow> string \<Rightarrow> bool" where
  "prefixed p x \<longleftrightarrow> take (length p) x = p"

definition month_check_ins :: "uid \<Rightarrow> string \<Rightarrow> db \<Rightarrow> check_in_row list" where
  "month_check_ins u month s =
     filter (\<lambda>r. chk_user r = u \<and> prefixed (month @ ''-'') (chk_date r)) (check_ins s)"

record check_in_result =
  ci_date :: string
  ci_granted :: int
  ci_bonus :: int
  ci_count :: int

definition check_in :: "time \<Rightarrow> uid \<Rightarrow> uid \<Rightarrow> uid \<Rightarrow> db \<Rightarrow> (check_in_result \<times> db) res" where
  "check_in now cid lid u s =
     (let date = kst_date_string now in
      bindR (case ins_check_in \<lparr>chk_id = cid, chk_user = u, chk_date = date, chk_created = now\<rparr> s of
               Inl e \<Rightarrow> Inl (if e = Db_Error Unique_Violation then Conflict ''Already checked in today'' else e)
             | Inr s1 \<Rightarrow> Inr s1)
        (\<lambda>s1.
          let n = int (length (month_check_ins u (take 7 date) s1));
              bonus = (case map_of check_in_milestones n of None \<Rightarrow> 0 | Some b \<Rightarrow> b);
              granted = daily_check_in_credits + bonus
          in bindR (grant_with_client now lid
                 \<lparr>gi_user = u, gi_amount = Js_Int granted, gi_reason = Some ''daily check-in'',
                  gi_kind = Some Free, gi_purchase = None, gi_promo = None,
                  gi_ref = Some (''check_in:'' @ u @ '':'' @ date), gi_expires = None\<rparr> s1)
               (\<lambda>(r, s2). Inr (\<lparr>ci_date = date, ci_granted = granted, ci_bonus = bonus, ci_count = n\<rparr>, s2))))"

definition is_month :: "string \<Rightarrow> bool" where
  "is_month x \<longleftrightarrow> (case x of
       [a, b, c, d, e, f, g] \<Rightarrow>
         list_all (\<lambda>x. of_char x \<in> {48..57 :: nat}) [a, b, c, d] \<and> e = CHR ''-'' \<and>
         (f = CHR ''0'' \<and> of_char g \<in> {49..57 :: nat} \<or> f = CHR ''1'' \<and> of_char g \<in> {48..50 :: nat})
     | _ \<Rightarrow> False)"

record milestone_view =
  mv_count :: int
  mv_bonus :: int
  mv_achieved :: bool

record check_in_status =
  cs_today :: string
  cs_month :: string
  cs_checked_today :: bool
  cs_dates :: "string list"
  cs_count :: int
  cs_daily :: int
  cs_milestones :: "milestone_view list"

definition get_check_in_status :: "time \<Rightarrow> uid \<Rightarrow> string option \<Rightarrow> db \<Rightarrow> check_in_status res" where
  "get_check_in_status now u month_input s =
     (let today = kst_date_string now;
          current = take 7 today;
          month = (case month_input of None \<Rightarrow> current | Some m \<Rightarrow> m)
      in bindR (ensure (is_month month) (Bad_Request ''Check-in month must use YYYY-MM'')) (\<lambda>_.
         bindR (ensure (\<not> current < month) (Bad_Request ''Future check-in month is not allowed'')) (\<lambda>_.
           let dates = sort (map chk_date (month_check_ins u month s));
               n = int (length dates)
           in Inr \<lparr>cs_today = today, cs_month = month,
                cs_checked_today =
                  (if month = current then today \<in> set dates
                   else list_ex (\<lambda>r. chk_user r = u \<and> chk_date r = today) (check_ins s)),
                cs_dates = dates, cs_count = n, cs_daily = daily_check_in_credits,
                cs_milestones = map (\<lambda>(c, b). \<lparr>mv_count = c, mv_bonus = b, mv_achieved = c \<le> n\<rparr>)
                  check_in_milestones\<rparr>)))"

section \<open>The contract\<close>

lemma check_in_elim:
  assumes "check_in now cid lid u s = Inr (r, s')"
  obtains s1 rec where
    "s1 = s\<lparr>check_ins := check_ins s @ [\<lparr>chk_id = cid, chk_user = u, chk_date = kst_date_string now, chk_created = now\<rparr>]\<rparr>"
    "(u, kst_date_string now) \<notin> (\<lambda>r. (chk_user r, chk_date r)) ` set (check_ins s)"
    "r = \<lparr>ci_date = kst_date_string now, ci_granted = 10 + ci_bonus r,
       ci_bonus = (case map_of check_in_milestones (ci_count r) of None \<Rightarrow> 0 | Some b \<Rightarrow> b),
       ci_count = int (length (month_check_ins u (take 7 (kst_date_string now)) s1))\<rparr>"
    "grant_with_client now lid
       \<lparr>gi_user = u, gi_amount = Js_Int (ci_granted r), gi_reason = Some ''daily check-in'',
        gi_kind = Some Free, gi_purchase = None, gi_promo = None,
        gi_ref = Some (''check_in:'' @ u @ '':'' @ kst_date_string now), gi_expires = None\<rparr> s1 = Inr (rec, s')"
  using assms
  by (auto simp: check_in_def Let_def bindR_Inr_iff ins_check_in_Inr_iff daily_check_in_credits_def
      split: sum.splits intro!: that)

lemma check_in_ok [ledger_intros]:
  assumes "ledger_ok s" "check_in now cid lid u s = Inr (r, s')"
  shows "ledger_ok s'"
  using assms(2)
proof (cases rule: check_in_elim)
  case (1 s1 rec)
  have "ledger_ok s1" using assms(1) ledger_ok_cong [of s1 s] by (simp add: 1(1))
  then show ?thesis using 1(4) by (rule grant_with_client_ok)
qed

lemma check_in_records:
  assumes "check_in now cid lid u s = Inr (r, s')"
  shows "\<exists>row \<in> set (check_ins s'). chk_user row = u \<and> chk_date row = kst_date_string now"
  using assms
proof (cases rule: check_in_elim)
  case (1 s1 rec)
  have "check_ins s' = check_ins s1"
    using 1(4) by (cases rule: grant_with_client_elim) (auto simp: ins_ledger_Inr_iff)
  then show ?thesis by (simp add: 1(1))
qed

text \<open>A user can check in once per day in Seoul: after a check-in, every further attempt on the same
  date (with any fresh ids) fails with a conflict, and the check-in itself grants ten credits plus the
  bonus of the milestone its count reaches.\<close>

theorem check_in_once:
  assumes "check_in now cid lid u s = Inr (r, s')" "kst_date_string now' = kst_date_string now"
    and "cid' \<notin> chk_id ` set (check_ins s')"
  shows "check_in now' cid' lid' u s' = Inl (Conflict ''Already checked in today'') \<and>
     ci_granted r = 10 + (if ci_count r = 7 then 20 else if ci_count r = 14 then 30
                          else if ci_count r = 30 then 50 else 0)"
proof
  obtain row where "row \<in> set (check_ins s')" "chk_user row = u" "chk_date row = kst_date_string now"
    using check_in_records [OF assms(1)] by blast
  then have "(u, kst_date_string now) \<in> (\<lambda>r. (chk_user r, chk_date r)) ` set (check_ins s')" by force
  with assms(2,3) show "check_in now' cid' lid' u s' = Inl (Conflict ''Already checked in today'')"
    by (simp add: check_in_def ins_check_in_def constrained_def Let_def)
  show "ci_granted r = 10 + (if ci_count r = 7 then 20 else if ci_count r = 14 then 30
                          else if ci_count r = 30 then 50 else 0)"
    using assms(1)
  proof (cases rule: check_in_elim)
    case (1 s1 rec)
    from arg_cong [OF 1(3), of ci_granted] arg_cong [OF 1(3), of ci_bonus]
    show ?thesis by (simp add: check_in_milestones_def)
  qed
qed

definition demo_noon :: time where
  "demo_noon = ms 1767225600000"

theorem check_in_once_witness:
  "check_in (demo_noon + 5) ''k2'' ''l2'' ''ana'' (after (check_in demo_noon ''k1'' ''l1'' ''ana'' demo_wallet)) =
     Inl (Conflict ''Already checked in today'')"
proof -
  let ?r = "check_in demo_noon ''k1'' ''l1'' ''ana'' demo_wallet"
  have "\<not> isl ?r" "kst_date_string (demo_noon + 5) = kst_date_string demo_noon"
    "''k2'' \<notin> chk_id ` set (check_ins (after ?r))"
    by code_simp+
  from check_in_once [OF run_ok [OF this(1)] this(2,3)] show ?thesis by blast
qed

lemma demo_date: "kst_date_string demo_noon = ''2026-01-01''"
  by code_simp

lemma grant_no_conflict:
  "grant_with_client now lid inp s \<noteq> Inl (Conflict ''Already checked in today'')"
proof (cases "gi_amount inp")
  case (Js_Int n)
  have ins: "ins_ledger row s \<noteq> Inl (Conflict m)" for row m
    by (simp add: ins_ledger_def bindR_Inl_iff constrained_def)
  show ?thesis
  proof (cases "find (\<lambda>r. led_ref r = gi_ref inp) (ledger s)")
    case None
    with Js_Int ins show ?thesis
      by (cases "trimmed (gi_reason inp)")
        (simp_all add: grant_with_client_def Let_def bindR_Inl_iff ensure_Inl_iff case_prod_beta)
  next
    case (Some e)
    with Js_Int ins show ?thesis
      by (cases "trimmed (gi_reason inp)")
        (simp_all add: grant_with_client_def Let_def bindR_Inl_iff ensure_Inl_iff case_prod_beta)
  qed
qed (simp add: grant_with_client_def)

text \<open>The status of the current month agrees with checking in: a user is shown as checked in today
  exactly when a check-in now would be refused as a repetition, and the count and the achieved
  milestones are those of the month's check-ins.\<close>

theorem status_agrees:
  assumes "get_check_in_status now u None s = Inr st" "cid \<notin> chk_id ` set (check_ins s)"
    and "prefixed (take 7 (kst_date_string now) @ ''-'') (kst_date_string now)"
  shows "(cs_checked_today st \<longleftrightarrow> check_in now cid lid u s = Inl (Conflict ''Already checked in today'')) \<and>
     cs_count st = int (length (month_check_ins u (take 7 (kst_date_string now)) s)) \<and>
     map mv_achieved (cs_milestones st) = map (\<lambda>n. n \<le> cs_count st) [7, 14, 30]"
proof -
  let ?d = "kst_date_string now"
  let ?m = "take 7 ?d"
  let ?here = "\<exists>r \<in> set (check_ins s). chk_user r = u \<and> chk_date r = ?d"
  let ?dates = "sort (map chk_date (month_check_ins u ?m s))"
  have st: "st = \<lparr>cs_today = ?d, cs_month = ?m, cs_checked_today = (?d \<in> set ?dates), cs_dates = ?dates,
      cs_count = int (length ?dates), cs_daily = daily_check_in_credits,
      cs_milestones = map (\<lambda>(c, b). \<lparr>mv_count = c, mv_bonus = b, mv_achieved = c \<le> int (length ?dates)\<rparr>)
        check_in_milestones\<rparr>"
    using assms(1) by (auto simp: get_check_in_status_def Let_def bindR_Inr_iff ensure_Inr_iff)
  have "?d \<in> set ?dates \<longleftrightarrow> ?here"
    using assms(3) by (force simp: month_check_ins_def)
  moreover have "check_in now cid lid u s = Inl (Conflict ''Already checked in today'') \<longleftrightarrow> ?here"
  proof
    assume ?here
    then have "(u, ?d) \<in> (\<lambda>r. (chk_user r, chk_date r)) ` set (check_ins s)" by force
    with assms(2) show "check_in now cid lid u s = Inl (Conflict ''Already checked in today'')"
      by (simp add: check_in_def ins_check_in_def constrained_def Let_def)
  next
    assume c: "check_in now cid lid u s = Inl (Conflict ''Already checked in today'')"
    show ?here
    proof (rule ccontr)
      assume "\<not> ?here"
      then have "(u, ?d) \<notin> (\<lambda>r. (chk_user r, chk_date r)) ` set (check_ins s)" by force
      with c assms(2) show False
        by (auto simp: check_in_def ins_check_in_def constrained_def Let_def bindR_Inl_iff
            grant_no_conflict split: if_splits)
    qed
  qed
  ultimately show ?thesis by (simp add: st check_in_milestones_def)
qed

theorem status_agrees_witness:
  "cs_checked_today (projr (get_check_in_status demo_noon ''ana'' None
     (after (check_in demo_noon ''k1'' ''l1'' ''ana'' demo_wallet))))"
proof -
  let ?s = "after (check_in demo_noon ''k1'' ''l1'' ''ana'' demo_wallet)"
  let ?st = "get_check_in_status demo_noon ''ana'' None ?s"
  have "?st = Inr (projr ?st)" "''k2'' \<notin> chk_id ` set (check_ins ?s)"
    "prefixed (take 7 (kst_date_string demo_noon) @ ''-'') (kst_date_string demo_noon)"
    "check_in demo_noon ''k2'' ''l2'' ''ana'' ?s = Inl (Conflict ''Already checked in today'')"
    by code_simp+
  with status_agrees [OF this(1-3)] show ?thesis by blast
qed

end
