(* ===== verification/Page.thy ===== *)
theory Page
  imports Cursor
begin

text \<open>
  The contract of the paginated endpoints. A client asks for the first page, then for the page
  behind each \<open>nextCursor\<close>; an endpoint that answers the page after row \<open>i\<close> with the rows from
  \<open>i + 1\<close> on lets it see every row once. The keyset conditions of the services (\<open>WHERE (created, id)\<close>
  after the cursor row, \<open>ORDER BY created, id\<close>) satisfy the contract when the cursor row keeps its
  place, which the lemmas on sorted rows show.
\<close>

text \<open>The client's loop, with the number of pages it is willing to read as fuel.\<close>

fun follow_pages :: "(string option \<Rightarrow> 'a page res) \<Rightarrow> nat \<Rightarrow> string option \<Rightarrow> 'a list res" where
  "follow_pages endpoint 0 cursor = Inr []"
| "follow_pages endpoint (Suc n) cursor =
     bindR (endpoint cursor) (\<lambda>p.
       case next_cursor p of
         None \<Rightarrow> Inr (items p)
       | Some c \<Rightarrow> bindR (follow_pages endpoint n (Some c)) (\<lambda>rest. Inr (items p @ rest)))"

locale paged_listing =
  fixes endpoint :: "'s \<Rightarrow> string option \<Rightarrow> int \<Rightarrow> 'a page res"
    and listing :: "'s \<Rightarrow> 'a list"
    and row_id :: "'a \<Rightarrow> uid"
    and stable :: "'s \<Rightarrow> bool"
  assumes first_page: "stable s \<Longrightarrow> 0 < n \<Longrightarrow>
      endpoint s None n = Inr (page_from_rows row_id (take (nat (n + 1)) (listing s)) n)"
    and next_page: "stable s \<Longrightarrow> 0 < n \<Longrightarrow> i < length (listing s) \<Longrightarrow>
      endpoint s (Some (encode_cursor (row_id (listing s ! i)))) n =
        Inr (page_from_rows row_id (take (nat (n + 1)) (drop (Suc i) (listing s))) n)"
begin

definition page_after :: "'s \<Rightarrow> nat \<Rightarrow> string option" where
  "page_after s k = (if k = 0 then None else Some (encode_cursor (row_id (listing s ! (k - 1)))))"

lemma page_at:
  assumes "stable s" "0 < n" "k \<le> length (listing s)"
  shows "endpoint s (page_after s k) n =
      Inr (page_from_rows row_id (take (nat (n + 1)) (drop k (listing s))) n)"
proof (cases k)
  case 0
  then show ?thesis using first_page [OF assms(1,2)] by (simp add: page_after_def)
next
  case (Suc i)
  then show ?thesis using next_page [OF assms(1,2), of i] assms(3) by (simp add: page_after_def)
qed

lemma pages_from:
  assumes "stable s" "0 < n" "k \<le> length (listing s)" "length (listing s) - k < fuel"
  shows "follow_pages (\<lambda>c. endpoint s c n) fuel (page_after s k) = Inr (drop k (listing s))"
  using assms(3,4)
proof (induction fuel arbitrary: k)
  case (Suc fuel)
  let ?rows = "drop k (listing s)"
  let ?m = "nat n"
  have m: "0 < ?m" "nat (n + 1) = Suc ?m" using assms(2) by auto
  have taken: "take ?m (take (Suc ?m) ?rows) = take ?m ?rows" by (simp add: min_def)
  show ?case
  proof (cases "length ?rows \<le> ?m")
    case True
    then have "\<not> n < int (length (take (Suc ?m) ?rows))" using assms(2) by (simp add: min_def)
    with True page_at [OF assms(1,2) Suc.prems(1)] m taken show ?thesis
      by (simp add: page_from_rows_def Let_def)
  next
    case False
    let ?k = "k + ?m"
    have k: "?k < length (listing s)" using False by simp
    have more: "n < int (length (take (Suc ?m) ?rows))" using False m assms(2) by simp
    have "last (take ?m ?rows) = ?rows ! (?m - 1)"
      using False m by (subst last_conv_nth) (auto simp: min_def)
    also have "\<dots> = listing s ! (?k - 1)" using False m by simp
    finally have l: "last (take ?m ?rows) = listing s ! (?k - 1)" .
    have "follow_pages (\<lambda>c. endpoint s c n) fuel (page_after s ?k) = Inr (drop ?k (listing s))"
      using k m Suc.prems(2) by (intro Suc.IH) auto
    then have "follow_pages (\<lambda>c. endpoint s c n) (Suc fuel) (page_after s k) =
        Inr (take ?m ?rows @ drop ?k (listing s))"
      using page_at [OF assms(1,2) Suc.prems(1)] m more False l taken
      by (simp add: page_from_rows_def Let_def page_after_def)
    moreover have "take ?m ?rows @ drop ?k (listing s) = ?rows"
      by (metis add.commute append_take_drop_id drop_drop)
    ultimately show ?thesis by simp
  qed
qed simp

lemma all_pages:
  assumes "stable s" "0 < n"
  shows "follow_pages (\<lambda>c. endpoint s c n) (Suc (length (listing s))) None = Inr (listing s)"
  using pages_from [OF assms, of 0 "Suc (length (listing s))"] by (simp add: page_after_def del: follow_pages.simps)

end

section \<open>Keyset conditions on sorted rows\<close>

lemma sorted_filter_after:
  fixes k :: "'a \<Rightarrow> 'k :: linorder"
  assumes "sorted (map k xs)" "distinct (map k xs)" "i < length xs"
  shows "filter (\<lambda>r. k (xs ! i) < k r) xs = drop (Suc i) xs"
  using assms
proof (induction xs arbitrary: i)
  case (Cons x xs)
  have lt: "k x < k y" if "y \<in> set xs" for y using Cons.prems(1,2) that by (auto simp: less_le)
  show ?case
  proof (cases i)
    case 0
    with lt show ?thesis by (simp add: filter_id_conv)
  next
    case (Suc j)
    with Cons lt [of "xs ! j"] show ?thesis by (auto dest: less_asym)
  qed
qed simp

lemma sorted_filter_less:
  fixes k :: "'a \<Rightarrow> 'k :: linorder"
  assumes "sorted (map k xs)" "distinct (map k xs)" "i < length xs"
  shows "filter (\<lambda>r. k r < k (xs ! i)) xs = take i xs"
  using assms
proof (induction xs arbitrary: i)
  case (Cons x xs)
  have lt: "k x < k y" if "y \<in> set xs" for y using Cons.prems(1,2) that by (auto simp: less_le)
  show ?case
  proof (cases i)
    case 0
    with lt show ?thesis by (auto simp: filter_empty_conv dest: less_asym)
  next
    case (Suc j)
    with Cons lt [of "xs ! j"] show ?thesis by auto
  qed
qed simp

lemma sorted_filter_before:
  fixes k :: "'a \<Rightarrow> 'k :: linorder"
  assumes "sorted (map k xs)" "distinct (map k xs)" "i < length xs"
  shows "filter (\<lambda>r. k r < k (rev xs ! i)) (rev xs) = drop (Suc i) (rev xs)"
proof -
  have "filter (\<lambda>r. k r < k (xs ! (length xs - Suc i))) xs = take (length xs - Suc i) xs"
    using assms by (intro sorted_filter_less) auto
  then show ?thesis using assms(3) by (simp add: rev_nth rev_filter [symmetric] drop_rev)
qed

end
