(* ===== verification/Keyset.thy ===== *)
theory Keyset
  imports Page Schema
begin

text \<open>
  Listings from the newest row on, as most services write them: the cursor row is looked up under the
  same condition as the listed rows, its creation instant is read into a JavaScript \<open>Date\<close>, and the page
  holds the rows before it in the order of creation and id. Every such endpoint is an instance of
  \<open>keyset_listing\<close> and so meets the contract of \<open>Page\<close> when creation instants are whole milliseconds.
\<close>

definition keyset_page :: "('r \<Rightarrow> time \<times> uid) \<Rightarrow> ('r \<Rightarrow> bool) \<Rightarrow> 'r list \<Rightarrow> string option \<Rightarrow> int \<Rightarrow> 'r list res" where
  "keyset_page key base rows cursor_id n =
     bindR (case cursor_id of
              None \<Rightarrow> Inr None
            | Some i \<Rightarrow>
                (case find (\<lambda>r. snd (key r) = uuid_cast i \<and> base r) rows of
                   None \<Rightarrow> Inl (Bad_Request ''Invalid cursor'')
                 | Some r \<Rightarrow> Inr (Some (js_date (fst (key r)), uuid_cast i))))
       (\<lambda>cursor.
     Inr (sql_limit (n + 1)
           (rev (sort_key key (filter (\<lambda>r. base r \<and>
              (case cursor of None \<Rightarrow> True
               | Some (c, i) \<Rightarrow> fst (key r) < c \<or> fst (key r) = c \<and> snd (key r) < i)) rows)))))"

definition newest_first :: "('r \<Rightarrow> time \<times> uid) \<Rightarrow> ('r \<Rightarrow> bool) \<Rightarrow> 'r list \<Rightarrow> 'r list" where
  "newest_first key base rows = rev (sort_key key (filter base rows))"

text \<open>Ids are unique and in canonical form, and creation instants are whole milliseconds.\<close>

definition keyset_ms :: "('r \<Rightarrow> time \<times> uid) \<Rightarrow> ('r \<Rightarrow> bool) \<Rightarrow> 'r list \<Rightarrow> bool" where
  "keyset_ms key base rows \<longleftrightarrow> distinct (map (\<lambda>r. snd (key r)) rows) \<and>
     (\<forall>r \<in> set rows. base r \<longrightarrow> canonical (snd (key r)) \<and> js_date (fst (key r)) = fst (key r))"

lemma before_cursor_key: "(fst (key r) < c \<or> fst (key r) = c \<and> snd (key r) < i) \<longleftrightarrow> key r < (c, i)"
  for key :: "'r \<Rightarrow> time \<times> uid"
  by (cases "key r") (simp add: less_prod_def')

lemma keyset_first: "keyset_page key base rows None n = Inr (take (nat (n + 1)) (newest_first key base rows))"
  by (simp add: keyset_page_def newest_first_def sql_limit_def)

lemma keyset_next:
  assumes ok: "keyset_ms key base rows" and i: "i < length (newest_first key base rows)"
  shows "keyset_page key base rows (Some (snd (key (newest_first key base rows ! i)))) n =
    Inr (take (nat (n + 1)) (drop (Suc i) (newest_first key base rows)))"
proof -
  let ?l = "newest_first key base rows"
  let ?r = "?l ! i"
  have d: "distinct (map (\<lambda>r. snd (key r)) rows)" using ok by (simp add: keyset_ms_def)
  have r: "?r \<in> set rows" "base ?r" using nth_mem [OF i] by (auto simp: newest_first_def)
  have c: "canonical (snd (key ?r))" "js_date (fst (key ?r)) = fst (key ?r)" using ok r by (auto simp: keyset_ms_def)
  have f: "find (\<lambda>x. snd (key x) = snd (key ?r) \<and> base x) rows = Some ?r"
    using find_unique_and [of "\<lambda>r. snd (key r)" rows ?r base] d r by simp
  have "inj_on key (set rows)" using d by (auto simp: distinct_map inj_on_def)
  then have "distinct (map key (sort_key key (filter base rows)))"
    using d by (auto simp: distinct_map inj_on_def)
  then have drop: "filter (\<lambda>x. key x < key ?r) ?l = drop (Suc i) ?l"
    using i unfolding newest_first_def by (intro sorted_filter_before) auto
  have "rev (sort_key key (filter (\<lambda>x. base x \<and> key x < key ?r) rows)) = filter (\<lambda>x. key x < key ?r) ?l"
    by (simp add: newest_first_def rev_filter [symmetric] filter_sort conj_ac)
  with f c drop show ?thesis by (simp add: keyset_page_def before_cursor_key canonical_def sql_limit_def)
qed

locale keyset_listing =
  fixes key :: "'r \<Rightarrow> time \<times> uid" and base :: "'s \<Rightarrow> 'r \<Rightarrow> bool" and rows :: "'s \<Rightarrow> 'r list"
    and view :: "'s \<Rightarrow> 'r \<Rightarrow> 'v" and view_id :: "'v \<Rightarrow> uid"
    and endpoint :: "'s \<Rightarrow> string option \<Rightarrow> int \<Rightarrow> 'v page res"
  assumes shown_id: "view_id (view s r) = snd (key r)"
    and keyset: "endpoint s c n = bindR (decode_cursor c) (\<lambda>i.
      bindR (keyset_page key (base s) (rows s) i n) (\<lambda>l. Inr (page_from_rows view_id (map (view s) l) n)))"
begin

definition listed :: "'s \<Rightarrow> 'v list" where
  "listed s = map (view s) (newest_first key (base s) (rows s))"

definition settled :: "'s \<Rightarrow> bool" where
  "settled s \<longleftrightarrow> keyset_ms key (base s) (rows s)"

end

sublocale keyset_listing \<subseteq> paged_listing endpoint listed view_id settled
proof (unfold_locales, goal_cases)
  case (1 s n)
  show ?case by (simp add: keyset decode_cursor_def keyset_first listed_def take_map)
next
  case (2 s n i)
  let ?l = "newest_first key (base s) (rows s)"
  have i: "i < length ?l" using 2(3) by (simp add: listed_def)
  have ok: "keyset_ms key (base s) (rows s)" using 2(1) by (simp add: settled_def)
  have "?l ! i \<in> set (rows s)" "base s (?l ! i)" using nth_mem [OF i] by (auto simp: newest_first_def)
  then have "is_uuid (snd (key (?l ! i)))" using ok by (simp add: keyset_ms_def canonical_def)
  then show ?case
    using keyset_next [OF ok i, of n] i
    by (simp add: keyset listed_def shown_id cursor_roundtrip take_map drop_map)
qed

section \<open>From the oldest row on\<close>

text \<open>
  The credit ledger and a conversation are read in the order of creation. Here the truncation of the
  cursor's instant is worse than a skipped row: the page after a row with microseconds starts with that row.
\<close>

definition keyset_page_asc :: "('r \<Rightarrow> time \<times> uid) \<Rightarrow> ('r \<Rightarrow> bool) \<Rightarrow> 'r list \<Rightarrow> string option \<Rightarrow> int \<Rightarrow> 'r list res" where
  "keyset_page_asc key base rows cursor_id n =
     bindR (case cursor_id of
              None \<Rightarrow> Inr None
            | Some i \<Rightarrow>
                (case find (\<lambda>r. snd (key r) = uuid_cast i \<and> base r) rows of
                   None \<Rightarrow> Inl (Bad_Request ''Invalid cursor'')
                 | Some r \<Rightarrow> Inr (Some (js_date (fst (key r)), snd (key r)))))
       (\<lambda>cursor.
     Inr (sql_limit (n + 1)
           (sort_key key (filter (\<lambda>r. base r \<and>
              (case cursor of None \<Rightarrow> True
               | Some (c, i) \<Rightarrow> c < fst (key r) \<or> fst (key r) = c \<and> i < snd (key r))) rows))))"

definition oldest_first :: "('r \<Rightarrow> time \<times> uid) \<Rightarrow> ('r \<Rightarrow> bool) \<Rightarrow> 'r list \<Rightarrow> 'r list" where
  "oldest_first key base rows = sort_key key (filter base rows)"

lemma after_cursor_key: "(c < fst (key r) \<or> fst (key r) = c \<and> i < snd (key r)) \<longleftrightarrow> (c, i) < key r"
  for key :: "'r \<Rightarrow> time \<times> uid"
  by (cases "key r") (auto simp: less_prod_def')

lemma decode_cursor_None: "decode_cursor None = Inr None"
  by (simp add: decode_cursor_def)

lemma keyset_asc_first: "keyset_page_asc key base rows None n = Inr (take (nat (n + 1)) (oldest_first key base rows))"
  by (simp add: keyset_page_asc_def oldest_first_def sql_limit_def)

lemma oldest_first_facts:
  assumes "distinct (map (\<lambda>r. snd (key r)) rows)"
  shows "sorted (map key (oldest_first key base rows))" "distinct (map key (oldest_first key base rows))"
proof -
  show "sorted (map key (oldest_first key base rows))" by (simp add: oldest_first_def)
  have "inj_on key (set rows)" using assms by (auto simp: distinct_map inj_on_def)
  then show "distinct (map key (oldest_first key base rows))"
    using assms by (auto simp: oldest_first_def distinct_map inj_on_def)
qed

lemma keyset_asc_cursor:
  assumes d: "distinct (map (\<lambda>r. snd (key r)) rows)" and r: "r \<in> set (oldest_first key base rows)"
    and c: "canonical (snd (key r))"
  shows "keyset_page_asc key base rows (Some (snd (key r))) n =
    Inr (take (nat (n + 1)) (filter (\<lambda>x. (js_date (fst (key r)), snd (key r)) < key x) (oldest_first key base rows)))"
proof -
  have "r \<in> set rows" "base r" using r by (auto simp: oldest_first_def)
  then have "find (\<lambda>x. snd (key x) = snd (key r) \<and> base x) rows = Some r"
    using find_unique_and [of "\<lambda>r. snd (key r)" rows r base] d by simp
  with c show ?thesis
    by (simp add: keyset_page_asc_def after_cursor_key canonical_def sql_limit_def oldest_first_def
        filter_sort conj_commute)
qed

lemma keyset_asc_next:
  assumes ok: "keyset_ms key base rows" and i: "i < length (oldest_first key base rows)"
  shows "keyset_page_asc key base rows (Some (snd (key (oldest_first key base rows ! i)))) n =
    Inr (take (nat (n + 1)) (drop (Suc i) (oldest_first key base rows)))"
proof -
  let ?l = "oldest_first key base rows"
  let ?r = "?l ! i"
  have d: "distinct (map (\<lambda>r. snd (key r)) rows)" using ok by (simp add: keyset_ms_def)
  have r: "?r \<in> set ?l" using i by simp
  then have "canonical (snd (key ?r)) \<and> js_date (fst (key ?r)) = fst (key ?r)"
    using ok by (auto simp: keyset_ms_def oldest_first_def)
  then have c: "canonical (snd (key ?r))" "(js_date (fst (key ?r)), snd (key ?r)) = key ?r" by simp_all
  show ?thesis
    using keyset_asc_cursor [OF d r c(1), of n]
      sorted_filter_after [OF oldest_first_facts(1) [OF d, of base] oldest_first_facts(2) [OF d, of base] i]
    unfolding c(2) by simp
qed

text \<open>The page after an oldest row with microseconds starts with that row again.\<close>

lemma keyset_asc_stuck:
  assumes d: "distinct (map (\<lambda>r. snd (key r)) rows)" and l: "oldest_first key base rows = r # rest"
    and c: "canonical (snd (key r))" and t: "js_date (fst (key r)) < fst (key r)"
  shows "keyset_page_asc key base rows (Some (snd (key r))) n = keyset_page_asc key base rows None n"
proof -
  have "(js_date (fst (key r)), snd (key r)) < key x" if "x \<in> set (oldest_first key base rows)" for x
  proof -
    have "key r \<le> key x" using oldest_first_facts(1) [OF d, of base] that l by auto
    moreover have "(js_date (fst (key r)), snd (key r)) < key r" using t by (cases "key r") simp
    ultimately show ?thesis by simp
  qed
  then show ?thesis using keyset_asc_cursor [OF d _ c, of base n] l by (simp add: filter_id_conv keyset_asc_first)
qed

locale keyset_listing_asc =
  fixes key :: "'r \<Rightarrow> time \<times> uid" and base :: "'s \<Rightarrow> 'r \<Rightarrow> bool" and rows :: "'s \<Rightarrow> 'r list"
    and view :: "'s \<Rightarrow> 'r \<Rightarrow> 'v" and view_id :: "'v \<Rightarrow> uid"
    and endpoint :: "'s \<Rightarrow> string option \<Rightarrow> int \<Rightarrow> 'v page res"
  assumes shown_id: "view_id (view s r) = snd (key r)"
    and keyset: "endpoint s c n = bindR (decode_cursor c) (\<lambda>i.
      bindR (keyset_page_asc key (base s) (rows s) i n) (\<lambda>l. Inr (page_from_rows view_id (map (view s) l) n)))"
begin

definition listed :: "'s \<Rightarrow> 'v list" where
  "listed s = map (view s) (oldest_first key (base s) (rows s))"

definition settled :: "'s \<Rightarrow> bool" where
  "settled s \<longleftrightarrow> keyset_ms key (base s) (rows s)"

lemma listed_canonical:
  "keyset_ms key (base s) (rows s) \<Longrightarrow> i < length (oldest_first key (base s) (rows s)) \<Longrightarrow>
   canonical (snd (key (oldest_first key (base s) (rows s) ! i)))"
  using nth_mem [of i "oldest_first key (base s) (rows s)"] by (auto simp: oldest_first_def keyset_ms_def)

lemma first_page_repeats:
  assumes "distinct (map (\<lambda>r. snd (key r)) (rows s))" "oldest_first key (base s) (rows s) = r # rest"
    and "canonical (snd (key r))" "js_date (fst (key r)) < fst (key r)"
  shows "endpoint s (Some (encode_cursor (snd (key r)))) n = endpoint s None n"
  using keyset_asc_stuck [OF assms, of n] assms(3)
  by (simp add: keyset cursor_roundtrip canonical_def decode_cursor_None)

end

sublocale keyset_listing_asc \<subseteq> paged_listing endpoint listed view_id settled
proof (unfold_locales, goal_cases)
  case (1 s n)
  show ?case by (simp add: keyset decode_cursor_def keyset_asc_first listed_def take_map)
next
  case (2 s n i)
  have i: "i < length (oldest_first key (base s) (rows s))" using 2(3) by (simp add: listed_def)
  have ok: "keyset_ms key (base s) (rows s)" using 2(1) by (simp add: settled_def)
  have "is_uuid (snd (key (oldest_first key (base s) (rows s) ! i)))"
    using listed_canonical [OF ok i] by (simp add: canonical_def)
  then show ?case
    using keyset_asc_next [OF ok i, of n] i
    by (simp add: keyset listed_def shown_id cursor_roundtrip take_map drop_map)
qed

end
