(* ===== verification/Ledger_Pages.thy ===== *)
theory Ledger_Pages
  imports Credits_Props Keyset
begin

text \<open>
  \<open>listEntriesPage\<close> of \<open>src/credits/credits.service.ts\<close>: the ledger of a user in keyset pages. The
  cursor row is read back from the database into a JavaScript \<open>Date\<close>, so its creation instant loses
  the microseconds before it is compared with the column. The contract of \<open>Page\<close> therefore holds for
  creation instants on whole milliseconds, and \<open>page_stuck\<close> shows what happens otherwise.
\<close>

definition ledger_key :: "ledger_row \<Rightarrow> time \<times> uid" where
  "ledger_key r = (led_created r, led_id r)"

definition list_entries_page :: "uid \<Rightarrow> page_input \<Rightarrow> db \<Rightarrow> credit_record page res" where
  "list_entries_page u inp s =
     bindR (decode_cursor (pg_cursor inp)) (\<lambda>cursor_id.
     bindR (keyset_page_asc ledger_key (\<lambda>r. led_user r = u) (ledger s) cursor_id (pg_limit inp)) (\<lambda>rows.
     Inr (page_from_rows cr_id (map to_record rows) (pg_limit inp))))"

section \<open>All pages\<close>

definition entries :: "uid \<Rightarrow> db \<Rightarrow> ledger_row list" where
  "entries u s = oldest_first ledger_key (\<lambda>r. led_user r = u) (ledger s)"

lemma list_entries_eq: "list_entries u s = map to_record (entries u s)"
  by (simp add: list_entries_def entries_def oldest_first_def ledger_key_def [abs_def])

interpretation ledger_pages: keyset_listing_asc ledger_key "\<lambda>(u, s) r. led_user r = u" "\<lambda>(u, s). ledger s"
  "\<lambda>_. to_record" cr_id "\<lambda>(u, s) c n. list_entries_page u \<lparr>pg_cursor = c, pg_limit = n\<rparr> s"
  by unfold_locales (auto simp: list_entries_page_def case_prod_beta to_record_def ledger_key_def)

lemma ledger_pages_listed: "ledger_pages.listed (u, s) = list_entries u s"
  by (simp add: ledger_pages.listed_def list_entries_eq entries_def)

text \<open>A client that follows \<open>nextCursor\<close> from the first page of the credit ledger, with any page
  size, receives every entry of the user exactly once and in order, when the creation instants are
  whole milliseconds.\<close>

theorem ledger_pages_complete:
  assumes "keyset_ms ledger_key (\<lambda>r. led_user r = u) (ledger s)" "0 < n"
  shows "follow_pages (\<lambda>c. list_entries_page u \<lparr>pg_cursor = c, pg_limit = n\<rparr> s)
           (Suc (length (list_entries u s))) None = Inr (list_entries u s)"
  using ledger_pages.all_pages [of "(u, s)" n] assms by (simp add: ledger_pages_listed ledger_pages.settled_def)

definition demo_entry :: "uid \<Rightarrow> time \<Rightarrow> ledger_row" where
  "demo_entry i t = (demo_grant i ''ana'' Free None 5 None)\<lparr>led_created := t\<rparr>"

definition demo_ledger :: "time \<Rightarrow> db" where
  "demo_ledger t = empty_db\<lparr>ledger :=
     [demo_entry ''0192f0a0-1111-7abc-8def-0123456789ab'' t, demo_entry ''0192f0a0-2222-7abc-8def-0123456789ab'' 9000]\<rparr>"

theorem ledger_pages_complete_witness:
  "follow_pages (\<lambda>c. list_entries_page ''ana'' \<lparr>pg_cursor = c, pg_limit = 1\<rparr> (demo_ledger 2000))
     (Suc (length (list_entries ''ana'' (demo_ledger 2000)))) None = Inr (list_entries ''ana'' (demo_ledger 2000))"
  by (rule ledger_pages_complete) code_simp+

text \<open>When the oldest entry was created at an instant with microseconds, the cursor of the first page
  of size one leads back to that same page: the client never gets past the first entry.\<close>

theorem page_stuck:
  assumes "distinct (map led_id (ledger s))" "entries u s = r # q # rest" "canonical (led_id r)"
    and "js_date (led_created r) < led_created r"
  shows "\<exists>p c. list_entries_page u \<lparr>pg_cursor = None, pg_limit = 1\<rparr> s = Inr p \<and> items p = [to_record r] \<and>
     next_cursor p = Some c \<and> list_entries_page u \<lparr>pg_cursor = Some c, pg_limit = 1\<rparr> s = Inr p"
proof -
  let ?l = "\<lambda>c. list_entries_page u \<lparr>pg_cursor = c, pg_limit = 1\<rparr> s"
  let ?p = "page_from_rows cr_id (map to_record (take 2 (entries u s))) 1"
  have "?l None = Inr ?p" by (simp add: list_entries_page_def decode_cursor_def keyset_asc_first entries_def)
  moreover have "items ?p = [to_record r]" "next_cursor ?p = Some (encode_cursor (led_id r))"
    using assms(2) by (simp_all add: page_from_rows_def to_record_def)
  moreover have "?l (Some (encode_cursor (led_id r))) = ?l None"
    using ledger_pages.first_page_repeats [of "(u, s)" r "q # rest" 1] assms
    by (simp add: ledger_key_def entries_def)
  ultimately show ?thesis by auto
qed

theorem page_stuck_witness:
  "\<exists>p c. list_entries_page ''ana'' \<lparr>pg_cursor = None, pg_limit = 1\<rparr> (demo_ledger 2345) = Inr p \<and>
     next_cursor p = Some c \<and>
     list_entries_page ''ana'' \<lparr>pg_cursor = Some c, pg_limit = 1\<rparr> (demo_ledger 2345) = Inr p"
proof -
  have "entries ''ana'' (demo_ledger 2345) =
      demo_entry ''0192f0a0-1111-7abc-8def-0123456789ab'' 2345 #
      demo_entry ''0192f0a0-2222-7abc-8def-0123456789ab'' 9000 # []"
    by code_simp
  moreover have "distinct (map led_id (ledger (demo_ledger 2345)))"
    "canonical (led_id (demo_entry ''0192f0a0-1111-7abc-8def-0123456789ab'' 2345))"
    "js_date 2345 < (2345 :: int)"
    by code_simp+
  ultimately show ?thesis
    using page_stuck [of "demo_ledger 2345" "''ana''"] by (fastforce simp: demo_entry_def)
qed

end
