(* ===== verification/Notifications.thy ===== *)
theory Notifications
  imports Keyset
begin

text \<open>
  \<open>src/notifications/notifications.service.ts\<close> and \<open>notification-types.ts\<close>: creating a notification
  inside the transaction that causes it, turning the new posts and stories of followed characters
  into notifications (\<open>syncFollowNotifications\<close>, at most fifty per run, with a watermark per follow),
  listing and reading them. A watermark read into a JavaScript \<open>Date\<close> loses its microseconds. Korean
  texts are given as their UTF-8 bytes.
\<close>

section \<open>Creating\<close>

definition credit_purchase_completed :: string where
  "credit_purchase_completed = ''credit.purchase_completed''"

definition credit_refund_completed :: string where
  "credit_refund_completed = ''credit.refund_completed''"

definition character_new_post :: string where
  "character_new_post = ''character.new_post''"

definition character_new_story :: string where
  "character_new_story = ''character.new_story''"

definition follow_notification_sync_limit :: nat where
  "follow_notification_sync_limit = 50"

record notification_input =
  ni_user :: uid
  ni_type :: string
  ni_title :: string
  ni_body :: "string option"
  ni_target_type :: "string option"
  ni_target :: "uid option"

record notification_view =
  nv_id :: uid
  nv_type :: string
  nv_title :: string
  nv_body :: "string option"
  nv_target_type :: "string option"
  nv_target :: "uid option"
  nv_read :: "time option"
  nv_created :: time

definition to_notification :: "notification_row \<Rightarrow> notification_view" where
  "to_notification r = \<lparr>nv_id = ntf_id r, nv_type = ntf_type r, nv_title = ntf_title r, nv_body = ntf_body r,
     nv_target_type = ntf_target_type r, nv_target = ntf_target r,
     nv_read = map_option js_date (ntf_read r), nv_created = js_date (ntf_created r)\<rparr>"

definition notification_of :: "time \<Rightarrow> uid \<Rightarrow> notification_input \<Rightarrow> notification_row" where
  "notification_of now nid inp = \<lparr>ntf_id = nid, ntf_user = ni_user inp, ntf_type = ni_type inp,
     ntf_title = ni_title inp, ntf_body = ni_body inp, ntf_target_type = ni_target_type inp,
     ntf_target = ni_target inp, ntf_read = None, ntf_created = now\<rparr>"

definition create_notification :: "time \<Rightarrow> uid \<Rightarrow> notification_input \<Rightarrow> db \<Rightarrow> (notification_view \<times> db) res" where
  "create_notification now nid inp s =
     bindR (ins_notification (notification_of now nid inp) s) (\<lambda>(row, s1). Inr (to_notification row, s1))"

section \<open>Following the feed\<close>

definition ko_character :: string where
  "ko_character = [CHR 0xEC, CHR 0xBA, CHR 0x90, CHR 0xEB, CHR 0xA6, CHR 0xAD, CHR 0xED, CHR 0x84, CHR 0xB0]"

definition ko_new_post :: string where
  "ko_new_post = [CHR 0xEB, CHR 0x8B, CHR 0x98, CHR 0xEC, CHR 0x9D, CHR 0x98, CHR 0x20,
     CHR 0xEC, CHR 0x83, CHR 0x88, CHR 0x20, CHR 0xEA, CHR 0xB2, CHR 0x8C, CHR 0xEC, CHR 0x8B,
     CHR 0x9C, CHR 0xEA, CHR 0xB8, CHR 0x80]"

definition ko_new_story :: string where
  "ko_new_story = [CHR 0xEB, CHR 0x8B, CHR 0x98, CHR 0xEC, CHR 0x9D, CHR 0x98, CHR 0x20,
     CHR 0xEC, CHR 0x83, CHR 0x88, CHR 0x20, CHR 0xEC, CHR 0x8A, CHR 0xA4, CHR 0xED, CHR 0x86,
     CHR 0xA0, CHR 0xEB, CHR 0xA6, CHR 0xAC]"

record follow_view =
  fv_character :: uid
  fv_notified :: time
  fv_name :: string

definition followed :: "uid \<Rightarrow> db \<Rightarrow> follow_view list" where
  "followed u s = List.map_filter (\<lambda>f.
     case find (\<lambda>c. chr_id c = flw_character f) (characters s) of
       Some c \<Rightarrow> if flw_user f = u \<and> chr_status c = Active
                 then Some \<lparr>fv_character = flw_character f, fv_notified = js_date (flw_notified f),
                            fv_name = chr_name c\<rparr>
                 else None
     | None \<Rightarrow> None) (follows s)"

definition in_window :: "follow_view list \<Rightarrow> time \<Rightarrow> uid \<Rightarrow> time \<Rightarrow> bool" where
  "in_window fs synced character created \<longleftrightarrow>
     list_ex (\<lambda>f. fv_character f = character \<and> fv_notified f < created \<and> created \<le> synced) fs"

record candidate =
  cd_created :: time
  cd_type :: string
  cd_title :: string
  cd_target_type :: string
  cd_target :: uid

definition name_of :: "follow_view list \<Rightarrow> uid \<Rightarrow> string" where
  "name_of fs character =
     (case map_of (rev (map (\<lambda>f. (fv_character f, fv_name f)) fs)) character of None \<Rightarrow> ko_character | Some n \<Rightarrow> n)"

definition newest :: "('r \<Rightarrow> time \<times> uid) \<Rightarrow> 'r list \<Rightarrow> 'r list" where
  "newest k rows = take (follow_notification_sync_limit + 1) (rev (sort_key k rows))"

definition post_candidates :: "follow_view list \<Rightarrow> time \<Rightarrow> db \<Rightarrow> candidate list" where
  "post_candidates fs synced s =
     map (\<lambda>p. \<lparr>cd_created = js_date (pst_created p), cd_type = character_new_post,
                cd_title = name_of fs (pst_character p) @ ko_new_post,
                cd_target_type = ''post'', cd_target = pst_id p\<rparr>)
       (newest (\<lambda>p. (pst_created p, pst_id p))
         (filter (\<lambda>p. in_window fs synced (pst_character p) (pst_created p)) (posts s)))"

definition story_candidates :: "follow_view list \<Rightarrow> time \<Rightarrow> db \<Rightarrow> candidate list" where
  "story_candidates fs synced s =
     map (\<lambda>t. \<lparr>cd_created = js_date (sty_created t), cd_type = character_new_story,
                cd_title = name_of fs (sty_character t) @ ko_new_story,
                cd_target_type = ''story'', cd_target = sty_id t\<rparr>)
       (newest (\<lambda>t. (sty_created t, sty_id t))
         (filter (\<lambda>t. in_window fs synced (sty_character t) (sty_created t) \<and> synced < sty_expires t) (stories s)))"

record sync_result =
  sr_created :: nat
  sr_truncated :: bool

definition ins_notifications :: "notification_row list \<Rightarrow> db \<Rightarrow> db res" where
  "ins_notifications rows s =
     bindR (constrained True (distinct (map ntf_id (notifications s @ rows)))
              (\<forall>r \<in> set rows. has_user s (ntf_user r)))
       (\<lambda>_. Inr (s\<lparr>notifications := notifications s @ rows\<rparr>))"

definition sync_follow_notifications :: "time \<Rightarrow> (nat \<Rightarrow> uid) \<Rightarrow> uid \<Rightarrow> db \<Rightarrow> (sync_result \<times> db) res" where
  "sync_follow_notifications now ids u s =
     (let fs = followed u s in
      if fs = [] then Inr (\<lparr>sr_created = 0, sr_truncated = False\<rparr>, s)
      else
        (let synced = js_date now;
             cands = sort_key (\<lambda>c. - cd_created c) (post_candidates fs synced s @ story_candidates fs synced s);
             selected = take follow_notification_sync_limit cands;
             rows = map (\<lambda>(i, c). notification_of now (ids i)
                       \<lparr>ni_user = u, ni_type = cd_type c, ni_title = cd_title c, ni_body = None,
                        ni_target_type = Some (cd_target_type c), ni_target = Some (cd_target c)\<rparr>)
                     (enumerate 0 selected)
         in bindR (if selected = [] then Inr s else ins_notifications rows s) (\<lambda>s1.
              Inr (\<lparr>sr_created = length selected,
                    sr_truncated = (follow_notification_sync_limit < length cands)\<rparr>,
                   s1\<lparr>follows := update_where
                        (\<lambda>f. flw_user f = u \<and> flw_character f \<in> set (map fv_character fs))
                        (\<lambda>f. f\<lparr>flw_notified := synced\<rparr>) (follows s1)\<rparr>))))"

section \<open>Listing and reading\<close>

definition notification_key :: "notification_row \<Rightarrow> time \<times> uid" where
  "notification_key r = (ntf_created r, ntf_id r)"

definition list_notifications_page :: "uid \<Rightarrow> bool \<Rightarrow> page_input \<Rightarrow> db \<Rightarrow> notification_view page res" where
  "list_notifications_page u unread_only inp s =
     bindR (decode_cursor (pg_cursor inp)) (\<lambda>cursor_id.
     bindR (keyset_page notification_key (\<lambda>r. ntf_user r = u \<and> (unread_only \<longrightarrow> ntf_read r = None))
              (notifications s) cursor_id (pg_limit inp)) (\<lambda>rows.
     Inr (page_from_rows nv_id (map to_notification rows) (pg_limit inp))))"

definition mark_notification_read :: "time \<Rightarrow> uid \<Rightarrow> string \<Rightarrow> db \<Rightarrow> (uid \<times> time) option \<times> db" where
  "mark_notification_read now u i s =
     (if \<not> is_uuid i then (None, s)
      else
        (let hit = (\<lambda>r. ntf_id r = uuid_cast i \<and> ntf_user r = u) in
         case filter hit (notifications s) of
           [] \<Rightarrow> (None, s)
         | r # _ \<Rightarrow> (Some (ntf_id r, js_date now),
                s\<lparr>notifications := update_where hit (\<lambda>r. r\<lparr>ntf_read := Some (js_date now)\<rparr>) (notifications s)\<rparr>)))"

end
