(* ===== verification/Notification_Props.thy ===== *)
theory Notification_Props
  imports Notifications Credits_Props
begin

text \<open>
  What the notification service promises: what a sync announces and how it moves the watermarks; the
  list in pages is complete; and where the unread list loses its cursor.
\<close>

section \<open>Sync\<close>

lemma newest_subset: "set (newest k rows) \<subseteq> set rows"
  by (auto simp: newest_def dest: in_set_takeD)

text \<open>What can be announced: the kind, the id, the character and the creation of each post and story.\<close>

definition published :: "db \<Rightarrow> (string \<times> uid \<times> uid \<times> time) list" where
  "published s =
     map (\<lambda>p. (character_new_post, pst_id p, pst_character p, pst_created p)) (posts s) @
     map (\<lambda>t. (character_new_story, sty_id t, sty_character t, sty_created t)) (stories s)"

lemma published_unique:
  assumes "distinct (map pst_id (posts s))" "distinct (map sty_id (stories s))"
    and "(k, i, ch, cr) \<in> set (published s)" "(k, i, ch', cr') \<in> set (published s)"
  shows "ch' = ch \<and> cr' = cr"
proof -
  have "character_new_post \<noteq> character_new_story"
    by (simp add: character_new_post_def character_new_story_def)
  with assms show ?thesis by (auto simp: published_def dest: unique_key_eq)
qed

lemma candidates_sound:
  "c \<in> set (post_candidates fs t s) \<union> set (story_candidates fs t s) \<Longrightarrow>
     \<exists>ch cr. (cd_type c, cd_target c, ch, cr) \<in> set (published s) \<and> in_window fs t ch cr"
  using newest_subset [of "\<lambda>p. (pst_created p, pst_id p)"] newest_subset [of "\<lambda>p. (sty_created p, sty_id p)"]
  by (fastforce simp: post_candidates_def story_candidates_def published_def)

text \<open>No publication is a candidate twice.\<close>

lemma distinct_newest: "distinct (map f rows) \<Longrightarrow> distinct (map f (newest k (filter p rows)))"
  by (auto simp: newest_def distinct_map dest!: in_set_takeD intro: inj_on_subset)

lemma distinct_map_sort: "distinct (map f (sort_key k xs)) \<longleftrightarrow> distinct (map f xs)"
  by (simp add: distinct_map)

lemma distinct_labelled: "distinct (map (\<lambda>r. (k, Some (f r))) rows) \<longleftrightarrow> distinct (map f rows)"
  by (simp add: distinct_map inj_on_def)

lemma candidates_distinct:
  assumes "distinct (map pst_id (posts s))" "distinct (map sty_id (stories s))"
  shows "distinct (map (\<lambda>c. (cd_type c, Some (cd_target c))) (post_candidates fs t s @ story_candidates fs t s))"
proof -
  have "character_new_post \<noteq> character_new_story"
    by (simp add: character_new_post_def character_new_story_def)
  then show ?thesis
    by (auto simp: post_candidates_def story_candidates_def o_def distinct_labelled
        intro!: distinct_newest [OF assms(1)] distinct_newest [OF assms(2)])
qed

definition announced :: "notification_row \<Rightarrow> string \<times> uid option" where
  "announced n = (ntf_type n, ntf_target n)"

text \<open>A run either has nothing to follow or adds rows for its selection and moves the watermarks.\<close>

lemma sync_elim:
  assumes "sync_follow_notifications now ids u s = Inr (r, s')"
  obtains (idle) "followed u s = []" "sr_created r = 0" "s' = s"
  | (ran) new where "notifications s' = notifications s @ new" "length new = sr_created r"
      "sr_created r \<le> 50" "posts s' = posts s" "stories s' = stories s" "characters s' = characters s"
      "follows s' = update_where (\<lambda>f. flw_user f = u \<and> flw_character f \<in> set (map fv_character (followed u s)))
         (\<lambda>f. f\<lparr>flw_notified := js_date now\<rparr>) (follows s)"
      "distinct (map pst_id (posts s)) \<Longrightarrow> distinct (map sty_id (stories s)) \<Longrightarrow> distinct (map announced new)"
      "\<forall>n \<in> set new. ntf_user n = u \<and> (\<exists>c \<in> set (post_candidates (followed u s) (js_date now) s) \<union>
         set (story_candidates (followed u s) (js_date now) s). announced n = (cd_type c, Some (cd_target c)))"
proof (cases "followed u s = []")
  case True
  with assms show ?thesis by (intro idle) (auto simp: sync_follow_notifications_def)
next
  case False
  define cands where "cands = sort_key (\<lambda>c. - cd_created c)
      (post_candidates (followed u s) (js_date now) s @ story_candidates (followed u s) (js_date now) s)"
  define sel where "sel = take follow_notification_sync_limit cands"
  define rows where "rows = map (\<lambda>(i, c). notification_of now (ids i)
      \<lparr>ni_user = u, ni_type = cd_type c, ni_title = cd_title c, ni_body = None,
       ni_target_type = Some (cd_target_type c), ni_target = Some (cd_target c)\<rparr>) (enumerate 0 sel)"
  obtain s1 where s1: "(if sel = [] then Inr s else ins_notifications rows s) = Inr s1"
    and r: "sr_created r = length sel"
    and s': "s' = s1\<lparr>follows := update_where
        (\<lambda>f. flw_user f = u \<and> flw_character f \<in> set (map fv_character (followed u s)))
        (\<lambda>f. f\<lparr>flw_notified := js_date now\<rparr>) (follows s1)\<rparr>"
    using assms False
    unfolding sync_follow_notifications_def Let_def cands_def [symmetric] sel_def [symmetric] rows_def [symmetric]
    by (auto simp: bindR_Inr_iff)
  have rows: "s1 = s\<lparr>notifications := notifications s @ rows\<rparr>"
    using s1 by (auto simp: ins_notifications_def bindR_Inr_iff rows_def split: if_splits)
  have sub: "set sel \<subseteq> set cands" by (auto simp: sel_def dest: in_set_takeD)
  have "\<exists>c \<in> set sel. ntf_user n = u \<and> announced n = (cd_type c, Some (cd_target c))" if "n \<in> set rows" for n
    using that by (force simp: rows_def announced_def notification_of_def in_set_enumerate_eq)
  moreover have "length rows = length sel" "length sel \<le> 50"
    by (simp_all add: rows_def sel_def follow_notification_sync_limit_def)
  moreover have "distinct (map announced rows)"
    if "distinct (map pst_id (posts s))" "distinct (map sty_id (stories s))"
  proof -
    have "map announced rows = map ((\<lambda>c. (cd_type c, Some (cd_target c))) \<circ> snd) (enumerate 0 sel)"
      by (auto simp: rows_def announced_def notification_of_def)
    also have "\<dots> = map (\<lambda>c. (cd_type c, Some (cd_target c))) sel"
      unfolding map_map [symmetric] map_snd_enumerate ..
    finally have "map announced rows = map (\<lambda>c. (cd_type c, Some (cd_target c))) sel" .
    moreover have "distinct (map (\<lambda>c. (cd_type c, Some (cd_target c))) cands)"
      unfolding cands_def by (rule iffD2 [OF distinct_map_sort candidates_distinct [OF that]])
    ultimately show ?thesis by (simp add: sel_def distinct_take flip: take_map)
  qed
  ultimately show ?thesis
    using sub by (intro ran [of rows]) (auto simp: s' rows r cands_def)
qed

lemma set_map_filter_iff: "v \<in> set (List.map_filter g xs) \<longleftrightarrow> (\<exists>x \<in> set xs. g x = Some v)"
  by (induction xs) (auto simp: List.map_filter_def)

lemma followed_iff:
  "v \<in> set (followed u s) \<longleftrightarrow> (\<exists>f \<in> set (follows s). \<exists>c.
     find (\<lambda>c. chr_id c = flw_character f) (characters s) = Some c \<and> flw_user f = u \<and> chr_status c = Active \<and>
     v = \<lparr>fv_character = flw_character f, fv_notified = js_date (flw_notified f), fv_name = chr_name c\<rparr>)"
  unfolding followed_def set_map_filter_iff by (intro bex_cong refl) (auto split: option.splits)

section \<open>The list in pages\<close>

definition inbox :: "uid \<Rightarrow> bool \<Rightarrow> db \<Rightarrow> notification_row list" where
  "inbox u unread s =
     newest_first notification_key (\<lambda>r. ntf_user r = u \<and> (unread \<longrightarrow> ntf_read r = None)) (notifications s)"

interpretation inbox_pages: keyset_listing notification_key
  "\<lambda>(u, unread, s) r. ntf_user r = u \<and> (unread \<longrightarrow> ntf_read r = None)" "\<lambda>(u, unread, s). notifications s"
  "\<lambda>_. to_notification" nv_id "\<lambda>(u, unread, s) c n. list_notifications_page u unread \<lparr>pg_cursor = c, pg_limit = n\<rparr> s"
  by unfold_locales (auto simp: to_notification_def notification_key_def list_notifications_page_def case_prod_beta)

text \<open>Following \<open>nextCursor\<close> through the notification list, all of it or the unread part, shows every
  notification of the user exactly once, newest first, when creation instants are whole
  milliseconds and nothing is read meanwhile.\<close>

theorem inbox_pages_complete:
  assumes "keyset_ms notification_key (\<lambda>r. ntf_user r = u \<and> (unread \<longrightarrow> ntf_read r = None)) (notifications s)" "0 < n"
  shows "follow_pages (\<lambda>c. list_notifications_page u unread \<lparr>pg_cursor = c, pg_limit = n\<rparr> s)
           (Suc (length (inbox u unread s))) None = Inr (map to_notification (inbox u unread s))"
  using inbox_pages.all_pages [of "(u, unread, s)" n] assms
  by (simp add: inbox_pages.settled_def inbox_pages.listed_def inbox_def)

definition demo_notice :: "uid \<Rightarrow> time \<Rightarrow> notification_row" where
  "demo_notice i t = \<lparr>ntf_id = i, ntf_user = ''ana'', ntf_type = ''t'', ntf_title = ''hi'', ntf_body = None,
     ntf_target_type = None, ntf_target = None, ntf_read = None, ntf_created = t\<rparr>"

definition demo_inbox :: db where
  "demo_inbox = empty_db\<lparr>notifications :=
     [demo_notice ''0192f0a0-1111-7abc-8def-0123456789ab'' 2000, demo_notice ''0192f0a0-2222-7abc-8def-0123456789ab'' 9000]\<rparr>"

theorem inbox_pages_complete_witness:
  "follow_pages (\<lambda>c. list_notifications_page ''ana'' True \<lparr>pg_cursor = c, pg_limit = 1\<rparr> demo_inbox)
     (Suc (length (inbox ''ana'' True demo_inbox))) None = Inr (map to_notification (inbox ''ana'' True demo_inbox))"
  by (rule inbox_pages_complete) code_simp+

text \<open>Reading a notification breaks a walk through the unread list: once the row behind a cursor
  has been marked as read, the page behind that cursor is refused as an invalid cursor.\<close>

theorem unread_cursor_lost:
  assumes "canonical i" "mark_notification_read now u i s = (Some x, s')"
  shows "list_notifications_page u True \<lparr>pg_cursor = Some (encode_cursor i), pg_limit = n\<rparr> s' =
    Inl (Bad_Request ''Invalid cursor'')"
proof -
  let ?hit = "\<lambda>r. ntf_id r = i \<and> ntf_user r = u"
  have s': "s' = s\<lparr>notifications := update_where ?hit (\<lambda>r. r\<lparr>ntf_read := Some (js_date now)\<rparr>) (notifications s)\<rparr>"
    using assms by (auto simp: mark_notification_read_def canonical_def Let_def split: if_splits list.splits)
  have "find (\<lambda>r. ntf_id r = i \<and> ntf_user r = u \<and> ntf_read r = None) (notifications s') = None"
    unfolding find_None_iff_all
  proof
    fix r assume "r \<in> set (notifications s')"
    then have "r \<in> set (update_where ?hit (\<lambda>r. r\<lparr>ntf_read := Some (js_date now)\<rparr>) (notifications s))"
      by (simp add: s')
    then obtain q where "r = (if ?hit q then q\<lparr>ntf_read := Some (js_date now)\<rparr> else q)"
      by (rule update_whereE)
    then show "\<not> (ntf_id r = i \<and> ntf_user r = u \<and> ntf_read r = None)" by (cases "?hit q") auto
  qed
  then show ?thesis
    using assms(1) by (simp add: list_notifications_page_def keyset_page_def notification_key_def cursor_roundtrip canonical_def)
qed

theorem unread_cursor_lost_witness:
  "list_notifications_page ''ana'' True
     \<lparr>pg_cursor = next_cursor (projr (list_notifications_page ''ana'' True \<lparr>pg_cursor = None, pg_limit = 1\<rparr> demo_inbox)),
      pg_limit = 1\<rparr>
     (snd (mark_notification_read 9500 ''ana'' ''0192f0a0-2222-7abc-8def-0123456789ab'' demo_inbox))
   = Inl (Bad_Request ''Invalid cursor'')"
proof -
  let ?i = "''0192f0a0-2222-7abc-8def-0123456789ab''"
  have "next_cursor (projr (list_notifications_page ''ana'' True \<lparr>pg_cursor = None, pg_limit = 1\<rparr> demo_inbox)) =
      Some (encode_cursor ?i)" "canonical ?i"
    by code_simp+
  moreover have "mark_notification_read 9500 ''ana'' ?i demo_inbox =
      (Some (?i, 9000), snd (mark_notification_read 9500 ''ana'' ?i demo_inbox))"
    by code_simp
  ultimately show ?thesis using unread_cursor_lost by simp
qed

end
