(* ===== verification/Experience.thy ===== *)
theory Experience
  imports Schema
begin

text \<open>
  The experience that a character's message carries: \<open>src/shared/character-experience.ts\<close>. It comes from
  the agent as unknown JSON, is stored in a \<open>jsonb\<close> column and is validated again whenever it is read.
  Numbers are kept as the texts of JSON, which the database and \<open>JSON.stringify\<close> carry over. The URL parser
  is a parameter.
\<close>

section \<open>Text and numbers\<close>

text \<open>\<open>String.length\<close> counts UTF-16 units: one for each character, two for those of four bytes.\<close>

definition utf16_units :: "char \<Rightarrow> nat" where
  "utf16_units c = (let n = (of_char c :: nat) in if n < 128 then 1 else if n < 192 then 0 else if n < 240 then 1 else 2)"

definition utf16_length :: "string \<Rightarrow> nat" where
  "utf16_length s = sum_list (map utf16_units s)"

definition public_text :: "nat \<Rightarrow> json option \<Rightarrow> string option" where
  "public_text max_length v =
     (case json_text v of
        Some x \<Rightarrow> if trim x \<noteq> [] \<and> utf16_length x \<le> max_length then Some x else None
      | None \<Rightarrow> None)"

definition public_photo_url :: "(string \<Rightarrow> url option) \<Rightarrow> json option \<Rightarrow> string option" where
  "public_photo_url parse v =
     (case public_text 2048 v of
        Some x \<Rightarrow>
          (case parse x of
             Some u \<Rightarrow> if (url_protocol u = ''https:'' \<or> url_protocol u = ''http:'') \<and>
                          url_username u = [] \<and> url_password u = [] then Some x else None
           | None \<Rightarrow> None)
      | None \<Rightarrow> None)"

text \<open>The value of a JSON number; \<open>None\<close> for what overflows to infinity and for what is no number.\<close>

fun json_double :: "json option \<Rightarrow> rat option" where
  "json_double (Some (J_Number t)) = decimal_number t"
| "json_double _ = None"

fun number_text :: "json option \<Rightarrow> string" where
  "number_text (Some (J_Number t)) = t"
| "number_text _ = []"

fun json_bool :: "json option \<Rightarrow> bool option" where
  "json_bool (Some (J_Bool b)) = Some b"
| "json_bool _ = None"

fun is_object :: "json option \<Rightarrow> bool" where
  "is_object (Some (J_Object kvs)) = True"
| "is_object _ = False"

fun property :: "string \<Rightarrow> json option \<Rightarrow> json option" where
  "property k (Some j) = json_field k j"
| "property k None = None"

section \<open>The experience\<close>

record photo =
  pho_id :: string
  pho_url :: string
  pho_alt :: string
  pho_mock :: bool

record relationship =
  rel_level :: string
  rel_label :: string
  rel_progress :: string
  rel_change :: string

record experience =
  exp_thought :: "string option"
  exp_photo :: "photo option"
  exp_relationship :: "relationship option"

definition parse_photo :: "(string \<Rightarrow> url option) \<Rightarrow> json option \<Rightarrow> photo option" where
  "parse_photo parse v =
     (if \<not> is_object v then None
      else case (public_text 128 (property ''id'' v), public_photo_url parse (property ''url'' v),
                 public_text 500 (property ''alt'' v), json_bool (property ''isMock'' v)) of
             (Some i, Some u, Some a, Some m) \<Rightarrow> Some \<lparr>pho_id = i, pho_url = u, pho_alt = a, pho_mock = m\<rparr>
           | _ \<Rightarrow> None)"

definition parse_relationship :: "json option \<Rightarrow> relationship option" where
  "parse_relationship v =
     (if \<not> is_object v then None
      else case (json_double (property ''level'' v), public_text 100 (property ''label'' v),
                 json_double (property ''progress'' v), json_text (property ''change'' v)) of
             (Some level, Some label, Some progress, Some change) \<Rightarrow>
               if of_int \<lfloor>level\<rfloor> = level \<and> 1 \<le> level \<and> level \<le> 5 \<and> 0 \<le> progress \<and> progress \<le> 1 \<and>
                  (level \<noteq> 5 \<or> progress = 1) \<and> change \<in> {''closer'', ''steady'', ''distant''}
               then Some \<lparr>rel_level = number_text (property ''level'' v), rel_label = label,
                          rel_progress = number_text (property ''progress'' v), rel_change = change\<rparr>
               else None
           | _ \<Rightarrow> None)"

definition parse_experience :: "(string \<Rightarrow> url option) \<Rightarrow> json option \<Rightarrow> experience option" where
  "parse_experience parse v =
     (if \<not> is_object v then None
      else
        (let x = \<lparr>exp_thought = public_text 120 (property ''thought'' v),
                  exp_photo = parse_photo parse (property ''photo'' v),
                  exp_relationship = parse_relationship (property ''relationship'' v)\<rparr>
         in if x = \<lparr>exp_thought = None, exp_photo = None, exp_relationship = None\<rparr> then None else Some x))"

section \<open>Storing it\<close>

definition photo_json :: "photo \<Rightarrow> json" where
  "photo_json p = J_Object [(''id'', J_String (pho_id p)), (''url'', J_String (pho_url p)),
     (''alt'', J_String (pho_alt p)), (''isMock'', J_Bool (pho_mock p))]"

definition relationship_json :: "relationship \<Rightarrow> json" where
  "relationship_json r = J_Object [(''level'', J_Number (rel_level r)), (''label'', J_String (rel_label r)),
     (''progress'', J_Number (rel_progress r)), (''change'', J_String (rel_change r))]"

definition optional :: "string \<Rightarrow> ('a \<Rightarrow> json) \<Rightarrow> 'a option \<Rightarrow> (string \<times> json) list" where
  "optional k f v = (case v of None \<Rightarrow> [] | Some x \<Rightarrow> [(k, f x)])"

definition experience_json :: "experience \<Rightarrow> json" where
  "experience_json x = J_Object (optional ''thought'' J_String (exp_thought x) @
     optional ''photo'' photo_json (exp_photo x) @ optional ''relationship'' relationship_json (exp_relationship x))"

section \<open>Validation is stable\<close>

text \<open>What the validation has accepted it accepts again, unchanged: storing and reading lose nothing.\<close>

lemma json_double_text: "json_double v = Some d \<Longrightarrow> json_double (Some (J_Number (number_text v))) = Some d"
  by (cases v rule: json_double.cases) simp_all

lemma public_text_idem: "public_text n v = Some x \<Longrightarrow> public_text n (Some (J_String x)) = Some x"
  by (auto simp: public_text_def split: option.splits if_splits)

lemma public_photo_url_idem: "public_photo_url parse v = Some x \<Longrightarrow> public_photo_url parse (Some (J_String x)) = Some x"
  by (auto simp: public_photo_url_def dest: public_text_idem split: option.splits if_splits)

lemma json_bool_idem: "json_bool (Some (J_Bool b)) = Some b"
  by simp

lemma parse_photo_idem: "parse_photo parse v = Some p \<Longrightarrow> parse_photo parse (Some (photo_json p)) = Some p"
  by (auto simp: parse_photo_def photo_json_def public_text_idem public_photo_url_idem
      split: if_splits option.splits)

lemma parse_relationship_idem:
  assumes "parse_relationship v = Some r"
  shows "parse_relationship (Some (relationship_json r)) = Some r"
proof -
  obtain level label progress change where
    v: "json_double (property ''level'' v) = Some level" "public_text 100 (property ''label'' v) = Some label"
      "json_double (property ''progress'' v) = Some progress" "json_text (property ''change'' v) = Some change"
    and ok: "of_int \<lfloor>level\<rfloor> = level \<and> 1 \<le> level \<and> level \<le> 5 \<and> 0 \<le> progress \<and> progress \<le> 1 \<and>
      (level \<noteq> 5 \<or> progress = 1) \<and> change \<in> {''closer'', ''steady'', ''distant''}"
    and r: "r = \<lparr>rel_level = number_text (property ''level'' v), rel_label = label,
      rel_progress = number_text (property ''progress'' v), rel_change = change\<rparr>"
    using assms unfolding parse_relationship_def by (auto split: if_splits option.splits)
  show ?thesis
    using json_double_text [OF v(1)] public_text_idem [OF v(2)] json_double_text [OF v(3)] ok
    by (simp add: r parse_relationship_def relationship_json_def)
qed

lemma parse_experience_idem:
  assumes "parse_experience parse v = Some x"
  shows "parse_experience parse (Some (experience_json x)) = Some x"
proof -
  obtain t p r where x: "x = \<lparr>exp_thought = t, exp_photo = p, exp_relationship = r\<rparr>" by (cases x) auto
  have t: "public_text 120 (property ''thought'' v) = t" and p: "parse_photo parse (property ''photo'' v) = p"
    and r: "parse_relationship (property ''relationship'' v) = r"
    and some: "\<not> (t = None \<and> p = None \<and> r = None)"
    using assms by (auto simp: parse_experience_def x Let_def split: if_splits)
  have "public_text 120 None = None" "parse_photo parse None = None" "parse_relationship None = None"
    by (simp_all add: public_text_def parse_photo_def parse_relationship_def)
  with t p r some show ?thesis
    by (cases t; cases p; cases r)
      (auto simp: parse_experience_def experience_json_def x optional_def
        intro: public_text_idem parse_photo_idem parse_relationship_idem)
qed

lemma utf16_length_simps [simp]: "utf16_length [] = 0" "utf16_length (c # s) = utf16_units c + utf16_length s"
  by (simp_all add: utf16_length_def)

end
