(* ===== verification/Backend.thy ===== *)
theory Backend
  imports Experience
begin

text \<open>
  The tables beside those of \<open>Schema\<close>: accounts and sessions, consents, behaviour events and hashtags,
  media, comments and reactions, the social activity of the characters, and support. \<open>backend\<close> is the
  record of these tables with the \<open>db\<close> of \<open>Schema\<close> inside, so that the theorems on credits, purchases and
  messages stay theorems on their own tables. Rows of \<open>users\<close> are inserted and updated here, where the
  unique columns of that table matter.
\<close>

section \<open>Enumerations\<close>

datatype media_type = Image | Video
datatype report_target = Rp_Character | Rp_Post | Rp_Message
datatype report_status = Rp_Submitted | Rp_Reviewing | Rp_Resolved | Rp_Rejected
datatype inquiry_status = Inq_Submitted | Inq_Answered
datatype consent_type = Terms_Of_Service | Privacy | Age_14 | Marketing
datatype social_status = Sj_Queued | Sj_Running | Sj_Completed | Sj_Failed | Sj_Cancelled

section \<open>Rows\<close>

record account_row =
  acc_id :: uid
  acc_user :: uid
  acc_provider :: string
  acc_external :: string
  acc_email :: "string option"
  acc_created :: time

record token_row =
  tok_id :: uid
  tok_user :: uid
  tok_hash :: string
  tok_revoked :: "time option"
  tok_created :: time

record withdrawal_row =
  wdr_id :: uid
  wdr_user :: uid
  wdr_category :: "string option"
  wdr_text :: "string option"
  wdr_created :: time

record user_event_row =
  uev_id :: uid
  uev_user :: uid
  uev_type :: string
  uev_target_type :: string
  uev_target :: string
  uev_metadata :: "json option"
  uev_created :: time

record preference_row =
  prf_user :: uid
  prf_hashtag :: uid
  prf_score :: rat

record terms_row =
  trm_id :: uid
  trm_type :: consent_type
  trm_version :: string
  trm_title :: string
  trm_body :: string
  trm_effective :: time

record consent_row =
  cns_id :: uid
  cns_user :: uid
  cns_type :: consent_type
  cns_version :: string
  cns_agreed :: bool
  cns_created :: time

record hashtag_row =
  htg_id :: uid
  htg_name :: string

record media_row =
  med_id :: uid
  med_type :: media_type
  med_url :: string
  med_key :: "string option"
  med_width :: "int option"
  med_height :: "int option"
  med_duration :: "int option"

record post_media_row =
  pmd_post :: uid
  pmd_media :: uid
  pmd_order :: int

record post_hashtag_row =
  pht_post :: uid
  pht_hashtag :: uid

record comment_row =
  cmt_id :: uid
  cmt_post :: uid
  cmt_character :: "uid option"
  cmt_user :: "uid option"
  cmt_body :: string
  cmt_created :: time

record reaction_row =
  rct_id :: uid
  rct_post :: uid
  rct_character :: "uid option"
  rct_user :: "uid option"
  rct_type :: string
  rct_created :: time

record bond_row =
  bnd_user :: string
  bnd_character :: string
  bnd_level :: int

record view_row =
  viw_character :: uid
  viw_post :: uid
  viw_first :: time

record character_follow_row =
  cfl_follower :: uid
  cfl_followed :: uid
  cfl_at :: time

text \<open>A \<open>time(0)\<close> column is its text \<open>HH:MM:SS\<close>.\<close>

record policy_row =
  pol_character :: uid
  pol_enabled :: bool
  pol_start :: string
  pol_end :: string
  pol_interval :: int
  pol_views :: int
  pol_likes :: int
  pol_follows :: int
  pol_probability :: rat
  pol_next :: "time option"

record social_job_row =
  sjb_id :: int
  sjb_character :: uid
  sjb_scheduled :: time
  sjb_next :: time
  sjb_status :: social_status
  sjb_attempts :: int
  sjb_token :: "uid option"
  sjb_lease :: "time option"
  sjb_error :: "string option"
  sjb_finished :: "time option"

record report_row =
  rpt_id :: uid
  rpt_user :: uid
  rpt_type :: report_target
  rpt_target :: uid
  rpt_reason :: string
  rpt_details :: "string option"
  rpt_resolution :: "string option"
  rpt_status :: report_status
  rpt_created :: time
  rpt_updated :: time

record inquiry_row =
  inq_id :: uid
  inq_user :: uid
  inq_category :: string
  inq_body :: string
  inq_status :: inquiry_status
  inq_answer :: "string option"
  inq_answered :: "time option"
  inq_created :: time

record notice_row =
  ntc_id :: uid
  ntc_title :: string
  ntc_body :: string
  ntc_pinned :: bool
  ntc_published :: "time option"

record faq_row =
  faq_id :: uid
  faq_category :: string
  faq_question :: string
  faq_answer :: string
  faq_order :: int
  faq_published :: bool
  faq_created :: time

section \<open>The state\<close>

record backend =
  core_db :: db
  user_accounts :: "account_row list"
  refresh_tokens :: "token_row list"
  withdrawals :: "withdrawal_row list"
  user_events :: "user_event_row list"
  preferences :: "preference_row list"
  terms_docs :: "terms_row list"
  user_consents :: "consent_row list"
  hashtags :: "hashtag_row list"
  media_files :: "media_row list"
  post_media :: "post_media_row list"
  post_hashtags :: "post_hashtag_row list"
  comments :: "comment_row list"
  reactions :: "reaction_row list"
  bonds :: "bond_row list"
  post_views :: "view_row list"
  character_follows :: "character_follow_row list"
  policies :: "policy_row list"
  social_jobs :: "social_job_row list"
  reports :: "report_row list"
  inquiries :: "inquiry_row list"
  notices :: "notice_row list"
  faqs :: "faq_row list"

definition empty_backend :: backend where
  "empty_backend = \<lparr>core_db = empty_db, user_accounts = [], refresh_tokens = [], withdrawals = [],
     user_events = [], preferences = [], terms_docs = [], user_consents = [], hashtags = [],
     media_files = [], post_media = [], post_hashtags = [], comments = [], reactions = [], bonds = [],
     post_views = [], character_follows = [], policies = [], social_jobs = [], reports = [],
     inquiries = [], notices = [], faqs = []\<rparr>"

text \<open>A transaction on the core tables as one on the whole state.\<close>

definition on_core :: "(db \<Rightarrow> ('a \<times> db) res) \<Rightarrow> backend \<Rightarrow> ('a \<times> backend) res" where
  "on_core tx s = bindR (tx (core_db s)) (\<lambda>(x, d). Inr (x, s\<lparr>core_db := d\<rparr>))"

lemma on_core_Inr_iff [res_simps]:
  "on_core tx s = Inr (x, s') \<longleftrightarrow> (\<exists>d. tx (core_db s) = Inr (x, d) \<and> s' = s\<lparr>core_db := d\<rparr>)"
  by (auto simp: on_core_def res_simps)

section \<open>A fallible step for every element\<close>

fun mapR :: "('a \<Rightarrow> 'e + 'b) \<Rightarrow> 'a list \<Rightarrow> 'e + 'b list" where
  "mapR f [] = Inr []"
| "mapR f (x # xs) = bindR (f x) (\<lambda>y. bindR (mapR f xs) (\<lambda>ys. Inr (y # ys)))"

lemma mapR_Inr_iff [res_simps]: "mapR f xs = Inr ys \<longleftrightarrow> list_all2 (\<lambda>x y. f x = Inr y) xs ys"
  by (induction xs arbitrary: ys) (auto simp: bindR_Inr_iff list_all2_Cons1)

lemma mapR_total: "(\<And>x. x \<in> set xs \<Longrightarrow> f x = Inr (g x)) \<Longrightarrow> mapR f xs = Inr (map g xs)"
  by (induction xs) auto

section \<open>Request fields\<close>

text \<open>A field of a request body is \<open>json option\<close>; \<open>None\<close> is \<open>undefined\<close>.\<close>

definition required_string :: "string \<Rightarrow> json option \<Rightarrow> string res" where
  "required_string field v =
     require_some (trimmed (json_text v)) (Bad_Request (field @ '' is required''))"

lemma required_string_Inr_iff [res_simps]:
  "required_string field v = Inr x \<longleftrightarrow> trimmed (json_text v) = Some x"
  by (simp add: required_string_def require_some_Inr_iff)

fun split_on :: "char \<Rightarrow> string \<Rightarrow> string list" where
  "split_on c [] = [[]]"
| "split_on c (x # xs) =
     (if x = c then [] # split_on c xs
      else case split_on c xs of y # ys \<Rightarrow> (x # y) # ys | [] \<Rightarrow> [[x]])"

lemma split_on_Nil_iff [simp]: "split_on c xs \<noteq> []"
  by (induction xs) (auto split: list.splits)

lemma split_on_single: "c \<notin> set xs \<Longrightarrow> split_on c xs = [xs]"
  by (induction xs) auto

lemma split_on_append: "c \<notin> set xs \<Longrightarrow> split_on c (xs @ c # ys) = xs # split_on c ys"
  by (induction xs) auto

section \<open>Rows of \<open>users\<close>\<close>

definition users_ok :: "user_row list \<Rightarrow> bool" where
  "users_ok us \<longleftrightarrow> distinct (map usr_id us) \<and> distinct_opt (map usr_email us) \<and>
     distinct_opt (map usr_adult_hash us) \<and> distinct_opt (map usr_debt_hash us)"

definition ins_user :: "user_row \<Rightarrow> backend \<Rightarrow> (user_row \<times> backend) res" where
  "ins_user row s =
     (let us = users (core_db s) in
      bindR (constrained True
               (usr_id row \<notin> usr_id ` set us \<and> unique_opt (usr_email row) (map usr_email us) \<and>
                unique_opt (usr_adult_hash row) (map usr_adult_hash us) \<and>
                unique_opt (usr_debt_hash row) (map usr_debt_hash us)) True)
        (\<lambda>_. Inr (row, s\<lparr>core_db := (core_db s)\<lparr>users := us @ [row]\<rparr>\<rparr>)))"

definition upd_users :: "(user_row \<Rightarrow> bool) \<Rightarrow> (user_row \<Rightarrow> user_row) \<Rightarrow> backend \<Rightarrow> backend res" where
  "upd_users p f s =
     (let us = update_where p f (users (core_db s)) in
      bindR (constrained True
               (distinct_opt (map usr_email us) \<and> distinct_opt (map usr_adult_hash us) \<and>
                distinct_opt (map usr_debt_hash us)) True)
        (\<lambda>_. Inr (s\<lparr>core_db := (core_db s)\<lparr>users := us\<rparr>\<rparr>)))"

lemma ins_user_Inr_iff [res_simps]:
  "ins_user row s = Inr (r, s') \<longleftrightarrow>
     r = row \<and> s' = s\<lparr>core_db := (core_db s)\<lparr>users := users (core_db s) @ [row]\<rparr>\<rparr> \<and>
     usr_id row \<notin> usr_id ` set (users (core_db s)) \<and>
     unique_opt (usr_email row) (map usr_email (users (core_db s))) \<and>
     unique_opt (usr_adult_hash row) (map usr_adult_hash (users (core_db s))) \<and>
     unique_opt (usr_debt_hash row) (map usr_debt_hash (users (core_db s)))"
  by (auto simp: ins_user_def Let_def res_simps)

lemma upd_users_Inr_iff [res_simps]:
  "upd_users p f s = Inr s' \<longleftrightarrow>
     s' = s\<lparr>core_db := (core_db s)\<lparr>users := update_where p f (users (core_db s))\<rparr>\<rparr> \<and>
     distinct_opt (map usr_email (update_where p f (users (core_db s)))) \<and>
     distinct_opt (map usr_adult_hash (update_where p f (users (core_db s)))) \<and>
     distinct_opt (map usr_debt_hash (update_where p f (users (core_db s))))"
  by (auto simp: upd_users_def Let_def res_simps)

section \<open>Insertions\<close>

definition ins_account :: "account_row \<Rightarrow> backend \<Rightarrow> (account_row \<times> backend) res" where
  "ins_account row s =
     bindR (constrained True
              (acc_id row \<notin> acc_id ` set (user_accounts s) \<and>
               (acc_provider row, acc_external row) \<notin> (\<lambda>r. (acc_provider r, acc_external r)) ` set (user_accounts s) \<and>
               (acc_user row, acc_provider row) \<notin> (\<lambda>r. (acc_user r, acc_provider r)) ` set (user_accounts s))
              (has_user (core_db s) (acc_user row)))
       (\<lambda>_. Inr (row, s\<lparr>user_accounts := user_accounts s @ [row]\<rparr>))"

definition ins_token :: "token_row \<Rightarrow> backend \<Rightarrow> (token_row \<times> backend) res" where
  "ins_token row s =
     bindR (constrained True
              (tok_id row \<notin> tok_id ` set (refresh_tokens s) \<and> tok_hash row \<notin> tok_hash ` set (refresh_tokens s))
              (has_user (core_db s) (tok_user row)))
       (\<lambda>_. Inr (row, s\<lparr>refresh_tokens := refresh_tokens s @ [row]\<rparr>))"

definition ins_user_event :: "user_event_row \<Rightarrow> backend \<Rightarrow> (unit \<times> backend) res" where
  "ins_user_event row s =
     bindR (constrained True (uev_id row \<notin> uev_id ` set (user_events s)) (has_user (core_db s) (uev_user row)))
       (\<lambda>_. Inr ((), s\<lparr>user_events := user_events s @ [row]\<rparr>))"

definition ins_consents :: "consent_row list \<Rightarrow> backend \<Rightarrow> (unit \<times> backend) res" where
  "ins_consents rows s =
     bindR (constrained True (distinct (map cns_id (user_consents s @ rows)))
              (\<forall>r \<in> set rows. has_user (core_db s) (cns_user r)))
       (\<lambda>_. Inr ((), s\<lparr>user_consents := user_consents s @ rows\<rparr>))"

lemma ins_account_Inr_iff [res_simps]:
  "ins_account row s = Inr (r, s') \<longleftrightarrow>
     r = row \<and> s' = s\<lparr>user_accounts := user_accounts s @ [row]\<rparr> \<and>
     acc_id row \<notin> acc_id ` set (user_accounts s) \<and>
     (acc_provider row, acc_external row) \<notin> (\<lambda>r. (acc_provider r, acc_external r)) ` set (user_accounts s) \<and>
     (acc_user row, acc_provider row) \<notin> (\<lambda>r. (acc_user r, acc_provider r)) ` set (user_accounts s) \<and>
     has_user (core_db s) (acc_user row)"
  by (auto simp: ins_account_def res_simps)

lemma ins_token_Inr_iff [res_simps]:
  "ins_token row s = Inr (r, s') \<longleftrightarrow>
     r = row \<and> s' = s\<lparr>refresh_tokens := refresh_tokens s @ [row]\<rparr> \<and>
     tok_id row \<notin> tok_id ` set (refresh_tokens s) \<and> tok_hash row \<notin> tok_hash ` set (refresh_tokens s) \<and>
     has_user (core_db s) (tok_user row)"
  by (auto simp: ins_token_def res_simps)

lemma ins_user_event_Inr_iff [res_simps]:
  "ins_user_event row s = Inr (r, s') \<longleftrightarrow>
     s' = s\<lparr>user_events := user_events s @ [row]\<rparr> \<and> uev_id row \<notin> uev_id ` set (user_events s) \<and>
     has_user (core_db s) (uev_user row)"
  by (auto simp: ins_user_event_def res_simps)

lemma ins_consents_Inr_iff [res_simps]:
  "ins_consents rows s = Inr (r, s') \<longleftrightarrow>
     s' = s\<lparr>user_consents := user_consents s @ rows\<rparr> \<and> distinct (map cns_id (user_consents s @ rows)) \<and>
     (\<forall>r \<in> set rows. has_user (core_db s) (cns_user r))"
  by (auto simp: ins_consents_def res_simps simp del: distinct_append map_append)

end
