(* ===== verification/Content.thy ===== *)
theory Content
  imports Keyset Backend Js_Number
begin

text \<open>
  Characters and posts as the readers see them: \<open>src/characters/characters.service.ts\<close>, \<open>src/posts/posts.service.ts\<close>
  and \<open>src/shared/media/media-url.ts\<close>. Only active characters and their posts are shown. \<open>new URL(text)\<close> is the
  parameter \<open>me_parse\<close>; text is bytes in UTF-8, ordered by bytes, and its letters are folded in ASCII.
\<close>

section \<open>LIKE\<close>

definition continuation_byte :: "char \<Rightarrow> bool" where
  "continuation_byte c \<longleftrightarrow> (let n = (of_char c :: nat) in 128 \<le> n \<and> n < 192)"

text \<open>\<open>rest_of_char t\<close> is what follows a character whose first byte is before \<open>t\<close>.\<close>

definition rest_of_char :: "string \<Rightarrow> string" where
  "rest_of_char t = dropWhile continuation_byte t"

lemma length_rest_of_char: "length (rest_of_char t) \<le> length t"
  unfolding rest_of_char_def by (rule length_dropWhile_le)

function like_match :: "string \<Rightarrow> string \<Rightarrow> bool" where
  "like_match [] s = (s = [])"
| "like_match (c # p) s =
     (if c = CHR ''%'' then like_match p s \<or> (case s of [] \<Rightarrow> False | x # t \<Rightarrow> like_match (c # p) (rest_of_char t))
      else if c = CHR ''_'' then (case s of [] \<Rightarrow> False | x # t \<Rightarrow> like_match p (rest_of_char t))
      else if c = CHR 0x5C then (case (p, s) of (e # q, x # t) \<Rightarrow> x = e \<and> like_match q t | _ \<Rightarrow> False)
      else (case s of x # t \<Rightarrow> x = c \<and> like_match p t | [] \<Rightarrow> False))"
  by pat_completeness auto
termination
  by (relation "measure (\<lambda>(p, s). length p + length s)") (auto simp: less_Suc_eq_le length_rest_of_char add_mono le_SucI)

definition ilike :: "string \<Rightarrow> string \<Rightarrow> bool" where
  "ilike value pattern \<longleftrightarrow> like_match (to_lower pattern) (to_lower value)"

definition containing :: "string \<Rightarrow> string" where
  "containing term = ''%'' @ term @ ''%''"

section \<open>Media addresses\<close>

record media_env =
  me_parse :: "string \<Rightarrow> url option"
  me_base :: "string option"

definition is_http_url :: "media_env \<Rightarrow> string \<Rightarrow> bool" where
  "is_http_url e v \<longleftrightarrow> (case me_parse e v of Some u \<Rightarrow> url_protocol u = ''http:'' \<or> url_protocol u = ''https:'' | None \<Rightarrow> False)"

text \<open>\<open>encodeURIComponent\<close> keeps letters, digits and \<open>-_.!~*'()\<close>.\<close>

definition uri_plain :: "char \<Rightarrow> bool" where
  "uri_plain c \<longleftrightarrow> List.member b64_alphabet c \<or> List.member [CHR ''.'', CHR ''!'', CHR ''~'', CHR ''*'', CHR 0x27, CHR ''('', CHR '')''] c"

definition upper_hex :: "nat \<Rightarrow> char" where
  "upper_hex n = ''0123456789ABCDEF'' ! n"

definition encode_uri_component :: "string \<Rightarrow> string" where
  "encode_uri_component s = concat (map (\<lambda>c.
     if uri_plain c then [c]
     else (let n = (of_char c :: nat) in [CHR ''%'', upper_hex (n div 16), upper_hex (n mod 16)])) s)"

fun slash_joined :: "string list \<Rightarrow> string" where
  "slash_joined [] = []"
| "slash_joined [x] = x"
| "slash_joined (x # xs) = x @ CHR ''/'' # slash_joined xs"

definition media_key :: "string \<Rightarrow> string option \<Rightarrow> string" where
  "media_key url key = dropWhile (\<lambda>c. c = CHR ''/'') (case trimmed key of Some k \<Rightarrow> k | None \<Rightarrow> url)"

definition media_base :: "media_env \<Rightarrow> string" where
  "media_base e = (case me_base e of Some b \<Rightarrow> rev (dropWhile (\<lambda>c. c = CHR ''/'') (rev (trim b))) | None \<Rightarrow> [])"

definition public_media_url :: "media_env \<Rightarrow> string \<Rightarrow> string option \<Rightarrow> string" where
  "public_media_url e raw key =
     (let url = trim raw; k = media_key url key; base = media_base e in
      if is_http_url e url \<or> base = [] \<or> k = [] then url
      else base @ CHR ''/'' # slash_joined (map encode_uri_component (split_on (CHR ''/'') k)))"

section \<open>Characters\<close>

record profile_image =
  pim_url :: string
  pim_width :: "int option"
  pim_height :: "int option"
  pim_crop :: "rat \<times> rat \<times> rat"

record character_card =
  crd_id :: uid
  crd_public :: string
  crd_name :: string
  crd_bio :: string
  crd_interests :: "string list"
  crd_image :: "profile_image option"

definition find_media :: "uid \<Rightarrow> backend \<Rightarrow> media_row option" where
  "find_media i s = find (\<lambda>m. med_id m = i) (media_files s)"

definition to_character :: "media_env \<Rightarrow> backend \<Rightarrow> character_row \<Rightarrow> character_card" where
  "to_character e s r =
     \<lparr>crd_id = chr_id r, crd_public = chr_public r, crd_name = chr_name r, crd_bio = chr_bio r,
      crd_interests = (case chr_interests r of Some xs \<Rightarrow> xs | None \<Rightarrow> []),
      crd_image = map_option (\<lambda>m. \<lparr>pim_url = public_media_url e (med_url m) (med_key m), pim_width = med_width m,
          pim_height = med_height m, pim_crop = (chr_crop_x r, chr_crop_y r, chr_crop_zoom r)\<rparr>)
        (Option.bind (chr_image r) (\<lambda>i. find_media i s))\<rparr>"

definition active_characters :: "backend \<Rightarrow> character_row list" where
  "active_characters s = filter (\<lambda>r. chr_status r = Active) (characters (core_db s))"

definition has_active_character :: "string \<Rightarrow> backend \<Rightarrow> bool" where
  "has_active_character c s \<longleftrightarrow> is_uuid c \<and> list_ex (\<lambda>r. chr_id r = uuid_cast c) (active_characters s)"

definition list_characters :: "media_env \<Rightarrow> backend \<Rightarrow> character_card list" where
  "list_characters e s = map (to_character e s) (sort_key (\<lambda>r. - chr_created r) (active_characters s))"

definition character_matches :: "string \<Rightarrow> character_row \<Rightarrow> bool" where
  "character_matches term r \<longleftrightarrow> ilike (chr_public r) (containing term) \<or> ilike (chr_name r) (containing term) \<or>
     ilike (chr_bio r) (containing term) \<or> (case chr_interests r of Some xs \<Rightarrow> term \<in> set xs | None \<Rightarrow> False)"

definition search_characters :: "media_env \<Rightarrow> string \<Rightarrow> int \<Rightarrow> backend \<Rightarrow> character_card list" where
  "search_characters e query n s = map (to_character e s) (sql_limit n (sort_key (\<lambda>r. - chr_created r)
     (filter (character_matches (trim query)) (active_characters s))))"

definition find_character :: "media_env \<Rightarrow> string \<Rightarrow> backend \<Rightarrow> character_card option" where
  "find_character e c s =
     (if \<not> is_uuid c then None
      else map_option (to_character e s) (find (\<lambda>r. chr_id r = uuid_cast c) (active_characters s)))"

section \<open>Posts\<close>

record media_view =
  mvw_type :: media_type
  mvw_url :: string
  mvw_width :: "int option"
  mvw_height :: "int option"
  mvw_duration :: "int option"

record post_view =
  pvw_id :: uid
  pvw_character :: uid
  pvw_type :: post_content_type
  pvw_content :: string
  pvw_media :: "media_view list"
  pvw_hashtags :: "string list"
  pvw_created :: time

definition nonzero :: "int option \<Rightarrow> int option" where
  "nonzero v = (if v = Some 0 then None else v)"

definition to_media_view :: "media_env \<Rightarrow> media_row \<Rightarrow> media_view" where
  "to_media_view e m = \<lparr>mvw_type = med_type m, mvw_url = public_media_url e (med_url m) (med_key m),
     mvw_width = nonzero (med_width m), mvw_height = nonzero (med_height m), mvw_duration = nonzero (med_duration m)\<rparr>"

definition hashtags_of_post :: "uid \<Rightarrow> backend \<Rightarrow> string list" where
  "hashtags_of_post p s = sort (concat (map (\<lambda>x. map htg_name (filter (\<lambda>h. htg_id h = pht_hashtag x) (hashtags s)))
     (filter (\<lambda>x. pht_post x = p) (post_hashtags s))))"

definition media_of_post :: "uid \<Rightarrow> backend \<Rightarrow> media_row list" where
  "media_of_post p s = concat (map (\<lambda>x. filter (\<lambda>m. med_id m = pmd_media x) (media_files s))
     (sort_key pmd_order (filter (\<lambda>x. pmd_post x = p) (post_media s))))"

definition to_post :: "media_env \<Rightarrow> backend \<Rightarrow> post_row \<Rightarrow> post_view" where
  "to_post e s r =
     \<lparr>pvw_id = pst_id r, pvw_character = pst_character r, pvw_type = pst_type r, pvw_content = pst_content r,
      pvw_media = map (to_media_view e) (media_of_post (pst_id r) s), pvw_hashtags = hashtags_of_post (pst_id r) s,
      pvw_created = js_date (pst_created r)\<rparr>"

definition author_active :: "backend \<Rightarrow> post_row \<Rightarrow> bool" where
  "author_active s p \<longleftrightarrow> list_ex (\<lambda>r. chr_id r = pst_character p) (active_characters s)"

definition visible_posts :: "backend \<Rightarrow> post_row list" where
  "visible_posts s = filter (author_active s) (posts (core_db s))"

definition has_visible_post :: "string \<Rightarrow> backend \<Rightarrow> bool" where
  "has_visible_post p s \<longleftrightarrow> is_uuid p \<and> list_ex (\<lambda>r. pst_id r = uuid_cast p) (visible_posts s)"

definition list_posts :: "media_env \<Rightarrow> backend \<Rightarrow> post_view list" where
  "list_posts e s = map (to_post e s) (sort_key (\<lambda>r. - pst_created r) (visible_posts s))"

definition find_post :: "media_env \<Rightarrow> string \<Rightarrow> backend \<Rightarrow> post_view option" where
  "find_post e p s =
     (if \<not> is_uuid p then None else map_option (to_post e s) (find (\<lambda>r. pst_id r = uuid_cast p) (visible_posts s)))"

definition tagged :: "(string \<Rightarrow> bool) \<Rightarrow> backend \<Rightarrow> post_row \<Rightarrow> bool" where
  "tagged q s r \<longleftrightarrow> list_ex (\<lambda>x. pht_post x = pst_id r \<and>
     list_ex (\<lambda>h. htg_id h = pht_hashtag x \<and> q (htg_name h)) (hashtags s)) (post_hashtags s)"

definition search_posts :: "media_env \<Rightarrow> string \<Rightarrow> int \<Rightarrow> backend \<Rightarrow> post_view list" where
  "search_posts e query n s =
     (let pattern = containing (trim query)
      in map (to_post e s) (sql_limit n (sort_key (\<lambda>r. - pst_created r)
           (filter (\<lambda>r. ilike (pst_content r) pattern \<or> tagged (\<lambda>h. ilike h pattern) s r) (visible_posts s)))))"

definition search_hashtags :: "string \<Rightarrow> int \<Rightarrow> backend \<Rightarrow> string list" where
  "search_hashtags query n s =
     sql_limit n (sort (remdups (map htg_name (filter (\<lambda>h. ilike (htg_name h) (containing (trim query)) \<and>
       list_ex (\<lambda>x. pht_hashtag x = htg_id h \<and> list_ex (\<lambda>r. pst_id r = pht_post x) (visible_posts s)) (post_hashtags s))
       (hashtags s)))))"

section \<open>Pages of posts\<close>

record post_filters =
  pfl_character :: "string option"
  pfl_type :: "string option"
  pfl_hashtag :: "string option"
  pfl_media :: "string option"

fun content_type_name :: "post_content_type \<Rightarrow> string" where
  "content_type_name Feed_Post = ''feed''"
| "content_type_name Reel_Post = ''reel''"

fun media_type_name :: "media_type \<Rightarrow> string" where
  "media_type_name Image = ''image''"
| "media_type_name Video = ''video''"

definition has_media_type :: "string \<Rightarrow> backend \<Rightarrow> post_row \<Rightarrow> bool" where
  "has_media_type t s r \<longleftrightarrow> list_ex (\<lambda>m. media_type_name (med_type m) = t) (media_of_post (pst_id r) s)"

definition post_conditions :: "post_filters \<Rightarrow> backend \<Rightarrow> (post_row \<Rightarrow> bool) res" where
  "post_conditions f s =
     bindR (case trimmed (pfl_character f) of
              None \<Rightarrow> Inr (\<lambda>_. True)
            | Some c \<Rightarrow> bindR (ensure (is_uuid c) (Bad_Request ''Invalid character ID'')) (\<lambda>_.
                 Inr (\<lambda>r. pst_character r = uuid_cast c))) (\<lambda>by_character.
     bindR (if \<not> truthy (pfl_type f) then Inr (\<lambda>_. True)
            else bindR (ensure (the (pfl_type f) \<in> {''feed'', ''reel''}) (Bad_Request ''Invalid content type'')) (\<lambda>_.
                 Inr (\<lambda>r. content_type_name (pst_type r) = the (pfl_type f)))) (\<lambda>by_type.
     bindR (if \<not> truthy (pfl_media f) then Inr (\<lambda>_. True)
            else bindR (ensure (the (pfl_media f) \<in> {''image'', ''video''}) (Bad_Request ''Invalid media type'')) (\<lambda>_.
                 Inr (has_media_type (the (pfl_media f)) s))) (\<lambda>by_media.
     Inr (\<lambda>r. by_character r \<and> by_type r \<and> by_media r \<and>
       (case trimmed (pfl_hashtag f) of None \<Rightarrow> True | Some h \<Rightarrow> tagged (\<lambda>x. x = h) s r)))))"

definition post_key :: "post_row \<Rightarrow> time \<times> uid" where
  "post_key r = (pst_created r, pst_id r)"

definition list_posts_where :: "media_env \<Rightarrow> (backend \<Rightarrow> post_row \<Rightarrow> bool) \<Rightarrow> page_input \<Rightarrow> backend \<Rightarrow> post_view page res" where
  "list_posts_where e cond inp s =
     bindR (decode_cursor (pg_cursor inp)) (\<lambda>cursor_id.
     bindR (keyset_page post_key (\<lambda>r. author_active s r \<and> cond s r) (posts (core_db s)) cursor_id (pg_limit inp)) (\<lambda>rows.
     Inr (page_from_rows pvw_id (map (to_post e s) rows) (pg_limit inp))))"

definition list_posts_page :: "media_env \<Rightarrow> post_filters \<Rightarrow> page_input \<Rightarrow> backend \<Rightarrow> post_view page res" where
  "list_posts_page e f inp s = bindR (post_conditions f s) (\<lambda>cond. list_posts_where e (\<lambda>_. cond) inp s)"

text \<open>The id goes into the query as it is; PostgreSQL refuses what is not a uuid.\<close>

definition list_character_posts_page :: "media_env \<Rightarrow> string \<Rightarrow> page_input \<Rightarrow> backend \<Rightarrow> post_view page res" where
  "list_character_posts_page e c inp s =
     bindR (decode_cursor (pg_cursor inp)) (\<lambda>_.
     bindR (ensure (is_uuid c) (Db_Error Invalid_Text)) (\<lambda>_.
     list_posts_where e (\<lambda>_ r. pst_character r = uuid_cast c) inp s))"

end
