(* ===== verification/Reactions.thy ===== *)
theory Reactions
  imports Content
begin

text \<open>
  Comments and reactions under a post: the rest of \<open>src/posts/posts.service.ts\<close>. A user has at most one reaction of a
  type under a post, the unique index on post, user and type.
\<close>

section \<open>Comments\<close>

record comment_view =
  cvw_id :: uid
  cvw_post :: uid
  cvw_character :: "uid option"
  cvw_user :: "uid option"
  cvw_body :: string
  cvw_created :: time

definition to_post_comment :: "comment_row \<Rightarrow> comment_view" where
  "to_post_comment r = \<lparr>cvw_id = cmt_id r, cvw_post = cmt_post r, cvw_character = cmt_character r, cvw_user = cmt_user r,
     cvw_body = cmt_body r, cvw_created = js_date (cmt_created r)\<rparr>"

definition visible_author :: "backend \<Rightarrow> uid option \<Rightarrow> bool" where
  "visible_author s c \<longleftrightarrow> (case c of None \<Rightarrow> True | Some i \<Rightarrow> list_ex (\<lambda>r. chr_id r = i) (active_characters s))"

text \<open>A text compared with a uuid column is cast; PostgreSQL refuses what is not a uuid.\<close>

definition uuid_param :: "string \<Rightarrow> uid res" where
  "uuid_param p = bindR (ensure (is_uuid p) (Db_Error Invalid_Text)) (\<lambda>_. Inr (uuid_cast p))"

definition comment_key :: "comment_row \<Rightarrow> time \<times> uid" where
  "comment_key r = (cmt_created r, cmt_id r)"

definition comments_page :: "uid \<Rightarrow> page_input \<Rightarrow> backend \<Rightarrow> comment_view page res" where
  "comments_page p inp s =
     bindR (decode_cursor (pg_cursor inp)) (\<lambda>cursor_id.
     bindR (keyset_page comment_key (\<lambda>r. cmt_post r = p \<and> visible_author s (cmt_character r)) (comments s) cursor_id (pg_limit inp)) (\<lambda>rows.
     Inr (page_from_rows cvw_id (map to_post_comment rows) (pg_limit inp))))"

definition list_post_comments_page :: "string \<Rightarrow> page_input \<Rightarrow> backend \<Rightarrow> comment_view page res" where
  "list_post_comments_page p inp s =
     bindR (decode_cursor (pg_cursor inp)) (\<lambda>_. bindR (uuid_param p) (\<lambda>i. comments_page i inp s))"

definition ins_comment :: "comment_row \<Rightarrow> backend \<Rightarrow> (comment_row \<times> backend) res" where
  "ins_comment row s =
     bindR (constrained True (cmt_id row \<notin> cmt_id ` set (comments s))
              (has_user (core_db s) (the (cmt_user row)) \<and> cmt_post row \<in> pst_id ` set (posts (core_db s))))
       (\<lambda>_. Inr (row, s\<lparr>comments := comments s @ [row]\<rparr>))"

definition create_user_comment :: "time \<Rightarrow> uid \<Rightarrow> string \<Rightarrow> uid \<Rightarrow> json option \<Rightarrow> backend \<Rightarrow> (comment_view \<times> backend) res" where
  "create_user_comment now i p u body s =
     bindR (require_some (trimmed (json_text body)) (Bad_Request ''Comment body is required'')) (\<lambda>t.
     bindR (uuid_param p) (\<lambda>post.
     bindR (ins_comment \<lparr>cmt_id = i, cmt_post = post, cmt_character = None, cmt_user = Some u, cmt_body = t, cmt_created = now\<rparr> s)
       (\<lambda>(row, s1). Inr (to_post_comment row, s1))))"

section \<open>Reactions\<close>

record reaction_view =
  rvw_id :: uid
  rvw_post :: uid
  rvw_character :: "uid option"
  rvw_user :: "uid option"
  rvw_type :: string
  rvw_created :: time

definition to_post_reaction :: "reaction_row \<Rightarrow> reaction_view" where
  "to_post_reaction r = \<lparr>rvw_id = rct_id r, rvw_post = rct_post r, rvw_character = rct_character r, rvw_user = rct_user r,
     rvw_type = rct_type r, rvw_created = js_date (rct_created r)\<rparr>"

text \<open>
  The counts are the fields of a JavaScript object. A type that names a property every object inherits starts from that
  property instead of \<open>0\<close>, so that its count is a text, here \<open>None\<close>; \<open>__proto__\<close> never becomes a field.
\<close>

definition inherited :: "string \<Rightarrow> bool" where
  "inherited t \<longleftrightarrow> t \<in> {''constructor'', ''__defineGetter__'', ''__defineSetter__'', ''hasOwnProperty'', ''__lookupGetter__'',
     ''__lookupSetter__'', ''isPrototypeOf'', ''propertyIsEnumerable'', ''toString'', ''valueOf'', ''toLocaleString'', ''__proto__''}"

definition reaction_counts :: "reaction_view list \<Rightarrow> (string \<times> int option) list" where
  "reaction_counts rs =
     map (\<lambda>t. (t, if inherited t then None else Some (int (length (filter (\<lambda>r. rvw_type r = t) rs)))))
       (filter (\<lambda>t. t \<noteq> ''__proto__'') (rev (remdups (rev (map rvw_type rs)))))"

definition list_post_reactions :: "string \<Rightarrow> backend \<Rightarrow> (reaction_view list \<times> (string \<times> int option) list) res" where
  "list_post_reactions p s =
     bindR (uuid_param p) (\<lambda>i.
       let rs = map to_post_reaction (rev (sort_key (\<lambda>r. (rct_created r, rct_id r))
             (filter (\<lambda>r. rct_post r = i \<and> visible_author s (rct_character r)) (reactions s))))
       in Inr (rs, reaction_counts rs))"

definition required_reaction_type :: "json option \<Rightarrow> string res" where
  "required_reaction_type v = require_some (trimmed (json_text v)) (Bad_Request ''Reaction type is required'')"

definition own_reaction :: "uid \<Rightarrow> uid \<Rightarrow> string \<Rightarrow> reaction_row \<Rightarrow> bool" where
  "own_reaction p u t r \<longleftrightarrow> rct_post r = p \<and> rct_user r = Some u \<and> rct_type r = t"

definition ins_reaction :: "reaction_row \<Rightarrow> backend \<Rightarrow> (reaction_row \<times> backend) res" where
  "ins_reaction row s =
     bindR (constrained True (rct_id row \<notin> rct_id ` set (reactions s))
              (has_user (core_db s) (the (rct_user row)) \<and> rct_post row \<in> pst_id ` set (posts (core_db s))))
       (\<lambda>_. Inr (row, s\<lparr>reactions := reactions s @ [row]\<rparr>))"

definition create_user_reaction :: "time \<Rightarrow> uid \<Rightarrow> string \<Rightarrow> uid \<Rightarrow> json option \<Rightarrow> backend \<Rightarrow> (reaction_view \<times> backend) res" where
  "create_user_reaction now i p u v s =
     bindR (required_reaction_type v) (\<lambda>t.
     bindR (uuid_param p) (\<lambda>post.
     case find (own_reaction post u t) (reactions s) of
       Some r \<Rightarrow> Inr (to_post_reaction r, s)
     | None \<Rightarrow>
         bindR (ins_reaction \<lparr>rct_id = i, rct_post = post, rct_character = None, rct_user = Some u, rct_type = t,
                  rct_created = now\<rparr> s) (\<lambda>(r, s1). Inr (to_post_reaction r, s1))))"

definition delete_user_reaction :: "string \<Rightarrow> uid \<Rightarrow> json option \<Rightarrow> backend \<Rightarrow> (bool \<times> backend) res" where
  "delete_user_reaction p u v s =
     bindR (required_reaction_type v) (\<lambda>t.
     bindR (uuid_param p) (\<lambda>post.
     Inr (list_ex (own_reaction post u t) (reactions s),
          s\<lparr>reactions := filter (\<lambda>r. \<not> own_reaction post u t r) (reactions s)\<rparr>)))"

section \<open>Their properties\<close>

lemma create_reaction_elim:
  assumes "create_user_reaction now i p u v s = Inr (x, s')"
  obtains t post where "trimmed (json_text v) = Some t" "is_uuid p" "post = uuid_cast p"
    "list_ex (own_reaction post u t) (reactions s) \<Longrightarrow> s' = s"
    "\<not> list_ex (own_reaction post u t) (reactions s) \<Longrightarrow>
       \<exists>r. s' = s\<lparr>reactions := reactions s @ [r]\<rparr> \<and> own_reaction post u t r \<and> rct_id r = i"
proof -
  obtain t where t: "trimmed (json_text v) = Some t" "is_uuid p"
    using assms by (auto simp: create_user_reaction_def required_reaction_type_def uuid_param_def bindR_Inr_iff require_some_Inr_iff ensure_Inr_iff)
  show ?thesis
  proof (rule that [OF t refl])
    assume "list_ex (own_reaction (uuid_cast p) u t) (reactions s)"
    then obtain r where "find (own_reaction (uuid_cast p) u t) (reactions s) = Some r"
      by (cases "find (own_reaction (uuid_cast p) u t) (reactions s)") (auto simp: find_None_iff_all list_ex_iff)
    then show "s' = s" using assms t by (simp add: create_user_reaction_def required_reaction_type_def uuid_param_def)
  next
    assume "\<not> list_ex (own_reaction (uuid_cast p) u t) (reactions s)"
    then have "find (own_reaction (uuid_cast p) u t) (reactions s) = None" by (simp add: find_None_iff_all list_ex_iff)
    then show "\<exists>r. s' = s\<lparr>reactions := reactions s @ [r]\<rparr> \<and> own_reaction (uuid_cast p) u t r \<and> rct_id r = i"
      using assms t by (auto simp: create_user_reaction_def required_reaction_type_def uuid_param_def ins_reaction_def
          bindR_Inr_iff own_reaction_def)
  qed
qed

text \<open>Reacting is idempotent and taken back in full: after a reaction the user has exactly one of its type under the post,
  however often it is sent, and deleting it leaves the reactions of everybody else, in their order.\<close>

theorem reaction_taken_back:
  assumes "create_user_reaction now i p u v s = Inr (x, s1)" "trimmed (json_text v) = Some t"
    and "length (filter (own_reaction (uuid_cast p) u t) (reactions s)) \<le> 1"
  shows "length (filter (own_reaction (uuid_cast p) u t) (reactions s1)) = 1 \<and>
    (\<exists>y. create_user_reaction later j p u v s1 = Inr (y, s1)) \<and>
    (\<exists>s2. delete_user_reaction p u v s1 = Inr (True, s2) \<and>
       reactions s2 = filter (\<lambda>r. \<not> own_reaction (uuid_cast p) u t r) (reactions s))"
proof -
  let ?own = "own_reaction (uuid_cast p) u t"
  obtain r where ok: "is_uuid p" and old: "list_ex ?own (reactions s) \<Longrightarrow> s1 = s"
    and new: "\<not> list_ex ?own (reactions s) \<Longrightarrow> s1 = s\<lparr>reactions := reactions s @ [r]\<rparr> \<and> ?own r"
    using create_reaction_elim [OF assms(1)] assms(2) by (metis option.inject)
  have one: "length (filter ?own (reactions s1)) = 1" "filter (\<lambda>r. \<not> ?own r) (reactions s1) = filter (\<lambda>r. \<not> ?own r) (reactions s)"
  proof -
    have "length (filter ?own (reactions s1)) = 1 \<and> filter (\<lambda>r. \<not> ?own r) (reactions s1) = filter (\<lambda>r. \<not> ?own r) (reactions s)"
    proof (cases "list_ex ?own (reactions s)")
      case True
      then have "filter ?own (reactions s) \<noteq> []" by (auto simp: list_ex_iff filter_empty_conv)
      then show ?thesis using assms(3) old [OF True] by (cases "filter ?own (reactions s)") auto
    next
      case False
      then have "filter ?own (reactions s) = []" by (auto simp: list_ex_iff filter_empty_conv)
      then show ?thesis using new [OF False] by simp
    qed
    then show "length (filter ?own (reactions s1)) = 1" "filter (\<lambda>r. \<not> ?own r) (reactions s1) = filter (\<lambda>r. \<not> ?own r) (reactions s)"
      by blast+
  qed
  then have ex: "list_ex ?own (reactions s1)" by (cases "filter ?own (reactions s1)") (auto simp: list_ex_iff filter_eq_Cons_iff)
  then obtain q where "find ?own (reactions s1) = Some q"
    by (cases "find ?own (reactions s1)") (auto simp: find_None_iff_all list_ex_iff)
  then have "create_user_reaction later j p u v s1 = Inr (to_post_reaction q, s1)"
    using ok assms(2) by (simp add: create_user_reaction_def required_reaction_type_def uuid_param_def)
  moreover have "delete_user_reaction p u v s1 = Inr (True, s1\<lparr>reactions := filter (\<lambda>r. \<not> ?own r) (reactions s1)\<rparr>)"
    using ok assms(2) ex by (simp add: delete_user_reaction_def required_reaction_type_def uuid_param_def)
  ultimately show ?thesis using one by auto
qed

end
