(* ===== verification/Feed.thy ===== *)
theory Feed
  imports Reactions
begin

text \<open>
  What the readers do and what they are shown for it: behaviour events and hashtag preferences
  (\<open>src/events/events.service.ts\<close>), follows (\<open>src/follows/follows.service.ts\<close>), the ranked feed
  (\<open>src/feed/feed.service.ts\<close>), stories (\<open>src/stories/stories.service.ts\<close>) and search (\<open>src/search/search.controller.ts\<close>).
  Scores are doubles: rationals that \<open>fl\<close> rounds.
\<close>

section \<open>Events\<close>

record event_input =
  evi_type :: "json option"
  evi_target_type :: "json option"
  evi_target :: "json option"
  evi_metadata :: "json option"

record user_event =
  uve_user :: uid
  uve_type :: string
  uve_target_type :: string
  uve_target :: string
  uve_metadata :: "json option"

definition event_weight :: "string \<Rightarrow> rat option" where
  "event_weight t =
     (if t = ''feed_view'' then Some (fl (1 / 5)) else if t = ''post_open'' then Some 1
      else if t = ''follow_character'' then Some 3 else if t = ''message_character'' then Some 4 else None)"

definition normalize_event :: "uid \<Rightarrow> event_input \<Rightarrow> user_event res" where
  "normalize_event u inp =
     bindR (required_string ''userId'' (Some (J_String u))) (\<lambda>user.
     bindR (required_string ''eventType'' (evi_type inp)) (\<lambda>t.
     bindR (required_string ''targetType'' (evi_target_type inp)) (\<lambda>tt.
     bindR (required_string ''targetId'' (evi_target inp)) (\<lambda>i.
     bindR (ensure (case evi_metadata inp of None \<Rightarrow> True | Some (J_Object _) \<Rightarrow> True | _ \<Rightarrow> False)
              (Bad_Request ''metadata must be an object'')) (\<lambda>_.
     Inr \<lparr>uve_user = user, uve_type = t, uve_target_type = tt, uve_target = i, uve_metadata = evi_metadata inp\<rparr>)))))"

definition store_event :: "time \<Rightarrow> uid \<Rightarrow> user_event \<Rightarrow> backend \<Rightarrow> (unit \<times> backend) res" where
  "store_event now i v s = ins_user_event \<lparr>uev_id = i, uev_user = uve_user v, uev_type = uve_type v,
     uev_target_type = uve_target_type v, uev_target = uve_target v, uev_metadata = uve_metadata v, uev_created = now\<rparr> s"

definition clean_hashtags :: "string list \<Rightarrow> string list" where
  "clean_hashtags hs = rev (remdups (rev (filter (\<lambda>h. h \<noteq> []) (map trim hs))))"

definition hashtags_for :: "media_env \<Rightarrow> user_event \<Rightarrow> backend \<Rightarrow> string list" where
  "hashtags_for e v s =
     (if uve_target_type v = ''post'' \<and> uve_type v \<in> {''feed_view'', ''post_open''} then
        clean_hashtags (case find_post e (uve_target v) s of Some p \<Rightarrow> pvw_hashtags p | None \<Rightarrow> [])
      else if uve_target_type v = ''character'' \<and> uve_type v \<in> {''follow_character'', ''message_character''} then
        clean_hashtags (case find_character e (uve_target v) s of Some c \<Rightarrow> crd_interests c | None \<Rightarrow> [])
      else [])"

text \<open>The statements of an update commit one by one. An upsert of a hashtag by its name gives the id of the row.\<close>

definition upsert_hashtag :: "uid \<Rightarrow> string \<Rightarrow> backend \<Rightarrow> uid \<times> backend" where
  "upsert_hashtag i name s =
     (case find (\<lambda>h. htg_name h = name) (hashtags s) of
        Some h \<Rightarrow> (htg_id h, s)
      | None \<Rightarrow> (i, s\<lparr>hashtags := hashtags s @ [\<lparr>htg_id = i, htg_name = name\<rparr>]\<rparr>))"

fun upsert_hashtags :: "(nat \<Rightarrow> uid) \<Rightarrow> string list \<Rightarrow> backend \<Rightarrow> uid list \<times> backend" where
  "upsert_hashtags ids [] s = ([], s)"
| "upsert_hashtags ids (name # names) s =
     (case upsert_hashtag (ids (length names)) name s of (i, s1) \<Rightarrow>
        (case upsert_hashtags ids names s1 of (is, s2) \<Rightarrow> (i # is, s2)))"

definition add_preference :: "uid \<Rightarrow> rat \<Rightarrow> uid \<Rightarrow> backend \<Rightarrow> backend" where
  "add_preference u weight h s =
     (if list_ex (\<lambda>p. prf_user p = u \<and> prf_hashtag p = h) (preferences s) then
        s\<lparr>preferences := update_where (\<lambda>p. prf_user p = u \<and> prf_hashtag p = h) (\<lambda>p. p\<lparr>prf_score := fl (prf_score p + weight)\<rparr>) (preferences s)\<rparr>
      else if has_user (core_db s) u then s\<lparr>preferences := preferences s @ [\<lparr>prf_user = u, prf_hashtag = h, prf_score = weight\<rparr>]\<rparr>
      else s)"

definition increase_hashtag_preferences :: "(nat \<Rightarrow> uid) \<Rightarrow> uid \<Rightarrow> string list \<Rightarrow> rat \<Rightarrow> backend \<Rightarrow> backend" where
  "increase_hashtag_preferences ids u names weight s =
     (case upsert_hashtags ids names s of (hs, s1) \<Rightarrow> fold (add_preference u weight) hs s1)"

text \<open>The preferences are updated behind the request, and whatever goes wrong there is dropped.\<close>

definition update_preferences :: "media_env \<Rightarrow> (nat \<Rightarrow> uid) \<Rightarrow> user_event \<Rightarrow> backend \<Rightarrow> backend" where
  "update_preferences e ids v s =
     (case event_weight (uve_type v) of
        None \<Rightarrow> s
      | Some w \<Rightarrow> (let hs = hashtags_for e v s in if hs = [] then s else increase_hashtag_preferences ids (uve_user v) hs w s))"

definition record_event :: "time \<Rightarrow> uid \<Rightarrow> uid \<Rightarrow> event_input \<Rightarrow> backend \<Rightarrow> (user_event \<times> backend) res" where
  "record_event now i u inp s =
     bindR (normalize_event u inp) (\<lambda>v. bindR (store_event now i v s) (\<lambda>(_, s1). Inr (v, s1)))"

definition record_client_event :: "time \<Rightarrow> uid \<Rightarrow> uid \<Rightarrow> event_input \<Rightarrow> backend \<Rightarrow> (user_event \<times> backend) res" where
  "record_client_event now i u inp s =
     bindR (normalize_event u inp) (\<lambda>v.
     bindR (ensure (uve_type v \<in> {''feed_view'', ''post_open''} \<and> uve_target_type v = ''post'') (Bad_Request ''Unsupported client event'')) (\<lambda>_.
     bindR (ensure (has_visible_post (uve_target v) s) (Bad_Request ''Event target not found'')) (\<lambda>_.
     bindR (store_event now i v s) (\<lambda>(_, s1). Inr (v, s1)))))"

definition hashtag_preferences_for :: "uid \<Rightarrow> backend \<Rightarrow> (string \<times> rat) list" where
  "hashtag_preferences_for u s =
     concat (map (\<lambda>p. map (\<lambda>h. (htg_name h, prf_score p)) (filter (\<lambda>h. htg_id h = prf_hashtag p) (hashtags s)))
       (filter (\<lambda>p. prf_user p = u) (preferences s)))"

section \<open>Follows\<close>

record character_follow =
  cfw_user :: uid
  cfw_character :: uid
  cfw_created :: time

definition to_character_follow :: "follow_row \<Rightarrow> character_follow" where
  "to_character_follow f = \<lparr>cfw_user = flw_user f, cfw_character = flw_character f, cfw_created = js_date (flw_created f)\<rparr>"

definition assert_user_and_character :: "uid \<Rightarrow> string \<Rightarrow> backend \<Rightarrow> unit res" where
  "assert_user_and_character u c s =
     bindR (ensure (has_user (core_db s) u) (Bad_Request ''User not found'')) (\<lambda>_.
     ensure (has_active_character c s) (Bad_Request ''Character not found''))"

abbreviation follow_of :: "uid \<Rightarrow> string \<Rightarrow> follow_row \<Rightarrow> bool" where
  "follow_of u c f \<equiv> flw_user f = u \<and> flw_character f = uuid_cast c"

definition upsert_follow :: "time \<Rightarrow> uid \<Rightarrow> string \<Rightarrow> backend \<Rightarrow> follow_row \<times> backend" where
  "upsert_follow now u c s =
     (case find (follow_of u c) (follows (core_db s)) of
        Some f \<Rightarrow> (f, s)
      | None \<Rightarrow> (let f = \<lparr>flw_user = u, flw_character = uuid_cast c, flw_created = now, flw_notified = now\<rparr>
                 in (f, s\<lparr>core_db := (core_db s)\<lparr>follows := follows (core_db s) @ [f]\<rparr>\<rparr>)))"

definition follow_event :: "string \<Rightarrow> event_input" where
  "follow_event c = \<lparr>evi_type = Some (J_String ''follow_character''), evi_target_type = Some (J_String ''character''),
     evi_target = Some (J_String c), evi_metadata = None\<rparr>"

definition follow_character :: "time \<Rightarrow> uid \<Rightarrow> uid \<Rightarrow> string \<Rightarrow> backend \<Rightarrow> (character_follow \<times> backend) res" where
  "follow_character now i u c s =
     bindR (assert_user_and_character u c s) (\<lambda>_.
       case upsert_follow now u c s of (f, s1) \<Rightarrow>
       Inr (to_character_follow f, case record_event now i u (follow_event c) s1 of Inl _ \<Rightarrow> s1 | Inr (_, s2) \<Rightarrow> s2))"

definition unfollow_character :: "uid \<Rightarrow> string \<Rightarrow> backend \<Rightarrow> (bool \<times> backend) res" where
  "unfollow_character u c s =
     bindR (assert_user_and_character u c s) (\<lambda>_.
       Inr (list_ex (follow_of u c) (follows (core_db s)),
            s\<lparr>core_db := (core_db s)\<lparr>follows := filter (\<lambda>f. \<not> follow_of u c f) (follows (core_db s))\<rparr>\<rparr>))"

definition active_follows :: "uid \<Rightarrow> backend \<Rightarrow> follow_row list" where
  "active_follows u s = filter (\<lambda>f. flw_user f = u \<and> list_ex (\<lambda>r. chr_id r = flw_character f) (active_characters s)) (follows (core_db s))"

definition list_followed_characters :: "uid \<Rightarrow> backend \<Rightarrow> character_follow list" where
  "list_followed_characters u s = map to_character_follow (sort_key flw_created (active_follows u s))"

definition followed_character_ids :: "uid \<Rightarrow> backend \<Rightarrow> uid list" where
  "followed_character_ids u s = map flw_character (active_follows u s)"

record relationship =
  rel_character :: string
  rel_following :: bool
  rel_followed_at :: "time option"
  rel_bond :: int

text \<open>The bonds belong to the agent; their ids are texts, compared as they come.\<close>

definition get_character_relationship :: "uid \<Rightarrow> string \<Rightarrow> backend \<Rightarrow> relationship res" where
  "get_character_relationship u c s =
     bindR (assert_user_and_character u c s) (\<lambda>_.
       let f = find (follow_of u c) (follows (core_db s)); b = find (\<lambda>b. bnd_user b = u \<and> bnd_character b = c) (bonds s)
       in Inr \<lparr>rel_character = c, rel_following = (f \<noteq> None), rel_followed_at = map_option (\<lambda>f. js_date (flw_created f)) f,
               rel_bond = (case b of Some r \<Rightarrow> bnd_level r | None \<Rightarrow> 1)\<rparr>)"

section \<open>The feed\<close>

definition hashtag_affinity :: "(string \<times> rat) list \<Rightarrow> post_view \<Rightarrow> rat" where
  "hashtag_affinity prefs p =
     fold (\<lambda>h score. fl (score + (case map_of (rev prefs) h of Some x \<Rightarrow> x | None \<Rightarrow> 0))) (pvw_hashtags p) 0"

definition feed_score :: "uid list \<Rightarrow> (string \<times> rat) list \<Rightarrow> post_view \<Rightarrow> rat" where
  "feed_score fs prefs p = fl (hashtag_affinity prefs p + (if pvw_character p \<in> set fs then 1 else 0))"

definition feed_scores :: "uid option \<Rightarrow> backend \<Rightarrow> post_view \<Rightarrow> rat" where
  "feed_scores u s =
     (case u of
        None \<Rightarrow> feed_score [] []
      | Some i \<Rightarrow> feed_score (followed_character_ids i s) (hashtag_preferences_for i s))"

definition get_feed :: "media_env \<Rightarrow> uid option \<Rightarrow> backend \<Rightarrow> post_view list" where
  "get_feed e u s =
     sort_key (\<lambda>p. (- feed_scores u s p, - pvw_created p)) (filter (\<lambda>p. pvw_type p = Feed_Post) (list_posts e s))"

fun find_index :: "('a \<Rightarrow> bool) \<Rightarrow> 'a list \<Rightarrow> nat option" where
  "find_index q [] = None"
| "find_index q (x # xs) = (if q x then Some 0 else map_option Suc (find_index q xs))"

definition get_feed_page :: "media_env \<Rightarrow> uid option \<Rightarrow> page_input \<Rightarrow> backend \<Rightarrow> post_view page res" where
  "get_feed_page e u inp s =
     bindR (decode_cursor (pg_cursor inp)) (\<lambda>cursor_id.
     let ps = get_feed e u s in
     bindR (case cursor_id of
              None \<Rightarrow> Inr 0
            | Some i \<Rightarrow> bindR (require_some (find_index (\<lambda>p. pvw_id p = i) ps) (Bad_Request ''Invalid cursor'')) (\<lambda>k. Inr (Suc k))) (\<lambda>k.
     Inr (page_from_rows pvw_id (take (nat (pg_limit inp + 1)) (drop k ps)) (pg_limit inp))))"

section \<open>Stories\<close>

record story_view =
  svw_id :: uid
  svw_character :: uid
  svw_caption :: string
  svw_media :: "media_view option"
  svw_created :: time
  svw_expires :: time

definition to_story :: "media_env \<Rightarrow> backend \<Rightarrow> story_row \<Rightarrow> story_view" where
  "to_story e s r = \<lparr>svw_id = sty_id r, svw_character = sty_character r, svw_caption = sty_caption r,
     svw_media = map_option (to_media_view e) (find_media (sty_media r) s), svw_created = js_date (sty_created r),
     svw_expires = js_date (sty_expires r)\<rparr>"

definition story_key :: "story_row \<Rightarrow> time \<times> uid" where
  "story_key r = (sty_created r, sty_id r)"

text \<open>A story is shown while it has not expired, with the media it refers to; the foreign key makes that join total.\<close>

definition active_story :: "time \<Rightarrow> uid option \<Rightarrow> backend \<Rightarrow> story_row \<Rightarrow> bool" where
  "active_story now c s r \<longleftrightarrow> list_ex (\<lambda>x. chr_id x = sty_character r) (active_characters s) \<and> js_date now < sty_expires r \<and>
     (case c of None \<Rightarrow> True | Some i \<Rightarrow> sty_character r = i)"

definition list_active_stories_page :: "media_env \<Rightarrow> time \<Rightarrow> uid option \<Rightarrow> page_input \<Rightarrow> backend \<Rightarrow> story_view page res" where
  "list_active_stories_page e now c inp s =
     bindR (decode_cursor (pg_cursor inp)) (\<lambda>cursor_id.
     bindR (keyset_page story_key (active_story now c s) (stories (core_db s)) cursor_id (pg_limit inp)) (\<lambda>rows.
     Inr (page_from_rows svw_id (map (to_story e s) rows) (pg_limit inp))))"

definition list_stories_page :: "media_env \<Rightarrow> time \<Rightarrow> page_input \<Rightarrow> backend \<Rightarrow> story_view page res" where
  "list_stories_page e now inp s = list_active_stories_page e now None inp s"

definition list_character_stories_page :: "media_env \<Rightarrow> time \<Rightarrow> string \<Rightarrow> page_input \<Rightarrow> backend \<Rightarrow> story_view page res" where
  "list_character_stories_page e now c inp s =
     bindR (decode_cursor (pg_cursor inp)) (\<lambda>_.
       if c = [] then list_active_stories_page e now None inp s
       else bindR (uuid_param c) (\<lambda>i. list_active_stories_page e now (Some i) inp s))"

section \<open>Search\<close>

definition parse_query :: "string option \<Rightarrow> string res" where
  "parse_query raw =
     (let q = dropWhile (\<lambda>c. c = CHR ''#'') (trim (case raw of Some t \<Rightarrow> t | None \<Rightarrow> []))
      in bindR (ensure (q \<noteq> []) (Bad_Request ''q is required'')) (\<lambda>_. Inr q))"

definition parse_target_type :: "string option \<Rightarrow> string option res" where
  "parse_target_type raw =
     (if \<not> truthy raw then Inr None
      else bindR (ensure (the raw \<in> {''character'', ''post'', ''hashtag''})
             (Bad_Request ''targetType must be character, post, or hashtag'')) (\<lambda>_. Inr raw))"

definition parse_limit :: "string option \<Rightarrow> int res" where
  "parse_limit raw =
     (if \<not> truthy raw then Inr 10
      else case to_number (the raw) of
        Js_Int n \<Rightarrow> if n < 1 then Inl (Bad_Request ''limit must be a positive integer'') else Inr (min n 50)
      | Js_Other \<Rightarrow> Inl (Bad_Request ''limit must be a positive integer''))"

record search_result =
  srr_characters :: "character_card list"
  srr_posts :: "post_view list"
  srr_hashtags :: "string list"

definition should_search :: "string option \<Rightarrow> string \<Rightarrow> bool" where
  "should_search t expected \<longleftrightarrow> t = None \<or> t = Some expected"

definition search :: "media_env \<Rightarrow> string option \<Rightarrow> string option \<Rightarrow> string option \<Rightarrow> backend \<Rightarrow> search_result res" where
  "search e raw_query raw_type raw_limit s =
     bindR (parse_query raw_query) (\<lambda>q.
     bindR (parse_target_type raw_type) (\<lambda>t.
     bindR (parse_limit raw_limit) (\<lambda>n.
     Inr \<lparr>srr_characters = (if should_search t ''character'' then search_characters e q n s else []),
          srr_posts = (if should_search t ''post'' then search_posts e q n s else []),
          srr_hashtags = (if should_search t ''hashtag'' then search_hashtags q n s else [])\<rparr>)))"

definition list_hashtag_posts :: "media_env \<Rightarrow> string \<Rightarrow> string option \<Rightarrow> string option \<Rightarrow> backend \<Rightarrow> post_view page res" where
  "list_hashtag_posts e raw_tag cursor raw_limit s =
     (let tag = dropWhile (\<lambda>c. c = CHR ''#'') (trim raw_tag)
      in bindR (ensure (tag \<noteq> []) (Bad_Request ''tag is required'')) (\<lambda>_.
         bindR (parse_page_query cursor raw_limit) (\<lambda>inp.
         list_posts_page e \<lparr>pfl_character = None, pfl_type = None, pfl_hashtag = Some tag, pfl_media = None\<rparr> inp s)))"

end
