(* ===== verification/Notification_Runs.thy ===== *)
theory Notification_Runs
  imports Notification_Props Feed
begin

text \<open>
  The syncs of one user over any run of the backend: between them posts and stories are published and removed, the user
  follows and unfollows, and the rest goes on. No post or story is announced twice.
\<close>

section \<open>Runs\<close>

text \<open>
  A run of the backend as the user \<open>u\<close> sees it, with what it leaves on record: the instants at which the user's requests
  were served, the posts and stories published on the way, and the notifications of each sync.
\<close>

inductive news_run ::
    "uid \<Rightarrow> backend \<Rightarrow> time list \<Rightarrow> (string \<times> uid) list \<Rightarrow> notification_row list list \<Rightarrow> backend \<Rightarrow> bool" for u w0 where
  Start: "news_run u w0 [] [] [] w0"
| Sync: "news_run u w0 ts ps news w \<Longrightarrow> sync_follow_notifications now ids u (core_db w) = Inr (r, d) \<Longrightarrow>
    notifications d = notifications (core_db w) @ new \<Longrightarrow>
    news_run u w0 (ts @ [now]) ps (news @ [new]) (w\<lparr>core_db := d\<rparr>)"
| Follow: "news_run u w0 ts ps news w \<Longrightarrow> follow_character now i u c w = Inr (x, w') \<Longrightarrow> news_run u w0 (ts @ [now]) ps news w'"
| Unfollow: "news_run u w0 ts ps news w \<Longrightarrow> unfollow_character u c w = Inr (y, w') \<Longrightarrow> news_run u w0 ts ps news w'"
| Post: "news_run u w0 ts ps news w \<Longrightarrow>
    news_run u w0 ts (ps @ [(character_new_post, pst_id p)]) news
      (w\<lparr>core_db := (core_db w)\<lparr>posts := posts (core_db w) @ [p]\<rparr>\<rparr>)"
| Story: "news_run u w0 ts ps news w \<Longrightarrow>
    news_run u w0 ts (ps @ [(character_new_story, sty_id t)]) news
      (w\<lparr>core_db := (core_db w)\<lparr>stories := stories (core_db w) @ [t]\<rparr>\<rparr>)"
| Elsewhere: "news_run u w0 ts ps news w \<Longrightarrow> posts (core_db w') = filter p (posts (core_db w)) \<Longrightarrow>
    stories (core_db w') = filter q (stories (core_db w)) \<Longrightarrow>
    filter (\<lambda>f. flw_user f = u) (follows (core_db w')) = filter (\<lambda>f. flw_user f = u) (follows (core_db w)) \<Longrightarrow>
    news_run u w0 ts ps news w'"

definition publication_keys :: "db \<Rightarrow> (string \<times> uid) list" where
  "publication_keys s = map (\<lambda>(k, i, ch, cr). (k, i)) (published s)"

lemma publication_keys_eq:
  "publication_keys s = map (\<lambda>p. (character_new_post, pst_id p)) (posts s) @
     map (\<lambda>t. (character_new_story, sty_id t)) (stories s)"
  by (simp add: publication_keys_def published_def)

lemma publication_kinds: "character_new_post \<noteq> character_new_story"
  by (simp add: character_new_post_def character_new_story_def)

lemma distinct_publication_keys:
  "distinct (publication_keys s) \<longleftrightarrow> distinct (map pst_id (posts s)) \<and> distinct (map sty_id (stories s))"
  using publication_kinds by (auto simp: publication_keys_eq distinct_map inj_on_def)

section \<open>What a run keeps\<close>

text \<open>The watermarks of the user's follows of a character have passed an instant.\<close>

definition marked :: "uid \<Rightarrow> db \<Rightarrow> uid \<Rightarrow> time \<Rightarrow> bool" where
  "marked u s ch cr \<longleftrightarrow> (\<forall>f \<in> set (follows s). flw_user f = u \<longrightarrow> flw_character f = ch \<longrightarrow> cr \<le> js_date (flw_notified f))"

lemma in_window_unmarked: "in_window (followed u s) t ch cr \<Longrightarrow> \<not> marked u s ch cr"
  by (fastforce simp: in_window_def list_ex_iff followed_iff marked_def)

text \<open>What has been announced: its key is used up, its instant lies in the past and behind the watermarks.\<close>

definition told_ok :: "uid \<Rightarrow> time list \<Rightarrow> (string \<times> uid) list \<Rightarrow> db \<Rightarrow> string \<times> uid option \<Rightarrow> bool" where
  "told_ok u ts ps s x \<longleftrightarrow> (\<exists>k i. x = (k, Some i) \<and> (k, i) \<in> set ps \<and>
     (\<forall>ch cr. (k, i, ch, cr) \<in> set (published s) \<longrightarrow> marked u s ch cr \<and> (\<exists>t \<in> set ts. cr \<le> js_date t)))"

definition news_inv :: "uid \<Rightarrow> time list \<Rightarrow> (string \<times> uid) list \<Rightarrow> notification_row list list \<Rightarrow> db \<Rightarrow> bool" where
  "news_inv u ts ps news s \<longleftrightarrow> distinct (publication_keys s) \<and> set (publication_keys s) \<subseteq> set ps \<and>
     distinct (map announced (concat news)) \<and> (\<forall>x \<in> announced ` set (concat news). told_ok u ts ps s x) \<and>
     list_all (\<lambda>new. length new \<le> 50 \<and> list_all (\<lambda>n. ntf_user n = u) new) news"

lemma news_invD:
  assumes "news_inv u ts ps news s"
  shows "distinct (publication_keys s)" "set (publication_keys s) \<subseteq> set ps" "distinct (map announced (concat news))"
    "x \<in> announced ` set (concat news) \<Longrightarrow> told_ok u ts ps s x"
    "list_all (\<lambda>new. length new \<le> 50 \<and> list_all (\<lambda>n. ntf_user n = u) new) news"
  using assms unfolding news_inv_def by blast+

lemma told_ok_mono:
  assumes "told_ok u ts ps s x" "set ts \<subseteq> set ts'" "set ps \<subseteq> set ps'"
    and "\<And>k i ch cr. (k, i, ch, cr) \<in> set (published s') \<Longrightarrow> (k, i) \<in> set ps \<Longrightarrow> (k, i, ch, cr) \<in> set (published s)"
    and "\<And>ch cr. marked u s ch cr \<Longrightarrow> \<exists>t \<in> set ts. cr \<le> js_date t \<Longrightarrow> marked u s' ch cr"
  shows "told_ok u ts' ps' s' x"
proof -
  from assms(1) obtain k i where x: "x = (k, Some i)" "(k, i) \<in> set ps"
    and told: "\<And>ch cr. (k, i, ch, cr) \<in> set (published s) \<Longrightarrow> marked u s ch cr \<and> (\<exists>t \<in> set ts. cr \<le> js_date t)"
    unfolding told_ok_def by blast
  have "marked u s' ch cr \<and> (\<exists>t \<in> set ts'. cr \<le> js_date t)" if "(k, i, ch, cr) \<in> set (published s')" for ch cr
    using told [OF assms(4) [OF that x(2)]] assms(2,5) by blast
  with x assms(3) show ?thesis unfolding told_ok_def by blast
qed

lemma news_inv_step:
  assumes "news_inv u ts ps news s" "set ts \<subseteq> set ts'" "set ps \<subseteq> set ps'"
    and "distinct (publication_keys s')" "set (publication_keys s') \<subseteq> set ps'"
    and "\<And>k i ch cr. (k, i, ch, cr) \<in> set (published s') \<Longrightarrow> (k, i) \<in> set ps \<Longrightarrow> (k, i, ch, cr) \<in> set (published s)"
    and "\<And>ch cr. marked u s ch cr \<Longrightarrow> \<exists>t \<in> set ts. cr \<le> js_date t \<Longrightarrow> marked u s' ch cr"
  shows "news_inv u ts' ps' news s'"
  using news_invD [OF assms(1)] assms(4,5) told_ok_mono [OF _ assms(2,3,6,7)] unfolding news_inv_def by blast

lemma js_date_mono: "a \<le> b \<Longrightarrow> js_date a \<le> js_date b"
  by (simp add: js_date_def zdiv_mono1)

lemma js_date_idem [simp]: "js_date (js_date t) = js_date t"
  by (simp add: js_date_def)

text \<open>A sync announces what no sync has announced, and moves the watermarks past it.\<close>

lemma news_inv_sync:
  assumes inv: "news_inv u ts ps news s" and past: "\<forall>t \<in> set ts. t \<le> now"
    and sync: "sync_follow_notifications now ids u s = Inr (r, d)" and new: "notifications d = notifications s @ new"
  shows "news_inv u (ts @ [now]) ps (news @ [new]) d"
  using sync
proof (cases rule: sync_elim)
  case idle
  then have "new = []" using new by simp
  moreover have "news_inv u (ts @ [now]) ps news d"
    using idle news_invD(1,2) [OF inv] by (intro news_inv_step [OF inv]) auto
  ultimately show ?thesis by (simp add: news_inv_def)
next
  case (ran rows)
  let ?fs = "followed u s"
  have rows: "rows = new" using ran(1) new by simp
  have same: "published d = published s" using ran(4,5) by (simp add: published_def)
  then have keys: "publication_keys d = publication_keys s" by (simp add: publication_keys_def)
  have uniq: "distinct (map pst_id (posts s))" "distinct (map sty_id (stories s))"
    using news_invD(1) [OF inv] by (simp_all add: distinct_publication_keys)
  have found: "\<exists>k i ch cr. announced n = (k, Some i) \<and> (k, i, ch, cr) \<in> set (published s) \<and> in_window ?fs (js_date now) ch cr"
    if n: "n \<in> set new" for n
  proof -
    obtain c where c: "c \<in> set (post_candidates ?fs (js_date now) s) \<union> set (story_candidates ?fs (js_date now) s)"
      "announced n = (cd_type c, Some (cd_target c))"
      using conjunct2 [OF bspec [OF ran(9) n [folded rows]]] by (rule bexE)
    from candidates_sound [OF c(1)] c(2) show ?thesis by auto
  qed
  have follow: "\<exists>g \<in> set (follows s). flw_user g = flw_user f \<and> flw_character g = flw_character f \<and>
      (flw_notified f = js_date now \<or> f = g \<and> flw_character f \<notin> set (map fv_character ?fs))"
    if f: "f \<in> set (follows d)" "flw_user f = u" for f
  proof -
    obtain g where g: "g \<in> set (follows s)" and
      gf: "f = (if flw_user g = u \<and> flw_character g \<in> set (map fv_character ?fs) then g\<lparr>flw_notified := js_date now\<rparr> else g)"
      using f(1) unfolding ran(7) by (rule update_whereE)
    show ?thesis
      by (rule bexI [OF _ g]) (use gf f(2) in \<open>auto split: if_splits\<close>)
  qed
  have kept: "marked u d ch cr" if m: "marked u s ch cr" "cr \<le> js_date now" for ch cr
    unfolding marked_def
  proof (intro ballI impI)
    fix f assume "f \<in> set (follows d)" "flw_user f = u" "flw_character f = ch"
    with follow [of f] m show "cr \<le> js_date (flw_notified f)" unfolding marked_def by force
  qed
  have moved: "marked u d ch cr" if w: "in_window ?fs (js_date now) ch cr" for ch cr
    unfolding marked_def
  proof (intro ballI impI)
    fix f assume "f \<in> set (follows d)" "flw_user f = u" "flw_character f = ch"
    moreover have "ch \<in> set (map fv_character ?fs)" "cr \<le> js_date now" using w by (auto simp: in_window_def list_ex_iff)
    ultimately show "cr \<le> js_date (flw_notified f)" using follow [of f] by force
  qed
  have fresh: "announced n \<notin> announced ` set (concat news)" if n: "n \<in> set new" for n
  proof
    assume "announced n \<in> announced ` set (concat news)"
    then have told: "told_ok u ts ps s (announced n)" by (rule news_invD(4) [OF inv])
    from found [OF n] told obtain ch cr where "in_window ?fs (js_date now) ch cr" "marked u s ch cr"
      unfolding told_ok_def by (metis option.sel prod.inject)
    then show False using in_window_unmarked by blast
  qed
  have told_new: "told_ok u (ts @ [now]) ps d (announced n)" if n: "n \<in> set new" for n
  proof -
    obtain k i ch cr where p: "announced n = (k, Some i)" "(k, i, ch, cr) \<in> set (published s)" "in_window ?fs (js_date now) ch cr"
      using found [OF n] by blast
    have "(k, i) \<in> set ps" using news_invD(2) [OF inv] p(2) by (force simp: publication_keys_def)
    moreover have "marked u d ch' cr' \<and> cr' \<le> js_date now" if q: "(k, i, ch', cr') \<in> set (published d)" for ch' cr'
    proof -
      have "ch' = ch \<and> cr' = cr" using published_unique [OF uniq p(2)] q unfolding same by blast
      then show ?thesis using moved p(3) by (auto simp: in_window_def list_ex_iff)
    qed
    ultimately show ?thesis using p(1) unfolding told_ok_def by auto
  qed
  have told_old: "told_ok u (ts @ [now]) ps d x" if "x \<in> announced ` set (concat news)" for x
  proof (rule told_ok_mono [OF news_invD(4) [OF inv that]])
    fix ch cr assume m: "marked u s ch cr" "\<exists>t \<in> set ts. cr \<le> js_date t"
    then obtain t where "t \<in> set ts" "cr \<le> js_date t" by blast
    then have "cr \<le> js_date now" using past js_date_mono [of t now] by force
    with m(1) show "marked u d ch cr" by (rule kept)
  qed (auto simp: same)
  have "set (concat (news @ [new])) = set (concat news) \<union> set new" by simp
  then have "\<forall>x \<in> announced ` set (concat (news @ [new])). told_ok u (ts @ [now]) ps d x"
    unfolding image_Un ball_Un using told_new told_old by (simp only: image_Un ball_Un) blast
  moreover have "announced ` set (concat news) \<inter> announced ` set new = {}"
    unfolding disjoint_iff using fresh by (metis imageE)
  then have "distinct (map announced (concat (news @ [new])))"
    using news_invD(3) [OF inv] ran(8) [OF uniq] by (simp add: rows)
  ultimately show ?thesis
    using news_invD(1,2,5) [OF inv] ran(2,3,9)
    unfolding news_inv_def rows by (simp add: keys list_all_iff)
qed

text \<open>A new follow starts with the present as its watermark.\<close>

lemma follow_request_effect:
  assumes "follow_character now i u c w = Inr (x, w')"
  shows "published (core_db w') = published (core_db w)"
    and "f \<in> set (follows (core_db w')) \<Longrightarrow> f \<in> set (follows (core_db w)) \<or> flw_notified f = now"
proof -
  obtain s1 where up: "(snd (upsert_follow now u c w)) = s1" and w': "core_db w' = core_db s1"
    using assms
    by (auto simp: follow_character_def bindR_Inr_iff record_event_def store_event_def ins_user_event_Inr_iff
        split: prod.splits sum.splits)
  have "follows (core_db s1) = follows (core_db w) \<or>
      follows (core_db s1) = follows (core_db w) @ [\<lparr>flw_user = u, flw_character = uuid_cast c, flw_created = now, flw_notified = now\<rparr>]"
    and p: "published (core_db s1) = published (core_db w)"
    using up by (auto simp: upsert_follow_def Let_def published_def split: option.splits)
  then show "f \<in> set (follows (core_db w')) \<Longrightarrow> f \<in> set (follows (core_db w)) \<or> flw_notified f = now"
    unfolding w' by auto
  show "published (core_db w') = published (core_db w)" unfolding w' by (rule p)
qed

lemma news_run_inv:
  assumes "news_run u w ts ps news w'" "sorted ts" "distinct (publication_keys (core_db w) @ ps)"
  shows "news_inv u ts (publication_keys (core_db w) @ ps) news (core_db w')"
  using assms
proof (induction rule: news_run.induct)
  case Start
  then show ?case by (simp add: news_inv_def)
next
  case (Sync ts ps news w' now ids r d new)
  then have "news_inv u (ts @ [now]) (publication_keys (core_db w) @ ps) (news @ [new]) d"
    by (intro news_inv_sync) (auto simp: sorted_append)
  then show ?case by simp
next
  case (Follow ts ps news w' now i c x w'')
  then have inv: "news_inv u ts (publication_keys (core_db w) @ ps) news (core_db w')" by (simp add: sorted_append)
  note eff = follow_request_effect [OF Follow(2)]
  have keys: "publication_keys (core_db w'') = publication_keys (core_db w')" by (simp add: publication_keys_def eff(1))
  show ?case
  proof (rule news_inv_step [OF inv])
    fix ch cr assume m: "marked u (core_db w') ch cr" "\<exists>t \<in> set ts. cr \<le> js_date t"
    then obtain t where "t \<in> set ts" "cr \<le> js_date t" by blast
    then have "cr \<le> js_date now" using Follow.prems(1) js_date_mono [of t now] by (force simp: sorted_append)
    then show "marked u (core_db w'') ch cr" using m(1) eff(2) unfolding marked_def by blast
  qed (use news_invD(1,2) [OF inv] in \<open>auto simp: eff(1) keys\<close>)
next
  case (Unfollow ts ps news w' c y w'')
  then have inv: "news_inv u ts (publication_keys (core_db w) @ ps) news (core_db w')" by simp
  have eff: "published (core_db w'') = published (core_db w')" "set (follows (core_db w'')) \<subseteq> set (follows (core_db w'))"
    using Unfollow(2) by (auto simp: unfollow_character_def bindR_Inr_iff published_def)
  then have keys: "publication_keys (core_db w'') = publication_keys (core_db w')" by (simp add: publication_keys_def)
  show ?case
    by (rule news_inv_step [OF inv]) (use news_invD(1,2) [OF inv] eff(2) in \<open>auto simp: eff(1) keys marked_def\<close>)
next
  case (Post ts ps news w' p)
  then have inv: "news_inv u ts (publication_keys (core_db w) @ ps) news (core_db w')" by simp
  let ?key = "(character_new_post, pst_id p)"
  have new: "?key \<notin> set (publication_keys (core_db w) @ ps)" using Post.prems(2) by auto
  then have "?key \<notin> set (publication_keys (core_db w'))" using news_invD(2) [OF inv] by blast
  then show ?case
    by (intro news_inv_step [OF inv])
      (use news_invD(1,2) [OF inv] new in \<open>auto simp: publication_keys_eq published_def marked_def\<close>)
next
  case (Story ts ps news w' t)
  then have inv: "news_inv u ts (publication_keys (core_db w) @ ps) news (core_db w')" by simp
  let ?key = "(character_new_story, sty_id t)"
  have new: "?key \<notin> set (publication_keys (core_db w) @ ps)" using Story.prems(2) by auto
  then have "?key \<notin> set (publication_keys (core_db w'))" using news_invD(2) [OF inv] by blast
  then show ?case
    by (intro news_inv_step [OF inv])
      (use news_invD(1,2) [OF inv] new in \<open>auto simp: publication_keys_eq published_def marked_def\<close>)
next
  case (Elsewhere ts ps news w' w'' p q)
  then have inv: "news_inv u ts (publication_keys (core_db w) @ ps) news (core_db w')" by simp
  have mine: "f \<in> set (follows (core_db w'')) \<longleftrightarrow> f \<in> set (follows (core_db w'))" if "flw_user f = u" for f
    using arg_cong [OF Elsewhere(4), of set] that by auto
  from news_invD(1) [OF inv] have "distinct (publication_keys (core_db w''))"
    unfolding distinct_publication_keys Elsewhere(2,3) by (simp add: distinct_map_filter)
  moreover have "set (publication_keys (core_db w'')) \<subseteq> set (publication_keys (core_db w'))"
    unfolding publication_keys_eq Elsewhere(2,3) by auto
  ultimately show ?case
    by (intro news_inv_step [OF inv])
      (use news_invD(2) [OF inv] Elsewhere(2,3) mine in \<open>auto simp: published_def marked_def\<close>)
qed

section \<open>No repeats\<close>

text \<open>C10: No post or story is announced to a user twice, neither by one sync nor by any of its syncs, however often the user
  syncs, follows and unfollows, and whatever is published and removed meanwhile, as long as the clock does not step back
  between the user's requests and no id is given twice; and a sync creates at most fifty notifications, all for the user.\<close>

theorem sync_no_repeat:
  assumes "news_run u w ts ps news w'" "sorted ts" "distinct (publication_keys (core_db w) @ ps)"
  shows "distinct (map announced (concat news)) \<and>
    list_all (\<lambda>new. length new \<le> 50 \<and> list_all (\<lambda>n. ntf_user n = u) new) news"
  using news_invD(3,5) [OF news_run_inv [OF assms]] by blast

text \<open>A reader syncs, unfollows and follows again, a post is published, and the reader syncs twice more.\<close>

definition demo_mina :: uid where
  "demo_mina = ''00000000-0000-7000-8000-00000000000c''"

definition demo_character :: character_row where
  "demo_character = \<lparr>chr_id = demo_mina, chr_public = ''mina'', chr_name = ''Mina'', chr_bio = [], chr_interests = None,
     chr_status = Active, chr_created = 0,
     chr_crop_x = 1 / 2, chr_crop_y = 1 / 2, chr_crop_zoom = 1, chr_image = None, chr_timezone = None\<rparr>"

definition demo_post :: "uid \<Rightarrow> time \<Rightarrow> post_row" where
  "demo_post i t = \<lparr>pst_id = i, pst_character = demo_mina, pst_type = Feed_Post, pst_content = [], pst_created = t\<rparr>"

definition demo_follow :: "time \<Rightarrow> time \<Rightarrow> follow_row" where
  "demo_follow t mark = \<lparr>flw_user = ''ana'', flw_character = demo_mina, flw_created = t, flw_notified = mark\<rparr>"

definition demo_news :: "uid \<Rightarrow> time \<Rightarrow> uid \<Rightarrow> notification_row" where
  "demo_news i t p = notification_of t i \<lparr>ni_user = ''ana'', ni_type = character_new_post,
     ni_title = ''Mina'' @ ko_new_post, ni_body = None, ni_target_type = Some ''post'', ni_target = Some p\<rparr>"

definition demo_world :: "follow_row list \<Rightarrow> post_row list \<Rightarrow> notification_row list \<Rightarrow> db" where
  "demo_world fs ps ns = empty_db\<lparr>users := [demo_user ''ana''], characters := [demo_character],
     follows := fs, posts := ps, notifications := ns\<rparr>"

abbreviation "demo_q1 \<equiv> demo_post ''q1'' 5000"
abbreviation "demo_q2 \<equiv> demo_post ''q2'' 12000"
abbreviation "demo_n1 \<equiv> demo_news ''n1'' 9000 ''q1''"
abbreviation "demo_n2 \<equiv> demo_news ''n2'' 20000 ''q2''"

definition news1 :: backend where "news1 = empty_backend\<lparr>core_db := demo_world [demo_follow 1000 1000] [demo_q1] []\<rparr>"
definition news2 :: backend where "news2 = news1\<lparr>core_db := demo_world [demo_follow 1000 9000] [demo_q1] [demo_n1]\<rparr>"
definition news3 :: backend where "news3 = news2\<lparr>core_db := demo_world [] [demo_q1] [demo_n1]\<rparr>"
definition news4 :: backend where "news4 = after (follow_character 10000 ''e1'' ''ana'' demo_mina news3)"
definition news5 :: backend where "news5 = news4\<lparr>core_db := demo_world [demo_follow 10000 10000] [demo_q1, demo_q2] [demo_n1]\<rparr>"
definition news6 :: backend where "news6 = news5\<lparr>core_db := demo_world [demo_follow 10000 20000] [demo_q1, demo_q2] [demo_n1, demo_n2]\<rparr>"
definition news7 :: backend where "news7 = news6\<lparr>core_db := demo_world [demo_follow 10000 30000] [demo_q1, demo_q2] [demo_n1, demo_n2]\<rparr>"

lemma demo_syncs:
  "sync_follow_notifications 9000 (\<lambda>i. ''n1'') ''ana'' (demo_world [demo_follow 1000 1000] [demo_q1] []) =
     Inr (\<lparr>sr_created = 1, sr_truncated = False\<rparr>, demo_world [demo_follow 1000 9000] [demo_q1] [demo_n1])"
  "sync_follow_notifications 20000 (\<lambda>i. ''n2'') ''ana'' (demo_world [demo_follow 10000 10000] [demo_q1, demo_q2] [demo_n1]) =
     Inr (\<lparr>sr_created = 1, sr_truncated = False\<rparr>, demo_world [demo_follow 10000 20000] [demo_q1, demo_q2] [demo_n1, demo_n2])"
  "sync_follow_notifications 30000 (\<lambda>i. ''n3'') ''ana'' (demo_world [demo_follow 10000 20000] [demo_q1, demo_q2] [demo_n1, demo_n2]) =
     Inr (\<lparr>sr_created = 0, sr_truncated = False\<rparr>, demo_world [demo_follow 10000 30000] [demo_q1, demo_q2] [demo_n1, demo_n2])"
  by code_simp+

lemma demo_told: "notifications (demo_world fs ps ns) = ns"
  by (simp add: demo_world_def)

lemma demo_news_run:
  "news_run ''ana'' news1 [9000, 10000, 20000, 30000] [(character_new_post, ''q2'')] [[demo_n1], [demo_n2], []] news7"
proof -
  have r2: "news_run ''ana'' news1 [9000] [] [[demo_n1]] news2"
    using news_run.Sync [OF news_run.Start, of 9000 "\<lambda>i. ''n1''" "''ana''" news1] demo_syncs(1)
    by (fastforce simp: demo_told news1_def news2_def)
  have "unfollow_character ''ana'' demo_mina news2 = Inr (True, news3)"
    by code_simp
  from news_run.Unfollow [OF r2 this]
  have r3: "news_run ''ana'' news1 [9000] [] [[demo_n1]] news3" .
  have "\<not> isl (follow_character 10000 ''e1'' ''ana'' demo_mina news3)" by code_simp
  from news_run.Follow [OF r3 run_ok [OF this]]
  have r4: "news_run ''ana'' news1 [9000, 10000] [] [[demo_n1]] news4" by (simp add: news4_def)
  have "core_db news4 = demo_world [demo_follow 10000 10000] [demo_q1] [demo_n1]" by code_simp
  then have "news4\<lparr>core_db := (core_db news4)\<lparr>posts := posts (core_db news4) @ [demo_q2]\<rparr>\<rparr> = news5"
    by (simp add: news5_def demo_world_def)
  with news_run.Post [OF r4, of demo_q2]
  have r5: "news_run ''ana'' news1 [9000, 10000] [(character_new_post, ''q2'')] [[demo_n1]] news5" by (simp add: demo_post_def)
  have r6: "news_run ''ana'' news1 [9000, 10000, 20000] [(character_new_post, ''q2'')] [[demo_n1], [demo_n2]] news6"
    using news_run.Sync [OF r5, of 20000 "\<lambda>i. ''n2''"] demo_syncs(2) by (fastforce simp: demo_told news5_def news6_def)
  show ?thesis
    using news_run.Sync [OF r6, of 30000 "\<lambda>i. ''n3''"] demo_syncs(3) by (fastforce simp: demo_told news6_def news7_def)
qed

theorem sync_no_repeat_witness:
  "distinct (map announced (concat [[demo_n1], [demo_n2], []])) \<and> map announced [demo_n1, demo_n2] = [(character_new_post, Some ''q1''), (character_new_post, Some ''q2'')]"
proof
  have "distinct (publication_keys (core_db news1) @ [(character_new_post, ''q2'')])" by code_simp
  with sync_no_repeat [OF demo_news_run] show "distinct (map announced (concat [[demo_n1], [demo_n2], []]))" by simp
  show "map announced [demo_n1, demo_n2] = [(character_new_post, Some ''q1''), (character_new_post, Some ''q2'')]" by code_simp
qed

end
