(* ===== verification/Providers.thy ===== *)
theory Providers
  imports Schema
begin

text \<open>
  The payment providers: \<open>src/payments/payment-provider.ts\<close> and the four adapters
  \<open>polar-payment.provider.ts\<close>, \<open>apple-iap.provider.ts\<close>, \<open>google-play-iap.provider.ts\<close> and
  \<open>local-payment.provider.ts\<close>. What the adapters call (the Polar SDK, the webhook signature check, the
  App Store verifier, the Google API and the SHA-256 of \<open>node:crypto\<close>) are parameters; the adapters' own
  checks and translations are the definitions. Amounts are integers in the currency's minor unit.
\<close>

section \<open>What a provider reports\<close>

datatype event_type = Ev_Paid | Ev_Refunded | Ev_Reversed | Ev_Declined | Ev_Ignored

fun event_type_name :: "event_type \<Rightarrow> string" where
  "event_type_name Ev_Paid = ''paid''"
| "event_type_name Ev_Refunded = ''refunded''"
| "event_type_name Ev_Reversed = ''reversed''"
| "event_type_name Ev_Declined = ''failed''"
| "event_type_name Ev_Ignored = ''ignored''"

record payment_event =
  pe_id :: string
  pe_type :: event_type
  pe_environment :: "string option"
  pe_purchase :: "string option"
  pe_tx_id :: "string option"
  pe_tx_key :: "string option"
  pe_product :: "string option"
  pe_net :: "int option"
  pe_tax :: "int option"
  pe_refunded :: "int option"
  pe_refunded_tax :: "int option"
  pe_amount :: "int option"
  pe_currency :: "string option"
  pe_occurred :: time

definition event_of :: "string \<Rightarrow> event_type \<Rightarrow> time \<Rightarrow> payment_event" where
  "event_of i t tm = \<lparr>pe_id = i, pe_type = t, pe_environment = None, pe_purchase = None, pe_tx_id = None,
     pe_tx_key = None, pe_product = None, pe_net = None, pe_tax = None, pe_refunded = None,
     pe_refunded_tax = None, pe_amount = None, pe_currency = None, pe_occurred = tm\<rparr>"

record verified_purchase =
  vp_provider :: string
  vp_channel :: payment_channel
  vp_tx_id :: string
  vp_tx_key :: string
  vp_product :: string
  vp_environment :: "string option"
  vp_amount :: "int option"
  vp_currency :: "string option"
  vp_occurred :: time
  vp_revoked :: bool

record checkout_request =
  cq_purchase :: uid
  cq_user :: uid
  cq_product :: string
  cq_currency :: "string option"
  cq_ip :: "string option"
  cq_success :: "string option"
  cq_return :: "string option"

record checkout_result =
  co_id :: string
  co_url :: string

datatype refund_outcome = Ro_Processing | Ro_Succeeded | Ro_Failed | Ro_Canceled

record refund_result =
  rr_id :: string
  rr_status :: refund_outcome

text \<open>The process environment and the hash function of the runtime.\<close>

record env =
  node_env :: "string option"
  polar_server :: "string option"
  polar_secret :: "string option"
  apple_env :: "string option"
  google_package :: "string option"
  account_secret :: "string option"
  web_app_url :: "string option"
  sha256_hex :: "string \<Rightarrow> string"

definition production :: "env \<Rightarrow> bool" where
  "production e \<longleftrightarrow> node_env e = Some ''production''"

section \<open>Polar\<close>

text \<open>A property of a parsed JSON value, when it is a string.\<close>

definition json_string :: "string \<Rightarrow> json \<Rightarrow> string option" where
  "json_string k j = json_text (json_field k j)"

definition polar_environment :: "env \<Rightarrow> string res" where
  "polar_environment e =
     (if polar_server e = Some ''sandbox'' then Inr ''sandbox''
      else if polar_server e = Some ''production'' then Inr ''production''
      else Inl (Service_Unavailable ''POLAR_SERVER must be sandbox or production''))"

record polar_data =
  pd_id :: "string option"
  pd_product :: "string option"
  pd_net :: "js_number option"
  pd_tax :: "js_number option"
  pd_total :: "js_number option"
  pd_refunded :: "js_number option"
  pd_refunded_tax :: "js_number option"
  pd_currency :: "string option"
  pd_purchase :: "string option"

record polar_payload =
  pp_type :: "string option"
  pp_timestamp :: "time option"
  pp_data :: polar_data

definition safe_int :: "js_number option \<Rightarrow> int option" where
  "safe_int x = (case x of Some (Js_Int n) \<Rightarrow> if \<bar>n\<bar> < 2 ^ 53 then Some n else None | _ \<Rightarrow> None)"

definition polar_paid :: "string \<Rightarrow> string \<Rightarrow> time \<Rightarrow> polar_data \<Rightarrow> payment_event res" where
  "polar_paid event_id environment tm d =
     (let currency = map_option (\<lambda>c. to_upper (trim c)) (pd_currency d) in
      case (safe_int (pd_net d), safe_int (pd_tax d), safe_int (pd_total d)) of
        (Some net, Some tax, Some whole) \<Rightarrow>
          if \<not> truthy (pd_id d) \<or> net < 0 \<or> tax < 0 \<or> whole < 0 \<or> \<not> truthy currency
          then Inl (Forbidden ''Invalid provider event'')
          else Inr ((event_of event_id Ev_Paid tm)
                 \<lparr>pe_environment := Some environment,
                  pe_purchase := Some (case pd_purchase d of None \<Rightarrow> [] | Some p \<Rightarrow> p),
                  pe_tx_id := pd_id d, pe_product := pd_product d, pe_net := Some net, pe_tax := Some tax,
                  pe_amount := Some whole, pe_currency := currency\<rparr>)
      | _ \<Rightarrow> Inl (Forbidden ''Invalid provider event''))"

definition polar_refunded :: "string \<Rightarrow> string \<Rightarrow> time \<Rightarrow> polar_data \<Rightarrow> payment_event res" where
  "polar_refunded event_id environment tm d =
     (let currency = map_option (\<lambda>c. to_upper (trim c)) (pd_currency d) in
      case (safe_int (pd_net d), safe_int (pd_tax d), safe_int (pd_total d),
            safe_int (pd_refunded d), safe_int (pd_refunded_tax d)) of
        (Some net, Some tax, Some whole, Some refunded, Some refunded_tax) \<Rightarrow>
          if \<not> truthy (pd_id d) \<or> net \<le> 0 \<or> tax < 0 \<or> whole \<noteq> net + tax \<or> refunded \<le> 0 \<or> net < refunded \<or>
             refunded_tax < 0 \<or> tax < refunded_tax \<or> \<not> truthy currency
          then Inl (Forbidden ''Invalid provider event'')
          else Inr ((event_of event_id Ev_Refunded tm)
                 \<lparr>pe_environment := Some environment, pe_tx_id := pd_id d, pe_net := Some net, pe_tax := Some tax,
                  pe_refunded := Some refunded, pe_refunded_tax := Some refunded_tax,
                  pe_amount := Some refunded, pe_currency := currency\<rparr>)
      | _ \<Rightarrow> Inl (Forbidden ''Invalid provider event''))"

text \<open>\<open>verify\<close> is the signature check of the webhook library: the payload, or \<open>None\<close> when it throws.\<close>

definition polar_verify_event :: "env \<Rightarrow> (string \<Rightarrow> string \<Rightarrow> (string \<times> string) list \<Rightarrow> polar_payload option) \<Rightarrow>
    time \<Rightarrow> string \<Rightarrow> (string \<times> string) list \<Rightarrow> payment_event res" where
  "polar_verify_event e verify now body headers =
     bindR (polar_environment e) (\<lambda>environment.
     bindR (require_some (trimmed (polar_secret e)) (Service_Unavailable ''Polar webhook is not configured''))
       (\<lambda>secret.
     bindR (require_some (verify secret body headers) (Forbidden ''Invalid provider signature'')) (\<lambda>p.
       let event_id = map_of headers ''webhook-id'';
           tm = (case pp_timestamp p of None \<Rightarrow> now | Some t \<Rightarrow> t)
       in if \<not> truthy event_id then Inl (Forbidden ''Invalid provider signature'')
          else if pp_type p = Some ''order.paid'' then polar_paid (the event_id) environment tm (pp_data p)
          else if pp_type p = Some ''order.refunded'' then polar_refunded (the event_id) environment tm (pp_data p)
          else Inr ((event_of (the event_id) Ev_Ignored tm)\<lparr>pe_environment := Some environment\<rparr>))))"

text \<open>\<open>currency\<close>: the three letters the Polar API wants.\<close>

definition polar_currency :: "string option \<Rightarrow> string res" where
  "polar_currency value =
     (case trimmed value of
        None \<Rightarrow> Inl (Service_Unavailable ''Polar product currency is invalid'')
      | Some c \<Rightarrow>
          if length (to_lower c) = 3 \<and> list_all (\<lambda>x. of_char x \<in> {97..122 :: nat}) (to_lower c)
          then Inr (to_lower c) else Inl (Service_Unavailable ''Polar product currency is invalid''))"

record polar_listed_checkout =
  pk_id :: string
  pk_url :: string
  pk_purchase :: "string option"
  pk_currency :: string

definition polar_find_checkout :: "(checkout_request \<Rightarrow> polar_listed_checkout list res) \<Rightarrow> checkout_request \<Rightarrow>
    checkout_result option res" where
  "polar_find_checkout list_checkouts q =
     bindR (polar_currency (cq_currency q)) (\<lambda>currency.
     bindR (list_checkouts q) (\<lambda>found.
       Inr (map_option (\<lambda>c. \<lparr>co_id = pk_id c, co_url = pk_url c\<rparr>)
         (find (\<lambda>c. pk_purchase c = Some (cq_purchase q) \<and> to_lower (pk_currency c) = currency) found))))"

definition polar_create_checkout :: "(checkout_request \<Rightarrow> string \<Rightarrow> checkout_result res) \<Rightarrow> checkout_request \<Rightarrow>
    checkout_result res" where
  "polar_create_checkout create q = bindR (polar_currency (cq_currency q)) (create q)"

record polar_checkout =
  pc_status :: string
  pc_customer :: "string option"
  pc_product :: "string option"
  pc_purchase :: "string option"

record polar_order =
  po_id :: string
  po_status :: string
  po_paid :: bool
  po_checkout :: "string option"
  po_product :: "string option"
  po_purchase :: "string option"
  po_net :: int
  po_tax :: int
  po_total :: int
  po_currency :: string
  po_modified :: "time option"
  po_created :: time

definition polar_reconcile_checkout :: "env \<Rightarrow> (string \<Rightarrow> polar_checkout res) \<Rightarrow> (string \<Rightarrow> polar_order list res) \<Rightarrow>
    string \<Rightarrow> checkout_request \<Rightarrow> payment_event option res" where
  "polar_reconcile_checkout e get_checkout list_orders checkout_id q =
     bindR (polar_environment e) (\<lambda>environment.
     bindR (get_checkout checkout_id) (\<lambda>c.
     if pc_status c \<noteq> ''succeeded'' then Inr None
     else if pc_customer c \<noteq> Some (cq_user q) \<or> pc_product c \<noteq> Some (cq_product q) \<or>
             (case pc_purchase c of None \<Rightarrow> [] | Some p \<Rightarrow> p) \<noteq> cq_purchase q
     then Inl (Forbidden ''Invalid provider checkout'')
     else bindR (list_orders checkout_id) (\<lambda>orders.
       case find (\<lambda>o'. po_status o' = ''paid'' \<and> po_paid o') orders of
         None \<Rightarrow> Inr None
       | Some o' \<Rightarrow>
           if po_checkout o' \<noteq> Some checkout_id \<or> po_product o' \<noteq> Some (cq_product q) \<or>
              (case po_purchase o' of None \<Rightarrow> [] | Some p \<Rightarrow> p) \<noteq> cq_purchase q
           then Inl (Forbidden ''Invalid provider order'')
           else Inr (Some ((event_of (''reconcile:'' @ po_id o') Ev_Paid
                    (case po_modified o' of None \<Rightarrow> po_created o' | Some t \<Rightarrow> t))
                  \<lparr>pe_environment := Some environment, pe_purchase := Some (cq_purchase q),
                   pe_tx_id := Some (po_id o'), pe_product := po_product o', pe_net := Some (po_net o'),
                   pe_tax := Some (po_tax o'), pe_amount := Some (po_total o'),
                   pe_currency := Some (to_upper (trim (po_currency o')))\<rparr>)))))"

definition polar_refund_outcome :: "string \<Rightarrow> refund_outcome" where
  "polar_refund_outcome raw =
     (if raw = ''succeeded'' then Ro_Succeeded else if raw = ''failed'' then Ro_Failed
      else if raw = ''canceled'' then Ro_Canceled else Ro_Processing)"

section \<open>Apple\<close>

definition apple_environment :: "env \<Rightarrow> string" where
  "apple_environment e = (if apple_env e = Some ''production'' then ''production'' else ''sandbox'')"

record apple_transaction =
  at_id :: "string option"
  at_product :: "string option"
  at_account :: "string option"
  at_quantity :: "int option"
  at_environment :: "string option"
  at_currency :: "string option"
  at_date :: "time option"
  at_revoked :: bool

definition apple_verify_purchase :: "env \<Rightarrow> (string \<Rightarrow> apple_transaction option) \<Rightarrow> time \<Rightarrow> string \<Rightarrow> string \<Rightarrow> string \<Rightarrow>
    verified_purchase res" where
  "apple_verify_purchase e decode now proof expected_token expected_product =
     bindR (require_some (decode proof) (Bad_Request ''Invalid Apple transaction'')) (\<lambda>t.
     if \<not> truthy (at_id t) \<or> at_product t \<noteq> Some expected_product \<or>
        map_option to_lower (at_account t) \<noteq> Some (to_lower expected_token) \<or> at_quantity t \<noteq> Some 1
     then Inl (Bad_Request ''Apple transaction does not match purchase'')
     else Inr \<lparr>vp_provider = ''apple'', vp_channel = Apple, vp_tx_id = the (at_id t),
            vp_tx_key = sha256_hex e (the (at_id t)), vp_product = expected_product,
            vp_environment = Some (case at_environment t of None \<Rightarrow> [] | Some x \<Rightarrow> x), vp_amount = None,
            vp_currency = at_currency t, vp_occurred = (case at_date t of None \<Rightarrow> now | Some d \<Rightarrow> d),
            vp_revoked = at_revoked t\<rparr>)"

record apple_notification =
  an_id :: "string option"
  an_type :: string
  an_transaction :: "string option"
  an_signed :: "time option"

definition apple_verify_event :: "(string \<Rightarrow> apple_notification option) \<Rightarrow> (string \<Rightarrow> apple_transaction option) \<Rightarrow>
    time \<Rightarrow> string \<Rightarrow> payment_event res" where
  "apple_verify_event decode_notification decode_transaction now body =
     bindR (require_some (Option.bind (json_parse body) (json_string ''signedPayload''))
              (Bad_Request ''Invalid Apple notification'')) (\<lambda>payload.
     bindR (require_some (decode_notification payload) (Forbidden ''Invalid provider signature'')) (\<lambda>n.
     if \<not> truthy (an_id n) then Inl (Bad_Request ''Invalid Apple notification'')
     else if \<not> truthy (an_transaction n) then Inr (event_of (the (an_id n)) Ev_Ignored now)
     else bindR (require_some (decode_transaction (the (an_transaction n))) (Forbidden ''Invalid provider signature''))
       (\<lambda>t. let reversed = (an_type n = ''REFUND'' \<or> an_type n = ''REVOKE'' \<or> at_revoked t) in
          Inr ((event_of (the (an_id n)) (if reversed then Ev_Reversed else Ev_Ignored)
                  (case an_signed n of None \<Rightarrow> now | Some d \<Rightarrow> d))
               \<lparr>pe_tx_id := at_id t, pe_product := at_product t, pe_currency := at_currency t\<rparr>))))"

section \<open>Google Play\<close>

record google_purchase =
  gp_state :: "int option"
  gp_consumption :: "int option"
  gp_order :: "string option"
  gp_time :: "time option"
  gp_account :: "string option"
  gp_quantity :: "int option"

text \<open>\<open>fetch\<close> reads the purchase from the Google API; \<open>consume\<close> is the call that consumes it.\<close>

definition google_verify_purchase :: "env \<Rightarrow> (string \<Rightarrow> string \<Rightarrow> string \<Rightarrow> google_purchase option) \<Rightarrow>
    (string \<Rightarrow> string \<Rightarrow> string \<Rightarrow> unit res) \<Rightarrow> time \<Rightarrow> string \<Rightarrow> string \<Rightarrow> string \<Rightarrow> verified_purchase res" where
  "google_verify_purchase e fetch consume now proof expected_token expected_product =
     (let token = trim proof in
      if token = [] then Inl (Bad_Request ''Purchase token is required'')
      else bindR (require_some (trimmed (google_package e)) (Service_Unavailable ''Google Play is not configured''))
        (\<lambda>package.
      bindR (require_some (fetch package expected_product token) (Bad_Request ''Invalid Google Play purchase''))
        (\<lambda>p.
      if gp_state p \<noteq> Some 0 \<or> gp_account p \<noteq> Some expected_token \<or>
         (case gp_quantity p of None \<Rightarrow> 1 | Some q \<Rightarrow> q) \<noteq> 1
      then Inl (Bad_Request ''Google Play purchase does not match user'')
      else bindR (if gp_consumption p \<noteq> Some 1 then consume package expected_product token else Inr ())
        (\<lambda>_. Inr \<lparr>vp_provider = ''google_play'', vp_channel = Google,
            vp_tx_id = (case gp_order p of None \<Rightarrow> sha256_hex e token | Some i \<Rightarrow> i),
            vp_tx_key = sha256_hex e token, vp_product = expected_product,
            vp_environment = Some ''production'', vp_amount = None, vp_currency = None,
            vp_occurred = (case gp_time p of None \<Rightarrow> now | Some d \<Rightarrow> d), vp_revoked = False\<rparr>))))"

record google_message =
  gm_id :: "string option"
  gm_published :: "time option"
  gm_data :: "string option"

record google_notification =
  gn_package :: "string option"
  gn_type :: "int option"
  gn_token :: "string option"
  gn_sku :: "string option"

text \<open>
  \<open>trusted\<close> says that the Pub/Sub identity token was verified for the configured audience and account;
  \<open>parse\<close> decodes the message data.
\<close>

definition google_verify_event :: "env \<Rightarrow> bool \<Rightarrow> (string \<Rightarrow> google_notification option) \<Rightarrow> time \<Rightarrow>
    google_message option \<Rightarrow> payment_event res" where
  "google_verify_event e trusted parse now envelope =
     bindR (ensure trusted (Forbidden ''Invalid provider signature'')) (\<lambda>_.
     bindR (require_some envelope (Bad_Request ''Invalid Google Play notification'')) (\<lambda>m.
     if \<not> truthy (gm_id m) \<or> \<not> truthy (gm_data m) then Inl (Bad_Request ''Invalid Google Play notification'')
     else bindR (require_some (parse (the (gm_data m))) (Bad_Request ''Invalid Google Play notification'')) (\<lambda>n.
     bindR (require_some (trimmed (google_package e)) (Service_Unavailable ''Google Play is not configured''))
       (\<lambda>package.
     let tm = (case gm_published m of None \<Rightarrow> now | Some t \<Rightarrow> t) in
     if gn_package n \<noteq> Some package then Inl (Forbidden ''Invalid Google Play package'')
     else if \<not> truthy (gn_token n) then Inr (event_of (the (gm_id m)) Ev_Ignored tm)
     else Inr ((event_of (the (gm_id m)) (if gn_type n = Some 2 then Ev_Reversed else Ev_Paid) tm)
            \<lparr>pe_tx_key := Some (sha256_hex e (the (gn_token n))), pe_product := gn_sku n\<rparr>)))))"

section \<open>Local payments\<close>

definition local_allowed :: "env \<Rightarrow> unit res" where
  "local_allowed e = ensure (\<not> production e) (Service_Unavailable ''Local payments are disabled'')"

definition local_create_checkout :: "env \<Rightarrow> checkout_request \<Rightarrow> checkout_result res" where
  "local_create_checkout e q =
     bindR (local_allowed e) (\<lambda>_.
       Inr \<lparr>co_id = cq_purchase q, co_url = ''https://payments.local/checkout/'' @ cq_purchase q\<rparr>)"

text \<open>Reading a property of \<open>null\<close> throws a \<open>TypeError\<close>.\<close>

definition local_verify_event :: "env \<Rightarrow> time \<Rightarrow> string \<Rightarrow> payment_event res" where
  "local_verify_event e now body =
     bindR (local_allowed e) (\<lambda>_.
     bindR (require_some (json_parse body) (Bad_Request ''Invalid local payment event'')) (\<lambda>j.
     if j = J_Null then Inl (Plain_Error ''TypeError'')
     else bindR (require_some (json_string ''purchaseId'' j) (Bad_Request ''Purchase ID is required'')) (\<lambda>p.
     case json_string ''status'' j of
       None \<Rightarrow> Inl (Bad_Request ''Unsupported payment status'')
     | Some st \<Rightarrow>
         if st \<notin> {''paid'', ''failed'', ''refunded''} then Inl (Bad_Request ''Unsupported payment status'')
         else Inr ((event_of (''local:'' @ p @ '':'' @ st)
                (if st = ''paid'' then Ev_Paid else if st = ''refunded'' then Ev_Reversed else Ev_Declined) now)
              \<lparr>pe_purchase := Some p, pe_tx_id := Some p\<rparr>))))"

definition local_request_refund :: "env \<Rightarrow> uid \<Rightarrow> refund_result res" where
  "local_request_refund e refund_id =
     bindR (local_allowed e) (\<lambda>_. Inr \<lparr>rr_id = refund_id, rr_status = Ro_Succeeded\<rparr>)"

section \<open>What the adapters guarantee\<close>

text \<open>A refund event accepted from Polar is consistent: the whole splits into net and tax, and the
  refunded part is positive and at most the net amount.\<close>

lemma polar_refunded_amounts:
  assumes "polar_refunded i env tm d = Inr e"
  obtains net tax refunded where "pe_net e = Some net" "pe_tax e = Some tax" "pe_refunded e = Some refunded"
    "0 < refunded" "refunded \<le> net" "net < 2 ^ 53" "0 \<le> tax" "pe_type e = Ev_Refunded"
  using assms
  by (auto simp: polar_refunded_def Let_def safe_int_def event_of_def split: option.splits js_number.splits if_splits
      intro!: that)

text \<open>No adapter trusts an event it could not verify.\<close>

lemma polar_unverified:
  assumes "\<And>secret. verify secret body headers = None"
  shows "\<exists>err. polar_verify_event e verify now body headers = Inl err"
  using assms by (auto simp: polar_verify_event_def bindR_def require_some_def split: sum.splits option.splits)

end
