(* ===== verification/Payments.thy ===== *)
theory Payments
  imports Providers
begin

text \<open>
  \<open>src/payments/payments.service.ts\<close>: the table of the four providers and the calls that the
  purchase service makes through it. The gateway record holds the outside of the adapters: the
  Polar, Apple and Google calls.
\<close>

datatype provider = Polar | Apple_Store | Google_Play | Local_Pay

definition providers :: "provider list" where
  "providers = [Polar, Apple_Store, Google_Play, Local_Pay]"

fun provider_name :: "provider \<Rightarrow> string" where
  "provider_name Polar = ''polar''"
| "provider_name Apple_Store = ''apple''"
| "provider_name Google_Play = ''google_play''"
| "provider_name Local_Pay = ''local''"

fun provider_channel :: "provider \<Rightarrow> payment_channel" where
  "provider_channel Polar = Web"
| "provider_channel Apple_Store = Apple"
| "provider_channel Google_Play = Google"
| "provider_channel Local_Pay = Web"

fun provider_environment :: "env \<Rightarrow> provider \<Rightarrow> string res" where
  "provider_environment e Polar = polar_environment e"
| "provider_environment e Apple_Store = Inr (apple_environment e)"
| "provider_environment e Google_Play = Inr ''production''"
| "provider_environment e Local_Pay = Inr ''development''"

record gateway =
  gw_polar_checkouts :: "checkout_request \<Rightarrow> polar_listed_checkout list res"
  gw_polar_create :: "checkout_request \<Rightarrow> string \<Rightarrow> checkout_result res"
  gw_polar_checkout :: "string \<Rightarrow> polar_checkout res"
  gw_polar_orders :: "string \<Rightarrow> polar_order list res"
  gw_polar_refund :: "string \<Rightarrow> int \<Rightarrow> uid \<Rightarrow> (string \<times> string) res"
  gw_polar_verify :: "string \<Rightarrow> string \<Rightarrow> (string \<times> string) list \<Rightarrow> polar_payload option"
  gw_apple_transaction :: "string \<Rightarrow> apple_transaction option"
  gw_apple_notification :: "string \<Rightarrow> apple_notification option"
  gw_google_fetch :: "string \<Rightarrow> string \<Rightarrow> string \<Rightarrow> google_purchase option"
  gw_google_consume :: "string \<Rightarrow> string \<Rightarrow> string \<Rightarrow> unit res"
  gw_google_trusted :: "(string \<times> string) list \<Rightarrow> bool"
  gw_google_message :: "string \<Rightarrow> google_message option"
  gw_google_parse :: "string \<Rightarrow> google_notification option"

section \<open>Choosing a provider\<close>

definition find_provider :: "string \<Rightarrow> provider res" where
  "find_provider name =
     require_some (find (\<lambda>p. provider_name p = name) providers)
       (Service_Unavailable ''Payment provider is unavailable'')"

definition web_provider :: "env \<Rightarrow> db \<Rightarrow> provider res" where
  "web_provider e s =
     (let configured = (case find (\<lambda>(k, v). k = ''payments.webProvider'') (settings s) of
                          None \<Rightarrow> None | Some (k, v) \<Rightarrow> trimmed (Some v))
      in find_provider (case configured of
             Some name \<Rightarrow> name
           | None \<Rightarrow> if production e then ''polar'' else ''local''))"

definition provider_for_channel :: "env \<Rightarrow> payment_channel \<Rightarrow> db \<Rightarrow> provider res" where
  "provider_for_channel e channel s =
     (if channel = Web then web_provider e s
      else require_some (find (\<lambda>p. provider_channel p = channel) providers) (Plain_Error ''no provider''))"

definition assert_environment :: "env \<Rightarrow> string \<Rightarrow> string option \<Rightarrow> unit res" where
  "assert_environment e name environment =
     (if name \<noteq> ''polar'' then Inr ()
      else bindR (polar_environment e) (\<lambda>active.
        if \<not> truthy environment
        then Inl (Conflict ''Polar payment environment is unknown; verified migration is required'')
        else ensure (environment = Some active) (Conflict ''Polar payment environment mismatch'')))"

section \<open>Calls to a provider\<close>

definition create_provider_checkout ::
  "env \<Rightarrow> gateway \<Rightarrow> string \<Rightarrow> checkout_request \<Rightarrow> string option \<Rightarrow> checkout_result res" where
  "create_provider_checkout e g name q environment =
     bindR (assert_environment e name environment) (\<lambda>_.
     bindR (find_provider name) (\<lambda>p. case p of
       Polar \<Rightarrow> polar_create_checkout (gw_polar_create g) q
     | Local_Pay \<Rightarrow> local_create_checkout e q
     | _ \<Rightarrow> Inl (Bad_Request ''Provider does not support checkout'')))"

definition find_provider_checkout ::
  "env \<Rightarrow> gateway \<Rightarrow> string \<Rightarrow> checkout_request \<Rightarrow> string option \<Rightarrow> checkout_result option res" where
  "find_provider_checkout e g name q environment =
     bindR (assert_environment e name environment) (\<lambda>_.
     bindR (find_provider name) (\<lambda>p. case p of
       Polar \<Rightarrow> polar_find_checkout (gw_polar_checkouts g) q
     | _ \<Rightarrow> Inr None))"

definition reconcile_provider_checkout ::
  "env \<Rightarrow> gateway \<Rightarrow> string \<Rightarrow> string \<Rightarrow> checkout_request \<Rightarrow> string option \<Rightarrow> payment_event option res" where
  "reconcile_provider_checkout e g name checkout_id q environment =
     bindR (assert_environment e name environment) (\<lambda>_.
     bindR (find_provider name) (\<lambda>p. case p of
       Polar \<Rightarrow> polar_reconcile_checkout e (gw_polar_checkout g) (gw_polar_orders g) checkout_id q
     | _ \<Rightarrow> Inr None))"

definition verify_provider_purchase ::
  "env \<Rightarrow> gateway \<Rightarrow> time \<Rightarrow> payment_channel \<Rightarrow> string \<Rightarrow> string \<Rightarrow> string \<Rightarrow> db \<Rightarrow> verified_purchase res" where
  "verify_provider_purchase e g now channel proof expected_token expected_product s =
     bindR (provider_for_channel e channel s) (\<lambda>p. case p of
       Apple_Store \<Rightarrow>
         apple_verify_purchase e (gw_apple_transaction g) now proof expected_token expected_product
     | Google_Play \<Rightarrow>
         google_verify_purchase e (gw_google_fetch g) (gw_google_consume g) now proof expected_token expected_product
     | _ \<Rightarrow> Inl (Bad_Request ''Provider does not support in-app purchases''))"

definition verify_provider_event ::
  "env \<Rightarrow> gateway \<Rightarrow> time \<Rightarrow> string \<Rightarrow> string \<Rightarrow> (string \<times> string) list \<Rightarrow> payment_event res" where
  "verify_provider_event e g now name body headers =
     bindR (find_provider name) (\<lambda>p. case p of
       Polar \<Rightarrow> polar_verify_event e (gw_polar_verify g) now body headers
     | Apple_Store \<Rightarrow> apple_verify_event (gw_apple_notification g) (gw_apple_transaction g) now body
     | Google_Play \<Rightarrow>
         google_verify_event e (gw_google_trusted g headers) (gw_google_parse g) now (gw_google_message g body)
     | Local_Pay \<Rightarrow> local_verify_event e now body)"

definition request_provider_refund ::
  "env \<Rightarrow> gateway \<Rightarrow> string \<Rightarrow> string \<Rightarrow> int \<Rightarrow> uid \<Rightarrow> string option \<Rightarrow> refund_result res" where
  "request_provider_refund e g name tx amount refund_id environment =
     bindR (assert_environment e name environment) (\<lambda>_.
     bindR (find_provider name) (\<lambda>p. case p of
       Polar \<Rightarrow> bindR (gw_polar_refund g tx amount refund_id) (\<lambda>(i, raw).
                  Inr \<lparr>rr_id = i, rr_status = polar_refund_outcome raw\<rparr>)
     | Local_Pay \<Rightarrow> local_request_refund e refund_id
     | _ \<Rightarrow> Inl (Bad_Request ''Provider does not support refunds'')))"

section \<open>Laws\<close>

lemma find_provider_iff: "find_provider n = Inr p \<longleftrightarrow> n = provider_name p"
  by (cases p) (auto simp: find_provider_def providers_def)

lemma assert_environment_Inr_iff [res_simps]:
  "assert_environment e n x = Inr u \<longleftrightarrow>
     n \<noteq> ''polar'' \<or> (\<exists>a. polar_environment e = Inr a \<and> x = Some a)"
  by (auto simp: assert_environment_def bindR_Inr_iff ensure_Inr_iff polar_environment_def split: if_splits)

text \<open>Local payments are refused in production, whatever is asked of them.\<close>

lemma local_refused:
  "production e \<Longrightarrow> \<exists>m. local_create_checkout e q = Inl (Service_Unavailable m)"
  "production e \<Longrightarrow> \<exists>m. local_verify_event e now body = Inl (Service_Unavailable m)"
  "production e \<Longrightarrow> \<exists>m. local_request_refund e r = Inl (Service_Unavailable m)"
  by (auto simp: local_create_checkout_def local_verify_event_def local_request_refund_def local_allowed_def)

end
