(* ===== verification/Purchases.thy ===== *)
theory Purchases
  imports Credits Payments Notifications
begin

text \<open>
  Refunds of purchases: the queries, \<open>refundQuote\<close>, \<open>requestRefund\<close> and \<open>completeRefund\<close> of
  \<open>src/purchases/purchases.service.ts\<close>. A refund request runs in three steps that other requests and
  provider events can come between: the transaction that quotes the refund and locks the credits
  (\<open>refund_prepare\<close>), the call to the provider, and the update with its answer (\<open>refund_settle\<close>);
  \<open>request_refund\<close> is the run without interference. New ids are the fields of \<open>fresh\<close>.
\<close>

section \<open>Queries\<close>

type_synonym purchase_view = "purchase_row \<times> payment_row option"

definition payment_of :: "uid \<Rightarrow> db \<Rightarrow> payment_row option" where
  "payment_of p s = find (\<lambda>y. pay_purchase y = p) (payments s)"

definition find_purchase :: "(purchase_row \<Rightarrow> bool) \<Rightarrow> db \<Rightarrow> purchase_view option" where
  "find_purchase c s = map_option (\<lambda>q. (q, payment_of (pur_id q) s)) (find c (purchases s))"

definition require_purchase :: "uid \<Rightarrow> db \<Rightarrow> purchase_view res" where
  "require_purchase i s = require_some (find_purchase (\<lambda>q. pur_id q = i) s) (Not_Found ''Purchase not found'')"

definition find_payment :: "(payment_row \<Rightarrow> bool) \<Rightarrow> db \<Rightarrow> (payment_row \<times> purchase_row) option" where
  "find_payment c s =
     (case find (\<lambda>y. c y \<and> has_purchase s (pay_purchase y)) (payments s) of
        None \<Rightarrow> None
      | Some y \<Rightarrow> map_option (Pair y) (find (\<lambda>q. pur_id q = pay_purchase y) (purchases s)))"

definition require_payment :: "uid \<Rightarrow> db \<Rightarrow> (payment_row \<times> purchase_row) res" where
  "require_payment i s = require_some (find_payment (\<lambda>y. pay_id y = i) s) (Not_Found ''Payment not found'')"

definition require_payment_base :: "uid \<Rightarrow> db \<Rightarrow> payment_row res" where
  "require_payment_base i s =
     require_some (find (\<lambda>y. pay_id y = i) (payments s)) (Not_Found ''Payment not found'')"

type_synonym refund_view = "refund_row \<times> purchase_view"

definition find_refund_with_purchase :: "(refund_row \<Rightarrow> bool) \<Rightarrow> db \<Rightarrow> refund_view option" where
  "find_refund_with_purchase c s =
     (case find (\<lambda>f. c f \<and> has_purchase s (rf_purchase f)) (refunds s) of
        None \<Rightarrow> None
      | Some f \<Rightarrow> map_option (Pair f) (find_purchase (\<lambda>q. pur_id q = rf_purchase f) s))"

definition require_refund_with_purchase :: "uid \<Rightarrow> db \<Rightarrow> refund_view res" where
  "require_refund_with_purchase i s =
     require_some (find_refund_with_purchase (\<lambda>f. rf_id f = i) s) (Not_Found ''Refund not found'')"

definition require_refund :: "uid \<Rightarrow> db \<Rightarrow> refund_row res" where
  "require_refund i s = require_some (find (\<lambda>f. rf_id f = i) (refunds s)) (Not_Found ''Refund not found'')"

definition assert_payment_environment :: "env \<Rightarrow> payment_row \<Rightarrow> payment_event option \<Rightarrow> unit res" where
  "assert_payment_environment e y event =
     bindR (assert_environment e (pay_provider y) (pay_environment y)) (\<lambda>_.
       case event of
         None \<Rightarrow> Inr ()
       | Some ev \<Rightarrow> ensure (\<not> (pay_provider y = ''polar'' \<and> pe_environment ev \<noteq> pay_environment y))
                       (Conflict ''Polar event environment mismatch''))"

text \<open>A field that a statement sets to \<open>undefined\<close> is left as it is.\<close>

definition or_keep :: "'a option \<Rightarrow> 'a option \<Rightarrow> 'a option" where
  "or_keep x old = (case x of None \<Rightarrow> old | Some v \<Rightarrow> Some v)"

definition set_purchase_status :: "time \<Rightarrow> purchase_status \<Rightarrow> uid \<Rightarrow> db \<Rightarrow> db" where
  "set_purchase_status now st p s =
     s\<lparr>purchases := update_where (\<lambda>q. pur_id q = p) (\<lambda>q. q\<lparr>pur_status := st, pur_updated := now\<rparr>) (purchases s)\<rparr>"

definition active_reservations :: "time \<Rightarrow> uid \<Rightarrow> db \<Rightarrow> reservation_row list" where
  "active_reservations now u s = filter (\<lambda>r. rsv_user r = u \<and> active_reservation now r) (reservations s)"

section \<open>The quote\<close>

record refund_quote =
  rq_purchase :: uid
  rq_provider :: string
  rq_currency :: string
  rq_original :: int
  rq_remaining :: int
  rq_locked :: int
  rq_refundable :: int
  rq_minimum :: int
  rq_eligible :: bool
  rq_gross :: int
  rq_fee :: int
  rq_refund :: int
  rq_balance_after :: int
  rq_remaining_promotion :: int
  rq_promotion_recovery :: int
  rq_free_promotion_recovery :: int
  rq_debt_increase :: int

definition refund_gross :: "int \<Rightarrow> int \<Rightarrow> int \<Rightarrow> int" where
  "refund_gross amount remaining original =
     js_floor (js_div (js_mul (of_int amount) (of_int remaining)) (of_int original))"

definition refund_fee :: "int \<Rightarrow> int" where
  "refund_fee gross = js_floor (js_mul (of_int gross) five_percent)"

definition quote_of :: "time \<Rightarrow> purchase_row \<Rightarrow> payment_row \<Rightarrow> int option \<Rightarrow> db \<Rightarrow> refund_quote" where
  "quote_of now q y amount s =
     (let snap = purchase_credit_snapshot now (pur_user q) (pur_id q) s;
          refundable = (if snap_locked snap = 0 then remaining_paid snap else 0);
          original = original_paid snap + original_paid_promotion snap;
          remaining = refundable + remaining_paid_promotion snap;
          eligible = (pur_status q = Pur_Completed \<and> snap_locked snap = 0 \<and> 0 < original \<and>
                      original \<le> remaining * 2);
          gross = (case amount of
                     Some a \<Rightarrow> if eligible \<and> a \<noteq> 0 then refund_gross a remaining original else 0
                   | None \<Rightarrow> 0);
          fee = refund_fee gross
      in \<lparr>rq_purchase = pur_id q, rq_provider = pay_provider y,
          rq_currency = (case pay_currency y of None \<Rightarrow> ''KRW'' | Some c \<Rightarrow> c),
          rq_original = original, rq_remaining = remaining, rq_locked = snap_locked snap,
          rq_refundable = refundable, rq_minimum = js_ceil (js_div (of_int original) 2),
          rq_eligible = eligible, rq_gross = gross, rq_fee = fee, rq_refund = gross - fee,
          rq_balance_after = get_paid_balance now (pur_user q) s - refundable - remaining_paid_promotion snap,
          rq_remaining_promotion = remaining_promotion snap,
          rq_promotion_recovery = remaining_promotion snap,
          rq_free_promotion_recovery = remaining_promotion snap - remaining_paid_promotion snap,
          rq_debt_increase = 0\<rparr>)"

definition refund_quote_with_client :: "env \<Rightarrow> time \<Rightarrow> uid \<Rightarrow> uid \<Rightarrow> db \<Rightarrow> refund_quote res" where
  "refund_quote_with_client e now u p s =
     bindR (require_some (find_purchase (\<lambda>q. pur_id q = p \<and> pur_user q = u) s) (Not_Found ''Purchase not found''))
       (\<lambda>(q, payment).
     case payment of
       None \<Rightarrow> Inl (Conflict ''Store managed refund'')
     | Some y \<Rightarrow>
         if pay_channel y \<noteq> Web then Inl (Conflict ''Store managed refund'')
         else
           bindR (assert_payment_environment e y None) (\<lambda>_.
           bindR (ensure (active_reservations now u s = []) (Conflict ''Credit usage is in progress'')) (\<lambda>_.
           let amount = (if pay_provider y = ''polar'' then pay_net y else pay_amount y) in
           bindR (ensure (\<not> (pay_provider y = ''polar'' \<and> amount = None))
                    (Conflict ''Payment refund amount is unavailable'')) (\<lambda>_.
           Inr (quote_of now q y amount s)))))"

section \<open>Completing a refund\<close>

record fresh =
  fr_event :: uid
  fr_grant :: uid
  fr_note :: uid
  fr_recovery :: uid
  fr_entry :: uid
  fr_refund :: uid
  fr_recovery2 :: uid
  fr_entry2 :: uid

text \<open>The Korean texts of the two notifications, as UTF-8 bytes.\<close>

definition ko_purchase_title :: string where
  "ko_purchase_title =
    [CHR 0xED, CHR 0x81, CHR 0xAC, CHR 0xEB, CHR 0xA0, CHR 0x88, CHR 0xEB, CHR 0x94, CHR 0xA7,
     CHR 0x20, CHR 0xEC, CHR 0xB6, CHR 0xA9, CHR 0xEC, CHR 0xA0, CHR 0x84, CHR 0x20, CHR 0xEC,
     CHR 0x99, CHR 0x84, CHR 0xEB, CHR 0xA3, CHR 0x8C]"

definition ko_purchase_body_head :: string where
  "ko_purchase_body_head =
    [CHR 0xED, CHR 0x81, CHR 0xAC, CHR 0xEB, CHR 0xA0, CHR 0x88, CHR 0xEB, CHR 0x94, CHR 0xA7,
     CHR 0x20]"

definition ko_purchase_body_tail :: string where
  "ko_purchase_body_tail =
    [CHR 0xEA, CHR 0xB0, CHR 0x9C, CHR 0xEA, CHR 0xB0, CHR 0x80, CHR 0x20, CHR 0xEC, CHR 0xA7,
     CHR 0x80, CHR 0xEA, CHR 0xB8, CHR 0x89, CHR 0xEB, CHR 0x90, CHR 0x98, CHR 0xEC, CHR 0x97,
     CHR 0x88, CHR 0xEC, CHR 0x8A, CHR 0xB5, CHR 0xEB, CHR 0x8B, CHR 0x88, CHR 0xEB, CHR 0x8B,
     CHR 0xA4, CHR 0x2E]"

definition ko_refund_title :: string where
  "ko_refund_title =
    [CHR 0xED, CHR 0x99, CHR 0x98, CHR 0xEB, CHR 0xB6, CHR 0x88, CHR 0x20, CHR 0xEC, CHR 0x99,
     CHR 0x84, CHR 0xEB, CHR 0xA3, CHR 0x8C]"

definition ko_refund_body :: string where
  "ko_refund_body =
    [CHR 0xED, CHR 0x99, CHR 0x98, CHR 0xEB, CHR 0xB6, CHR 0x88, CHR 0xEC, CHR 0x9D, CHR 0xB4,
     CHR 0x20, CHR 0xEC, CHR 0xA0, CHR 0x95, CHR 0xEC, CHR 0x83, CHR 0x81, CHR 0x20, CHR 0xEC,
     CHR 0xB2, CHR 0x98, CHR 0xEB, CHR 0xA6, CHR 0xAC, CHR 0xEB, CHR 0x90, CHR 0x98, CHR 0xEC,
     CHR 0x97, CHR 0x88, CHR 0xEC, CHR 0x8A, CHR 0xB5, CHR 0xEB, CHR 0x8B, CHR 0x88, CHR 0xEB,
     CHR 0x8B, CHR 0xA4, CHR 0x2E]"

definition complete_refund_with_client ::
  "env \<Rightarrow> time \<Rightarrow> fresh \<Rightarrow> uid \<Rightarrow> payment_event option \<Rightarrow> db \<Rightarrow> (refund_row \<times> db) res" where
  "complete_refund_with_client e now fr i event s =
     bindR (require_refund_with_purchase i s) (\<lambda>(_, _, initial).
     bindR (require_some initial (Conflict ''Payment not found'')) (\<lambda>y0.
     bindR (assert_payment_environment e y0 event) (\<lambda>_.
     bindR (require_refund_with_purchase i s) (\<lambda>(f, q, payment).
     bindR (require_some payment (Conflict ''Payment not found'')) (\<lambda>y.
     bindR (assert_payment_environment e y event) (\<lambda>_.
     if rf_status f = Rf_Completed then Inr (f, s)
     else
       (let at_time = (case event of Some ev \<Rightarrow> pe_occurred ev | None \<Rightarrow> now) in
        bindR (record_refund_recovery now (fr_recovery fr) (pur_user q) (rf_purchase f) (rf_recovery f) (rf_id f)
                 ''user refund'' s) (\<lambda>(_, s1).
        bindR (ins_payment_entry
                 \<lparr>pl_id = fr_entry fr, pl_payment = pay_id y, pl_type = Refund, pl_direction = Outflow,
                  pl_amount = Some (rf_refund f),
                  pl_currency = Some (case Option.bind event pe_currency of Some c \<Rightarrow> c | None \<Rightarrow> rf_currency f),
                  pl_tx_id = rf_provider_refund f, pl_event_id = map_option pe_id event, pl_details = None,
                  pl_occurred = at_time\<rparr> s1) (\<lambda>s2.
        bindR (upd_payments (\<lambda>z. pay_id z = pay_id y)
                 (\<lambda>z. z\<lparr>pay_status := Pay_Refunded, pay_refunded_at := Some at_time, pay_updated := now\<rparr>) s2) (\<lambda>s3.
        bindR (create_notification now (fr_note fr)
                 \<lparr>ni_user = pur_user q, ni_type = credit_refund_completed, ni_title = ko_refund_title,
                  ni_body = Some ko_refund_body, ni_target_type = Some ''refund'', ni_target = Some (rf_id f)\<rparr>
                 (set_purchase_status now Pur_Refunded (rf_purchase f) s3)) (\<lambda>(_, s4).
        let done = (\<lambda>x. x\<lparr>rf_status := Rf_Completed,
                          rf_provider_tx := or_keep (Option.bind event pe_tx_id) (rf_provider_tx x),
                          rf_completed := Some at_time\<rparr>)
        in bindR (upd_refunds (\<lambda>x. rf_id x = rf_id f) done s4) (\<lambda>s5. Inr (done f, s5)))))))))))))"

section \<open>Requesting a refund\<close>

definition refund_prepare :: "env \<Rightarrow> time \<Rightarrow> fresh \<Rightarrow> uid \<Rightarrow> uid \<Rightarrow> string \<Rightarrow> db \<Rightarrow> ((refund_view \<times> bool) \<times> db) res" where
  "refund_prepare e now fr u p key s =
     (case find_refund_with_purchase (\<lambda>f. rf_purchase f = p \<and> rf_key f = key) s of
        Some (f, q, payment) \<Rightarrow>
          bindR (case payment of None \<Rightarrow> Inr () | Some y \<Rightarrow> assert_payment_environment e y None)
            (\<lambda>_. Inr (((f, q, payment), False), s))
      | None \<Rightarrow>
          bindR (refund_quote_with_client e now u p s) (\<lambda>quote.
          bindR (ensure (rq_eligible quote) (Conflict ''Refund is not eligible'')) (\<lambda>_.
          bindR (ins_refund
                   \<lparr>rf_id = fr_refund fr, rf_purchase = p, rf_status = Rf_Payment_Processing,
                    rf_reason = ''user_request'', rf_key = key, rf_credits = rq_refundable quote,
                    rf_promotion = rq_promotion_recovery quote,
                    rf_locked = rq_refundable quote + rq_remaining_promotion quote,
                    rf_recovery = rq_refundable quote + rq_promotion_recovery quote, rf_debt = 0,
                    rf_gross = rq_gross quote, rf_fee = rq_fee quote, rf_refund = rq_refund quote,
                    rf_currency = rq_currency quote, rf_provider_refund = None, rf_provider_tx = None,
                    rf_completed = None, rf_created = now, rf_provider = rq_provider quote,
                    rf_free_promotion = rq_free_promotion_recovery quote\<rparr> s) (\<lambda>(f, s1).
          bindR (require_purchase p s1) (\<lambda>(q, payment). Inr (((f, q, payment), True), s1))))))"

fun refund_status :: "refund_outcome \<Rightarrow> refund_state" where
  "refund_status Ro_Succeeded = Rf_Payment_Succeeded"
| "refund_status Ro_Processing = Rf_Payment_Processing"
| "refund_status Ro_Failed = Rf_Failed"
| "refund_status Ro_Canceled = Rf_Canceled"

text \<open>Storing the provider's answer, then completing the refund when the money is already returned.\<close>

definition refund_settle :: "env \<Rightarrow> time \<Rightarrow> fresh \<Rightarrow> uid \<Rightarrow> refund_result \<Rightarrow> db \<Rightarrow> refund_row res \<times> db" where
  "refund_settle e now fr i result s =
     (case upd_refunds (\<lambda>x. rf_id x = i)
             (\<lambda>x. x\<lparr>rf_provider_refund := Some (rr_id result), rf_status := refund_status (rr_status result)\<rparr>) s of
        Inl err \<Rightarrow> (Inl err, s)
      | Inr s1 \<Rightarrow>
          if rr_status result = Ro_Succeeded then commit (complete_refund_with_client e now fr i None) s1
          else (require_refund i s1, s1))"

definition refund_continue :: "env \<Rightarrow> gateway \<Rightarrow> time \<Rightarrow> fresh \<Rightarrow> refund_view \<Rightarrow> bool \<Rightarrow> db \<Rightarrow> refund_row res \<times> db" where
  "refund_continue e g now fr = (\<lambda>(f, q, payment) is_new s.
     case (case payment of None \<Rightarrow> Inr () | Some y \<Rightarrow> assert_payment_environment e y None) of
       Inl err \<Rightarrow> (Inl err, s)
     | Inr _ \<Rightarrow>
         if rf_status f = Rf_Payment_Succeeded then commit (complete_refund_with_client e now fr (rf_id f) None) s
         else if \<not> is_new \<or> truthy (rf_provider_refund f) then (require_refund (rf_id f) s, s)
         else
           (case payment of
              None \<Rightarrow> (Inl (Conflict ''Payment cannot be refunded''), s)
            | Some y \<Rightarrow>
                if \<not> truthy (pay_tx_id y) then (Inl (Conflict ''Payment cannot be refunded''), s)
                else
                  (case request_provider_refund e g (pay_provider y) (the (pay_tx_id y)) (rf_refund f) (rf_id f)
                          (pay_environment y) of
                     Inl err \<Rightarrow> (Inl err, s)
                   | Inr result \<Rightarrow> refund_settle e now fr (rf_id f) result s)))"

definition request_refund :: "env \<Rightarrow> gateway \<Rightarrow> time \<Rightarrow> fresh \<Rightarrow> uid \<Rightarrow> uid \<Rightarrow> string \<Rightarrow> db \<Rightarrow> refund_row res \<times> db" where
  "request_refund e g now fr u p idempotency_key s =
     (let key = trim idempotency_key in
      if key = [] then (Inl (Bad_Request ''Idempotency-Key is required''), s)
      else
        (case commit (refund_prepare e now fr u p key) s of
           (Inl err, s1) \<Rightarrow> (Inl err, s1)
         | (Inr (view, is_new), s1) \<Rightarrow> refund_continue e g now fr view is_new s1))"

end
