(* ===== verification/Purchase_Events.thy ===== *)
theory Purchase_Events
  imports Purchases
begin

text \<open>
  Provider events: \<open>applyProviderEvent\<close>, \<open>applyEvent\<close>, \<open>applyCumulativeRefund\<close> and \<open>forceReversal\<close> of
  \<open>src/purchases/purchases.service.ts\<close>. One event is one transaction: the inbox row, the payment, the
  credit ledger, the payment ledger, the purchase and the notification change together or not at
  all. An event that is refused for its contents commits only the reason in its inbox row.
\<close>

datatype event_outcome = Processed | Replayed | Rejected string

definition pending_payment :: "payment_status \<Rightarrow> bool" where
  "pending_payment st \<longleftrightarrow> st = Pay_Pending \<or> st = Pay_Verified \<or> st = Pay_Processing"

text \<open>Currencies are compared trimmed and in upper case.\<close>

definition currency_differs :: "payment_event \<Rightarrow> payment_row \<Rightarrow> bool" where
  "currency_differs ev y \<longleftrightarrow> truthy (pe_currency ev) \<and>
     (\<not> truthy (pay_currency y) \<or> to_upper (trim (the (pay_currency y))) \<noteq> to_upper (trim (the (pe_currency ev))))"

section \<open>The inbox\<close>

definition inbox_upsert :: "uid \<Rightarrow> string \<Rightarrow> payment_event \<Rightarrow> db \<Rightarrow> event_row \<times> db" where
  "inbox_upsert i provider ev s =
     (case find (\<lambda>r. evt_provider r = provider \<and> evt_external r = pe_id ev) (events s) of
        Some r \<Rightarrow>
          (r\<lparr>evt_attempts := evt_attempts r + 1\<rparr>,
           s\<lparr>events := update_where (\<lambda>x. evt_id x = evt_id r) (\<lambda>x. x\<lparr>evt_attempts := evt_attempts x + 1\<rparr>) (events s)\<rparr>)
      | None \<Rightarrow>
          (let r = \<lparr>evt_id = i, evt_payment = None, evt_provider = provider, evt_external = pe_id ev,
                    evt_type = event_type_name (pe_type ev), evt_status = Ev_Processing, evt_attempts = 1,
                    evt_error = None, evt_processed = None\<rparr>
           in (r, s\<lparr>events := events s @ [r]\<rparr>)))"

definition upd_event :: "uid \<Rightarrow> (event_row \<Rightarrow> event_row) \<Rightarrow> db \<Rightarrow> db" where
  "upd_event i f s = s\<lparr>events := update_where (\<lambda>x. evt_id x = i) f (events s)\<rparr>"

definition event_processed :: "time \<Rightarrow> uid \<Rightarrow> db \<Rightarrow> db" where
  "event_processed now i = upd_event i (\<lambda>x. x\<lparr>evt_status := Ev_Processed, evt_processed := Some now\<rparr>)"

definition fail_provider_event :: "time \<Rightarrow> uid \<Rightarrow> string \<Rightarrow> db \<Rightarrow> event_outcome \<times> db" where
  "fail_provider_event now i code s =
     (Rejected code,
      upd_event i (\<lambda>x. x\<lparr>evt_status := Ev_Failed, evt_error := Some code, evt_processed := Some now\<rparr>) s)"

text \<open>The payment an event is about: by its purchase, else by the transaction's key or id.\<close>

definition locate_payment :: "env \<Rightarrow> string \<Rightarrow> payment_event \<Rightarrow> db \<Rightarrow> (payment_row \<times> purchase_row) option" where
  "locate_payment e provider ev s =
     (let by_purchase = (if truthy (pe_purchase ev)
            then find_payment (\<lambda>y. Some (pay_purchase y) = pe_purchase ev \<and> pay_provider y = provider) s else None);
          key = (case pe_tx_key ev of
                   Some k \<Rightarrow> Some k
                 | None \<Rightarrow> if provider = ''google_play'' \<and> truthy (pe_tx_id ev)
                           then Some (sha256_hex e (the (pe_tx_id ev))) else None)
      in case by_purchase of
           Some x \<Rightarrow> Some x
         | None \<Rightarrow>
             if truthy (pe_tx_key ev) \<or> truthy (pe_tx_id ev)
             then find_payment (\<lambda>y. pay_provider y = provider \<and>
                    (if truthy key then pay_tx_key y = key else pay_tx_id y = pe_tx_id ev)) s
             else None)"

section \<open>A paid event\<close>

text \<open>Why a paid event is refused, if it is.\<close>

definition paid_rejection :: "payment_event \<Rightarrow> payment_row \<Rightarrow> string option" where
  "paid_rejection ev y =
     (let reported = List.map_filter (\<lambda>x. x) [pe_net ev, pe_amount ev] in
      if truthy (pe_product ev) \<and> pe_product ev \<noteq> Some (pay_provider_product y) then Some ''product_mismatch''
      else if (case (pe_net ev, pe_tax ev, pe_amount ev) of
                 (Some n, Some t, Some a) \<Rightarrow> a \<noteq> n + t | _ \<Rightarrow> False) then Some ''amount_mismatch''
      else if reported \<noteq> [] \<and> (case pay_amount y of None \<Rightarrow> True | Some a \<Rightarrow> a \<notin> set reported)
      then Some ''amount_mismatch''
      else if currency_differs ev y then Some ''currency_mismatch''
      else if pay_status y = Pay_Paid \<and> truthy (pe_tx_id ev) \<and> truthy (pay_tx_id y) \<and> pe_tx_id ev \<noteq> pay_tx_id y
      then Some ''duplicate_capture''
      else if pay_status y \<noteq> Pay_Paid \<and> \<not> pending_payment (pay_status y) then Some ''invalid_transition''
      else None)"

definition capture_payment :: "env \<Rightarrow> time \<Rightarrow> fresh \<Rightarrow> payment_event \<Rightarrow> payment_row \<Rightarrow> purchase_row \<Rightarrow> db \<Rightarrow> db res" where
  "capture_payment e now fr ev y q s =
     bindR (grant_with_client now (fr_grant fr)
              \<lparr>gi_user = pur_user q, gi_amount = Js_Int (pur_credits q), gi_reason = Some ''credit purchase'',
               gi_kind = Some Paid, gi_purchase = Some (pay_purchase y), gi_promo = None,
               gi_ref = Some (''credit_purchase:'' @ pay_purchase y), gi_expires = None\<rparr> s) (\<lambda>(_, s1).
     bindR (upd_payments (\<lambda>z. pay_id z = pay_id y)
              (\<lambda>z. z\<lparr>pay_status := Pay_Paid, pay_tx_id := or_keep (pe_tx_id ev) (pay_tx_id z),
                     pay_net := or_keep (pe_net ev) (pay_net z), pay_tax := or_keep (pe_tax ev) (pay_tax z),
                     pay_tx_key := or_keep
                       (case pe_tx_key ev of
                          Some k \<Rightarrow> Some k
                        | None \<Rightarrow> if truthy (pe_tx_id ev) then Some (sha256_hex e (the (pe_tx_id ev))) else None)
                       (pay_tx_key z),
                     pay_paid_at := Some (pe_occurred ev), pay_updated := now\<rparr>) s1) (\<lambda>s2.
     bindR (ins_payment_entry
              \<lparr>pl_id = fr_entry fr, pl_payment = pay_id y, pl_type = Capture, pl_direction = Inflow,
               pl_amount = or_keep (pe_amount ev) (pay_amount y),
               pl_currency = or_keep (pe_currency ev) (pay_currency y), pl_tx_id = pe_tx_id ev,
               pl_event_id = Some (pe_id ev), pl_details = None, pl_occurred = pe_occurred ev\<rparr> s2) (\<lambda>s3.
     bindR (create_notification now (fr_note fr)
              \<lparr>ni_user = pur_user q, ni_type = credit_purchase_completed, ni_title = ko_purchase_title,
               ni_body = Some (ko_purchase_body_head @ show_int (pur_credits q) @ ko_purchase_body_tail),
               ni_target_type = Some ''purchase'', ni_target = Some (pay_purchase y)\<rparr>
              (s3\<lparr>purchases := update_where (\<lambda>x. pur_id x = pay_purchase y)
                 (\<lambda>x. x\<lparr>pur_status := Pur_Completed, pur_fulfilled := Some now, pur_updated := now\<rparr>) (purchases s3)\<rparr>))
       (\<lambda>(_, s4). Inr s4))))"

section \<open>Refunds reported by the provider\<close>

definition pending_refund :: "uid \<Rightarrow> db \<Rightarrow> refund_row option" where
  "pending_refund p s =
     (case sort_key (\<lambda>f. (rf_created f, rf_id f))
        (filter (\<lambda>f. rf_purchase f = p \<and> rf_status f \<in> {Rf_Payment_Processing, Rf_Payment_Succeeded}) (refunds s)) of
        [] \<Rightarrow> None
      | f # _ \<Rightarrow> Some f)"

definition refunded_so_far :: "uid \<Rightarrow> db \<Rightarrow> int" where
  "refunded_so_far i s =
     sum_where (\<lambda>x. pl_payment x = i \<and> pl_type x \<in> {Refund, Chargeback})
       (\<lambda>x. case pl_amount x of None \<Rightarrow> 0 | Some a \<Rightarrow> a) (payment_entries s)"

definition completed_sum :: "(refund_row \<Rightarrow> int) \<Rightarrow> uid \<Rightarrow> db \<Rightarrow> int" where
  "completed_sum v p s = sum_where (\<lambda>f. rf_purchase f = p \<and> rf_status f = Rf_Completed) v (refunds s)"

text \<open>\<open>Math.floor((original * refunded) / net)\<close>\<close>

definition proportional :: "int \<Rightarrow> int \<Rightarrow> int \<Rightarrow> int" where
  "proportional original refunded net =
     js_floor (js_div (js_mul (of_int original) (of_int refunded)) (of_int net))"

record recovery_plan =
  plan_base :: int
  plan_paid_promotion :: int
  plan_free_promotion :: int
  plan_debt :: int

definition cumulative_plan :: "time \<Rightarrow> purchase_row \<Rightarrow> int \<Rightarrow> int \<Rightarrow> db \<Rightarrow> recovery_plan" where
  "cumulative_plan now q refunded net s =
     (let snap = purchase_credit_snapshot now (pur_user q) (pur_id q) s;
          previous_base = max 0 (completed_sum rf_credits (pur_id q) s);
          previous_promotion = max 0 (completed_sum rf_promotion (pur_id q) s - completed_sum rf_free_promotion (pur_id q) s);
          target_paid = proportional (original_paid snap + original_paid_promotion snap) refunded net;
          target_base = proportional (original_paid snap) refunded net;
          base = max 0 (target_base - previous_base);
          paid_promotion = max 0 (target_paid - target_base - previous_promotion);
          available = remaining_paid snap + remaining_paid_promotion snap
      in \<lparr>plan_base = base, plan_paid_promotion = paid_promotion,
          plan_free_promotion = max 0 (remaining_promotion snap - remaining_paid_promotion snap),
          plan_debt = max 0 (base + paid_promotion - available)\<rparr>)"

text \<open>
  The writes that both kinds of reversal share, in their order: the refund row, the recovery when there
  is one, the payment and the outflow.
\<close>

definition reversal_tx :: "time \<Rightarrow> uid \<Rightarrow> uid \<Rightarrow> string \<Rightarrow> refund_row \<Rightarrow> uid \<Rightarrow> (payment_row \<Rightarrow> payment_row) \<Rightarrow>
    payment_ledger_row \<Rightarrow> db \<Rightarrow> db res" where
  "reversal_tx now lid u why row i upd entry s =
     bindR (ins_refund row s) (\<lambda>(f, s1).
     bindR (if 0 < rf_recovery f
            then map_sum id snd (record_refund_recovery now lid u (rf_purchase f) (rf_recovery f) (rf_id f) why s1)
            else Inr s1) (\<lambda>s2.
     bindR (upd_payments (\<lambda>z. pay_id z = i) upd s2) (\<lambda>s3. ins_payment_entry entry s3)))"

definition reverse_part :: "time \<Rightarrow> fresh \<Rightarrow> payment_event \<Rightarrow> int \<Rightarrow> int \<Rightarrow> int \<Rightarrow> payment_row \<Rightarrow> purchase_row \<Rightarrow>
    db \<Rightarrow> db res" where
  "reverse_part now fr ev net refunded previous y q s =
     (let plan = cumulative_plan now q refunded net s;
          promotion = plan_paid_promotion plan + plan_free_promotion plan;
          recovery = plan_base plan + promotion;
          increase = refunded - previous;
          full = (refunded = net)
      in bindR (reversal_tx now (fr_recovery2 fr) (pur_user q) ''provider partial refund''
              \<lparr>rf_id = fr_refund fr, rf_purchase = pay_purchase y, rf_status = Rf_Completed,
               rf_reason = ''provider_reversal'', rf_key = ''provider:'' @ pe_id ev, rf_credits = plan_base plan,
               rf_promotion = promotion, rf_locked = 0, rf_recovery = recovery, rf_debt = plan_debt plan,
               rf_gross = increase, rf_fee = 0, rf_refund = increase,
               rf_currency = (case or_keep (pe_currency ev) (pay_currency y) of None \<Rightarrow> ''UNKNOWN'' | Some c \<Rightarrow> c),
               rf_provider_refund = None, rf_provider_tx = pe_tx_id ev, rf_completed = Some (pe_occurred ev),
               rf_created = now, rf_provider = pay_provider y, rf_free_promotion = plan_free_promotion plan\<rparr>
              (pay_id y)
              (\<lambda>z. z\<lparr>pay_net := Some net, pay_tax := or_keep (pe_tax ev) (pay_tax z),
                     pay_status := (if pay_status y = Pay_Refunded then Pay_Refunded
                                    else if full then Pay_Reversed else Pay_Partially_Refunded),
                     pay_refunded_at := (if full then Some (pe_occurred ev) else pay_refunded_at z),
                     pay_updated := now\<rparr>)
              \<lparr>pl_id = fr_entry2 fr, pl_payment = pay_id y, pl_type = Refund, pl_direction = Outflow,
               pl_amount = Some increase, pl_currency = or_keep (pe_currency ev) (pay_currency y),
               pl_tx_id = pe_tx_id ev, pl_event_id = Some (pe_id ev),
               pl_details = Some (refunded, pe_refunded_tax ev), pl_occurred = pe_occurred ev\<rparr> s) (\<lambda>s1.
         Inr (if pur_status q = Pur_Refunded then s1
              else set_purchase_status now (if full then Pur_Reversed else Pur_Completed) (pay_purchase y) s1)))"

text \<open>\<open>applyCumulativeRefund\<close>: the result says why the event is refused, if it is.\<close>

definition apply_cumulative_refund :: "env \<Rightarrow> time \<Rightarrow> fresh \<Rightarrow> payment_event \<Rightarrow> int \<Rightarrow> int \<Rightarrow> payment_row \<Rightarrow> purchase_row \<Rightarrow>
    db \<Rightarrow> (string option \<times> db) res" where
  "apply_cumulative_refund e now fr ev net refunded y0 q0 s =
     (if net \<le> 0 \<or> refunded \<le> 0 \<or> net < refunded \<or> (case pay_net y0 of None \<Rightarrow> False | Some n \<Rightarrow> n \<noteq> net) \<or>
         (case (pay_tax y0, pe_tax ev) of (Some a, Some b) \<Rightarrow> a \<noteq> b | _ \<Rightarrow> False)
      then Inr (Some ''refund_amount_mismatch'', s)
      else if currency_differs ev y0 then Inr (Some ''currency_mismatch'', s)
      else
        (let previous = refunded_so_far (pay_id y0) s in
         if refunded < previous then Inr (Some ''refund_amount_mismatch'', s)
         else
           (case pending_refund (pay_purchase y0) s of
              Some f \<Rightarrow>
                if refunded - previous < rf_refund f then Inr (Some ''refund_amount_mismatch'', s)
                else
                  bindR (complete_refund_with_client e now fr (rf_id f) (Some ev) s) (\<lambda>(_, s1).
                  let previous1 = previous + rf_refund f in
                  if refunded = previous1 then Inr (None, s1)
                  else bindR (require_payment (pay_id y0) s1) (\<lambda>(y, q).
                       bindR (reverse_part now fr ev net refunded previous1 y q s1) (\<lambda>s2. Inr (None, s2))))
            | None \<Rightarrow>
                if refunded = previous then Inr (None, s)
                else bindR (require_payment (pay_id y0) s) (\<lambda>(y, q).
                     bindR (reverse_part now fr ev net refunded previous y q s) (\<lambda>s1. Inr (None, s1))))))"

definition force_reversal :: "time \<Rightarrow> fresh \<Rightarrow> payment_event \<Rightarrow> payment_row \<Rightarrow> purchase_row \<Rightarrow> db \<Rightarrow> db res" where
  "force_reversal now fr ev y q s =
     (if pay_status y = Pay_Reversed \<or> pay_status y = Pay_Refunded then Inr s
      else
        (let snap = purchase_credit_snapshot now (pur_user q) (pay_purchase y) s;
             recovery = original_paid snap + original_promotion snap;
             locked = remaining_paid snap + remaining_promotion snap;
             amount = (case or_keep (pe_amount ev) (pay_amount y) of None \<Rightarrow> 0 | Some a \<Rightarrow> a)
         in bindR (reversal_tx now (fr_recovery2 fr) (pur_user q) ''provider reversal''
              \<lparr>rf_id = fr_refund fr, rf_purchase = pay_purchase y, rf_status = Rf_Completed,
               rf_reason = ''provider_reversal'', rf_key = ''provider:'' @ pe_id ev, rf_credits = original_paid snap,
               rf_promotion = original_promotion snap, rf_locked = locked, rf_recovery = recovery,
               rf_debt = max 0 (recovery - locked), rf_gross = amount, rf_fee = 0, rf_refund = amount,
               rf_currency = (case or_keep (pe_currency ev) (pay_currency y) of None \<Rightarrow> ''UNKNOWN'' | Some c \<Rightarrow> c),
               rf_provider_refund = None, rf_provider_tx = pe_tx_id ev, rf_completed = Some now,
               rf_created = now, rf_provider = pay_provider y, rf_free_promotion = 0\<rparr>
              (pay_id y)
              (\<lambda>z. z\<lparr>pay_status := Pay_Reversed, pay_refunded_at := Some now, pay_updated := now\<rparr>)
              \<lparr>pl_id = fr_entry2 fr, pl_payment = pay_id y, pl_type = Chargeback, pl_direction = Outflow,
               pl_amount = or_keep (pe_amount ev) (pay_amount y),
               pl_currency = or_keep (pe_currency ev) (pay_currency y), pl_tx_id = pe_tx_id ev,
               pl_event_id = Some (pe_id ev), pl_details = None, pl_occurred = pe_occurred ev\<rparr> s) (\<lambda>s1.
            Inr (set_purchase_status now Pur_Reversed (pay_purchase y) s1))))"

section \<open>Applying an event\<close>

text \<open>What an event does to its payment: \<open>Inr (Some code, _)\<close> when it is refused.\<close>

definition event_effect :: "env \<Rightarrow> time \<Rightarrow> fresh \<Rightarrow> payment_event \<Rightarrow> payment_row \<Rightarrow> purchase_row \<Rightarrow> db \<Rightarrow>
    (string option \<times> db) res" where
  "event_effect e now fr ev y q s =
     (case pe_type ev of
        Ev_Paid \<Rightarrow>
          (case paid_rejection ev y of
             Some code \<Rightarrow> Inr (Some code, s)
           | None \<Rightarrow> if pay_status y = Pay_Paid then Inr (None, s)
                     else bindR (capture_payment e now fr ev y q s) (\<lambda>s1. Inr (None, s1)))
      | Ev_Declined \<Rightarrow>
          if pending_payment (pay_status y) then
            bindR (upd_payments (\<lambda>z. pay_id z = pay_id y) (\<lambda>z. z\<lparr>pay_status := Pay_Failed, pay_updated := now\<rparr>) s)
              (\<lambda>s1. Inr (None, set_purchase_status now Pur_Failed (pay_purchase y) s1))
          else Inr (None, s)
      | Ev_Refunded \<Rightarrow>
          (case (pe_net ev, pe_refunded ev) of
             (Some net, Some refunded) \<Rightarrow> apply_cumulative_refund e now fr ev net refunded y q s
           | _ \<Rightarrow>
               (case pending_refund (pay_purchase y) s of
                  Some f \<Rightarrow> bindR (complete_refund_with_client e now fr (rf_id f) (Some ev) s) (\<lambda>(_, s1). Inr (None, s1))
                | None \<Rightarrow> bindR (force_reversal now fr ev y q s) (\<lambda>s1. Inr (None, s1))))
      | _ \<Rightarrow> bindR (force_reversal now fr ev y q s) (\<lambda>s1. Inr (None, s1)))"

definition apply_event :: "env \<Rightarrow> time \<Rightarrow> fresh \<Rightarrow> string \<Rightarrow> payment_event \<Rightarrow> db \<Rightarrow> (event_outcome \<times> db) res" where
  "apply_event e now fr provider ev s =
     bindR (assert_environment e provider (pe_environment ev)) (\<lambda>_.
     let (inbox, s1) = inbox_upsert (fr_event fr) provider ev s in
     if evt_type inbox \<noteq> event_type_name (pe_type ev) then Inl (Conflict ''Provider event ID conflict'')
     else if evt_status inbox = Ev_Processed \<and> provider \<noteq> ''polar'' then Inr (Replayed, s1)
     else if pe_type ev = Ev_Ignored then Inr (Processed, event_processed now (evt_id inbox) s1)
     else
       bindR (require_some (locate_payment e provider ev s1) (Not_Found ''Payment not found'')) (\<lambda>(y0, _).
       bindR (require_payment (pay_id y0) s1) (\<lambda>(y, q).
       bindR (assert_payment_environment e y (Some ev)) (\<lambda>_.
       if evt_status inbox = Ev_Processed then Inr (Replayed, s1)
       else
         bindR (event_effect e now fr ev y q
                  (upd_event (evt_id inbox) (\<lambda>x. x\<lparr>evt_payment := Some (pay_id y)\<rparr>) s1)) (\<lambda>(rejected, s2).
           case rejected of
             Some code \<Rightarrow> Inr (fail_provider_event now (evt_id inbox) code s2)
           | None \<Rightarrow> Inr (Processed, event_processed now (evt_id inbox) s2))))))"

definition apply_provider_event :: "env \<Rightarrow> gateway \<Rightarrow> time \<Rightarrow> fresh \<Rightarrow> string \<Rightarrow> string \<Rightarrow> (string \<times> string) list \<Rightarrow>
    db \<Rightarrow> (event_outcome \<times> db) res" where
  "apply_provider_event e g now fr provider body headers s =
     bindR (verify_provider_event e g now provider body headers) (\<lambda>ev. apply_event e now fr provider ev s)"

end
