(* ===== verification/Purchase_Inv.thy ===== *)
theory Purchase_Inv
  imports Purchase_Events Credits_Accounts
begin

text \<open>
  Inversion lemmas for the purchase operations (what a successful run did to each table) and the
  preservation of the ledger invariant by all of them.
\<close>

section \<open>Inversion\<close>

lemma find_refund_Some:
  assumes "find_refund_with_purchase c s = Some (f, q, payment)"
  shows "f \<in> set (refunds s)" "c f" "q \<in> set (purchases s)" "pur_id q = rf_purchase f"
    "payment = payment_of (rf_purchase f) s"
  using assms
  by (auto simp: find_refund_with_purchase_def find_purchase_def split: option.splits dest!: find_in_set)

lemma find_payment_Some:
  assumes "find_payment c s = Some (y, q)"
  shows "y \<in> set (payments s)" "c y" "q \<in> set (purchases s)" "pur_id q = pay_purchase y"
  using assms by (auto simp: find_payment_def split: option.splits dest!: find_in_set)

text \<open>Completing a refund: nothing when it is completed already, else one recovery entry, one outflow in
  the payment ledger, one notification, and the three status changes.\<close>

definition refund_done :: "payment_event option \<Rightarrow> time \<Rightarrow> refund_row \<Rightarrow> refund_row" where
  "refund_done event t x = x\<lparr>rf_status := Rf_Completed,
     rf_provider_tx := or_keep (Option.bind event pe_tx_id) (rf_provider_tx x), rf_completed := Some t\<rparr>"

definition refund_time :: "payment_event option \<Rightarrow> time \<Rightarrow> time" where
  "refund_time event now = (case event of Some ev \<Rightarrow> pe_occurred ev | None \<Rightarrow> now)"

definition recovery_entry :: "uid \<Rightarrow> time \<Rightarrow> uid \<Rightarrow> uid \<Rightarrow> int \<Rightarrow> uid \<Rightarrow> string \<Rightarrow> ledger_row" where
  "recovery_entry lid now u p n refund reason = \<lparr>led_id = lid, led_user = u, led_type = Refund_Recovery,
     led_kind = Some Paid, led_purchase = Some p, led_promo = None, led_amount = n, led_expires = None,
     led_reason = reason, led_ref = Some (''credit_refund:'' @ refund), led_created = now\<rparr>"

lemma record_refund_recovery_Inr_iff:
  "record_refund_recovery now lid u p n refund reason s = Inr (r, s') \<longleftrightarrow>
     ins_ledger (recovery_entry lid now u p n refund reason) s =
       Inr (recovery_entry lid now u p n refund reason, s') \<and>
     r = to_record (recovery_entry lid now u p n refund reason)"
  by (auto simp: record_refund_recovery_def recovery_entry_def bindR_Inr_iff ins_ledger_Inr_iff)

lemma complete_refund_elim:
  assumes "complete_refund_with_client e now fr i event s = Inr (f', s')"
  obtains (already) q payment where "find_refund_with_purchase (\<lambda>f. rf_id f = i) s = Some (f', q, payment)"
      "rf_status f' = Rf_Completed" "s' = s"
  | (ran) f q y entry where "find_refund_with_purchase (\<lambda>f. rf_id f = i) s = Some (f, q, Some y)"
      "rf_status f \<noteq> Rf_Completed" "f' = refund_done event (refund_time event now) f"
      "ledger s' = ledger s @ [recovery_entry (fr_recovery fr) now (pur_user q) (rf_purchase f) (rf_recovery f) (rf_id f) ''user refund'']"
      "fr_recovery fr \<notin> led_id ` set (ledger s)"
      "unique_opt (Some (''credit_refund:'' @ rf_id f)) (map led_ref (ledger s))"
      "payment_entries s' = payment_entries s @ [entry]" "pl_payment entry = pay_id y" "pl_type entry = Refund"
      "pl_amount entry = Some (rf_refund f)"
      "payments s' = update_where (\<lambda>z. pay_id z = pay_id y)
         (\<lambda>z. z\<lparr>pay_status := Pay_Refunded, pay_refunded_at := Some (refund_time event now), pay_updated := now\<rparr>) (payments s)"
      "purchases s' = purchases (set_purchase_status now Pur_Refunded (rf_purchase f) s)"
      "refunds s' = update_where (\<lambda>x. rf_id x = rf_id f) (refund_done event (refund_time event now)) (refunds s)"
      "usages s' = usages s" "reservations s' = reservations s" "users s' = users s"
proof -
  obtain f q payment where f: "find_refund_with_purchase (\<lambda>f. rf_id f = i) s = Some (f, q, payment)"
    using assms
    by (auto simp: complete_refund_with_client_def require_refund_with_purchase_def bindR_Inr_iff require_some_Inr_iff)
  note r = require_refund_with_purchase_def
  obtain y where y: "payment = Some y"
    using assms f by (auto simp: complete_refund_with_client_def r bindR_Inr_iff require_some_Inr_iff)
  show ?thesis
  proof (cases "rf_status f = Rf_Completed")
    case True
    with assms f y show ?thesis
      by (intro already [of q payment]) (auto simp: complete_refund_with_client_def r bindR_Inr_iff require_some_Inr_iff)
  next
    case False
    let ?t = "refund_time event now"
    let ?rec = "recovery_entry (fr_recovery fr) now (pur_user q) (rf_purchase f) (rf_recovery f) (rf_id f) ''user refund''"
    have t: "(case event of None \<Rightarrow> now | Some ev \<Rightarrow> pe_occurred ev) = ?t"
      by (simp add: refund_time_def split: option.splits)
    from assms f y False obtain s1 s2 s3 s4 entry view where
      s1: "ins_ledger ?rec s = Inr (?rec, s1)" and
      s2: "ins_payment_entry entry s1 = Inr s2" "pl_payment entry = pay_id y" "pl_type entry = Refund"
        "pl_amount entry = Some (rf_refund f)" and
      s3: "upd_payments (\<lambda>z. pay_id z = pay_id y)
        (\<lambda>z. z\<lparr>pay_status := Pay_Refunded, pay_refunded_at := Some ?t, pay_updated := now\<rparr>) s2 = Inr s3" and
      s4: "create_notification now (fr_note fr)
                 \<lparr>ni_user = pur_user q, ni_type = credit_refund_completed, ni_title = ko_refund_title,
                  ni_body = Some ko_refund_body, ni_target_type = Some ''refund'', ni_target = Some (rf_id f)\<rparr>
                 (set_purchase_status now Pur_Refunded (rf_purchase f) s3) = Inr (view, s4)" and
      s5: "upd_refunds (\<lambda>x. rf_id x = rf_id f) (refund_done event ?t) s4 = Inr s'"
        "f' = refund_done event ?t f"
      unfolding complete_refund_with_client_def r Let_def t refund_done_def [symmetric]
      by (auto simp: bindR_Inr_iff require_some_Inr_iff record_refund_recovery_Inr_iff)
    obtain ns where s4': "s4 = (set_purchase_status now Pur_Refunded (rf_purchase f) s3)\<lparr>notifications := ns\<rparr>"
      using s4 by (auto simp: create_notification_def bindR_Inr_iff ins_notification_Inr_iff)
    have s1': "s1 = s\<lparr>ledger := ledger s @ [?rec]\<rparr>" and fresh: "fr_recovery fr \<notin> led_id ` set (ledger s)"
      "unique_opt (Some (''credit_refund:'' @ rf_id f)) (map led_ref (ledger s))"
      using s1 unfolding ins_ledger_Inr_iff by (simp_all add: recovery_entry_def)
    have s2': "s2 = s1\<lparr>payment_entries := payment_entries s1 @ [entry]\<rparr>"
      using s2(1) unfolding ins_payment_entry_Inr_iff by blast
    have s3': "s3 = s2\<lparr>payments := update_where (\<lambda>z. pay_id z = pay_id y)
        (\<lambda>z. z\<lparr>pay_status := Pay_Refunded, pay_refunded_at := Some ?t, pay_updated := now\<rparr>) (payments s2)\<rparr>"
      using s3 unfolding upd_payments_Inr_iff by blast
    have s5': "s' = s4\<lparr>refunds := update_where (\<lambda>x. rf_id x = rf_id f) (refund_done event ?t) (refunds s4)\<rparr>"
      using s5(1) unfolding upd_refunds_Inr_iff by blast
    show ?thesis
      by (rule ran [OF _ False s5(2) _ fresh _ s2(2-4)])
        (simp_all add: f y s1' s2' s3' s4' s5' set_purchase_status_def)
  qed
qed

text \<open>Capturing a payment: one grant under the purchase's reference and one inflow.\<close>

definition purchase_grant :: "payment_row \<Rightarrow> purchase_row \<Rightarrow> grant_input" where
  "purchase_grant y q = \<lparr>gi_user = pur_user q, gi_amount = Js_Int (pur_credits q),
     gi_reason = Some ''credit purchase'', gi_kind = Some Paid, gi_purchase = Some (pay_purchase y),
     gi_promo = None, gi_ref = Some (''credit_purchase:'' @ pay_purchase y), gi_expires = None\<rparr>"

lemma capture_payment_elim:
  assumes "capture_payment e now fr ev y q s = Inr s'"
  obtains rec s1 f entry where "grant_with_client now (fr_grant fr) (purchase_grant y q) s = Inr (rec, s1)"
    "ledger s' = ledger s1" "usages s' = usages s1" "reservations s' = reservations s1" "refunds s' = refunds s1"
    "users s' = users s1"
    "payments s' = update_where (\<lambda>z. pay_id z = pay_id y) f (payments s1)"
    "\<And>z. pay_status (f z) = Pay_Paid" "\<And>z. pay_id (f z) = pay_id z" "\<And>z. pay_purchase (f z) = pay_purchase z"
    "payment_entries s' = payment_entries s1 @ [entry]" "pl_type entry = Capture" "pl_payment entry = pay_id y"
    "map pur_id (purchases s') = map pur_id (purchases s1)"
    "map pur_user (purchases s') = map pur_user (purchases s1)"
proof -
  define f :: "payment_row \<Rightarrow> payment_row" where "f = (\<lambda>z. z\<lparr>pay_status := Pay_Paid, pay_tx_id := or_keep (pe_tx_id ev) (pay_tx_id z),
      pay_net := or_keep (pe_net ev) (pay_net z), pay_tax := or_keep (pe_tax ev) (pay_tax z),
      pay_tx_key := or_keep
        (case pe_tx_key ev of
           Some k \<Rightarrow> Some k
         | None \<Rightarrow> if truthy (pe_tx_id ev) then Some (sha256_hex e (the (pe_tx_id ev))) else None)
        (pay_tx_key z),
      pay_paid_at := Some (pe_occurred ev), pay_updated := now\<rparr>)"
  from assms obtain rec s1 s2 s3 entry ntf view where
    s1: "grant_with_client now (fr_grant fr) (purchase_grant y q) s = Inr (rec, s1)" and
    s2: "upd_payments (\<lambda>z. pay_id z = pay_id y) f s1 = Inr s2" and
    s3: "ins_payment_entry entry s2 = Inr s3" "pl_type entry = Capture" "pl_payment entry = pay_id y" and
    s4: "create_notification now (fr_note fr) ntf
       (s3\<lparr>purchases := update_where (\<lambda>x. pur_id x = pay_purchase y)
          (\<lambda>x. x\<lparr>pur_status := Pur_Completed, pur_fulfilled := Some now, pur_updated := now\<rparr>) (purchases s3)\<rparr>) = Inr (view, s')"
    unfolding capture_payment_def f_def [symmetric] purchase_grant_def [symmetric]
    by (auto simp: bindR_Inr_iff)
  have s2': "s2 = s1\<lparr>payments := update_where (\<lambda>z. pay_id z = pay_id y) f (payments s1)\<rparr>"
    using s2 unfolding upd_payments_Inr_iff by blast
  have s3': "s3 = s2\<lparr>payment_entries := payment_entries s2 @ [entry]\<rparr>"
    using s3(1) unfolding ins_payment_entry_Inr_iff by blast
  obtain ns where s4': "s' = s3\<lparr>purchases := update_where (\<lambda>x. pur_id x = pay_purchase y)
      (\<lambda>x. x\<lparr>pur_status := Pur_Completed, pur_fulfilled := Some now, pur_updated := now\<rparr>) (purchases s3),
      notifications := ns\<rparr>"
    using s4 by (auto simp: create_notification_def bindR_Inr_iff ins_notification_Inr_iff)
  show ?thesis
    by (rule that [OF s1, of f entry]) (simp_all add: s2' s3' s4' s3(2,3) f_def)
qed

text \<open>Both reversals add a completed refund, a recovery entry when there is something to recover, and one
  outflow.\<close>

definition reversal :: "refund_row \<Rightarrow> uid \<Rightarrow> string \<Rightarrow> uid \<Rightarrow> time \<Rightarrow> payment_ledger_row \<Rightarrow> db \<Rightarrow> db \<Rightarrow> bool" where
  "reversal f u why lid now entry s s' \<longleftrightarrow>
     rf_status f = Rf_Completed \<and> refunds s' = refunds s @ [f] \<and>
     (if 0 < rf_recovery f
      then ledger s' = ledger s @ [recovery_entry lid now u (rf_purchase f) (rf_recovery f) (rf_id f) why] \<and>
           lid \<notin> led_id ` set (ledger s)
      else ledger s' = ledger s) \<and>
     payment_entries s' = payment_entries s @ [entry] \<and>
     usages s' = usages s \<and> reservations s' = reservations s \<and> users s' = users s \<and>
     map pay_id (payments s') = map pay_id (payments s) \<and>
     map pay_purchase (payments s') = map pay_purchase (payments s) \<and>
     map pur_id (purchases s') = map pur_id (purchases s) \<and> map pur_user (purchases s') = map pur_user (purchases s)"

lemma reversal_tx_elim:
  assumes tx: "reversal_tx now lid u why f i g entry s = Inr s4" and st: "rf_status f = Rf_Completed"
    and g: "\<And>z. pay_id (g z) = pay_id z" "\<And>z. pay_purchase (g z) = pay_purchase z"
    and s5: "s' = s4 \<or> (\<exists>st q. s' = set_purchase_status now st q s4)"
  shows "reversal f u why lid now entry s s'"
proof -
  let ?rec = "recovery_entry lid now u (rf_purchase f) (rf_recovery f) (rf_id f) why"
  obtain s1 s2 s3 where s1: "ins_refund f s = Inr (f, s1)" and
    s2: "(if 0 < rf_recovery f
          then map_sum id snd (record_refund_recovery now lid u (rf_purchase f) (rf_recovery f) (rf_id f) why s1)
          else Inr s1) = Inr s2" and
    s3: "upd_payments (\<lambda>z. pay_id z = i) g s2 = Inr s3" and s4: "ins_payment_entry entry s3 = Inr s4"
  proof -
    obtain f1 s1 where f1: "ins_refund f s = Inr (f1, s1)" using tx by (auto simp: reversal_tx_def bindR_Inr_iff)
    then have "f1 = f" unfolding ins_refund_Inr_iff by blast
    with f1 tx show ?thesis by (auto simp: reversal_tx_def bindR_Inr_iff intro!: that)
  qed
  have s1': "s1 = s\<lparr>refunds := refunds s @ [f]\<rparr>" using s1 unfolding ins_refund_Inr_iff by blast
  have s2': "if 0 < rf_recovery f then s2 = s1\<lparr>ledger := ledger s1 @ [?rec]\<rparr> \<and> lid \<notin> led_id ` set (ledger s1)
      else s2 = s1"
  proof (cases "0 < rf_recovery f")
    case True
    with s2 obtain r where "record_refund_recovery now lid u (rf_purchase f) (rf_recovery f) (rf_id f) why s1 = Inr (r, s2)"
      by (cases "record_refund_recovery now lid u (rf_purchase f) (rf_recovery f) (rf_id f) why s1") auto
    then have "ins_ledger ?rec s1 = Inr (?rec, s2)" unfolding record_refund_recovery_Inr_iff by blast
    with True show ?thesis unfolding ins_ledger_Inr_iff by (simp add: recovery_entry_def)
  qed (use s2 in simp)
  have s3': "s3 = s2\<lparr>payments := update_where (\<lambda>z. pay_id z = i) g (payments s2)\<rparr>"
    using s3 unfolding upd_payments_Inr_iff by blast
  have s4': "s4 = s3\<lparr>payment_entries := payment_entries s3 @ [entry]\<rparr>"
    using s4 unfolding ins_payment_entry_Inr_iff by blast
  show ?thesis
  proof (cases "0 < rf_recovery f")
    case True
    with s2' s5 st g show ?thesis by (auto simp: reversal_def s1' s3' s4' set_purchase_status_def)
  next
    case False
    with s2' s5 st g show ?thesis by (auto simp: reversal_def s1' s3' s4' set_purchase_status_def)
  qed
qed

lemma force_reversal_elim:
  assumes "force_reversal now fr ev y q s = Inr s'"
  obtains (already) "pay_status y = Pay_Reversed \<or> pay_status y = Pay_Refunded" "s' = s"
  | (ran) f entry where "reversal f (pur_user q) ''provider reversal'' (fr_recovery2 fr) now entry s s'"
      "rf_purchase f = pay_purchase y"
      "rf_recovery f = original_paid (purchase_credit_snapshot now (pur_user q) (pay_purchase y) s) +
                       original_promotion (purchase_credit_snapshot now (pur_user q) (pay_purchase y) s)"
      "rf_locked f = remaining_paid (purchase_credit_snapshot now (pur_user q) (pay_purchase y) s) +
                     remaining_promotion (purchase_credit_snapshot now (pur_user q) (pay_purchase y) s)"
      "pl_type entry = Chargeback" "pl_payment entry = pay_id y"
proof (cases "pay_status y = Pay_Reversed \<or> pay_status y = Pay_Refunded")
  case True
  with assms show ?thesis by (intro already) (auto simp: force_reversal_def)
next
  case False
  with assms show ?thesis
    unfolding force_reversal_def Let_def
    apply (simp only: if_False bindR_Inr_iff sum.inject)
    apply (erule exE, erule conjE)
    apply (rule ran, rule reversal_tx_elim, assumption)
             apply (simp_all only: refund_row.simps payment_row.simps payment_ledger_row.simps)
      apply (simp (no_asm))
     apply (simp (no_asm))
    by blast
qed

lemma reverse_part_elim:
  assumes "reverse_part now fr ev net refunded previous y q s = Inr s'"
  obtains f entry where "reversal f (pur_user q) ''provider partial refund'' (fr_recovery2 fr) now entry s s'"
      "rf_purchase f = pay_purchase y" "rf_locked f = 0"
      "rf_recovery f = plan_base (cumulative_plan now q refunded net s) +
         (plan_paid_promotion (cumulative_plan now q refunded net s) +
          plan_free_promotion (cumulative_plan now q refunded net s))"
      "rf_credits f = plan_base (cumulative_plan now q refunded net s)"
      "pl_type entry = Refund" "pl_payment entry = pay_id y" "pl_amount entry = Some (refunded - previous)"
  using assms
  unfolding reverse_part_def Let_def
  apply (simp only: bindR_Inr_iff sum.inject)
  apply (erule exE, erule conjE)
  apply (rule that, rule reversal_tx_elim, assumption)
            apply (simp_all only: refund_row.simps payment_row.simps payment_ledger_row.simps)
    apply (simp (no_asm))
   apply (simp (no_asm))
  apply (cases "pur_status q = Pur_Refunded")
   apply simp
  apply (simp only: if_False)
  by blast

section \<open>The snapshot of a purchase\<close>

lemma sum_where_mono:
  "(\<And>x. x \<in> set xs \<Longrightarrow> P x \<Longrightarrow> f x \<le> g x) \<Longrightarrow> sum_where P f xs \<le> (sum_where P g xs :: int)"
  by (induction xs) (auto intro: add_mono)

lemma purchase_snapshot_bounds:
  fixes now :: time and u p :: uid
  assumes "ledger_ok s"
  defines "snap \<equiv> purchase_credit_snapshot now u p s"
  shows "0 \<le> remaining_paid snap" "remaining_paid snap \<le> original_paid snap"
    and "0 \<le> remaining_promotion snap" "remaining_promotion snap \<le> original_promotion snap"
    and "0 \<le> remaining_paid_promotion snap" "remaining_paid_promotion snap \<le> original_paid_promotion snap"
    and "remaining_paid_promotion snap \<le> remaining_promotion snap" "0 \<le> snap_locked snap"
proof -
  let ?gs = "filter (\<lambda>(g, a). led_purchase g = Some p) (fst (grant_state now u False s))"
  have b: "0 \<le> snd x \<and> snd x \<le> led_amount (fst x)" if "x \<in> set ?gs" for x
  proof -
    obtain g a where x: "x = (g, a)" by (cases x)
    have m: "(g, a) \<in> set (fst (grant_state now u False s))" using that x by simp
    have "0 \<le> used_of (led_id g) s"
      unfolding used_of_def using ledger_okD(3) [OF assms(1)]
      by (intro sum_where_nonneg) (auto simp: usage_ok_def intro: less_imp_le)
    with grant_state_snapshot(4,5) [OF assms(1) m] x show ?thesis by simp
  qed
  have lower: "0 \<le> sum_where P snd ?gs" for P using b by (auto intro!: sum_where_nonneg)
  have upper: "sum_where P snd ?gs \<le> sum_where P (\<lambda>(g, a). led_amount g) ?gs" for P
  proof (rule sum_where_mono)
    fix x assume "x \<in> set ?gs"
    from b [OF this] show "snd x \<le> (case x of (g, a) \<Rightarrow> led_amount g)" by (simp add: case_prod_beta)
  qed
  have sub: "sum_where P snd ?gs \<le> sum_where Q snd ?gs" if "\<And>x. P x \<Longrightarrow> Q x" for P Q
  proof -
    have "sum_where P snd xs \<le> sum_where Q snd xs" if "\<forall>x \<in> set xs. 0 \<le> snd x"
      for xs :: "snapshot list" using that \<open>\<And>x. P x \<Longrightarrow> Q x\<close> by (induction xs) (auto simp: add_mono)
    then show ?thesis using b by blast
  qed
  note d = snap_def purchase_credit_snapshot_def Let_def purchase_snapshot.simps
  show "0 \<le> remaining_paid snap" "0 \<le> remaining_promotion snap" "0 \<le> remaining_paid_promotion snap"
    unfolding d by (rule lower)+
  show "remaining_paid snap \<le> original_paid snap" "remaining_promotion snap \<le> original_promotion snap"
    "remaining_paid_promotion snap \<le> original_paid_promotion snap"
    unfolding d by (rule upper)+
  show "remaining_paid_promotion snap \<le> remaining_promotion snap"
    unfolding d by (rule sub) auto
  show "0 \<le> snap_locked snap"
    using ledger_okD(7) [OF assms(1)] unfolding d by (auto intro!: sum_where_nonneg)
qed

section \<open>The ledger invariant\<close>

lemma ledger_ok_reversal:
  assumes "ledger_ok s" "reversal f u why lid now entry s s'" "0 \<le> rf_locked f" "0 \<le> rf_recovery f"
  shows "ledger_ok s'"
proof -
  let ?rec = "recovery_entry lid now u (rf_purchase f) (rf_recovery f) (rf_id f) why"
  let ?s1 = "if 0 < rf_recovery f then s\<lparr>ledger := ledger s @ [?rec]\<rparr> else s"
  have "ledger_ok ?s1"
    using assms(1,2,4) by (auto simp: reversal_def recovery_entry_def intro!: ledger_ok_add_entry)
  moreover have "\<forall>x \<in> set (refunds s @ [f]). 0 \<le> rf_locked x \<and> 0 \<le> rf_recovery x"
    using ledger_okD(7) [OF assms(1)] assms(3,4) by auto
  ultimately have "ledger_ok (?s1\<lparr>refunds := refunds s @ [f]\<rparr>)" by (rule ledger_ok_refunds)
  moreover have "ledger_ok s' = ledger_ok (?s1\<lparr>refunds := refunds s @ [f]\<rparr>)"
    using assms(2) by (intro ledger_ok_cong) (auto simp: reversal_def)
  ultimately show ?thesis by simp
qed

lemma force_reversal_ok [ledger_intros]:
  assumes "ledger_ok s" "force_reversal now fr ev y q s = Inr s'"
  shows "ledger_ok s'"
  using assms(2)
proof (cases rule: force_reversal_elim)
  case (ran f entry)
  note b = purchase_snapshot_bounds [OF assms(1), of now "pur_user q" "pay_purchase y"]
  from ran b show ?thesis by (intro ledger_ok_reversal [OF assms(1) ran(1)]) simp_all
qed (simp add: assms(1))

lemma plan_nonneg:
  "0 \<le> plan_base (cumulative_plan now q r n s)" "0 \<le> plan_paid_promotion (cumulative_plan now q r n s)"
  "0 \<le> plan_free_promotion (cumulative_plan now q r n s)"
  by (simp_all add: cumulative_plan_def Let_def)

lemma reverse_part_ok [ledger_intros]:
  assumes "ledger_ok s" "reverse_part now fr ev net refunded previous y q s = Inr s'"
  shows "ledger_ok s'"
  using assms(2)
proof (cases rule: reverse_part_elim)
  case (1 f entry)
  with plan_nonneg [of now q refunded net s] show ?thesis
    by (intro ledger_ok_reversal [OF assms(1) 1(1)]) simp_all
qed

lemma complete_refund_ok [ledger_intros]:
  assumes "ledger_ok s" "complete_refund_with_client e now fr i event s = Inr (f', s')"
  shows "ledger_ok s'"
  using assms(2)
proof (cases rule: complete_refund_elim)
  case (ran f q y entry)
  let ?rec = "recovery_entry (fr_recovery fr) now (pur_user q) (rf_purchase f) (rf_recovery f) (rf_id f) ''user refund''"
  have f: "f \<in> set (refunds s)" using find_refund_Some(1) [OF ran(1)] .
  have "ledger_ok (s\<lparr>ledger := ledger s @ [?rec]\<rparr>)"
    using ran(5) ledger_okD(7) [OF assms(1) f] assms(1)
    by (intro ledger_ok_add_entry) (simp_all add: recovery_entry_def)
  moreover have "\<forall>x \<in> set (refunds s'). 0 \<le> rf_locked x \<and> 0 \<le> rf_recovery x"
    using ledger_okD(7) [OF assms(1)] by (auto simp: ran(13) set_update_where refund_done_def)
  ultimately have "ledger_ok (s\<lparr>ledger := ledger s @ [?rec]\<rparr>\<lparr>refunds := refunds s'\<rparr>)"
    by (rule ledger_ok_refunds)
  moreover have "ledger_ok s' = ledger_ok (s\<lparr>ledger := ledger s @ [?rec]\<rparr>\<lparr>refunds := refunds s'\<rparr>)"
    by (intro ledger_ok_cong) (simp_all add: ran)
  ultimately show ?thesis by simp
qed (simp add: assms(1))

lemma capture_payment_ok [ledger_intros]:
  assumes "ledger_ok s" "capture_payment e now fr ev y q s = Inr s'"
  shows "ledger_ok s'"
  using assms(2)
proof (cases rule: capture_payment_elim)
  case (1 rec s1 f entry)
  have "ledger_ok s1" using assms(1) 1(1) by (rule grant_with_client_ok)
  then show ?thesis using ledger_ok_cong [of s' s1] 1 by simp
qed

lemma apply_cumulative_refund_ok [ledger_intros]:
  assumes "ledger_ok s" "apply_cumulative_refund e now fr ev net refunded y q s = Inr (r, s')"
  shows "ledger_ok s'"
  using assms
  by (auto simp: apply_cumulative_refund_def Let_def bindR_Inr_iff split: if_splits option.splits
      intro: complete_refund_ok reverse_part_ok)

lemma ledger_ok_other [simp]:
  "ledger_ok (upd_event i f s) = ledger_ok s"
  "ledger_ok (event_processed now i s) = ledger_ok s"
  "ledger_ok (set_purchase_status now st p s) = ledger_ok s"
  "ledger_ok (snd (fail_provider_event now i c s)) = ledger_ok s"
  "ledger_ok (snd (inbox_upsert i provider ev s)) = ledger_ok s"
  by (rule ledger_ok_cong;
      simp add: upd_event_def event_processed_def set_purchase_status_def fail_provider_event_def inbox_upsert_def
        Let_def split: option.splits)+

lemma upd_payments_ok [ledger_intros]: "ledger_ok s \<Longrightarrow> upd_payments p f s = Inr s' \<Longrightarrow> ledger_ok s'"
  using ledger_ok_cong [of s' s] by (simp add: upd_payments_Inr_iff)

lemma event_effect_ok [ledger_intros]:
  assumes "ledger_ok s" "event_effect e now fr ev y q s = Inr (r, s')"
  shows "ledger_ok s'"
  using assms
  by (auto simp: event_effect_def bindR_Inr_iff split: event_type.splits option.splits if_splits
      intro: complete_refund_ok force_reversal_ok capture_payment_ok apply_cumulative_refund_ok upd_payments_ok)

end
