(* ===== verification/Purchase_Locks.thy ===== *)
theory Purchase_Locks
  imports Purchase_Inv
begin

text \<open>
  How a refund lock and a recovery of one purchase act on the snapshots of a user's grants. A lock and
  a recovery of the same amount leave the same credits available; only a recovery that exceeds what the
  grants have left becomes debt. A lock on all that a purchase has left empties its grants and no
  other.
\<close>

section \<open>The loop, purchase by purchase\<close>

definition available_of :: "time \<Rightarrow> (uid \<times> int) list \<Rightarrow> uid \<Rightarrow> ledger_row list \<Rightarrow> int" where
  "available_of now used p gs = sum_where (\<lambda>g. led_purchase g = Some p) (grant_available now used) gs"

lemma available_of_simps [simp]:
  "available_of now used p [] = 0"
  "available_of now used p (g # gs) =
     (if led_purchase g = Some p then grant_available now used g else 0) + available_of now used p gs"
  by (simp_all add: available_of_def)

lemma available_of_nonneg [simp]: "0 \<le> available_of now used p gs"
  by (simp add: available_of_def sum_where_nonneg)

lemma snapshot_loop_left:
  assumes "\<And>q. 0 \<le> lookup0 recs q"
  shows "lookup0 (snd (snapshot_loop now used incl recs locks gs)) q =
    max 0 (lookup0 recs q - available_of now used q gs)"
  using assms
proof (induction gs arbitrary: recs locks)
  case (Cons g gs)
  let ?a = "grant_available now used g"
  have n: "0 \<le> lookup0 (AList.update p (lookup0 recs p - min ?a (lookup0 recs p)) recs) q" for p q
    using Cons.prems by simp
  have a: "0 \<le> ?a" by simp
  have "max 0 (lookup0 recs p - min ?a (lookup0 recs p) - available_of now used p gs) =
        max 0 (lookup0 recs p - (?a + available_of now used p gs))" for p
    using a available_of_nonneg [of now used p gs] by (auto simp: min_def max_def simp del: available_of_nonneg)
  then show ?case using Cons.IH [OF n] Cons.IH [OF Cons.prems]
    by (auto simp: Let_def case_prod_beta split: option.splits)
qed simp

text \<open>The snapshots depend only on the sum of the recovery and the lock of each purchase.\<close>

lemma snapshot_loop_sums:
  assumes "\<And>q. 0 \<le> lookup0 recs q" "\<And>q. 0 \<le> lookup0 locks q"
    "\<And>q. 0 \<le> lookup0 recs' q" "\<And>q. 0 \<le> lookup0 locks' q"
    "\<And>q. lookup0 recs q + lookup0 locks q = lookup0 recs' q + lookup0 locks' q"
  shows "fst (snapshot_loop now used True recs locks gs) = fst (snapshot_loop now used True recs' locks' gs)"
  using assms
proof (induction gs arbitrary: recs locks recs' locks')
  case (Cons g gs)
  let ?a = "grant_available now used g"
  show ?case
  proof (cases "led_purchase g")
    case None
    with Cons.IH [OF Cons.prems] show ?thesis by (simp add: Let_def case_prod_beta)
  next
    case (Some p)
    let ?r = "lookup0 recs p" and ?l = "lookup0 locks p" and ?r' = "lookup0 recs' p" and ?l' = "lookup0 locks' p"
    have a: "0 \<le> ?a" by simp
    have e: "?a - min ?a ?r - min (?a - min ?a ?r) ?l = ?a - min ?a ?r' - min (?a - min ?a ?r') ?l'"
      using a Cons.prems(1-4) [of p] Cons.prems(5) [of p] by (simp add: min_def)
    have "fst (snapshot_loop now used True (AList.update p (?r - min ?a ?r) recs)
             (AList.update p (?l - min (?a - min ?a ?r) ?l) locks) gs) =
          fst (snapshot_loop now used True (AList.update p (?r' - min ?a ?r') recs')
             (AList.update p (?l' - min (?a - min ?a ?r') ?l') locks') gs)"
    proof (rule Cons.IH)
      fix q
      show "0 \<le> lookup0 (AList.update p (?r - min ?a ?r) recs) q"
        "0 \<le> lookup0 (AList.update p (?l - min (?a - min ?a ?r) ?l) locks) q"
        "0 \<le> lookup0 (AList.update p (?r' - min ?a ?r') recs') q"
        "0 \<le> lookup0 (AList.update p (?l' - min (?a - min ?a ?r') ?l') locks') q"
        using Cons.prems(1-4) [of q] Cons.prems(1-4) [of p] by simp_all
      show "lookup0 (AList.update p (?r - min ?a ?r) recs) q + lookup0 (AList.update p (?l - min (?a - min ?a ?r) ?l) locks) q =
        lookup0 (AList.update p (?r' - min ?a ?r') recs') q + lookup0 (AList.update p (?l' - min (?a - min ?a ?r') ?l') locks') q"
        using e Cons.prems(5) [of q] Cons.prems(5) [of p] by auto
    qed
    with Some e show ?thesis by (simp add: Let_def case_prod_beta)
  qed
qed simp

text \<open>A lock of one purchase does not touch the grants of another, nor the debt.\<close>

lemma snapshot_loop_recs_only:
  "snd (snapshot_loop now used incl recs locks gs) = snd (snapshot_loop now used incl' recs locks' gs)"
proof (induction gs arbitrary: recs locks locks')
  case (Cons g gs)
  show ?case
  proof (cases "led_purchase g")
    case None
    then show ?thesis using Cons.IH [of recs locks locks'] by (simp add: Let_def case_prod_beta)
  next
    case (Some p)
    then show ?thesis by (simp only: snapshot_loop.simps Let_def option.simps case_prod_beta snd_conv) (rule Cons.IH)
  qed
qed simp

definition empty_purchase :: "uid \<Rightarrow> snapshot \<Rightarrow> snapshot" where
  "empty_purchase p = (\<lambda>(g, a). (g, if led_purchase g = Some p then 0 else a))"

abbreviation of_purchase :: "uid \<Rightarrow> snapshot \<Rightarrow> bool" where
  "of_purchase p \<equiv> \<lambda>x. led_purchase (fst x) = Some p"

lemma snapshot_loop_lock_all:
  assumes "\<And>q. 0 \<le> lookup0 recs q" "\<And>q. 0 \<le> lookup0 locks q" "lookup0 locks p = 0"
    and "\<And>q. q \<noteq> p \<Longrightarrow> lookup0 locks' q = lookup0 locks q"
    and "sum_where (of_purchase p) snd (fst (snapshot_loop now used True recs locks gs)) \<le> lookup0 locks' p"
  shows "fst (snapshot_loop now used True recs locks' gs) =
    map (empty_purchase p) (fst (snapshot_loop now used True recs locks gs))"
  using assms
proof (induction gs arbitrary: recs locks locks')
  case (Cons g gs)
  let ?a = "grant_available now used g"
  have a: "0 \<le> ?a" by simp
  show ?case
  proof (cases "led_purchase g")
    case None
    with Cons.prems(5) Cons.IH [OF Cons.prems(1-4)] show ?thesis
      by (simp add: Let_def case_prod_beta empty_purchase_def)
  next
    case (Some q)
    let ?r = "lookup0 recs q" and ?l = "lookup0 locks q" and ?l' = "lookup0 locks' q"
    let ?recs1 = "AList.update q (?r - min ?a ?r) recs"
    let ?locks1 = "AList.update q (?l - min (?a - min ?a ?r) ?l) locks"
    let ?locks1' = "AList.update q (?l' - min (?a - min ?a ?r) ?l') locks'"
    let ?rest = "fst (snapshot_loop now used True ?recs1 ?locks1 gs)"
    have nr: "0 \<le> lookup0 ?recs1 x" for x using Cons.prems(1) by simp
    have nl: "0 \<le> lookup0 ?locks1 x" for x using Cons.prems(2) by simp
    have rest: "0 \<le> sum_where (of_purchase p) snd ?rest"
    proof (rule sum_where_nonneg)
      fix x assume "x \<in> set ?rest"
      then have "(fst x, snd x) \<in> set ?rest" by simp
      from snapshot_loop_bounds [OF this nr nl] show "0 \<le> snd x" by simp
    qed
    show ?thesis
    proof (cases "q = p")
      case True
      have l0: "?l = 0" "?l - min (?a - min ?a ?r) ?l = 0" using True Cons.prems(3) a Cons.prems(1) [of q] by auto
      have sum: "(?a - min ?a ?r) + sum_where (of_purchase p) snd ?rest \<le> ?l'"
        using Cons.prems(5) Some True l0 by (simp add: Let_def case_prod_beta)
      have m: "min (?a - min ?a ?r) ?l' = ?a - min ?a ?r" using sum rest by simp
      have ih: "fst (snapshot_loop now used True ?recs1 ?locks1' gs) = map (empty_purchase p) ?rest"
      proof (rule Cons.IH [OF nr nl])
        show "lookup0 ?locks1 p = 0" using True l0 by simp
        show "lookup0 ?locks1' x = lookup0 ?locks1 x" if "x \<noteq> p" for x
          using that True Cons.prems(4) [of x] by simp
        show "sum_where (of_purchase p) snd ?rest \<le> lookup0 ?locks1' p"
          using True sum m by simp
      qed
      show ?thesis using ih Some True m by (simp add: Let_def case_prod_beta empty_purchase_def)
    next
      case False
      have l: "?l' = ?l" using Cons.prems(4) False by blast
      have ih: "fst (snapshot_loop now used True ?recs1 ?locks1' gs) = map (empty_purchase p) ?rest"
      proof (rule Cons.IH [OF nr nl])
        show "lookup0 ?locks1 p = 0" using False Cons.prems(3) by simp
        show "lookup0 ?locks1' x = lookup0 ?locks1 x" if "x \<noteq> p" for x
          using that l Cons.prems(4) [of x] by simp
        show "sum_where (of_purchase p) snd ?rest \<le> lookup0 ?locks1' p"
          using False Some Cons.prems(5) by (simp add: Let_def case_prod_beta)
      qed
      show ?thesis using ih Some False l by (simp add: Let_def case_prod_beta empty_purchase_def)
    qed
  qed
qed simp

lemma snapshot_loop_unlocked:
  assumes "lookup0 locks p = 0" "\<And>q. 0 \<le> lookup0 recs q"
  shows "filter (of_purchase p) (fst (snapshot_loop now used True recs locks gs)) =
    filter (of_purchase p) (fst (snapshot_loop now used False recs locks' gs))"
  using assms
proof (induction gs arbitrary: recs locks)
  case (Cons g gs)
  let ?a = "grant_available now used g"
  have a: "0 \<le> ?a" by simp
  have n: "0 \<le> lookup0 (AList.update q (lookup0 recs q - min ?a (lookup0 recs q)) recs) x" for q x
    using Cons.prems(2) by simp
  have m: "min (?a - min ?a (lookup0 recs p)) 0 = 0" using a by simp
  have l: "lookup0 (AList.update q (lookup0 locks q - min (?a - min ?a (lookup0 recs q)) (lookup0 locks q)) locks) p = 0"
    for q using Cons.prems(1) m by simp
  show ?case
  proof (cases "led_purchase g")
    case None
    then show ?thesis using Cons.IH [OF Cons.prems] by (simp add: Let_def case_prod_beta)
  next
    case (Some q)
    then show ?thesis using Cons.IH [OF l n, of q q] Cons.prems(1) m by (auto simp: Let_def case_prod_beta)
  qed
qed simp

lemma snapshot_loop_purchase_sum:
  assumes "\<And>q. 0 \<le> lookup0 recs q"
  shows "sum_where (of_purchase p) snd (fst (snapshot_loop now used False recs locks gs)) =
    max 0 (available_of now used p gs - lookup0 recs p)"
  using assms
proof (induction gs arbitrary: recs)
  case (Cons g gs)
  let ?a = "grant_available now used g"
  have n: "0 \<le> lookup0 (AList.update q (lookup0 recs q - min ?a (lookup0 recs q)) recs) x" for q x
    using Cons.prems by simp
  have a: "0 \<le> ?a" by simp
  have "?a - min ?a (lookup0 recs p) + max 0 (available_of now used p gs - (lookup0 recs p - min ?a (lookup0 recs p))) =
        max 0 (?a + available_of now used p gs - lookup0 recs p)"
    using a available_of_nonneg [of now used p gs] Cons.prems [of p]
    by (auto simp: min_def max_def simp del: available_of_nonneg)
  then show ?case using Cons.IH [OF n] Cons.IH [OF Cons.prems]
    by (auto simp: Let_def case_prod_beta split: option.splits)
qed simp

lemma snapshot_loop_used_cong:
  assumes "\<And>g. g \<in> set gs \<Longrightarrow> grant_available now used g = grant_available now used' g"
  shows "snapshot_loop now used incl recs locks gs = snapshot_loop now used' incl recs locks gs"
  using assms by (induction gs arbitrary: recs locks) (simp_all add: Let_def case_prod_beta split: option.splits)

section \<open>Balances\<close>

lemma lookup_lock_sums:
  "lookup0 (lock_sums u s) p =
     sum_where (\<lambda>f. rf_purchase f = p \<and> (\<exists>q \<in> set (purchases s). pur_id q = p \<and> pur_user q = u) \<and> locking_refund f)
       rf_locked (refunds s)"
  unfolding lock_sums_def lookup0_group_sum sum_where_filter
  by (rule sum_where_cong) (auto simp: list_ex_iff)

lemma lookup_recovery_sums:
  "lookup0 (recovery_sums u s) p =
     sum_where (\<lambda>r. led_user r = u \<and> led_type r = Refund_Recovery \<and> led_purchase r = Some p) led_amount (ledger s)"
  unfolding recovery_sums_def lookup0_group_sum sum_where_filter by (rule sum_where_cong) auto

lemma available_by_kind_empty:
  "available_by_kind (map (empty_purchase p) snaps) K =
   available_by_kind snaps K - sum_where (\<lambda>x. of_purchase p x \<and> led_kind (fst x) = Some K) snd snaps"
  by (induction snaps) (auto simp: available_by_kind_def empty_purchase_def)

lemma sum_where_sub:
  "sum_where (\<lambda>x. P x \<and> Q x) v xs = sum_where P v (filter Q xs)"
  by simp

lemma balances_of_state:
  "paid_balance (balance_breakdown now u s) =
     available_by_kind (fst (grant_state now u True s)) Paid - snd (grant_state now u True s) + adjustment_sum u Paid s"
  "free_balance (balance_breakdown now u s) =
     available_by_kind (fst (grant_state now u True s)) Free + adjustment_sum u Free s"
  by (simp_all add: balance_breakdown_def Let_def case_prod_beta)

text \<open>The total of a list of sums, read through its lookups.\<close>

lemma total_lookups:
  assumes "distinct (map fst al)" "finite S" "fst ` set al \<subseteq> S"
  shows "total al = (\<Sum>k \<in> S. lookup0 al k)"
  using assms(1,3)
proof (induction al)
  case Nil
  then show ?case by simp
next
  case (Cons x al)
  obtain k v where x: "x = (k, v)" by (cases x)
  have k: "k \<in> S" "k \<notin> fst ` set al" and d: "distinct (map fst al)" "fst ` set al \<subseteq> S"
    using Cons.prems by (auto simp: x)
  have "(\<Sum>j \<in> S. lookup0 ((k, v) # al) j) = v + (\<Sum>j \<in> S - {k}. lookup0 al j)"
    using k assms(2) by (simp add: sum.remove lookup0_Cons) (rule sum.cong; auto simp: lookup0_Cons)
  moreover have "(\<Sum>j \<in> S. lookup0 al j) = (\<Sum>j \<in> S - {k}. lookup0 al j)"
    using k assms(2) by (simp add: sum.remove lookup0_notin)
  ultimately show ?case using Cons.IH [OF d] by (simp add: x)
qed

lemma sum_where_update_one:
  assumes "distinct (map k xs)" "x \<in> set xs"
  shows "sum_where P v (update_where (\<lambda>y. k y = k x) g xs) =
    sum_where P v xs - (if P x then v x else 0) + (if P (g x) then v (g x) else (0 :: int))"
  using assms
proof (induction xs)
  case (Cons y xs)
  show ?case
  proof (cases "y = x")
    case True
    with Cons.prems have "update_where (\<lambda>y. k y = k x) g xs = xs"
      by (intro update_where_id) (metis distinct.simps(2) image_eqI list.set_map list.simps(9))
    with True show ?thesis by simp
  next
    case False
    with Cons have "k y \<noteq> k x" by auto
    with Cons False show ?thesis by simp
  qed
qed simp

text \<open>
  Turning a lock of \<open>n\<close> credits of a purchase into a recovery of \<open>n\<close>: nothing changes as long as the
  grants of the purchase still hold \<open>n\<close> credits.
\<close>

lemma lock_to_recovery:
  assumes ok: "ledger_ok s" and ok': "ledger_ok s'"
    and gs: "grant_rows u s' = grant_rows u s"
    and used: "\<And>g. g \<in> set (grant_rows u s) \<Longrightarrow> lookup0 (usage_sums u s') (led_id g) = lookup0 (usage_sums u s) (led_id g)"
    and recs: "\<And>q. lookup0 (recovery_sums u s') q = lookup0 (recovery_sums u s) q + (if q = p then n else 0)"
    and locks: "\<And>q. lookup0 (lock_sums u s') q = lookup0 (lock_sums u s) q - (if q = p then n else 0)"
    and n: "0 \<le> n" "n \<le> sum_where (of_purchase p) snd (fst (grant_state now u False s))"
  shows "grant_state now u True s' = grant_state now u True s"
proof -
  let ?U = "usage_sums u s" and ?R = "recovery_sums u s" and ?R' = "recovery_sums u s'" and ?G = "grant_rows u s"
  let ?L = "lock_sums u s" and ?L' = "lock_sums u s'"
  have loop: "snapshot_loop now (usage_sums u s') True ?R' ?L' ?G = snapshot_loop now ?U True ?R' ?L' ?G"
    using used by (intro snapshot_loop_used_cong) (simp add: grant_available_def)
  have snaps: "fst (snapshot_loop now ?U True ?R' ?L' ?G) = fst (snapshot_loop now ?U True ?R ?L ?G)"
  proof (rule snapshot_loop_sums)
    show "lookup0 ?R' q + lookup0 ?L' q = lookup0 ?R q + lookup0 ?L q" for q by (simp add: recs locks)
  qed (rule sums_nonneg [OF ok] sums_nonneg [OF ok'])+
  let ?F = "snd (snapshot_loop now ?U True ?R ?L ?G)" and ?F' = "snd (snapshot_loop now ?U True ?R' ?L' ?G)"
  have left: "lookup0 ?F' q = lookup0 ?F q" for q
  proof (cases "q = p \<and> 0 < n")
    case False
    then have "lookup0 ?R' q = lookup0 ?R q" using recs [of q] n(1) by auto
    then show ?thesis by (simp add: snapshot_loop_left sums_nonneg [OF ok] sums_nonneg [OF ok'])
  next
    case True
    have "n \<le> max 0 (available_of now ?U p ?G - lookup0 ?R p)"
      using n(2) by (simp add: grant_state_def case_prod_beta snapshot_loop_purchase_sum [OF sums_nonneg(1) [OF ok]])
    with True have "lookup0 ?R p + n \<le> available_of now ?U p ?G" by (simp add: max_def split: if_splits)
    with True recs [of p] show ?thesis
      by (simp add: snapshot_loop_left sums_nonneg [OF ok] sums_nonneg [OF ok'])
  qed
  let ?S = "fst ` set ?F \<union> fst ` set ?F'"
  have "Prelude.total ?F' = (\<Sum>k \<in> ?S. lookup0 ?F' k)" "Prelude.total ?F = (\<Sum>k \<in> ?S. lookup0 ?F k)"
    by (rule total_lookups; simp add: snapshot_loop_recs_distinct recovery_sums_def)+
  then have "Prelude.total ?F' = Prelude.total ?F" by (simp add: left)
  then show ?thesis using snaps loop by (simp add: grant_state_def case_prod_beta gs)
qed

section \<open>Inversion of the request\<close>

lemma refund_quote_elim:
  assumes "refund_quote_with_client e now u p s = Inr quote"
  obtains q y where "q \<in> set (purchases s)" "pur_id q = p" "pur_user q = u" "payment_of p s = Some y"
    "pay_channel y = Web" "active_reservations now u s = []"
    "quote = quote_of now q y (if pay_provider y = ''polar'' then pay_net y else pay_amount y) s"
proof -
  obtain q pay where q: "find (\<lambda>q. pur_id q = p \<and> pur_user q = u) (purchases s) = Some q"
    "pay = payment_of (pur_id q) s"
    using assms by (auto simp: refund_quote_with_client_def find_purchase_def bindR_Inr_iff require_some_Inr_iff)
  have qq: "q \<in> set (purchases s)" "pur_id q = p" "pur_user q = u" using find_in_set [OF q(1)] by simp_all
  note eq = assms [unfolded refund_quote_with_client_def find_purchase_def q(1), simplified]
  obtain y where y: "payment_of (pur_id q) s = Some y" "pay_channel y = Web"
    using eq by (auto split: option.splits if_splits)
  have r: "active_reservations now u s = []"
    "quote = quote_of now q y (if pay_provider y = ''polar'' then pay_net y else pay_amount y) s"
    using eq y by (auto simp: bindR_Inr_iff ensure_Inr_iff Let_def)
  from y qq show ?thesis by (intro that [OF qq _ y(2) r]) simp
qed

definition requested_refund :: "time \<Rightarrow> uid \<Rightarrow> uid \<Rightarrow> string \<Rightarrow> refund_quote \<Rightarrow> refund_row" where
  "requested_refund now i p key quote =
     \<lparr>rf_id = i, rf_purchase = p, rf_status = Rf_Payment_Processing,
      rf_reason = ''user_request'', rf_key = key, rf_credits = rq_refundable quote,
      rf_promotion = rq_promotion_recovery quote,
      rf_locked = rq_refundable quote + rq_remaining_promotion quote,
      rf_recovery = rq_refundable quote + rq_promotion_recovery quote, rf_debt = 0,
      rf_gross = rq_gross quote, rf_fee = rq_fee quote, rf_refund = rq_refund quote,
      rf_currency = rq_currency quote, rf_provider_refund = None, rf_provider_tx = None,
      rf_completed = None, rf_created = now, rf_provider = rq_provider quote,
      rf_free_promotion = rq_free_promotion_recovery quote\<rparr>"

lemma refund_prepare_elim:
  assumes "refund_prepare e now fr u p key s = Inr ((view, is_new), s')"
  obtains (again) "find_refund_with_purchase (\<lambda>f. rf_purchase f = p \<and> rf_key f = key) s = Some view"
      "\<not> is_new" "s' = s"
  | (new) quote where "find_refund_with_purchase (\<lambda>f. rf_purchase f = p \<and> rf_key f = key) s = None"
      "refund_quote_with_client e now u p s = Inr quote" "rq_eligible quote" "is_new"
      "fst view = requested_refund now (fr_refund fr) p key quote"
      "fr_refund fr \<notin> rf_id ` set (refunds s)"
      "s' = s\<lparr>refunds := refunds s @ [requested_refund now (fr_refund fr) p key quote]\<rparr>"
      "find_purchase (\<lambda>q. pur_id q = p) s = Some (snd view)"
proof (cases "find_refund_with_purchase (\<lambda>f. rf_purchase f = p \<and> rf_key f = key) s")
  case (Some v)
  with assms show ?thesis
    by (intro again) (auto simp: refund_prepare_def bindR_Inr_iff split: prod.splits)
next
  case None
  from assms None obtain quote f q pay where q: "refund_quote_with_client e now u p s = Inr quote" "rq_eligible quote"
    "is_new" "ins_refund (requested_refund now (fr_refund fr) p key quote) s = Inr (f, s')"
    "find_purchase (\<lambda>q. pur_id q = p) s' = Some (q, pay)" "view = (f, q, pay)"
    by (auto simp: refund_prepare_def requested_refund_def bindR_Inr_iff ensure_Inr_iff require_purchase_def
        require_some_Inr_iff)
  have f: "f = requested_refund now (fr_refund fr) p key quote" and fresh: "fr_refund fr \<notin> rf_id ` set (refunds s)"
    and s': "s' = s\<lparr>refunds := refunds s @ [requested_refund now (fr_refund fr) p key quote]\<rparr>"
    using q(4) unfolding ins_refund_Inr_iff by (simp_all add: requested_refund_def)
  have "find_purchase (\<lambda>q. pur_id q = p) s = Some (q, pay)"
    using q(5) by (simp add: find_purchase_def s' payment_of_def)
  with None q f fresh s' show ?thesis by (intro new [of quote]) simp_all
qed

end
