(* ===== verification/Purchase_Props.thy ===== *)
theory Purchase_Props
  imports Purchase_Locks Credits_Props
begin

text \<open>
  What a refund requested by the user promises: the amount quoted, the lock on the credits, the
  completion, and the ways a request can go wrong.
\<close>

section \<open>The quote\<close>

lemma remaining_le_original:
  assumes "ledger_ok s"
  shows "0 \<le> rq_remaining (quote_of now q y a s)" "rq_remaining (quote_of now q y a s) \<le> rq_original (quote_of now q y a s)"
  using purchase_snapshot_bounds [OF assms, of now "pur_user q" "pur_id q"]
  by (auto simp: quote_of_def Let_def)

lemma quote_eligible:
  assumes "rq_eligible (quote_of now q y a s)"
  shows "0 < rq_original (quote_of now q y a s)"
    and "snap_locked (purchase_credit_snapshot now (pur_user q) (pur_id q) s) = 0"
    and "rq_original (quote_of now q y a s) \<le> 2 * rq_remaining (quote_of now q y a s)"
    and "pur_status q = Pur_Completed"
  using assms unfolding quote_of_def Let_def refund_quote.simps by auto

lemma quote_gross:
  "rq_gross (quote_of now q y (Some a) s) =
     (if rq_eligible (quote_of now q y (Some a) s) \<and> a \<noteq> 0
      then refund_gross a (rq_remaining (quote_of now q y (Some a) s)) (rq_original (quote_of now q y (Some a) s)) else 0)"
  unfolding quote_of_def Let_def refund_quote.simps option.simps ..

lemma quote_fee:
  "rq_fee (quote_of now q y a s) = refund_fee (rq_gross (quote_of now q y a s))"
  "rq_refund (quote_of now q y a s) = rq_gross (quote_of now q y a s) - rq_fee (quote_of now q y a s)"
  unfolding quote_of_def Let_def refund_quote.simps by (rule refl)+

lemma twentieth: "0 \<le> (g :: int) \<Longrightarrow> 0 \<le> g div 20 \<and> g div 20 \<le> g"
  by presburger

lemma quote_amounts:
  assumes ok: "ledger_ok s" and el: "rq_eligible (quote_of now q y (Some a) s)"
    and a: "0 \<le> a" "a < 2 ^ 40" "a * rq_remaining (quote_of now q y (Some a) s) < 2 ^ 53"
  defines "quote \<equiv> quote_of now q y (Some a) s"
  shows "rq_gross quote = a * rq_remaining quote div rq_original quote"
    and "rq_fee quote = rq_gross quote div 20" and "rq_refund quote = rq_gross quote - rq_fee quote"
    and "0 \<le> rq_refund quote" "rq_refund quote \<le> a" "0 < rq_original quote"
proof -
  let ?r = "rq_remaining quote" and ?o = "rq_original quote"
  note b = remaining_le_original [OF ok, of now q y "Some a", folded quote_def]
  have o: "0 < ?o" using quote_eligible(1) [OF el] by (simp add: quote_def)
  have ar: "0 \<le> a * ?r" "a * ?r < 2 ^ 53" using a b by (simp_all add: quote_def)
  have g: "rq_gross quote = (if a = 0 then 0 else refund_gross a ?r ?o)"
    using el by (simp add: quote_def quote_gross)
  have "refund_gross a ?r ?o = a * ?r div ?o"
    unfolding refund_gross_def js_mul_exact [OF ar] by (rule js_floor_div [OF ar o])
  with g show gross: "rq_gross quote = a * ?r div ?o" by auto
  have "a * ?r \<le> a * ?o" using a b by (simp add: mult_left_mono)
  then have "a * ?r div ?o \<le> a * ?o div ?o" using o by (intro zdiv_mono1) simp_all
  then have le: "rq_gross quote \<le> a" using o gross by simp
  have pos: "0 \<le> rq_gross quote" using ar o gross by (simp add: pos_imp_zdiv_nonneg_iff)
  have fee: "rq_fee quote = refund_fee (rq_gross quote)" unfolding quote_def by (rule quote_fee)
  have lt: "rq_gross quote < 2 ^ 40" using le a(2) by (rule order.strict_trans1)
  show f: "rq_fee quote = rq_gross quote div 20"
    unfolding fee refund_fee_def by (rule js_floor_five_percent [OF pos lt])
  show r: "rq_refund quote = rq_gross quote - rq_fee quote" unfolding quote_def by (rule quote_fee)
  show "0 \<le> rq_refund quote" "rq_refund quote \<le> a" unfolding r f using twentieth [OF pos] le by linarith+
  show "0 < ?o" by (rule o)
qed

section \<open>The lock\<close>

lemma split_purchase_grants:
  fixes xs :: "snapshot list" and p :: uid
  defines "grants \<equiv> filter (\<lambda>(g, a). led_purchase g = Some p) xs"
  shows "sum_where (\<lambda>x. of_purchase p x \<and> led_kind (fst x) = Some Paid) snd xs =
      sum_where (\<lambda>(g, a). led_kind g = Some Paid \<and> \<not> truthy (led_promo g)) snd grants +
      sum_where (\<lambda>(g, a). led_kind g = Some Paid \<and> truthy (led_promo g)) snd grants"
    and "\<forall>x \<in> set xs. of_purchase p x \<longrightarrow> led_kind (fst x) = Some Paid \<or> led_kind (fst x) = Some Free \<and> truthy (led_promo (fst x)) \<Longrightarrow>
      sum_where (of_purchase p) snd xs =
      sum_where (\<lambda>(g, a). led_kind g = Some Paid \<and> \<not> truthy (led_promo g)) snd grants +
      sum_where (\<lambda>(g, a). truthy (led_promo g)) snd grants"
    and "\<forall>x \<in> set xs. of_purchase p x \<longrightarrow> led_kind (fst x) = Some Paid \<or> led_kind (fst x) = Some Free \<and> truthy (led_promo (fst x)) \<Longrightarrow>
      sum_where (\<lambda>x. of_purchase p x \<and> led_kind (fst x) = Some Free) snd xs =
      sum_where (\<lambda>(g, a). truthy (led_promo g)) snd grants -
      sum_where (\<lambda>(g, a). led_kind g = Some Paid \<and> truthy (led_promo g)) snd grants"
  unfolding grants_def by (induction xs) (auto split: if_splits)

text \<open>The only grants of a purchase are the paid credits it bought and its promotions.\<close>

definition purchase_grants_typed :: "uid \<Rightarrow> db \<Rightarrow> bool" where
  "purchase_grants_typed p s \<longleftrightarrow>
     (\<forall>g \<in> set (ledger s). led_type g = Grant \<and> led_purchase g = Some p \<longrightarrow>
        led_kind g = Some Paid \<or> led_kind g = Some Free \<and> truthy (led_promo g))"

lemma typed_snapshots:
  assumes "ledger_ok s" "purchase_grants_typed p s"
  shows "\<forall>x \<in> set (fst (grant_state now u incl s)). of_purchase p x \<longrightarrow>
    led_kind (fst x) = Some Paid \<or> led_kind (fst x) = Some Free \<and> truthy (led_promo (fst x))"
proof (intro ballI impI)
  fix x assume x: "x \<in> set (fst (grant_state now u incl s))" "of_purchase p x"
  then have "(fst x, snd x) \<in> set (fst (grant_state now u incl s))" by simp
  from grant_state_snapshot(1,3) [OF assms(1) this] x(2) assms(2)
  show "led_kind (fst x) = Some Paid \<or> led_kind (fst x) = Some Free \<and> truthy (led_promo (fst x))"
    unfolding purchase_grants_typed_def by blast
qed

lemma grant_state_unlocked:
  assumes "ledger_ok s" "lookup0 (lock_sums u s) p = 0"
  shows "sum_where (\<lambda>x. of_purchase p x \<and> Q x) v (fst (grant_state now u True s)) =
    sum_where (\<lambda>x. of_purchase p x \<and> Q x) v (fst (grant_state now u False s))"
proof -
  have "filter (of_purchase p) (fst (grant_state now u True s)) = filter (of_purchase p) (fst (grant_state now u False s))"
    unfolding grant_state_def case_prod_beta Let_def fst_conv
    by (rule snapshot_loop_unlocked [OF assms(2) sums_nonneg(1) [OF assms(1)]])
  from this have "sum_where Q v (filter (of_purchase p) (fst (grant_state now u True s))) =
    sum_where Q v (filter (of_purchase p) (fst (grant_state now u False s)))" by (rule arg_cong)
  then show ?thesis by (simp add: conj_commute)
qed

lemma refund_lock_effect:
  assumes ok: "ledger_ok s" and typed: "purchase_grants_typed p s"
    and req: "refund_prepare e now fr u p key s = Inr ((view, True), s')"
  defines "snap \<equiv> purchase_credit_snapshot now u p s"
  shows "paid_balance (balance_breakdown now u s') =
      paid_balance (balance_breakdown now u s) - (remaining_paid snap + remaining_paid_promotion snap)"
    and "free_balance (balance_breakdown now u s') =
      free_balance (balance_breakdown now u s) - (remaining_promotion snap - remaining_paid_promotion snap)"
    and "rf_locked (fst view) = remaining_paid snap + remaining_promotion snap"
    and "rf_recovery (fst view) = rf_locked (fst view)"
    and "rf_status (fst view) = Rf_Payment_Processing" "rf_debt (fst view) = 0"
proof -
  from req obtain quote where q: "refund_quote_with_client e now u p s = Inr quote" "rq_eligible quote"
    "fst view = requested_refund now (fr_refund fr) p key quote"
    "s' = s\<lparr>refunds := refunds s @ [requested_refund now (fr_refund fr) p key quote]\<rparr>"
    by (cases rule: refund_prepare_elim) auto
  obtain pq y where y: "pq \<in> set (purchases s)" "pur_id pq = p" "pur_user pq = u"
    and quote: "quote = quote_of now pq y (if pay_provider y = ''polar'' then pay_net y else pay_amount y) s"
    using refund_quote_elim [OF q(1)] by metis
  let ?f = "requested_refund now (fr_refund fr) p key quote"
  have locked0: "snap_locked snap = 0" using quote_eligible(2) q(2) quote y unfolding snap_def by blast
  have amounts: "rq_refundable quote = remaining_paid snap" "rq_remaining_promotion quote = remaining_promotion snap"
    "rq_promotion_recovery quote = remaining_promotion snap"
    using locked0 y by (simp_all add: quote quote_of_def Let_def snap_def)
  then show f: "rf_locked (fst view) = remaining_paid snap + remaining_promotion snap"
    "rf_recovery (fst view) = rf_locked (fst view)" "rf_status (fst view) = Rf_Payment_Processing"
    "rf_debt (fst view) = 0"
    by (simp_all add: q(3) requested_refund_def)
  have own: "\<exists>x \<in> set (purchases s). pur_id x = p \<and> pur_user x = u" using y by blast
  have l0: "lookup0 (lock_sums u s) p = 0"
    using locked0 own by (simp add: lookup_lock_sums snap_def purchase_credit_snapshot_def Let_def)
  have l1: "lookup0 (lock_sums u s') r = lookup0 (lock_sums u s) r +
      (if r = p then remaining_paid snap + remaining_promotion snap else 0)" for r
    using own amounts by (simp add: q(4) lookup_lock_sums requested_refund_def locking_refund_def)
  let ?T = "fst (grant_state now u True s)"
  have whole: "sum_where (of_purchase p) snd ?T = remaining_paid snap + remaining_promotion snap"
  proof -
    have "sum_where (of_purchase p) snd ?T = sum_where (of_purchase p) snd (fst (grant_state now u False s))"
      using grant_state_unlocked [OF ok l0, of "\<lambda>x. True"] by simp
    also have "\<dots> = remaining_paid snap + remaining_promotion snap"
      unfolding split_purchase_grants(2) [OF typed_snapshots [OF ok typed]]
      by (simp only: snap_def purchase_credit_snapshot_def Let_def purchase_snapshot.simps)
    finally show ?thesis .
  qed
  have sums: "usage_sums u s' = usage_sums u s" "recovery_sums u s' = recovery_sums u s"
    "grant_rows u s' = grant_rows u s" "adjustment_sum u K s' = adjustment_sum u K s" for K
    by (simp_all add: q(4) usage_sums_def recovery_sums_def grant_rows_def adjustment_sum_def)
  have state: "fst (grant_state now u True s') = map (empty_purchase p) ?T"
    "snd (grant_state now u True s') = snd (grant_state now u True s)"
    unfolding grant_state_def case_prod_beta Let_def fst_conv snd_conv sums
    using snapshot_loop_lock_all [OF sums_nonneg [OF ok] l0, of "lock_sums u s'" now "usage_sums u s" u "grant_rows u s"]
      whole l0 l1
    by (auto simp: grant_state_def case_prod_beta Let_def intro!: arg_cong [where f = Prelude.total] snapshot_loop_recs_only)
  note part = grant_state_unlocked [OF ok l0, of "\<lambda>x. led_kind (fst x) = Some K" for K]
  show "paid_balance (balance_breakdown now u s') =
      paid_balance (balance_breakdown now u s) - (remaining_paid snap + remaining_paid_promotion snap)"
    unfolding balances_of_state state sums available_by_kind_empty part split_purchase_grants(1)
    by (simp add: snap_def purchase_credit_snapshot_def Let_def)
  show "free_balance (balance_breakdown now u s') =
      free_balance (balance_breakdown now u s) - (remaining_promotion snap - remaining_paid_promotion snap)"
    unfolding balances_of_state state sums available_by_kind_empty part
      split_purchase_grants(3) [OF typed_snapshots [OF ok typed]]
    by (simp add: snap_def purchase_credit_snapshot_def Let_def)
qed

text \<open>C6: A refund request takes exactly what is left of the purchase out of the balances: its paid
  credits out of the paid balance, its free promotion credits out of the free balance. What the
  refund row locks is what completing it recovers, and no debt arises.
\<close>

theorem refund_locks:
  assumes "ledger_ok s" "purchase_grants_typed p s"
    and "refund_prepare e now fr u p key s = Inr ((view, True), s')"
    and "snap = purchase_credit_snapshot now u p s"
  shows "paid_balance (balance_breakdown now u s') =
           paid_balance (balance_breakdown now u s) - (remaining_paid snap + remaining_paid_promotion snap) \<and>
         free_balance (balance_breakdown now u s') =
           free_balance (balance_breakdown now u s) - (remaining_promotion snap - remaining_paid_promotion snap) \<and>
         rf_locked (fst view) = remaining_paid snap + remaining_promotion snap \<and>
         rf_recovery (fst view) = rf_locked (fst view) \<and>
         rf_status (fst view) = Rf_Payment_Processing \<and> rf_debt (fst view) = 0"
  using refund_lock_effect [OF assms(1-3)] assms(4) by blast

section \<open>The completion\<close>

lemma completion_lookups:
  assumes ok: "ledger_ok s" and d: "distinct (map rf_id (refunds s))"
    and run: "complete_refund_with_client e now fr i event s = Inr (f', s')"
    and f: "find_refund_with_purchase (\<lambda>f. rf_id f = i) s = Some (f, q, pay)" and l: "locking_refund f"
  defines "u \<equiv> pur_user q"
  shows "grant_rows u s' = grant_rows u s" "adjustment_sum u K s' = adjustment_sum u K s"
    and "g \<in> set (grant_rows u s) \<Longrightarrow> lookup0 (usage_sums u s') (led_id g) = lookup0 (usage_sums u s) (led_id g)"
    and "lookup0 (recovery_sums u s') r = lookup0 (recovery_sums u s) r + (if r = rf_purchase f then rf_recovery f else 0)"
    and "lookup0 (lock_sums u s') r = lookup0 (lock_sums u s) r - (if r = rf_purchase f then rf_locked f else 0)"
proof -
  note ff = find_refund_Some [OF f]
  let ?t = "refund_time event now"
  let ?rec = "recovery_entry (fr_recovery fr) now u (rf_purchase f) (rf_recovery f) (rf_id f) ''user refund''"
  have nc: "rf_status f \<noteq> Rf_Completed" using l by (auto simp: locking_refund_def)
  have run': "ledger s' = ledger s @ [?rec]" "usages s' = usages s"
    "refunds s' = update_where (\<lambda>x. rf_id x = rf_id f) (refund_done event ?t) (refunds s)"
    "purchases s' = purchases (set_purchase_status now Pur_Refunded (rf_purchase f) s)"
    using run by (cases rule: complete_refund_elim; use f nc in \<open>simp add: u_def\<close>)+
  show "grant_rows u s' = grant_rows u s" by (simp add: grant_rows_def run' recovery_entry_def)
  show "adjustment_sum u K s' = adjustment_sum u K s" by (simp add: adjustment_sum_def run' recovery_entry_def)
  show "lookup0 (usage_sums u s') (led_id g) = lookup0 (usage_sums u s) (led_id g)" if "g \<in> set (grant_rows u s)"
  proof -
    have g: "g \<in> set (ledger s)" "led_user g = u" "g \<in> set (ledger s')" using that by (simp_all add: run')
    show ?thesis using lookup_usage_sums [OF g(1,2)] lookup_usage_sums [OF g(3,2)] by (simp add: used_of_def run')
  qed
  show "lookup0 (recovery_sums u s') r = lookup0 (recovery_sums u s) r + (if r = rf_purchase f then rf_recovery f else 0)"
    by (simp add: lookup_recovery_sums run' recovery_entry_def)
  have pairs: "(\<exists>x \<in> set xs. pur_id x = r \<and> pur_user x = u) \<longleftrightarrow> (r, u) \<in> set (map (\<lambda>x. (pur_id x, pur_user x)) xs)"
    for xs r by force
  have own: "(\<exists>x \<in> set (purchases s'). pur_id x = r \<and> pur_user x = u) \<longleftrightarrow>
      (\<exists>x \<in> set (purchases s). pur_id x = r \<and> pur_user x = u)" for r
    unfolding pairs by (simp add: run' set_purchase_status_def del: set_map)
  have "q \<in> set (purchases s) \<and> pur_id q = rf_purchase f \<and> pur_user q = u" using ff by (simp add: u_def)
  then show "lookup0 (lock_sums u s') r = lookup0 (lock_sums u s) r - (if r = rf_purchase f then rf_locked f else 0)"
    unfolding lookup_lock_sums own run'(3) sum_where_update_one [OF d ff(1)]
    using l by (auto simp: refund_done_def locking_refund_def)
qed

text \<open>Completing a refund changes no balance when the credits it recovers are still there: the
  recovery entry takes the place of the lock. (The lock was taken out of the balances when the refund
  was requested.)
\<close>

theorem completion_neutral:
  assumes "ledger_ok s" "distinct (map rf_id (refunds s))"
    and "complete_refund_with_client e now fr i event s = Inr (f', s')"
    and "find_refund_with_purchase (\<lambda>f. rf_id f = i) s = Some (f, q, pay)" "locking_refund f"
    and "rf_recovery f = rf_locked f" "purchase_grants_typed (rf_purchase f) s"
    and "snap = purchase_credit_snapshot now (pur_user q) (rf_purchase f) s"
    and "rf_recovery f \<le> remaining_paid snap + remaining_promotion snap"
  shows "paid_balance (balance_breakdown now (pur_user q) s') = paid_balance (balance_breakdown now (pur_user q) s) \<and>
         free_balance (balance_breakdown now (pur_user q) s') = free_balance (balance_breakdown now (pur_user q) s)"
proof -
  note c = completion_lookups [OF assms(1-5)]
  have "remaining_paid snap + remaining_promotion snap =
      sum_where (of_purchase (rf_purchase f)) snd (fst (grant_state now (pur_user q) False s))"
    unfolding split_purchase_grants(2) [OF typed_snapshots [OF assms(1,7)]] assms(8)
    by (simp only: purchase_credit_snapshot_def Let_def purchase_snapshot.simps)
  then have n: "rf_recovery f \<le> sum_where (of_purchase (rf_purchase f)) snd (fst (grant_state now (pur_user q) False s))"
    using assms(9) by simp
  have n0: "0 \<le> rf_recovery f"
    using ledger_okD(7) [OF assms(1) find_refund_Some(1) [OF assms(4)]] by simp
  have "grant_state now (pur_user q) True s' = grant_state now (pur_user q) True s"
    by (rule lock_to_recovery [OF assms(1) complete_refund_ok [OF assms(1,3)] c(1) c(3) c(4) _ n0 n])
      (simp_all add: c(5) assms(6))
  then show ?thesis by (simp add: balances_of_state c(2))
qed

text \<open>C7: The quote of an eligible refund is exact. With \<open>a\<close> the amount paid, the gross refund is the
  floor of \<open>a\<close> times the remaining credits over the original credits, the fee is a twentieth rounded
  down, and what is refunded is not negative and never exceeds \<open>a\<close>, although the service computes with
  doubles. The product must stay below \<open>2 ^ 53\<close>, which the catalogue's prices do by far.
\<close>

theorem refund_quote_exact:
  assumes "ledger_ok s" "refund_quote_with_client e now u p s = Inr quote" "rq_eligible quote"
    and "payment_of p s = Some y" "(if pay_provider y = ''polar'' then pay_net y else pay_amount y) = Some a"
    and "0 \<le> a" "int4 a" "a * rq_remaining quote < 2 ^ 53"
  shows "rq_gross quote = a * rq_remaining quote div rq_original quote \<and>
         rq_fee quote = rq_gross quote div 20 \<and> rq_refund quote = rq_gross quote - rq_fee quote \<and>
         0 \<le> rq_refund quote \<and> rq_refund quote \<le> a \<and>
         rq_remaining quote \<le> rq_original quote \<and> rq_original quote \<le> 2 * rq_remaining quote"
proof -
  obtain q where q: "quote = quote_of now q y (Some a) s"
  proof -
    from assms(2) obtain q y' where "payment_of p s = Some y'"
      "quote = quote_of now q y' (if pay_provider y' = ''polar'' then pay_net y' else pay_amount y') s"
      by (rule refund_quote_elim)
    moreover from this(1) assms(4) have "y' = y" by simp
    ultimately show ?thesis using assms(5) by (intro that [of q]) (simp only:)
  qed
  have a: "a < 2 ^ 40" using assms(7) by (simp add: int4_def)
  note b = quote_amounts [OF assms(1) assms(3) [unfolded q] assms(6) a assms(8) [unfolded q]]
  show ?thesis
    using b remaining_le_original(2) [OF assms(1), of now q y "Some a"] quote_eligible(3) [OF assms(3) [unfolded q]]
    unfolding q by blast
qed

section \<open>A purchase with a promotion\<close>

text \<open>Ten paid credits of which four are used, and two free promotion credits.\<close>

definition demo_env :: env where
  "demo_env = \<lparr>node_env = None, polar_server = None, polar_secret = None, apple_env = None,
     google_package = None, account_secret = None, web_app_url = None, sha256_hex = (\<lambda>x. ''hash of '' @ x)\<rparr>"

definition demo_payment :: "uid \<Rightarrow> uid \<Rightarrow> payment_status \<Rightarrow> payment_row" where
  "demo_payment i p st = \<lparr>pay_id = i, pay_purchase = p, pay_channel = Web, pay_provider = ''local'', pay_status = st,
     pay_amount = Some 1000, pay_currency = Some ''KRW'', pay_checkout_id = Some p, pay_checkout_url = None,
     pay_tx_id = (if st = Pay_Paid then Some ''tx'' else None), pay_tx_key = None, pay_provider_product = ''product'',
     pay_environment = Some ''development'', pay_paid_at = None, pay_refunded_at = None, pay_created = 0,
     pay_updated = 0, pay_net = None, pay_tax = None\<rparr>"

definition demo_usage_entry :: "uid \<Rightarrow> uid \<Rightarrow> int \<Rightarrow> ledger_row" where
  "demo_usage_entry i u n = \<lparr>led_id = i, led_user = u, led_type = Usage, led_kind = None, led_purchase = None,
     led_promo = None, led_amount = n, led_expires = None, led_reason = ''chat'', led_ref = None, led_created = 5\<rparr>"

definition demo_refundable :: db where
  "demo_refundable = empty_db\<lparr>users := [demo_user ''ana'', demo_user ''bob''],
     ledger := [demo_grant ''g1'' ''ana'' Paid (Some ''p1'') 10 None, demo_usage_entry ''u1'' ''ana'' 4,
       (demo_grant ''g2'' ''ana'' Free (Some ''p1'') 2 (Some 900))\<lparr>led_promo := Some ''welcome''\<rparr>],
     usages := [\<lparr>use_usage = ''u1'', use_grant = ''g1'', use_amount = 4\<rparr>],
     purchases := [demo_purchase ''p1'' ''ana'' 10], payments := [demo_payment ''y1'' ''p1'' Pay_Paid]\<rparr>"

lemma demo_refundable_ok: "ledger_ok demo_refundable" "purchase_grants_typed ''p1'' demo_refundable" by code_simp+

definition demo_fresh :: fresh where
  "demo_fresh = \<lparr>fr_event = ''e1'', fr_grant = ''gr1'', fr_note = ''n1'', fr_recovery = ''rc1'', fr_entry = ''en1'',
     fr_refund = ''rf1'', fr_recovery2 = ''rc2'', fr_entry2 = ''en2''\<rparr>"

abbreviation demo_p1 :: purchase_row where "demo_p1 \<equiv> demo_purchase ''p1'' ''ana'' 10"
abbreviation demo_y1 :: payment_row where "demo_y1 \<equiv> demo_payment ''y1'' ''p1'' Pay_Paid"

lemma demo_snapshot:
  "purchase_credit_snapshot 100 ''ana'' ''p1'' demo_refundable =
     \<lparr>original_paid = 10, original_promotion = 2, original_paid_promotion = 0, remaining_paid = 6,
      remaining_promotion = 2, remaining_paid_promotion = 0, snap_locked = 0\<rparr>"
  "balance_breakdown 100 ''ana'' demo_refundable = \<lparr>paid_balance = 6, free_balance = 2, available_balance = 8\<rparr>"
  by code_simp+

definition demo_quote :: refund_quote where
  "demo_quote = \<lparr>rq_purchase = ''p1'', rq_provider = ''local'', rq_currency = ''KRW'', rq_original = 10,
     rq_remaining = 6, rq_locked = 0, rq_refundable = 6, rq_minimum = 5, rq_eligible = True, rq_gross = 600,
     rq_fee = 30, rq_refund = 570, rq_balance_after = 0, rq_remaining_promotion = 2, rq_promotion_recovery = 2,
     rq_free_promotion_recovery = 2, rq_debt_increase = 0\<rparr>"

lemma demo_quote_amounts: "refund_gross 1000 6 10 = 600" "refund_fee 600 = 30" "js_ceil (js_div (of_int 10) 2) = 5"
proof -
  show "refund_gross 1000 6 10 = 600"
    unfolding refund_gross_def using js_mul_exact [of 1000 6] js_floor_div [of 6000 10] by simp
  show "refund_fee 600 = 30" unfolding refund_fee_def using js_floor_five_percent [of 600] by simp
  show "js_ceil (js_div (of_int 10) 2) = 5" using fl_of_int [of 5] by (simp add: js_ceil_def js_div_def)
qed

lemma demo_quote: "refund_quote_with_client demo_env 100 ''ana'' ''p1'' demo_refundable = Inr demo_quote"
proof -
  have "find_purchase (\<lambda>q. pur_id q = ''p1'' \<and> pur_user q = ''ana'') demo_refundable = Some (demo_p1, Some demo_y1)"
    "assert_payment_environment demo_env demo_y1 None = Inr ()" "active_reservations 100 ''ana'' demo_refundable = []"
    "pay_channel demo_y1 = Web" "pay_provider demo_y1 = ''local''" "pay_amount demo_y1 = Some 1000"
    "pay_currency demo_y1 = Some ''KRW''" "pur_user demo_p1 = ''ana''" "pur_id demo_p1 = ''p1''"
    "pur_status demo_p1 = Pur_Completed"
    by code_simp+
  then show ?thesis
    using demo_quote_amounts
    by (simp add: refund_quote_with_client_def quote_of_def demo_snapshot get_paid_balance_def demo_quote_def Let_def)
qed

theorem refund_quote_exact_witness:
  "refund_quote_with_client demo_env 100 ''ana'' ''p1'' demo_refundable = Inr demo_quote \<and>
   rq_gross demo_quote = 600 \<and> rq_refund demo_quote = 600 - 600 div 20"
proof -
  have "payment_of ''p1'' demo_refundable = Some demo_y1"
    "(if pay_provider demo_y1 = ''polar'' then pay_net demo_y1 else pay_amount demo_y1) = Some 1000" "int4 1000"
    by code_simp+
  from refund_quote_exact [OF demo_refundable_ok(1) demo_quote _ this(1,2) _ this(3)] demo_quote show ?thesis
    by (simp add: demo_quote_def)
qed

definition demo_locked :: db where
  "demo_locked = demo_refundable\<lparr>refunds := [requested_refund 100 ''rf1'' ''p1'' ''key'' demo_quote]\<rparr>"

lemma demo_prepared:
  "refund_prepare demo_env 100 demo_fresh ''ana'' ''p1'' ''key'' demo_refundable =
     Inr (((requested_refund 100 ''rf1'' ''p1'' ''key'' demo_quote, demo_p1, Some demo_y1), True), demo_locked)"
proof -
  have "find_refund_with_purchase (\<lambda>f. rf_purchase f = ''p1'' \<and> rf_key f = ''key'') demo_refundable = None"
    "ins_refund (requested_refund 100 ''rf1'' ''p1'' ''key'' demo_quote) demo_refundable =
       Inr (requested_refund 100 ''rf1'' ''p1'' ''key'' demo_quote, demo_locked)"
    "require_purchase ''p1'' demo_locked = Inr (demo_p1, Some demo_y1)" "fr_refund demo_fresh = ''rf1''"
    "rq_eligible demo_quote"
    by code_simp+
  then show ?thesis by (simp add: refund_prepare_def demo_quote requested_refund_def)
qed

theorem refund_locks_witness:
  "paid_balance (balance_breakdown 100 ''ana'' demo_locked) = 0 \<and>
   free_balance (balance_breakdown 100 ''ana'' demo_locked) = 0"
  using refund_locks [OF demo_refundable_ok demo_prepared refl] by (simp add: demo_snapshot)

text \<open>The same purchase once the provider has returned the money.\<close>

definition demo_returned :: db where
  "demo_returned = demo_refundable\<lparr>refunds := [\<lparr>rf_id = ''rf1'', rf_purchase = ''p1'', rf_status = Rf_Payment_Succeeded,
      rf_reason = ''user_request'', rf_key = ''key'', rf_credits = 6, rf_promotion = 2, rf_locked = 8, rf_recovery = 8,
      rf_debt = 0, rf_gross = 600, rf_fee = 30, rf_refund = 570, rf_currency = ''KRW'', rf_provider_refund = Some ''rf1'',
      rf_provider_tx = None, rf_completed = None, rf_created = 90, rf_provider = ''local'', rf_free_promotion = 2\<rparr>]\<rparr>"

abbreviation demo_completed :: "(refund_row \<times> db) res" where
  "demo_completed \<equiv> complete_refund_with_client demo_env 100 demo_fresh ''rf1'' None demo_returned"

theorem completion_neutral_witness:
  "paid_balance (balance_breakdown 100 ''ana'' (after demo_completed)) = 0 \<and>
   free_balance (balance_breakdown 100 ''ana'' (after demo_completed)) = 0"
proof -
  define f where "f = hd (refunds demo_returned)"
  define q where "q = demo_purchase ''p1'' ''ana'' 10"
  have "ledger_ok demo_returned" "distinct (map rf_id (refunds demo_returned))" "\<not> isl demo_completed"
    "find_refund_with_purchase (\<lambda>f. rf_id f = ''rf1'') demo_returned =
       Some (f, q, Some (demo_payment ''y1'' ''p1'' Pay_Paid))"
    "locking_refund f" "rf_recovery f = rf_locked f" "purchase_grants_typed (rf_purchase f) demo_returned"
    "rf_recovery f \<le> remaining_paid (purchase_credit_snapshot 100 (pur_user q) (rf_purchase f) demo_returned) +
       remaining_promotion (purchase_credit_snapshot 100 (pur_user q) (rf_purchase f) demo_returned)"
    "balance_breakdown 100 (pur_user q) demo_returned = \<lparr>paid_balance = 0, free_balance = 0, available_balance = 0\<rparr>"
    and u: "pur_user q = ''ana''"
    unfolding f_def q_def by code_simp+
  from completion_neutral [OF this(1,2) run_ok [OF this(3)] this(4-7) refl this(8)] this(9) show ?thesis
    by (simp add: u)
qed

section \<open>Requests that go wrong\<close>

lemma find_refund_by_id:
  assumes "find_refund_with_purchase c s = Some (f, q, pay)" "distinct (map rf_id (refunds s))"
  shows "require_refund (rf_id f) s = Inr f"
  using find_unique [OF assms(2) find_refund_Some(1) [OF assms(1)]] by (simp add: require_refund_def)

lemma refund_prepare_again:
  assumes "find_refund_with_purchase (\<lambda>f. rf_purchase f = p \<and> rf_key f = key) s = Some (f, q, pay)"
    and "\<And>y. pay = Some y \<Longrightarrow> assert_payment_environment e y None = Inr ()"
  shows "refund_prepare e now fr u p key s = Inr (((f, q, pay), False), s)"
  using assms by (auto simp: refund_prepare_def split: option.splits)

lemma request_again:
  assumes f: "find_refund_with_purchase (\<lambda>f. rf_purchase f = p \<and> rf_key f = trim key) s = Some (f, q, pay)"
    and key: "trim key \<noteq> []" and env: "\<And>y. pay = Some y \<Longrightarrow> assert_payment_environment e y None = Inr ()"
    and st: "rf_status f \<noteq> Rf_Payment_Succeeded" and d: "distinct (map rf_id (refunds s))"
  shows "request_refund e g now fr u p key s = (Inr f, s)"
proof -
  have "(case pay of None \<Rightarrow> Inr () | Some y \<Rightarrow> assert_payment_environment e y None) = Inr ()"
    using env by (cases pay) auto
  then show ?thesis
    using key st refund_prepare_again [OF f env] find_refund_by_id [OF f d]
    by (simp add: request_refund_def refund_continue_def Let_def)
qed

text \<open>A refund request with the key of an existing refund is answered with that refund and changes
  nothing, whoever asks: the lookup does not look at the user.
\<close>

theorem refund_any_user:
  assumes "find_refund_with_purchase (\<lambda>f. rf_purchase f = p \<and> rf_key f = trim key) s = Some (f, q, Some y)"
    and "trim key \<noteq> []" "assert_payment_environment e y None = Inr ()"
    and "rf_status f \<noteq> Rf_Payment_Succeeded" "distinct (map rf_id (refunds s))"
  shows "request_refund e g now fr anyone p key s = (Inr f, s)"
  using request_again [OF assms(1,2) _ assms(4,5)] assms(3) by simp

theorem refund_any_user_witness:
  "pur_user demo_p1 = ''ana'' \<and>
   (\<forall>g. request_refund demo_env g 200 demo_fresh ''bob'' ''p1'' ''key'' demo_locked =
     (Inr (requested_refund 100 ''rf1'' ''p1'' ''key'' demo_quote), demo_locked))"
proof -
  have "find_refund_with_purchase (\<lambda>f. rf_purchase f = ''p1'' \<and> rf_key f = trim ''key'') demo_locked =
      Some (requested_refund 100 ''rf1'' ''p1'' ''key'' demo_quote, demo_p1, Some demo_y1)"
    "trim ''key'' \<noteq> []" "assert_payment_environment demo_env demo_y1 None = Inr ()"
    "rf_status (requested_refund 100 ''rf1'' ''p1'' ''key'' demo_quote) \<noteq> Rf_Payment_Succeeded"
    "distinct (map rf_id (refunds demo_locked))" "pur_user demo_p1 = ''ana''"
    by code_simp+
  from refund_any_user [OF this(1-5)] this(6) show ?thesis by blast
qed

text \<open>A request for a payment that has no transaction id fails after its refund row is committed: the
  row stays in processing with the credits locked, and asking again under the same key only returns it.
\<close>

theorem refund_stuck:
  assumes "refund_prepare e now fr u p (trim key) s = Inr (((f, q, Some y), True), s')" "trim key \<noteq> []"
    and "\<not> truthy (pay_tx_id y)" "distinct (map rf_id (refunds s))"
  shows "request_refund e g now fr u p key s = (Inl (Conflict ''Payment cannot be refunded''), s') \<and>
         f \<in> set (refunds s') \<and> locking_refund f \<and>
         request_refund e g' now' fr' u p key s' = (Inr f, s')"
  using assms(1)
proof (cases rule: refund_prepare_elim)
  case (new quote)
  obtain y' where y': "payment_of p s = Some y'" "assert_payment_environment e y' None = Inr ()"
    using new(2) by (auto simp: refund_quote_with_client_def find_purchase_def bindR_Inr_iff require_some_Inr_iff
        dest!: find_in_set split: option.splits if_splits)
  have fq: "find_purchase (\<lambda>q. pur_id q = p) s = Some (q, Some y)" using new(8) by simp
  then have "y = y'" using y'(1) by (auto simp: find_purchase_def dest!: find_in_set)
  with y'(2) have env: "assert_payment_environment e y None = Inr ()" by simp
  have f: "f = requested_refund now (fr_refund fr) p (trim key) quote" using new(5) by simp
  have st: "rf_status f = Rf_Payment_Processing" "rf_provider_refund f = None" "rf_purchase f = p" "rf_key f = trim key"
    by (simp_all add: f requested_refund_def)
  have s': "s' = s\<lparr>refunds := refunds s @ [f]\<rparr>" using new(7) by (simp add: f)
  have first: "request_refund e g now fr u p key s = (Inl (Conflict ''Payment cannot be refunded''), s')"
    using assms env st by (simp add: request_refund_def refund_continue_def)
  have has: "has_purchase s' p = has_purchase s p" "has_purchase s p"
    using fq by (auto simp: s' has_purchase_def find_purchase_def dest!: find_in_set)
  have "find_refund_with_purchase (\<lambda>f. rf_purchase f = p \<and> rf_key f = trim key) s' = Some (f, q, Some y)"
  proof -
    have "find (\<lambda>f. (rf_purchase f = p \<and> rf_key f = trim key) \<and> has_purchase s (rf_purchase f)) (refunds s) = None"
      using new(1) fq
      by (force simp: find_refund_with_purchase_def find_purchase_def dest: find_in_set split: option.splits)
    then have "find (\<lambda>f. (rf_purchase f = p \<and> rf_key f = trim key) \<and> has_purchase s' (rf_purchase f)) (refunds s') = Some f"
      using st has by (simp add: s' find_append has_purchase_def)
    then show ?thesis
      using fq st by (simp add: find_refund_with_purchase_def find_purchase_def s' payment_of_def)
  qed
  moreover have "distinct (map rf_id (refunds s'))" using assms(4) new(6) by (simp add: s' f requested_refund_def)
  ultimately have "request_refund e g' now' fr' u p key s' = (Inr f, s')"
    using request_again [of p key s' f q "Some y" e] assms(2) env st by simp
  with first st show ?thesis by (simp add: s' locking_refund_def)
qed simp

text \<open>The same purchase with a payment that carries no transaction id.\<close>

definition demo_untraced :: db where
  "demo_untraced = demo_refundable\<lparr>payments := [demo_y1\<lparr>pay_tx_id := None\<rparr>]\<rparr>"

lemma demo_untraced_prepared:
  "refund_prepare demo_env 100 demo_fresh ''ana'' ''p1'' ''key'' demo_untraced =
     Inr (((requested_refund 100 ''rf1'' ''p1'' ''key'' demo_quote, demo_p1, Some (demo_y1\<lparr>pay_tx_id := None\<rparr>)), True),
          demo_untraced\<lparr>refunds := [requested_refund 100 ''rf1'' ''p1'' ''key'' demo_quote]\<rparr>)"
proof -
  let ?y = "demo_y1\<lparr>pay_tx_id := None\<rparr>"
  have snap: "purchase_credit_snapshot 100 ''ana'' ''p1'' demo_untraced =
     \<lparr>original_paid = 10, original_promotion = 2, original_paid_promotion = 0, remaining_paid = 6,
      remaining_promotion = 2, remaining_paid_promotion = 0, snap_locked = 0\<rparr>"
    "balance_breakdown 100 ''ana'' demo_untraced = \<lparr>paid_balance = 6, free_balance = 2, available_balance = 8\<rparr>"
    by code_simp+
  have "find_purchase (\<lambda>q. pur_id q = ''p1'' \<and> pur_user q = ''ana'') demo_untraced = Some (demo_p1, Some ?y)"
    "assert_payment_environment demo_env ?y None = Inr ()" "active_reservations 100 ''ana'' demo_untraced = []"
    "pay_channel ?y = Web" "pay_provider ?y = ''local''" "pay_amount ?y = Some 1000"
    "pay_currency ?y = Some ''KRW''" "pur_user demo_p1 = ''ana''" "pur_id demo_p1 = ''p1''"
    "pur_status demo_p1 = Pur_Completed"
    by code_simp+
  then have quote: "refund_quote_with_client demo_env 100 ''ana'' ''p1'' demo_untraced = Inr demo_quote"
    using demo_quote_amounts
    by (simp add: refund_quote_with_client_def quote_of_def snap get_paid_balance_def demo_quote_def Let_def)
  have "find_refund_with_purchase (\<lambda>f. rf_purchase f = ''p1'' \<and> rf_key f = ''key'') demo_untraced = None"
    "ins_refund (requested_refund 100 ''rf1'' ''p1'' ''key'' demo_quote) demo_untraced =
       Inr (requested_refund 100 ''rf1'' ''p1'' ''key'' demo_quote,
            demo_untraced\<lparr>refunds := [requested_refund 100 ''rf1'' ''p1'' ''key'' demo_quote]\<rparr>)"
    "require_purchase ''p1'' (demo_untraced\<lparr>refunds := [requested_refund 100 ''rf1'' ''p1'' ''key'' demo_quote]\<rparr>) =
       Inr (demo_p1, Some ?y)" "fr_refund demo_fresh = ''rf1''" "rq_eligible demo_quote"
    by code_simp+
  then show ?thesis by (simp add: refund_prepare_def quote requested_refund_def)
qed

theorem refund_stuck_witness:
  "\<forall>g. fst (request_refund demo_env g 100 demo_fresh ''ana'' ''p1'' ''key'' demo_untraced) =
     Inl (Conflict ''Payment cannot be refunded'')"
proof -
  have "trim ''key'' = ''key''" "trim ''key'' \<noteq> []" "\<not> truthy (pay_tx_id (demo_y1\<lparr>pay_tx_id := None\<rparr>))"
    "distinct (map rf_id (refunds demo_untraced))"
    by code_simp+
  from conjunct1 [OF refund_stuck [where key = "''key''", unfolded this(1), OF demo_untraced_prepared
      this(2) [unfolded this(1)] this(3,4)]]
  show ?thesis by simp
qed

text \<open>C11: The answer of the provider is stored without a look at the status of the refund. When an event
  has completed the refund in the meantime, a late answer \<open>succeeded\<close> takes it back to
  \<open>payment_succeeded\<close>, and completing it fails, now and ever after, because its recovery is in the
  ledger already.
\<close>

theorem settle_race:
  assumes "Some (''credit_refund:'' @ i) \<in> led_ref ` set (ledger s)" "f \<in> set (refunds s)" "rf_id f = i"
    and "rr_status result = Ro_Succeeded" "upd_refunds (\<lambda>x. rf_id x = i)
      (\<lambda>x. x\<lparr>rf_provider_refund := Some (rr_id result), rf_status := Rf_Payment_Succeeded\<rparr>) s = Inr s1"
  shows "snd (refund_settle e now fr i result s) = s1 \<and> isl (fst (refund_settle e now fr i result s)) \<and>
         (\<exists>x \<in> set (refunds s1). rf_id x = i \<and> rf_status x = Rf_Payment_Succeeded) \<and>
         isl (complete_refund_with_client e' now' fr' i event s1)"
proof -
  have s1: "s1 = s\<lparr>refunds := update_where (\<lambda>x. rf_id x = i)
      (\<lambda>x. x\<lparr>rf_provider_refund := Some (rr_id result), rf_status := Rf_Payment_Succeeded\<rparr>) (refunds s)\<rparr>"
    using assms(5) unfolding upd_refunds_Inr_iff by blast
  have st: "rf_status x = Rf_Payment_Succeeded" if "x \<in> set (refunds s1)" "rf_id x = i" for x
  proof -
    from that(1) have "x \<in> set (update_where (\<lambda>x. rf_id x = i)
        (\<lambda>x. x\<lparr>rf_provider_refund := Some (rr_id result), rf_status := Rf_Payment_Succeeded\<rparr>) (refunds s))"
      by (simp add: s1)
    then obtain y where "x = (if rf_id y = i
        then y\<lparr>rf_provider_refund := Some (rr_id result), rf_status := Rf_Payment_Succeeded\<rparr> else y)"
      by (rule update_whereE)
    with that(2) show ?thesis by (auto split: if_splits)
  qed
  have fails: "isl (complete_refund_with_client e' now' fr' i event s1)" for e' now' fr' event
  proof (rule ccontr)
    assume "\<not> isl (complete_refund_with_client e' now' fr' i event s1)"
    from run_ok [OF this] show False
    proof (cases rule: complete_refund_elim)
      case (already q pay)
      with find_refund_Some(1,2) [OF already(1)] st show False by simp
    next
      case (ran f' q y entry)
      have "ledger s1 = ledger s" by (simp add: s1)
      with ran(6) find_refund_Some(2) [OF ran(1)] assms(1) show False by (simp add: unique_opt_def)
    qed
  qed
  have "f\<lparr>rf_provider_refund := Some (rr_id result), rf_status := Rf_Payment_Succeeded\<rparr> \<in> set (refunds s1)"
    using assms(2,3) by (simp add: s1 set_update_where)
  then have "\<exists>x \<in> set (refunds s1). rf_id x = i" by (rule bexI [rotated]) (simp add: assms(3))
  with st have ex: "\<exists>x \<in> set (refunds s1). rf_id x = i \<and> rf_status x = Rf_Payment_Succeeded" by blast
  obtain err where err: "complete_refund_with_client e now fr i None s1 = Inl err"
    using fails by (metis isl_def)
  have "refund_settle e now fr i result s = (Inl err, s1)"
    using assms(4,5) by (simp add: refund_settle_def commit_def err)
  with ex fails show ?thesis by simp
qed

text \<open>The purchase after the provider's event has completed the refund.\<close>

definition demo_closed :: db where
  "demo_closed = demo_locked\<lparr>ledger := ledger demo_locked @ [recovery_entry ''rc0'' 120 ''ana'' ''p1'' 8 ''rf1'' ''user refund''],
     refunds := map (\<lambda>x. x\<lparr>rf_status := Rf_Completed, rf_completed := Some 120\<rparr>) (refunds demo_locked)\<rparr>"

theorem settle_race_witness:
  "isl (fst (refund_settle demo_env 130 demo_fresh ''rf1'' \<lparr>rr_id = ''rf1'', rr_status = Ro_Succeeded\<rparr> demo_closed))"
proof -
  define up :: "refund_row \<Rightarrow> refund_row" where
    "up = (\<lambda>x. x\<lparr>rf_provider_refund := Some (rr_id \<lparr>rr_id = ''rf1'', rr_status = Ro_Succeeded\<rparr>),
              rf_status := Rf_Payment_Succeeded\<rparr>)"
  have "Some (''credit_refund:'' @ ''rf1'') \<in> led_ref ` set (ledger demo_closed)"
    "hd (refunds demo_closed) \<in> set (refunds demo_closed)" "rf_id (hd (refunds demo_closed)) = ''rf1''"
    "rr_status \<lparr>rr_id = ''rf1'', rr_status = Ro_Succeeded\<rparr> = Ro_Succeeded"
    "\<not> isl (upd_refunds (\<lambda>x. rf_id x = ''rf1'') up demo_closed)"
    unfolding up_def by code_simp+
  from settle_race [OF this(1-4), of "projr (upd_refunds (\<lambda>x. rf_id x = ''rf1'') up demo_closed)"] this(5)
  show ?thesis by (cases "upd_refunds (\<lambda>x. rf_id x = ''rf1'') up demo_closed") (simp_all add: up_def)
qed

end
