(* ===== verification/Event_Props.thy ===== *)
theory Event_Props
  imports Purchase_Props
begin

text \<open>
  What a provider event promises: credits are granted once per purchase, a processed event is not
  applied again, and the amount refunded is tracked cumulatively and never exceeds what was paid.
\<close>

section \<open>Frames\<close>

lemma ins_frames:
  "ins_ledger r s = Inr (r', s') \<Longrightarrow> events s' = events s"
  "ins_payment_entry en s = Inr s' \<Longrightarrow> events s' = events s"
  "ins_refund f s = Inr (f', s') \<Longrightarrow> events s' = events s"
  "upd_payments p g s = Inr s' \<Longrightarrow> events s' = events s"
  "upd_refunds q h s = Inr s' \<Longrightarrow> events s' = events s"
  "create_notification now i n s = Inr (v, s') \<Longrightarrow> events s' = events s"
  "record_refund_recovery now i u pu k rf why s = Inr (x, s') \<Longrightarrow> events s' = events s"
  "events (set_purchase_status now st pu s) = events s"
  by (auto simp: ins_ledger_Inr_iff ins_payment_entry_Inr_iff ins_refund_Inr_iff upd_payments_Inr_iff
      upd_refunds_Inr_iff create_notification_def bindR_Inr_iff ins_notification_Inr_iff record_refund_recovery_def
      set_purchase_status_def)

lemma complete_refund_events:
  "complete_refund_with_client e now fr i event s = Inr (f', s') \<Longrightarrow> events s' = events s"
  unfolding complete_refund_with_client_def Let_def
  by (auto simp: bindR_Inr_iff ins_frames(8) dest!: ins_frames(1-7) split: if_splits)

lemma grant_events: "grant_with_client now i inp s = Inr (r, s') \<Longrightarrow> events s' = events s"
  by (erule grant_with_client_elim) (auto dest: ins_frames(1))

lemma capture_payment_events:
  "capture_payment e now fr ev y q s = Inr s' \<Longrightarrow> events s' = events s"
  unfolding capture_payment_def
  by (auto simp: bindR_Inr_iff dest!: ins_frames(1-7) grant_events)

lemma map_sum_Inr_iff: "map_sum f g x = Inr y \<longleftrightarrow> (\<exists>z. x = Inr z \<and> y = g z)"
  by (cases x) auto

lemma reversal_tx_events:
  "reversal_tx now lid u why f i g entry s = Inr s' \<Longrightarrow> events s' = events s"
  unfolding reversal_tx_def
  by (auto simp: bindR_Inr_iff map_sum_Inr_iff split: if_splits dest!: ins_frames(1-7))

lemma reverse_part_events:
  "reverse_part now fr ev net refunded previous y q s = Inr s' \<Longrightarrow> events s' = events s"
  unfolding reverse_part_def Let_def
  by (auto simp: bindR_Inr_iff ins_frames(8) dest!: reversal_tx_events split: if_splits)

lemma force_reversal_events:
  "force_reversal now fr ev y q s = Inr s' \<Longrightarrow> events s' = events s"
  unfolding force_reversal_def Let_def
  by (auto simp: bindR_Inr_iff ins_frames(8) dest!: reversal_tx_events split: if_splits)

lemma apply_cumulative_refund_events:
  "apply_cumulative_refund e now fr ev net refunded y q s = Inr (r, s') \<Longrightarrow> events s' = events s"
  unfolding apply_cumulative_refund_def Let_def
  by (auto simp: bindR_Inr_iff dest!: reverse_part_events complete_refund_events split: if_splits option.splits)

lemma event_effect_events:
  "event_effect e now fr ev y q s = Inr (r, s') \<Longrightarrow> events s' = events s"
  unfolding event_effect_def
  by (auto simp: bindR_Inr_iff ins_frames(8) split: event_type.splits option.splits if_splits
      dest!: capture_payment_events force_reversal_events apply_cumulative_refund_events complete_refund_events
        ins_frames(4))

section \<open>The inbox\<close>

definition inbox_row :: "string \<Rightarrow> string \<Rightarrow> db \<Rightarrow> event_row option" where
  "inbox_row provider external s = find (\<lambda>r. evt_provider r = provider \<and> evt_external r = external) (events s)"

lemma find_update_key:
  assumes "\<And>x. P (f x) = P x"
  shows "find P (update_where c f xs) = map_option (\<lambda>x. if c x then f x else x) (find P xs)"
  using assms by (induction xs) (auto simp: update_where_def)

lemma inbox_upsert_row:
  assumes "inbox_upsert i provider ev s = (inbox, s1)"
  shows "inbox_row provider (pe_id ev) s1 = Some inbox"
    and "s1\<lparr>events := events s\<rparr> = s"
    and "evt_status inbox = (case inbox_row provider (pe_id ev) s of None \<Rightarrow> Ev_Processing | Some r \<Rightarrow> evt_status r)"
    and "evt_type inbox = (case inbox_row provider (pe_id ev) s of None \<Rightarrow> event_type_name (pe_type ev) | Some r \<Rightarrow> evt_type r)"
  using assms
  by (auto simp: inbox_upsert_def inbox_row_def Let_def find_append find_update_key split: option.splits)

lemma inbox_row_upd_event:
  assumes "\<And>x. evt_provider (f x) = evt_provider x" "\<And>x. evt_external (f x) = evt_external x"
  shows "inbox_row provider external (upd_event i f s) =
    map_option (\<lambda>x. if evt_id x = i then f x else x) (inbox_row provider external s)"
  unfolding inbox_row_def upd_event_def using assms by (simp add: find_update_key)

lemma inbox_row_cong: "events s' = events s \<Longrightarrow> inbox_row provider external s' = inbox_row provider external s"
  by (simp add: inbox_row_def)

section \<open>Inversion\<close>

lemma apply_event_elim:
  assumes "apply_event e now fr provider ev s = Inr (r, s')"
  obtains (replayed) inbox where "inbox_upsert (fr_event fr) provider ev s = (inbox, s')"
      "evt_type inbox = event_type_name (pe_type ev)" "evt_status inbox = Ev_Processed" "r = Replayed"
  | (ignored) inbox s1 where "inbox_upsert (fr_event fr) provider ev s = (inbox, s1)"
      "evt_type inbox = event_type_name (pe_type ev)" "pe_type ev = Ev_Ignored"
      "\<not> (evt_status inbox = Ev_Processed \<and> provider \<noteq> ''polar'')"
      "r = Processed" "s' = event_processed now (evt_id inbox) s1"
  | (applied) inbox s1 y q rejected s2 where "inbox_upsert (fr_event fr) provider ev s = (inbox, s1)"
      "evt_type inbox = event_type_name (pe_type ev)" "pe_type ev \<noteq> Ev_Ignored" "evt_status inbox \<noteq> Ev_Processed"
      "find_payment (\<lambda>z. pay_id z = pay_id y) s1 = Some (y, q)"
      "event_effect e now fr ev y q (upd_event (evt_id inbox) (\<lambda>x. x\<lparr>evt_payment := Some (pay_id y)\<rparr>) s1) = Inr (rejected, s2)"
      "(r, s') = (case rejected of Some code \<Rightarrow> fail_provider_event now (evt_id inbox) code s2
         | None \<Rightarrow> (Processed, event_processed now (evt_id inbox) s2))"
proof -
  obtain inbox s1 where u: "inbox_upsert (fr_event fr) provider ev s = (inbox, s1)" by (cases "inbox_upsert (fr_event fr) provider ev s")
  have t: "evt_type inbox = event_type_name (pe_type ev)"
    using assms by (auto simp: apply_event_def u bindR_Inr_iff split: if_splits)
  show ?thesis
  proof (cases "evt_status inbox = Ev_Processed \<and> (provider \<noteq> ''polar'' \<or> pe_type ev \<noteq> Ev_Ignored)")
    case True
    with assms t u show ?thesis
      by (intro replayed [of inbox]) (auto simp: apply_event_def bindR_Inr_iff split: if_splits)
  next
    case not_done: False
    show ?thesis
    proof (cases "pe_type ev = Ev_Ignored")
      case True
      with assms t u not_done show ?thesis
        by (intro ignored [of inbox s1]) (auto simp: apply_event_def bindR_Inr_iff split: if_splits)
    next
      case False
      with not_done have p: "evt_status inbox \<noteq> Ev_Processed" by simp
      note eq = assms [unfolded apply_event_def u Let_def prod.case]
      obtain y0 q0 where y0: "locate_payment e provider ev s1 = Some (y0, q0)"
        using eq t False p by (auto simp: bindR_Inr_iff require_some_Inr_iff split: if_splits)
      obtain y q where y: "find_payment (\<lambda>z. pay_id z = pay_id y0) s1 = Some (y, q)"
        using eq t False p y0 by (auto simp: bindR_Inr_iff require_payment_def require_some_Inr_iff split: if_splits)
      obtain rejected s2 where
        "event_effect e now fr ev y q (upd_event (evt_id inbox) (\<lambda>x. x\<lparr>evt_payment := Some (pay_id y)\<rparr>) s1) = Inr (rejected, s2)"
        "(case rejected of Some code \<Rightarrow> Inr (fail_provider_event now (evt_id inbox) code s2)
           | None \<Rightarrow> Inr (Processed, event_processed now (evt_id inbox) s2)) = (Inr (r, s') :: (event_outcome \<times> db) res)"
        using eq t False p y0 y by (auto simp: bindR_Inr_iff require_payment_def split: if_splits)
      note a = y this
      have "pay_id y = pay_id y0" using find_payment_Some(2) [OF a(1)] by simp
      with a t u False p show ?thesis
        by (intro applied [of inbox s1 y q rejected s2]) (auto split: option.splits)
    qed
  qed
qed

lemma processed_row:
  assumes "apply_event e now fr provider ev s = Inr (Processed, s')"
  shows "\<exists>row. inbox_row provider (pe_id ev) s' = Some row \<and> evt_status row = Ev_Processed"
  using assms
proof (cases rule: apply_event_elim)
  case (ignored inbox s1)
  then show ?thesis
    using inbox_upsert_row(1) [OF ignored(1)] by (simp add: event_processed_def inbox_row_upd_event)
next
  case (applied inbox s1 y q rejected s2)
  have "rejected = None" "s' = event_processed now (evt_id inbox) s2"
    using applied(7) by (auto simp: fail_provider_event_def split: option.splits)
  moreover have "inbox_row provider (pe_id ev) s2 = Some (inbox\<lparr>evt_payment := Some (pay_id y)\<rparr>)"
    using inbox_row_cong [OF event_effect_events [OF applied(6)]] inbox_upsert_row(1) [OF applied(1)]
    by (simp add: inbox_row_upd_event)
  ultimately show ?thesis by (simp add: event_processed_def inbox_row_upd_event)
qed simp_all

text \<open>A processed event is not applied again. When the provider delivers it once more, at any later
  time, the transaction is a replay (or the event is one that is ignored) and only the event's own
  inbox row changes.
\<close>

theorem event_replayed:
  assumes "apply_event e now fr provider ev s = Inr (Processed, s')"
    and "apply_event e' now' fr' provider ev' s' = Inr (r, s'')" "pe_id ev' = pe_id ev"
  shows "(r = Replayed \<or> pe_type ev' = Ev_Ignored) \<and> s''\<lparr>events := events s'\<rparr> = s'"
proof -
  obtain row where row: "inbox_row provider (pe_id ev') s' = Some row" "evt_status row = Ev_Processed"
    using processed_row [OF assms(1)] assms(3) by auto
  show ?thesis
    using assms(2)
  proof (cases rule: apply_event_elim)
    case (replayed inbox)
    then show ?thesis using inbox_upsert_row(2) by simp
  next
    case (ignored inbox s1)
    have "s''\<lparr>events := events s'\<rparr> = s1\<lparr>events := events s'\<rparr>"
      by (simp add: ignored event_processed_def upd_event_def)
    then show ?thesis using inbox_upsert_row(2) [OF ignored(1)] ignored(3) by simp
  next
    case (applied inbox s1 y q rejected s2)
    with inbox_upsert_row(3) [OF applied(1)] row show ?thesis by simp
  qed
qed

section \<open>Paid events\<close>

lemma upsert_tables:
  assumes "inbox_upsert i provider ev s = (inbox, s1)"
  shows "ledger s1 = ledger s" "payments s1 = payments s" "purchases s1 = purchases s" "refunds s1 = refunds s"
    "payment_entries s1 = payment_entries s" "usages s1 = usages s" "reservations s1 = reservations s"
    "users s1 = users s"
  using assms by (auto simp: inbox_upsert_def Let_def split: option.splits)

lemma event_tables [simp]:
  "ledger (upd_event i f s) = ledger s" "payments (upd_event i f s) = payments s"
  "purchases (upd_event i f s) = purchases s" "refunds (upd_event i f s) = refunds s"
  "payment_entries (upd_event i f s) = payment_entries s" "usages (upd_event i f s) = usages s"
  "reservations (upd_event i f s) = reservations s" "users (upd_event i f s) = users s"
  by (simp_all add: upd_event_def)

definition purchase_credit_entry :: "uid \<Rightarrow> time \<Rightarrow> payment_row \<Rightarrow> purchase_row \<Rightarrow> ledger_row" where
  "purchase_credit_entry i now y q = \<lparr>led_id = i, led_user = pur_user q, led_type = Grant, led_kind = Some Paid,
     led_purchase = Some (pay_purchase y), led_promo = None, led_amount = pur_credits q, led_expires = None,
     led_reason = ''credit purchase'', led_ref = Some (''credit_purchase:'' @ pay_purchase y), led_created = now\<rparr>"

lemma purchase_grant_state:
  assumes "grant_with_client now i (purchase_grant y q) s = Inr (rec, s1)"
  shows "s1 = s \<or> s1 = s\<lparr>ledger := ledger s @ [purchase_credit_entry i now y q]\<rparr> \<and> i \<notin> led_id ` set (ledger s) \<and>
    Some (''credit_purchase:'' @ pay_purchase y) \<notin> led_ref ` set (ledger s) \<and> 0 < pur_credits q"
  using assms
proof (cases rule: grant_with_client_elim)
  case (added n why row)
  have why: "trimmed (Some ''credit purchase'') = Some ''credit purchase''" by code_simp
  have row: "row = purchase_credit_entry i now y q" and n: "n = pur_credits q"
    using added(1,3,7) why by (simp_all add: purchase_grant_def purchase_credit_entry_def grant_kind_def)
  have fresh: "s1 = s\<lparr>ledger := ledger s @ [row]\<rparr>" "led_id row \<notin> led_id ` set (ledger s)"
    using added(8) unfolding ins_ledger_Inr_iff by blast+
  have "find (\<lambda>r. led_ref r = Some (''credit_purchase:'' @ pay_purchase y)) (ledger s) = None"
    using added(6) by (simp add: purchase_grant_def)
  then have "Some (''credit_purchase:'' @ pay_purchase y) \<notin> led_ref ` set (ledger s)"
    by (auto simp: find_None_iff_all)
  with fresh added(2) row n show ?thesis by (simp add: purchase_credit_entry_def)
qed simp

text \<open>C2: A paid event grants the credits of a purchase at most once. Either it leaves the credit ledger as
  it is, or it adds exactly one entry: the paid credits of a purchase whose payment was still pending and
  whose details match the event, under a reference that the ledger did not hold before. As the
  ledger's references are unique, no other event, and no retry, can grant them again.
\<close>

theorem purchase_granted_once:
  assumes "apply_event e now fr provider ev s = Inr (r, s')" "pe_type ev = Ev_Paid"
  shows "ledger s' = ledger s \<or>
    (\<exists>y q. y \<in> set (payments s) \<and> q \<in> set (purchases s) \<and> pur_id q = pay_purchase y \<and>
       pending_payment (pay_status y) \<and> paid_rejection ev y = None \<and> r = Processed \<and> 0 < pur_credits q \<and>
       Some (''credit_purchase:'' @ pay_purchase y) \<notin> led_ref ` set (ledger s) \<and>
       ledger s' = ledger s @ [purchase_credit_entry (fr_grant fr) now y q] \<and>
       (\<exists>z \<in> set (payments s'). pay_id z = pay_id y \<and> pay_status z = Pay_Paid))"
  using assms(1)
proof (cases rule: apply_event_elim)
  case (replayed inbox)
  then show ?thesis using upsert_tables [OF replayed(1)] by simp
next
  case (ignored inbox s1)
  then show ?thesis using assms(2) by simp
next
  case (applied inbox s1 y q rejected s2)
  let ?sx = "upd_event (evt_id inbox) (\<lambda>x. x\<lparr>evt_payment := Some (pay_id y)\<rparr>) s1"
  note t = upsert_tables [OF applied(1)] and yq = find_payment_Some [OF applied(5)]
  have l: "ledger s' = ledger s2" "payments s' = payments s2"
    using applied(7) by (auto simp: fail_provider_event_def event_processed_def split: option.splits)
  show ?thesis
  proof (cases "rejected = None \<and> paid_rejection ev y = None \<and> pay_status y \<noteq> Pay_Paid")
    case False
    with applied(6) assms(2) have "s2 = ?sx"
      by (auto simp: event_effect_def bindR_Inr_iff split: option.splits if_splits)
    with l t show ?thesis by simp
  next
    case True
    with applied(6) assms(2) have cap: "capture_payment e now fr ev y q ?sx = Inr s2"
      by (auto simp: event_effect_def bindR_Inr_iff split: option.splits if_splits)
    have pend: "pending_payment (pay_status y)" using True by (auto simp: paid_rejection_def Let_def split: if_splits)
    have r: "r = Processed" using True applied(7) by simp
    from cap show ?thesis
    proof (cases rule: capture_payment_elim)
      case (1 rec sg f entry)
      have "y \<in> set (payments sg)"
        using purchase_grant_state [OF 1(1)] yq(1) t by auto
      then have "f y \<in> set (payments s2)" by (simp add: 1(7) set_update_where)
      then have paid: "\<exists>z \<in> set (payments s2). pay_id z = pay_id y \<and> pay_status z = Pay_Paid"
        using 1(8,9) by blast
      from purchase_grant_state [OF 1(1)] show ?thesis
      proof
        assume "sg = ?sx"
        with 1(2) l t show ?thesis by simp
      next
        assume g: "sg = ?sx\<lparr>ledger := ledger ?sx @ [purchase_credit_entry (fr_grant fr) now y q]\<rparr> \<and>
            fr_grant fr \<notin> led_id ` set (ledger ?sx) \<and>
            Some (''credit_purchase:'' @ pay_purchase y) \<notin> led_ref ` set (ledger ?sx) \<and> 0 < pur_credits q"
        then have "ledger s' = ledger s @ [purchase_credit_entry (fr_grant fr) now y q]"
          using 1(2) l t by simp
        with g yq t pend r True paid l show ?thesis by (intro disjI2 exI [of _ y] exI [of _ q]) simp
      qed
    qed
  qed
qed

text \<open>A purchase that waits for its payment.\<close>

definition demo_pending :: db where
  "demo_pending = empty_db\<lparr>users := [demo_user ''ana''],
     purchases := [demo_p1\<lparr>pur_status := Pur_Pending, pur_fulfilled := None\<rparr>],
     payments := [demo_payment ''y1'' ''p1'' Pay_Pending]\<rparr>"

definition demo_paid_event :: payment_event where
  "demo_paid_event = (event_of ''local:p1:paid'' Ev_Paid 100)\<lparr>pe_purchase := Some ''p1'', pe_tx_id := Some ''p1''\<rparr>"

abbreviation demo_paid :: "(event_outcome \<times> db) res" where
  "demo_paid \<equiv> apply_event demo_env 100 demo_fresh ''local'' demo_paid_event demo_pending"

lemma demo_paid_runs:
  "\<not> isl demo_paid" "out demo_paid = Processed" "length (ledger (after demo_paid)) = 1" "pe_type demo_paid_event = Ev_Paid"
  by code_simp+

theorem purchase_granted_once_witness:
  "\<exists>i y q. ledger (after demo_paid) = [purchase_credit_entry i 100 y q] \<and> 0 < pur_credits q"
proof -
  have "ledger (after demo_paid) \<noteq> ledger demo_pending" "ledger demo_pending = []"
    using demo_paid_runs(3) by (auto simp: demo_pending_def empty_db_def)
  with purchase_granted_once [OF run_ok [OF demo_paid_runs(1)] demo_paid_runs(4)] show ?thesis by auto
qed

abbreviation demo_paid_again :: "(event_outcome \<times> db) res" where
  "demo_paid_again \<equiv> apply_event demo_env 200 demo_fresh ''local'' demo_paid_event (after demo_paid)"

lemma ledger_of_events: "s\<lparr>events := es\<rparr> = s' \<Longrightarrow> ledger s = ledger s'"
  by auto

theorem event_replayed_witness: "out demo_paid_again = Replayed \<and> ledger (after demo_paid_again) = ledger (after demo_paid)"
proof -
  have "demo_paid = Inr (Processed, after demo_paid)"
    using run_ok [OF demo_paid_runs(1)] demo_paid_runs(2) by (metis prod.collapse)
  moreover have "\<not> isl demo_paid_again" by code_simp
  ultimately have "(out demo_paid_again = Replayed \<or> pe_type demo_paid_event = Ev_Ignored) \<and>
      (after demo_paid_again)\<lparr>events := events (after demo_paid)\<rparr> = after demo_paid"
    using event_replayed [OF _ run_ok refl] by blast
  moreover have "pe_type demo_paid_event \<noteq> Ev_Ignored" using demo_paid_runs(4) by simp
  ultimately show ?thesis using ledger_of_events by blast
qed

section \<open>Cumulative refunds\<close>

lemma refunded_so_far_add:
  assumes "payment_entries s' = payment_entries s @ [entry]"
  shows "refunded_so_far i s' = refunded_so_far i s +
    (if pl_payment entry = i \<and> pl_type entry \<in> {Refund, Chargeback}
     then case pl_amount entry of None \<Rightarrow> 0 | Some a \<Rightarrow> a else 0)"
  by (simp add: refunded_so_far_def assms)

lemma pending_refund_Some:
  assumes "pending_refund p s = Some f"
  shows "f \<in> set (refunds s)" "rf_purchase f = p" "rf_status f \<noteq> Rf_Completed"
proof -
  let ?l = "sort_key (\<lambda>f. (rf_created f, rf_id f))
    (filter (\<lambda>f. rf_purchase f = p \<and> rf_status f \<in> {Rf_Payment_Processing, Rf_Payment_Succeeded}) (refunds s))"
  obtain fs where "?l = f # fs" using assms by (auto simp: pending_refund_def split: list.splits)
  then have "f \<in> set ?l" by simp
  then show "f \<in> set (refunds s)" "rf_purchase f = p" "rf_status f \<noteq> Rf_Completed" by auto
qed

lemma complete_pending_refund:
  assumes f: "pending_refund p s = Some f" and d: "distinct (map rf_id (refunds s))"
    and run: "complete_refund_with_client e now fr (rf_id f) event s = Inr (f', s')"
    and y: "payment_of p s = Some y"
  shows "refunded_so_far (pay_id y) s' = refunded_so_far (pay_id y) s + rf_refund f"
    and "map pay_id (payments s') = map pay_id (payments s)"
  using run
proof (atomize (full), cases rule: complete_refund_elim)
  case (already q pay)
  have "f' = f" using find_refund_Some(1,2) [OF already(1)] pending_refund_Some(1) [OF f] unique_key_eq [OF d] by blast
  with already pending_refund_Some(3) [OF f]
  show "refunded_so_far (pay_id y) s' = refunded_so_far (pay_id y) s + rf_refund f \<and>
    map pay_id (payments s') = map pay_id (payments s)" by simp
next
  case (ran f1 q y1 entry)
  have "f1 = f" using find_refund_Some(1,2) [OF ran(1)] pending_refund_Some(1) [OF f] unique_key_eq [OF d] by blast
  moreover have "y1 = y" using find_refund_Some(5) [OF ran(1)] y calculation pending_refund_Some(2) [OF f] by simp
  ultimately show "refunded_so_far (pay_id y) s' = refunded_so_far (pay_id y) s + rf_refund f \<and>
    map pay_id (payments s') = map pay_id (payments s)"
    using ran(8-11) by (simp add: refunded_so_far_add [OF ran(7)])
qed

lemma reverse_part_refunded:
  assumes "reverse_part now fr ev net refunded previous y q s = Inr s'"
  shows "refunded_so_far (pay_id y) s' = refunded_so_far (pay_id y) s + (refunded - previous)"
  using assms
proof (cases rule: reverse_part_elim)
  case (1 f entry)
  then show ?thesis by (simp add: reversal_def refunded_so_far_add)
qed

text \<open>C5: Refunds that the provider reports cumulatively are bounded by the payment. When a report of
  \<open>refunded\<close> out of \<open>net\<close> is accepted, the refunds in the payment ledger of the payment, a pending
  user refund included, add up to exactly \<open>refunded\<close>, which is not less than before and never more than
  \<open>net\<close>.
\<close>

theorem cumulative_refund_bounded:
  assumes "apply_cumulative_refund e now fr ev net refunded y q s = Inr (None, s')"
    and "payment_of (pay_purchase y) s = Some y" "distinct (map rf_id (refunds s))"
  shows "refunded_so_far (pay_id y) s' = refunded \<and> refunded_so_far (pay_id y) s \<le> refunded \<and>
         0 < refunded \<and> refunded \<le> net"
proof -
  let ?before = "refunded_so_far (pay_id y) s"
  have b: "0 < refunded" "refunded \<le> net" "?before \<le> refunded"
    using assms(1) by (auto simp: apply_cumulative_refund_def Let_def bindR_Inr_iff split: if_splits)
  show ?thesis
  proof (cases "pending_refund (pay_purchase y) s")
    case None
    show ?thesis
    proof (cases "refunded = ?before")
      case True
      with assms(1) b None show ?thesis
        by (auto simp: apply_cumulative_refund_def Let_def split: if_splits)
    next
      case False
      with assms(1) b None obtain y' q' s1 where "find_payment (\<lambda>z. pay_id z = pay_id y) s = Some (y', q')"
        "reverse_part now fr ev net refunded ?before y' q' s = Inr s'"
        by (auto simp: apply_cumulative_refund_def Let_def bindR_Inr_iff require_payment_def require_some_Inr_iff
            split: if_splits)
      then show ?thesis using b find_payment_Some(2) reverse_part_refunded by fastforce
    qed
  next
    case (Some f)
    then obtain f' s1 where c: "complete_refund_with_client e now fr (rf_id f) (Some ev) s = Inr (f', s1)"
      and rest: "if refunded = ?before + rf_refund f then s' = s1
        else \<exists>y' q'. find_payment (\<lambda>z. pay_id z = pay_id y) s1 = Some (y', q') \<and>
               reverse_part now fr ev net refunded (?before + rf_refund f) y' q' s1 = Inr s'"
      using assms(1)
      by (auto simp: apply_cumulative_refund_def Let_def bindR_Inr_iff require_payment_def require_some_Inr_iff
          split: if_splits)
    note r = complete_pending_refund(1) [OF Some assms(3) c assms(2)]
    show ?thesis
    proof (cases "refunded = ?before + rf_refund f")
      case True
      with rest r b show ?thesis by simp
    next
      case False
      with rest obtain y' q' where "find_payment (\<lambda>z. pay_id z = pay_id y) s1 = Some (y', q')"
        "reverse_part now fr ev net refunded (?before + rf_refund f) y' q' s1 = Inr s'" by auto
      then have "refunded_so_far (pay_id y) s' = refunded_so_far (pay_id y) s1 + (refunded - (?before + rf_refund f))"
        using find_payment_Some(2) reverse_part_refunded by fastforce
      with r b show ?thesis by simp
    qed
  qed
qed

text \<open>Partial refunds recover credits in proportion to the money. Without a pending user refund, an
  accepted report of \<open>refunded\<close> out of \<open>net\<close> brings the base credits recovered so far to the floor of the
  original credits times \<open>refunded\<close> over \<open>net\<close> (or leaves them, when more were recovered already): the
  steps of several reports add up without rounding losses.
\<close>

theorem recovery_proportional:
  assumes "ledger_ok s" "apply_cumulative_refund e now fr ev net refunded y q s = Inr (None, s')"
    and "refunded_so_far (pay_id y) s < refunded" "pending_refund (pay_purchase y) s = None"
    and "find_payment (\<lambda>z. pay_id z = pay_id y) s = Some (y, q)"
    and "original = original_paid (purchase_credit_snapshot now (pur_user q) (pur_id q) s)"
    and "original * refunded < 2 ^ 53" "0 \<le> completed_sum rf_credits (pur_id q) s"
  shows "completed_sum rf_credits (pur_id q) s' =
           max (completed_sum rf_credits (pur_id q) s) (original * refunded div net)"
proof -
  have b: "0 < refunded" "0 < net" "pay_id y = pay_id y"
    using assms(2) by (auto simp: apply_cumulative_refund_def Let_def split: if_splits)
  have rp: "reverse_part now fr ev net refunded (refunded_so_far (pay_id y) s) y q s = Inr s'"
    using assms(2-5) by (auto simp: apply_cumulative_refund_def Let_def bindR_Inr_iff require_payment_def split: if_splits)
  have o: "0 \<le> original"
    using purchase_snapshot_bounds(1,2) [OF assms(1), of now "pur_user q" "pur_id q"] assms(6) by linarith
  have or: "0 \<le> original * refunded" using o b by simp
  have target: "proportional original refunded net = original * refunded div net"
    unfolding proportional_def js_mul_exact [OF or assms(7)] by (rule js_floor_div [OF or assms(7) b(2)])
  have plan: "plan_base (cumulative_plan now q refunded net s) =
      max 0 (original * refunded div net - completed_sum rf_credits (pur_id q) s)"
    using assms(8) by (simp add: cumulative_plan_def Let_def assms(6) [symmetric] target)
  have pid: "pur_id q = pay_purchase y" using find_payment_Some(4) [OF assms(5)] .
  from rp show ?thesis
  proof (cases rule: reverse_part_elim)
    case (1 f entry)
    have "completed_sum rf_credits (pur_id q) s' = completed_sum rf_credits (pur_id q) s + rf_credits f"
      using 1(1,2) pid by (simp add: reversal_def completed_sum_def)
    then show ?thesis using 1(5) plan by simp
  qed
qed

text \<open>A report of 300 refunded out of 1000 for the purchase with a promotion.\<close>

definition demo_report :: payment_event where
  "demo_report = (event_of ''ev1'' Ev_Refunded 100)\<lparr>pe_tx_id := Some ''tx'', pe_net := Some 1000, pe_refunded := Some 300\<rparr>"

lemma demo_plan:
  "cumulative_plan 100 demo_p1 300 1000 demo_refundable =
     \<lparr>plan_base = 3, plan_paid_promotion = 0, plan_free_promotion = 2, plan_debt = 0\<rparr>"
proof -
  have "proportional 10 300 1000 = 3"
    unfolding proportional_def using js_mul_exact [of 10 300] js_floor_div [of 3000 1000] by simp
  moreover have "pur_user demo_p1 = ''ana''" "pur_id demo_p1 = ''p1''"
    "completed_sum rf_credits ''p1'' demo_refundable = 0" "completed_sum rf_promotion ''p1'' demo_refundable = 0"
    "completed_sum rf_free_promotion ''p1'' demo_refundable = 0"
    by code_simp+
  ultimately show ?thesis by (simp add: cumulative_plan_def demo_snapshot Let_def)
qed

abbreviation demo_reported :: "(string option \<times> db) res" where
  "demo_reported \<equiv> apply_cumulative_refund demo_env 100 demo_fresh demo_report 1000 300 demo_y1 demo_p1 demo_refundable"

lemma demo_reported_runs: "demo_reported = Inr (None, after demo_reported)"
proof -
  have ok: "\<not> isl (reverse_part 100 demo_fresh demo_report 1000 300 0 demo_y1 demo_p1 demo_refundable)"
    unfolding reverse_part_def demo_plan Let_def recovery_plan.simps by code_simp
  have "demo_reported = bindR (reverse_part 100 demo_fresh demo_report 1000 300 0 demo_y1 demo_p1 demo_refundable)
      (\<lambda>s1. Inr (None, s1))"
  proof -
    have "pay_net demo_y1 = None" "pay_tax demo_y1 = None" "\<not> currency_differs demo_report demo_y1"
      "refunded_so_far (pay_id demo_y1) demo_refundable = 0" "pending_refund (pay_purchase demo_y1) demo_refundable = None"
      "require_payment (pay_id demo_y1) demo_refundable = Inr (demo_y1, demo_p1)"
      by code_simp+
    then show ?thesis by (simp add: apply_cumulative_refund_def)
  qed
  with ok show ?thesis
    by (cases "reverse_part 100 demo_fresh demo_report 1000 300 0 demo_y1 demo_p1 demo_refundable") simp_all
qed

theorem cumulative_refund_bounded_witness:
  "refunded_so_far ''y1'' (after demo_reported) = 300"
proof -
  have "payment_of (pay_purchase demo_y1) demo_refundable = Some demo_y1" "distinct (map rf_id (refunds demo_refundable))"
    and i: "pay_id demo_y1 = ''y1''"
    by code_simp+
  from cumulative_refund_bounded [OF demo_reported_runs this(1,2)] show ?thesis by (simp add: i)
qed

theorem recovery_proportional_witness:
  "completed_sum rf_credits ''p1'' (after demo_reported) = 3"
proof -
  have "refunded_so_far (pay_id demo_y1) demo_refundable < 300" "pending_refund (pay_purchase demo_y1) demo_refundable = None"
    "find_payment (\<lambda>z. pay_id z = pay_id demo_y1) demo_refundable = Some (demo_y1, demo_p1)"
    "10 = original_paid (purchase_credit_snapshot 100 (pur_user demo_p1) (pur_id demo_p1) demo_refundable)"
    "(10 :: int) * 300 < 2 ^ 53" "0 \<le> completed_sum rf_credits (pur_id demo_p1) demo_refundable"
    and v: "pur_id demo_p1 = ''p1''" "completed_sum rf_credits ''p1'' demo_refundable = 0"
    by code_simp+
  from recovery_proportional [OF demo_refundable_ok(1) demo_reported_runs this(1-6)] v show ?thesis by simp
qed

section \<open>The ledger invariant\<close>

lemma inbox_upsert_ok: "inbox_upsert i provider ev s = (inbox, s1) \<Longrightarrow> ledger_ok s1 = ledger_ok s"
  using ledger_ok_cong [of s1 s] upsert_tables by simp

lemma apply_event_ok [ledger_intros]:
  assumes "ledger_ok s" "apply_event e now fr provider ev s = Inr (r, s')"
  shows "ledger_ok s'"
  using assms(2)
proof (cases rule: apply_event_elim)
  case (applied inbox s1 y q rejected s2)
  have "ledger_ok s1" using assms(1) inbox_upsert_ok [OF applied(1)] by simp
  then have "ledger_ok s2" using event_effect_ok [OF _ applied(6)] by simp
  then show ?thesis
    using applied(7) by (cases rejected) (simp_all, metis ledger_ok_other(4) snd_conv)
qed (use assms(1) inbox_upsert_ok in auto)

lemma refund_prepare_ok [ledger_intros]:
  assumes "ledger_ok s" "refund_prepare e now fr u p key s = Inr ((view, is_new), s')"
  shows "ledger_ok s'"
  using assms(2)
proof (cases rule: refund_prepare_elim)
  case (new quote)
  obtain q y where q: "quote = quote_of now q y (if pay_provider y = ''polar'' then pay_net y else pay_amount y) s"
    using refund_quote_elim [OF new(2)] by metis
  have "0 \<le> rq_refundable quote + rq_remaining_promotion quote" "0 \<le> rq_refundable quote + rq_promotion_recovery quote"
    using purchase_snapshot_bounds(1,3) [OF assms(1), of now "pur_user q" "pur_id q"]
    unfolding q quote_of_def Let_def refund_quote.simps by auto
  then have "\<forall>f \<in> set (refunds s @ [requested_refund now (fr_refund fr) p key quote]). 0 \<le> rf_locked f \<and> 0 \<le> rf_recovery f"
    using ledger_okD(7) [OF assms(1)] by (auto simp: requested_refund_def)
  from ledger_ok_refunds [OF assms(1) this] show ?thesis by (simp add: new(7))
qed (use assms(1) in simp)

lemma refund_settle_ok [ledger_intros]:
  assumes "ledger_ok s"
  shows "ledger_ok (snd (refund_settle e now fr i result s))"
proof (cases "upd_refunds (\<lambda>x. rf_id x = i)
    (\<lambda>x. x\<lparr>rf_provider_refund := Some (rr_id result), rf_status := refund_status (rr_status result)\<rparr>) s")
  case (Inr s1)
  then have "s1 = s\<lparr>refunds := update_where (\<lambda>x. rf_id x = i)
      (\<lambda>x. x\<lparr>rf_provider_refund := Some (rr_id result), rf_status := refund_status (rr_status result)\<rparr>) (refunds s)\<rparr>"
    unfolding upd_refunds_Inr_iff by blast
  moreover have "\<forall>f \<in> set (update_where (\<lambda>x. rf_id x = i)
      (\<lambda>x. x\<lparr>rf_provider_refund := Some (rr_id result), rf_status := refund_status (rr_status result)\<rparr>) (refunds s)).
      0 \<le> rf_locked f \<and> 0 \<le> rf_recovery f"
    using ledger_okD(7) [OF assms] by (auto simp: set_update_where)
  ultimately have s1: "ledger_ok s1" using ledger_ok_refunds [OF assms] by simp
  then show ?thesis
    using complete_refund_ok [OF s1]
    by (cases "complete_refund_with_client e now fr i None s1") (auto simp: refund_settle_def Inr commit_def)
qed (simp add: refund_settle_def assms)

lemma request_refund_ok [ledger_intros]:
  assumes "ledger_ok s"
  shows "ledger_ok (snd (request_refund e g now fr u p key s))"
proof (cases "refund_prepare e now fr u p (trim key) s")
  case (Inl err)
  then show ?thesis using assms by (simp add: request_refund_def Let_def)
next
  case (Inr x)
  obtain f q pay is_new s1 where x: "x = (((f, q, pay), is_new), s1)" by (metis surj_pair)
  have s1: "ledger_ok s1" using refund_prepare_ok [OF assms] Inr x by blast
  have c: "ledger_ok (snd (commit (complete_refund_with_client e now fr (rf_id f) None) s1))"
    using complete_refund_ok [OF s1] s1
    by (cases "complete_refund_with_client e now fr (rf_id f) None s1") (auto simp: commit_def)
  have "ledger_ok (snd (refund_continue e g now fr (f, q, pay) is_new s1))"
    using s1 c refund_settle_ok [OF s1]
    by (auto simp: refund_continue_def split: sum.splits option.splits)
  then show ?thesis using assms Inr x by (simp add: request_refund_def Let_def)
qed

end
