(* ===== verification/Checkout.thy ===== *)
theory Checkout
  imports Purchase_Events "HOL-Library.Word"
begin

text \<open>
  Buying credits: the catalogue, the account token, web checkouts, in-app purchases and the reading
  of purchases, from \<open>src/purchases/purchases.service.ts\<close>. A checkout runs in steps that each commit: the
  purchase and its payment, the claim of the payment, the calls to the provider, the checkout's id. The
  functions run them in order; \<open>ensure_checkout\<close> starts from whatever state it finds, so a second request
  in between is a run from that state. URL parsing (\<open>new URL\<close>) and HMAC-SHA256 are parameters.
\<close>

unbundle bit_operations_syntax

section \<open>The catalogue\<close>

record product_view =
  pv_id :: string
  pv_name :: string
  pv_credits :: int
  pv_provider_product :: string
  pv_price :: "int option"
  pv_currency :: "string option"

definition list_products :: "env \<Rightarrow> payment_channel \<Rightarrow> db \<Rightarrow> product_view list res" where
  "list_products e channel s =
     bindR (provider_for_channel e channel s) (\<lambda>prov.
     bindR (provider_environment e prov) (\<lambda>environment.
     let listed = concat (map (\<lambda>m. map (Pair m) (filter (\<lambda>p. pm_product m = prd_id p \<and> prd_active p) (products s)))
           (filter (\<lambda>m. pm_channel m = channel \<and> pm_provider m = provider_name prov \<and>
              pm_environment m = environment \<and> pm_active m) (mappings s)))
     in Inr (map (\<lambda>(m, p). \<lparr>pv_id = prd_code p, pv_name = prd_name p, pv_credits = prd_credits p,
              pv_provider_product = pm_provider_product m, pv_price = pm_price m,
              pv_currency = (if truthy (pm_currency m) then pm_currency m else None)\<rparr>)
            (sort_key (\<lambda>(m, p). (prd_order p, prd_code p)) listed))))"

definition resolve_product :: "env \<Rightarrow> string \<Rightarrow> payment_channel \<Rightarrow> db \<Rightarrow> (product_row \<times> mapping_row \<times> provider) res" where
  "resolve_product e code channel s =
     bindR (require_some (find (\<lambda>p. prd_code p = code) (products s)) (Bad_Request ''Unknown credit product'')) (\<lambda>p.
     bindR (ensure (prd_active p) (Conflict ''Credit product is unavailable'')) (\<lambda>_.
     bindR (provider_for_channel e channel s) (\<lambda>prov.
     bindR (provider_environment e prov) (\<lambda>environment.
     bindR (require_some (find (\<lambda>m. pm_product m = prd_id p \<and> pm_channel m = channel \<and>
              pm_provider m = provider_name prov \<and> pm_environment m = environment \<and> pm_active m) (mappings s))
              (Conflict ''Credit product is unavailable'')) (\<lambda>m. Inr (p, m, prov))))))"

section \<open>The account token\<close>

definition hex_digit :: "nat \<Rightarrow> char" where
  "hex_digit n = (if n < 10 then char_of (48 + n) else char_of (87 + n))"

definition hex_byte :: "8 word \<Rightarrow> string" where
  "hex_byte b = [hex_digit (unat b div 16), hex_digit (unat b mod 16)]"

definition hex_text :: "8 word list \<Rightarrow> string" where
  "hex_text bs = concat (map hex_byte bs)"

definition uuid_bytes :: "8 word list \<Rightarrow> 8 word list" where
  "uuid_bytes digest =
     (let b = take 16 digest
      in b[6 := (b ! 6 AND 0x0F) OR 0x50, 8 := (b ! 8 AND 0x3F) OR 0x80])"

definition uuid_text :: "string \<Rightarrow> string" where
  "uuid_text hex = take 8 hex @ ''-'' @ take 4 (drop 8 hex) @ ''-'' @ take 4 (drop 12 hex) @ ''-'' @
     take 4 (drop 16 hex) @ ''-'' @ drop 20 hex"

definition token_secret :: "env \<Rightarrow> string res" where
  "token_secret e = (case trimmed (account_secret e) of
       Some x \<Rightarrow> Inr x
     | None \<Rightarrow> if production e then Inl (Conflict ''Purchase account token is not configured'')
               else Inr ''opod-development'')"

record account_tokens =
  token_apple :: string
  token_google :: string

definition account_token :: "env \<Rightarrow> (string \<Rightarrow> string \<Rightarrow> 8 word list) \<Rightarrow> uid \<Rightarrow> account_tokens res" where
  "account_token e hmac u =
     bindR (token_secret e) (\<lambda>secret.
       let digest = hmac secret u
       in Inr \<lparr>token_apple = uuid_text (hex_text (uuid_bytes digest)), token_google = hex_text digest\<rparr>)"

section \<open>Redirect URLs\<close>

definition web_origins :: "env \<Rightarrow> (string \<Rightarrow> url option) \<Rightarrow> string list res" where
  "web_origins e parse =
     (case trimmed (web_app_url e) of
        None \<Rightarrow> Inr [''https://opod-web.vercel.app'']
      | Some configured \<Rightarrow>
          (case parse configured of
             Some c \<Rightarrow> if url_protocol c \<noteq> ''http:'' \<and> url_protocol c \<noteq> ''https:''
                       then Inl (Conflict ''Web app URL is invalid'')
                       else Inr [''https://opod-web.vercel.app'', url_origin c]
           | None \<Rightarrow> Inl (Conflict ''Web app URL is invalid'')))"

definition checkout_redirect_url :: "env \<Rightarrow> (string \<Rightarrow> url option) \<Rightarrow> string \<Rightarrow> url res" where
  "checkout_redirect_url e parse value =
     bindR (require_some (parse value) (Bad_Request ''Checkout redirect URL is invalid'')) (\<lambda>u.
     bindR (web_origins e parse) (\<lambda>allowed.
     let local = (url_hostname u \<in> {''localhost'', ''127.0.0.1''} \<and> url_protocol u \<in> {''http:'', ''https:''})
     in bindR (ensure (local \<or> url_origin u \<in> set allowed) (Bad_Request ''Checkout redirect origin is invalid''))
          (\<lambda>_. Inr u)))"

definition assert_checkout_redirects :: "env \<Rightarrow> (string \<Rightarrow> url option) \<Rightarrow> string option \<Rightarrow> string option \<Rightarrow> unit res" where
  "assert_checkout_redirects e parse success_url return_url =
     bindR (if truthy success_url
            then bindR (checkout_redirect_url e parse (the success_url)) (\<lambda>u.
              ensure (url_pathname u = ''/profile/payment-return'' \<and> length (url_params u) = 1 \<and>
                      map_of (url_params u) ''checkout_id'' = Some ''{CHECKOUT_ID}'' \<and> url_hash u = [])
                (Bad_Request ''Checkout success URL is invalid''))
            else Inr ()) (\<lambda>_.
     if truthy return_url
     then bindR (checkout_redirect_url e parse (the return_url)) (\<lambda>u.
            ensure (url_pathname u = ''/profile'' \<and> url_search u = [] \<and> url_hash u = [])
              (Bad_Request ''Checkout return URL is invalid''))
     else Inr ())"

section \<open>What a purchase shows\<close>

record payment_summary =
  ys_channel :: payment_channel
  ys_provider :: string
  ys_status :: payment_status
  ys_amount :: "int option"
  ys_currency :: "string option"

record purchase_summary =
  ps_id :: uid
  ps_product :: string
  ps_status :: purchase_status
  ps_credits :: int
  ps_created :: time
  ps_payment :: "payment_summary option"

definition to_purchase :: "purchase_view \<Rightarrow> purchase_summary" where
  "to_purchase = (\<lambda>(q, payment).
     \<lparr>ps_id = pur_id q, ps_product = pur_product_code q, ps_status = pur_status q, ps_credits = pur_credits q,
      ps_created = js_date (pur_created q),
      ps_payment = map_option (\<lambda>y. \<lparr>ys_channel = pay_channel y, ys_provider = pay_provider y,
        ys_status = pay_status y, ys_amount = pay_amount y, ys_currency = pay_currency y\<rparr>) payment\<rparr>)"

section \<open>Web checkouts\<close>

record checkout_input =
  ci_user :: uid
  ci_ip :: "string option"
  ci_success :: "string option"
  ci_return :: "string option"

type_synonym checkout_view = "purchase_summary \<times> string option"

definition claimable :: "uid \<Rightarrow> payment_row \<Rightarrow> bool" where
  "claimable i z \<longleftrightarrow> pay_id z = i \<and> pay_status z = Pay_Pending \<and> pay_checkout_id z = None"

definition claim_payment :: "time \<Rightarrow> uid \<Rightarrow> db \<Rightarrow> db" where
  "claim_payment now i s = s\<lparr>payments := update_where (claimable i)
     (\<lambda>z. z\<lparr>pay_status := Pay_Processing, pay_updated := now\<rparr>) (payments s)\<rparr>"

definition store_checkout :: "time \<Rightarrow> uid \<Rightarrow> checkout_result \<Rightarrow> db \<Rightarrow> (unit \<times> db) res" where
  "store_checkout now i c s =
     bindR (upd_payments (\<lambda>z. pay_id z = i)
              (\<lambda>z. z\<lparr>pay_checkout_id := Some (co_id c), pay_checkout_url := Some (co_url c), pay_updated := now\<rparr>) s) (\<lambda>s1.
     bindR (upd_payments (\<lambda>z. pay_id z = i \<and> pay_status z = Pay_Processing)
              (\<lambda>z. z\<lparr>pay_status := Pay_Pending, pay_updated := now\<rparr>) s1) (\<lambda>s2. Inr ((), s2)))"

definition checkout_request_of :: "checkout_input \<Rightarrow> purchase_row \<Rightarrow> payment_row \<Rightarrow> checkout_request" where
  "checkout_request_of inp q y = \<lparr>cq_purchase = pur_id q, cq_user = ci_user inp, cq_product = pay_provider_product y,
     cq_currency = pay_currency y, cq_ip = ci_ip inp, cq_success = ci_success inp, cq_return = ci_return inp\<rparr>"

text \<open>The provider's checkout: one it already has, else a new one when this request may create it.\<close>

definition provider_checkout :: "env \<Rightarrow> gateway \<Rightarrow> time \<Rightarrow> checkout_request \<Rightarrow> payment_row \<Rightarrow> bool \<Rightarrow> db \<Rightarrow> checkout_result res" where
  "provider_checkout e g now req y claimed s =
     bindR (find_provider_checkout e g (pay_provider y) req (pay_environment y)) (\<lambda>found.
     case found of
       Some c \<Rightarrow> Inr c
     | None \<Rightarrow>
         bindR (if claimed then Inr ()
                else bindR (require_payment_base (pay_id y) s) (\<lambda>current.
                     bindR (assert_payment_environment e current None) (\<lambda>_.
                     ensure (\<not> js_date now - js_date (pay_updated current) < ms 30000)
                       (Conflict ''Checkout is being prepared'')))) (\<lambda>_.
         create_provider_checkout e g (pay_provider y) req (pay_environment y)))"

definition checkout_result_of :: "env \<Rightarrow> uid \<Rightarrow> checkout_result \<Rightarrow> db \<Rightarrow> checkout_view res" where
  "checkout_result_of e p c s =
     bindR (require_purchase p s) (\<lambda>(q, payment).
     bindR (case payment of None \<Rightarrow> Inr () | Some y \<Rightarrow> assert_payment_environment e y None) (\<lambda>_.
     Inr (to_purchase (q, payment),
          Some (case Option.bind payment pay_checkout_url of None \<Rightarrow> co_url c | Some x \<Rightarrow> x))))"

definition ensure_checkout :: "env \<Rightarrow> gateway \<Rightarrow> time \<Rightarrow> checkout_input \<Rightarrow> purchase_view \<Rightarrow> db \<Rightarrow> checkout_view res \<times> db" where
  "ensure_checkout e g now inp = (\<lambda>(q, payment) s.
     case payment of
       None \<Rightarrow> (Inl (Conflict ''Payment not found''), s)
     | Some y \<Rightarrow>
         (case assert_payment_environment e y None of
            Inl err \<Rightarrow> (Inl err, s)
          | Inr _ \<Rightarrow>
              if pay_amount y = None \<or> trimmed (pay_currency y) = None
              then (Inl (Conflict ''Credit product price is unavailable''), s)
              else if truthy (pay_checkout_id y) then (Inr (to_purchase (q, payment), pay_checkout_url y), s)
              else
                (let claimed = list_ex (claimable (pay_id y)) (payments s);
                     s1 = claim_payment now (pay_id y) s
                 in case provider_checkout e g now (checkout_request_of inp q y) y claimed s1 of
                      Inl err \<Rightarrow> (Inl err, s1)
                    | Inr c \<Rightarrow>
                        (case commit (store_checkout now (pay_id y) c) s1 of
                           (Inl err, s2) \<Rightarrow> (Inl err, s2)
                         | (Inr _, s2) \<Rightarrow> (checkout_result_of e (pur_id q) c s2, s2)))))"

definition checkout_purchase_tx :: "env \<Rightarrow> time \<Rightarrow> uid \<Rightarrow> uid \<Rightarrow> uid \<Rightarrow> string \<Rightarrow> string \<Rightarrow> product_row \<Rightarrow> mapping_row \<Rightarrow>
    provider \<Rightarrow> db \<Rightarrow> (purchase_view \<times> db) res" where
  "checkout_purchase_tx e now pid yid u code key product m prov s =
     (case find_purchase (\<lambda>q. pur_user q = u \<and> pur_key q = key) s of
        Some (q, payment) \<Rightarrow>
          bindR (ensure (pur_product_code q = code) (Conflict ''Idempotency key conflict'')) (\<lambda>_. Inr ((q, payment), s))
      | None \<Rightarrow>
          bindR (ins_purchase \<lparr>pur_id = pid, pur_user = u, pur_status = Pur_Pending, pur_credits = prd_credits product,
                   pur_created = now, pur_updated = now, pur_fulfilled = None, pur_key = key,
                   pur_product_code = code, pur_product = prd_id product\<rparr> s) (\<lambda>(q, s1).
          bindR (provider_environment e prov) (\<lambda>environment.
          bindR (ins_payment \<lparr>pay_id = yid, pay_purchase = pid, pay_channel = Web, pay_provider = provider_name prov,
                   pay_status = Pay_Pending, pay_amount = pm_price m,
                   pay_currency = map_option to_upper (trimmed (pm_currency m)), pay_checkout_id = None,
                   pay_checkout_url = None, pay_tx_id = None, pay_tx_key = None,
                   pay_provider_product = pm_provider_product m, pay_environment = Some environment,
                   pay_paid_at = None, pay_refunded_at = None, pay_created = now, pay_updated = now, pay_net = None,
                   pay_tax = None\<rparr> s1) (\<lambda>(y, s2). Inr ((q, Some y), s2)))))"

definition create_checkout :: "env \<Rightarrow> gateway \<Rightarrow> (string \<Rightarrow> url option) \<Rightarrow> time \<Rightarrow> uid \<Rightarrow> uid \<Rightarrow> string \<Rightarrow> string \<Rightarrow>
    checkout_input \<Rightarrow> db \<Rightarrow> checkout_view res \<times> db" where
  "create_checkout e g parse now pid yid code idempotency_key inp s =
     (let key = trim idempotency_key; u = ci_user inp in
      if key = [] then (Inl (Bad_Request ''Idempotency-Key is required''), s)
      else case assert_checkout_redirects e parse (ci_success inp) (ci_return inp) of
        Inl err \<Rightarrow> (Inl err, s)
      | Inr _ \<Rightarrow>
          (case find_purchase (\<lambda>q. pur_user q = u \<and> pur_key q = key) s of
             Some (q, payment) \<Rightarrow>
               if pur_product_code q \<noteq> code then (Inl (Conflict ''Idempotency key conflict''), s)
               else ensure_checkout e g now inp (q, payment) s
           | None \<Rightarrow>
               (case resolve_product e code Web s of
                  Inl err \<Rightarrow> (Inl err, s)
                | Inr (product, m, prov) \<Rightarrow>
                    if pm_price m = None \<or> trimmed (pm_currency m) = None
                    then (Inl (Conflict ''Credit product price is unavailable''), s)
                    else
                      (case commit (checkout_purchase_tx e now pid yid u code key product m prov) s of
                         (Inl err, s1) \<Rightarrow> (Inl err, s1)
                       | (Inr view, s1) \<Rightarrow> ensure_checkout e g now inp view s1))))"

section \<open>In-app purchases\<close>

definition verified_tx :: "time \<Rightarrow> uid \<Rightarrow> uid \<Rightarrow> uid \<Rightarrow> uid \<Rightarrow> uid \<Rightarrow> payment_channel \<Rightarrow> string \<Rightarrow> product_row \<Rightarrow> string \<Rightarrow>
    verified_purchase \<Rightarrow> db \<Rightarrow> (purchase_summary \<times> db) res" where
  "verified_tx now pid yid enid lid u channel code product external v s =
     (case find_payment (\<lambda>y. pay_provider y = vp_provider v \<and> pay_tx_key y = Some (vp_tx_key v)) s of
        Some (y, q) \<Rightarrow>
          bindR (ensure (pur_user q = u) (Conflict ''Purchase already claimed'')) (\<lambda>_.
            Inr (to_purchase (q, Some y), s))
      | None \<Rightarrow>
          bindR (ins_purchase \<lparr>pur_id = pid, pur_user = u, pur_status = Pur_Completed, pur_credits = prd_credits product,
                   pur_created = now, pur_updated = now, pur_fulfilled = Some now,
                   pur_key = vp_provider v @ '':'' @ vp_tx_key v, pur_product_code = code, pur_product = prd_id product\<rparr> s)
            (\<lambda>(q, s1).
          bindR (ins_payment \<lparr>pay_id = yid, pay_purchase = pid, pay_channel = channel, pay_provider = vp_provider v,
                   pay_status = Pay_Paid, pay_amount = vp_amount v, pay_currency = vp_currency v,
                   pay_checkout_id = None, pay_checkout_url = None, pay_tx_id = Some (vp_tx_id v),
                   pay_tx_key = Some (vp_tx_key v), pay_provider_product = external,
                   pay_environment = vp_environment v, pay_paid_at = Some (vp_occurred v), pay_refunded_at = None,
                   pay_created = now, pay_updated = now, pay_net = None, pay_tax = None\<rparr> s1) (\<lambda>(y, s2).
          bindR (ins_payment_entry \<lparr>pl_id = enid, pl_payment = yid, pl_type = Capture, pl_direction = Inflow,
                   pl_amount = vp_amount v, pl_currency = vp_currency v, pl_tx_id = Some (vp_tx_id v),
                   pl_event_id = None, pl_details = None, pl_occurred = vp_occurred v\<rparr> s2) (\<lambda>s3.
          bindR (grant_with_client now lid
                   \<lparr>gi_user = u, gi_amount = Js_Int (prd_credits product), gi_reason = Some ''credit purchase'',
                    gi_kind = Some Paid, gi_purchase = Some pid, gi_promo = None,
                    gi_ref = Some (''credit_purchase:'' @ pid), gi_expires = None\<rparr> s3) (\<lambda>(_, s4).
          Inr (to_purchase (q, Some y), s4))))))"

definition verify_in_app :: "env \<Rightarrow> gateway \<Rightarrow> (string \<Rightarrow> string \<Rightarrow> 8 word list) \<Rightarrow> time \<Rightarrow> uid \<Rightarrow> uid \<Rightarrow> uid \<Rightarrow> uid \<Rightarrow>
    uid \<Rightarrow> payment_channel \<Rightarrow> string \<Rightarrow> string \<Rightarrow> db \<Rightarrow> (purchase_summary \<times> db) res" where
  "verify_in_app e g hmac now pid yid enid lid u channel code proof s =
     bindR (resolve_product e code channel s) (\<lambda>(product, m, prov).
     bindR (account_token e hmac u) (\<lambda>tokens.
     bindR (verify_provider_purchase e g now channel proof
              (if channel = Apple then token_apple tokens else token_google tokens) (pm_provider_product m) s) (\<lambda>v.
     bindR (ensure (\<not> vp_revoked v) (Conflict ''Purchase was revoked'')) (\<lambda>_.
     verified_tx now pid yid enid lid u channel code product (pm_provider_product m) v s))))"

section \<open>Reading purchases\<close>

definition purchase_key :: "purchase_row \<Rightarrow> time \<times> uid" where
  "purchase_key q = (pur_created q, pur_id q)"

definition list_purchases_page :: "uid \<Rightarrow> page_input \<Rightarrow> db \<Rightarrow> purchase_summary page res" where
  "list_purchases_page u inp s =
     bindR (decode_cursor (pg_cursor inp)) (\<lambda>cursor_id.
     bindR (keyset_page purchase_key (\<lambda>q. pur_user q = u) (purchases s) cursor_id (pg_limit inp)) (\<lambda>rows.
     Inr (page_from_rows ps_id (map (\<lambda>q. to_purchase (q, payment_of (pur_id q) s)) rows) (pg_limit inp))))"

definition find_by_checkout :: "uid \<Rightarrow> string \<Rightarrow> db \<Rightarrow> (purchase_row \<times> payment_row) option" where
  "find_by_checkout u checkout_id s =
     (case find (\<lambda>y. pay_checkout_id y = Some checkout_id \<and>
                 list_ex (\<lambda>q. pur_id q = pay_purchase y \<and> pur_user q = u) (purchases s)) (payments s) of
        None \<Rightarrow> None
      | Some y \<Rightarrow> map_option (\<lambda>q. (q, y)) (find (\<lambda>q. pur_id q = pay_purchase y) (purchases s)))"

definition get_by_checkout_id :: "env \<Rightarrow> gateway \<Rightarrow> time \<Rightarrow> fresh \<Rightarrow> uid \<Rightarrow> string \<Rightarrow> db \<Rightarrow> (purchase_summary \<times> db) res" where
  "get_by_checkout_id e g now fr u checkout_id s =
     (let normalized = trim checkout_id in
      bindR (ensure (normalized \<noteq> []) (Not_Found ''Purchase not found'')) (\<lambda>_.
      bindR (require_some (find_by_checkout u normalized s) (Not_Found ''Purchase not found'')) (\<lambda>(q, y).
      bindR (assert_payment_environment e y None) (\<lambda>_.
      if pur_status q = Pur_Pending \<and> pending_payment (pay_status y) then
        bindR (reconcile_provider_checkout e g (pay_provider y) normalized
                 \<lparr>cq_purchase = pur_id q, cq_user = u, cq_product = pay_provider_product y, cq_currency = None,
                  cq_ip = None, cq_success = None, cq_return = None\<rparr> (pay_environment y)) (\<lambda>found.
        case found of
          None \<Rightarrow> Inr (to_purchase (q, Some y), s)
        | Some ev \<Rightarrow>
            bindR (apply_event e now fr (pay_provider y) ev s) (\<lambda>(_, s1).
            bindR (require_purchase (pur_id q) s1) (\<lambda>current. Inr (to_purchase current, s1))))
      else Inr (to_purchase (q, Some y), s)))))"

end
