(* ===== verification/Checkout_Props.thy ===== *)
theory Checkout_Props
  imports Checkout Event_Props
begin

text \<open>
  What buying promises: a receipt is claimed once, by one user; account tokens are well-formed
  version 5 UUIDs; the purchases of a user are listed completely; and buying keeps the ledger invariant.
\<close>

section \<open>In-app purchases\<close>

lemma claimed_payment:
  assumes "verified_tx now pid yid enid lid u channel code product external v s = Inr (r, s')"
  obtains y q where "find_payment (\<lambda>y. pay_provider y = vp_provider v \<and> pay_tx_key y = Some (vp_tx_key v)) s' = Some (y, q)"
    "pur_user q = u" "r = to_purchase (q, Some y)"
proof (cases "find_payment (\<lambda>y. pay_provider y = vp_provider v \<and> pay_tx_key y = Some (vp_tx_key v)) s")
  case (Some x)
  then show ?thesis using assms that by (cases x) (auto simp: verified_tx_def bindR_Inr_iff ensure_Inr_iff)
next
  case None
  from assms None obtain q0 q s1 y0 y s2 en s3 gi rec where
    run: "ins_purchase q0 s = Inr (q, s1)" "pur_id q0 = pid" "pur_user q0 = u"
      "ins_payment y0 s1 = Inr (y, s2)" "pay_purchase y0 = pid" "pay_provider y0 = vp_provider v"
      "pay_tx_key y0 = Some (vp_tx_key v)" and
    rest: "ins_payment_entry en s2 = Inr s3" "grant_with_client now lid gi s3 = Inr (rec, s')"
      "r = to_purchase (q, Some y)"
    by (auto simp: verified_tx_def bindR_Inr_iff)
  have eq: "q0 = q" "y0 = y" using run(1,4) unfolding ins_purchase_Inr_iff ins_payment_Inr_iff by blast+
  note q = run(1-3) [unfolded eq] and y = run(4-7) [unfolded eq]
  have s1: "s1 = s\<lparr>purchases := purchases s @ [q]\<rparr>" "pur_id q \<notin> pur_id ` set (purchases s)"
    using q(1) unfolding ins_purchase_Inr_iff by blast+
  have s2: "s2 = s1\<lparr>payments := payments s1 @ [y]\<rparr>"
    and fresh: "unique_opt (transaction_key y) (map transaction_key (payments s1))"
    using y(1) unfolding ins_payment_Inr_iff by blast+
  have s3: "s3 = s2\<lparr>payment_entries := payment_entries s2 @ [en]\<rparr>"
    using rest(1) unfolding ins_payment_entry_Inr_iff by blast
  have s': "payments s' = payments s3" "purchases s' = purchases s3"
    using rest(2) by (cases rule: grant_with_client_elim; auto simp: ins_ledger_Inr_iff)+
  have old: "\<not> (pay_provider z = vp_provider v \<and> pay_tx_key z = Some (vp_tx_key v))" if "z \<in> set (payments s)" for z
  proof
    assume "pay_provider z = vp_provider v \<and> pay_tx_key z = Some (vp_tx_key v)"
    then have "transaction_key z = transaction_key y" by (simp add: transaction_key_def y)
    moreover have "transaction_key y \<noteq> None" by (simp add: transaction_key_def y)
    then have "transaction_key y \<notin> transaction_key ` set (payments s)" using fresh by (auto simp: unique_opt_def s1(1))
    ultimately show False using imageI [OF that, of transaction_key] by simp
  qed
  have "find (\<lambda>z. (pay_provider z = vp_provider v \<and> pay_tx_key z = Some (vp_tx_key v)) \<and> has_purchase s' (pay_purchase z))
      (payments s') = Some y"
  proof -
    have "find (\<lambda>z. (pay_provider z = vp_provider v \<and> pay_tx_key z = Some (vp_tx_key v)) \<and> has_purchase s' (pay_purchase z))
        (payments s) = None"
      using old by (auto simp: find_None_iff_all)
    moreover have "has_purchase s' pid" using q(2) by (auto simp: has_purchase_def s' s3 s2 s1)
    ultimately show ?thesis using y by (simp add: s' s3 s2 s1 find_append)
  qed
  moreover have "find (\<lambda>x. pur_id x = pid) (purchases s) = None"
  proof -
    have "\<forall>x \<in> set (purchases s). pur_id x \<noteq> pid" using s1(2) q(2) by (metis imageI)
    then show ?thesis by (simp add: find_None_iff_all)
  qed
  then have "find (\<lambda>x. pur_id x = pid) (purchases s') = Some q"
    by (simp add: s' s3 s2 s1 find_append q(2))
  ultimately have "find_payment (\<lambda>y. pay_provider y = vp_provider v \<and> pay_tx_key y = Some (vp_tx_key v)) s' = Some (y, q)"
    by (simp add: find_payment_def y(2))
  then show ?thesis using that q(3) rest(3) by blast
qed

text \<open>C8: A store receipt belongs to the user who verified it first. Verifying the same receipt again, with
  whatever product and at any later time, returns that purchase and changes nothing for the same user,
  and is refused for every other.
\<close>

theorem receipt_claimed_once:
  assumes "verified_tx now pid yid enid lid u channel code product external v s = Inr (r, s')"
    and "vp_provider v' = vp_provider v" "vp_tx_key v' = vp_tx_key v"
  shows "verified_tx now' pid' yid' enid' lid' u' channel' code' product' external' v' s' =
    (if u' = u then Inr (r, s') else Inl (Conflict ''Purchase already claimed''))"
proof -
  obtain y q where "find_payment (\<lambda>y. pay_provider y = vp_provider v \<and> pay_tx_key y = Some (vp_tx_key v)) s' = Some (y, q)"
    "pur_user q = u" "r = to_purchase (q, Some y)"
    using claimed_payment [OF assms(1)] .
  then show ?thesis by (simp add: verified_tx_def assms(2,3))
qed

definition demo_product :: product_row where
  "demo_product = \<lparr>prd_id = ''prod'', prd_code = ''c10'', prd_name = ''Ten'', prd_credits = 10, prd_active = True, prd_order = 1\<rparr>"

definition demo_shop :: db where
  "demo_shop = empty_db\<lparr>users := [demo_user ''ana'', demo_user ''bob''], products := [demo_product]\<rparr>"

definition demo_receipt :: verified_purchase where
  "demo_receipt = \<lparr>vp_provider = ''apple'', vp_channel = Apple, vp_tx_id = ''t1'', vp_tx_key = ''k1'', vp_product = ''ext'',
     vp_environment = Some ''Sandbox'', vp_amount = None, vp_currency = None, vp_occurred = 90, vp_revoked = False\<rparr>"

abbreviation demo_bought :: "(purchase_summary \<times> db) res" where
  "demo_bought \<equiv> verified_tx 100 ''p1'' ''y1'' ''en1'' ''g1'' ''ana'' Apple ''c10'' demo_product ''ext'' demo_receipt demo_shop"

theorem receipt_claimed_once_witness:
  "verified_tx 200 ''p2'' ''y2'' ''en2'' ''g2'' ''bob'' Apple ''c10'' demo_product ''ext'' demo_receipt (after demo_bought)
     = Inl (Conflict ''Purchase already claimed'')"
proof -
  have "\<not> isl demo_bought" by code_simp
  from receipt_claimed_once [OF run_ok [OF this] refl refl, of 200 "''p2''" "''y2''" "''en2''" "''g2''" "''bob''"]
  show ?thesis by simp
qed

section \<open>Account tokens\<close>

lemma hex_char_digit: "n < 16 \<Longrightarrow> hex_char (hex_digit n)"
  by (auto simp: hex_char_def hex_digit_def Let_def)

lemma byte_range: "unat (b :: 8 word) < 256"
proof -
  have "(unsigned b :: nat) < 2 ^ LENGTH(8)" by (rule unsigned_less)
  then show ?thesis by simp
qed

lemma hex_text_chars: "list_all hex_char (hex_text bs)"
proof -
  have "unat (b :: 8 word) div 16 < 16" for b using byte_range [of b] by (simp add: less_mult_imp_div_less)
  then show ?thesis by (induction bs) (auto simp: hex_text_def hex_byte_def intro!: hex_char_digit)
qed

lemma length_hex_text [simp]: "length (hex_text bs) = 2 * length bs"
  by (induction bs) (simp_all add: hex_text_def hex_byte_def)

lemma length_uuid_bytes: "length digest = 32 \<Longrightarrow> length (uuid_bytes digest) = 16"
  by (simp add: uuid_bytes_def Let_def)

lemma uuid_text_is_uuid:
  assumes "length hex = 32" "list_all hex_char hex"
  shows "is_uuid (uuid_text hex)"
proof -
  have h: "hex_char (hex ! i)" if "i < 32" for i using assms that by (simp add: list_all_length)
  have "list_all (\<lambda>i. if i \<in> set uuid_dashes then uuid_text hex ! i = CHR ''-'' else hex_char (uuid_text hex ! i))
      [0,1,2,3,4,5,6,7,8,9,10,11,12,13,14,15,16,17,18,19,20,21,22,23,24,25,26,27,28,29,30,31,32,33,34,35]"
    using h assms(1) by (simp add: uuid_dashes_def uuid_text_def nth_append)
  moreover have "[0..<36] = [0,1,2,3,4,5,6,7,8,9,10,11,12,13,14,15,16,17,18,19,20,21,22,23,24,25,26,27,28,29,30,31,32,33,34,35]"
    by code_simp
  moreover have "length (uuid_text hex) = 36" using assms(1) by (simp add: uuid_text_def)
  ultimately show ?thesis unfolding is_uuid_def by simp
qed

text \<open>The account token for the App Store is a well-formed UUID and the one for Google Play 64
  hexadecimal digits, whatever the user and the secret, for a MAC of 32 bytes as HMAC-SHA256 gives.
\<close>

theorem account_token_format:
  assumes "account_token e hmac u = Inr t" "\<And>secret. length (hmac secret u) = 32"
  shows "is_uuid (token_apple t) \<and> length (token_google t) = 64 \<and> list_all hex_char (token_google t)"
proof -
  obtain secret where t: "token_apple t = uuid_text (hex_text (uuid_bytes (hmac secret u)))"
    "token_google t = hex_text (hmac secret u)"
    using assms(1) by (auto simp: account_token_def bindR_Inr_iff Let_def)
  have "is_uuid (token_apple t)"
    unfolding t using assms(2) by (intro uuid_text_is_uuid hex_text_chars) (simp add: length_uuid_bytes)
  with t assms(2) show ?thesis by (simp add: hex_text_chars)
qed

theorem account_token_format_witness:
  "is_uuid (token_apple (projr (account_token demo_env (\<lambda>_ _. replicate 32 0xAB) ''ana'')))"
proof -
  let ?t = "account_token demo_env (\<lambda>_ _. replicate 32 0xAB) ''ana''"
  have "token_secret demo_env = Inr ''opod-development''" by code_simp
  then have "?t = Inr (projr ?t)" by (simp add: account_token_def Let_def)
  from conjunct1 [OF account_token_format [OF this]] show ?thesis by simp
qed

section \<open>The list of purchases\<close>

interpretation purchase_pages: keyset_listing purchase_key "\<lambda>(u, s) q. pur_user q = u" "\<lambda>(u, s). purchases s"
  "\<lambda>(u, s) q. to_purchase (q, payment_of (pur_id q) s)" ps_id
  "\<lambda>(u, s) c n. list_purchases_page u \<lparr>pg_cursor = c, pg_limit = n\<rparr> s"
  by unfold_locales (auto simp: to_purchase_def purchase_key_def list_purchases_page_def case_prod_beta)

lemma purchase_pages_complete:
  assumes "keyset_ms purchase_key (\<lambda>q. pur_user q = u) (purchases s)" "0 < n"
  defines "rows \<equiv> newest_first purchase_key (\<lambda>q. pur_user q = u) (purchases s)"
  shows "follow_pages (\<lambda>c. list_purchases_page u \<lparr>pg_cursor = c, pg_limit = n\<rparr> s) (Suc (length rows)) None =
    Inr (map (\<lambda>q. to_purchase (q, payment_of (pur_id q) s)) rows)"
  using purchase_pages.all_pages [of "(u, s)" n] assms
  by (simp add: purchase_pages.settled_def purchase_pages.listed_def)

section \<open>The ledger invariant\<close>

lemma verified_tx_ok [ledger_intros]:
  assumes "ledger_ok s" "verified_tx now pid yid enid lid u channel code product external v s = Inr (r, s')"
  shows "ledger_ok s'"
proof (cases "find_payment (\<lambda>y. pay_provider y = vp_provider v \<and> pay_tx_key y = Some (vp_tx_key v)) s")
  case (Some x)
  then show ?thesis using assms by (cases x) (auto simp: verified_tx_def bindR_Inr_iff)
next
  case None
  with assms(2) obtain q0 q s1 y0 y s2 en s3 gi rec where
    "ins_purchase q0 s = Inr (q, s1)" "ins_payment y0 s1 = Inr (y, s2)"
    "ins_payment_entry en s2 = Inr s3" and g: "grant_with_client now lid gi s3 = Inr (rec, s')"
    by (auto simp: verified_tx_def bindR_Inr_iff)
  then have "ledger_ok s3 = ledger_ok s"
    by (intro ledger_ok_cong) (auto simp: ins_purchase_Inr_iff ins_payment_Inr_iff ins_payment_entry_Inr_iff)
  with assms(1) g show ?thesis by (auto intro: grant_with_client_ok)
qed

end
