(* ===== verification/Messages.thy ===== *)
theory Messages
  imports Credits Keyset Experience
begin

text \<open>
  Conversations with characters: \<open>src/messages/messages.service.ts\<close>. Sending a message reserves the price
  of a reply, then stores the message with a reply job in one transaction, and releases the reservation
  when that fails. A message is stamped by the database with microseconds, while the conversation keeps
  its time as a JavaScript \<open>Date\<close>. The behaviour event that a sent message is recorded as runs on its own
  afterwards, with its failures ignored, and touches none of these tables.
\<close>

section \<open>Views\<close>

datatype reply_status = Pending | Replied | Unanswered

fun to_reply_status :: "job_status \<Rightarrow> reply_status" where
  "to_reply_status Queued = Pending"
| "to_reply_status Running = Pending"
| "to_reply_status Completed = Replied"
| "to_reply_status Failed = Unanswered"

record message_view =
  mv_id :: uid
  mv_conversation :: uid
  mv_sender :: sender_type
  mv_body :: string
  mv_experience :: "experience option"
  mv_created :: time
  mv_reply :: "(uid \<times> reply_status) option"

definition job_of :: "message_row \<Rightarrow> db \<Rightarrow> job_row option" where
  "job_of m s = Option.bind (msg_job m) (\<lambda>i. find (\<lambda>j. job_id j = i) (jobs s))"

definition to_message :: "(string \<Rightarrow> url option) \<Rightarrow> message_row \<Rightarrow> job_row option \<Rightarrow> message_view" where
  "to_message parse m job = \<lparr>mv_id = msg_id m, mv_conversation = msg_conversation m, mv_sender = msg_sender m,
     mv_body = msg_body m,
     mv_experience = (if msg_sender m = From_Character then parse_experience parse (msg_experience m) else None),
     mv_created = js_date (msg_created m),
     mv_reply = map_option (\<lambda>j. (job_turn j, to_reply_status (job_status j))) job\<rparr>"

definition view_message :: "(string \<Rightarrow> url option) \<Rightarrow> db \<Rightarrow> message_row \<Rightarrow> message_view" where
  "view_message parse s m = to_message parse m (job_of m s)"

section \<open>Conversations\<close>

definition has_character :: "string \<Rightarrow> db \<Rightarrow> bool" where
  "has_character c s \<longleftrightarrow>
     is_uuid c \<and> list_ex (\<lambda>r. chr_id r = uuid_cast c \<and> chr_status r = Active) (characters s)"

definition find_conversation :: "uid \<Rightarrow> string \<Rightarrow> db \<Rightarrow> conversation_row option" where
  "find_conversation u c s = find (\<lambda>r. cnv_user r = u \<and> cnv_character r = uuid_cast c) (conversations s)"

definition ins_conversation :: "conversation_row \<Rightarrow> db \<Rightarrow> (conversation_row \<times> db) res" where
  "ins_conversation row s =
     bindR (constrained True (cnv_id row \<notin> cnv_id ` set (conversations s))
              (has_user s (cnv_user row) \<and> cnv_character row \<in> chr_id ` set (characters s)))
       (\<lambda>_. Inr (row, s\<lparr>conversations := conversations s @ [row]\<rparr>))"

text \<open>\<open>ON CONFLICT (user, character) DO NOTHING\<close>, then the row that was there.\<close>

definition find_or_create_conversation :: "time \<Rightarrow> uid \<Rightarrow> uid \<Rightarrow> string \<Rightarrow> db \<Rightarrow> (conversation_row \<times> db) res" where
  "find_or_create_conversation now i u c s =
     (case find_conversation u c s of
        Some existing \<Rightarrow> Inr (existing, s)
      | None \<Rightarrow> ins_conversation \<lparr>cnv_id = i, cnv_user = u, cnv_character = uuid_cast c, cnv_created = now,
                  cnv_last_read = None, cnv_last_message = now\<rparr> s)"

definition append_message :: "(string \<Rightarrow> url option) \<Rightarrow> time \<Rightarrow> uid \<Rightarrow> uid \<Rightarrow> sender_type \<Rightarrow> string \<Rightarrow> experience option \<Rightarrow>
    uid option \<Rightarrow> db \<Rightarrow> (message_row \<times> db) res" where
  "append_message parse now i conversation sender body experience job s =
     bindR (ins_message \<lparr>msg_id = i, msg_conversation = conversation, msg_sender = sender, msg_body = body,
              msg_experience = (if sender = From_Character
                then map_option experience_json (parse_experience parse (map_option experience_json experience))
                else None),
              msg_created = now, msg_job = job\<rparr> s) (\<lambda>(m, s1).
       Inr (m, s1\<lparr>conversations := update_where (\<lambda>r. cnv_id r = conversation)
                  (\<lambda>r. r\<lparr>cnv_last_message := js_date now\<rparr>) (conversations s1)\<rparr>))"

section \<open>Sending\<close>

definition log_failure :: "string \<Rightarrow> json \<Rightarrow> db \<Rightarrow> db" where
  "log_failure text context s = s\<lparr>logs := logs s @ [\<lparr>log_source = ''service-backend'', log_level = ''error'',
     log_event = ''MESSAGE_REPLY_FAILED'', log_message = text, log_context = context\<rparr>]\<rparr>"

record message_ids =
  mi_reservation :: uid
  mi_reference :: uid
  mi_conversation :: uid
  mi_message :: uid
  mi_job :: uid

definition send_tx :: "(string \<Rightarrow> url option) \<Rightarrow> time \<Rightarrow> message_ids \<Rightarrow> uid \<Rightarrow> string \<Rightarrow> string \<Rightarrow> string \<Rightarrow> db \<Rightarrow>
    ((uid \<times> message_view) \<times> db) res" where
  "send_tx parse now ids u c body reference s =
     bindR (find_or_create_conversation now (mi_conversation ids) u c s) (\<lambda>(conversation, s1).
     bindR (append_message parse now (mi_message ids) (cnv_id conversation) From_User body None None s1) (\<lambda>(m, s2).
     bindR (ins_job \<lparr>job_id = mi_job ids, job_conversation = cnv_id conversation, job_turn = msg_id m,
              job_status = Queued, job_reservation = Some reference, job_ready = now, job_attempts = 0,
              job_lease = None, job_started = None, job_deadline = None, job_completed = None,
              job_failed = None, job_reason = None, job_created = now\<rparr> s2) (\<lambda>(job, s3).
     let s4 = s3\<lparr>messages := update_where (\<lambda>x. msg_id x = msg_id m) (\<lambda>x. x\<lparr>msg_job := Some (job_id job)\<rparr>) (messages s3)\<rparr>
     in bindR (require_some (find (\<lambda>x. msg_id x = msg_id m) (messages s4)) (Plain_Error ''Created message was not found''))
          (\<lambda>linked. Inr ((cnv_id conversation, view_message parse s4 linked), s4)))))"

text \<open>\<open>releaseReservation(...).catch(() => undefined)\<close>\<close>

definition release_quietly :: "time \<Rightarrow> string \<Rightarrow> db \<Rightarrow> db" where
  "release_quietly now reference s = snd (commit (release_reservation now reference) s)"

definition chat_reservation :: "time \<Rightarrow> message_ids \<Rightarrow> uid \<Rightarrow> db \<Rightarrow> (credit_reservation_record \<times> db) res" where
  "chat_reservation now ids u = reserve_credits now (mi_reservation ids) (mi_reference ids) u Chat_Reply None (Some None)"

text \<open>The text of an error is a parameter: that of a driver error is not in the source.\<close>

definition send_message :: "(string \<Rightarrow> url option) \<Rightarrow> (api_error \<Rightarrow> string) \<Rightarrow> time \<Rightarrow> time \<Rightarrow> time \<Rightarrow> message_ids \<Rightarrow>
    uid \<Rightarrow> string \<Rightarrow> string option \<Rightarrow> db \<Rightarrow> (uid \<times> message_view list) res \<times> db" where
  "send_message parse describe t1 t2 t3 ids u c raw s =
     (case trimmed raw of
        None \<Rightarrow> (Inl (Bad_Request ''Message body is required''), s)
      | Some body \<Rightarrow>
          if \<not> has_character c s then (Inl (Bad_Request ''Character not found''), s)
          else (case commit (chat_reservation t1 ids u) s of
                  (Inl err, s1) \<Rightarrow> (Inl err, s1)
                | (Inr r, s1) \<Rightarrow>
                    (case commit (send_tx parse t2 ids u c body (crr_ref r)) s1 of
                       (Inr (conversation, m), s2) \<Rightarrow> (Inr (conversation, [m]), s2)
                     | (Inl err, s2) \<Rightarrow>
                         (Inl err, log_failure (describe err)
                            (J_Object [(''userId'', J_String u), (''characterId'', J_String c)])
                            (release_quietly t3 (crr_ref r) s2)))))"

section \<open>Retrying a reply\<close>

definition retryable_job :: "uid \<Rightarrow> string \<Rightarrow> db \<Rightarrow> job_row res" where
  "retryable_job u turn s =
     bindR (ensure (turn \<noteq> [] \<and> is_uuid turn) (Not_Found ''Reply job not found'')) (\<lambda>_.
     bindR (require_some (find (\<lambda>j. job_turn j = uuid_cast turn \<and>
              job_conversation j \<in> cnv_id ` set (conversations s)) (jobs s)) (Not_Found ''Reply job not found'')) (\<lambda>job.
     bindR (ensure (list_ex (\<lambda>r. cnv_id r = job_conversation job \<and> cnv_user r = u) (conversations s))
              (Not_Found ''Reply job not found'')) (\<lambda>_.
     bindR (ensure (job_status job = Failed) (Conflict ''Reply job is not retryable'')) (\<lambda>_. Inr job))))"

definition requeue :: "time \<Rightarrow> uid \<Rightarrow> string \<Rightarrow> db \<Rightarrow> bool \<times> db" where
  "requeue now i reference s =
     (let hit = (\<lambda>j. job_id j = i \<and> job_status j = Failed)
      in (list_ex hit (jobs s),
          s\<lparr>jobs := update_where hit (\<lambda>j. j\<lparr>job_status := Queued, job_reservation := Some reference,
             job_ready := js_date now, job_attempts := 0, job_lease := None, job_started := None,
             job_deadline := None, job_failed := None, job_reason := None\<rparr>) (jobs s)\<rparr>))"

definition retry_reply :: "time \<Rightarrow> time \<Rightarrow> time \<Rightarrow> message_ids \<Rightarrow> uid \<Rightarrow> string option \<Rightarrow> db \<Rightarrow>
    (string \<times> reply_status) res \<times> db" where
  "retry_reply t1 t2 t3 ids u raw s =
     (let turn = (case raw of Some x \<Rightarrow> trim x | None \<Rightarrow> []) in
      case retryable_job u turn s of
        Inl err \<Rightarrow> (Inl err, s)
      | Inr job \<Rightarrow>
          (case commit (chat_reservation t1 ids u) s of
             (Inl err, s1) \<Rightarrow> (Inl err, s1)
           | (Inr r, s1) \<Rightarrow>
               (case requeue t2 (job_id job) (crr_ref r) s1 of
                  (True, s2) \<Rightarrow> (Inr (turn, Pending), s2)
                | (False, s2) \<Rightarrow> (Inl (Conflict ''Reply job is not retryable''), release_quietly t3 (crr_ref r) s2))))"

section \<open>Reading\<close>

definition message_key :: "message_row \<Rightarrow> time \<times> uid" where
  "message_key m = (msg_created m, msg_id m)"

definition get_messages_page :: "(string \<Rightarrow> url option) \<Rightarrow> uid \<Rightarrow> string \<Rightarrow> page_input \<Rightarrow> db \<Rightarrow> message_view page res" where
  "get_messages_page parse u c inp s =
     bindR (decode_cursor (pg_cursor inp)) (\<lambda>cursor_id.
     bindR (ensure (has_character c s) (Bad_Request ''Character not found'')) (\<lambda>_.
     case find_conversation u c s of
       None \<Rightarrow> Inr \<lparr>items = [], next_cursor = None\<rparr>
     | Some conversation \<Rightarrow>
         bindR (keyset_page_asc message_key (\<lambda>m. msg_conversation m = cnv_id conversation) (messages s)
                  cursor_id (pg_limit inp)) (\<lambda>rows.
         Inr (page_from_rows mv_id (map (view_message parse s) rows) (pg_limit inp)))))"

record character_view =
  cv_id :: uid
  cv_public :: string
  cv_name :: string
  cv_bio :: string
  cv_interests :: "string list"

record conversation_view =
  sm_id :: uid
  sm_character :: character_view
  sm_last :: "message_view option"
  sm_unread :: int

definition active_character :: "conversation_row \<Rightarrow> db \<Rightarrow> character_row option" where
  "active_character r s = find (\<lambda>c. chr_id c = cnv_character r \<and> chr_status c = Active) (characters s)"

definition unread_count :: "conversation_row \<Rightarrow> db \<Rightarrow> int" where
  "unread_count r s = int (length (filter (\<lambda>m. msg_sender m = From_Character \<and> msg_conversation m = cnv_id r \<and>
     (case cnv_last_read r of None \<Rightarrow> True | Some t \<Rightarrow> js_date t < msg_created m)) (messages s)))"

definition last_message :: "conversation_row \<Rightarrow> db \<Rightarrow> message_row option" where
  "last_message r s =
     (case rev (sort_key message_key (filter (\<lambda>m. msg_conversation m = cnv_id r) (messages s))) of
        [] \<Rightarrow> None
      | m # _ \<Rightarrow> Some m)"

definition to_conversation :: "(string \<Rightarrow> url option) \<Rightarrow> db \<Rightarrow> conversation_row \<Rightarrow> conversation_view" where
  "to_conversation parse s r =
     (let c = the (active_character r s)
      in \<lparr>sm_id = cnv_id r,
          sm_character = \<lparr>cv_id = chr_id c, cv_public = chr_public c, cv_name = chr_name c, cv_bio = chr_bio c,
            cv_interests = (case chr_interests c of None \<Rightarrow> [] | Some xs \<Rightarrow> xs)\<rparr>,
          sm_last = map_option (view_message parse s) (last_message r s), sm_unread = unread_count r s\<rparr>)"

definition conversation_key :: "conversation_row \<Rightarrow> time \<times> uid" where
  "conversation_key r = (cnv_last_message r, cnv_id r)"

definition list_conversations_page :: "(string \<Rightarrow> url option) \<Rightarrow> uid \<Rightarrow> page_input \<Rightarrow> db \<Rightarrow> conversation_view page res" where
  "list_conversations_page parse u inp s =
     bindR (decode_cursor (pg_cursor inp)) (\<lambda>cursor_id.
     bindR (keyset_page conversation_key (\<lambda>r. cnv_user r = u \<and> active_character r s \<noteq> None) (conversations s)
              cursor_id (pg_limit inp)) (\<lambda>rows.
     Inr (page_from_rows sm_id (map (to_conversation parse s) rows) (pg_limit inp))))"

definition mark_conversation_read :: "time \<Rightarrow> uid \<Rightarrow> string \<Rightarrow> db \<Rightarrow> ((uid \<times> time) \<times> db) res" where
  "mark_conversation_read now u c s =
     bindR (ensure (has_character c s) (Bad_Request ''Character not found'')) (\<lambda>_.
     bindR (require_some (find_conversation u c s) (Not_Found ''Conversation not found'')) (\<lambda>conversation.
     Inr ((cnv_id conversation, js_date now),
          s\<lparr>conversations := update_where (\<lambda>r. cnv_id r = cnv_id conversation)
              (\<lambda>r. r\<lparr>cnv_last_read := Some (js_date now)\<rparr>) (conversations s)\<rparr>)))"

end
