(* ===== verification/Reply_Provider.thy ===== *)
theory Reply_Provider
  imports Experience
begin

text \<open>
  The call to the reply agent: \<open>src/messages/message-reply.provider.ts\<close>. The HTTP exchange is a
  parameter: the request that is built for it and the reading of its outcome are the definitions. The
  failures it distinguishes decide whether the worker tries again.
\<close>

record reply_error =
  re_reason :: string
  re_retryable :: bool

record reply_turn =
  rt_role :: string
  rt_content :: string

record reply_input =
  ri_user :: uid
  ri_character :: uid
  ri_conversation :: uid
  ri_turn :: uid
  ri_messages :: "reply_turn list"

record message_reply =
  mr_body :: string
  mr_experience :: "experience option"

section \<open>The request\<close>

definition default_reply_timeout_ms :: rat where
  "default_reply_timeout_ms = 300000"

definition reply_timeout_ms :: "string option \<Rightarrow> rat" where
  "reply_timeout_ms configured =
     (case Option.bind configured number_of of
        Some x \<Rightarrow> if 0 < x then x else default_reply_timeout_ms
      | None \<Rightarrow> default_reply_timeout_ms)"

record reply_request =
  rq_url :: string
  rq_headers :: "(string \<times> string) list"
  rq_body :: json
  rq_timeout :: rat

definition turn_json :: "reply_turn \<Rightarrow> json" where
  "turn_json t = J_Object [(''role'', J_String (rt_role t)), (''content'', J_String (rt_content t))]"

definition reply_request_of :: "string \<Rightarrow> string option \<Rightarrow> reply_input \<Rightarrow> reply_request" where
  "reply_request_of api_url timeout inp =
     \<lparr>rq_url = api_url,
      rq_headers = [(''content-type'', ''application/json''), (''x-opod-character-id'', ri_character inp),
        (''x-opod-history-offset'', ''0''), (''x-opod-session-id'', ri_conversation inp),
        (''x-opod-turn-id'', ri_turn inp), (''x-opod-user-id'', ri_user inp)],
      rq_body = J_Object [(''messages'', J_Array (map turn_json (ri_messages inp)))],
      rq_timeout = reply_timeout_ms timeout\<rparr>"

section \<open>The outcome\<close>

text \<open>The fetch rejects, with an \<open>Error\<close> of some name or with something else, or it gives a status and a body.\<close>

datatype fetch_outcome = Rejected "string option" | Answered int "json option"

definition abort_reason :: "string option \<Rightarrow> string option" where
  "abort_reason name = (if name \<in> {Some ''TimeoutError'', Some ''AbortError''} then Some ''timeout'' else None)"

fun is_record :: "json option \<Rightarrow> bool" where
  "is_record (Some (J_Object kvs)) = True"
| "is_record (Some (J_Array vs)) = True"
| "is_record _ = False"

datatype completion_content = Malformed | Empty | Content string

definition content_from_chat_completion :: "json \<Rightarrow> completion_content" where
  "content_from_chat_completion v =
     (case json_field ''choices'' v of
        Some (J_Array choices) \<Rightarrow>
          (let first = (case choices of [] \<Rightarrow> None | x # _ \<Rightarrow> Some x);
               message = property ''message'' first
           in if \<not> is_record first \<or> \<not> is_record message then Malformed
              else case json_text (property ''content'' message) of
                     Some x \<Rightarrow> if trim x = [] then Empty else Content (trim x)
                   | None \<Rightarrow> Empty)
      | _ \<Rightarrow> Malformed)"

definition reply_failure :: "string \<Rightarrow> bool \<Rightarrow> reply_error + 'a" where
  "reply_failure reason retryable = Inl \<lparr>re_reason = reason, re_retryable = retryable\<rparr>"

definition create_reply :: "(string \<Rightarrow> url option) \<Rightarrow> fetch_outcome \<Rightarrow> reply_error + message_reply" where
  "create_reply parse outcome =
     (case outcome of
        Rejected name \<Rightarrow>
          reply_failure (case abort_reason name of Some r \<Rightarrow> r | None \<Rightarrow> ''network'') True
      | Answered status body \<Rightarrow>
          if status < 200 \<or> 300 \<le> status
          then reply_failure (''http_'' @ show_int status) (500 \<le> status \<or> status = 429)
          else (case body of
                  None \<Rightarrow> reply_failure ''unreadable_body'' True
                | Some payload \<Rightarrow>
                    (case content_from_chat_completion payload of
                       Malformed \<Rightarrow> reply_failure ''invalid_response'' False
                     | Empty \<Rightarrow> reply_failure ''empty_reply'' True
                     | Content text \<Rightarrow>
                         Inr \<lparr>mr_body = text, mr_experience = parse_experience parse (json_field ''opod'' payload)\<rparr>)))"

definition create_message_reply_provider :: "string option \<Rightarrow> string option \<Rightarrow>
    (string \<times> (reply_input \<Rightarrow> reply_request)) res" where
  "create_message_reply_provider agent_url timeout =
     bindR (require_some (trimmed agent_url) (Plain_Error ''OPOD_AGENT_URL is required'')) (\<lambda>api_url.
       Inr (api_url, reply_request_of api_url timeout))"

section \<open>Which failures are tried again\<close>

text \<open>A reply is never blank, and its experience is one that storing and reading keeps.\<close>

lemma trim_nonblank: "trim x \<noteq> [] \<Longrightarrow> trim (trim x) \<noteq> []"
  by simp

lemma create_reply_body: "create_reply parse outcome = Inr r \<Longrightarrow> trim (mr_body r) = mr_body r \<and> mr_body r \<noteq> []"
  by (auto simp: create_reply_def reply_failure_def content_from_chat_completion_def Let_def
      split: fetch_outcome.splits if_splits option.splits completion_content.splits json.splits)

text \<open>Contract violations and the client errors other than 429 are final, everything else is tried again.\<close>

lemma create_reply_retryable:
  "create_reply parse outcome = Inl err \<Longrightarrow>
   \<not> re_retryable err \<longleftrightarrow>
     (case outcome of Rejected _ \<Rightarrow> False
      | Answered status body \<Rightarrow>
          if status < 200 \<or> 300 \<le> status then status < 500 \<and> status \<noteq> 429
          else (\<exists>payload. body = Some payload \<and> content_from_chat_completion payload = Malformed))"
  by (auto simp: create_reply_def reply_failure_def
      split: fetch_outcome.splits if_splits option.splits completion_content.splits)

end
