(* ===== verification/Reply_Worker.thy ===== *)
theory Reply_Worker
  imports Messages Reply_Provider
begin

text \<open>
  The worker that answers messages: \<open>src/messages/message-reply.worker.ts\<close>. A tick picks the first ready
  job of every conversation, claims each under the conversation's lock with a lease, and processes the
  claims: the context of the turn, the agent's reply, and completion or failure. What a worker holds of a
  job between these transactions is the \<open>claimed_job\<close> it got when it claimed it, which the row may have
  moved past since.
\<close>

section \<open>Options\<close>

definition positive_number :: "string option \<Rightarrow> rat \<Rightarrow> rat" where
  "positive_number v fallback =
     (case Option.bind v number_of of Some x \<Rightarrow> if 0 < x then x else fallback | None \<Rightarrow> fallback)"

record worker_options =
  wo_poll_interval :: rat
  wo_concurrency :: rat
  wo_max_attempts :: rat
  wo_deadline :: rat
  wo_lease :: rat
  wo_backoff :: rat
  wo_enabled :: bool

definition message_reply_worker_options :: "(string \<Rightarrow> string option) \<Rightarrow> worker_options" where
  "message_reply_worker_options e =
     \<lparr>wo_poll_interval = positive_number (e ''MESSAGE_REPLY_POLL_INTERVAL_MS'') 1000,
      wo_concurrency = positive_number (e ''MESSAGE_REPLY_CONCURRENCY'') 4,
      wo_max_attempts = positive_number (e ''MESSAGE_REPLY_MAX_ATTEMPTS'') 3,
      wo_deadline = positive_number (e ''MESSAGE_REPLY_DEADLINE_MS'') (15 * 60000),
      wo_lease = positive_number (e ''MESSAGE_REPLY_LEASE_MS'') (6 * 60000),
      wo_backoff = positive_number (e ''MESSAGE_REPLY_RETRY_BACKOFF_MS'') 5000,
      wo_enabled = (e ''MESSAGE_REPLY_WORKER_ENABLED'' \<noteq> Some ''false'')\<rparr>"

text \<open>\<open>new Date(now.getTime() + duration)\<close> drops the fraction of a millisecond.\<close>

definition js_after :: "time \<Rightarrow> rat \<Rightarrow> time" where
  "js_after now duration = js_date now + ms \<lfloor>duration\<rfloor>"

section \<open>Claiming\<close>

record claimed_job =
  cl_id :: uid
  cl_conversation :: uid
  cl_turn :: uid
  cl_created :: time
  cl_attempts :: int
  cl_deadline :: time
  cl_reservation :: "string option"

definition claimable_job :: "time \<Rightarrow> job_row \<Rightarrow> bool" where
  "claimable_job now j \<longleftrightarrow> job_status j = Queued \<and> job_ready j \<le> js_date now \<or>
     job_status j = Running \<and> (case job_lease j of None \<Rightarrow> False | Some t \<Rightarrow> t \<le> js_date now)"

fun first_per_conversation :: "uid list \<Rightarrow> job_row list \<Rightarrow> job_row list" where
  "first_per_conversation seen [] = []"
| "first_per_conversation seen (j # js) =
     (if job_conversation j \<in> set seen then first_per_conversation seen js
      else j # first_per_conversation (job_conversation j # seen) js)"

definition find_claimable :: "worker_options \<Rightarrow> time \<Rightarrow> db \<Rightarrow> (uid \<times> uid) list" where
  "find_claimable opts now s =
     take (nat \<lfloor>wo_concurrency opts\<rfloor>)
       (map (\<lambda>j. (job_id j, job_conversation j))
         (first_per_conversation []
           (sql_limit \<lfloor>wo_concurrency opts * 4\<rfloor>
             (sort_key (\<lambda>j. (job_ready j, job_id j)) (filter (claimable_job now) (jobs s))))))"

text \<open>
  The row is read into JavaScript, so its instants are compared as \<open>Date\<close>s. The flag says whether the
  advisory lock of the conversation was free.
\<close>

definition ready_job :: "time \<Rightarrow> job_row \<Rightarrow> bool" where
  "ready_job now j \<longleftrightarrow> job_status j = Queued \<and> js_date (job_ready j) \<le> js_date now \<or>
     job_status j = Running \<and> (case job_lease j of None \<Rightarrow> False | Some t \<Rightarrow> js_date t \<le> js_date now)"

definition live_job :: "time \<Rightarrow> job_row \<Rightarrow> bool" where
  "live_job now j \<longleftrightarrow> job_status j = Running \<and> (case job_lease j of None \<Rightarrow> False | Some t \<Rightarrow> js_date now < t)"

definition claim :: "worker_options \<Rightarrow> time \<Rightarrow> bool \<Rightarrow> uid \<Rightarrow> uid \<Rightarrow> db \<Rightarrow> (claimed_job option \<times> db) res" where
  "claim opts now lock_free i conversation s =
     (if \<not> lock_free then Inr (None, s)
      else case find (\<lambda>j. job_id j = i) (jobs s) of
        None \<Rightarrow> Inr (None, s)
      | Some job \<Rightarrow>
          if \<not> ready_job now job then Inr (None, s)
          else if list_ex (\<lambda>j. job_conversation j = conversation \<and> live_job now j \<and> job_id j \<noteq> i) (jobs s)
          then Inr (None, s)
          else
            (let started = (case job_started job of None \<Rightarrow> js_date now | Some t \<Rightarrow> js_date t);
                 deadline = (case job_deadline job of None \<Rightarrow> js_after now (wo_deadline opts) | Some t \<Rightarrow> js_date t);
                 run = (\<lambda>j. j\<lparr>job_status := Running, job_attempts := job_attempts j + 1,
                          job_lease := Some (js_after now (wo_lease opts)), job_started := Some started,
                          job_deadline := Some deadline\<rparr>)
             in bindR (constrained (int4 (job_attempts job + 1)) True True) (\<lambda>_.
                Inr (Some \<lparr>cl_id = job_id job, cl_conversation = job_conversation job, cl_turn = job_turn job,
                         cl_created = js_date (job_created job), cl_attempts = job_attempts job + 1,
                         cl_deadline = deadline, cl_reservation = job_reservation job\<rparr>,
                     s\<lparr>jobs := update_where (\<lambda>j. job_id j = i) run (jobs s)\<rparr>))))"

section \<open>The context of a turn\<close>

text \<open>
  Messages are ordered by the job that their turn belongs to, the user's message before the character's,
  whatever their physical time is; what belongs to a later job is left out. Ids are compared with
  \<open>localeCompare\<close>, which on the text of UUIDs is the order of characters.
\<close>

definition group_key :: "message_row \<Rightarrow> job_row option \<Rightarrow> time \<times> uid" where
  "group_key m j = (case j of None \<Rightarrow> (js_date (msg_created m), msg_id m) | Some r \<Rightarrow> (js_date (job_created r), job_id r))"

definition role_order :: "message_row \<Rightarrow> nat" where
  "role_order m = (if msg_sender m = From_User then 0 else 1)"

definition context_key :: "message_row \<times> job_row option \<Rightarrow> (time \<times> uid) \<times> nat \<times> time \<times> uid" where
  "context_key = (\<lambda>(m, j). (group_key m j, role_order m, js_date (msg_created m), msg_id m))"

definition in_scope :: "claimed_job \<Rightarrow> message_row \<Rightarrow> message_row \<times> job_row option \<Rightarrow> bool" where
  "in_scope c turn = (\<lambda>(m, j). case j of
       None \<Rightarrow> (js_date (msg_created m), msg_id m) \<le> (js_date (msg_created turn), msg_id turn)
     | Some r \<Rightarrow> (js_date (job_created r), job_id r) \<le> (cl_created c, cl_id c))"

definition scoped_history :: "claimed_job \<Rightarrow> message_row \<Rightarrow> db \<Rightarrow> message_row list" where
  "scoped_history c turn s =
     map fst (sort_key context_key (filter (in_scope c turn)
       (map (\<lambda>m. (m, job_of m s)) (filter (\<lambda>m. msg_conversation m = cl_conversation c) (messages s)))))"

definition to_turn :: "message_row \<Rightarrow> reply_turn" where
  "to_turn m = \<lparr>rt_role = (if msg_sender m = From_User then ''user'' else ''assistant''), rt_content = msg_body m\<rparr>"

definition reply_context :: "claimed_job \<Rightarrow> db \<Rightarrow> reply_input res" where
  "reply_context c s =
     bindR (require_some (find (\<lambda>m. msg_id m = cl_turn c) (messages s)) (Plain_Error ''Message turn not found'')) (\<lambda>turn.
     bindR (require_some (find (\<lambda>r. cnv_id r = msg_conversation turn) (conversations s))
              (Plain_Error ''Message turn not found'')) (\<lambda>conversation.
     Inr \<lparr>ri_user = cnv_user conversation, ri_character = cnv_character conversation,
          ri_conversation = cl_conversation c, ri_turn = cl_turn c,
          ri_messages = map to_turn (scoped_history c turn s)\<rparr>))"

section \<open>Ending a claim\<close>

definition running_claim :: "claimed_job \<Rightarrow> job_row \<Rightarrow> bool" where
  "running_claim c j \<longleftrightarrow> job_id j = cl_id c \<and> job_status j = Running"

definition complete_tx :: "(string \<Rightarrow> url option) \<Rightarrow> time \<Rightarrow> uid \<Rightarrow> uid \<Rightarrow> claimed_job \<Rightarrow> message_reply \<Rightarrow> db \<Rightarrow>
    (unit \<times> db) res" where
  "complete_tx parse now mid lid c reply s =
     (if \<not> list_ex (running_claim c) (jobs s) then Inr ((), s)
      else
        (let s1 = s\<lparr>jobs := update_where (running_claim c)
               (\<lambda>j. j\<lparr>job_status := Completed, job_completed := Some (js_date now), job_lease := None\<rparr>) (jobs s)\<rparr>
         in bindR (append_message parse now mid (cl_conversation c) From_Character (mr_body reply)
                     (mr_experience reply) (Some (cl_id c)) s1) (\<lambda>(_, s2).
            if truthy (cl_reservation c)
            then bindR (capture_with_client now lid (cl_reservation c) s2) (\<lambda>(_, s3). Inr ((), s3))
            else Inr ((), s2))))"

definition finalize_tx :: "time \<Rightarrow> claimed_job \<Rightarrow> string \<Rightarrow> db \<Rightarrow> (unit \<times> db) res" where
  "finalize_tx now c reason s =
     (if \<not> list_ex (running_claim c) (jobs s) then Inr ((), s)
      else
        (let s1 = s\<lparr>jobs := update_where (running_claim c)
               (\<lambda>j. j\<lparr>job_status := Failed, job_failed := Some (js_date now), job_reason := Some reason,
                      job_lease := None\<rparr>) (jobs s)\<rparr>
         in if truthy (cl_reservation c)
            then bindR (release_in_tx now (the (cl_reservation c)) s1) (\<lambda>(_, s2). Inr ((), s2))
            else Inr ((), s1)))"

definition claim_context :: "claimed_job \<Rightarrow> json" where
  "claim_context c = J_Object [(''jobId'', J_String (cl_id c)), (''conversationId'', J_String (cl_conversation c)),
     (''turnId'', J_String (cl_turn c)), (''attemptCount'', J_Number (show_int (cl_attempts c)))]"

text \<open>The log entry is written whether or not the transaction succeeds.\<close>

definition finalize_failure :: "time \<Rightarrow> claimed_job \<Rightarrow> string \<Rightarrow> db \<Rightarrow> unit res \<times> db" where
  "finalize_failure now c reason s =
     (case commit (finalize_tx now c reason) s of
        (r, s1) \<Rightarrow> (r, log_failure reason (claim_context c) s1))"

definition requeue_later :: "worker_options \<Rightarrow> time \<Rightarrow> claimed_job \<Rightarrow> string \<Rightarrow> db \<Rightarrow> db" where
  "requeue_later opts now c reason s =
     s\<lparr>jobs := update_where (running_claim c)
         (\<lambda>j. j\<lparr>job_status := Queued, job_ready := js_after now (wo_backoff opts), job_lease := None,
                job_reason := Some reason\<rparr>) (jobs s)\<rparr>"

text \<open>What went wrong: the agent's error, or another with the name of its class.\<close>

datatype process_error = Reply_Failed reply_error | Other_Error string

definition handle_failure :: "worker_options \<Rightarrow> time \<Rightarrow> claimed_job \<Rightarrow> process_error \<Rightarrow> db \<Rightarrow> unit res \<times> db" where
  "handle_failure opts now c err s =
     (let retryable = (case err of Reply_Failed e \<Rightarrow> re_retryable e | Other_Error _ \<Rightarrow> False);
          reason = (case err of Reply_Failed e \<Rightarrow> re_reason e | Other_Error name \<Rightarrow> name);
          exhausted = (wo_max_attempts opts \<le> of_int (cl_attempts c));
          expired = (cl_deadline c \<le> js_date now)
      in if \<not> retryable \<or> exhausted \<or> expired
         then finalize_failure now c (if expired \<and> retryable \<and> \<not> exhausted then ''deadline_exceeded'' else reason) s
         else (Inr (), requeue_later opts now c reason s))"

section \<open>Processing\<close>

text \<open>
  The instants are those of the start, of the reply and of the failure. The agent is a function of the
  context; \<open>error_name\<close> gives the name of the class of an error. The database that the reply meets is
  the one the claim left, and what others do meanwhile is the step relation of \<open>Reply_Steps\<close>.
\<close>

definition process_job :: "(string \<Rightarrow> url option) \<Rightarrow> (api_error \<Rightarrow> string) \<Rightarrow> worker_options \<Rightarrow>
    (reply_input \<Rightarrow> fetch_outcome) \<Rightarrow> time \<Rightarrow> time \<Rightarrow> time \<Rightarrow> uid \<Rightarrow> uid \<Rightarrow> claimed_job \<Rightarrow> db \<Rightarrow> unit res \<times> db" where
  "process_job parse error_name opts agent t1 t2 t3 mid lid c s =
     (if cl_deadline c \<le> js_date t1 then finalize_failure t1 c ''deadline_exceeded'' s
      else case reply_context c s of
        Inl err \<Rightarrow> handle_failure opts t3 c (Other_Error (error_name err)) s
      | Inr context \<Rightarrow>
          (case create_reply parse (agent context) of
             Inl err \<Rightarrow> handle_failure opts t3 c (Reply_Failed err) s
           | Inr reply \<Rightarrow>
               (case commit (complete_tx parse t2 mid lid c reply) s of
                  (Inr _, s1) \<Rightarrow> (Inr (), s1)
                | (Inl err, s1) \<Rightarrow> handle_failure opts t3 c (Other_Error (error_name err)) s1)))"

text \<open>
  The claims of a tick, one after another; a claim that throws ends the tick before anything is
  processed. \<open>allSettled\<close> then runs the claims side by side.
\<close>

fun claim_all :: "worker_options \<Rightarrow> time \<Rightarrow> (uid \<Rightarrow> bool) \<Rightarrow> (uid \<times> uid) list \<Rightarrow> db \<Rightarrow> claimed_job list res \<times> db" where
  "claim_all opts now lock_free [] s = (Inr [], s)"
| "claim_all opts now lock_free ((i, conversation) # rest) s =
     (case commit (claim opts now (lock_free conversation) i conversation) s of
        (Inl err, s1) \<Rightarrow> (Inl err, s1)
      | (Inr c, s1) \<Rightarrow>
          (case claim_all opts now lock_free rest s1 of
             (Inl err, s2) \<Rightarrow> (Inl err, s2)
           | (Inr cs, s2) \<Rightarrow> (Inr (case c of None \<Rightarrow> cs | Some x \<Rightarrow> x # cs), s2)))"

definition tick_claims :: "worker_options \<Rightarrow> time \<Rightarrow> (uid \<Rightarrow> bool) \<Rightarrow> db \<Rightarrow> claimed_job list res \<times> db" where
  "tick_claims opts now lock_free s = claim_all opts now lock_free (find_claimable opts now s) s"

end
