(* ===== verification/Reply_Effects.thy ===== *)
theory Reply_Effects
  imports Reply_Worker Credits_Accounts
begin

text \<open>
  What the operations of conversations and of the worker do to the reservations, jobs and messages.
  Reservations are seen through \<open>hold\<close>, the status and the expiry behind a reference.
\<close>

section \<open>Reservations by reference\<close>

definition hold :: "db \<Rightarrow> string \<Rightarrow> (reservation_status \<times> time option) option" where
  "hold s ref = map_option (\<lambda>x. (rsv_status x, rsv_expires x)) (find_reservation s ref)"

lemma hold_cong: "reservations s' = reservations s \<Longrightarrow> hold s' = hold s"
  by (simp add: hold_def find_reservation_def fun_eq_iff)

lemma hold_update:
  assumes ok: "ledger_ok s" and x: "find_reservation s ref = Some x"
  shows "hold (update_reservations (\<lambda>y. rsv_id y = rsv_id x) (set_status now st) s) = (hold s)(ref \<mapsto> (st, rsv_expires x))"
proof
  fix r
  have f: "find_reservation (update_reservations (\<lambda>y. rsv_id y = rsv_id x) (set_status now st) s) r =
      map_option (\<lambda>y. if rsv_id y = rsv_id x then set_status now st y else y) (find_reservation s r)"
    unfolding find_reservation_def update_reservations_def
    by (simp add: find_update_where set_status_def)
  show "hold (update_reservations (\<lambda>y. rsv_id y = rsv_id x) (set_status now st) s) r = ((hold s)(ref \<mapsto> (st, rsv_expires x))) r"
  proof (cases "r = ref")
    case True
    with x f show ?thesis by (simp add: hold_def set_status_def)
  next
    case False
    have "rsv_id y \<noteq> rsv_id x" if y: "find_reservation s r = Some y" for y
    proof
      assume "rsv_id y = rsv_id x"
      then have "y = x"
        using unique_key_eq [OF ledger_okD(4) [OF ok]] find_reservation_in [OF y] find_reservation_in [OF x] by blast
      with find_reservation_in [OF y] find_reservation_in [OF x] False show False by auto
    qed
    with False f show ?thesis by (cases "find_reservation s r") (auto simp: hold_def)
  qed
qed

text \<open>The tables that conversations live on, left alone by every other operation.\<close>

definition same_chat :: "db \<Rightarrow> db \<Rightarrow> bool" where
  "same_chat s s' \<longleftrightarrow> jobs s' = jobs s \<and> messages s' = messages s \<and> conversations s' = conversations s"

lemma same_chat_refl [simp]: "same_chat s s"
  by (simp add: same_chat_def)

lemma same_chat_trans: "same_chat s s' \<Longrightarrow> same_chat s' s'' \<Longrightarrow> same_chat s s''"
  by (simp add: same_chat_def)

lemma same_chat_update_reservations [simp]: "same_chat s (update_reservations p f s)"
  by (simp add: same_chat_def update_reservations_def)

section \<open>Reserving, capturing and releasing\<close>

lemma chat_reservation_effect:
  assumes "chat_reservation t ids u s = Inr (r, s')" "find_reservation s (mi_reference ids) = None"
    and "trim (mi_reference ids) = mi_reference ids" "mi_reference ids \<noteq> []"
  shows "crr_ref r = mi_reference ids" "hold s' = (hold s)(mi_reference ids \<mapsto> (Reserved, None))" "same_chat s s'"
proof -
  have "reserve_tx t (mi_reservation ids) u Chat_Reply (mi_reference ids) (Some None) s = Inr (r, s')"
    using assms by (simp add: chat_reservation_def reserve_credits_def)
  then show "crr_ref r = mi_reference ids" "hold s' = (hold s)(mi_reference ids \<mapsto> (Reserved, None))" "same_chat s s'"
    using assms(2)
    by (cases rule: reserve_tx_elim;
      auto simp: ins_reservation_Inr_iff to_reservation_def same_chat_def hold_def find_reservation_def
        find_append fun_eq_iff split: option.splits)+
qed

lemma release_effect:
  assumes "release_in_tx t ref s = Inr (x, s')" "ledger_ok s"
  shows "same_chat s s'"
    and "hold s' = (case hold s ref of Some (Reserved, e) \<Rightarrow> (hold s)(ref \<mapsto> (Released, e)) | _ \<Rightarrow> hold s)"
proof -
  from assms have "same_chat s s' \<and>
      hold s' = (case hold s ref of Some (Reserved, e) \<Rightarrow> (hold s)(ref \<mapsto> (Released, e)) | _ \<Rightarrow> hold s)"
  proof (cases rule: release_in_tx_elim)
    case (settled e)
    then show ?thesis by (auto simp: hold_def split: reservation_status.splits)
  next
    case (released e)
    with hold_update [OF assms(2) released(1), of t Released] show ?thesis by (simp add: hold_def)
  qed
  then show "same_chat s s'"
    "hold s' = (case hold s ref of Some (Reserved, e) \<Rightarrow> (hold s)(ref \<mapsto> (Released, e)) | _ \<Rightarrow> hold s)" by blast+
qed

lemma release_total: "hold s ref \<noteq> None \<Longrightarrow> \<exists>x s'. release_in_tx t ref s = Inr (x, s')"
  by (auto simp: hold_def release_in_tx_def find_reservation_by_id_def Let_def res_simps bindR_def require_some_def
      find_None_iff_all split: list.splits option.splits dest: find_reservation_in)

lemma write_usage_chat:
  "write_usage row allocs s = Inr s' \<Longrightarrow> same_chat s s' \<and> reservations s' = reservations s"
  by (auto simp: write_usage_def res_simps same_chat_def split: if_splits)

lemma capture_effect:
  assumes "capture_with_client t lid (Some ref) s = Inr (x, s')" "ledger_ok s" "trim ref = ref" "ref \<noteq> []"
  shows "same_chat s s'"
    and "\<exists>e. hold s ref = Some (Captured, e) \<and> hold s' = hold s \<or>
             hold s ref = Some (Reserved, e) \<and> hold s' = (hold s)(ref \<mapsto> (Captured, e))"
proof -
  obtain r where c: "capture_in_tx t lid ref s = Inr ((False, r), s')"
    using assms by (auto simp: capture_with_client_def require_reference_def res_simps split: if_splits)
  from c show "same_chat s s'"
    by (cases rule: capture_in_tx_elim) (auto dest: write_usage_chat simp: same_chat_def update_reservations_def)
  from c show "\<exists>e. hold s ref = Some (Captured, e) \<and> hold s' = hold s \<or>
             hold s ref = Some (Reserved, e) \<and> hold s' = (hold s)(ref \<mapsto> (Captured, e))"
  proof (cases rule: capture_in_tx_elim)
    case (again r)
    then show ?thesis by (auto simp: hold_def)
  next
    case (charged r allocs row s1)
    have n: "0 < rsv_amount r" using charged(1) find_reservation_in ledger_okD(6) [OF assms(2)] by blast
    have ok: "ledger_ok s1"
      using charged(5) allocate_usage_good [OF assms(2) n charged(4)] n
      by (intro ledger_ok_write_usage [OF assms(2) charged(6), of "rsv_amount r"]) simp_all
    have same: "reservations s1 = reservations s" using write_usage_chat [OF charged(6)] by simp
    then have "find_reservation s1 ref = Some r" using charged(1) by (simp add: find_reservation_def)
    from hold_update [OF ok this] show ?thesis
      using charged(1,2,9) hold_cong [OF same] by (auto simp: hold_def)
  qed auto
qed

section \<open>Messages and jobs\<close>

lemma append_message_effect:
  assumes "append_message parse t i cid sender body x job s = Inr (m, s')"
  shows "messages s' = messages s @ [m]" "msg_id m = i" "msg_sender m = sender" "msg_job m = job" "msg_body m = body"
    "msg_conversation m = cid" "msg_created m = t"
    and "i \<notin> msg_id ` set (messages s)"
    and "jobs s' = jobs s" "reservations s' = reservations s" "ledger s' = ledger s" "usages s' = usages s"
    "refunds s' = refunds s"
    and "\<And>k. job = Some k \<Longrightarrow> k \<in> job_id ` set (jobs s)"
  using assms by (auto simp: append_message_def res_simps)

lemma find_or_create_effect:
  assumes "find_or_create_conversation t i u c s = Inr (r, s')"
  shows "s'\<lparr>conversations := conversations s\<rparr> = s" "r \<in> set (conversations s')" "cnv_user r = u" "cnv_character r = uuid_cast c"
  using assms
  by (auto simp: find_or_create_conversation_def find_conversation_def ins_conversation_def res_simps
      split: option.splits dest: find_in_set)

lemma core_fields:
  "s'\<lparr>conversations := c\<rparr> = s \<Longrightarrow> messages s' = messages s \<and> jobs s' = jobs s \<and> reservations s' = reservations s \<and>
     ledger s' = ledger s \<and> usages s' = usages s \<and> refunds s' = refunds s"
  by auto

text \<open>A sent message is stored with a fresh queued job that holds the reservation.\<close>

lemma send_tx_effect:
  assumes "send_tx parse t ids u c body ref s = Inr (x, s')"
  obtains m j where "jobs s' = jobs s @ [j]"
    "messages s' = update_where (\<lambda>y. msg_id y = msg_id m) (\<lambda>y. y\<lparr>msg_job := Some (job_id j)\<rparr>) (messages s @ [m])"
    "msg_sender m = From_User" "msg_job m = None" "msg_id m \<notin> msg_id ` set (messages s)"
    "job_id j = mi_job ids" "job_status j = Queued" "job_reservation j = Some ref"
    "mi_job ids \<notin> job_id ` set (jobs s)" "job_turn j = msg_id m" "msg_body m = body"
    "reservations s' = reservations s" "ledger s' = ledger s" "usages s' = usages s" "refunds s' = refunds s"
proof -
  obtain conv s1 m s2 job s3 where
    a: "find_or_create_conversation t (mi_conversation ids) u c s = Inr (conv, s1)" and
    b: "append_message parse t (mi_message ids) (cnv_id conv) From_User body None None s1 = Inr (m, s2)" and
    d: "ins_job \<lparr>job_id = mi_job ids, job_conversation = cnv_id conv, job_turn = msg_id m,
              job_status = Queued, job_reservation = Some ref, job_ready = t, job_attempts = 0,
              job_lease = None, job_started = None, job_deadline = None, job_completed = None,
              job_failed = None, job_reason = None, job_created = t\<rparr> s2 = Inr (job, s3)" and
    e: "s' = s3\<lparr>messages := update_where (\<lambda>x. msg_id x = msg_id m) (\<lambda>x. x\<lparr>msg_job := Some (job_id job)\<rparr>) (messages s3)\<rparr>"
    using assms unfolding send_tx_def by (auto simp: bindR_Inr_iff require_some_Inr_iff Let_def)
  note core = core_fields [OF find_or_create_effect(1) [OF a]]
  note app = append_message_effect [OF b]
  note ins = iffD1 [OF ins_job_Inr_iff d]
  have "mi_message ids \<notin> msg_id ` set (messages s)" using app(8) core by simp
  moreover have "mi_job ids \<notin> job_id ` set (jobs s)" using ins app(9) core by simp
  ultimately show ?thesis
    by (intro that [of job m]) (simp_all add: e ins app core)
qed

lemma find_hit: "list_ex p xs \<longleftrightarrow> (\<exists>x \<in> set xs. p x)"
  by (simp add: list_ex_iff)

lemma complete_tx_run:
  assumes "complete_tx parse t mid lid c reply s = Inr (x, s')" "list_ex (running_claim c) (jobs s)"
    and "cl_reservation c = Some ref" "ref \<noteq> []"
  shows "\<exists>m s2 y. append_message parse t mid (cl_conversation c) From_Character (mr_body reply) (mr_experience reply) (Some (cl_id c))
      (s\<lparr>jobs := update_where (running_claim c)
        (\<lambda>j. j\<lparr>job_status := Completed, job_completed := Some (js_date t), job_lease := None\<rparr>) (jobs s)\<rparr>) = Inr (m, s2) \<and>
    capture_with_client t lid (Some ref) s2 = Inr (y, s')"
  using assms(1)
  unfolding complete_tx_def Let_def
  by (simp add: assms(2-4) bindR_Inr_iff case_prod_beta)

text \<open>Completing: nothing when the job is not running, else the reply, the charge and the closed job.\<close>

lemma complete_tx_effect:
  assumes "complete_tx parse t mid lid c reply s = Inr (x, s')" "ledger_ok s"
    and "cl_reservation c = Some ref" "trim ref = ref" "ref \<noteq> []"
  obtains (late) "\<not> list_ex (running_claim c) (jobs s)" "s' = s"
  | (replied) m e where "list_ex (running_claim c) (jobs s)"
      "jobs s' = update_where (running_claim c)
         (\<lambda>j. j\<lparr>job_status := Completed, job_completed := Some (js_date t), job_lease := None\<rparr>) (jobs s)"
      "messages s' = messages s @ [m]" "msg_sender m = From_Character" "msg_job m = Some (cl_id c)"
      "msg_body m = mr_body reply" "msg_conversation m = cl_conversation c"
      "hold s ref = Some (Captured, e) \<and> hold s' = hold s \<or>
       hold s ref = Some (Reserved, e) \<and> hold s' = (hold s)(ref \<mapsto> (Captured, e))"
      "ledger_ok s'"
proof (cases "list_ex (running_claim c) (jobs s)")
  case False
  have "complete_tx parse t mid lid c reply s = Inr ((), s)" using False by (simp only: complete_tx_def simp_thms if_True)
  then have "s' = s" using assms(1) by simp
  with False show ?thesis by (rule late)
next
  case True
  let ?s1 = "s\<lparr>jobs := update_where (running_claim c)
     (\<lambda>j. j\<lparr>job_status := Completed, job_completed := Some (js_date t), job_lease := None\<rparr>) (jobs s)\<rparr>"
  obtain m s2 y where
    a: "append_message parse t mid (cl_conversation c) From_Character (mr_body reply) (mr_experience reply) (Some (cl_id c)) ?s1 = Inr (m, s2)"
    and b: "capture_with_client t lid (Some ref) s2 = Inr (y, s')"
    using complete_tx_run [OF assms(1) True assms(3,5)] by blast
  note app = append_message_effect [OF a]
  have ok: "ledger_ok s2" using ledger_ok_cong [of s2 s] app assms(2) by simp
  have h: "hold s2 = hold s" by (rule hold_cong) (use app in simp)
  have chat: "same_chat s2 s'" using capture_effect(1) [OF b ok assms(4,5)] .
  from capture_effect(2) [OF b ok assms(4,5)] obtain e where
    e: "hold s2 ref = Some (Captured, e) \<and> hold s' = hold s2 \<or>
        hold s2 ref = Some (Reserved, e) \<and> hold s' = (hold s2)(ref \<mapsto> (Captured, e))" by blast
  show ?thesis
  proof (rule replied [OF True])
    show "jobs s' = update_where (running_claim c)
         (\<lambda>j. j\<lparr>job_status := Completed, job_completed := Some (js_date t), job_lease := None\<rparr>) (jobs s)"
      using chat app by (simp add: same_chat_def)
    show "messages s' = messages s @ [m]" using chat app by (simp add: same_chat_def)
    show "msg_sender m = From_Character" "msg_job m = Some (cl_id c)" "msg_body m = mr_body reply"
      "msg_conversation m = cl_conversation c" using app by simp_all
    show "ledger_ok s'" using capture_with_client_ok [OF ok b] .
    show "hold s ref = Some (Captured, e) \<and> hold s' = hold s \<or>
       hold s ref = Some (Reserved, e) \<and> hold s' = (hold s)(ref \<mapsto> (Captured, e))"
      using e unfolding h .
  qed
qed

text \<open>Failing: nothing but the log entry when the job is not running or the release fails.\<close>

lemma log_failure_fields:
  "jobs (log_failure x y s) = jobs s" "messages (log_failure x y s) = messages s"
  "conversations (log_failure x y s) = conversations s"
  "reservations (log_failure x y s) = reservations s" "ledger_ok (log_failure x y s) = ledger_ok s"
  by (simp_all add: log_failure_def) (rule ledger_ok_cong; simp)

lemma finalize_effect:
  assumes "finalize_failure t c reason s = (r, s')" "ledger_ok s"
    and "cl_reservation c = Some ref" "ref \<noteq> []" "hold s ref \<noteq> None"
  shows "messages s' = messages s" "conversations s' = conversations s" "ledger_ok s'"
    and "jobs s' = update_where (running_claim c)
           (\<lambda>j. j\<lparr>job_status := Failed, job_failed := Some (js_date t), job_reason := Some reason, job_lease := None\<rparr>) (jobs s)"
    and "hold s' = (if list_ex (running_claim c) (jobs s)
           then (case hold s ref of Some (Reserved, e) \<Rightarrow> (hold s)(ref \<mapsto> (Released, e)) | _ \<Rightarrow> hold s) else hold s)"
    and "r = Inr ()"
proof -
  let ?f = "\<lambda>j. j\<lparr>job_status := Failed, job_failed := Some (js_date t), job_reason := Some reason, job_lease := None\<rparr>"
  let ?s1 = "s\<lparr>jobs := update_where (running_claim c) ?f (jobs s)\<rparr>"
  have ok: "ledger_ok ?s1" using assms(2) ledger_ok_cong [of ?s1 s] by simp
  have h: "hold ?s1 = hold s" by (rule hold_cong) simp
  obtain y s2 where rel: "release_in_tx t ref ?s1 = Inr (y, s2)"
    using release_total [of ?s1 ref t] assms(5) unfolding h by blast
  have idle: "update_where (running_claim c) ?f (jobs s) = jobs s" if "\<not> list_ex (running_claim c) (jobs s)"
    using that by (intro update_where_id) (auto simp: list_ex_iff)
  have tx: "finalize_tx t c reason s = Inr ((), if list_ex (running_claim c) (jobs s) then s2 else s)"
    unfolding finalize_tx_def Let_def assms(3) option.sel rel using assms(4) by simp
  then have s': "s' = log_failure reason (claim_context c) (if list_ex (running_claim c) (jobs s) then s2 else s)" "r = Inr ()"
    using assms(1) by (simp_all add: finalize_failure_def)
  note chat = release_effect(1) [OF rel ok, unfolded same_chat_def]
  show "r = Inr ()" by fact
  show "messages s' = messages s" "conversations s' = conversations s" using chat by (auto simp: s' log_failure_fields)
  show "jobs s' = update_where (running_claim c) ?f (jobs s)" using chat idle by (auto simp: s' log_failure_fields)
  show "ledger_ok s'" using release_in_tx_ok [OF ok rel] assms(2) by (simp add: s' log_failure_fields)
  show "hold s' = (if list_ex (running_claim c) (jobs s)
           then (case hold s ref of Some (Reserved, e) \<Rightarrow> (hold s)(ref \<mapsto> (Released, e)) | _ \<Rightarrow> hold s) else hold s)"
    using release_effect(2) [OF rel ok] unfolding h
    by (simp add: s' hold_cong [of "log_failure x z w" w for x z w] log_failure_fields)
qed

lemma release_quietly_effect:
  assumes "ledger_ok s" "hold s ref = Some (Reserved, e)"
  shows "same_chat s (release_quietly t ref s)" "ledger_ok (release_quietly t ref s)"
    "hold (release_quietly t ref s) = (hold s)(ref \<mapsto> (Released, e))"
proof -
  obtain x s' where r: "release_in_tx t ref s = Inr (x, s')" using release_total [of s ref t] assms(2) by auto
  then have s': "release_quietly t ref s = s'" by (simp add: release_quietly_def release_reservation_def)
  show "same_chat s (release_quietly t ref s)" "ledger_ok (release_quietly t ref s)"
    "hold (release_quietly t ref s) = (hold s)(ref \<mapsto> (Released, e))"
    using release_effect [OF r assms(1)] release_in_tx_ok [OF assms(1) r] assms(2) by (simp_all add: s')
qed

lemma claim_effect:
  assumes "claim opts t lf i cid s = Inr (Some c, s')"
  obtains j where "find (\<lambda>j. job_id j = i) (jobs s) = Some j" "ready_job t j" "lf"
    "\<not> list_ex (\<lambda>k. job_conversation k = cid \<and> live_job t k \<and> job_id k \<noteq> i) (jobs s)"
    "cl_id c = i" "cl_conversation c = job_conversation j" "cl_turn c = job_turn j" "cl_reservation c = job_reservation j"
    "cl_attempts c = job_attempts j + 1"
    "s' = s\<lparr>jobs := update_where (\<lambda>j. job_id j = i) (\<lambda>k. k\<lparr>job_status := Running, job_attempts := job_attempts k + 1,
       job_lease := Some (js_after t (wo_lease opts)),
       job_started := Some (case job_started j of None \<Rightarrow> js_date t | Some x \<Rightarrow> js_date x),
       job_deadline := Some (cl_deadline c)\<rparr>) (jobs s)\<rparr>"
proof -
  obtain j where j: "find (\<lambda>j. job_id j = i) (jobs s) = Some j"
    using assms by (auto simp: claim_def split: if_splits option.splits)
  have "job_id j = i" using find_in_set [OF j] by simp
  with assms j show ?thesis
    by (intro that [of j]) (auto simp: claim_def Let_def res_simps split: if_splits)
qed

end
