(* ===== verification/Reply_Steps.thy ===== *)
theory Reply_Steps
  imports Reply_Effects
begin

text \<open>
  Requests, workers and the rest of the backend running side by side: a step is one transaction of
  \<open>messages.service.ts\<close> or \<open>message-reply.worker.ts\<close>, on any interleaving. Between its transactions a
  request holds the reference it has reserved (\<open>pending\<close>) and a worker the job it has claimed (\<open>held\<close>). The
  list \<open>owner\<close> is not in the program: it records which job each reservation was made for.
\<close>

record reply_state =
  core :: db
  pending :: "string list"
  held :: "claimed_job list"
  owner :: "(string \<times> uid) list"

inductive reply_step :: "reply_state \<Rightarrow> reply_state \<Rightarrow> bool" where
  reserve: "chat_reservation t ids u (core st) = Inr (r, s') \<Longrightarrow>
    find_reservation (core st) (mi_reference ids) = None \<Longrightarrow> is_uuid (mi_reference ids) \<Longrightarrow>
    reply_step st (st\<lparr>core := s', pending := mi_reference ids # pending st\<rparr>)"
| abort: "ref \<in> set (pending st) \<Longrightarrow>
    reply_step st (st\<lparr>core := release_quietly t ref (core st), pending := remove1 ref (pending st)\<rparr>)"
| send: "ref \<in> set (pending st) \<Longrightarrow> send_tx parse t ids u c body ref (core st) = Inr (x, s') \<Longrightarrow>
    reply_step st (st\<lparr>core := s', pending := remove1 ref (pending st), owner := (ref, mi_job ids) # owner st\<rparr>)"
| retry: "ref \<in> set (pending st) \<Longrightarrow> requeue t i ref (core st) = (True, s') \<Longrightarrow>
    reply_step st (st\<lparr>core := s', pending := remove1 ref (pending st), owner := (ref, i) # owner st\<rparr>)"
| take: "claim opts t lock_free i conversation (core st) = Inr (Some c, s') \<Longrightarrow>
    reply_step st (st\<lparr>core := s', held := c # held st\<rparr>)"
| reply: "c \<in> set (held st) \<Longrightarrow> complete_tx parse t mid lid c answer (core st) = Inr (x, s') \<Longrightarrow>
    reply_step st (st\<lparr>core := s', held := remove1 c (held st)\<rparr>)"
| give_up: "c \<in> set (held st) \<Longrightarrow> finalize_failure t c reason (core st) = (x, s') \<Longrightarrow>
    reply_step st (st\<lparr>core := s', held := remove1 c (held st)\<rparr>)"
| later: "c \<in> set (held st) \<Longrightarrow>
    reply_step st (st\<lparr>core := requeue_later opts t c reason (core st), held := remove1 c (held st)\<rparr>)"
| crash: "c \<in> set (held st) \<Longrightarrow> reply_step st (st\<lparr>held := remove1 c (held st)\<rparr>)"
| elsewhere: "jobs s' = jobs (core st) \<Longrightarrow> messages s' = messages (core st) \<Longrightarrow>
    reservations s' = reservations (core st) \<Longrightarrow> ledger_ok s' \<Longrightarrow> reply_step st (st\<lparr>core := s'\<rparr>)"

inductive_cases reply_stepE: "reply_step st st'"

text \<open>A backend that starts without jobs and messages.\<close>

inductive reachable :: "reply_state \<Rightarrow> bool" where
  init: "ledger_ok s \<Longrightarrow> jobs s = [] \<Longrightarrow> messages s = [] \<Longrightarrow>
    reachable \<lparr>core = s, pending = [], held = [], owner = []\<rparr>"
| step: "reachable st \<Longrightarrow> reply_step st st' \<Longrightarrow> reachable st'"

section \<open>The life of a job\<close>

text \<open>The contract: what a status may become. Completed is final.\<close>

fun job_move :: "job_status \<Rightarrow> job_status \<Rightarrow> bool" where
  "job_move Queued Running = True"
| "job_move Running Running = True"
| "job_move Running Queued = True"
| "job_move Running Completed = True"
| "job_move Running Failed = True"
| "job_move Failed Queued = True"
| "job_move _ _ = False"

definition status_of :: "uid \<Rightarrow> db \<Rightarrow> job_status option" where
  "status_of i s = map_option job_status (find (\<lambda>j. job_id j = i) (jobs s))"

definition job_steps :: "db \<Rightarrow> db \<Rightarrow> bool" where
  "job_steps s s' \<longleftrightarrow> (\<forall>i a. status_of i s = Some a \<longrightarrow>
     (\<exists>b. status_of i s' = Some b \<and> (b = a \<or> job_move a b)))"

lemma job_steps_same: "jobs s' = jobs s \<Longrightarrow> job_steps s s'"
  by (auto simp: job_steps_def status_of_def)

lemma job_steps_append: "jobs s' = jobs s @ js \<Longrightarrow> job_steps s s'"
  by (auto simp: job_steps_def status_of_def find_append split: option.splits)

lemma job_steps_update:
  assumes "jobs s' = update_where p f (jobs s)" "\<And>j. job_id (f j) = job_id j"
    and "\<And>j. j \<in> set (jobs s) \<Longrightarrow> p j \<Longrightarrow> job_move (job_status j) (job_status (f j))"
  shows "job_steps s s'"
proof -
  have "find (\<lambda>j. job_id j = i) (jobs s') = map_option (\<lambda>j. if p j then f j else j) (find (\<lambda>j. job_id j = i) (jobs s))" for i
    unfolding assms(1) by (rule find_update_where) (simp add: assms(2))
  note found = this
  show ?thesis unfolding job_steps_def status_of_def
  proof (intro allI impI)
    fix i a
    assume "map_option job_status (find (\<lambda>j. job_id j = i) (jobs s)) = Some a"
    then obtain j where j: "find (\<lambda>j. job_id j = i) (jobs s) = Some j" "job_status j = a" by auto
    show "\<exists>b. map_option job_status (find (\<lambda>j. job_id j = i) (jobs s')) = Some b \<and> (b = a \<or> job_move a b)"
      using assms(3) [of j] find_in_set [OF j(1)] j unfolding found by simp
  qed
qed

section \<open>The invariant\<close>

definition replies_to :: "uid \<Rightarrow> message_row list \<Rightarrow> message_row list" where
  "replies_to i msgs = filter (\<lambda>m. msg_sender m = From_Character \<and> msg_job m = Some i) msgs"

definition captured :: "(string \<Rightarrow> (reservation_status \<times> time option) option) \<Rightarrow> string \<Rightarrow> bool" where
  "captured h r \<longleftrightarrow> (\<exists>e. h r = Some (Captured, e))"

definition charges :: "(string \<times> uid) list \<Rightarrow> (string \<Rightarrow> (reservation_status \<times> time option) option) \<Rightarrow> uid \<Rightarrow> string set" where
  "charges own h i = {r. (r, i) \<in> set own \<and> captured h r}"

text \<open>A job is completed exactly when it has its one reply and its one charge; until then its reservation is held.\<close>

definition job_ok :: "(string \<times> uid) list \<Rightarrow> (string \<Rightarrow> (reservation_status \<times> time option) option) \<Rightarrow>
    message_row list \<Rightarrow> job_row \<Rightarrow> bool" where
  "job_ok own h msgs j \<longleftrightarrow>
     (\<exists>r. job_reservation j = Some r \<and> (r, job_id j) \<in> set own \<and>
        (job_status j = Queued \<or> job_status j = Running \<longrightarrow> h r = Some (Reserved, None))) \<and>
     length (replies_to (job_id j) msgs) = (if job_status j = Completed then 1 else 0) \<and>
     (if job_status j = Completed then \<exists>r. charges own h (job_id j) = {r} else charges own h (job_id j) = {})"

definition reference_ok :: "string \<Rightarrow> bool" where
  "reference_ok r \<longleftrightarrow> r \<noteq> [] \<and> trim r = r"

definition refs_ok :: "reply_state \<Rightarrow> bool" where
  "refs_ok st \<longleftrightarrow> distinct (pending st @ map fst (owner st)) \<and>
     (\<forall>r \<in> set (pending st). hold (core st) r = Some (Reserved, None) \<and> reference_ok r) \<and>
     (\<forall>(r, i) \<in> set (owner st). hold (core st) r \<noteq> None \<and> reference_ok r \<and> i \<in> job_id ` set (jobs (core st)))"

definition held_ok :: "reply_state \<Rightarrow> bool" where
  "held_ok st \<longleftrightarrow> (\<forall>c \<in> set (held st). \<exists>r. cl_reservation c = Some r \<and> (r, cl_id c) \<in> set (owner st))"

definition messages_ok :: "db \<Rightarrow> bool" where
  "messages_ok s \<longleftrightarrow> (\<forall>m \<in> set (messages s). \<forall>i. msg_job m = Some i \<longrightarrow> i \<in> job_id ` set (jobs s))"

definition reply_inv :: "reply_state \<Rightarrow> bool" where
  "reply_inv st \<longleftrightarrow> ledger_ok (core st) \<and> refs_ok st \<and> held_ok st \<and> messages_ok (core st) \<and>
     distinct (map job_id (jobs (core st))) \<and>
     (\<forall>j \<in> set (jobs (core st)). job_ok (owner st) (hold (core st)) (messages (core st)) j)"

lemma reply_invD:
  assumes "reply_inv st"
  shows "ledger_ok (core st)" "refs_ok st" "held_ok st" "messages_ok (core st)" "distinct (map job_id (jobs (core st)))"
    and "j \<in> set (jobs (core st)) \<Longrightarrow> job_ok (owner st) (hold (core st)) (messages (core st)) j"
  using assms unfolding reply_inv_def by auto

lemma refs_okI:
  assumes "distinct (pending st @ map fst (owner st))"
    and "\<And>r. r \<in> set (pending st) \<Longrightarrow> hold (core st) r = Some (Reserved, None) \<and> reference_ok r"
    and "\<And>r i. (r, i) \<in> set (owner st) \<Longrightarrow> hold (core st) r \<noteq> None \<and> reference_ok r \<and> i \<in> job_id ` set (jobs (core st))"
  shows "refs_ok st"
  using assms unfolding refs_ok_def by blast

lemma refs_okD:
  assumes "refs_ok st"
  shows "distinct (pending st @ map fst (owner st))"
    and "r \<in> set (pending st) \<Longrightarrow> hold (core st) r = Some (Reserved, None) \<and> reference_ok r"
    and "(r, i) \<in> set (owner st) \<Longrightarrow> hold (core st) r \<noteq> None \<and> reference_ok r \<and> i \<in> job_id ` set (jobs (core st))"
  using assms unfolding refs_ok_def by blast+

lemma pending_not_owned: "refs_ok st \<Longrightarrow> r \<in> set (pending st) \<Longrightarrow> (r, i) \<notin> set (owner st)"
  using refs_okD(1) [of st] by force

lemma job_ok_cong:
  assumes "\<And>r. (r, job_id j) \<in> set own \<Longrightarrow> h' r = h r"
    and "replies_to (job_id j) msgs' = replies_to (job_id j) msgs"
  shows "job_ok own h' msgs' j = job_ok own h msgs j"
proof -
  have c: "charges own h' (job_id j) = charges own h (job_id j)" using assms(1) by (auto simp: charges_def captured_def)
  have "(\<exists>r. job_reservation j = Some r \<and> (r, job_id j) \<in> set own \<and> (Q \<longrightarrow> h' r = v)) =
      (\<exists>r. job_reservation j = Some r \<and> (r, job_id j) \<in> set own \<and> (Q \<longrightarrow> h r = v))" for Q v
    using assms(1) by auto
  then show ?thesis unfolding job_ok_def c assms(2) by (simp only:)
qed

text \<open>A reservation belongs to one job.\<close>

lemma owner_unique: "refs_ok st \<Longrightarrow> (r, i) \<in> set (owner st) \<Longrightarrow> (r, k) \<in> set (owner st) \<Longrightarrow> i = k"
  using refs_okD(1) [of st] eq_key_imp_eq_value [of "owner st" r i k] by simp

lemma job_okD:
  assumes "job_ok own h msgs j"
  obtains r where "job_reservation j = Some r" "(r, job_id j) \<in> set own"
    "job_status j = Queued \<or> job_status j = Running \<Longrightarrow> h r = Some (Reserved, None)"
  using assms unfolding job_ok_def by auto

lemma job_ok_openD:
  assumes "job_ok own h msgs j" "job_status j \<noteq> Completed"
  shows "replies_to (job_id j) msgs = []" "charges own h (job_id j) = {}"
  using assms unfolding job_ok_def by auto

text \<open>A job that is not completed keeps its place when it moves with a held reservation, or fails.\<close>

lemma job_ok_move:
  assumes "job_ok own h msgs j" "job_status j \<noteq> Completed" "job_id j' = job_id j" "job_status j' \<noteq> Completed"
    and "job_reservation j' = Some r" "(r, job_id j) \<in> set own"
    and "job_status j' = Failed \<or> h r = Some (Reserved, None)"
  shows "job_ok own h msgs j'"
  using job_ok_openD [OF assms(1,2)] assms(3-7) unfolding job_ok_def by auto

text \<open>An id that no job has owns nothing and has no replies.\<close>

lemma no_charges: "i \<notin> snd ` set own \<Longrightarrow> charges own h i = {}"
  by (force simp: charges_def)

lemma owner_jobs: "refs_ok st \<Longrightarrow> snd ` set (owner st) \<subseteq> job_id ` set (jobs (core st))"
  by (force simp: refs_ok_def)

lemma no_replies: "messages_ok s \<Longrightarrow> i \<notin> job_id ` set (jobs s) \<Longrightarrow> replies_to i (messages s) = []"
  by (auto simp: messages_ok_def replies_to_def filter_empty_conv)

lemma replies_to_append: "replies_to i (msgs @ msgs') = replies_to i msgs @ replies_to i msgs'"
  by (simp add: replies_to_def)

lemma replies_to_user:
  assumes "\<And>m. p m \<Longrightarrow> m \<in> set msgs \<Longrightarrow> msg_sender m = From_User" "\<And>m. msg_sender (f m) = msg_sender m"
  shows "replies_to i (update_where p f msgs) = replies_to i msgs"
  using assms(1) by (induction msgs) (auto simp: replies_to_def assms(2))

text \<open>A new owned reference that is not captured changes no charges.\<close>

lemma charges_Cons: "\<not> captured h r \<Longrightarrow> charges ((r, i) # own) h k = charges own h k"
  by (auto simp: charges_def)

lemma job_ok_Cons:
  assumes "job_ok own h msgs j" "\<not> captured h r"
  shows "job_ok ((r, i) # own) h msgs j"
  using assms(1) unfolding job_ok_def charges_Cons [OF assms(2)] by auto

section \<open>Every step keeps it\<close>

lemma uuid_reference: "is_uuid r \<Longrightarrow> reference_ok r"
proof -
  assume u: "is_uuid r"
  have hex: "hex_char c \<Longrightarrow> \<not> js_space c" for c by (auto simp: hex_char_def js_space_def Let_def)
  have "r ! i = CHR ''-'' \<or> hex_char (r ! i)" if "i < 36" for i
    using u that by (simp add: is_uuid_def list_all_iff) (metis atLeastLessThan_iff le0)
  moreover have "\<not> js_space (CHR ''-'')" by code_simp
  ultimately have "\<not> js_space (r ! i)" if "i < 36" for i using that hex by metis
  then have "\<not> js_space x" if "x \<in> set r" for x using that u by (auto simp: in_set_conv_nth is_uuid_def)
  then have "dropWhile js_space r = r" "dropWhile js_space (rev r) = rev r"
    by (simp_all add: dropWhile_eq_self_iff hd_in_set) (metis hd_in_set rev_is_Nil_conv set_rev)+
  with u show ?thesis by (auto simp: reference_ok_def trim_def is_uuid_def)
qed

lemma reply_invI:
  assumes "ledger_ok (core st)" "refs_ok st" "held_ok st" "messages_ok (core st)" "distinct (map job_id (jobs (core st)))"
    and "\<And>j. j \<in> set (jobs (core st)) \<Longrightarrow> job_ok (owner st) (hold (core st)) (messages (core st)) j"
  shows "reply_inv st"
  using assms unfolding reply_inv_def by blast

lemma messages_ok_same: "messages s' = messages s \<Longrightarrow> jobs s' = jobs s \<Longrightarrow> messages_ok s' = messages_ok s"
  by (simp add: messages_ok_def)

lemma inv_reserve:
  assumes inv: "reply_inv st" and r: "chat_reservation t ids u (core st) = Inr (r, s')"
    "find_reservation (core st) (mi_reference ids) = None" "is_uuid (mi_reference ids)"
  shows "reply_inv (st\<lparr>core := s', pending := mi_reference ids # pending st\<rparr>)"
proof -
  let ?ref = "mi_reference ids"
  note ok = uuid_reference [OF r(3), unfolded reference_ok_def]
  note eff = chat_reservation_effect [OF r(1,2) conjunct2 [OF ok] conjunct1 [OF ok]]
  note refs = refs_okD [OF reply_invD(2) [OF inv]]
  have none: "hold (core st) ?ref = None" using r(2) by (simp add: hold_def)
  have new: "r \<noteq> ?ref" if "(r, i) \<in> set (owner st)" for r i using refs(3) [OF that] none by auto
  have newp: "r \<noteq> ?ref" if "r \<in> set (pending st)" for r using refs(2) [OF that] none by auto
  have chat: "jobs s' = jobs (core st)" "messages s' = messages (core st)" using eff(3) by (simp_all add: same_chat_def)
  have old: "hold s' r = hold (core st) r" if "r \<noteq> ?ref" for r using that by (simp add: eff(2))
  define st' where "st' = st\<lparr>core := s', pending := ?ref # pending st\<rparr>"
  have f: "core st' = s'" "pending st' = ?ref # pending st" "held st' = held st" "owner st' = owner st" by (simp_all add: st'_def)
  have "refs_ok st'"
  proof (rule refs_okI, unfold f chat)
    show "distinct ((?ref # pending st) @ map fst (owner st))" using refs(1) by (auto dest: new newp)
  next
    fix r assume "r \<in> set (?ref # pending st)"
    then show "hold s' r = Some (Reserved, None) \<and> reference_ok r"
      using refs(2) [of r] old [of r] newp [of r] uuid_reference [OF r(3)] eff(2) by auto
  next
    fix r i assume "(r, i) \<in> set (owner st)"
    then show "hold s' r \<noteq> None \<and> reference_ok r \<and> i \<in> job_id ` set (jobs (core st))"
      using refs(3) [of r i] old [of r] new [of r i] by simp
  qed
  moreover have "ledger_ok s'"
    using r(1) reply_invD(1) [OF inv] unfolding chat_reservation_def by (rule reserve_credits_ok [rotated])
  moreover have "job_ok (owner st) (hold s') (messages (core st)) j" if "j \<in> set (jobs (core st))" for j
    using reply_invD(6) [OF inv that] job_ok_cong [of j "owner st" "hold s'" "hold (core st)"] old new by metis
  ultimately have "reply_inv st'"
    using reply_invD(3-5) [OF inv] messages_ok_same [OF chat(2,1)]
    by (intro reply_invI) (simp_all add: f chat held_ok_def)
  then show ?thesis by (simp only: st'_def)
qed

lemma refs_ok_step:
  assumes "refs_ok st" "distinct (pending st' @ map fst (owner st'))"
    and "\<And>r. r \<in> set (pending st') \<Longrightarrow> r \<in> set (pending st) \<and> hold (core st') r = hold (core st) r"
    and "\<And>r i. (r, i) \<in> set (owner st') \<Longrightarrow>
      (r, i) \<in> set (owner st) \<or> r \<in> set (pending st) \<and> i \<in> job_id ` set (jobs (core st'))"
    and "\<And>r. hold (core st) r \<noteq> None \<Longrightarrow> hold (core st') r \<noteq> None"
    and "job_id ` set (jobs (core st)) \<subseteq> job_id ` set (jobs (core st'))"
  shows "refs_ok st'"
proof (rule refs_okI)
  fix r i assume a: "(r, i) \<in> set (owner st')"
  from assms(4) [OF a] show "hold (core st') r \<noteq> None \<and> reference_ok r \<and> i \<in> job_id ` set (jobs (core st'))"
    using refs_okD(2,3) [OF assms(1)] assms(5,6) by fastforce
next
  fix r assume "r \<in> set (pending st')"
  from assms(3) [OF this] show "hold (core st') r = Some (Reserved, None) \<and> reference_ok r"
    using refs_okD(2) [OF assms(1)] by simp
qed (fact assms(2))

lemma pending_unowned:
  assumes "refs_ok st" "ref \<in> set (pending st)"
  shows "\<And>i. (ref, i) \<notin> set (owner st)" "ref \<notin> set (remove1 ref (pending st))"
    "distinct (remove1 ref (pending st) @ map fst (owner st))" "ref \<notin> fst ` set (owner st)"
    "hold (core st) ref = Some (Reserved, None)"
proof -
  show "\<And>i. (ref, i) \<notin> set (owner st)" using assms by (rule pending_not_owned)
  show "hold (core st) ref = Some (Reserved, None)" using refs_okD(2) [OF assms] by simp
qed (use refs_okD(1) [OF assms(1)] assms(2) in \<open>auto simp: disjoint_iff dest: notin_set_remove1\<close>)

lemma inv_abort:
  assumes inv: "reply_inv st" and ref: "ref \<in> set (pending st)"
  shows "reply_inv (st\<lparr>core := release_quietly t ref (core st), pending := remove1 ref (pending st)\<rparr>)"
proof -
  note refs = reply_invD(2) [OF inv]
  note own = pending_unowned [OF refs ref]
  note eff = release_quietly_effect [OF reply_invD(1) [OF inv] own(5), of t]
  let ?s' = "release_quietly t ref (core st)"
  define st' where "st' = st\<lparr>core := ?s', pending := remove1 ref (pending st)\<rparr>"
  have f: "core st' = ?s'" "pending st' = remove1 ref (pending st)" "held st' = held st" "owner st' = owner st"
    by (simp_all add: st'_def)
  have chat: "jobs ?s' = jobs (core st)" "messages ?s' = messages (core st)" using eff(1) by (simp_all add: same_chat_def)
  have "refs_ok st'"
  proof (rule refs_ok_step [OF refs], unfold f chat)
    fix r assume "r \<in> set (remove1 ref (pending st))"
    then show "r \<in> set (pending st) \<and> hold ?s' r = hold (core st) r"
      using own(2) set_remove1_subset [of ref "pending st"] by (auto simp: eff(3))
  qed (use own in \<open>auto simp: eff(3)\<close>)
  moreover have "job_ok (owner st) (hold ?s') (messages (core st)) j" if "j \<in> set (jobs (core st))" for j
    using reply_invD(6) [OF inv that] job_ok_cong [of j "owner st" "hold ?s'" "hold (core st)"] own(1) eff(3)
    by (metis fun_upd_apply)
  ultimately have "reply_inv st'"
    using reply_invD(3-5) [OF inv] messages_ok_same [OF chat(2,1)] eff(2)
    by (intro reply_invI) (simp_all add: f chat held_ok_def)
  then show ?thesis by (simp only: st'_def)
qed

lemma held_ok_drop: "held_ok st \<Longrightarrow> owner st' = owner st \<Longrightarrow> set (held st') \<subseteq> set (held st) \<Longrightarrow> held_ok st'"
  unfolding held_ok_def by auto

lemma inv_crash:
  assumes "reply_inv st"
  shows "reply_inv (st\<lparr>held := remove1 c (held st)\<rparr>)"
proof (rule reply_invI)
  show "held_ok (st\<lparr>held := remove1 c (held st)\<rparr>)"
    by (rule held_ok_drop [OF reply_invD(3) [OF assms]]) (simp_all add: set_remove1_subset)
qed (use reply_invD [OF assms] in \<open>simp_all add: refs_ok_def\<close>)

lemma inv_elsewhere:
  assumes inv: "reply_inv st" and s': "jobs s' = jobs (core st)" "messages s' = messages (core st)"
    "reservations s' = reservations (core st)" "ledger_ok s'"
  shows "reply_inv (st\<lparr>core := s'\<rparr>)"
  using inv s' hold_cong [OF s'(3)] messages_ok_same [OF s'(2,1)]
  by (simp add: reply_inv_def refs_ok_def held_ok_def)

lemma inv_later:
  assumes inv: "reply_inv st" and c: "c \<in> set (held st)"
  shows "reply_inv (st\<lparr>core := requeue_later opts t c reason (core st), held := remove1 c (held st)\<rparr>)"
proof -
  let ?s' = "requeue_later opts t c reason (core st)"
  let ?f = "\<lambda>j. j\<lparr>job_status := Queued, job_ready := js_after t (wo_backoff opts), job_lease := None, job_reason := Some reason\<rparr>"
  have jobs: "jobs ?s' = update_where (running_claim c) ?f (jobs (core st))" and msgs: "messages ?s' = messages (core st)"
    and h: "hold ?s' = hold (core st)" and ok: "ledger_ok ?s'"
    using reply_invD(1) [OF inv] ledger_ok_cong [of ?s' "core st"]
    by (simp_all add: requeue_later_def hold_def find_reservation_def fun_eq_iff)
  have ids: "map job_id (jobs ?s') = map job_id (jobs (core st))" by (simp add: jobs)
  then have idset: "job_id ` set (jobs ?s') = job_id ` set (jobs (core st))" by (metis set_map)
  define st' where "st' = st\<lparr>core := ?s', held := remove1 c (held st)\<rparr>"
  have f: "core st' = ?s'" "pending st' = pending st" "held st' = remove1 c (held st)" "owner st' = owner st"
    by (simp_all add: st'_def)
  have "refs_ok st'" by (rule refs_ok_step [OF reply_invD(2) [OF inv]]) (use refs_okD(1) [OF reply_invD(2) [OF inv]] in \<open>simp_all add: f h idset\<close>)
  moreover have "held_ok st'" by (rule held_ok_drop [OF reply_invD(3) [OF inv]]) (simp_all add: f set_remove1_subset)
  moreover have "messages_ok ?s'" using reply_invD(4) [OF inv] by (simp add: messages_ok_def msgs idset)
  moreover have "job_ok (owner st) (hold (core st)) (messages (core st)) j" if "j \<in> set (jobs ?s')" for j
  proof -
    from that [unfolded jobs] obtain q where q: "q \<in> set (jobs (core st))" "j = (if running_claim c q then ?f q else q)"
      by (rule update_whereE)
    note good = reply_invD(6) [OF inv q(1)]
    show ?thesis
    proof (cases "running_claim c q")
      case True
      then have run: "job_status q = Running" by (simp add: running_claim_def)
      from good obtain r where "job_reservation q = Some r" "(r, job_id q) \<in> set (owner st)" "hold (core st) r = Some (Reserved, None)"
        by (rule job_okD) (use run in simp)
      with job_ok_move [OF good, of j r] run True q(2) show ?thesis by simp
    qed (use good q in simp)
  qed
  ultimately have "reply_inv st'"
    using reply_invD(5) [OF inv] ok by (intro reply_invI) (simp_all add: f h msgs ids)
  then show ?thesis by (simp only: st'_def)
qed

lemma inv_take:
  assumes inv: "reply_inv st" and c: "claim opts t lf i cid (core st) = Inr (Some c, s')"
  shows "reply_inv (st\<lparr>core := s', held := c # held st\<rparr>)"
proof -
  from c obtain j0 started where j0: "find (\<lambda>j. job_id j = i) (jobs (core st)) = Some j0" "ready_job t j0"
    and cl: "cl_id c = i" "cl_reservation c = job_reservation j0"
    and s': "s' = core st\<lparr>jobs := update_where (\<lambda>j. job_id j = i) (\<lambda>k. k\<lparr>job_status := Running, job_attempts := job_attempts k + 1,
       job_lease := Some (js_after t (wo_lease opts)), job_started := Some started,
       job_deadline := Some (cl_deadline c)\<rparr>) (jobs (core st))\<rparr>"
    by (rule claim_effect) blast
  let ?f = "\<lambda>k. k\<lparr>job_status := Running, job_attempts := job_attempts k + 1,
       job_lease := Some (js_after t (wo_lease opts)), job_started := Some started,
       job_deadline := Some (cl_deadline c)\<rparr>"
  have jobs: "jobs s' = update_where (\<lambda>j. job_id j = i) ?f (jobs (core st))" and msgs: "messages s' = messages (core st)"
    and h: "hold s' = hold (core st)" and ok: "ledger_ok s'"
    using reply_invD(1) [OF inv] ledger_ok_cong [of s' "core st"]
    by (simp_all add: s' hold_def find_reservation_def fun_eq_iff)
  have ids: "map job_id (jobs s') = map job_id (jobs (core st))" by (simp add: jobs)
  then have idset: "job_id ` set (jobs s') = job_id ` set (jobs (core st))" by (metis set_map)
  define st' where "st' = st\<lparr>core := s', held := c # held st\<rparr>"
  have f: "core st' = s'" "pending st' = pending st" "held st' = c # held st" "owner st' = owner st"
    by (simp_all add: st'_def)
  have j0in: "j0 \<in> set (jobs (core st))" "job_id j0 = i" using find_in_set [OF j0(1)] by simp_all
  have stat: "job_status j0 = Queued \<or> job_status j0 = Running" using j0(2) by (auto simp: ready_job_def)
  from reply_invD(6) [OF inv j0in(1)] obtain r where
    r: "job_reservation j0 = Some r" "(r, job_id j0) \<in> set (owner st)" "hold (core st) r = Some (Reserved, None)"
    by (rule job_okD) (use stat in simp)
  have "refs_ok st'" by (rule refs_ok_step [OF reply_invD(2) [OF inv]]) (use refs_okD(1) [OF reply_invD(2) [OF inv]] in \<open>simp_all add: f h idset\<close>)
  moreover have "held_ok st'" using reply_invD(3) [OF inv] r cl j0in(2) by (simp add: held_ok_def f)
  moreover have "messages_ok s'" using reply_invD(4) [OF inv] by (simp add: messages_ok_def msgs idset)
  moreover have "job_ok (owner st) (hold (core st)) (messages (core st)) j" if "j \<in> set (jobs s')" for j
  proof -
    from that [unfolded jobs] obtain q where q: "q \<in> set (jobs (core st))" "j = (if job_id q = i then ?f q else q)"
      by (rule update_whereE)
    note good = reply_invD(6) [OF inv q(1)]
    show ?thesis
    proof (cases "job_id q = i")
      case True
      then have "q = j0" using unique_key_eq [OF reply_invD(5) [OF inv] q(1) j0in(1)] j0in(2) by simp
      with job_ok_move [OF good, of j r] stat True q(2) r show ?thesis by auto
    qed (use good q in simp)
  qed
  ultimately have "reply_inv st'"
    using reply_invD(5) [OF inv] ok by (intro reply_invI) (simp_all add: f h msgs ids)
  then show ?thesis by (simp only: st'_def)
qed

text \<open>Taking a pending reservation over for a job.\<close>

lemma refs_ok_adopt:
  assumes "refs_ok st" "ref \<in> set (pending st)" "pending st' = remove1 ref (pending st)" "owner st' = (ref, i) # owner st"
    and "hold (core st') = hold (core st)" "i \<in> job_id ` set (jobs (core st'))"
    and "job_id ` set (jobs (core st)) \<subseteq> job_id ` set (jobs (core st'))"
  shows "refs_ok st'"
proof (rule refs_ok_step [OF assms(1)])
  note own = pending_unowned [OF assms(1,2)]
  show "distinct (pending st' @ map fst (owner st'))" using own by (auto simp: assms(3,4))
  show "r \<in> set (pending st) \<and> hold (core st') r = hold (core st) r" if "r \<in> set (pending st')" for r
    using that notin_set_remove1 by (fastforce simp: assms(3,5))
qed (use assms in \<open>auto\<close>)

lemma held_ok_adopt: "held_ok st \<Longrightarrow> held st' = held st \<Longrightarrow> set (owner st) \<subseteq> set (owner st') \<Longrightarrow> held_ok st'"
  unfolding held_ok_def by (metis subsetD)

lemma inv_retry:
  assumes inv: "reply_inv st" and ref: "ref \<in> set (pending st)" and q: "requeue t i ref (core st) = (True, s')"
  shows "reply_inv (st\<lparr>core := s', pending := remove1 ref (pending st), owner := (ref, i) # owner st\<rparr>)"
proof -
  let ?hit = "\<lambda>j. job_id j = i \<and> job_status j = Failed"
  let ?f = "\<lambda>j. j\<lparr>job_status := Queued, job_reservation := Some ref, job_ready := js_date t, job_attempts := 0,
    job_lease := None, job_started := None, job_deadline := None, job_failed := None, job_reason := None\<rparr>"
  note refs = reply_invD(2) [OF inv]
  note own = pending_unowned [OF refs ref]
  have jobs: "jobs s' = update_where ?hit ?f (jobs (core st))" and msgs: "messages s' = messages (core st)"
    and h: "hold s' = hold (core st)" and ok: "ledger_ok s'" and hit: "\<exists>j \<in> set (jobs (core st)). ?hit j"
    using q reply_invD(1) [OF inv] ledger_ok_cong [of s' "core st"]
    by (auto simp: requeue_def Let_def hold_def find_reservation_def fun_eq_iff list_ex_iff)
  have ids: "map job_id (jobs s') = map job_id (jobs (core st))" by (simp add: jobs)
  then have idset: "job_id ` set (jobs s') = job_id ` set (jobs (core st))" by (metis set_map)
  define st' where "st' = st\<lparr>core := s', pending := remove1 ref (pending st), owner := (ref, i) # owner st\<rparr>"
  have f: "core st' = s'" "pending st' = remove1 ref (pending st)" "held st' = held st" "owner st' = (ref, i) # owner st"
    by (simp_all add: st'_def)
  have "refs_ok st'" using hit by (intro refs_ok_adopt [OF refs ref]) (auto simp: f h idset)
  moreover have "held_ok st'" by (rule held_ok_adopt [OF reply_invD(3) [OF inv]]) (auto simp: f)
  moreover have "messages_ok s'" using reply_invD(4) [OF inv] by (simp add: messages_ok_def msgs idset)
  moreover have "job_ok ((ref, i) # owner st) (hold (core st)) (messages (core st)) j" if "j \<in> set (jobs s')" for j
  proof -
    have open_ref: "\<not> captured (hold (core st)) ref" using own(5) by (simp add: captured_def)
    from that [unfolded jobs] obtain q where q: "q \<in> set (jobs (core st))" "j = (if ?hit q then ?f q else q)"
      by (rule update_whereE)
    note good = job_ok_Cons [OF reply_invD(6) [OF inv q(1)] open_ref, of i]
    show ?thesis
    proof (cases "?hit q")
      case True
      with job_ok_move [OF good, of j ref] q(2) own(5) show ?thesis by simp
    qed (use good q in auto)
  qed
  ultimately have "reply_inv st'"
    using reply_invD(5) [OF inv] ok by (intro reply_invI) (simp_all add: f h msgs ids)
  then show ?thesis by (simp only: st'_def)
qed

lemma inv_send:
  assumes inv: "reply_inv st" and ref: "ref \<in> set (pending st)"
    and tx: "send_tx parse t ids u c body ref (core st) = Inr (x, s')"
  shows "reply_inv (st\<lparr>core := s', pending := remove1 ref (pending st), owner := (ref, mi_job ids) # owner st\<rparr>)"
proof -
  from tx obtain m j0 where jobs: "jobs s' = jobs (core st) @ [j0]"
    and msgs: "messages s' = update_where (\<lambda>y. msg_id y = msg_id m) (\<lambda>y. y\<lparr>msg_job := Some (job_id j0)\<rparr>) (messages (core st) @ [m])"
    and m: "msg_sender m = From_User" "msg_job m = None" "msg_id m \<notin> msg_id ` set (messages (core st))"
    and j0: "job_id j0 = mi_job ids" "job_status j0 = Queued" "job_reservation j0 = Some ref"
    and fresh: "mi_job ids \<notin> job_id ` set (jobs (core st))"
    and core: "reservations s' = reservations (core st)" "ledger s' = ledger (core st)" "usages s' = usages (core st)"
      "refunds s' = refunds (core st)"
    by (rule send_tx_effect)
  note refs = reply_invD(2) [OF inv]
  note own = pending_unowned [OF refs ref]
  have h: "hold s' = hold (core st)" using core(1) by (rule hold_cong)
  have ok: "ledger_ok s'" using reply_invD(1) [OF inv] ledger_ok_cong [of s' "core st"] core by simp
  have idset: "job_id ` set (jobs s') = insert (mi_job ids) (job_id ` set (jobs (core st)))" by (simp add: jobs j0)
  have old: "y = m" if "y \<in> set (messages (core st) @ [m])" "msg_id y = msg_id m" for y
    using that m(3) by (auto simp: image_iff)
  have replies: "replies_to k (messages s') = replies_to k (messages (core st))" for k
  proof -
    have "replies_to k (messages s') = replies_to k (messages (core st) @ [m])"
      unfolding msgs by (rule replies_to_user) (use old m(1) in auto)
    then show ?thesis using m(1) by (simp add: replies_to_append replies_to_def)
  qed
  define st' where "st' = st\<lparr>core := s', pending := remove1 ref (pending st), owner := (ref, mi_job ids) # owner st\<rparr>"
  have f: "core st' = s'" "pending st' = remove1 ref (pending st)" "held st' = held st"
    "owner st' = (ref, mi_job ids) # owner st" by (simp_all add: st'_def)
  have "refs_ok st'" by (intro refs_ok_adopt [OF refs ref]) (auto simp: f h idset)
  moreover have "held_ok st'" by (rule held_ok_adopt [OF reply_invD(3) [OF inv]]) (auto simp: f)
  moreover have "messages_ok s'"
    using reply_invD(4) [OF inv] m(2) j0(1) unfolding messages_ok_def idset msgs
    by (auto simp: set_update_where)
  moreover have "distinct (map job_id (jobs s'))" using reply_invD(5) [OF inv] fresh by (simp add: jobs j0)
  moreover have "job_ok ((ref, mi_job ids) # owner st) (hold (core st)) (messages s') j" if "j \<in> set (jobs s')" for j
  proof (cases "j = j0")
    case True
    have "mi_job ids \<notin> snd ` set (owner st)" using owner_jobs [OF refs] fresh by blast
    then have "charges ((ref, mi_job ids) # owner st) (hold (core st)) (mi_job ids) = {}"
      using charges_Cons [of "hold (core st)" ref] own(5) by (simp add: captured_def no_charges)
    with True j0 own(5) no_replies [OF reply_invD(4) [OF inv] fresh] show ?thesis by (simp add: job_ok_def replies)
  next
    case False
    with that have "j \<in> set (jobs (core st))" by (simp add: jobs)
    from job_ok_Cons [OF reply_invD(6) [OF inv this], of ref "mi_job ids"] own(5)
    have "job_ok ((ref, mi_job ids) # owner st) (hold (core st)) (messages (core st)) j" by (simp add: captured_def)
    then show ?thesis by (rule iffD2 [OF job_ok_cong, rotated 2]) (simp_all add: replies)
  qed
  ultimately have "reply_inv st'" using ok by (intro reply_invI) (simp_all add: f h)
  then show ?thesis by (simp only: st'_def)
qed

text \<open>A job that a held claim finds running: its reservation is owned and nothing is charged yet.\<close>

lemma held_claim:
  assumes inv: "reply_inv st" and c: "c \<in> set (held st)"
  obtains r where "cl_reservation c = Some r" "(r, cl_id c) \<in> set (owner st)" "trim r = r" "r \<noteq> []" "hold (core st) r \<noteq> None"
    "\<And>q. q \<in> set (jobs (core st)) \<Longrightarrow> running_claim c q \<Longrightarrow> \<not> captured (hold (core st)) r"
proof -
  from reply_invD(3) [OF inv] c obtain r where r: "cl_reservation c = Some r" "(r, cl_id c) \<in> set (owner st)"
    unfolding held_ok_def by blast
  note own = refs_okD(3) [OF reply_invD(2) [OF inv] r(2)]
  show ?thesis
  proof (rule that [OF r])
    fix q assume q: "q \<in> set (jobs (core st))" "running_claim c q"
    then have "charges (owner st) (hold (core st)) (cl_id c) = {}"
      using job_ok_openD(2) [OF reply_invD(6) [OF inv q(1)]] by (simp add: running_claim_def)
    with r(2) show "\<not> captured (hold (core st)) r" unfolding charges_def by blast
  qed (use own in \<open>simp_all add: reference_ok_def\<close>)
qed

lemma inv_give_up:
  assumes inv: "reply_inv st" and c: "c \<in> set (held st)" and fin: "finalize_failure t c reason (core st) = (x, s')"
  shows "reply_inv (st\<lparr>core := s', held := remove1 c (held st)\<rparr>)"
proof -
  from inv c obtain r where r: "cl_reservation c = Some r" "(r, cl_id c) \<in> set (owner st)" "trim r = r" "r \<noteq> []"
    "hold (core st) r \<noteq> None" and free: "\<And>q. q \<in> set (jobs (core st)) \<Longrightarrow> running_claim c q \<Longrightarrow> \<not> captured (hold (core st)) r"
    by (rule held_claim) blast
  let ?f = "\<lambda>j. j\<lparr>job_status := Failed, job_failed := Some (js_date t), job_reason := Some reason, job_lease := None\<rparr>"
  note eff = finalize_effect [OF fin reply_invD(1) [OF inv] r(1,4,5)]
  have ids: "map job_id (jobs s') = map job_id (jobs (core st))" by (simp add: eff(4))
  then have idset: "job_id ` set (jobs s') = job_id ` set (jobs (core st))" by (metis set_map)
  note refs = reply_invD(2) [OF inv]
  have h: "hold s' k = hold (core st) k" if "k \<noteq> r" for k
    using that unfolding eff(5) by (auto split: option.splits reservation_status.splits)
  have hr: "hold s' r \<noteq> None" "\<not> captured (hold s') r" if "list_ex (running_claim c) (jobs (core st))"
    using r(5) free that unfolding eff(5)
    by (auto simp: captured_def list_ex_iff split: option.splits reservation_status.splits)
  have idle: "hold s' = hold (core st)" if "\<not> list_ex (running_claim c) (jobs (core st))" using that by (simp add: eff(5))
  define st' where "st' = st\<lparr>core := s', held := remove1 c (held st)\<rparr>"
  have f: "core st' = s'" "pending st' = pending st" "held st' = remove1 c (held st)" "owner st' = owner st"
    by (simp_all add: st'_def)
  have "refs_ok st'"
  proof (rule refs_ok_step [OF refs], unfold f)
    fix k assume "k \<in> set (pending st)"
    then show "k \<in> set (pending st) \<and> hold s' k = hold (core st) k"
      using pending_not_owned [OF refs, of k] r(2) h [of k] by blast
  next
    fix k assume "hold (core st) k \<noteq> None"
    then show "hold s' k \<noteq> None" using h [of k] hr(1) idle by metis
  qed (use refs_okD(1) [OF refs] idset in simp_all)
  moreover have "held_ok st'" by (rule held_ok_drop [OF reply_invD(3) [OF inv]]) (simp_all add: f set_remove1_subset)
  moreover have "messages_ok s'" using reply_invD(4) [OF inv] by (simp add: messages_ok_def eff(1) idset)
  moreover have "job_ok (owner st) (hold s') (messages (core st)) j" if "j \<in> set (jobs s')" for j
  proof -
    from that [unfolded eff(4)] obtain q where q: "q \<in> set (jobs (core st))" "j = (if running_claim c q then ?f q else q)"
      by (rule update_whereE)
    note good = reply_invD(6) [OF inv q(1)]
    show ?thesis
    proof (cases "running_claim c q")
      case True
      then have run: "job_status q = Running" "job_id q = cl_id c" by (simp_all add: running_claim_def)
      have "\<not> captured (hold s') k" if "(k, cl_id c) \<in> set (owner st)" for k
      proof (cases "k = r")
        case True
        with hr(2) q(1) \<open>running_claim c q\<close> show ?thesis by (auto simp: list_ex_iff)
      next
        case False
        with job_ok_openD(2) [OF good] run that h [of k] show ?thesis by (auto simp: charges_def captured_def)
      qed
      then have "charges (owner st) (hold s') (cl_id c) = {}" unfolding charges_def by blast
      moreover obtain k where "job_reservation q = Some k" "(k, job_id q) \<in> set (owner st)" using good by (rule job_okD)
      ultimately show ?thesis using job_ok_openD(1) [OF good] run True q(2) by (simp add: job_ok_def)
    next
      case False
      have "hold s' k = hold (core st) k" if "(k, job_id q) \<in> set (owner st)" for k
      proof (cases "list_ex (running_claim c) (jobs (core st))")
        case True
        then obtain p where p: "p \<in> set (jobs (core st))" "running_claim c p" by (auto simp: list_ex_iff)
        have "job_id q \<noteq> cl_id c"
          using unique_key_eq [OF reply_invD(5) [OF inv] q(1) p(1)] p(2) False by (auto simp: running_claim_def)
        then show ?thesis using owner_unique [OF refs that, of "cl_id c"] r(2) h [of k] by blast
      qed (simp add: idle)
      then have "job_ok (owner st) (hold s') (messages (core st)) q" using good job_ok_cong by metis
      then show ?thesis using False q(2) by simp
    qed
  qed
  ultimately have "reply_inv st'"
    using reply_invD(5) [OF inv] eff(3) by (intro reply_invI) (simp_all add: f eff(1) ids)
  then show ?thesis by (simp only: st'_def)
qed

lemma inv_reply:
  assumes inv: "reply_inv st" and c: "c \<in> set (held st)"
    and tx: "complete_tx parse t mid lid c answer (core st) = Inr (x, s')"
  shows "reply_inv (st\<lparr>core := s', held := remove1 c (held st)\<rparr>)"
proof -
  from inv c obtain r where r: "cl_reservation c = Some r" "(r, cl_id c) \<in> set (owner st)" "trim r = r" "r \<noteq> []"
    "hold (core st) r \<noteq> None" and free: "\<And>q. q \<in> set (jobs (core st)) \<Longrightarrow> running_claim c q \<Longrightarrow> \<not> captured (hold (core st)) r"
    by (rule held_claim) blast
  from tx reply_invD(1) [OF inv] r(1,3,4) show ?thesis
  proof (cases rule: complete_tx_effect)
    case late
    then show ?thesis using inv_crash [OF inv, of c] by simp
  next
    case (replied m e)
    let ?f = "\<lambda>j. j\<lparr>job_status := Completed, job_completed := Some (js_date t), job_lease := None\<rparr>"
    from replied(1) obtain p where p: "p \<in> set (jobs (core st))" "running_claim c p" by (auto simp: list_ex_iff)
    have h: "hold s' = (hold (core st))(r \<mapsto> (Captured, e))"
      using replied(8) free [OF p] by (auto simp: captured_def)
    have ids: "map job_id (jobs s') = map job_id (jobs (core st))" by (simp add: replied(2))
    then have idset: "job_id ` set (jobs s') = job_id ` set (jobs (core st))" by (metis set_map)
    note refs = reply_invD(2) [OF inv]
    have same: "running_claim c q \<longleftrightarrow> job_id q = cl_id c" if "q \<in> set (jobs (core st))" for q
      using unique_key_eq [OF reply_invD(5) [OF inv] that p(1)] p(2) by (auto simp: running_claim_def)
    define st' where "st' = st\<lparr>core := s', held := remove1 c (held st)\<rparr>"
    have f: "core st' = s'" "pending st' = pending st" "held st' = remove1 c (held st)" "owner st' = owner st"
      by (simp_all add: st'_def)
    have "refs_ok st'"
    proof (rule refs_ok_step [OF refs], unfold f)
      fix k assume "k \<in> set (pending st)"
      then show "k \<in> set (pending st) \<and> hold s' k = hold (core st) k"
        using pending_not_owned [OF refs, of k "cl_id c"] r(2) by (auto simp: h)
    qed (use refs_okD(1) [OF refs] idset in \<open>simp_all add: h\<close>)
    moreover have "held_ok st'" by (rule held_ok_drop [OF reply_invD(3) [OF inv]]) (simp_all add: f set_remove1_subset)
    moreover have "messages_ok s'"
      using reply_invD(4) [OF inv] imageI [OF p(1), of job_id] p(2) unfolding messages_ok_def idset replied(3)
      by (auto simp: replied(5) running_claim_def)
    moreover have "job_ok (owner st) (hold s') (messages s') j" if "j \<in> set (jobs s')" for j
    proof -
      from that [unfolded replied(2)] obtain q where q: "q \<in> set (jobs (core st))" "j = (if running_claim c q then ?f q else q)"
        by (rule update_whereE)
      note good = reply_invD(6) [OF inv q(1)]
      show ?thesis
      proof (cases "running_claim c q")
        case True
        then have run: "job_status q = Running" "job_id q = cl_id c" by (simp_all add: running_claim_def)
        have none: "charges (owner st) (hold (core st)) (cl_id c) = {}" "replies_to (cl_id c) (messages (core st)) = []"
          using job_ok_openD [OF good] run by simp_all
        have "charges (owner st) (hold s') (cl_id c) = {r}"
          using none(1) r(2) by (auto simp: charges_def captured_def h)
        moreover have "replies_to (cl_id c) (messages s') = [m]"
          using none(2) replied(4,5) by (simp add: replied(3) replies_to_append) (simp add: replies_to_def)
        moreover obtain k where "job_reservation q = Some k" "(k, job_id q) \<in> set (owner st)" using good by (rule job_okD)
        ultimately show ?thesis using run True q(2) by (simp add: job_ok_def)
      next
        case False
        then have other: "job_id q \<noteq> cl_id c" using same [OF q(1)] by simp
        have "job_ok (owner st) (hold s') (messages s') q"
        proof (rule iffD2 [OF job_ok_cong good])
          show "hold s' k = hold (core st) k" if "(k, job_id q) \<in> set (owner st)" for k
            using owner_unique [OF refs that, of "cl_id c"] r(2) other by (auto simp: h)
          show "replies_to (job_id q) (messages s') = replies_to (job_id q) (messages (core st))"
            using other replied(5) by (simp add: replied(3) replies_to_append) (simp add: replies_to_def)
        qed
        then show ?thesis using False q(2) by simp
      qed
    qed
    ultimately have "reply_inv st'"
      using reply_invD(5) [OF inv] replied(9) by (intro reply_invI) (simp_all add: f ids)
    then show ?thesis by (simp only: st'_def)
  qed
qed

lemma reply_step_inv: "reply_step st st' \<Longrightarrow> reply_inv st \<Longrightarrow> reply_inv st'"
  by (induction rule: reply_step.induct)
    (blast intro: inv_reserve inv_abort inv_send inv_retry inv_take inv_reply inv_give_up inv_later inv_crash inv_elsewhere)+

lemma reachable_inv: "reachable st \<Longrightarrow> reply_inv st"
proof (induction rule: reachable.induct)
  case (init s)
  then show ?case by (auto simp: reply_inv_def refs_ok_def held_ok_def messages_ok_def)
qed (rule reply_step_inv)

end
