(* ===== verification/Reply_Demo.thy ===== *)
theory Reply_Demo
  imports Reply_Steps Credits_Props
begin

text \<open>
  A concrete run, step by step: a user sends a message, a worker answers it; and the other way on, in which
  the first worker stalls, a second one takes the job over and gives up, the user retries, a third worker
  claims the job, and then the first one comes back and gives up. The user retries once more and is answered. Apart from
  that, a second message that is sent before the first is answered.
\<close>

definition demo_uuid :: "char \<Rightarrow> uid" where
  "demo_uuid d = d # ''0000000-0000-7000-8000-000000000000''"

definition demo_persona :: character_row where
  "demo_persona = \<lparr>chr_id = demo_uuid (CHR ''c''), chr_public = ''mina'', chr_name = ''Mina'', chr_bio = [],
     chr_interests = None, chr_status = Active, chr_created = 5,
     chr_crop_x = 1 / 2, chr_crop_y = 1 / 2, chr_crop_zoom = 1, chr_image = None, chr_timezone = None\<rparr>"

definition demo_chat :: db where
  "demo_chat = demo_wallet\<lparr>characters := [demo_persona]\<rparr>"

definition demo_ids :: "char \<Rightarrow> message_ids" where
  "demo_ids d = \<lparr>mi_reservation = d # ''-reservation'', mi_reference = demo_uuid d, mi_conversation = d # ''-conversation'',
     mi_message = d # ''-message'', mi_job = d # ''-job''\<rparr>"

definition demo_options :: worker_options where
  "demo_options = \<lparr>wo_poll_interval = 1000, wo_concurrency = 4, wo_max_attempts = 3, wo_deadline = 900000,
     wo_lease = 360000, wo_backoff = 5000, wo_enabled = True\<rparr>"

definition demo_reply :: message_reply where
  "demo_reply = \<lparr>mr_body = ''hello'', mr_experience = None\<rparr>"

definition demo_job :: uid where "demo_job = CHR ''a'' # ''-job''"
definition demo_room :: uid where "demo_room = CHR ''a'' # ''-conversation''"

abbreviation (input) no_url :: "string \<Rightarrow> url option" where "no_url \<equiv> \<lambda>_. None"

section \<open>Sent and answered\<close>

definition chat1 :: db where "chat1 = after (chat_reservation 100 (demo_ids (CHR ''a'')) ''ana'' demo_chat)"
definition chat2 :: db where
  "chat2 = after (send_tx no_url 2000 (demo_ids (CHR ''a'')) ''ana'' (demo_uuid (CHR ''c'')) ''hi'' (demo_uuid (CHR ''a'')) chat1)"
definition claim1 :: claimed_job where
  "claim1 = the (out (claim demo_options 3000 True demo_job demo_room chat2))"
definition chat3 :: db where "chat3 = after (claim demo_options 3000 True demo_job demo_room chat2)"
definition chat4 :: db where "chat4 = after (complete_tx no_url 4000 ''reply'' ''usage'' claim1 demo_reply chat3)"

lemma demo_runs:
  "\<not> isl (chat_reservation 100 (demo_ids (CHR ''a'')) ''ana'' demo_chat)"
  "\<not> isl (send_tx no_url 2000 (demo_ids (CHR ''a'')) ''ana'' (demo_uuid (CHR ''c'')) ''hi'' (demo_uuid (CHR ''a'')) chat1)"
  "\<not> isl (claim demo_options 3000 True demo_job demo_room chat2)"
  "out (claim demo_options 3000 True demo_job demo_room chat2) = Some claim1"
  "\<not> isl (complete_tx no_url 4000 ''reply'' ''usage'' claim1 demo_reply chat3)"
  by code_simp+

lemma demo_reached:
  "reachable \<lparr>core = chat2, pending = [], held = [], owner = [(demo_uuid (CHR ''a''), demo_job)]\<rparr>"
  "reachable \<lparr>core = chat3, pending = [], held = [claim1], owner = [(demo_uuid (CHR ''a''), demo_job)]\<rparr>"
  "reachable \<lparr>core = chat4, pending = [], held = [], owner = [(demo_uuid (CHR ''a''), demo_job)]\<rparr>"
proof -
  have r0: "reachable \<lparr>core = demo_chat, pending = [], held = [], owner = []\<rparr>"
    by (rule reachable.init) code_simp+
  have fresh: "find_reservation demo_chat (mi_reference (demo_ids (CHR ''a''))) = None"
    "is_uuid (mi_reference (demo_ids (CHR ''a'')))" "mi_reference (demo_ids (CHR ''a'')) = demo_uuid (CHR ''a'')"
    "mi_job (demo_ids (CHR ''a'')) = demo_job"
    by code_simp+
  have r1: "reachable \<lparr>core = chat1, pending = [demo_uuid (CHR ''a'')], held = [], owner = []\<rparr>"
    using reachable.step [OF r0 reply_step.reserve, of 100 "demo_ids (CHR ''a'')" "''ana''"
        "out (chat_reservation 100 (demo_ids (CHR ''a'')) ''ana'' demo_chat)" chat1]
      run_ok [OF demo_runs(1)] fresh by (simp add: chat1_def)
  show r2: "reachable \<lparr>core = chat2, pending = [], held = [], owner = [(demo_uuid (CHR ''a''), demo_job)]\<rparr>"
    using reachable.step [OF r1 reply_step.send, of "demo_uuid (CHR ''a'')" no_url 2000 "demo_ids (CHR ''a'')" "''ana''"
        "demo_uuid (CHR ''c'')" "''hi''"
        "out (send_tx no_url 2000 (demo_ids (CHR ''a'')) ''ana'' (demo_uuid (CHR ''c'')) ''hi'' (demo_uuid (CHR ''a'')) chat1)" chat2]
      run_ok [OF demo_runs(2)] fresh(4) by (simp add: chat2_def)
  have "claim demo_options 3000 True demo_job demo_room chat2 = Inr (Some claim1, chat3)"
    using run_ok [OF demo_runs(3)] demo_runs(4) by (simp add: chat3_def)
  from reachable.step [OF r2 reply_step.take] this
  show r3: "reachable \<lparr>core = chat3, pending = [], held = [claim1], owner = [(demo_uuid (CHR ''a''), demo_job)]\<rparr>" by fastforce
  show "reachable \<lparr>core = chat4, pending = [], held = [], owner = [(demo_uuid (CHR ''a''), demo_job)]\<rparr>"
    using reachable.step [OF r3 reply_step.reply, of claim1] run_ok [OF demo_runs(5)] by (fastforce simp: chat4_def)
qed

section \<open>Taken over, retried, and back\<close>

definition claim2 :: claimed_job where
  "claim2 = the (out (claim demo_options 400000000 True demo_job demo_room chat3))"
definition chat5 :: db where "chat5 = after (claim demo_options 400000000 True demo_job demo_room chat3)"
definition chat6 :: db where "chat6 = snd (finalize_failure 500000000 claim2 ''boom'' chat5)"
definition chat7 :: db where "chat7 = after (chat_reservation 600000000 (demo_ids (CHR ''b'')) ''ana'' chat6)"
definition chat8 :: db where "chat8 = snd (requeue 600000000 demo_job (demo_uuid (CHR ''b'')) chat7)"
definition claim3 :: claimed_job where
  "claim3 = the (out (claim demo_options 700000000 True demo_job demo_room chat8))"
definition chat9 :: db where "chat9 = after (claim demo_options 700000000 True demo_job demo_room chat8)"

lemma demo_stale_runs:
  "\<not> isl (claim demo_options 400000000 True demo_job demo_room chat3)"
  "out (claim demo_options 400000000 True demo_job demo_room chat3) = Some claim2"
  "\<not> isl (chat_reservation 600000000 (demo_ids (CHR ''b'')) ''ana'' chat6)"
  "fst (requeue 600000000 demo_job (demo_uuid (CHR ''b'')) chat7)"
  "\<not> isl (claim demo_options 700000000 True demo_job demo_room chat8)"
  "out (claim demo_options 700000000 True demo_job demo_room chat8) = Some claim3"
  by code_simp+

lemma demo_stale_reached:
  "reachable \<lparr>core = chat9, pending = [], held = [claim3, claim1],
     owner = [(demo_uuid (CHR ''b''), demo_job), (demo_uuid (CHR ''a''), demo_job)]\<rparr>"
proof -
  have "claim demo_options 400000000 True demo_job demo_room chat3 = Inr (Some claim2, chat5)"
    using run_ok [OF demo_stale_runs(1)] demo_stale_runs(2) by (simp add: chat5_def)
  from reachable.step [OF demo_reached(2) reply_step.take] this
  have r5: "reachable \<lparr>core = chat5, pending = [], held = [claim2, claim1], owner = [(demo_uuid (CHR ''a''), demo_job)]\<rparr>" by fastforce
  have r6: "reachable \<lparr>core = chat6, pending = [], held = [claim1], owner = [(demo_uuid (CHR ''a''), demo_job)]\<rparr>"
    using reachable.step [OF r5 reply_step.give_up, of claim2 500000000 "''boom''" "fst (finalize_failure 500000000 claim2 ''boom'' chat5)" chat6]
    by (simp add: chat6_def)
  have fresh: "find_reservation chat6 (mi_reference (demo_ids (CHR ''b''))) = None"
    "is_uuid (mi_reference (demo_ids (CHR ''b'')))" "mi_reference (demo_ids (CHR ''b'')) = demo_uuid (CHR ''b'')"
    by code_simp+
  have r7: "reachable \<lparr>core = chat7, pending = [demo_uuid (CHR ''b'')], held = [claim1], owner = [(demo_uuid (CHR ''a''), demo_job)]\<rparr>"
    using reachable.step [OF r6 reply_step.reserve, of 600000000 "demo_ids (CHR ''b'')" "''ana''"
        "out (chat_reservation 600000000 (demo_ids (CHR ''b'')) ''ana'' chat6)" chat7]
      run_ok [OF demo_stale_runs(3)] fresh by (simp add: chat7_def)
  have "requeue 600000000 demo_job (demo_uuid (CHR ''b'')) chat7 = (True, chat8)"
    using demo_stale_runs(4) by (simp add: chat8_def prod_eq_iff)
  from reachable.step [OF r7 reply_step.retry, of "demo_uuid (CHR ''b'')"] this
  have r8: "reachable \<lparr>core = chat8, pending = [], held = [claim1],
     owner = [(demo_uuid (CHR ''b''), demo_job), (demo_uuid (CHR ''a''), demo_job)]\<rparr>" by fastforce
  have "claim demo_options 700000000 True demo_job demo_room chat8 = Inr (Some claim3, chat9)"
    using run_ok [OF demo_stale_runs(5)] demo_stale_runs(6) by (simp add: chat9_def)
  from reachable.step [OF r8 reply_step.take] this show ?thesis by fastforce
qed

section \<open>A second message before the first reply\<close>

definition demo_next :: uid where "demo_next = CHR ''d'' # ''-job''"

definition busy1 :: db where "busy1 = after (chat_reservation 3400 (demo_ids (CHR ''d'')) ''ana'' chat3)"
definition busy2 :: db where
  "busy2 = after (send_tx no_url 3500 (demo_ids (CHR ''d'')) ''ana'' (demo_uuid (CHR ''c'')) ''again'' (demo_uuid (CHR ''d'')) busy1)"
definition busy3 :: db where "busy3 = after (complete_tx no_url 4000 ''reply'' ''usage'' claim1 demo_reply busy2)"
definition next_claim :: claimed_job where
  "next_claim = the (out (claim demo_options 5000 True demo_next demo_room busy3))"

lemma demo_busy_runs:
  "\<not> isl (chat_reservation 3400 (demo_ids (CHR ''d'')) ''ana'' chat3)"
  "\<not> isl (send_tx no_url 3500 (demo_ids (CHR ''d'')) ''ana'' (demo_uuid (CHR ''c'')) ''again'' (demo_uuid (CHR ''d'')) busy1)"
  by code_simp+

lemma demo_busy_steps:
  "reply_step \<lparr>core = chat3, pending = [], held = [claim1], owner = [(demo_uuid (CHR ''a''), demo_job)]\<rparr>
     \<lparr>core = busy1, pending = [demo_uuid (CHR ''d'')], held = [claim1], owner = [(demo_uuid (CHR ''a''), demo_job)]\<rparr>"
  "reply_step \<lparr>core = busy1, pending = [demo_uuid (CHR ''d'')], held = [claim1], owner = [(demo_uuid (CHR ''a''), demo_job)]\<rparr>
     \<lparr>core = busy2, pending = [], held = [claim1], owner = [(demo_uuid (CHR ''d''), demo_next), (demo_uuid (CHR ''a''), demo_job)]\<rparr>"
proof -
  let ?st = "\<lparr>core = chat3, pending = [], held = [claim1], owner = [(demo_uuid (CHR ''a''), demo_job)]\<rparr>"
  let ?st1 = "\<lparr>core = busy1, pending = [demo_uuid (CHR ''d'')], held = [claim1], owner = [(demo_uuid (CHR ''a''), demo_job)]\<rparr>"
  have ids: "find_reservation chat3 (mi_reference (demo_ids (CHR ''d''))) = None"
    "is_uuid (mi_reference (demo_ids (CHR ''d'')))" "mi_reference (demo_ids (CHR ''d'')) = demo_uuid (CHR ''d'')"
    "mi_job (demo_ids (CHR ''d'')) = demo_next"
    by code_simp+
  show "reply_step ?st ?st1"
    using reply_step.reserve [of 3400 "demo_ids (CHR ''d'')" "''ana''" ?st
        "out (chat_reservation 3400 (demo_ids (CHR ''d'')) ''ana'' chat3)" busy1]
      run_ok [OF demo_busy_runs(1)] ids by (simp add: busy1_def)
  show "reply_step ?st1 \<lparr>core = busy2, pending = [], held = [claim1],
      owner = [(demo_uuid (CHR ''d''), demo_next), (demo_uuid (CHR ''a''), demo_job)]\<rparr>"
    using reply_step.send [of "demo_uuid (CHR ''d'')" ?st1 no_url 3500 "demo_ids (CHR ''d'')" "''ana''"
        "demo_uuid (CHR ''c'')" "''again''"
        "out (send_tx no_url 3500 (demo_ids (CHR ''d'')) ''ana'' (demo_uuid (CHR ''c'')) ''again'' (demo_uuid (CHR ''d'')) busy1)" busy2]
      run_ok [OF demo_busy_runs(2)] ids(4) by (simp add: busy2_def)
qed

section \<open>Stranded\<close>

definition chat10 :: db where "chat10 = snd (finalize_failure 800000000 claim1 ''late'' chat9)"
definition chat11 :: db where "chat11 = after (chat_reservation 900000000 (demo_ids (CHR ''d'')) ''ana'' chat10)"
definition chat12 :: db where "chat12 = snd (requeue 900000000 demo_job (demo_uuid (CHR ''d'')) chat11)"
definition claim4 :: claimed_job where
  "claim4 = the (out (claim demo_options 950000000 True demo_job demo_room chat12))"
definition chat13 :: db where "chat13 = after (claim demo_options 950000000 True demo_job demo_room chat12)"
definition chat14 :: db where "chat14 = after (complete_tx no_url 960000000 ''reply'' ''usage'' claim4 demo_reply chat13)"

abbreviation (input) demo_owner :: "(string \<times> uid) list" where
  "demo_owner \<equiv> [(demo_uuid (CHR ''b''), demo_job), (demo_uuid (CHR ''a''), demo_job)]"

lemma demo_stranded_runs:
  "complete_tx no_url 850000000 ''reply'' ''usage'' claim3 demo_reply chat10 = Inr ((), chat10)"
  "\<not> isl (chat_reservation 900000000 (demo_ids (CHR ''d'')) ''ana'' chat10)"
  "fst (requeue 900000000 demo_job (demo_uuid (CHR ''d'')) chat11)"
  "\<not> isl (claim demo_options 950000000 True demo_job demo_room chat12)"
  "out (claim demo_options 950000000 True demo_job demo_room chat12) = Some claim4"
  "\<not> isl (complete_tx no_url 960000000 ''reply'' ''usage'' claim4 demo_reply chat13)"
proof -
  have "\<not> list_ex (running_claim claim3) (jobs chat10)" by code_simp
  then show "complete_tx no_url 850000000 ''reply'' ''usage'' claim3 demo_reply chat10 = Inr ((), chat10)"
    by (simp add: complete_tx_def)
qed code_simp+

lemma demo_stranded_steps:
  "reply_step \<lparr>core = chat10, pending = [], held = [claim3], owner = demo_owner\<rparr>
     \<lparr>core = chat10, pending = [], held = [], owner = demo_owner\<rparr>"
  "reply_step\<^sup>*\<^sup>* \<lparr>core = chat10, pending = [], held = [], owner = demo_owner\<rparr>
     \<lparr>core = chat14, pending = [], held = [], owner = (demo_uuid (CHR ''d''), demo_job) # demo_owner\<rparr>"
proof -
  show "reply_step \<lparr>core = chat10, pending = [], held = [claim3], owner = demo_owner\<rparr>
      \<lparr>core = chat10, pending = [], held = [], owner = demo_owner\<rparr>"
    using reply_step.reply [of claim3 "\<lparr>core = chat10, pending = [], held = [claim3], owner = demo_owner\<rparr>"] demo_stranded_runs(1)
    by fastforce
  let ?m = "\<lparr>core = chat10, pending = [], held = [], owner = demo_owner\<rparr>"
  let ?m1 = "\<lparr>core = chat11, pending = [demo_uuid (CHR ''d'')], held = [], owner = demo_owner\<rparr>"
  let ?own = "(demo_uuid (CHR ''d''), demo_job) # demo_owner"
  let ?m2 = "\<lparr>core = chat12, pending = [], held = [], owner = ?own\<rparr>"
  let ?m3 = "\<lparr>core = chat13, pending = [], held = [claim4], owner = ?own\<rparr>"
  have ids: "find_reservation chat10 (mi_reference (demo_ids (CHR ''d''))) = None"
    "is_uuid (mi_reference (demo_ids (CHR ''d'')))" "mi_reference (demo_ids (CHR ''d'')) = demo_uuid (CHR ''d'')"
    by code_simp+
  have "reply_step ?m ?m1"
    using reply_step.reserve [of 900000000 "demo_ids (CHR ''d'')" "''ana''" ?m
        "out (chat_reservation 900000000 (demo_ids (CHR ''d'')) ''ana'' chat10)" chat11]
      run_ok [OF demo_stranded_runs(2)] ids by (simp add: chat11_def)
  moreover have "requeue 900000000 demo_job (demo_uuid (CHR ''d'')) chat11 = (True, chat12)"
    using demo_stranded_runs(3) by (simp add: chat12_def prod_eq_iff)
  from reply_step.retry [of "demo_uuid (CHR ''d'')" ?m1] this have "reply_step ?m1 ?m2" by fastforce
  moreover have "claim demo_options 950000000 True demo_job demo_room chat12 = Inr (Some claim4, chat13)"
    using run_ok [OF demo_stranded_runs(4)] demo_stranded_runs(5) by (simp add: chat13_def)
  from reply_step.take [of _ _ _ _ _ ?m2] this have "reply_step ?m2 ?m3" by fastforce
  moreover have "reply_step ?m3 \<lparr>core = chat14, pending = [], held = [], owner = ?own\<rparr>"
    using reply_step.reply [of claim4 ?m3] run_ok [OF demo_stranded_runs(6)] by (fastforce simp: chat14_def)
  ultimately show "reply_step\<^sup>*\<^sup>* ?m \<lparr>core = chat14, pending = [], held = [], owner = ?own\<rparr>"
    by (meson converse_rtranclp_into_rtranclp rtranclp.rtrancl_refl)
qed

end
