(* ===== verification/Reply_Leases.thy ===== *)
theory Reply_Leases
  imports Reply_Demo
begin

text \<open>
  What a lease promises and what a worker that outlives its lease can break: while a claim is held, no other claim
  succeeds in its conversation, on any run; but a worker that is still at an earlier claim of the same job ends the newer
  lease, and the credits of the newer attempt can be stranded.
\<close>

section \<open>Claims exclude each other\<close>

lemma js_date_shift: "js_date (js_date a + 1000 * b) = js_date a + 1000 * b"
proof -
  have "js_date a + 1000 * b = 1000 * (a div 1000 + b)" by (simp add: js_date_def algebra_simps)
  then show ?thesis by (simp add: js_date_def)
qed

lemma js_date_after: "js_date (js_after t d) = js_after t d"
  unfolding js_after_def ms_def by (rule js_date_shift)

text \<open>The row that a claim leaves, and what it says to other claims.\<close>

definition leased :: "claimed_job \<Rightarrow> time \<Rightarrow> db \<Rightarrow> bool" where
  "leased c e s \<longleftrightarrow> (\<exists>j. find (\<lambda>j. job_id j = cl_id c) (jobs s) = Some j \<and> job_status j = Running \<and>
     job_lease j = Some e \<and> job_conversation j = cl_conversation c)"

lemma claim_leases:
  assumes "claim opts t lock_free i conversation s = Inr (Some c, s')"
  shows "leased c (js_after t (wo_lease opts)) s'" "cl_id c = i"
proof -
  from assms obtain j started where j: "find (\<lambda>j. job_id j = i) (jobs s) = Some j" "cl_conversation c = job_conversation j"
    and i: "cl_id c = i"
    and s': "s' = s\<lparr>jobs := update_where (\<lambda>j. job_id j = i) (\<lambda>k. k\<lparr>job_status := Running, job_attempts := job_attempts k + 1,
       job_lease := Some (js_after t (wo_lease opts)), job_started := Some started,
       job_deadline := Some (cl_deadline c)\<rparr>) (jobs s)\<rparr>"
    by (rule claim_effect) blast
  show "cl_id c = i" by fact
  show "leased c (js_after t (wo_lease opts)) s'"
    using j find_in_set [OF j(1)] by (simp add: leased_def i s' find_update_where)
qed

lemma leased_excludes:
  assumes "leased c e s" "js_date e = e" "js_date t < e"
  shows "claim opts t lock_free k (cl_conversation c) s = Inr (None, s)"
    and "claim opts t lock_free (cl_id c) conversation s = Inr (None, s)"
proof -
  obtain j where j: "find (\<lambda>j. job_id j = cl_id c) (jobs s) = Some j" "job_status j = Running" "job_lease j = Some e"
    "job_conversation j = cl_conversation c"
    using assms(1) unfolding leased_def by blast
  have "\<not> ready_job t j" using j assms(2,3) by (simp add: ready_job_def)
  then show same: "claim opts t lock_free (cl_id c) conversation s = Inr (None, s)" for conversation
    using j(1) by (simp add: claim_def)
  show "claim opts t lock_free k (cl_conversation c) s = Inr (None, s)"
  proof (cases "k = cl_id c")
    case False
    have "live_job t j" "job_id j = cl_id c" "j \<in> set (jobs s)" using j assms(3) find_in_set [OF j(1)] by (simp_all add: live_job_def)
    then have "list_ex (\<lambda>j. job_conversation j = cl_conversation c \<and> live_job t j \<and> job_id j \<noteq> k) (jobs s)"
      using j(4) False by (auto simp: list_ex_iff)
    then show ?thesis by (auto simp: claim_def split: option.splits)
  qed (simp add: same)
qed

text \<open>
  A stretch of a run through which a worker holds the claim \<open>c\<close> and in which no claim is tried after the instant \<open>e\<close>:
  anything else happens in any order.
\<close>

inductive while_held :: "claimed_job \<Rightarrow> time \<Rightarrow> reply_state \<Rightarrow> reply_state \<Rightarrow> bool" for c e st0 where
  Begin: "while_held c e st0 st0"
| Step: "while_held c e st0 st \<Longrightarrow> reply_step st st' \<Longrightarrow> length (held st') \<le> length (held st) \<Longrightarrow> c \<in> set (held st') \<Longrightarrow>
    while_held c e st0 st'"
| Take: "while_held c e st0 st \<Longrightarrow> claim opts t lock_free i conversation (core st) = Inr (Some d, s') \<Longrightarrow> js_date t < e \<Longrightarrow>
    while_held c e st0 (st\<lparr>core := s', held := d # held st\<rparr>)"

definition only_holder :: "claimed_job \<Rightarrow> claimed_job list \<Rightarrow> bool" where
  "only_holder c cs \<longleftrightarrow> (\<forall>d \<in> set (remove1 c cs). cl_id d \<noteq> cl_id c)"

lemma only_holder_remove:
  assumes "only_holder c cs" "d \<in> set cs" "c \<in> set (remove1 d cs)"
  shows "cl_id d \<noteq> cl_id c" "only_holder c (remove1 d cs)"
proof -
  have "d \<noteq> c" using assms(1,3) by (auto simp: only_holder_def)
  then have "d \<in> set (remove1 c cs)" using assms(2) by (simp add: in_set_remove1)
  then show "cl_id d \<noteq> cl_id c" using assms(1) by (simp add: only_holder_def)
  have "set (remove1 c (remove1 d cs)) \<subseteq> set (remove1 c cs)"
    by (metis remove1_commute set_remove1_subset)
  then show "only_holder c (remove1 d cs)" using assms(1) by (auto simp: only_holder_def)
qed

text \<open>What leaves the row of a job alone.\<close>

lemma leased_same: "jobs s' = jobs s \<Longrightarrow> leased c e s' = leased c e s"
  by (simp add: leased_def)

lemma leased_update:
  assumes "leased c e s" "jobs s' = update_where p f (jobs s)" "\<And>j. job_id (f j) = job_id j"
    and "\<And>j. p j \<Longrightarrow> job_status j = Running \<Longrightarrow> job_id j \<noteq> cl_id c"
  shows "leased c e s'"
proof -
  obtain j where j: "find (\<lambda>j. job_id j = cl_id c) (jobs s) = Some j" "job_status j = Running" "job_lease j = Some e"
    "job_conversation j = cl_conversation c"
    using assms(1) unfolding leased_def by blast
  have "\<not> p j" using assms(4) [of j] j(2) find_in_set [OF j(1)] by blast
  then have "find (\<lambda>j. job_id j = cl_id c) (jobs s') = Some j"
    using j(1) by (simp add: assms(2) find_update_where assms(3))
  with j show ?thesis unfolding leased_def by blast
qed

lemma leased_append: "leased c e s \<Longrightarrow> jobs s' = jobs s @ js \<Longrightarrow> leased c e s'"
  by (auto simp: leased_def find_append)

lemma leased_step:
  assumes "reply_step st st'" "reply_inv st" "leased c e (core st)" "only_holder c (held st)"
    and "c \<in> set (held st')" "length (held st') \<le> length (held st)"
  shows "leased c e (core st') \<and> only_holder c (held st')"
  using assms
proof (induction rule: reply_step.induct)
  case (reserve t ids u st r s')
  from uuid_reference [OF reserve(3)] have "same_chat (core st) s'"
    using chat_reservation_effect(3) [OF reserve(1,2)] by (simp add: reference_ok_def)
  then have "jobs s' = jobs (core st)" by (simp add: same_chat_def)
  from leased_same [OF this] reserve(5,6) show ?case by simp
next
  case (abort ref st t)
  then have "same_chat (core st) (release_quietly t ref (core st))"
    using release_quietly_effect(1) [OF reply_invD(1)] pending_unowned(5) [OF reply_invD(2)] by blast
  then have "jobs (release_quietly t ref (core st)) = jobs (core st)" by (simp add: same_chat_def)
  from leased_same [OF this] abort(3,4) show ?case by simp
next
  case (send ref st parse t ids u c' body x s')
  then obtain j where "jobs s' = jobs (core st) @ [j]" by (elim send_tx_effect) blast
  with leased_append [OF send(4) this] send(5) show ?case by simp
next
  case (retry ref st t i s')
  let ?f = "\<lambda>j. j\<lparr>job_status := Queued, job_reservation := Some ref, job_ready := js_date t, job_attempts := 0,
    job_lease := None, job_started := None, job_deadline := None, job_failed := None, job_reason := None\<rparr>"
  have "jobs s' = update_where (\<lambda>j. job_id j = i \<and> job_status j = Failed) ?f (jobs (core st))"
    using retry(2) by (auto simp: requeue_def Let_def)
  from leased_update [OF retry(4) this] have "leased c e s'" by simp
  with retry(5) show ?case by simp
next
  case (take opts t lf i cid st d s')
  then show ?case by simp
next
  case (reply d st parse t mid lid answer x s')
  have other: "cl_id d \<noteq> cl_id c" "only_holder c (remove1 d (held st))"
    using only_holder_remove [OF reply(5,1)] reply(6) by simp_all
  from reply(3,1) obtain r where r: "cl_reservation d = Some r" "trim r = r" "r \<noteq> []" by (rule held_claim) blast
  from reply(2) reply_invD(1) [OF reply(3)] r have "leased c e s'"
  proof (cases rule: complete_tx_effect)
    case late
    then show ?thesis using reply(4) by simp
  next
    case (replied m ex)
    then show ?thesis using other(1)
      by (intro leased_update [OF reply(4) replied(2)]) (auto simp: running_claim_def)
  qed
  with other(2) show ?case by simp
next
  case (give_up d st t reason x s')
  have other: "cl_id d \<noteq> cl_id c" "only_holder c (remove1 d (held st))"
    using only_holder_remove [OF give_up(5,1)] give_up(6) by simp_all
  from give_up(3,1) obtain r where r: "cl_reservation d = Some r" "r \<noteq> []" "hold (core st) r \<noteq> None" by (rule held_claim) blast
  have "leased c e s'"
    by (rule leased_update [OF give_up(4) finalize_effect(4) [OF give_up(2) reply_invD(1) [OF give_up(3)] r]])
      (use other(1) in \<open>auto simp: running_claim_def\<close>)
  with other(2) show ?case by simp
next
  case (later d st opts t reason)
  have other: "cl_id d \<noteq> cl_id c" "only_holder c (remove1 d (held st))"
    using only_holder_remove [OF later(4,1)] later(5) by simp_all
  have "leased c e (requeue_later opts t d reason (core st))"
    by (rule leased_update [OF later(3)], simp add: requeue_later_def) (use other(1) in \<open>auto simp: running_claim_def\<close>)
  with other(2) show ?case by simp
next
  case (crash d st)
  then show ?case using only_holder_remove [OF crash(4,1)] by simp
next
  case (elsewhere s' st)
  from leased_same [OF elsewhere(1)] elsewhere(6,7) show ?case by simp
qed

lemma leased_take:
  assumes "leased c e s" "js_date e = e" "js_date t < e" "claim opts t lock_free i conversation s = Inr (Some d, s')"
  shows "leased c e s'" "cl_id d \<noteq> cl_id c"
proof -
  have i: "i \<noteq> cl_id c" using leased_excludes(2) [OF assms(1-3), of opts lock_free conversation] assms(4) by auto
  moreover obtain f where "jobs s' = update_where (\<lambda>j. job_id j = i) f (jobs s)" "\<And>j. job_id (f j) = job_id j"
    using assms(4) by (rule claim_effect) simp
  ultimately show "leased c e s'" using leased_update [OF assms(1), of s' "\<lambda>j. job_id j = i" f] by simp
  show "cl_id d \<noteq> cl_id c" using i claim_leases(2) [OF assms(4)] by simp
qed

lemma while_held_leased:
  assumes "while_held c e st0 st" "reply_inv st0" "leased c e (core st0)" "only_holder c (held st0)" "c \<in> set (held st0)" "js_date e = e"
  shows "reply_inv st \<and> leased c e (core st) \<and> only_holder c (held st) \<and> c \<in> set (held st)"
  using assms
proof (induction rule: while_held.induct)
  case (Step st st')
  then show ?case using leased_step [OF Step(2)] reply_step_inv [OF Step(2)] by blast
next
  case (Take st opts t lf i conversation d s')
  then have IH: "reply_inv st" "leased c e (core st)" "only_holder c (held st)" "c \<in> set (held st)" by blast+
  note t = leased_take [OF IH(2) Take.prems(5) Take(3,2)]
  have "d \<noteq> c" using t(2) by blast
  then have "only_holder c (d # held st)" using IH(3) t(2) by (simp add: only_holder_def)
  moreover have "reply_inv (st\<lparr>core := s', held := d # held st\<rparr>)"
    using reply_step_inv [OF reply_step.take [OF Take(2)] IH(1)] .
  ultimately show ?case using t(1) IH(4) by simp
qed blast

text \<open>C14: A worker that has claimed a job is alone in its conversation: the claim succeeds only when no other job of the
  conversation is live, and from then on, for as long as the worker holds the claim and its lease lasts, no claim in the
  conversation succeeds, for this job or another, whatever requests and workers do in between. Only a worker that is still
  at an earlier claim of the same job is left out.\<close>

theorem claim_exclusive:
  assumes "reachable st" "claim opts t lock_free i conversation (core st) = Inr (Some c, s')" "cl_conversation c = conversation"
    and "\<forall>d \<in> set (held st). cl_id d \<noteq> i"
    and "while_held c (js_after t (wo_lease opts)) (st\<lparr>core := s', held := c # held st\<rparr>) later"
    and "js_date t' < js_after t (wo_lease opts)"
  shows "list_all (\<lambda>j. \<not> (job_conversation j = conversation \<and> live_job t j \<and> job_id j \<noteq> i)) (jobs (core st)) \<and>
    claim opts' t' lock_free' k conversation (core later) = Inr (None, core later)"
proof
  show "list_all (\<lambda>j. \<not> (job_conversation j = conversation \<and> live_job t j \<and> job_id j \<noteq> i)) (jobs (core st))"
    using assms(2) by (rule claim_effect) (simp add: list_all_iff list_ex_iff)
  note leased = claim_leases [OF assms(2)]
  have "reply_inv (st\<lparr>core := s', held := c # held st\<rparr>)"
    using reply_step_inv [OF reply_step.take [OF assms(2)] reachable_inv [OF assms(1)]] .
  then have "leased c (js_after t (wo_lease opts)) (core later)"
    using while_held_leased [OF assms(5)] leased assms(4) js_date_after by (simp add: only_holder_def)
  from leased_excludes(1) [OF this js_date_after assms(6)] assms(3)
  show "claim opts' t' lock_free' k conversation (core later) = Inr (None, core later)" by simp
qed

theorem claim_exclusive_witness:
  "claim demo_options 300000000 True demo_next demo_room busy2 = Inr (None, busy2) \<and>
   out (claim demo_options 400000000 True demo_next demo_room busy2) \<noteq> None"
proof
  let ?st = "\<lparr>core = chat2, pending = [], held = [], owner = [(demo_uuid (CHR ''a''), demo_job)]\<rparr>"
  let ?later = "\<lparr>core = busy2, pending = [], held = [claim1], owner = [(demo_uuid (CHR ''d''), demo_next), (demo_uuid (CHR ''a''), demo_job)]\<rparr>"
  have claimed: "claim demo_options 3000 True demo_job demo_room (core ?st) = Inr (Some claim1, chat3)"
    using run_ok [OF demo_runs(3)] demo_runs(4) by (simp add: chat3_def)
  have c: "cl_conversation claim1 = demo_room" "js_date 300000000 < js_after 3000 (wo_lease demo_options)" by code_simp+
  have "while_held claim1 e \<lparr>core = chat3, pending = [], held = [claim1], owner = [(demo_uuid (CHR ''a''), demo_job)]\<rparr> ?later" for e
    by (rule while_held.Step [OF while_held.Step [OF while_held.Begin demo_busy_steps(1)] demo_busy_steps(2)]) simp_all
  with claim_exclusive [OF demo_reached(1) claimed c(1) _ _ c(2), of ?later demo_options True demo_next]
  show "claim demo_options 300000000 True demo_next demo_room busy2 = Inr (None, busy2)" by simp
  show "out (claim demo_options 400000000 True demo_next demo_room busy2) \<noteq> None" by code_simp
qed

section \<open>Stale workers\<close>

text \<open>The one left out: the worker of an earlier claim queues the job anew, and a third claim succeeds while the lease of
  the second one lasts.\<close>

lemma stale_worker_ends_lease:
  "out (claim demo_options 500000000 True demo_job demo_room chat5) = None \<and>
   out (claim demo_options 500000000 True demo_job demo_room (requeue_later demo_options 450000000 claim1 ''http_500'' chat5)) \<noteq> None"
  by (rule conjI; code_simp)

text \<open>
  A reservation that was given to a job and to which at most failed jobs refer stays out of reach of new claims, and when no
  held claim carries it, nothing settles it.
\<close>

definition only_failed :: "string \<Rightarrow> db \<Rightarrow> bool" where
  "only_failed r s \<longleftrightarrow> (\<forall>j \<in> set (jobs s). job_reservation j = Some r \<longrightarrow> job_status j = Failed)"

definition uncarried :: "string \<Rightarrow> reply_state \<Rightarrow> bool" where
  "uncarried r st \<longleftrightarrow> (\<forall>c \<in> set (held st). cl_reservation c \<noteq> Some r)"

lemma only_failed_same: "jobs s' = jobs s \<Longrightarrow> only_failed r s' = only_failed r s"
  by (simp add: only_failed_def)

lemma only_failed_update:
  assumes "only_failed r s" "jobs s' = update_where p f (jobs s)"
    and "\<And>j. j \<in> set (jobs s) \<Longrightarrow> p j \<Longrightarrow> job_reservation (f j) = Some r \<Longrightarrow> job_status (f j) = Failed"
  shows "only_failed r s'"
  unfolding only_failed_def
proof (intro ballI impI)
  fix k assume "k \<in> set (jobs s')" and r: "job_reservation k = Some r"
  then obtain j where j: "j \<in> set (jobs s)" "k = (if p j then f j else j)"
    unfolding assms(2) by (elim update_whereE)
  show "job_status k = Failed"
    using assms(1,3) j r unfolding only_failed_def by (cases "p j") auto
qed

lemma only_failed_ending:
  assumes "only_failed r s" "jobs s' = update_where (running_claim c) f (jobs s)"
    and "\<And>j. job_reservation (f j) = job_reservation j"
  shows "only_failed r s'"
  using assms(1) by (intro only_failed_update [OF assms(1,2)]) (auto simp: assms(3) only_failed_def running_claim_def)

lemma stranded_step:
  assumes "reply_step st st'" "reply_inv st" "(r, i) \<in> set (owner st)" "only_failed r (core st)"
  shows "(r, i) \<in> set (owner st') \<and> only_failed r (core st') \<and>
    (uncarried r st \<longrightarrow> uncarried r st' \<and> hold (core st') r = hold (core st) r)"
  using assms
proof (induction rule: reply_step.induct)
  case (reserve t ids u st x s')
  note ok = uuid_reference [OF reserve(3), unfolded reference_ok_def]
  note eff = chat_reservation_effect [OF reserve(1,2) conjunct2 [OF ok] conjunct1 [OF ok]]
  have "r \<noteq> mi_reference ids"
    using refs_okD(3) [OF reply_invD(2) [OF reserve(4)] reserve(5)] reserve(2) by (auto simp: hold_def)
  moreover have "jobs s' = jobs (core st)" using eff(3) by (simp add: same_chat_def)
  ultimately show ?case using reserve(5,6) by (simp add: only_failed_def uncarried_def eff(2))
next
  case (abort ref st t)
  note own = pending_unowned [OF reply_invD(2) [OF abort(2)] abort(1)]
  note eff = release_quietly_effect [OF reply_invD(1) [OF abort(2)] own(5), of t]
  have "r \<noteq> ref" using own(1) abort(3) by blast
  moreover have "jobs (release_quietly t ref (core st)) = jobs (core st)" using eff(1) by (simp add: same_chat_def)
  ultimately show ?case using abort(3,4) by (simp add: only_failed_def uncarried_def eff(3))
next
  case (send ref st parse t ids u c body x s')
  then obtain j where j: "jobs s' = jobs (core st) @ [j]" "job_reservation j = Some ref" "reservations s' = reservations (core st)"
    by (elim send_tx_effect) blast
  have "r \<noteq> ref" using pending_unowned(1) [OF reply_invD(2) [OF send(3)] send(1)] send(4) by blast
  then show ?case using send(4,5) j hold_cong [OF j(3)] by (auto simp: only_failed_def uncarried_def)
next
  case (retry ref st t k s')
  let ?f = "\<lambda>j. j\<lparr>job_status := Queued, job_reservation := Some ref, job_ready := js_date t, job_attempts := 0,
    job_lease := None, job_started := None, job_deadline := None, job_failed := None, job_reason := None\<rparr>"
  have s': "s' = core st\<lparr>jobs := update_where (\<lambda>j. job_id j = k \<and> job_status j = Failed) ?f (jobs (core st))\<rparr>"
    using retry(2) by (auto simp: requeue_def Let_def)
  have "r \<noteq> ref" using pending_unowned(1) [OF reply_invD(2) [OF retry(3)] retry(1)] retry(4) by blast
  then have "only_failed r s'"
    by (intro only_failed_update [OF retry(5), of s' "\<lambda>j. job_id j = k \<and> job_status j = Failed" ?f]) (simp_all add: s')
  moreover have "hold s' = hold (core st)" by (rule hold_cong) (simp add: s')
  ultimately show ?case using retry(4) by (simp add: uncarried_def)
next
  case (take opts t lf k cid st c s')
  from take(1) obtain j started where j: "find (\<lambda>j. job_id j = k) (jobs (core st)) = Some j" "ready_job t j"
    "cl_reservation c = job_reservation j"
    and s': "s' = core st\<lparr>jobs := update_where (\<lambda>j. job_id j = k) (\<lambda>k. k\<lparr>job_status := Running, job_attempts := job_attempts k + 1,
       job_lease := Some (js_after t (wo_lease opts)), job_started := Some started,
       job_deadline := Some (cl_deadline c)\<rparr>) (jobs (core st))\<rparr>"
    by (rule claim_effect) blast
  have other: "job_reservation j \<noteq> Some r"
    using take(4) find_in_set [OF j(1)] j(2) by (auto simp: only_failed_def ready_job_def)
  have "q = j" if "q \<in> set (jobs (core st))" "job_id q = k" for q
    using unique_key_eq [OF reply_invD(5) [OF take(2)] that(1)] find_in_set [OF j(1)] that(2) by simp
  then have "only_failed r s'"
    using other by (intro only_failed_update [OF take(4), of s' "\<lambda>j. job_id j = k"
        "\<lambda>k. k\<lparr>job_status := Running, job_attempts := job_attempts k + 1, job_lease := Some (js_after t (wo_lease opts)),
           job_started := Some started, job_deadline := Some (cl_deadline c)\<rparr>"]) (auto simp: s')
  moreover have "hold s' = hold (core st)" by (rule hold_cong) (simp add: s')
  ultimately show ?case using take(3) other j(3) by (simp add: uncarried_def)
next
  case (reply c st parse t mid lid answer x s')
  have less: "uncarried r (st\<lparr>core := s', held := remove1 c (held st)\<rparr>)" if "uncarried r st"
    using that set_remove1_subset [of c "held st"] by (auto simp: uncarried_def)
  from reply(3,1) obtain k where k: "cl_reservation c = Some k" "trim k = k" "k \<noteq> []" by (rule held_claim) blast
  have other: "k \<noteq> r" if "uncarried r st" using that reply(1) k(1) by (auto simp: uncarried_def)
  from reply(2) reply_invD(1) [OF reply(3)] k show ?case
  proof (cases rule: complete_tx_effect)
    case late
    then show ?thesis using reply(4,5) less by simp
  next
    case (replied m e)
    have "only_failed r s'" by (rule only_failed_ending [OF reply(5) replied(2)]) simp
    then show ?thesis using reply(4) less other replied(8) by auto
  qed
next
  case (give_up c st t reason x s')
  have less: "uncarried r (st\<lparr>core := s', held := remove1 c (held st)\<rparr>)" if "uncarried r st"
    using that set_remove1_subset [of c "held st"] by (auto simp: uncarried_def)
  from give_up(3,1) obtain k where k: "cl_reservation c = Some k" "k \<noteq> []" "hold (core st) k \<noteq> None" by (rule held_claim) blast
  have other: "k \<noteq> r" if "uncarried r st" using that give_up(1) k(1) by (auto simp: uncarried_def)
  note eff = finalize_effect [OF give_up(2) reply_invD(1) [OF give_up(3)] k]
  have "only_failed r s'" by (rule only_failed_ending [OF give_up(5) eff(4)]) simp
  moreover have "hold s' r = hold (core st) r" if "uncarried r st"
    using other [OF that] unfolding eff(5) by (auto split: option.splits reservation_status.splits)
  ultimately show ?case using give_up(4) less by simp
next
  case (later c st opts t reason)
  let ?f = "\<lambda>j. j\<lparr>job_status := Queued, job_ready := js_after t (wo_backoff opts), job_lease := None, job_reason := Some reason\<rparr>"
  have "only_failed r (requeue_later opts t c reason (core st))"
    by (rule only_failed_ending [OF later(4), of _ c ?f]) (simp_all add: requeue_later_def)
  moreover have "hold (requeue_later opts t c reason (core st)) = hold (core st)" by (rule hold_cong) (simp add: requeue_later_def)
  ultimately show ?case using later(3) set_remove1_subset [of c "held st"] by (auto simp: uncarried_def)
next
  case (crash c st)
  then show ?case using set_remove1_subset [of c "held st"] by (auto simp: uncarried_def)
next
  case (elsewhere s' st)
  then show ?case using only_failed_same [OF elsewhere(1)] hold_cong [OF elsewhere(3)] by (simp add: uncarried_def)
qed

lemma stranded_run:
  assumes "reply_step\<^sup>*\<^sup>* st st'" "reply_inv st" "(r, i) \<in> set (owner st)" "only_failed r (core st)"
  shows "reply_inv st' \<and> (r, i) \<in> set (owner st') \<and> only_failed r (core st') \<and>
    (uncarried r st \<longrightarrow> uncarried r st' \<and> hold (core st') r = hold (core st) r)"
  using assms(1)
proof (induction rule: rtranclp_induct)
  case base
  show ?case using assms(2-4) by simp
next
  case (step mid st')
  then show ?case using stranded_step [OF step(2)] reply_step_inv [OF step(2)] by metis
qed

text \<open>C16: A worker whose lease was taken over can strand the credits of a later attempt. When it gives up on the job after the
  user has retried it, the job fails but the reservation released is the old one: the new one stays held without expiry. A
  worker that is at a claim of the newer attempt may still settle it; if it is unsettled when no such worker is left, it
  stays held through every later step, whatever requests and workers do.\<close>

theorem stale_claim_leaks:
  assumes "reachable st" "c \<in> set (held st)" "j \<in> set (jobs (core st))" "running_claim c j"
    and "job_reservation j = Some new" "cl_reservation c \<noteq> Some new"
    and "finalize_failure t c reason (core st) = (x, s')"
    and "reply_step\<^sup>*\<^sup>* (st\<lparr>core := s', held := remove1 c (held st)\<rparr>) mid"
    and "\<forall>d \<in> set (held mid). cl_reservation d \<noteq> Some new" "hold (core mid) new = Some (Reserved, None)"
    and "reply_step\<^sup>*\<^sup>* mid later"
  shows "x = Inr () \<and> status_of (job_id j) s' = Some Failed \<and> hold s' new = Some (Reserved, None) \<and>
    hold (core later) new = Some (Reserved, None)"
proof -
  note inv = reachable_inv [OF assms(1)]
  from inv assms(2) obtain r where r: "cl_reservation c = Some r" "(r, cl_id c) \<in> set (owner st)" "r \<noteq> []"
    "hold (core st) r \<noteq> None" by (rule held_claim) blast
  note eff = finalize_effect [OF assms(7) reply_invD(1) [OF inv] r(1,3,4)]
  have run: "job_status j = Running" "job_id j = cl_id c" using assms(4) by (simp_all add: running_claim_def)
  from reply_invD(6) [OF inv assms(3)] obtain r' where "job_reservation j = Some r'" "(r', job_id j) \<in> set (owner st)"
    "hold (core st) r' = Some (Reserved, None)" by (rule job_okD) (use run in simp)
  then have new: "(new, job_id j) \<in> set (owner st)" "hold (core st) new = Some (Reserved, None)" using assms(5) by simp_all
  have kept: "hold s' new = hold (core st) new"
    using assms(6) r(1) unfolding eff(5) by (auto split: option.splits reservation_status.splits)
  have found: "find (\<lambda>k. job_id k = job_id j) (jobs (core st)) = Some j"
    by (rule find_unique [OF reply_invD(5) [OF inv] assms(3)])
  have st: "status_of (job_id j) s' = Some Failed"
    using found assms(4) by (simp add: status_of_def eff(4) find_update_where)
  have mine: "k = j" if k: "k \<in> set (jobs (core st))" "job_reservation k = Some new" for k
  proof -
    from reply_invD(6) [OF inv k(1)] obtain q where "job_reservation k = Some q" "(q, job_id k) \<in> set (owner st)"
      by (rule job_okD) blast
    then have "job_id k = job_id j" using owner_unique [OF reply_invD(2) [OF inv] _ new(1)] k(2) by simp
    then show ?thesis using unique_key_eq [OF reply_invD(5) [OF inv] k(1) assms(3)] by simp
  qed
  define st1 where "st1 = st\<lparr>core := s', held := remove1 c (held st)\<rparr>"
  have f: "core st1 = s'" "owner st1 = owner st" by (simp_all add: st1_def)
  have "reply_inv st1" using reply_step_inv [OF reply_step.give_up [OF assms(2,7)] inv] by (simp add: st1_def)
  moreover have "only_failed new s'"
    unfolding only_failed_def eff(4) set_update_where using mine assms(4) by auto
  ultimately have mid: "reply_inv mid" "(new, job_id j) \<in> set (owner mid)" "only_failed new (core mid)"
    using stranded_run [of st1 mid new "job_id j"] assms(8) new(1) by (simp_all add: f st1_def [symmetric])
  have "hold (core later) new = hold (core mid) new"
    using stranded_run [OF assms(11) mid] assms(9) by (simp add: uncarried_def)
  then show ?thesis using eff(6) st kept new(2) assms(10) by simp
qed

theorem stale_claim_leaks_witness:
  "hold chat14 (demo_uuid (CHR ''b'')) = Some (Reserved, None) \<and> hold chat14 (demo_uuid (CHR ''d'')) = Some (Captured, None) \<and>
   status_of demo_job chat14 = Some Completed"
proof (intro conjI)
  let ?st = "\<lparr>core = chat9, pending = [], held = [claim3, claim1], owner = demo_owner\<rparr>"
  let ?j = "hd (jobs chat9)"
  have j: "jobs chat9 \<noteq> []" "running_claim claim1 ?j" "job_reservation ?j = Some (demo_uuid (CHR ''b''))"
    "cl_reservation claim1 \<noteq> Some (demo_uuid (CHR ''b''))" "claim3 \<noteq> claim1"
    "hold chat10 (demo_uuid (CHR ''b'')) = Some (Reserved, None)"
    by code_simp+
  have "remove1 claim1 [claim3, claim1] = [claim3]" using j(5) by simp
  moreover have "?j \<in> set (jobs chat9)" using j(1) by simp
  ultimately show "hold chat14 (demo_uuid (CHR ''b'')) = Some (Reserved, None)"
    using stale_claim_leaks [OF demo_stale_reached, of claim1 ?j "demo_uuid (CHR ''b'')" 800000000 "''late''"
        "fst (finalize_failure 800000000 claim1 ''late'' chat9)" chat10
        "\<lparr>core = chat10, pending = [], held = [], owner = demo_owner\<rparr>"
        "\<lparr>core = chat14, pending = [], held = [], owner = (demo_uuid (CHR ''d''), demo_job) # demo_owner\<rparr>"]
      j(2,3,4,6) r_into_rtranclp [of reply_step, OF demo_stranded_steps(1)] demo_stranded_steps(2)
    by (simp add: chat10_def)
  show "hold chat14 (demo_uuid (CHR ''d'')) = Some (Captured, None)" "status_of demo_job chat14 = Some Completed" by code_simp+
qed

end
