(* ===== verification/Reply_Props.thy ===== *)
theory Reply_Props
  imports Reply_Leases
begin

text \<open>
  What conversations promise: every reply is charged once, a job follows the abstract life of \<open>job_move\<close>,
  a message that cannot be sent costs nothing, and the agent sees the turns in order.
\<close>

section \<open>Charging\<close>

text \<open>C12: In every reachable state, whatever requests, workers, retries and crashes have interleaved, a job has
  exactly one reply and exactly one captured reservation when it is completed, and neither before: there
  is no free reply and no charge without one. While it waits or runs, its reservation is held without expiry.\<close>

theorem reply_charged_once:
  assumes "reachable st" "j \<in> set (jobs (core st))"
  shows "length (replies_to (job_id j) (messages (core st))) = (if job_status j = Completed then 1 else 0) \<and>
    (if job_status j = Completed then \<exists>r. charges (owner st) (hold (core st)) (job_id j) = {r}
     else charges (owner st) (hold (core st)) (job_id j) = {}) \<and>
    (job_status j = Queued \<or> job_status j = Running \<longrightarrow>
       (\<exists>r. job_reservation j = Some r \<and> hold (core st) r = Some (Reserved, None)))"
  using reply_invD(6) [OF reachable_inv [OF assms(1)] assms(2)] unfolding job_ok_def by blast

theorem reply_charged_once_witness:
  "length (replies_to demo_job (messages chat4)) = 1 \<and>
   (\<exists>r. charges [(demo_uuid (CHR ''a''), demo_job)] (hold chat4) demo_job = {r})"
proof -
  have "jobs chat4 \<noteq> []" "job_id (hd (jobs chat4)) = demo_job" "job_status (hd (jobs chat4)) = Completed" by code_simp+
  with reply_charged_once [OF demo_reached(3), of "hd (jobs chat4)"] show ?thesis by simp
qed

section \<open>The life of a job\<close>

lemma running_moves:
  assumes "jobs s' = update_where (running_claim c) f (jobs s)" "\<And>j. job_id (f j) = job_id j"
    and "\<And>j. job_status (f j) = b" "job_move Running b"
  shows "job_steps s s'"
  by (rule job_steps_update [OF assms(1,2)]) (use assms(3,4) in \<open>auto simp: running_claim_def\<close>)

lemma reply_step_moves:
  assumes "reply_step st st'" "reply_inv st"
  shows "job_steps (core st) (core st')"
  using assms
proof (induction rule: reply_step.induct)
  case (reserve t ids u st r s')
  from uuid_reference [OF reserve(3)] have "same_chat (core st) s'"
    using chat_reservation_effect(3) [OF reserve(1,2)] by (simp add: reference_ok_def)
  then show ?case by (simp add: job_steps_same same_chat_def)
next
  case (abort ref st t)
  then have "same_chat (core st) (release_quietly t ref (core st))"
    using release_quietly_effect(1) [OF reply_invD(1)] pending_unowned(5) [OF reply_invD(2)] by blast
  then show ?case by (simp add: job_steps_same same_chat_def)
next
  case (send ref st parse t ids u c body x s')
  then show ?case by (auto elim!: send_tx_effect intro: job_steps_append)
next
  case (retry ref st t i s')
  then show ?case by (auto simp: requeue_def Let_def intro!: job_steps_update)
next
  case (take opts t lf i cid st c s')
  from take(1) obtain j started where j: "find (\<lambda>j. job_id j = i) (jobs (core st)) = Some j" "ready_job t j"
    and s': "s' = core st\<lparr>jobs := update_where (\<lambda>j. job_id j = i) (\<lambda>k. k\<lparr>job_status := Running, job_attempts := job_attempts k + 1,
       job_lease := Some (js_after t (wo_lease opts)), job_started := Some started,
       job_deadline := Some (cl_deadline c)\<rparr>) (jobs (core st))\<rparr>"
    by (rule claim_effect) blast
  have "k = j" if "k \<in> set (jobs (core st))" "job_id k = i" for k
    using unique_key_eq [OF reply_invD(5) [OF take(2)] that(1)] find_in_set [OF j(1)] that(2) by simp
  moreover have "job_move (job_status j) Running" using j(2) by (auto simp: ready_job_def)
  ultimately show ?case by (auto simp: s' intro!: job_steps_update)
next
  case (reply c st parse t mid lid answer x s')
  from reply(3,1) obtain r where r: "cl_reservation c = Some r" "trim r = r" "r \<noteq> []" by (rule held_claim) blast
  from reply(2) reply_invD(1) [OF reply(3)] r show ?case
    by (cases rule: complete_tx_effect) (auto intro: job_steps_same running_moves [where b = Completed])
next
  case (give_up c st t reason x s')
  from give_up(3,1) obtain r where r: "cl_reservation c = Some r" "r \<noteq> []" "hold (core st) r \<noteq> None" by (rule held_claim) blast
  from finalize_effect(4) [OF give_up(2) reply_invD(1) [OF give_up(3)] r] show ?case
    by (auto intro: running_moves [where b = Failed])
next
  case (later c st opts t reason)
  let ?f = "\<lambda>j. j\<lparr>job_status := Queued, job_ready := js_after t (wo_backoff opts), job_lease := None, job_reason := Some reason\<rparr>"
  show ?case by (rule running_moves [where b = Queued and f = ?f and c = c]) (simp_all add: requeue_later_def)
qed (simp_all add: job_steps_same)

text \<open>C13: The transactions implement the abstract life of a reply job: in every reachable state a step leaves the
  status of a job alone or moves it along \<open>job_move\<close>, in which completed is final and only a failed job is
  queued anew by its user.\<close>

theorem job_lifecycle:
  assumes "reachable st" "reply_step st st'" "status_of i (core st) = Some a"
  shows "\<exists>b. status_of i (core st') = Some b \<and> (b = a \<or> job_move a b)"
  using reply_step_moves [OF assms(2) reachable_inv [OF assms(1)]] assms(3) unfolding job_steps_def by blast

theorem job_lifecycle_witness:
  "\<exists>b. status_of demo_job (requeue_later demo_options 5000 claim1 ''http_500'' chat3) = Some b \<and> (b = Running \<or> job_move Running b)"
proof -
  have "status_of demo_job chat3 = Some Running" by code_simp
  from job_lifecycle [OF demo_reached(2) reply_step.later, of claim1] this show ?thesis by simp
qed

section \<open>Failures\<close>

lemma reserved_sum_append:
  "reservations s' = reservations s @ [row] \<Longrightarrow>
   reserved_sum now v s' = reserved_sum now v s + (if rsv_user row = v \<and> active_reservation now row then rsv_amount row else 0)"
  by (simp add: reserved_sum_def)

lemma reserve_then_release:
  assumes ok: "ledger_ok s" and r: "chat_reservation t1 ids u s = Inr (r, s1)" "find_reservation s (mi_reference ids) = None"
    "is_uuid (mi_reference ids)"
  shows "balance_breakdown now v (release_quietly t3 (crr_ref r) s1) = balance_breakdown now v s"
    and "same_chat s (release_quietly t3 (crr_ref r) s1)"
proof -
  let ?ref = "mi_reference ids"
  have ref: "trim ?ref = ?ref" "?ref \<noteq> []" using uuid_reference [OF r(3)] by (simp_all add: reference_ok_def)
  note eff = chat_reservation_effect [OF r(1,2) ref]
  have ok1: "ledger_ok s1" using r(1) ok unfolding chat_reservation_def by (rule reserve_credits_ok [rotated])
  have "reserve_tx t1 (mi_reservation ids) u Chat_Reply ?ref (Some None) s = Inr (r, s1)"
    using r(1) ref by (simp add: chat_reservation_def reserve_credits_def)
  then obtain row where s1: "s1 = s\<lparr>reservations := reservations s @ [row]\<rparr>" and row: "rsv_ref row = ?ref" "rsv_status row = Reserved"
    using r(2) by (cases rule: reserve_tx_elim) (auto simp: ins_reservation_Inr_iff)
  have f: "find_reservation s1 ?ref = Some row"
    using r(2) row by (simp add: s1 find_reservation_def find_append)
  obtain x s2 where rel: "release_in_tx t3 ?ref s1 = Inr (x, s2)"
    using release_total [of s1 ?ref t3] f by (auto simp: hold_def)
  from rel ok1 have s2: "s2 = update_reservations (\<lambda>x. rsv_id x = rsv_id row) (set_status t3 Released) s1"
    by (cases rule: release_in_tx_elim) (use f row in auto)
  have q: "release_quietly t3 (crr_ref r) s1 = s2" using rel by (simp add: eff(1) release_quietly_def release_reservation_def)
  show "same_chat s (release_quietly t3 (crr_ref r) s1)"
    using eff(3) by (simp add: q s2 same_chat_def update_reservations_def)
  have "row \<in> set (reservations s1)" by (simp add: s1)
  then have "reserved_sum now v s2 = reserved_sum now v s"
    using reserved_sum_update [OF ledger_okD(4) [OF ok1], of row Released now v t3] reserved_sum_append [of s1 s row now v]
    by (simp add: s1 [symmetric] s2) (simp add: s1)
  moreover have "paid_balance (balance_breakdown now v s2) = paid_balance (balance_breakdown now v s)"
    "free_balance (balance_breakdown now v s2) = free_balance (balance_breakdown now v s)"
    unfolding s2 update_reservations_balances by (rule balance_cong; simp add: s1)+
  ultimately show "balance_breakdown now v (release_quietly t3 (crr_ref r) s1) = balance_breakdown now v s"
    unfolding q by (intro balance.equality) (simp_all add: available_balance_eq)
qed

lemma log_failure_balance: "balance_breakdown now v (log_failure x y s) = balance_breakdown now v s"
proof (rule balance.equality)
  show p: "paid_balance (balance_breakdown now v (log_failure x y s)) = paid_balance (balance_breakdown now v s)"
    and f: "free_balance (balance_breakdown now v (log_failure x y s)) = free_balance (balance_breakdown now v s)"
    by (rule balance_cong; simp add: log_failure_def)+
  show "available_balance (balance_breakdown now v (log_failure x y s)) = available_balance (balance_breakdown now v s)"
    unfolding available_balance_eq p f by (simp add: reserved_sum_def log_failure_def)
qed simp

lemma send_message_error:
  assumes "send_message parse describe t1 t2 t3 ids u c raw s = (Inl err, s')"
  obtains (before) "s' = s"
  | (after) body r s1 e where "chat_reservation t1 ids u s = Inr (r, s1)" "send_tx parse t2 ids u c body (crr_ref r) s1 = Inl e"
      "s' = log_failure (describe e) (J_Object [(''userId'', J_String u), (''characterId'', J_String c)])
         (release_quietly t3 (crr_ref r) s1)"
proof (cases "trimmed raw = None \<or> \<not> has_character c s \<or> isl (chat_reservation t1 ids u s)")
  case True
  then consider "trimmed raw = None" | body where "trimmed raw = Some body" "\<not> has_character c s"
    | body e where "trimmed raw = Some body" "has_character c s" "chat_reservation t1 ids u s = Inl e"
    by (cases "trimmed raw"; cases "has_character c s"; cases "chat_reservation t1 ids u s") auto
  then show ?thesis by cases (use assms before in \<open>simp_all add: send_message_def\<close>)
next
  case False
  then obtain body r s1 where b: "trimmed raw = Some body" "has_character c s" "chat_reservation t1 ids u s = Inr (r, s1)"
    by (cases "chat_reservation t1 ids u s") auto
  show ?thesis
  proof (cases "send_tx parse t2 ids u c body (crr_ref r) s1")
    case (Inl e)
    with assms b show ?thesis by (intro after [OF b(3) Inl]) (auto simp: send_message_def commit_def)
  next
    case (Inr p)
    with assms b show ?thesis by (cases p) (auto simp: send_message_def commit_def)
  qed
qed

text \<open>C15: A message that cannot be sent costs nothing: when \<open>sendMessage\<close> fails, at whatever point, every balance of
  every user is what it was, and so are the conversations, the messages and the jobs.\<close>

theorem send_failure_restores:
  assumes "ledger_ok s" "send_message parse describe t1 t2 t3 ids u c raw s = (Inl err, s')"
    and "find_reservation s (mi_reference ids) = None" "is_uuid (mi_reference ids)"
  shows "balance_breakdown now v s' = balance_breakdown now v s \<and> same_chat s s'"
  using assms(2)
proof (cases rule: send_message_error)
  case (after body r s1 e)
  note restored = reserve_then_release [OF assms(1) after(1) assms(3,4)]
  have "balance_breakdown now v s' = balance_breakdown now v (release_quietly t3 (crr_ref r) s1)"
    unfolding after(3) by (rule log_failure_balance)
  with restored after(3) show ?thesis by (simp add: same_chat_def log_failure_fields)
qed simp

theorem send_failure_restores_witness:
  "available_balance (balance_breakdown 100 ''ana'' (snd (send_message no_url (\<lambda>_. ''failed'') 100 200 300
     (demo_ids (CHR ''b'')\<lparr>mi_message := CHR ''a'' # ''-message''\<rparr>) ''ana'' (demo_uuid (CHR ''c'')) (Some ''hi'') chat2))) =
   available_balance (balance_breakdown 100 ''ana'' chat2)"
proof -
  let ?ids = "demo_ids (CHR ''b'')\<lparr>mi_message := CHR ''a'' # ''-message''\<rparr>"
  let ?run = "send_message no_url (\<lambda>_. ''failed'') 100 200 300 ?ids ''ana'' (demo_uuid (CHR ''c'')) (Some ''hi'') chat2"
  have "ledger_ok chat2" "isl (fst ?run)" "find_reservation chat2 (mi_reference ?ids) = None" "is_uuid (mi_reference ?ids)"
    by code_simp+
  then have "?run = (Inl (projl (fst ?run)), snd ?run)" by (simp add: prod_eq_iff)
  from send_failure_restores [OF \<open>ledger_ok chat2\<close> this \<open>find_reservation chat2 (mi_reference ?ids) = None\<close>
      \<open>is_uuid (mi_reference ?ids)\<close>]
  show ?thesis by (simp only:)
qed

section \<open>What the agent sees\<close>

lemma last_of_sorted:
  fixes k :: "'a \<Rightarrow> 'k :: linorder"
  assumes "sorted (map k xs)" "p \<in> set xs" "\<And>q. q \<in> set xs \<Longrightarrow> q \<noteq> p \<Longrightarrow> k q < k p"
  shows "\<exists>ys. xs = ys @ [p]"
proof -
  obtain ys q where xs: "xs = ys @ [q]" using assms(2) by (cases xs rule: rev_cases) auto
  have "q = p"
  proof (rule ccontr)
    assume "q \<noteq> p"
    then have "k q < k p" "p \<in> set ys" using assms(2,3) xs by auto
    moreover have "k p \<le> k q" using assms(1) \<open>p \<in> set ys\<close> by (auto simp: xs sorted_append)
    ultimately show False by simp
  qed
  with xs show ?thesis by blast
qed

definition turn_of :: "db \<Rightarrow> message_row \<Rightarrow> (time \<times> uid) option" where
  "turn_of s m = map_option (\<lambda>j. (js_date (job_created j), job_id j)) (job_of m s)"

text \<open>Which of two messages the agent is to see first: that of the earlier turn, and of one turn the user's before the
  character's.\<close>

definition seen_before :: "db \<Rightarrow> message_row \<Rightarrow> message_row \<Rightarrow> bool" where
  "seen_before s x y \<longleftrightarrow>
     the (turn_of s x) < the (turn_of s y) \<or>
     turn_of s x = turn_of s y \<and>
       (msg_sender x = From_User \<and> msg_sender y = From_Character \<or>
        msg_sender x = msg_sender y \<and> (js_date (msg_created x), msg_id x) < (js_date (msg_created y), msg_id y))"

lemma context_key_seen:
  assumes "context_key (x, job_of x s) \<le> context_key (y, job_of y s)" "msg_id x \<noteq> msg_id y"
    and "turn_of s x \<noteq> None" "turn_of s y \<noteq> None"
  shows "seen_before s x y"
proof -
  obtain i j where "job_of x s = Some i" "job_of y s = Some j" using assms(3,4) by (auto simp: turn_of_def)
  with assms(1,2) show ?thesis
    by (cases "msg_sender x"; cases "msg_sender y")
      (auto simp: seen_before_def turn_of_def context_key_def group_key_def role_order_def)
qed

text \<open>The order of the keys is that order.\<close>

lemma seen_before_sorted:
  assumes "sorted (map (\<lambda>x. context_key (x, job_of x s)) xs)" "distinct (map msg_id xs)"
    and "\<And>x. x \<in> set xs \<Longrightarrow> turn_of s x \<noteq> None"
  shows "sorted_wrt (seen_before s) xs"
  using assms
proof (induction xs)
  case (Cons x xs)
  have "seen_before s x y" if y: "y \<in> set xs" for y
  proof (rule context_key_seen)
    show "msg_id x \<noteq> msg_id y" using Cons.prems(2) y by auto
    show "turn_of s x \<noteq> None" "turn_of s y \<noteq> None" using Cons.prems(3) y by auto
  qed (use Cons.prems(1) y in simp)
  then show ?case using Cons by simp
qed simp

lemma scoped_history_turns:
  assumes "distinct (map msg_id (messages s))" "m \<in> set (messages s)" "msg_conversation m = cl_conversation c"
    and "turn_of s m = Some (cl_created c, cl_id c)"
    and "\<And>x. x \<in> set (messages s) \<Longrightarrow> msg_conversation x = cl_conversation c \<Longrightarrow> turn_of s x \<noteq> None"
    and "\<And>x. x \<in> set (messages s) \<Longrightarrow> msg_job x = Some (cl_id c) \<Longrightarrow> x = m"
  shows "\<exists>older. scoped_history c m s = older @ [m] \<and> sorted_wrt (seen_before s) older \<and>
    set older = {x \<in> set (messages s). msg_conversation x = cl_conversation c \<and> the (turn_of s x) < (cl_created c, cl_id c)}"
proof -
  let ?pair = "\<lambda>x. (x, job_of x s)"
  let ?conv = "filter (\<lambda>x. msg_conversation x = cl_conversation c) (messages s)"
  let ?h = "filter (in_scope c m) (map ?pair ?conv)"
  let ?l = "sort_key context_key ?h"
  have jobs: "job_id j = k" if "msg_job x = Some k" "job_of x s = Some j" for x j k
    using that find_in_set [of "\<lambda>j. job_id j = k" "jobs s" j] by (simp add: job_of_def)
  have key: "group_key x (job_of x s) = the (turn_of s x)" "in_scope c m (?pair x) \<longleftrightarrow> the (turn_of s x) \<le> (cl_created c, cl_id c)"
    if "x \<in> set ?conv" for x
    using assms(5) [of x] that by (auto simp: turn_of_def group_key_def in_scope_def split: option.splits)
  have m: "m \<in> set ?conv" "the (turn_of s m) = (cl_created c, cl_id c)" using assms(2,3,4) by simp_all
  have less: "the (turn_of s x) < (cl_created c, cl_id c)"
    if x: "x \<in> set ?conv" "the (turn_of s x) \<le> (cl_created c, cl_id c)" "x \<noteq> m" for x
  proof -
    obtain k j where k: "msg_job x = Some k" "job_of x s = Some j"
      using assms(5) [of x] x(1) by (cases "msg_job x") (auto simp: turn_of_def job_of_def)
    have "k \<noteq> cl_id c" using assms(6) [of x] k(1) x(1,3) by auto
    then have "the (turn_of s x) \<noteq> (cl_created c, cl_id c)" using jobs [OF k] k(2) by (simp add: turn_of_def)
    with x(2) show ?thesis by simp
  qed
  have "\<exists>ys. ?l = ys @ [?pair m]"
  proof (rule last_of_sorted)
    show "?pair m \<in> set ?l" using m key(2) [OF m(1)] by simp
    fix q assume q: "q \<in> set ?l" "q \<noteq> ?pair m"
    then obtain x where x: "x \<in> set ?conv" "q = ?pair x" "in_scope c m (?pair x)" by auto
    then have "the (turn_of s x) < (cl_created c, cl_id c)" using less key(2) [OF x(1)] q(2) by blast
    then show "context_key q < context_key (?pair m)"
      using key(1) [OF x(1)] key(1) [OF m(1)] m(2) by (simp add: x(2) context_key_def)
  qed simp
  then obtain ys where ys: "?l = ys @ [?pair m]" ..
  have d: "distinct ?l"
    using assms(1) by (simp add: distinct_map inj_on_def)
  have pairs: "y = ?pair (fst y)" if "y \<in> set ys" for y
  proof -
    have "y \<in> set ?l" using that ys by simp
    then show ?thesis by auto
  qed
  have sorted: "sorted (map context_key ys)"
    using sorted_sort_key [of context_key ?h] unfolding ys by (simp add: sorted_append)
  have "map (\<lambda>x. context_key (?pair x)) (map fst ys) = map context_key ys"
    using pairs by (auto simp: map_eq_conv)
  with sorted have keys: "sorted (map (\<lambda>x. context_key (?pair x)) (map fst ys))" by (simp only:)
  have "set ys = set ?l - {?pair m}" using d unfolding ys by auto
  then have "set ys = ?pair ` {x \<in> set ?conv. the (turn_of s x) < (cl_created c, cl_id c)}"
    using less key(2) m(2) by (auto simp: image_iff)
  then have b: "set (map fst ys) = {x \<in> set (messages s). msg_conversation x = cl_conversation c \<and>
      the (turn_of s x) < (cl_created c, cl_id c)}" by (auto simp: image_image)
  have "distinct (map (\<lambda>q. msg_id (fst q)) ?l)" using assms(1) by (auto simp: distinct_map inj_on_def)
  then have "distinct (map msg_id (map fst ys))" unfolding ys by (simp add: o_def)
  then have "sorted_wrt (seen_before s) (map fst ys)"
    using assms(5) b by (intro seen_before_sorted [OF keys]) auto
  with b have "scoped_history c m s = map fst ys @ [m] \<and> sorted_wrt (seen_before s) (map fst ys) \<and>
      set (map fst ys) = {x \<in> set (messages s). msg_conversation x = cl_conversation c \<and> the (turn_of s x) < (cl_created c, cl_id c)}"
    by (simp add: scoped_history_def ys)
  then show ?thesis by blast
qed

text \<open>C17: The agent sees exactly the messages of the turns before the current one, turn by turn and in each turn the user's
  message before the character's, and then the current message, whatever was stored meanwhile: when every message belongs to
  a turn and the current one has no reply yet.\<close>

theorem context_follows_turns:
  assumes "reply_context c s = Inr context" "distinct (map msg_id (messages s))"
    and "m \<in> set (messages s)" "msg_id m = cl_turn c" "msg_conversation m = cl_conversation c"
    and "turn_of s m = Some (cl_created c, cl_id c)"
    and "\<And>x. x \<in> set (messages s) \<Longrightarrow> msg_conversation x = cl_conversation c \<Longrightarrow> turn_of s x \<noteq> None"
    and "\<And>x. x \<in> set (messages s) \<Longrightarrow> msg_job x = Some (cl_id c) \<Longrightarrow> x = m"
  shows "\<exists>older. ri_messages context = map to_turn (older @ [m]) \<and> ri_turn context = msg_id m \<and>
    sorted_wrt (seen_before s) older \<and>
    set older = {x \<in> set (messages s). msg_conversation x = cl_conversation c \<and> the (turn_of s x) < (cl_created c, cl_id c)}"
proof -
  from scoped_history_turns [OF assms(2,3,5-8)] obtain older where older: "scoped_history c m s = older @ [m]"
    "sorted_wrt (seen_before s) older"
    "set older = {x \<in> set (messages s). msg_conversation x = cl_conversation c \<and> the (turn_of s x) < (cl_created c, cl_id c)}"
    by blast
  have "find (\<lambda>x. msg_id x = cl_turn c) (messages s) = Some m"
    using find_unique [OF assms(2,3)] assms(4) by simp
  then have "ri_messages context = map to_turn (older @ [m]) \<and> ri_turn context = msg_id m"
    using assms(1,4) older(1) by (auto simp: reply_context_def bindR_Inr_iff require_some_Inr_iff)
  with older(2,3) show ?thesis by blast
qed

text \<open>The second message came before the reply to the first.\<close>

theorem context_follows_turns_witness:
  "map rt_content (ri_messages (projr (reply_context next_claim busy3))) = [''hi'', ''hello'', ''again''] \<and>
   map msg_body (messages busy3) = [''hi'', ''again'', ''hello''] \<and>
   (\<exists>older m. ri_messages (projr (reply_context next_claim busy3)) = map to_turn (older @ [m]) \<and> sorted_wrt (seen_before busy3) older)"
proof (intro conjI)
  let ?m = "messages busy3 ! 1"
  have facts: "\<not> isl (reply_context next_claim busy3)" "distinct (map msg_id (messages busy3))" "length (messages busy3) = 3"
    "msg_id ?m = cl_turn next_claim" "msg_conversation ?m = cl_conversation next_claim"
    "turn_of busy3 ?m = Some (cl_created next_claim, cl_id next_claim)"
    "list_all (\<lambda>x. turn_of busy3 x \<noteq> None \<and> (x = ?m \<or> msg_job x \<noteq> Some (cl_id next_claim))) (messages busy3)"
    by code_simp+
  have run: "reply_context next_claim busy3 = Inr (projr (reply_context next_claim busy3))"
    using facts(1) by (cases "reply_context next_claim busy3") simp_all
  have m: "?m \<in> set (messages busy3)" using facts(3) nth_mem [of 1 "messages busy3"] by simp
  have "turn_of busy3 x \<noteq> None" if "x \<in> set (messages busy3)" for x
    using facts(7) that unfolding list_all_iff by blast
  moreover have "x = ?m" if "x \<in> set (messages busy3)" "msg_job x = Some (cl_id next_claim)" for x
    using facts(7) that unfolding list_all_iff by blast
  ultimately obtain older where "ri_messages (projr (reply_context next_claim busy3)) = map to_turn (older @ [?m])"
    "sorted_wrt (seen_before busy3) older"
    using context_follows_turns [OF run facts(2) m facts(4-6)] by blast
  then show "\<exists>older m. ri_messages (projr (reply_context next_claim busy3)) = map to_turn (older @ [m]) \<and> sorted_wrt (seen_before busy3) older"
    by blast
  show "map rt_content (ri_messages (projr (reply_context next_claim busy3))) = [''hi'', ''hello'', ''again'']"
    "map msg_body (messages busy3) = [''hi'', ''again'', ''hello'']"
    by code_simp+
qed

section \<open>Experiences\<close>

text \<open>The experience of a reply reaches the reader as the provider parsed it: stored as JSON with the message, it is
  read back the same, or absent when there was none.\<close>

theorem experience_kept:
  assumes "create_reply parse outcome = Inr r"
    and "append_message parse t i cid From_Character (mr_body r) (mr_experience r) job s = Inr (m, s')"
  shows "mv_experience (view_message parse s' m) = mr_experience r \<and> mv_body (view_message parse s' m) = mr_body r"
proof -
  have "\<exists>v. mr_experience r = parse_experience parse v"
    using assms(1) by (auto simp: create_reply_def reply_failure_def
        split: fetch_outcome.splits if_splits option.splits completion_content.splits)
  then obtain v where v: "mr_experience r = parse_experience parse v" ..
  have "parse_experience parse None = None" by (simp add: parse_experience_def)
  then have again: "parse_experience parse (map_option experience_json (mr_experience r)) = mr_experience r"
    using parse_experience_idem [of parse v] by (cases "mr_experience r") (simp_all add: v)
  have "msg_sender m = From_Character" "msg_body m = mr_body r"
    "msg_experience m = map_option experience_json (mr_experience r)"
    using assms(2) again by (auto simp: append_message_def res_simps)
  then show ?thesis using again by (simp add: view_message_def to_message_def)
qed

theorem experience_kept_witness:
  "mv_body (view_message no_url (after (append_message no_url 5000 ''m9'' demo_room From_Character ''hey'' None None chat3))
     (out (append_message no_url 5000 ''m9'' demo_room From_Character ''hey'' None None chat3))) = ''hey''"
proof -
  let ?answer = "J_Object [(''choices'', J_Array [J_Object [(''message'', J_Object [(''content'', J_String '' hey '')])]])]"
  let ?run = "append_message no_url 5000 ''m9'' demo_room From_Character ''hey'' None None chat3"
  have "create_reply no_url (Answered 200 (Some ?answer)) = Inr \<lparr>mr_body = ''hey'', mr_experience = None\<rparr>" "\<not> isl ?run"
    by code_simp+
  with experience_kept [OF this(1), of 5000 "''m9''" demo_room None chat3 "out ?run" "after ?run"] run_ok [OF this(2)]
  show ?thesis by simp
qed

end
