(* ===== verification/Message_Pages.thy ===== *)
theory Message_Pages
  imports Messages
begin

text \<open>
  The listings of \<open>messages.service.ts\<close>. Conversations are listed by the instant of their last message,
  which \<open>appendMessageWithClient\<close> stores as a JavaScript \<open>Date\<close>, so the keyset contract holds for every
  conversation that has had a message; messages are listed by the database's instant.
\<close>

interpretation conversation_pages: keyset_listing conversation_key
  "\<lambda>(parse, u, s) r. cnv_user r = u \<and> active_character r s \<noteq> None" "\<lambda>(parse, u, s). conversations s"
  "\<lambda>(parse, u, s). to_conversation parse s" sm_id
  "\<lambda>(parse, u, s) c n. list_conversations_page parse u \<lparr>pg_cursor = c, pg_limit = n\<rparr> s"
  by unfold_locales (auto simp: list_conversations_page_def case_prod_beta conversation_key_def to_conversation_def Let_def)

lemma conversation_pages_complete:
  assumes "keyset_ms conversation_key (\<lambda>r. cnv_user r = u \<and> active_character r s \<noteq> None) (conversations s)" "0 < n"
  shows "follow_pages (\<lambda>c. list_conversations_page parse u \<lparr>pg_cursor = c, pg_limit = n\<rparr> s)
      (Suc (length (conversation_pages.listed (parse, u, s)))) None = Inr (conversation_pages.listed (parse, u, s))"
proof -
  have "conversation_pages.settled (parse, u, s)" unfolding conversation_pages.settled_def prod.case by (rule assms(1))
  from conversation_pages.all_pages [OF this assms(2)] show ?thesis unfolding prod.case .
qed

text \<open>What a message leaves in its conversation is a whole number of milliseconds.\<close>

lemma append_message_stamps:
  assumes "append_message parse now i cid sender body x job s = Inr (m, s')" "r \<in> set (conversations s')" "cnv_id r = cid"
  shows "js_date (cnv_last_message r) = cnv_last_message r"
proof -
  have "js_date (js_date now) = js_date now" by (simp add: js_date_def)
  with assms show ?thesis by (auto simp: append_message_def res_simps set_update_where split: if_splits)
qed

text \<open>The messages of one conversation, as the query of \<open>getMessagesPage\<close> pages them.\<close>

interpretation message_pages: keyset_listing_asc message_key "\<lambda>(parse, i, s) m. msg_conversation m = i"
  "\<lambda>(parse, i, s). messages s" "\<lambda>(parse, i, s). view_message parse s" mv_id
  "\<lambda>(parse, i, s) c n. bindR (decode_cursor c) (\<lambda>cursor_id.
     bindR (keyset_page_asc message_key (\<lambda>m. msg_conversation m = i) (messages s) cursor_id n) (\<lambda>rows.
     Inr (page_from_rows mv_id (map (view_message parse s) rows) n)))"
  by unfold_locales (auto simp: case_prod_beta view_message_def to_message_def message_key_def)

lemma get_messages_page_query:
  assumes "has_character c s" "find_conversation u c s = Some r"
  shows "get_messages_page parse u c \<lparr>pg_cursor = cursor, pg_limit = n\<rparr> s =
    bindR (decode_cursor cursor) (\<lambda>cursor_id.
      bindR (keyset_page_asc message_key (\<lambda>m. msg_conversation m = cnv_id r) (messages s) cursor_id n) (\<lambda>rows.
      Inr (page_from_rows mv_id (map (view_message parse s) rows) n)))"
  using assms by (simp add: get_messages_page_def)

lemma get_messages_complete:
  assumes "has_character c s" "find_conversation u c s = Some r"
    and "keyset_ms message_key (\<lambda>m. msg_conversation m = cnv_id r) (messages s)" "0 < n"
  shows "follow_pages (\<lambda>cursor. get_messages_page parse u c \<lparr>pg_cursor = cursor, pg_limit = n\<rparr> s)
      (Suc (length (message_pages.listed (parse, cnv_id r, s)))) None = Inr (message_pages.listed (parse, cnv_id r, s))"
  using message_pages.all_pages [of "(parse, cnv_id r, s)" n] assms(3,4)
  unfolding get_messages_page_query [OF assms(1,2)] by (simp add: message_pages.settled_def)

end
