(* ===== verification/Consents.thy ===== *)
theory Consents
  imports Backend
begin

text \<open>
  \<open>src/consents/consents.service.ts\<close>: the terms in force, what a user has agreed to, and the answers taken
  at sign-up and later. Answers are only ever added; the newest answer of a type counts. Versions come
  from the document in force, never from the client.
\<close>

section \<open>Types and documents\<close>

definition consent_types :: "consent_type list" where
  "consent_types = [Terms_Of_Service, Privacy, Age_14, Marketing]"

definition optional_consent_types :: "consent_type list" where
  "optional_consent_types = [Marketing]"

fun consent_name :: "consent_type \<Rightarrow> string" where
  "consent_name Terms_Of_Service = ''terms_of_service''"
| "consent_name Privacy = ''privacy''"
| "consent_name Age_14 = ''age_14''"
| "consent_name Marketing = ''marketing''"

definition is_required :: "consent_type \<Rightarrow> bool" where
  "is_required t \<longleftrightarrow> t \<notin> set optional_consent_types"

definition required_consent_type :: "json option \<Rightarrow> consent_type res" where
  "required_consent_type v =
     require_some (find (\<lambda>t. json_text v = Some (consent_name t)) consent_types)
       (Bad_Request ''consent type is invalid'')"

record document_summary =
  dcs_type :: consent_type
  dcs_version :: string
  dcs_title :: string
  dcs_required :: bool
  dcs_effective :: time

definition to_summary :: "terms_row \<Rightarrow> document_summary" where
  "to_summary d = \<lparr>dcs_type = trm_type d, dcs_version = trm_version d, dcs_title = trm_title d,
     dcs_required = is_required (trm_type d), dcs_effective = js_date (trm_effective d)\<rparr>"

definition newest_row :: "('r \<Rightarrow> time \<times> uid) \<Rightarrow> ('r \<Rightarrow> bool) \<Rightarrow> 'r list \<Rightarrow> 'r option" where
  "newest_row key p rows = (case rev (sort_key key (filter p rows)) of [] \<Rightarrow> None | r # _ \<Rightarrow> Some r)"

definition effective_document :: "time \<Rightarrow> consent_type \<Rightarrow> backend \<Rightarrow> terms_row option" where
  "effective_document now t s =
     newest_row (\<lambda>d. (trm_effective d, trm_id d)) (\<lambda>d. trm_type d = t \<and> trm_effective d \<le> js_date now) (terms_docs s)"

definition effective_documents :: "time \<Rightarrow> backend \<Rightarrow> (consent_type \<times> document_summary) list" where
  "effective_documents now s =
     map (\<lambda>d. (trm_type d, to_summary d)) (List.map_filter (\<lambda>t. effective_document now t s) consent_types)"

definition list_effective_documents :: "time \<Rightarrow> backend \<Rightarrow> document_summary list" where
  "list_effective_documents now s = List.map_filter (map_of (effective_documents now s)) consent_types"

definition find_effective_document :: "time \<Rightarrow> json option \<Rightarrow> backend \<Rightarrow> (document_summary \<times> string) option res" where
  "find_effective_document now v s =
     bindR (required_consent_type v) (\<lambda>t.
       Inr (map_option (\<lambda>d. (to_summary d, trm_body d)) (effective_document now t s)))"

section \<open>Answers\<close>

definition latest_consent :: "uid \<Rightarrow> consent_type \<Rightarrow> backend \<Rightarrow> consent_row option" where
  "latest_consent u t s =
     newest_row (\<lambda>r. (cns_created r, cns_id r)) (\<lambda>r. cns_user r = u \<and> cns_type r = t) (user_consents s)"

definition latest_consents :: "uid \<Rightarrow> backend \<Rightarrow> (consent_type \<times> consent_row) list" where
  "latest_consents u s =
     map (\<lambda>r. (cns_type r, r)) (List.map_filter (\<lambda>t. latest_consent u t s) consent_types)"

record consent_status =
  cst_type :: consent_type
  cst_required :: bool
  cst_agreed :: bool
  cst_agreed_version :: "string option"
  cst_current_version :: "string option"
  cst_needs :: bool

definition list_user_consents :: "time \<Rightarrow> uid \<Rightarrow> backend \<Rightarrow> consent_status list" where
  "list_user_consents now u s =
     (let documents = effective_documents now s; latest = latest_consents u s in
      map (\<lambda>t.
        let current = map_option dcs_version (map_of documents t);
            row = map_of latest t;
            agreed = (case row of None \<Rightarrow> False | Some r \<Rightarrow> cns_agreed r)
        in \<lparr>cst_type = t, cst_required = is_required t, cst_agreed = agreed,
            cst_agreed_version = map_option cns_version row, cst_current_version = current,
            cst_needs = (is_required t \<and> current \<noteq> None \<and> \<not> (agreed \<and> map_option cns_version row = current))\<rparr>)
      consent_types)"

record consent_record =
  ccr_type :: consent_type
  ccr_version :: string
  ccr_agreed :: bool

type_synonym consent_input = "consent_type \<times> bool"

definition parse_consent_item :: "json \<Rightarrow> consent_input res" where
  "parse_consent_item item =
     bindR (require_some (json_bool (json_field ''agreed'' item)) (Bad_Request ''consents[].agreed must be a boolean''))
       (\<lambda>agreed.
     bindR (required_consent_type (json_field ''type'' item)) (\<lambda>t. Inr (t, agreed)))"

definition parse_consent_inputs :: "json option \<Rightarrow> consent_input list res" where
  "parse_consent_inputs v =
     (case v of
        None \<Rightarrow> Inr []
      | Some J_Null \<Rightarrow> Inr []
      | Some (J_Array xs) \<Rightarrow>
          bindR (mapR parse_consent_item xs) (\<lambda>inputs.
          bindR (ensure (distinct (map fst inputs)) (Bad_Request ''consents must not repeat the same type''))
            (\<lambda>_. Inr inputs))
      | _ \<Rightarrow> Inl (Bad_Request ''consents must be an array''))"

definition to_consent_records :: "(consent_type \<times> document_summary) list \<Rightarrow> consent_input list \<Rightarrow> consent_record list res" where
  "to_consent_records documents = mapR (\<lambda>(t, agreed).
     bindR (require_some (map_of documents t) (Bad_Request (''Consent document is not available: '' @ consent_name t)))
       (\<lambda>d. Inr \<lparr>ccr_type = t, ccr_version = dcs_version d, ccr_agreed = agreed\<rparr>))"

fun comma_joined :: "string list \<Rightarrow> string" where
  "comma_joined [] = []"
| "comma_joined [x] = x"
| "comma_joined (x # xs) = x @ '', '' @ comma_joined xs"

definition missing_consents :: "(consent_type \<times> document_summary) list \<Rightarrow> consent_input list \<Rightarrow> consent_type list" where
  "missing_consents documents inputs =
     filter (\<lambda>t. is_required t \<and> map_of documents t \<noteq> None \<and> (t, True) \<notin> set inputs) consent_types"

definition resolve_registration_consents :: "time \<Rightarrow> json option \<Rightarrow> backend \<Rightarrow> consent_record list res" where
  "resolve_registration_consents now v s =
     bindR (parse_consent_inputs v) (\<lambda>inputs.
     let documents = effective_documents now s; missing = missing_consents documents inputs in
     bindR (ensure (missing = []) (Bad_Request (''Consent is required: '' @ comma_joined (map consent_name missing))))
       (\<lambda>_. to_consent_records documents inputs))"

definition record_consents :: "time \<Rightarrow> (nat \<Rightarrow> uid) \<Rightarrow> uid \<Rightarrow> consent_record list \<Rightarrow> backend \<Rightarrow> (unit \<times> backend) res" where
  "record_consents now ids u records s =
     (if records = [] then Inr ((), s)
      else ins_consents (map (\<lambda>(i, r). \<lparr>cns_id = ids i, cns_user = u, cns_type = ccr_type r, cns_version = ccr_version r,
                                cns_agreed = ccr_agreed r, cns_created = now\<rparr>) (enumerate 0 records)) s)"

definition changed_answer :: "(consent_type \<times> consent_row) list \<Rightarrow> consent_record \<Rightarrow> bool" where
  "changed_answer latest r = (case map_of latest (ccr_type r) of
       None \<Rightarrow> True
     | Some row \<Rightarrow> cns_agreed row \<noteq> ccr_agreed r \<or> cns_version row \<noteq> ccr_version r)"

definition update_user_consents :: "time \<Rightarrow> (nat \<Rightarrow> uid) \<Rightarrow> uid \<Rightarrow> json option \<Rightarrow> backend \<Rightarrow>
    (consent_status list \<times> backend) res" where
  "update_user_consents now ids u v s =
     bindR (parse_consent_inputs v) (\<lambda>inputs.
     bindR (ensure (inputs \<noteq> []) (Bad_Request ''consents is required'')) (\<lambda>_.
     let withdrawn = filter (\<lambda>(t, agreed). \<not> agreed \<and> is_required t) inputs in
     bindR (ensure (withdrawn = []) (Bad_Request (''Required consent cannot be withdrawn: '' @
              comma_joined (map (\<lambda>(t, _). consent_name t) withdrawn)))) (\<lambda>_.
     bindR (to_consent_records (effective_documents now s) inputs) (\<lambda>records.
     let changed = filter (changed_answer (latest_consents u s)) records in
     bindR (if changed = [] then Inr ((), s) else record_consents now ids u changed s) (\<lambda>(_, s1).
       Inr (list_user_consents now u s1, s1))))))"

end
