(* ===== verification/Consent_Props.thy ===== *)
theory Consent_Props
  imports Consents
begin

text \<open>
  What the consent service promises: a registration leaves no required document unanswered, an update
  makes the answers given the current ones without touching the history, and no sequence of updates
  takes back a required consent.
\<close>

section \<open>The newest row\<close>

lemma newest_rowD:
  assumes "newest_row key p rows = Some r"
  shows "r \<in> set rows" "p r"
proof -
  have "rev (sort_key key (filter p rows)) \<noteq> [] \<and> r = hd (rev (sort_key key (filter p rows)))"
    using assms by (cases "rev (sort_key key (filter p rows))") (auto simp: newest_row_def)
  then have "r \<in> set (rev (sort_key key (filter p rows)))" using hd_in_set by metis
  then show "r \<in> set rows" "p r" by simp_all
qed

lemma newest_row_None: "newest_row key p rows = None \<longleftrightarrow> (\<forall>r \<in> set rows. \<not> p r)"
proof -
  have "newest_row key p rows = None \<longleftrightarrow> sort_key key (filter p rows) = []"
    by (cases "rev (sort_key key (filter p rows))") (auto simp: newest_row_def)
  also have "\<dots> \<longleftrightarrow> filter p rows = []" by (metis set_empty set_sort)
  finally show ?thesis by (simp add: filter_empty_conv)
qed

lemma newest_rowI:
  assumes r: "r \<in> set rows" "p r" and max: "\<And>q. q \<in> set rows \<Longrightarrow> p q \<Longrightarrow> q \<noteq> r \<Longrightarrow> key q < key r"
  shows "newest_row key p rows = Some r"
proof -
  let ?l = "sort_key key (filter p rows)"
  have mem: "r \<in> set ?l" using r by simp
  then have ne: "?l \<noteq> []" by (cases ?l) auto
  then have lst: "last ?l \<in> set rows" "p (last ?l)" using last_in_set [OF ne] by auto
  have "?l = butlast ?l @ [last ?l]" using ne by simp
  then have "sorted (map key (butlast ?l @ [last ?l]))" using sorted_sort_key [of key "filter p rows"] by simp
  then have "\<forall>x \<in> set (butlast ?l). key x \<le> key (last ?l)" by (simp add: sorted_append)
  moreover have "set ?l = insert (last ?l) (set (butlast ?l))"
    using ne by (metis append_butlast_last_id list.simps(15) rotate1.simps(2) set_rotate1)
  ultimately have "key r \<le> key (last ?l)" using mem by auto
  then have "last ?l = r" using max [OF lst] by fastforce
  moreover have "rev ?l = last ?l # rev (butlast ?l)"
    using ne by (metis append_butlast_last_id rev_eq_Cons_iff rev_rev_ident)
  ultimately have "rev ?l = r # rev (butlast ?l)" by (simp only:)
  then show ?thesis unfolding newest_row_def by (simp only: list.case)
qed

lemma newest_row_other: "(\<And>r. r \<in> set new \<Longrightarrow> \<not> p r) \<Longrightarrow> newest_row key p (rows @ new) = newest_row key p rows"
proof -
  assume "\<And>r. r \<in> set new \<Longrightarrow> \<not> p r"
  then have "filter p new = []" by (simp add: filter_empty_conv)
  then show ?thesis by (simp add: newest_row_def)
qed

section \<open>The maps of documents and answers\<close>

lemma map_of_filtered:
  assumes "distinct ts" "\<And>t d. f t = Some d \<Longrightarrow> ty d = t"
  shows "map_of (map (\<lambda>d. (ty d, g d)) (List.map_filter f ts)) t = (if t \<in> set ts then map_option g (f t) else None)"
  using assms(1)
proof (induction ts)
  case (Cons x ts)
  show ?case
  proof (cases "f x")
    case None
    with Cons show ?thesis by (auto simp: List.map_filter_simps)
  next
    case (Some d)
    with Cons assms(2) show ?thesis by (auto simp: List.map_filter_simps)
  qed
qed (simp add: List.map_filter_simps)

lemma consent_types [simp]: "distinct consent_types" "t \<in> set consent_types"
  by (simp add: consent_types_def) (cases t; simp add: consent_types_def)

lemma documents_lookup [simp]:
  "map_of (effective_documents now s) t = map_option to_summary (effective_document now t s)"
proof -
  have "\<And>t d. effective_document now t s = Some d \<Longrightarrow> trm_type d = t"
    by (auto simp: effective_document_def dest: newest_rowD)
  then show ?thesis by (simp add: effective_documents_def map_of_filtered)
qed

lemma latest_lookup [simp]: "map_of (latest_consents u s) t = latest_consent u t s"
proof -
  have "\<And>t d. latest_consent u t s = Some d \<Longrightarrow> cns_type d = t"
    by (auto simp: latest_consent_def dest: newest_rowD)
  then show ?thesis by (simp add: latest_consents_def map_of_filtered option.map_ident)
qed

definition status_of :: "time \<Rightarrow> uid \<Rightarrow> backend \<Rightarrow> consent_type \<Rightarrow> consent_status" where
  "status_of now u s t =
     (let current = map_option trm_version (effective_document now t s); row = latest_consent u t s;
          agreed = (case row of None \<Rightarrow> False | Some r \<Rightarrow> cns_agreed r)
      in \<lparr>cst_type = t, cst_required = is_required t, cst_agreed = agreed,
          cst_agreed_version = map_option cns_version row, cst_current_version = current,
          cst_needs = (is_required t \<and> current \<noteq> None \<and> \<not> (agreed \<and> map_option cns_version row = current))\<rparr>)"

lemma summary_version [simp]: "dcs_version (to_summary d) = trm_version d"
  by (simp add: to_summary_def)

lemma list_user_consents_eq: "list_user_consents now u s = map (status_of now u s) consent_types"
  by (simp add: list_user_consents_def status_of_def Let_def option.map_comp comp_def)

lemma effective_document_cong: "terms_docs s' = terms_docs s \<Longrightarrow> effective_document now t s' = effective_document now t s"
  by (simp add: effective_document_def)

lemma to_consent_records_Inr:
  "to_consent_records (effective_documents now s) inputs = Inr records \<longleftrightarrow>
     list_all2 (\<lambda>(t, agreed) r. \<exists>d. effective_document now t s = Some d \<and>
       r = \<lparr>ccr_type = t, ccr_version = trm_version d, ccr_agreed = agreed\<rparr>) inputs records"
proof -
  have "(\<lambda>x y. (case x of (t, agreed) \<Rightarrow>
        bindR (require_some (map_of (effective_documents now s) t) (Bad_Request (''Consent document is not available: '' @ consent_name t)))
          (\<lambda>d. Inr \<lparr>ccr_type = t, ccr_version = dcs_version d, ccr_agreed = agreed\<rparr>)) = Inr y) =
      (\<lambda>(t, agreed) r. \<exists>d. effective_document now t s = Some d \<and>
         r = \<lparr>ccr_type = t, ccr_version = trm_version d, ccr_agreed = agreed\<rparr>)"
    by (intro ext) (auto simp: res_simps)
  then show ?thesis unfolding to_consent_records_def mapR_Inr_iff by (simp only:)
qed

section \<open>Recording\<close>

definition answer_row :: "time \<Rightarrow> (nat \<Rightarrow> uid) \<Rightarrow> uid \<Rightarrow> nat \<times> consent_record \<Rightarrow> consent_row" where
  "answer_row now ids u = (\<lambda>(i, r). \<lparr>cns_id = ids i, cns_user = u, cns_type = ccr_type r, cns_version = ccr_version r,
     cns_agreed = ccr_agreed r, cns_created = now\<rparr>)"

lemma answer_row_simps [simp]:
  "cns_user (answer_row now ids u x) = u" "cns_type (answer_row now ids u x) = ccr_type (snd x)"
  "cns_version (answer_row now ids u x) = ccr_version (snd x)" "cns_agreed (answer_row now ids u x) = ccr_agreed (snd x)"
  "cns_created (answer_row now ids u x) = now"
  by (simp_all add: answer_row_def split: prod.splits)

lemma record_consents_effect:
  assumes "record_consents now ids u records s = Inr (x, s')"
  shows "s' = s\<lparr>user_consents := user_consents s @ map (answer_row now ids u) (enumerate 0 records)\<rparr>"
  using assms by (auto simp: record_consents_def res_simps answer_row_def split: if_splits)

lemma latest_recorded:
  assumes rec: "record_consents now ids u records s = Inr (x, s')" and d: "distinct (map ccr_type records)"
    and old: "\<And>r. r \<in> set (user_consents s) \<Longrightarrow> cns_user r = u \<Longrightarrow> cns_created r < now"
  shows "r \<in> set records \<Longrightarrow> \<exists>row. latest_consent u (ccr_type r) s' = Some row \<and>
      cns_version row = ccr_version r \<and> cns_agreed row = ccr_agreed r"
    and "t \<notin> ccr_type ` set records \<Longrightarrow> latest_consent u t s' = latest_consent u t s"
proof -
  let ?new = "map (answer_row now ids u) (enumerate 0 records)"
  have s': "user_consents s' = user_consents s @ ?new" using record_consents_effect [OF rec] by simp
  show "\<exists>row. latest_consent u (ccr_type r) s' = Some row \<and>
      cns_version row = ccr_version r \<and> cns_agreed row = ccr_agreed r" if r: "r \<in> set records"
  proof -
    obtain i where i: "i < length records" "r = records ! i" using r by (metis in_set_conv_nth)
    define row where "row = answer_row now ids u (i, r)"
    have mem: "row \<in> set (user_consents s')"
      using i by (auto simp: s' row_def in_set_enumerate_eq image_iff intro!: bexI [of _ "(i, r)"])
    have only: "q = row" if q: "q \<in> set ?new" "cns_type q = ccr_type r" for q
    proof -
      obtain j where j: "j < length records" "q = answer_row now ids u (j, records ! j)"
        using q(1) by (auto simp: in_set_enumerate_eq)
      then have "map ccr_type records ! j = map ccr_type records ! i" using q(2) i by simp
      then have "j = i" using d i(1) j(1) nth_eq_iff_index_eq [of "map ccr_type records" j i] by simp
      then show ?thesis using j(2) i(2) by (simp add: row_def)
    qed
    have "latest_consent u (ccr_type r) s' = Some row"
      unfolding latest_consent_def
    proof (rule newest_rowI [OF mem])
      show "cns_user row = u \<and> cns_type row = ccr_type r" by (simp add: row_def)
      fix q assume q: "q \<in> set (user_consents s')" "cns_user q = u \<and> cns_type q = ccr_type r" "q \<noteq> row"
      then have "q \<in> set (user_consents s)" using only by (auto simp: s')
      then show "(cns_created q, cns_id q) < (cns_created row, cns_id row)"
        using old q(2) by (simp add: row_def)
    qed
    then show ?thesis by (simp add: row_def)
  qed
  show "latest_consent u t s' = latest_consent u t s" if t: "t \<notin> ccr_type ` set records"
  proof -
    have "\<not> (cns_user q = u \<and> cns_type q = t)" if "q \<in> set ?new" for q
    proof -
      obtain j where "j < length records" "q = answer_row now ids u (j, records ! j)"
        using \<open>q \<in> set ?new\<close> by (auto simp: in_set_enumerate_eq)
      then have "cns_type q \<in> ccr_type ` set records" by simp
      then show ?thesis using t by auto
    qed
    then show ?thesis unfolding latest_consent_def s' by (intro newest_row_other)
  qed
qed

lemma record_documents: "record_consents now ids u records s = Inr (x, s') \<Longrightarrow> terms_docs s' = terms_docs s"
  by (auto dest: record_consents_effect)

lemma parse_distinct: "parse_consent_inputs v = Inr inputs \<Longrightarrow> distinct (map fst inputs)"
  by (auto simp: parse_consent_inputs_def res_simps split: option.splits json.splits)

lemma records_types:
  "to_consent_records (effective_documents now s) inputs = Inr records \<Longrightarrow> map ccr_type records = map fst inputs"
  unfolding to_consent_records_Inr by (induction inputs records rule: list_all2_induct) (auto split: prod.splits)

lemma records_answer:
  assumes "to_consent_records (effective_documents now s) inputs = Inr records" "(t, a) \<in> set inputs"
  obtains d r where "effective_document now t s = Some d" "r \<in> set records"
    "r = \<lparr>ccr_type = t, ccr_version = trm_version d, ccr_agreed = a\<rparr>"
proof -
  obtain i where i: "i < length inputs" "inputs ! i = (t, a)" using assms(2) by (auto simp: in_set_conv_nth)
  have "length records = length inputs" and "\<exists>d. effective_document now t s = Some d \<and>
      records ! i = \<lparr>ccr_type = t, ccr_version = trm_version d, ccr_agreed = a\<rparr>"
    using assms(1) i unfolding to_consent_records_Inr list_all2_conv_all_nth by fastforce+
  then show ?thesis using that nth_mem [of i records] i(1) by fastforce
qed

lemma records_current:
  assumes "to_consent_records (effective_documents now s) inputs = Inr records" "r \<in> set records"
  obtains d where "effective_document now (ccr_type r) s = Some d" "ccr_version r = trm_version d"
    "(ccr_type r, ccr_agreed r) \<in> set inputs"
proof -
  obtain i where i: "i < length records" "records ! i = r" using assms(2) by (auto simp: in_set_conv_nth)
  have l: "length records = length inputs" using assms(1) unfolding to_consent_records_Inr by (simp add: list_all2_conv_all_nth)
  obtain t a where ta: "inputs ! i = (t, a)" by (cases "inputs ! i")
  have "\<exists>d. effective_document now t s = Some d \<and>
      r = \<lparr>ccr_type = t, ccr_version = trm_version d, ccr_agreed = a\<rparr>"
    using assms(1) i ta unfolding to_consent_records_Inr list_all2_conv_all_nth by fastforce
  then show ?thesis using that nth_mem [of i inputs] i(1) l ta by fastforce
qed

section \<open>Registration\<close>

text \<open>C27: A user who registers owes no consent: every required document in force was agreed to, at the version in
  force, and every version recorded is that of the document the server had in force.\<close>

theorem consent_registration:
  assumes "resolve_registration_consents now v s = Inr records" "record_consents now ids u records s = Inr ((), s')"
    and "\<forall>r \<in> set (user_consents s). cns_user r \<noteq> u"
  shows "(\<forall>x \<in> set (list_user_consents now u s'). \<not> cst_needs x) \<and>
    (\<forall>r \<in> set (user_consents s'). cns_user r = u \<longrightarrow>
       (\<exists>d. effective_document now (cns_type r) s = Some d \<and> cns_version r = trm_version d))"
proof -
  obtain inputs where p: "parse_consent_inputs v = Inr inputs"
    and m: "missing_consents (effective_documents now s) inputs = []"
    and r: "to_consent_records (effective_documents now s) inputs = Inr records"
    using assms(1) by (auto simp: resolve_registration_consents_def res_simps Let_def)
  have d: "distinct (map ccr_type records)" using records_types [OF r] parse_distinct [OF p] by simp
  have docs: "effective_document now t s' = effective_document now t s" for t
    by (rule effective_document_cong [OF record_documents [OF assms(2)]])
  have "\<not> cst_needs (status_of now u s' t)" for t
  proof (cases "is_required t \<and> effective_document now t s \<noteq> None")
    case True
    then have "(t, True) \<in> set inputs"
      using m by (auto simp: missing_consents_def filter_empty_conv)
    then obtain e q where e: "effective_document now t s = Some e" and q: "q \<in> set records"
      "q = \<lparr>ccr_type = t, ccr_version = trm_version e, ccr_agreed = True\<rparr>"
      by (rule records_answer [OF r])
    obtain row where "latest_consent u t s' = Some row" "cns_version row = trm_version e" "cns_agreed row"
      using latest_recorded(1) [OF assms(2) d _ q(1)] assms(3) q(2) by auto
    then show ?thesis by (simp add: status_of_def Let_def docs e)
  qed (auto simp: status_of_def Let_def docs)
  moreover have "\<exists>e. effective_document now (cns_type x) s = Some e \<and> cns_version x = trm_version e"
    if x: "x \<in> set (user_consents s')" "cns_user x = u" for x
  proof -
    have "x \<in> set (map (answer_row now ids u) (enumerate 0 records))"
      using x assms(3) record_consents_effect [OF assms(2)] by auto
    then obtain q where q: "q \<in> set records" "cns_type x = ccr_type q" "cns_version x = ccr_version q"
      by (auto simp: in_set_enumerate_eq) (metis nth_mem)
    show ?thesis by (rule records_current [OF r q(1)]) (use q in auto)
  qed
  ultimately show ?thesis by (auto simp: list_user_consents_eq)
qed

section \<open>Updates\<close>

lemma update_consents_elim:
  assumes "update_user_consents now ids u v s = Inr (st, s')"
  obtains inputs records where "parse_consent_inputs v = Inr inputs" "inputs \<noteq> []"
    "\<forall>(t, a) \<in> set inputs. a \<or> \<not> is_required t"
    "to_consent_records (effective_documents now s) inputs = Inr records"
    "record_consents now ids u (filter (changed_answer (latest_consents u s)) records) s = Inr ((), s')"
    "st = list_user_consents now u s'"
proof -
  from assms obtain inputs records where 1: "parse_consent_inputs v = Inr inputs" "inputs \<noteq> []"
    "filter (\<lambda>(t, a). \<not> a \<and> is_required t) inputs = []"
    "to_consent_records (effective_documents now s) inputs = Inr records"
    and 2: "(if filter (changed_answer (latest_consents u s)) records = [] then Inr ((), s)
       else record_consents now ids u (filter (changed_answer (latest_consents u s)) records) s) = Inr ((), s')"
    "st = list_user_consents now u s'"
    unfolding update_user_consents_def Let_def by (auto simp: bindR_Inr_iff ensure_Inr_iff split: prod.splits)
  from 2(1) have "record_consents now ids u (filter (changed_answer (latest_consents u s)) records) s = Inr ((), s')"
    by (simp add: record_consents_def split: if_splits)
  moreover have "\<forall>(t, a) \<in> set inputs. a \<or> \<not> is_required t" using 1(3) by (auto simp: filter_empty_conv)
  ultimately show ?thesis using that 1 2(2) by blast
qed

lemma update_latest:
  assumes rec: "to_consent_records (effective_documents now s) inputs = Inr records" and d: "distinct (map fst inputs)"
    and upd: "record_consents now ids u (filter (changed_answer (latest_consents u s)) records) s = Inr ((), s')"
    and old: "\<And>r. r \<in> set (user_consents s) \<Longrightarrow> cns_user r = u \<Longrightarrow> cns_created r < now"
  shows "(t, a) \<in> set inputs \<Longrightarrow> \<exists>e row. effective_document now t s = Some e \<and> latest_consent u t s' = Some row \<and>
      cns_version row = trm_version e \<and> cns_agreed row = a"
    and "t \<notin> fst ` set inputs \<Longrightarrow> latest_consent u t s' = latest_consent u t s"
proof -
  let ?changed = "filter (changed_answer (latest_consents u s)) records"
  have dr: "distinct (map ccr_type records)" using records_types [OF rec] d by simp
  then have dc: "distinct (map ccr_type ?changed)" by (rule distinct_map_filter)
  have types: "ccr_type ` set records = fst ` set inputs" using records_types [OF rec] by (metis set_map)
  note latest = latest_recorded [OF upd dc old]
  show "\<exists>e row. effective_document now t s = Some e \<and> latest_consent u t s' = Some row \<and>
      cns_version row = trm_version e \<and> cns_agreed row = a" if i: "(t, a) \<in> set inputs"
  proof -
    obtain e r where e: "effective_document now t s = Some e" and r: "r \<in> set records"
      "r = \<lparr>ccr_type = t, ccr_version = trm_version e, ccr_agreed = a\<rparr>"
      using records_answer [OF rec i] .
    show ?thesis
    proof (cases "changed_answer (latest_consents u s) r")
      case True
      then show ?thesis using latest(1) [of r] r e by auto
    next
      case False
      then obtain row where row: "latest_consent u t s = Some row" "cns_agreed row = a" "cns_version row = trm_version e"
        using r(2) by (auto simp: changed_answer_def split: option.splits)
      have "t \<notin> ccr_type ` set ?changed"
        using unique_key_eq [OF dr r(1)] False r(2) by fastforce
      then show ?thesis using latest(2) row e by auto
    qed
  qed
  show "latest_consent u t s' = latest_consent u t s" if "t \<notin> fst ` set inputs"
    using that types by (intro latest(2)) auto
qed

text \<open>After an update the answers given are the current ones, at the version in force, the other types
  stand as they stood, the history is only extended, and a required consent once given stays given.\<close>

theorem consent_update_effect:
  assumes "update_user_consents now ids u v s = Inr (st, s')" "parse_consent_inputs v = Inr inputs"
    and "\<forall>r \<in> set (user_consents s). cns_user r = u \<longrightarrow> cns_created r < now"
  shows "(\<exists>new. user_consents s' = user_consents s @ new \<and> (\<forall>r \<in> set new. cns_user r = u)) \<and>
    (\<forall>(t, a) \<in> set inputs. \<exists>x \<in> set st. cst_type x = t \<and> cst_agreed x = a \<and>
       cst_agreed_version x = cst_current_version x \<and> \<not> cst_needs x) \<and>
    (\<forall>x \<in> set st. cst_type x \<notin> fst ` set inputs \<longrightarrow> x \<in> set (list_user_consents now u s)) \<and>
    (\<forall>x \<in> set (list_user_consents now u s). cst_required x \<and> cst_agreed x \<longrightarrow>
       (\<exists>y \<in> set st. cst_type y = cst_type x \<and> cst_agreed y))"
proof -
  obtain records where allowed: "\<forall>(t, a) \<in> set inputs. a \<or> \<not> is_required t"
    and rec: "to_consent_records (effective_documents now s) inputs = Inr records"
    and upd: "record_consents now ids u (filter (changed_answer (latest_consents u s)) records) s = Inr ((), s')"
    and st: "st = list_user_consents now u s'"
    using update_consents_elim [OF assms(1)] assms(2) by (metis sum.inject(2))
  have docs: "effective_document now t s' = effective_document now t s" for t
    by (rule effective_document_cong [OF record_documents [OF upd]])
  note latest = update_latest [OF rec parse_distinct [OF assms(2)] upd]
  have given: "cst_agreed (status_of now u s' t) = a \<and> \<not> cst_needs (status_of now u s' t) \<and>
      cst_agreed_version (status_of now u s' t) = cst_current_version (status_of now u s' t)"
    if i: "(t, a) \<in> set inputs" for t a
  proof -
    obtain e row where "effective_document now t s = Some e" "latest_consent u t s' = Some row"
      "cns_version row = trm_version e" "cns_agreed row = a"
      using latest(1) [OF _ i] assms(3) by blast
    then show ?thesis using allowed i by (auto simp: status_of_def Let_def docs)
  qed
  have kept: "status_of now u s' t = status_of now u s t" if "t \<notin> fst ` set inputs" for t
    using latest(2) [OF _ that] assms(3) by (simp add: status_of_def Let_def docs)
  have type: "cst_type (status_of now u r t) = t" "cst_required (status_of now u r t) = is_required t" for r t
    by (simp_all add: status_of_def Let_def)
  have "\<exists>new. user_consents s' = user_consents s @ new \<and> (\<forall>r \<in> set new. cns_user r = u)"
    using record_consents_effect [OF upd] by auto
  moreover have "cst_agreed (status_of now u s' t)" if "is_required t" "cst_agreed (status_of now u s t)" for t
  proof (cases "t \<in> fst ` set inputs")
    case True
    then obtain a where "(t, a) \<in> set inputs" by auto
    then show ?thesis using given allowed that(1) by blast
  qed (simp add: kept that(2))
  ultimately show ?thesis
    unfolding st list_user_consents_eq using given kept type by (fastforce simp: image_iff)
qed

section \<open>Witnesses\<close>

definition demo_terms :: backend where
  "demo_terms = empty_backend\<lparr>
     core_db := empty_db\<lparr>users := [\<lparr>usr_id = ''u1'', usr_email = None, usr_password_hash = None,
       usr_password_salt = None, usr_display_name = ''u1'', usr_bio = [], usr_image_url = None,
       usr_created = 0, usr_deleted = None, usr_adult_verified = None, usr_adult_hash = None, usr_debt_hash = None\<rparr>]\<rparr>,
     terms_docs :=
       [\<lparr>trm_id = ''d1'', trm_type = Terms_Of_Service, trm_version = ''1'', trm_title = [], trm_body = [], trm_effective = 0\<rparr>,
        \<lparr>trm_id = ''d2'', trm_type = Terms_Of_Service, trm_version = ''2'', trm_title = [], trm_body = [], trm_effective = 3000\<rparr>,
        \<lparr>trm_id = ''d3'', trm_type = Marketing, trm_version = ''1'', trm_title = [], trm_body = [], trm_effective = 0\<rparr>]\<rparr>"

definition answers :: "(string \<times> bool) list \<Rightarrow> json option" where
  "answers xs = Some (J_Array (map (\<lambda>(t, a). J_Object [(''type'', J_String t), (''agreed'', J_Bool a)]) xs))"

definition demo_records :: "consent_record list" where
  "demo_records = projr (resolve_registration_consents 2000 (answers [(''terms_of_service'', True), (''marketing'', True)]) demo_terms)"

definition demo_ids :: "string \<Rightarrow> nat \<Rightarrow> uid" where
  "demo_ids p i = p @ show_int (int i)"

definition demo_registered :: backend where
  "demo_registered = after (record_consents 2000 (demo_ids ''a'') ''u1'' demo_records demo_terms)"

theorem consent_registration_witness:
  "list_all (\<lambda>x. \<not> cst_needs x) (list_user_consents 2000 ''u1'' demo_registered) \<and>
    list_all (\<lambda>r. cns_user r = ''u1'' \<longrightarrow>
       (\<exists>d. effective_document 2000 (cns_type r) demo_terms = Some d \<and> cns_version r = trm_version d)) (user_consents demo_registered)"
  unfolding list_all_iff
proof (rule consent_registration)
  show "resolve_registration_consents 2000 (answers [(''terms_of_service'', True), (''marketing'', True)]) demo_terms
      = Inr demo_records" by code_simp
  show "record_consents 2000 (demo_ids ''a'') ''u1'' demo_records demo_terms = Inr ((), demo_registered)" by code_simp
  show "\<forall>r \<in> set (user_consents demo_terms). cns_user r \<noteq> ''u1''" by code_simp
qed

definition demo_update :: "json option" where
  "demo_update = answers [(''marketing'', False), (''terms_of_service'', True)]"

theorem consent_update_effect_witness:
  "(\<exists>new. user_consents (after (update_user_consents 5000 (demo_ids ''b'') ''u1'' demo_update demo_registered)) =
       user_consents demo_registered @ new \<and> (\<forall>r \<in> set new. cns_user r = ''u1'')) \<and>
    list_all (\<lambda>(t, a).
       \<exists>x \<in> set (out (update_user_consents 5000 (demo_ids ''b'') ''u1'' demo_update demo_registered)).
         cst_type x = t \<and> cst_agreed x = a \<and> cst_agreed_version x = cst_current_version x \<and> \<not> cst_needs x)
      [(Marketing, False), (Terms_Of_Service, True)] \<and>
    list_all (\<lambda>x. cst_type x \<notin> fst ` set [(Marketing, False), (Terms_Of_Service, True)] \<longrightarrow>
       x \<in> set (list_user_consents 5000 ''u1'' demo_registered))
      (out (update_user_consents 5000 (demo_ids ''b'') ''u1'' demo_update demo_registered)) \<and>
    list_all (\<lambda>x. cst_required x \<and> cst_agreed x \<longrightarrow>
       (\<exists>y \<in> set (out (update_user_consents 5000 (demo_ids ''b'') ''u1'' demo_update demo_registered)).
          cst_type y = cst_type x \<and> cst_agreed y))
      (list_user_consents 5000 ''u1'' demo_registered)"
  unfolding list_all_iff
proof (rule consent_update_effect [OF run_ok])
  show "\<not> isl (update_user_consents 5000 (demo_ids ''b'') ''u1'' demo_update demo_registered)" by code_simp
  show "parse_consent_inputs demo_update = Inr [(Marketing, False), (Terms_Of_Service, True)]" by code_simp
  show "\<forall>r \<in> set (user_consents demo_registered). cns_user r = ''u1'' \<longrightarrow> cns_created r < 5000" by code_simp
qed

end
