(* ===== verification/Tokens.thy ===== *)
theory Tokens
  imports Backend
begin

text \<open>
  The access tokens of \<open>src/auth/auth.service.ts\<close>: signing and verifying a JWT with HMAC-SHA256, the
  bearer header, and the environment of the service. The hash functions of \<open>node:crypto\<close> are the record
  \<open>crypto\<close>: SHA-256 of a text in hex, HMAC-SHA256 and scrypt as byte strings.
\<close>

record crypto =
  sha256_hex :: "string \<Rightarrow> string"
  hmac_sha256 :: "string \<Rightarrow> string \<Rightarrow> string"
  scrypt64 :: "string \<Rightarrow> string \<Rightarrow> string"

record auth_env =
  env_jwt_secret :: "string option"
  env_refresh_ttl :: "string option"
  env_identity_secret :: "string option"
  env_node :: "string option"

definition hex_pair :: "char \<Rightarrow> string" where
  "hex_pair c = (let n = (of_char c :: nat); d = (\<lambda>k. ''0123456789abcdef'' ! k) in [d (n div 16), d (n mod 16)])"

text \<open>\<open>digest("hex")\<close> of a byte string.\<close>

definition hex_bytes :: "string \<Rightarrow> string" where
  "hex_bytes s = concat (map hex_pair s)"

definition jwt_secret :: "auth_env \<Rightarrow> string res" where
  "jwt_secret e = require_some (trimmed (env_jwt_secret e)) (Plain_Error ''AUTH_JWT_SECRET is required'')"

definition default_refresh_token_ttl_seconds :: int where
  "default_refresh_token_ttl_seconds = 14 * 24 * 60 * 60"

definition refresh_token_ttl_seconds :: "auth_env \<Rightarrow> int res" where
  "refresh_token_ttl_seconds e =
     (case trimmed (env_refresh_ttl e) of
        None \<Rightarrow> Inr default_refresh_token_ttl_seconds
      | Some configured \<Rightarrow>
          (case to_number configured of
             Js_Int n \<Rightarrow> if 0 < n \<and> n < 2 ^ 53 then Inr n
                         else Inl (Plain_Error ''AUTH_REFRESH_TOKEN_TTL_SECONDS must be a positive integer'')
           | Js_Other \<Rightarrow> Inl (Plain_Error ''AUTH_REFRESH_TOKEN_TTL_SECONDS must be a positive integer'')))"

section \<open>Signing\<close>

record jwt_payload =
  jwt_sub :: string
  jwt_iat :: int
  jwt_exp :: int

text \<open>\<open>JSON.stringify\<close> of the header and of a payload whose subject is a user id, which needs no escaping.\<close>

definition jwt_header_text :: string where
  "jwt_header_text = CHR 0x7B # json_quote ''alg'' @ CHR '':'' # json_quote ''HS256'' @ CHR '','' #
     json_quote ''typ'' @ CHR '':'' # json_quote ''JWT'' @ [CHR 0x7D]"

definition jwt_payload_text :: "jwt_payload \<Rightarrow> string" where
  "jwt_payload_text p = CHR 0x7B # json_quote ''sub'' @ CHR '':'' # json_quote (jwt_sub p) @ CHR '','' #
     json_quote ''iat'' @ CHR '':'' # show_int (jwt_iat p) @ CHR '','' #
     json_quote ''exp'' @ CHR '':'' # show_int (jwt_exp p) @ [CHR 0x7D]"

definition signing_input :: "string \<Rightarrow> string \<Rightarrow> string" where
  "signing_input header payload = header @ ''.'' @ payload"

definition jwt_signature :: "crypto \<Rightarrow> string \<Rightarrow> string \<Rightarrow> string" where
  "jwt_signature c secret text = base64url (hmac_sha256 c secret text)"

definition sign_jwt :: "crypto \<Rightarrow> auth_env \<Rightarrow> jwt_payload \<Rightarrow> string res" where
  "sign_jwt c e p =
     bindR (jwt_secret e) (\<lambda>secret.
       let text = signing_input (base64url jwt_header_text) (base64url (jwt_payload_text p))
       in Inr (text @ ''.'' @ jwt_signature c secret text))"

definition unix_seconds :: "time \<Rightarrow> int" where
  "unix_seconds now = now div 1000000"

definition access_token_seconds :: int where
  "access_token_seconds = 15 * 60"

definition issue_access_token :: "crypto \<Rightarrow> auth_env \<Rightarrow> time \<Rightarrow> uid \<Rightarrow> string res" where
  "issue_access_token c e now u =
     sign_jwt c e \<lparr>jwt_sub = u, jwt_iat = unix_seconds now, jwt_exp = unix_seconds now + access_token_seconds\<rparr>"

section \<open>Verifying\<close>

text \<open>A JSON number compared with an integer; \<open>None\<close> is a number that overflows to an infinity of its sign.\<close>

definition number_le :: "string \<Rightarrow> int \<Rightarrow> bool" where
  "number_le text n = (case decimal_number text of Some x \<Rightarrow> x \<le> of_int n | None \<Rightarrow> take 1 text = ''-'')"

fun json_number_text :: "json option \<Rightarrow> string option" where
  "json_number_text (Some (J_Number t)) = Some t"
| "json_number_text _ = None"

abbreviation invalid_token :: api_error where
  "invalid_token \<equiv> Unauthorized ''Access token is invalid''"

definition verify_access_token :: "crypto \<Rightarrow> auth_env \<Rightarrow> time \<Rightarrow> string \<Rightarrow> string res" where
  "verify_access_token c e now token =
     (case split_on (CHR ''.'') token of
        [header, payload, signature] \<Rightarrow>
          bindR (jwt_secret e) (\<lambda>secret.
          bindR (ensure (signature = jwt_signature c secret (signing_input header payload)) invalid_token) (\<lambda>_.
          case (json_parse (from_base64url header), json_parse (from_base64url payload)) of
            (Some h, Some p) \<Rightarrow>
              (case (json_text (json_field ''alg'' h), json_text (json_field ''sub'' p),
                     json_number_text (json_field ''iat'' p), json_number_text (json_field ''exp'' p)) of
                 (Some alg, Some sub, Some iat, Some expires) \<Rightarrow>
                   if alg \<noteq> ''HS256'' then Inl invalid_token
                   else if number_le expires (unix_seconds now) then Inl (Unauthorized ''Access token is expired'')
                   else Inr sub
               | _ \<Rightarrow> Inl invalid_token)
          | _ \<Rightarrow> Inl invalid_token))
      | _ \<Rightarrow> Inl invalid_token)"

definition bearer_token :: "string option \<Rightarrow> string res" where
  "bearer_token authorization =
     (case (case authorization of Some a \<Rightarrow> split_on (CHR '' '') a | None \<Rightarrow> []) of
        kind # token # _ \<Rightarrow>
          if kind \<noteq> ''Bearer'' \<or> token = [] then Inl (Unauthorized ''Bearer token is required'') else Inr token
      | _ \<Rightarrow> Inl (Unauthorized ''Bearer token is required''))"

section \<open>Decimal numbers read back\<close>

lemma digit_value: "n < 10 \<Longrightarrow> digit_char (digit n) \<and> hex_value (digit n) = n"
proof -
  assume "n < 10"
  then have "n \<in> set [0,1,2,3,4,5,6,7,8,9]" by auto
  then show ?thesis by (auto simp: digit_def digit_char_def hex_value_def Let_def)
qed

lemma show_digits_all: "0 \<le> n \<Longrightarrow> \<forall>c \<in> set (show_digits n). digit_char c"
proof (induction n rule: show_digits.induct)
  case (1 n)
  then show ?case by (subst show_digits.simps) (auto simp: digit_value)
qed

lemma show_digits_value: "0 \<le> n \<Longrightarrow> foldl (\<lambda>a c. 10 * a + hex_value c) 0 (show_digits n) = nat n"
proof (induction n rule: show_digits.induct)
  case (1 n)
  show ?case
  proof (cases "n < 10")
    case True
    with 1 show ?thesis by (subst show_digits.simps) (simp add: digit_value)
  next
    case False
    then have "foldl (\<lambda>a c. 10 * a + hex_value c) 0 (show_digits (n div 10)) = nat (n div 10)"
      using 1 by simp
    moreover have "10 * nat (n div 10) + nat (n mod 10) = nat n"
      using 1(2) by (simp add: nat_div_distrib nat_mod_distrib)
    moreover have "hex_value (digit (nat (n mod 10))) = nat (n mod 10)"
      using digit_value [of "nat (n mod 10)"] 1(2) by simp
    ultimately show ?thesis using False by (subst show_digits.simps) simp
  qed
qed

lemma show_digits_ne: "show_digits n \<noteq> []"
  by (subst show_digits.simps) simp

lemma show_digits_first: "0 < n \<Longrightarrow> hd (show_digits n) \<noteq> CHR ''0''"
proof (induction n rule: show_digits.induct)
  case (1 n)
  show ?case
  proof (cases "n < 10")
    case True
    then have "n \<in> set [1,2,3,4,5,6,7,8,9]" using 1(2) by auto
    then show ?thesis by (subst show_digits.simps) (auto simp: digit_def)
  next
    case False
    then show ?thesis using 1 show_digits_ne [of "n div 10"] by (subst show_digits.simps) simp
  qed
qed

lemma takeWhile_digits:
  assumes "0 \<le> n" "\<not> digit_char c"
  shows "takeWhile digit_char (show_digits n @ c # r) = show_digits n" "dropWhile digit_char (show_digits n @ c # r) = c # r"
  using show_digits_all [OF assms(1)] assms(2) by (simp_all add: takeWhile_append dropWhile_append)

lemma json_number_show:
  assumes "0 \<le> n" "c \<in> {CHR '','', CHR 0x7D}"
  shows "json_number (show_int n @ c # r) = Some (show_int n, c # r)"
proof -
  have c: "\<not> digit_char c" "c \<noteq> CHR ''.''" "c \<noteq> CHR ''e''" "c \<noteq> CHR ''E''" using assms(2) by (auto simp: digit_char_def)
  obtain d ds where s: "show_digits n = d # ds" using show_digits_ne [of n] by (cases "show_digits n") auto
  have d: "digit_char d" using show_digits_all [OF assms(1)] s by simp
  then have m: "d \<noteq> CHR ''-''" by (auto simp: digit_char_def)
  have "json_int_part (show_digits n @ c # r) = Some (show_digits n, c # r)"
  proof (cases "n = 0")
    case True
    then show ?thesis by (simp add: json_int_part_def show_digits.simps [of 0] digit_def)
  next
    case False
    then have "d \<noteq> CHR ''0''" using show_digits_first [of n] assms(1) s by simp
    then show ?thesis using takeWhile_digits [OF assms(1) c(1), of r] s by (simp add: json_int_part_def json_digits_def)
  qed
  then show ?thesis using s m c assms(1) by (simp add: json_number_def show_int_def json_fraction_def json_exponent_def)
qed

lemma json_value_show:
  assumes "0 \<le> n" "c \<in> {CHR '','', CHR 0x7D}"
  shows "json_value (Suc k) (show_int n @ c # r) = Some (J_Number (show_int n), c # r)"
proof -
  obtain d ds where s: "show_int n = d # ds" using show_digits_ne [of n] assms(1) by (cases "show_digits n") (auto simp: show_int_def)
  have d: "digit_char d" using show_digits_all [OF assms(1)] s assms(1) by (simp add: show_int_def)
  then have "d \<notin> {CHR '' '', CHR 0x09, CHR 0x0A, CHR 0x0D, CHR 0x22, CHR 0x7B, CHR ''['', CHR ''t'', CHR ''f'', CHR ''n''}"
    by (auto simp: digit_char_def)
  then show ?thesis using json_number_show [OF assms, of r] s by (simp add: skip_space_def json_space_def)
qed

lemma decimal_number_show:
  assumes "0 \<le> n" "n < 2 ^ 53"
  shows "decimal_number (show_int n) = Some (of_int n)"
proof -
  have all: "\<forall>c \<in> set (show_digits n). digit_char c" by (rule show_digits_all [OF assms(1)])
  obtain d ds where s: "show_digits n = d # ds" using show_digits_ne [of n] by (cases "show_digits n") auto
  have "d \<noteq> CHR ''-'' \<and> d \<noteq> CHR ''+''" using all s by (auto simp: digit_char_def)
  then have sign: "split_sign (show_digits n) = (False, show_digits n)" using s by (simp add: split_sign_def)
  have tw: "takeWhile digit_char (show_digits n) = show_digits n" "dropWhile digit_char (show_digits n) = []"
    using all by (simp_all add: takeWhile_eq_all_conv dropWhile_eq_Nil_conv)
  have big: "(of_int n :: rat) < 2 ^ 1024"
  proof -
    have "n < 2 ^ 1024" using assms(2) by simp
    then show ?thesis by (metis of_int_less_iff of_int_numeral of_int_power)
  qed
  have fin: "finite_double (of_int n) = Some (of_int n)"
    using big assms fl_of_int [of n] by (simp add: finite_double_def)
  have nn: "of_nat (nat n) = (of_int n :: rat)" using assms(1) by simp
  show ?thesis
    using assms(1) fin by (simp add: decimal_number_def show_int_def sign tw exponent_of_def show_digits_value show_digits_ne nn)
qed

section \<open>A token read back\<close>

definition payload_json :: "jwt_payload \<Rightarrow> json" where
  "payload_json p = J_Object [(''sub'', J_String (jwt_sub p)), (''iat'', J_Number (show_int (jwt_iat p))),
     (''exp'', J_Number (show_int (jwt_exp p)))]"

lemma json_parse_header: "json_parse jwt_header_text = Some (J_Object [(''alg'', J_String ''HS256''), (''typ'', J_String ''JWT'')])"
  by code_simp

lemma json_parse_payload:
  assumes "\<forall>c \<in> set (jwt_sub p). plain_char c" "0 \<le> jwt_iat p" "0 \<le> jwt_exp p"
  shows "json_parse (jwt_payload_text p) = Some (payload_json p)"
proof -
  let ?t = "jwt_payload_text p"
  have "5 \<le> 2 * length ?t + 2" by (simp add: jwt_payload_text_def json_quote_def)
  then obtain n where "2 * length ?t + 2 = 5 + n" using le_Suc_ex by blast
  then have n: "2 * length ?t + 2 = Suc (Suc (Suc (Suc (Suc n))))" by simp
  have sp: "skip_space (c # xs) = c # xs" if "c \<notin> {CHR '' '', CHR 0x09, CHR 0x0A, CHR 0x0D}" for c xs
    using that by (simp add: skip_space_def json_space_def)
  have key: "json_chars (k @ CHR 0x22 # xs) = Some (k, xs)" if "k \<in> {''sub'', ''iat'', ''exp''}" for k xs
    using that by (intro json_chars_plain) (auto simp: plain_char_def)
  note keys = key [of "''sub''", simplified] key [of "''iat''", simplified] key [of "''exp''", simplified]
  have sub: "json_chars (jwt_sub p @ CHR 0x22 # xs) = Some (jwt_sub p, xs)" for xs
    using assms(1) by (rule json_chars_plain)
  have nums: "json_value (Suc k) (show_int (jwt_iat p) @ CHR '','' # xs) = Some (J_Number (show_int (jwt_iat p)), CHR '','' # xs)"
    "json_value (Suc k) (show_int (jwt_exp p) @ CHR 0x7D # xs) = Some (J_Number (show_int (jwt_exp p)), CHR 0x7D # xs)" for k xs
    using json_value_show [OF assms(2)] json_value_show [OF assms(3)] by simp_all
  have str: "json_value (Suc k) (CHR 0x22 # jwt_sub p @ CHR 0x22 # xs) = Some (J_String (jwt_sub p), xs)" for k xs
    by (simp add: sp sub)
  have "json_value (Suc (Suc (Suc (Suc (Suc n))))) ?t = Some (payload_json p, [])"
    unfolding jwt_payload_text_def json_quote_def
    by (subst json_value.simps(2)) (simp add: sp keys nums str payload_json_def del: json_value.simps(2))
  then show ?thesis unfolding json_parse_def n by (simp add: skip_space_def)
qed

lemma base64url_no_dot: "CHR ''.'' \<notin> set (base64url xs)"
proof -
  have "CHR ''.'' \<notin> set b64_alphabet" by (simp add: b64_alphabet_def)
  moreover have "\<forall>n \<in> set (b64_sextets (map of_char xs)). n < length b64_alphabet"
    using b64_sextets_less [of "map of_char xs"] by (auto simp: b64_alphabet_def)
  ultimately show ?thesis unfolding base64url_def b64_char_def by (auto simp: in_set_conv_nth)
qed

lemma split_token:
  "split_on (CHR ''.'') (signing_input (base64url a) (base64url b) @ ''.'' @ base64url d) = [base64url a, base64url b, base64url d]"
  using base64url_no_dot by (simp add: signing_input_def split_on_append split_on_single)

lemma verify_issued:
  assumes "issue_access_token c e now u = Inr token" "is_uuid u" "0 \<le> now" "unix_seconds now < 2 ^ 52"
  shows "verify_access_token c e later token =
    (if unix_seconds later < unix_seconds now + 15 * 60 then Inr u else Inl (Unauthorized ''Access token is expired''))"
proof -
  define p where "p = \<lparr>jwt_sub = u, jwt_iat = unix_seconds now, jwt_exp = unix_seconds now + access_token_seconds\<rparr>"
  obtain secret where s: "jwt_secret e = Inr secret"
    and tok: "token = signing_input (base64url jwt_header_text) (base64url (jwt_payload_text p)) @ ''.'' @
       base64url (hmac_sha256 c secret (signing_input (base64url jwt_header_text) (base64url (jwt_payload_text p))))"
    using assms(1) by (auto simp: issue_access_token_def sign_jwt_def res_simps Let_def jwt_signature_def p_def)
  have pos: "0 \<le> unix_seconds now" using assms(3) by (simp add: unix_seconds_def)
  have parsed: "json_parse (jwt_payload_text p) = Some (payload_json p)"
    using uuid_plain [OF assms(2)] pos by (intro json_parse_payload) (auto simp: p_def access_token_seconds_def)
  have "decimal_number (show_int (jwt_exp p)) = Some (of_int (jwt_exp p))"
    using pos assms(4) by (intro decimal_number_show) (auto simp: p_def access_token_seconds_def)
  then have le: "number_le (show_int (jwt_exp p)) n \<longleftrightarrow> unix_seconds now + 15 * 60 \<le> n" for n
    by (simp add: number_le_def p_def access_token_seconds_def flip: of_int_le_iff [where ?'a = rat])
  show ?thesis
    unfolding verify_access_token_def tok split_token
    by (simp add: s jwt_signature_def json_parse_header parsed payload_json_def le) (simp add: p_def)
qed

definition demo_crypto :: crypto where
  "demo_crypto = \<lparr>sha256_hex = hex_bytes, hmac_sha256 = (\<lambda>k m. k @ rev m), scrypt64 = (\<lambda>p q. p @ q)\<rparr>"

definition demo_auth_env :: auth_env where
  "demo_auth_env = \<lparr>env_jwt_secret = Some ''secret'', env_refresh_ttl = None, env_identity_secret = Some ''pepper'',
     env_node = Some ''test''\<rparr>"

definition demo_uuid :: uid where
  "demo_uuid = ''0192f0a0-1111-7abc-8def-0123456789ab''"

lemma verified_signature:
  assumes "verify_access_token c e now token = Inr u"
  obtains secret header payload where "jwt_secret e = Inr secret"
    "split_on (CHR ''.'') token = [header, payload, jwt_signature c secret (signing_input header payload)]"
  using assms by (auto simp: verify_access_token_def res_simps split: list.splits)

end
