(* ===== verification/Auth.thy ===== *)
theory Auth
  imports Credits Consents Tokens
begin

text \<open>
  \<open>src/auth/auth.service.ts\<close> and \<open>google-social-identity.provider.ts\<close>: sign-up, login with a password or
  a social identity, refresh tokens, the profile, withdrawal and the verification of an adult identity
  with the debt tied to it. A transaction is a function into \<open>res\<close>; what commits in several steps returns its
  result beside the state. Between the first reads of a login, a refresh or a change of password and their
  transaction other requests may run, so each has its reads and its transaction as separate functions.
  The random bytes and ids are arguments; Korean texts are given as their UTF-8 bytes.
\<close>

section \<open>Texts\<close>

definition ko_deleted_user :: string where
  "ko_deleted_user = [CHR 0xED, CHR 0x83, CHR 0x88, CHR 0xED, CHR 0x87, CHR 0xB4, CHR 0xED,
     CHR 0x95, CHR 0x9C, CHR 0x20, CHR 0xEC, CHR 0x82, CHR 0xAC, CHR 0xEC, CHR 0x9A, CHR 0xA9,
     CHR 0xEC, CHR 0x9E, CHR 0x90]"

definition ko_user_number :: string where
  "ko_user_number = [CHR 0xEC, CHR 0x82, CHR 0xAC, CHR 0xEC, CHR 0x9A, CHR 0xA9, CHR 0xEC,
     CHR 0x9E, CHR 0x90, CHR 0x23]"

definition ko_invalid_social :: string where
  "ko_invalid_social = [CHR 0xEC, CHR 0x9C, CHR 0xA0, CHR 0xED, CHR 0x9A, CHR 0xA8, CHR 0xED,
     CHR 0x95, CHR 0x98, CHR 0xEC, CHR 0xA7, CHR 0x80, CHR 0x20, CHR 0xEC, CHR 0x95, CHR 0x8A,
     CHR 0xEC, CHR 0x9D, CHR 0x80, CHR 0x20, CHR 0xEC, CHR 0x86, CHR 0x8C, CHR 0xEC, CHR 0x85,
     CHR 0x9C, CHR 0x20, CHR 0xEB, CHR 0xA1, CHR 0x9C, CHR 0xEA, CHR 0xB7, CHR 0xB8, CHR 0xEC,
     CHR 0x9D, CHR 0xB8, CHR 0x20, CHR 0xED, CHR 0x86, CHR 0xA0, CHR 0xED, CHR 0x81, CHR 0xB0,
     CHR 0xEC, CHR 0x9E, CHR 0x85, CHR 0xEB, CHR 0x8B, CHR 0x88, CHR 0xEB, CHR 0x8B, CHR 0xA4]"

definition ko_no_password :: string where
  "ko_no_password = [CHR 0xEB, CHR 0xB9, CHR 0x84, CHR 0xEB, CHR 0xB0, CHR 0x80, CHR 0xEB,
     CHR 0xB2, CHR 0x88, CHR 0xED, CHR 0x98, CHR 0xB8, CHR 0x20, CHR 0xEB, CHR 0xA1, CHR 0x9C,
     CHR 0xEA, CHR 0xB7, CHR 0xB8, CHR 0xEC, CHR 0x9D, CHR 0xB8, CHR 0xEC, CHR 0x9D, CHR 0xB4,
     CHR 0x20, CHR 0xEC, CHR 0x84, CHR 0xA4, CHR 0xEC, CHR 0xA0, CHR 0x95, CHR 0xEB, CHR 0x90,
     CHR 0x98, CHR 0xEC, CHR 0xA7, CHR 0x80, CHR 0x20, CHR 0xEC, CHR 0x95, CHR 0x8A, CHR 0xEC,
     CHR 0x9D, CHR 0x80, CHR 0x20, CHR 0xEA, CHR 0xB3, CHR 0x84, CHR 0xEC, CHR 0xA0, CHR 0x95,
     CHR 0xEC, CHR 0x9E, CHR 0x85, CHR 0xEB, CHR 0x8B, CHR 0x88, CHR 0xEB, CHR 0x8B, CHR 0xA4]"

definition withdrawal_reason_categories :: "string list" where
  "withdrawal_reason_categories = [''low_usage'', ''credit_cost'', ''content'', ''privacy'', ''etc'']"

section \<open>Request fields\<close>

definition normalize_email :: "json option \<Rightarrow> string res" where
  "normalize_email v =
     bindR (required_string ''email'' v) (\<lambda>x.
     bindR (ensure (CHR ''@'' \<in> set (to_lower x)) (Bad_Request ''Email is invalid'')) (\<lambda>_. Inr (to_lower x)))"

definition assert_password :: "json option \<Rightarrow> string res" where
  "assert_password v =
     (case json_text v of
        Some p \<Rightarrow> if utf16_length p < 8 \<or> 128 < utf16_length p
                  then Inl (Bad_Request ''Password must be 8 to 128 characters'') else Inr p
      | None \<Rightarrow> Inl (Bad_Request ''Password must be 8 to 128 characters''))"

definition optional_withdrawal_reason :: "json option \<Rightarrow> string option res" where
  "optional_withdrawal_reason v =
     (if v = None \<or> v = Some J_Null then Inr None
      else case json_text v of
             Some x \<Rightarrow> if x \<in> set withdrawal_reason_categories then Inr (Some x)
                       else Inl (Bad_Request ''reasonCategory is invalid'')
           | None \<Rightarrow> Inl (Bad_Request ''reasonCategory is invalid''))"

definition optional_reason_text :: "json option \<Rightarrow> string option res" where
  "optional_reason_text v =
     (if v = None \<or> v = Some J_Null then Inr None
      else case json_text v of
             None \<Rightarrow> Inl (Bad_Request ''reasonText must be a string'')
           | Some x \<Rightarrow>
               (if trim x = [] then Inr None
                else if 500 < utf16_length (trim x) then Inl (Bad_Request ''reasonText must be at most 500 characters'')
                else Inr (Some (trim x))))"

definition profile_bio :: "json option \<Rightarrow> string res" where
  "profile_bio v =
     bindR (require_some (json_text v) (Bad_Request ''bio must be a string'')) (\<lambda>x.
     bindR (ensure (utf16_length (trim x) \<le> 160) (Bad_Request ''bio must be at most 160 characters'')) (\<lambda>_.
     Inr (trim x)))"

definition profile_image_url :: "(string \<Rightarrow> url option) \<Rightarrow> json \<Rightarrow> string option res" where
  "profile_image_url parse v =
     (case v of
        J_Null \<Rightarrow> Inr None
      | J_String x \<Rightarrow>
          (if trim x = [] then Inr None
           else case parse (trim x) of
                  Some u \<Rightarrow> if url_protocol u \<noteq> ''http:'' \<and> url_protocol u \<noteq> ''https:''
                            then Inl (Bad_Request ''profileImageUrl must be an http URL'') else Inr (Some (trim x))
                | None \<Rightarrow> Inl (Bad_Request ''profileImageUrl must be an http URL''))
      | _ \<Rightarrow> Inl (Bad_Request ''profileImageUrl must be a string''))"

section \<open>Users\<close>

record public_user =
  pbu_id :: uid
  pbu_name :: string
  pbu_bio :: string
  pbu_image :: "string option"
  pbu_email :: "string option"

record auth_tokens =
  ath_user :: public_user
  ath_access :: string
  ath_refresh :: string

definition to_public_user :: "user_row \<Rightarrow> string option list \<Rightarrow> public_user" where
  "to_public_user r emails = \<lparr>pbu_id = usr_id r, pbu_name = usr_display_name r, pbu_bio = usr_bio r,
     pbu_image = (if truthy (usr_image_url r) then usr_image_url r else None),
     pbu_email = (case usr_email r of
         Some x \<Rightarrow> Some x
       | None \<Rightarrow> (case find truthy emails of Some x \<Rightarrow> x | None \<Rightarrow> None))\<rparr>"

definition account_emails :: "uid \<Rightarrow> backend \<Rightarrow> string option list" where
  "account_emails u s = map acc_email (sort_key acc_created (filter (\<lambda>a. acc_user a = u) (user_accounts s)))"

definition find_user :: "uid \<Rightarrow> backend \<Rightarrow> user_row option" where
  "find_user u s = find (\<lambda>r. usr_id r = u) (users (core_db s))"

definition find_auth_user_by_email :: "string \<Rightarrow> backend \<Rightarrow> user_row option" where
  "find_auth_user_by_email email s = find (\<lambda>r. usr_email r = Some email) (users (core_db s))"

definition find_public_user_by_id :: "string \<Rightarrow> backend \<Rightarrow> public_user option res" where
  "find_public_user_by_id i s =
     (if \<not> is_uuid i then Inl (Db_Error Invalid_Text)
      else Inr (case find_user (uuid_cast i) s of
             None \<Rightarrow> None
           | Some r \<Rightarrow> if usr_deleted r \<noteq> None then None
                       else Some (to_public_user r (account_emails (usr_id r) s))))"

definition user_id_from_authorization :: "crypto \<Rightarrow> auth_env \<Rightarrow> time \<Rightarrow> string option \<Rightarrow> backend \<Rightarrow> uid res" where
  "user_id_from_authorization c e now authorization s =
     bindR (bearer_token authorization) (\<lambda>token.
     bindR (verify_access_token c e now token) (\<lambda>sub.
     bindR (find_public_user_by_id sub s) (\<lambda>user.
     bindR (require_some user invalid_token) (\<lambda>_. Inr (uuid_cast sub)))))"

definition optional_user_id_from_authorization :: "crypto \<Rightarrow> auth_env \<Rightarrow> time \<Rightarrow> string option \<Rightarrow> backend \<Rightarrow>
    uid option res" where
  "optional_user_id_from_authorization c e now authorization s =
     (if trimmed authorization = None then Inr None
      else bindR (user_id_from_authorization c e now authorization s) (\<lambda>u. Inr (Some u)))"

definition current_user_from_authorization :: "crypto \<Rightarrow> auth_env \<Rightarrow> time \<Rightarrow> string option \<Rightarrow> backend \<Rightarrow>
    public_user res" where
  "current_user_from_authorization c e now authorization s =
     bindR (user_id_from_authorization c e now authorization s) (\<lambda>u.
     bindR (find_public_user_by_id u s) (\<lambda>user. require_some user invalid_token))"

section \<open>Passwords\<close>

definition hash_password :: "crypto \<Rightarrow> string \<Rightarrow> string \<Rightarrow> string" where
  "hash_password c password salt = base64url (scrypt64 c password salt)"

definition password_matches :: "crypto \<Rightarrow> string \<Rightarrow> user_row \<Rightarrow> bool" where
  "password_matches c password r \<longleftrightarrow>
     truthy (usr_password_hash r) \<and> truthy (usr_password_salt r) \<and>
     from_base64url (hash_password c password (the (usr_password_salt r))) = from_base64url (the (usr_password_hash r))"

definition has_password :: "user_row \<Rightarrow> bool" where
  "has_password r \<longleftrightarrow> truthy (usr_email r) \<and> truthy (usr_password_hash r) \<and> truthy (usr_password_salt r)"

definition same_password :: "user_row \<Rightarrow> user_row \<Rightarrow> bool" where
  "same_password a b \<longleftrightarrow> usr_password_hash a = usr_password_hash b \<and> usr_password_salt a = usr_password_salt b"

section \<open>Sessions\<close>

record auth_fresh =
  afr_user :: uid
  afr_account :: uid
  afr_token :: uid
  afr_ledger :: uid
  afr_event :: uid
  afr_withdrawal :: uid
  afr_consents :: "nat \<Rightarrow> uid"
  afr_salt :: string
  afr_refresh :: string
  afr_name :: string

definition hash_token :: "crypto \<Rightarrow> string \<Rightarrow> string" where
  "hash_token c token = sha256_hex c token"

text \<open>The row of the refresh token is written before the access token is signed, which fails without a secret.\<close>

definition issue_tokens :: "crypto \<Rightarrow> auth_env \<Rightarrow> time \<Rightarrow> auth_fresh \<Rightarrow> public_user \<Rightarrow> backend \<Rightarrow> auth_tokens res \<times> backend" where
  "issue_tokens c e now fr user s =
     (let refresh = base64url (afr_refresh fr) in
      case ins_token \<lparr>tok_id = afr_token fr, tok_user = pbu_id user, tok_hash = hash_token c refresh,
             tok_revoked = None, tok_created = now\<rparr> s of
        Inl err \<Rightarrow> (Inl err, s)
      | Inr (_, s1) \<Rightarrow>
          (bindR (issue_access_token c e now (pbu_id user)) (\<lambda>access.
             Inr \<lparr>ath_user = user, ath_access = access, ath_refresh = refresh\<rparr>), s1))"

definition issue_tokens_tx :: "crypto \<Rightarrow> auth_env \<Rightarrow> time \<Rightarrow> auth_fresh \<Rightarrow> public_user \<Rightarrow> backend \<Rightarrow> (auth_tokens \<times> backend) res" where
  "issue_tokens_tx c e now fr user s =
     (case issue_tokens c e now fr user s of (Inl err, _) \<Rightarrow> Inl err | (Inr x, s1) \<Rightarrow> Inr (x, s1))"

section \<open>Sign-up\<close>

definition register_input :: "crypto \<Rightarrow> time \<Rightarrow> json option \<Rightarrow> backend \<Rightarrow>
    (string \<times> string \<times> string \<times> consent_record list) res" where
  "register_input c now inp s =
     bindR (normalize_email (property ''email'' inp)) (\<lambda>email.
     bindR (required_string ''displayName'' (property ''displayName'' inp)) (\<lambda>name.
     bindR (assert_password (property ''password'' inp)) (\<lambda>password.
     bindR (ensure (find_auth_user_by_email email s = None) (Conflict ''Email is already registered'')) (\<lambda>_.
     bindR (resolve_registration_consents now (property ''consents'' inp) s) (\<lambda>consents.
     Inr (email, name, password, consents))))))"

definition user_of :: "time \<Rightarrow> uid \<Rightarrow> string option \<Rightarrow> string option \<Rightarrow> string option \<Rightarrow> string \<Rightarrow> user_row" where
  "user_of now i email hash salt name = \<lparr>usr_id = i, usr_email = email, usr_password_hash = hash,
     usr_password_salt = salt, usr_display_name = name, usr_bio = [], usr_image_url = None, usr_created = now,
     usr_deleted = None, usr_adult_verified = None, usr_adult_hash = None, usr_debt_hash = None\<rparr>"

definition create_auth_user :: "user_row \<Rightarrow> backend \<Rightarrow> (user_row \<times> backend) res" where
  "create_auth_user row s =
     (case ins_user row s of
        Inl (Db_Error Unique_Violation) \<Rightarrow> Inl (Conflict ''Email is already registered'')
      | r \<Rightarrow> r)"

definition register_tx :: "time \<Rightarrow> auth_fresh \<Rightarrow> user_row \<Rightarrow> consent_record list \<Rightarrow> backend \<Rightarrow> (user_row \<times> backend) res" where
  "register_tx now fr row consents s =
     bindR (create_auth_user row s) (\<lambda>(user, s1).
     bindR (record_consents now (afr_consents fr) (usr_id user) consents s1) (\<lambda>(_, s2). Inr (user, s2)))"

text \<open>\<open>grantSignupBonus\<close> and \<open>issueTokens\<close> after the transaction that made or found the user.\<close>

definition greet :: "crypto \<Rightarrow> auth_env \<Rightarrow> time \<Rightarrow> auth_fresh \<Rightarrow> public_user \<Rightarrow> backend \<Rightarrow> auth_tokens res \<times> backend" where
  "greet c e now fr user s =
     (case commit (on_core (grant_signup_bonus now (afr_ledger fr) (pbu_id user))) s of
        (Inl err, s1) \<Rightarrow> (Inl err, s1)
      | (Inr _, s1) \<Rightarrow> issue_tokens c e now fr user s1)"

definition register :: "crypto \<Rightarrow> auth_env \<Rightarrow> time \<Rightarrow> auth_fresh \<Rightarrow> json option \<Rightarrow> backend \<Rightarrow> auth_tokens res \<times> backend" where
  "register c e now fr inp s =
     (case register_input c now inp s of
        Inl err \<Rightarrow> (Inl err, s)
      | Inr (email, name, password, consents) \<Rightarrow>
          (let salt = base64url (afr_salt fr);
               row = user_of now (afr_user fr) (Some email) (Some (hash_password c password salt)) (Some salt) name
           in case commit (register_tx now fr row consents) s of
                (Inl err, s1) \<Rightarrow> (Inl err, s1)
              | (Inr user, s1) \<Rightarrow> greet c e now fr (to_public_user user []) s1))"

section \<open>Login\<close>

abbreviation invalid_login :: api_error where
  "invalid_login \<equiv> Unauthorized ''Invalid email or password''"

definition login_check :: "crypto \<Rightarrow> json option \<Rightarrow> backend \<Rightarrow> user_row res" where
  "login_check c inp s =
     bindR (normalize_email (property ''email'' inp)) (\<lambda>email.
     bindR (require_some (find_auth_user_by_email email s) invalid_login) (\<lambda>user.
     bindR (require_some (json_text (property ''password'' inp)) invalid_login) (\<lambda>password.
     bindR (ensure (password_matches c password user) invalid_login) (\<lambda>_. Inr user))))"

definition login_tx :: "crypto \<Rightarrow> auth_env \<Rightarrow> time \<Rightarrow> auth_fresh \<Rightarrow> user_row \<Rightarrow> backend \<Rightarrow> (auth_tokens \<times> backend) res" where
  "login_tx c e now fr user s =
     bindR (require_some (find_user (usr_id user) s) invalid_login) (\<lambda>current.
     bindR (ensure (has_password current \<and> same_password current user) invalid_login) (\<lambda>_.
     issue_tokens_tx c e now fr (to_public_user current []) s))"

definition login :: "crypto \<Rightarrow> auth_env \<Rightarrow> time \<Rightarrow> auth_fresh \<Rightarrow> json option \<Rightarrow> backend \<Rightarrow> auth_tokens res \<times> backend" where
  "login c e now fr inp s =
     (case login_check c inp s of
        Inl err \<Rightarrow> (Inl err, s)
      | Inr user \<Rightarrow> commit (login_tx c e now fr user) s)"

section \<open>Social login\<close>

record social_identity =
  sid_account :: string
  sid_email :: "string option"
  sid_name :: "string option"

record google_identity =
  gid_sub :: "string option"
  gid_email :: "string option"
  gid_verified :: bool
  gid_name :: "string option"

text \<open>\<open>verifyIdToken\<close> and \<open>getPayload\<close> of the Google client are a parameter: \<open>None\<close> when it throws or has no payload.\<close>

definition google_verify :: "(string \<Rightarrow> google_identity option) \<Rightarrow> string \<Rightarrow> social_identity res" where
  "google_verify verify_id_token id_token =
     (case verify_id_token id_token of
        Some p \<Rightarrow>
          (if \<not> truthy (gid_sub p) then Inl (Unauthorized ko_invalid_social)
           else Inr \<lparr>sid_account = the (gid_sub p),
                     sid_email = (if gid_verified p then map_option to_lower (trimmed (gid_email p)) else None),
                     sid_name = trimmed (gid_name p)\<rparr>)
      | None \<Rightarrow> Inl (Unauthorized ko_invalid_social))"

type_synonym social_provider = "string \<times> (string \<Rightarrow> social_identity res)"

definition random_social_name :: "auth_fresh \<Rightarrow> string" where
  "random_social_name fr = ko_user_number @ to_upper (hex_bytes (afr_name fr))"

definition find_social_account :: "string \<Rightarrow> string \<Rightarrow> backend \<Rightarrow> (account_row \<times> user_row) option" where
  "find_social_account provider external s =
     Option.bind (find (\<lambda>a. acc_provider a = provider \<and> acc_external a = external \<and>
                            has_user (core_db s) (acc_user a)) (user_accounts s))
       (\<lambda>a. map_option (Pair a) (find_user (acc_user a) s))"

definition social_account_email :: "social_identity \<Rightarrow> account_row \<Rightarrow> string option" where
  "social_account_email identity a =
     (if truthy (sid_email identity) \<and> sid_email identity \<noteq> acc_email a then sid_email identity else acc_email a)"

definition social_tx :: "time \<Rightarrow> auth_fresh \<Rightarrow> string \<Rightarrow> social_identity \<Rightarrow> json option \<Rightarrow> backend \<Rightarrow>
    (public_user \<times> backend) res" where
  "social_tx now fr provider identity inp s =
     (case find_social_account provider (sid_account identity) s of
        Some (a, user) \<Rightarrow>
          if usr_deleted user \<noteq> None then Inl (Unauthorized ko_invalid_social)
          else Inr (to_public_user user [social_account_email identity a],
                    s\<lparr>user_accounts := update_where (\<lambda>x. acc_id x = acc_id a)
                        (\<lambda>x. x\<lparr>acc_email := social_account_email identity a\<rparr>) (user_accounts s)\<rparr>)
      | None \<Rightarrow>
          bindR (resolve_registration_consents now (property ''consents'' inp) s) (\<lambda>consents.
          let name = (case trimmed (sid_name identity) of
                Some n \<Rightarrow> n
              | None \<Rightarrow> (case trimmed (json_text (property ''displayName'' inp)) of
                    Some n \<Rightarrow> n
                  | None \<Rightarrow> random_social_name fr))
          in bindR (ins_user (user_of now (afr_user fr) None None None name) s) (\<lambda>(user, s1).
             bindR (ins_account \<lparr>acc_id = afr_account fr, acc_user = usr_id user, acc_provider = provider,
                      acc_external = sid_account identity, acc_email = sid_email identity, acc_created = now\<rparr> s1)
               (\<lambda>(account, s2).
             bindR (record_consents now (afr_consents fr) (usr_id user) consents s2) (\<lambda>(_, s3).
               Inr (to_public_user user [acc_email account], s3))))))"

definition social_identity_of :: "social_provider list \<Rightarrow> json option \<Rightarrow> json option \<Rightarrow> (string \<times> social_identity) res" where
  "social_identity_of provs provider_value inp =
     bindR (required_string ''provider'' provider_value) (\<lambda>raw.
     bindR (require_some (find (\<lambda>p. fst p = to_lower raw) provs) (Bad_Request ''Social login provider is not supported''))
       (\<lambda>p.
     bindR (required_string ''idToken'' (property ''idToken'' inp)) (\<lambda>id_token.
     bindR (snd p id_token) (\<lambda>identity. Inr (to_lower raw, identity)))))"

definition social_login :: "crypto \<Rightarrow> auth_env \<Rightarrow> social_provider list \<Rightarrow> time \<Rightarrow> auth_fresh \<Rightarrow> json option \<Rightarrow> json option \<Rightarrow>
    backend \<Rightarrow> auth_tokens res \<times> backend" where
  "social_login c e provs now fr provider_value inp s =
     (case social_identity_of provs provider_value inp of
        Inl err \<Rightarrow> (Inl err, s)
      | Inr (provider, identity) \<Rightarrow>
          (case commit (social_tx now fr provider identity inp) s of
             (Inl err, s1) \<Rightarrow> (Inl err, s1)
           | (Inr user, s1) \<Rightarrow> greet c e now fr user s1))"

section \<open>Refresh tokens\<close>

abbreviation invalid_refresh :: api_error where
  "invalid_refresh \<equiv> Unauthorized ''Refresh token is invalid''"

definition find_refresh_token :: "crypto \<Rightarrow> string \<Rightarrow> backend \<Rightarrow> (token_row \<times> public_user) option" where
  "find_refresh_token c token s =
     Option.bind (find (\<lambda>t. tok_hash t = hash_token c token \<and> has_user (core_db s) (tok_user t)) (refresh_tokens s))
       (\<lambda>t. map_option (\<lambda>r. (t, to_public_user r (account_emails (usr_id r) s))) (find_user (tok_user t) s))"

definition refresh_check :: "crypto \<Rightarrow> auth_env \<Rightarrow> time \<Rightarrow> json option \<Rightarrow> backend \<Rightarrow> (token_row \<times> public_user) res" where
  "refresh_check c e now inp s =
     bindR (required_string ''refreshToken'' (property ''refreshToken'' inp)) (\<lambda>token.
     bindR (require_some (find_refresh_token c token s) invalid_refresh) (\<lambda>(row, user).
     bindR (ensure (tok_revoked row = None) invalid_refresh) (\<lambda>_.
     bindR (refresh_token_ttl_seconds e) (\<lambda>ttl.
     bindR (ensure (js_date now < js_date (tok_created row) + ms (ttl * 1000)) invalid_refresh) (\<lambda>_.
     Inr (row, user))))))"

definition usable_token :: "time \<Rightarrow> int \<Rightarrow> token_row \<Rightarrow> token_row \<Rightarrow> bool" where
  "usable_token now ttl row t \<longleftrightarrow> tok_hash t = tok_hash row \<and> tok_user t = tok_user row \<and> tok_revoked t = None \<and>
     js_date now - ms (ttl * 1000) < tok_created t"

definition revoke :: "time \<Rightarrow> token_row \<Rightarrow> token_row" where
  "revoke now t = t\<lparr>tok_revoked := Some (js_date now)\<rparr>"

definition refresh_tx :: "crypto \<Rightarrow> auth_env \<Rightarrow> time \<Rightarrow> auth_fresh \<Rightarrow> token_row \<times> public_user \<Rightarrow> backend \<Rightarrow>
    (auth_tokens \<times> backend) res" where
  "refresh_tx c e now fr found s =
     bindR (refresh_token_ttl_seconds e) (\<lambda>ttl.
     let usable = usable_token now ttl (fst found);
         s1 = s\<lparr>refresh_tokens := update_where usable (revoke now) (refresh_tokens s)\<rparr>
     in bindR (ensure (length (filter usable (refresh_tokens s)) = 1) invalid_refresh) (\<lambda>_.
        issue_tokens_tx c e now fr (snd found) s1))"

definition refresh :: "crypto \<Rightarrow> auth_env \<Rightarrow> time \<Rightarrow> auth_fresh \<Rightarrow> json option \<Rightarrow> backend \<Rightarrow> auth_tokens res \<times> backend" where
  "refresh c e now fr inp s =
     (case refresh_check c e now inp s of
        Inl err \<Rightarrow> (Inl err, s)
      | Inr found \<Rightarrow> commit (refresh_tx c e now fr found) s)"

definition revoke_refresh_token :: "crypto \<Rightarrow> time \<Rightarrow> json option \<Rightarrow> backend \<Rightarrow> unit res \<times> backend" where
  "revoke_refresh_token c now v s =
     (case required_string ''refreshToken'' v of
        Inl err \<Rightarrow> (Inl err, s)
      | Inr token \<Rightarrow>
          (let hit = (\<lambda>t. tok_hash t = hash_token c token \<and> tok_revoked t = None)
           in (ensure (length (filter hit (refresh_tokens s)) = 1) invalid_refresh,
               s\<lparr>refresh_tokens := update_where hit (revoke now) (refresh_tokens s)\<rparr>)))"

section \<open>Changing the password\<close>

definition change_password_check :: "crypto \<Rightarrow> auth_env \<Rightarrow> time \<Rightarrow> string option \<Rightarrow> json option \<Rightarrow> backend \<Rightarrow>
    (user_row \<times> string) res" where
  "change_password_check c e now authorization inp s =
     bindR (user_id_from_authorization c e now authorization s) (\<lambda>u.
     bindR (require_some (find_user u s) invalid_token) (\<lambda>user.
     bindR (ensure (has_password user) (Bad_Request ko_no_password)) (\<lambda>_.
     case json_text (property ''currentPassword'' inp) of
       None \<Rightarrow> Inl (Bad_Request ''currentPassword is required'')
     | Some current \<Rightarrow>
         bindR (ensure (current \<noteq> []) (Bad_Request ''currentPassword is required'')) (\<lambda>_.
         bindR (assert_password (property ''newPassword'' inp)) (\<lambda>password.
         bindR (ensure (password \<noteq> current) (Bad_Request ''New password must be different'')) (\<lambda>_.
         bindR (ensure (password_matches c current user) (Bad_Request ''Current password is incorrect'')) (\<lambda>_.
         Inr (user, password))))))))"

definition change_password_tx :: "crypto \<Rightarrow> auth_env \<Rightarrow> time \<Rightarrow> auth_fresh \<Rightarrow> user_row \<Rightarrow> string \<Rightarrow> backend \<Rightarrow>
    (auth_tokens \<times> backend) res" where
  "change_password_tx c e now fr user password s =
     (let u = usr_id user; salt = base64url (afr_salt fr); hash = hash_password c password salt in
      case find_user u s of
        None \<Rightarrow> Inl (Bad_Request ko_no_password)
      | Some current \<Rightarrow>
          bindR (ensure (has_password current) (Bad_Request ko_no_password)) (\<lambda>_.
          bindR (ensure (same_password current user) (Bad_Request ''Current password is incorrect'')) (\<lambda>_.
          bindR (upd_users (\<lambda>r. usr_id r = u) (\<lambda>r. r\<lparr>usr_password_hash := Some hash, usr_password_salt := Some salt\<rparr>) s)
            (\<lambda>s1.
          let s2 = s1\<lparr>refresh_tokens := update_where (\<lambda>t. tok_user t = u \<and> tok_revoked t = None) (revoke now)
                       (refresh_tokens s1)\<rparr>
          in bindR (ins_user_event \<lparr>uev_id = afr_event fr, uev_user = u, uev_type = ''auth.password_changed'',
                      uev_target_type = ''user'', uev_target = u, uev_metadata = None, uev_created = now\<rparr> s2)
               (\<lambda>(_, s3). issue_tokens_tx c e now fr (to_public_user current []) s3)))))"

definition change_password :: "crypto \<Rightarrow> auth_env \<Rightarrow> time \<Rightarrow> auth_fresh \<Rightarrow> string option \<Rightarrow> json option \<Rightarrow> backend \<Rightarrow>
    auth_tokens res \<times> backend" where
  "change_password c e now fr authorization inp s =
     (case change_password_check c e now authorization inp s of
        Inl err \<Rightarrow> (Inl err, s)
      | Inr (user, password) \<Rightarrow> commit (change_password_tx c e now fr user password) s)"

section \<open>Withdrawal\<close>

definition open_refunds :: "uid \<Rightarrow> db \<Rightarrow> int" where
  "open_refunds u d = int (length (filter (\<lambda>f. locking_refund f \<and>
     list_ex (\<lambda>p. pur_id p = rf_purchase f \<and> pur_user p = u) (purchases d)) (refunds d)))"

definition open_purchases :: "uid \<Rightarrow> db \<Rightarrow> int" where
  "open_purchases u d = int (length (filter (\<lambda>p. pur_user p = u \<and>
     (pur_status p = Pur_Pending \<or> pur_status p = Pur_Payment_Processing)) (purchases d)))"

text \<open>\<open>INSERT ... ON CONFLICT DO UPDATE\<close> of the debt of an identity.\<close>

definition add_debt :: "string \<Rightarrow> int \<Rightarrow> db \<Rightarrow> db res" where
  "add_debt h n d =
     (let rows = (if h \<in> ud_hash ` set (debts d)
                  then update_where (\<lambda>r. ud_hash r = h) (\<lambda>r. r\<lparr>ud_debt := ud_debt r + n\<rparr>) (debts d)
                  else debts d @ [\<lparr>ud_hash = h, ud_debt = n\<rparr>])
      in bindR (constrained (\<forall>r \<in> set rows. int4 (ud_debt r)) True True) (\<lambda>_. Inr (d\<lparr>debts := rows\<rparr>)))"

definition erased :: "time \<Rightarrow> user_row \<Rightarrow> user_row" where
  "erased now r = r\<lparr>usr_email := None, usr_password_hash := None, usr_password_salt := None,
     usr_display_name := ko_deleted_user, usr_bio := [], usr_image_url := None, usr_adult_verified := None,
     usr_adult_hash := None, usr_debt_hash := None, usr_deleted := Some (js_date now)\<rparr>"

text \<open>What the deletions remove; messages and jobs go with their conversation, by the cascade of the schema.\<close>

definition forget_user :: "uid \<Rightarrow> db \<Rightarrow> db" where
  "forget_user u d =
     (let own = (\<lambda>i. list_ex (\<lambda>r. cnv_id r = i \<and> cnv_user r = u) (conversations d)) in
      d\<lparr>conversations := filter (\<lambda>r. cnv_user r \<noteq> u) (conversations d),
        messages := filter (\<lambda>m. \<not> own (msg_conversation m)) (messages d),
        jobs := filter (\<lambda>j. \<not> own (job_conversation j)) (jobs d),
        notifications := filter (\<lambda>n. ntf_user n \<noteq> u) (notifications d),
        follows := filter (\<lambda>f. flw_user f \<noteq> u) (follows d)\<rparr>)"

definition delete_account_check :: "crypto \<Rightarrow> auth_env \<Rightarrow> time \<Rightarrow> string option \<Rightarrow> json option \<Rightarrow> backend \<Rightarrow>
    (user_row \<times> string option \<times> string option) res" where
  "delete_account_check c e now authorization inp s =
     bindR (user_id_from_authorization c e now authorization s) (\<lambda>u.
     case json_text (property ''password'' inp) of
       None \<Rightarrow> Inl (Bad_Request ''password is required'')
     | Some password \<Rightarrow>
         bindR (ensure (password \<noteq> []) (Bad_Request ''password is required'')) (\<lambda>_.
         bindR (optional_withdrawal_reason (property ''reasonCategory'' inp)) (\<lambda>category.
         bindR (optional_reason_text (property ''reasonText'' inp)) (\<lambda>reason.
         bindR (require_some (find_user u s) invalid_token) (\<lambda>user.
         bindR (ensure (truthy (usr_email user)) invalid_token) (\<lambda>_.
         bindR (ensure (password_matches c password user) (Bad_Request ''Password is incorrect'')) (\<lambda>_.
         Inr (user, category, reason))))))))"

definition identity_hash_of :: "user_row \<Rightarrow> string option" where
  "identity_hash_of r = (case usr_adult_hash r of Some h \<Rightarrow> Some h | None \<Rightarrow> usr_debt_hash r)"

definition delete_account_tx :: "time \<Rightarrow> auth_fresh \<Rightarrow> user_row \<Rightarrow> string option \<Rightarrow> string option \<Rightarrow> backend \<Rightarrow> (unit \<times> backend) res" where
  "delete_account_tx now fr user category reason s =
     (let u = usr_id user; d = core_db s; paid = get_paid_balance now u d; debt = max 0 (- paid) in
      bindR (ensure (\<not> (0 < paid \<or> 0 < open_refunds u d \<or> 0 < open_purchases u d))
               (Conflict ''Paid credits and pending payments must be settled before withdrawal'')) (\<lambda>_.
      bindR (case identity_hash_of user of
               Some h \<Rightarrow> if 0 < debt \<and> h \<noteq> [] then add_debt h debt d else Inr d
             | None \<Rightarrow> Inr d) (\<lambda>d1.
      bindR (upd_users (\<lambda>r. usr_id r = u) (erased now) (s\<lparr>core_db := d1\<rparr>)) (\<lambda>s1.
      bindR (constrained True (afr_withdrawal fr \<notin> wdr_id ` set (withdrawals s1)) True) (\<lambda>_.
      Inr ((), s1\<lparr>core_db := forget_user u (core_db s1),
                 refresh_tokens := filter (\<lambda>t. tok_user t \<noteq> u) (refresh_tokens s1),
                 preferences := filter (\<lambda>p. prf_user p \<noteq> u) (preferences s1),
                 withdrawals := withdrawals s1 @ [\<lparr>wdr_id = afr_withdrawal fr, wdr_user = u, wdr_category = category,
                                  wdr_text = reason, wdr_created = now\<rparr>]\<rparr>))))))"

definition delete_account :: "crypto \<Rightarrow> auth_env \<Rightarrow> time \<Rightarrow> auth_fresh \<Rightarrow> string option \<Rightarrow> json option \<Rightarrow> backend \<Rightarrow> unit res \<times> backend" where
  "delete_account c e now fr authorization inp s =
     (case delete_account_check c e now authorization inp s of
        Inl err \<Rightarrow> (Inl err, s)
      | Inr (user, category, reason) \<Rightarrow> commit (delete_account_tx now fr user category reason) s)"

section \<open>Adult identities\<close>

definition hash_adult_identity :: "crypto \<Rightarrow> auth_env \<Rightarrow> string \<Rightarrow> string res" where
  "hash_adult_identity c e key =
     bindR (ensure (utf16_length key \<le> 512) (Bad_Request ''providerIdentityKey is too long'')) (\<lambda>_.
     bindR (require_some (trimmed (env_identity_secret e)) (Service_Unavailable ''Adult identity hashing is not configured''))
       (\<lambda>secret. Inr (hex_bytes (hmac_sha256 c secret key))))"

record adult_result =
  adr_applied :: int
  adr_debt :: int

definition debt_entry :: "time \<Rightarrow> uid \<Rightarrow> uid \<Rightarrow> string \<Rightarrow> int \<Rightarrow> ledger_row" where
  "debt_entry now lid u h n = \<lparr>led_id = lid, led_user = u, led_type = Adjustment, led_kind = Some Paid,
     led_purchase = None, led_promo = None, led_amount = - n, led_expires = None,
     led_reason = ''unsettled identity debt transfer'', led_ref = Some (''identity_debt:'' @ h), led_created = now\<rparr>"

definition kept_debt :: "string \<Rightarrow> db \<Rightarrow> int" where
  "kept_debt h d = (case find (\<lambda>r. ud_hash r = h) (debts d) of Some r \<Rightarrow> ud_debt r | None \<Rightarrow> 0)"

definition take_over_debt :: "time \<Rightarrow> uid \<Rightarrow> uid \<Rightarrow> string \<Rightarrow> db \<Rightarrow> db res" where
  "take_over_debt now lid u h d =
     (if 0 < kept_debt h d
      then bindR (ins_ledger (debt_entry now lid u h (kept_debt h d)) d) (\<lambda>(_, d1).
             Inr (d1\<lparr>debts := filter (\<lambda>r. ud_hash r \<noteq> h) (debts d1)\<rparr>))
      else Inr d)"

definition adult_identity_tx :: "time \<Rightarrow> auth_fresh \<Rightarrow> uid \<Rightarrow> string \<Rightarrow> backend \<Rightarrow> (adult_result \<times> backend) res" where
  "adult_identity_tx now fr u h s =
     bindR (require_some (find_user u s) invalid_token) (\<lambda>user.
     bindR (ensure (usr_deleted user = None) invalid_token) (\<lambda>_.
     bindR (ensure (\<not> list_ex (\<lambda>r. usr_adult_hash r = Some h \<and> usr_id r \<noteq> u \<and> usr_deleted r = None) (users (core_db s)))
              (Conflict ''Adult identity is already linked'')) (\<lambda>_.
     let d = core_db s;
         applied = kept_debt h d;
         debt = max 0 (- get_paid_balance now u d) + applied
     in bindR (take_over_debt now (afr_ledger fr) u h d) (\<lambda>d2.
        bindR (upd_users (\<lambda>r. usr_id r = u)
                 (\<lambda>r. r\<lparr>usr_adult_verified := Some (js_date now), usr_adult_hash := Some h,
                         usr_debt_hash := (if 0 < debt then Some h else None)\<rparr>) (s\<lparr>core_db := d2\<rparr>)) (\<lambda>s1.
        Inr (\<lparr>adr_applied = applied, adr_debt = debt\<rparr>, s1))))))"

definition apply_verified_adult_identity :: "crypto \<Rightarrow> auth_env \<Rightarrow> time \<Rightarrow> auth_fresh \<Rightarrow> uid \<Rightarrow> string \<Rightarrow> backend \<Rightarrow>
    (adult_result \<times> backend) res" where
  "apply_verified_adult_identity c e now fr u key s =
     bindR (hash_adult_identity c e key) (\<lambda>h. adult_identity_tx now fr u h s)"

definition verify_adult_identity :: "crypto \<Rightarrow> auth_env \<Rightarrow> time \<Rightarrow> auth_fresh \<Rightarrow> string option \<Rightarrow> json option \<Rightarrow> backend \<Rightarrow>
    adult_result res \<times> backend" where
  "verify_adult_identity c e now fr authorization inp s = commit (\<lambda>s.
     bindR (ensure (env_node e \<noteq> Some ''production'')
              (Service_Unavailable ''Adult verification provider is not configured'')) (\<lambda>_.
     bindR (user_id_from_authorization c e now authorization s) (\<lambda>u.
     bindR (required_string ''providerIdentityKey'' (property ''providerIdentityKey'' inp)) (\<lambda>key.
     apply_verified_adult_identity c e now fr u key s)))) s"

section \<open>The profile\<close>

definition optional_field :: "string \<Rightarrow> (json option \<Rightarrow> 'a res) \<Rightarrow> json option \<Rightarrow> 'a option res" where
  "optional_field name read inp =
     (case property name inp of None \<Rightarrow> Inr None | v \<Rightarrow> bindR (read v) (\<lambda>x. Inr (Some x)))"

definition set_profile :: "string option \<Rightarrow> string option \<Rightarrow> string option option \<Rightarrow> user_row \<Rightarrow> user_row" where
  "set_profile name bio img r = r\<lparr>
     usr_display_name := (case name of Some x \<Rightarrow> x | None \<Rightarrow> usr_display_name r),
     usr_bio := (case bio of Some x \<Rightarrow> x | None \<Rightarrow> usr_bio r),
     usr_image_url := (case img of Some x \<Rightarrow> x | None \<Rightarrow> usr_image_url r)\<rparr>"

definition update_current_user :: "crypto \<Rightarrow> auth_env \<Rightarrow> (string \<Rightarrow> url option) \<Rightarrow> time \<Rightarrow> string option \<Rightarrow> json option \<Rightarrow>
    backend \<Rightarrow> public_user res \<times> backend" where
  "update_current_user c e parse now authorization inp s = commit (\<lambda>s.
     bindR (user_id_from_authorization c e now authorization s) (\<lambda>u.
     bindR (optional_field ''displayName'' (required_string ''displayName'') inp) (\<lambda>name.
     bindR (optional_field ''bio'' profile_bio inp) (\<lambda>bio.
     bindR (optional_field ''profileImageUrl'' (\<lambda>v. profile_image_url parse (the v)) inp) (\<lambda>img.
     bindR (ensure (\<not> (name = None \<and> bio = None \<and> img = None)) (Bad_Request ''profile update is required'')) (\<lambda>_.
     bindR (upd_users (\<lambda>r. usr_id r = u) (set_profile name bio img) s) (\<lambda>s1.
     bindR (require_some (find_user u s1) (Plain_Error ''Cannot read properties of undefined'')) (\<lambda>r.
     Inr (to_public_user r (account_emails u s1), s1))))))))) s"

end
