(* ===== verification/Sessions.thy ===== *)
theory Sessions
  imports Auth
begin

text \<open>
  Sessions as an abstract machine: users and refresh tokens with five moves (a user joins, edits or leaves, a
  token is opened or revoked). Every operation of \<open>Auth\<close> is a sequence of such moves, on whatever state it
  meets, so the invariants are proved once for the moves: a token that was used or revoked is spent for good,
  and who has left stays away.
\<close>

section \<open>The machine\<close>

type_synonym sessions = "user_row list \<times> token_row list"

definition sessions_of :: "backend \<Rightarrow> sessions" where
  "sessions_of s = (users (core_db s), refresh_tokens s)"

inductive session_move :: "sessions \<Rightarrow> sessions \<Rightarrow> bool" where
  opened: "tok_hash t \<notin> tok_hash ` set ts \<Longrightarrow> tok_revoked t = None \<Longrightarrow> r \<in> set us \<Longrightarrow> usr_id r = tok_user t \<Longrightarrow>
     usr_deleted r = None \<Longrightarrow> session_move (us, ts) (us, ts @ [t])"
| joined: "usr_id r \<notin> usr_id ` set us \<Longrightarrow> usr_deleted r = None \<Longrightarrow> session_move (us, ts) (us @ [r], ts)"
| edited: "(\<And>r. r \<in> set us \<Longrightarrow> usr_id (f r) = usr_id r \<and> usr_deleted (f r) = usr_deleted r \<and> usr_email (f r) = usr_email r) \<Longrightarrow>
     session_move (us, ts) (map f us, ts)"
| revoked: "(\<And>t. t \<in> set ts \<Longrightarrow> p t \<Longrightarrow> tok_revoked t = None) \<Longrightarrow> session_move (us, ts) (us, update_where p (revoke now) ts)"
| left: "session_move (us, ts) (update_where (\<lambda>r. usr_id r = u) (erased now) us, filter (\<lambda>t. tok_user t \<noteq> u) ts)"

abbreviation session_moves :: "sessions \<Rightarrow> sessions \<Rightarrow> bool" where
  "session_moves \<equiv> session_move\<^sup>*\<^sup>*"

definition gone :: "user_row list \<Rightarrow> uid \<Rightarrow> bool" where
  "gone us u \<longleftrightarrow> (\<exists>r \<in> set us. usr_id r = u \<and> usr_deleted r \<noteq> None)"

fun sessions_ok :: "sessions \<Rightarrow> bool" where
  "sessions_ok (us, ts) \<longleftrightarrow> distinct (map usr_id us) \<and> distinct (map tok_hash ts) \<and>
     (\<forall>r \<in> set us. usr_deleted r \<noteq> None \<longrightarrow> usr_email r = None) \<and> (\<forall>t \<in> set ts. tok_user t \<in> usr_id ` set us \<and> \<not> gone us (tok_user t))"

fun spent :: "string \<Rightarrow> uid \<Rightarrow> sessions \<Rightarrow> bool" where
  "spent h u (us, ts) \<longleftrightarrow> gone us u \<or> (\<exists>t \<in> set ts. tok_hash t = h \<and> tok_user t = u \<and> tok_revoked t \<noteq> None)"

section \<open>Its invariants\<close>

lemma revoke_simps [simp]:
  "tok_hash (revoke now t) = tok_hash t" "tok_user (revoke now t) = tok_user t" "tok_id (revoke now t) = tok_id t"
  "tok_revoked (revoke now t) = Some (js_date now)" "tok_created (revoke now t) = tok_created t"
  by (simp_all add: revoke_def)

lemma erased_simps [simp]:
  "usr_id (erased now r) = usr_id r" "usr_email (erased now r) = None" "usr_deleted (erased now r) = Some (js_date now)"
  by (simp_all add: erased_def)

lemma not_gone: "distinct (map usr_id us) \<Longrightarrow> r \<in> set us \<Longrightarrow> usr_deleted r = None \<Longrightarrow> \<not> gone us (usr_id r)"
  by (auto simp: gone_def dest: unique_key_eq)

lemma gone_append: "usr_deleted r = None \<Longrightarrow> gone (us @ [r]) u = gone us u"
  by (auto simp: gone_def)

lemma gone_map:
  "(\<And>r. r \<in> set us \<Longrightarrow> usr_id (f r) = usr_id r \<and> usr_deleted (f r) = usr_deleted r) \<Longrightarrow> gone (map f us) u = gone us u"
  by (auto simp: gone_def)

lemma gone_erased: "gone (update_where (\<lambda>r. usr_id r = v) (erased now) us) u \<longleftrightarrow> gone us u \<or> (u = v \<and> u \<in> usr_id ` set us)"
  unfolding gone_def by (induction us) auto

lemma session_move_ok: "session_move x y \<Longrightarrow> sessions_ok x \<Longrightarrow> sessions_ok y"
proof (induction rule: session_move.induct)
  case (opened t ts r us)
  then have "tok_user t \<in> usr_id ` set us" by force
  then show ?case using opened not_gone [of us r] by auto
next
  case (joined r us ts)
  then show ?case by (auto simp: gone_append)
next
  case (edited us f ts)
  have ids: "map usr_id (map f us) = map usr_id us" using edited(1) by simp
  have "usr_id ` set (map f us) = usr_id ` set us" using arg_cong [OF ids, of set] by (simp only: set_map)
  moreover have "\<forall>r \<in> set (map f us). usr_deleted r \<noteq> None \<longrightarrow> usr_email r = None" using edited by auto
  moreover have "gone (map f us) u = gone us u" for u using edited(1) by (intro gone_map) blast
  ultimately show ?case using edited(2) unfolding sessions_ok.simps ids by simp
next
  case (revoked ts p us now)
  then show ?case by (auto simp: set_update_where)
next
  case (left us ts u now)
  then show ?case by (auto simp: gone_erased set_update_where distinct_map_filter)
qed

lemma session_move_spent: "session_move x y \<Longrightarrow> spent h u x \<Longrightarrow> sessions_ok x \<Longrightarrow> spent h u y"
proof (induction rule: session_move.induct)
  case (opened t ts r us)
  then show ?case by auto
next
  case (joined r us ts)
  then show ?case by (auto simp: gone_append)
next
  case (edited us f ts)
  then show ?case by (auto simp: gone_map)
next
  case (revoked ts p us now)
  then show ?case by (fastforce simp: set_update_where)
next
  case (left us ts v now)
  then show ?case by (auto simp: gone_erased)
qed

lemma session_move_gone: "session_move x y \<Longrightarrow> gone (fst x) u \<Longrightarrow> gone (fst y) u"
proof (induction rule: session_move.induct)
  case (edited us f ts)
  then show ?case by (simp add: gone_map)
qed (auto simp: gone_append gone_erased)

lemma session_moves_gone: "session_moves x y \<Longrightarrow> gone (fst x) u \<Longrightarrow> gone (fst y) u"
  by (induction rule: rtranclp_induct) (auto intro: session_move_gone)

lemma session_moves_ok: "session_moves x y \<Longrightarrow> sessions_ok x \<Longrightarrow> sessions_ok y"
  by (induction rule: rtranclp_induct) (auto intro: session_move_ok)

lemma session_moves_spent: "session_moves x y \<Longrightarrow> spent h u x \<Longrightarrow> sessions_ok x \<Longrightarrow> spent h u y"
  by (induction rule: rtranclp_induct) (auto intro: session_move_spent session_moves_ok)

lemma spent_no_live:
  assumes "spent h u (us, ts)" "sessions_ok (us, ts)" "t \<in> set ts" "tok_hash t = h" "tok_user t = u"
  shows "tok_revoked t \<noteq> None"
  using assms by (auto dest: unique_key_eq)

section \<open>The operations as moves\<close>

named_theorems session_intros \<open>operations as moves of the session machine\<close>

lemma sessions_of_cong:
  "users (core_db s') = users (core_db s) \<Longrightarrow> refresh_tokens s' = refresh_tokens s \<Longrightarrow>
   session_moves (sessions_of s) (sessions_of s')"
  by (simp add: sessions_of_def)

lemma record_consents_sessions:
  "record_consents now ids u records s = Inr (x, s') \<Longrightarrow> users (core_db s') = users (core_db s) \<and> refresh_tokens s' = refresh_tokens s"
  by (auto simp: record_consents_def res_simps split: if_splits)

lemma grant_signup_users: "grant_signup_bonus now lid u d = Inr (r, d') \<Longrightarrow> users d' = users d"
  unfolding grant_signup_bonus_def grant_credits_def grant_with_client_def
  by (auto simp: Let_def res_simps trimmed_def split: if_splits option.splits)

lemma issue_tokens_move [session_intros]:
  assumes "r \<in> set (users (core_db s))" "usr_id r = pbu_id user" "usr_deleted r = None"
  shows "session_moves (sessions_of s) (sessions_of (snd (issue_tokens c e now fr user s)))"
proof (cases "snd (issue_tokens c e now fr user s) = s")
  case False
  define t where "t = \<lparr>tok_id = afr_token fr, tok_user = pbu_id user,
    tok_hash = hash_token c (base64url (afr_refresh fr)), tok_revoked = None, tok_created = now\<rparr>"
  obtain s1 where s1: "ins_token t s = Inr (t, s1)" "snd (issue_tokens c e now fr user s) = s1"
    using False by (auto simp: issue_tokens_def Let_def t_def ins_token_def bindR_def split: sum.splits)
  then have "session_move (users (core_db s), refresh_tokens s) (users (core_db s), refresh_tokens s @ [t])"
    using assms by (intro opened [of t _ r]) (auto simp: ins_token_Inr_iff t_def)
  then show ?thesis using s1 by (auto simp: sessions_of_def ins_token_Inr_iff)
qed simp

lemma issue_tokens_tx_Inr: "issue_tokens_tx c e now fr user s = Inr (x, s') \<longleftrightarrow> issue_tokens c e now fr user s = (Inr x, s')"
  by (auto simp: issue_tokens_tx_def split: prod.splits sum.splits)

lemma find_user_in: "find_user u s = Some r \<Longrightarrow> r \<in> set (users (core_db s)) \<and> usr_id r = u"
  unfolding find_user_def by (rule find_in_set)

lemma to_public_id [simp]: "pbu_id (to_public_user r emails) = usr_id r"
  by (simp add: to_public_user_def)

lemma greet_moves [session_intros]:
  assumes "r \<in> set (users (core_db s))" "usr_id r = pbu_id user" "usr_deleted r = None"
  shows "session_moves (sessions_of s) (sessions_of (snd (greet c e now fr user s)))"
proof (cases "on_core (grant_signup_bonus now (afr_ledger fr) (pbu_id user)) s")
  case (Inl err)
  then show ?thesis by (simp add: greet_def)
next
  case (Inr y)
  obtain x s1 where y: "y = (x, s1)" by (cases y)
  then have s1: "users (core_db s1) = users (core_db s)" "refresh_tokens s1 = refresh_tokens s"
    using Inr grant_signup_users by (auto simp: on_core_Inr_iff)
  have "session_moves (sessions_of s1) (sessions_of (snd (issue_tokens c e now fr user s1)))"
    using assms s1 by (intro issue_tokens_move) auto
  then show ?thesis using Inr y s1 by (simp add: greet_def sessions_of_def)
qed

lemma ins_user_move:
  "ins_user row s = Inr (r, s') \<Longrightarrow> usr_deleted row = None \<Longrightarrow> session_move (sessions_of s) (sessions_of s')"
  by (auto simp: ins_user_Inr_iff sessions_of_def intro: joined)

lemma create_auth_user_Inr: "create_auth_user row s = Inr x \<longleftrightarrow> ins_user row s = Inr x"
  by (auto simp: create_auth_user_def split: sum.splits api_error.splits sqlstate.splits)

lemma register_tx_moves:
  assumes "register_tx now fr row consents s = Inr (user, s1)" "usr_deleted row = None"
  shows "session_moves (sessions_of s) (sessions_of s1)" "user \<in> set (users (core_db s1))" "user = row"
proof -
  obtain s0 where i: "ins_user row s = Inr (user, s0)"
    and rc: "record_consents now (afr_consents fr) (usr_id user) consents s0 = Inr ((), s1)"
    using assms(1) by (auto simp: register_tx_def create_auth_user_Inr res_simps)
  note same = record_consents_sessions [OF rc]
  show "user = row" using i by (simp add: ins_user_Inr_iff)
  show "user \<in> set (users (core_db s1))" using i same by (auto simp: ins_user_Inr_iff)
  show "session_moves (sessions_of s) (sessions_of s1)"
    using ins_user_move [OF i assms(2)] same by (simp add: sessions_of_def r_into_rtranclp)
qed

lemma user_of_simps [simp]: "usr_deleted (user_of now i email hash salt name) = None" "usr_id (user_of now i email hash salt name) = i"
  by (simp_all add: user_of_def)

lemma register_moves [session_intros]:
  "session_moves (sessions_of s) (sessions_of (snd (register c e now fr inp s)))"
proof (cases "register_input c now inp s")
  case (Inl err)
  then show ?thesis by (simp add: register_def)
next
  case (Inr v)
  obtain email name password consents where v: "v = (email, name, password, consents)" by (cases v)
  define salt where "salt = base64url (afr_salt fr)"
  define row where "row = user_of now (afr_user fr) (Some email) (Some (hash_password c password salt)) (Some salt) name"
  show ?thesis
  proof (cases "register_tx now fr row consents s")
    case (Inl err)
    with Inr v show ?thesis by (simp add: register_def row_def salt_def)
  next
    case (Inr y)
    obtain user s1 where y: "y = (user, s1)" by (cases y)
    have d: "usr_deleted row = None" by (simp add: row_def)
    note tx = register_tx_moves [OF Inr [unfolded y] d]
    have "session_moves (sessions_of s1) (sessions_of (snd (greet c e now fr (to_public_user user []) s1)))"
      using tx d by (intro greet_moves [of user]) auto
    with tx(1) show ?thesis using \<open>register_input c now inp s = Inr v\<close> v Inr y
      by (simp add: register_def row_def [symmetric] salt_def [symmetric])
  qed
qed

text \<open>Whoever has an email address, and so whoever has a password, has not left.\<close>

lemma has_password_present: "sessions_ok (sessions_of s) \<Longrightarrow> r \<in> set (users (core_db s)) \<Longrightarrow> has_password r \<Longrightarrow> usr_deleted r = None"
  by (auto simp: sessions_of_def has_password_def)

lemma login_tx_moves [session_intros]:
  assumes "login_tx c e now fr user s = Inr (x, s')" "sessions_ok (sessions_of s)"
  shows "session_moves (sessions_of s) (sessions_of s')"
proof -
  obtain r where r: "find_user (usr_id user) s = Some r" "has_password r"
    and i: "issue_tokens c e now fr (to_public_user r []) s = (Inr x, s')"
    using assms(1) by (auto simp: login_tx_def res_simps issue_tokens_tx_Inr)
  have "session_moves (sessions_of s) (sessions_of (snd (issue_tokens c e now fr (to_public_user r []) s)))"
    using find_user_in [OF r(1)] has_password_present [OF assms(2) _ r(2)] by (intro issue_tokens_move [of r]) auto
  then show ?thesis using i by simp
qed

lemma social_tx_moves:
  assumes "social_tx now fr provider identity inp s = Inr (user, s1)"
  shows "session_moves (sessions_of s) (sessions_of s1) \<and>
    (\<exists>r \<in> set (users (core_db s1)). usr_id r = pbu_id user \<and> usr_deleted r = None)"
proof (cases "find_social_account provider (sid_account identity) s")
  case (Some x)
  obtain a r where x: "x = (a, r)" by (cases x)
  have r: "r \<in> set (users (core_db s))"
    using Some x by (auto simp: find_social_account_def bind_eq_Some_conv dest: find_user_in)
  show ?thesis using assms Some x r
    by (auto simp: social_tx_def sessions_of_def split: if_splits intro!: bexI [of _ r])
next
  case None
  obtain name consents row user0 account s0 s2 where i: "ins_user (user_of now (afr_user fr) None None None name) s = Inr (user0, s0)"
    and a: "ins_account row s0 = Inr (account, s2)"
    and rc: "record_consents now (afr_consents fr) (usr_id user0) consents s2 = Inr ((), s1)"
    and u: "user = to_public_user user0 [acc_email account]"
    using assms None by (auto simp: social_tx_def bindR_Inr_iff Let_def split: prod.splits)
  note same = record_consents_sessions [OF rc]
  have "sessions_of s1 = sessions_of s0" using same a by (simp add: sessions_of_def ins_account_Inr_iff)
  moreover have "session_move (sessions_of s) (sessions_of s0)" by (rule ins_user_move [OF i]) simp
  moreover have "user0 \<in> set (users (core_db s1))" "usr_deleted user0 = None"
    using i same a by (auto simp: ins_user_Inr_iff ins_account_Inr_iff)
  ultimately show ?thesis by (auto simp: u intro!: bexI [of _ user0])
qed

lemma social_login_moves [session_intros]:
  "session_moves (sessions_of s) (sessions_of (snd (social_login c e provs now fr pv inp s)))"
proof (cases "social_identity_of provs pv inp")
  case (Inl err)
  then show ?thesis by (simp add: social_login_def)
next
  case (Inr v)
  obtain provider identity where v: "v = (provider, identity)" by (cases v)
  show ?thesis
  proof (cases "social_tx now fr provider identity inp s")
    case (Inl err)
    with Inr v show ?thesis by (simp add: social_login_def)
  next
    case (Inr y)
    obtain user s1 where y: "y = (user, s1)" by (cases y)
    note tx = social_tx_moves [OF Inr [unfolded y]]
    then obtain r where "r \<in> set (users (core_db s1))" "usr_id r = pbu_id user" "usr_deleted r = None" by blast
    then have "session_moves (sessions_of s1) (sessions_of (snd (greet c e now fr user s1)))" by (rule greet_moves)
    from rtranclp_trans [OF conjunct1 [OF tx] this] show ?thesis
      using \<open>social_identity_of provs pv inp = Inr v\<close> v Inr y by (simp add: social_login_def)
  qed
qed

lemma token_user_present:
  assumes "sessions_ok (sessions_of s)" "t \<in> set (refresh_tokens s)"
  obtains r where "r \<in> set (users (core_db s))" "usr_id r = tok_user t" "usr_deleted r = None"
  using assms by (auto simp: sessions_of_def gone_def)

lemma refresh_tx_moves [session_intros]:
  assumes "refresh_tx c e now fr found s = Inr (x, s')" "sessions_ok (sessions_of s)" "pbu_id (snd found) = tok_user (fst found)"
  shows "session_moves (sessions_of s) (sessions_of s')"
proof -
  obtain ttl where one: "length (filter (usable_token now ttl (fst found)) (refresh_tokens s)) = 1"
    and i: "issue_tokens c e now fr (snd found)
        (s\<lparr>refresh_tokens := update_where (usable_token now ttl (fst found)) (revoke now) (refresh_tokens s)\<rparr>) = (Inr x, s')"
    using assms(1) by (auto simp: refresh_tx_def res_simps Let_def issue_tokens_tx_Inr)
  let ?p = "usable_token now ttl (fst found)"
  let ?s1 = "s\<lparr>refresh_tokens := update_where ?p (revoke now) (refresh_tokens s)\<rparr>"
  obtain t where "t \<in> set (filter ?p (refresh_tokens s))" using one by (cases "filter ?p (refresh_tokens s)") auto
  then have t: "t \<in> set (refresh_tokens s)" "tok_user t = pbu_id (snd found)"
    using assms(3) by (auto simp: usable_token_def)
  obtain r where r: "r \<in> set (users (core_db s))" "usr_id r = tok_user t" "usr_deleted r = None"
    using token_user_present [OF assms(2) t(1)] .
  have "session_move (sessions_of s) (sessions_of ?s1)"
    by (auto simp: sessions_of_def usable_token_def intro: revoked)
  moreover have "session_moves (sessions_of ?s1) (sessions_of (snd (issue_tokens c e now fr (snd found) ?s1)))"
    using r t(2) by (intro issue_tokens_move [of r]) auto
  ultimately show ?thesis using i by simp
qed

lemma revoke_refresh_token_moves [session_intros]:
  "session_moves (sessions_of s) (sessions_of (snd (revoke_refresh_token c now v s)))"
  by (cases "required_string ''refreshToken'' v")
    (auto simp: revoke_refresh_token_def sessions_of_def Let_def intro!: r_into_rtranclp revoked)

lemma upd_users_edit:
  assumes "upd_users p f s = Inr s'"
    and "\<And>r. usr_id (f r) = usr_id r \<and> usr_deleted (f r) = usr_deleted r \<and> usr_email (f r) = usr_email r"
  shows "session_move (sessions_of s) (sessions_of s')"
  using assms unfolding sessions_of_def update_where_def upd_users_Inr_iff by (auto intro!: edited simp: update_where_def)

lemma change_password_tx_moves [session_intros]:
  assumes "change_password_tx c e now fr user password s = Inr (x, s')" "sessions_ok (sessions_of s)"
  shows "session_moves (sessions_of s) (sessions_of s')"
proof -
  define salt where "salt = base64url (afr_salt fr)"
  define f where "f = (\<lambda>r :: user_row. r\<lparr>usr_password_hash := Some (hash_password c password salt), usr_password_salt := Some salt\<rparr>)"
  define p where "p = (\<lambda>t :: token_row. tok_user t = usr_id user \<and> tok_revoked t = None)"
  obtain r where r: "find_user (usr_id user) s = Some r"
    using assms(1) by (cases "find_user (usr_id user) s") (auto simp: change_password_tx_def Let_def)
  obtain row s1 s3 where hp: "has_password r"
    and u: "upd_users (\<lambda>r. usr_id r = usr_id user) f s = Inr s1"
    and e: "ins_user_event row (s1\<lparr>refresh_tokens := update_where p (revoke now) (refresh_tokens s1)\<rparr>) = Inr ((), s3)"
    and i: "issue_tokens c e now fr (to_public_user r []) s3 = (Inr x, s')"
    using assms(1) r unfolding change_password_tx_def Let_def f_def p_def salt_def
    by (auto simp: bindR_Inr_iff ensure_Inr_iff issue_tokens_tx_Inr split: prod.splits)
  note r = r hp
  have ev: "users (core_db s3) = users (core_db s1)" "refresh_tokens s3 = update_where p (revoke now) (refresh_tokens s1)"
    using e by (auto simp: ins_user_event_Inr_iff)
  have m1: "session_move (sessions_of s) (sessions_of s1)" by (rule upd_users_edit [OF u]) (simp add: f_def)
  have "session_move (users (core_db s1), refresh_tokens s1) (users (core_db s1), update_where p (revoke now) (refresh_tokens s1))"
    by (rule revoked) (simp add: p_def)
  then have m2: "session_move (sessions_of s1) (sessions_of s3)" using ev by (simp add: sessions_of_def)
  have "f r \<in> set (users (core_db s3))" "usr_id (f r) = usr_id r" "usr_deleted (f r) = None"
    using find_user_in [OF r(1)] has_password_present [OF assms(2) _ r(2)] u ev(1)
    by (auto simp: upd_users_Inr_iff set_update_where f_def)
  then have "session_moves (sessions_of s3) (sessions_of (snd (issue_tokens c e now fr (to_public_user r []) s3)))"
    by (intro issue_tokens_move [of "f r"]) auto
  then show ?thesis using m1 m2 i by simp
qed

lemma add_debt_users: "add_debt h n d = Inr d' \<Longrightarrow> users d' = users d"
  by (auto simp: add_debt_def Let_def res_simps)

lemma forget_user_users [simp]: "users (forget_user u d) = users d"
  by (simp add: forget_user_def Let_def)

lemma delete_account_sessions:
  assumes "delete_account_tx now fr user category reason s = Inr (x, s')"
  shows "users (core_db s') = update_where (\<lambda>r. usr_id r = usr_id user) (erased now) (users (core_db s))"
    "refresh_tokens s' = filter (\<lambda>t. tok_user t \<noteq> usr_id user) (refresh_tokens s)"
  using assms
  by (auto simp: delete_account_tx_def Let_def res_simps add_debt_users split: option.splits if_splits)

lemma delete_account_tx_moves [session_intros]:
  "delete_account_tx now fr user category reason s = Inr (x, s') \<Longrightarrow> session_moves (sessions_of s) (sessions_of s')"
  by (auto simp: sessions_of_def delete_account_sessions intro: left)

lemma adult_identity_elim:
  assumes "adult_identity_tx now fr u h s = Inr (x, s')"
  obtains d debt where "adr_applied x = kept_debt h (core_db s)" "take_over_debt now (afr_ledger fr) u h (core_db s) = Inr d"
    "upd_users (\<lambda>r. usr_id r = u) (\<lambda>r. r\<lparr>usr_adult_verified := Some (js_date now), usr_adult_hash := Some h,
       usr_debt_hash := debt\<rparr>) (s\<lparr>core_db := d\<rparr>) = Inr s'"
proof -
  define n where "n = kept_debt h (core_db s)"
  define m where "m = max 0 (- get_paid_balance now u (core_db s)) + n"
  obtain d where d: "take_over_debt now (afr_ledger fr) u h (core_db s) = Inr d"
    and up: "upd_users (\<lambda>r. usr_id r = u) (\<lambda>r. r\<lparr>usr_adult_verified := Some (js_date now), usr_adult_hash := Some h,
       usr_debt_hash := (if 0 < m then Some h else None)\<rparr>) (s\<lparr>core_db := d\<rparr>) = Inr s'"
    and x: "x = \<lparr>adr_applied = n, adr_debt = m\<rparr>"
    using assms unfolding adult_identity_tx_def Let_def n_def [symmetric] m_def [symmetric]
    by (auto simp: bindR_Inr_iff)
  show ?thesis using d up x by (intro that [of d]) (simp_all add: n_def)
qed

lemma adult_identity_tx_moves [session_intros]:
  assumes "adult_identity_tx now fr u h s = Inr (x, s')"
  shows "session_moves (sessions_of s) (sessions_of s')"
proof -
  obtain d debt where e: "take_over_debt now (afr_ledger fr) u h (core_db s) = Inr d"
    and up: "upd_users (\<lambda>r. usr_id r = u) (\<lambda>r. r\<lparr>usr_adult_verified := Some (js_date now), usr_adult_hash := Some h,
       usr_debt_hash := debt\<rparr>) (s\<lparr>core_db := d\<rparr>) = Inr s'"
    by (rule adult_identity_elim [OF assms])
  have d: "users d = users (core_db s)" using e by (auto simp: take_over_debt_def res_simps split: if_splits)
  have "session_move (sessions_of (s\<lparr>core_db := d\<rparr>)) (sessions_of s')" by (rule upd_users_edit [OF up]) simp
  then show ?thesis using d by (simp add: sessions_of_def r_into_rtranclp)
qed

lemma set_profile_simps [simp]:
  "usr_id (set_profile name bio img r) = usr_id r" "usr_deleted (set_profile name bio img r) = usr_deleted r"
  "usr_email (set_profile name bio img r) = usr_email r"
  by (simp_all add: set_profile_def)

lemma update_current_user_moves [session_intros]:
  "session_moves (sessions_of s) (sessions_of (snd (update_current_user c e parse now authorization inp s)))"
proof (cases "fst (update_current_user c e parse now authorization inp s)")
  case (Inl err)
  then show ?thesis by (auto simp: update_current_user_def commit_def split: sum.splits prod.splits)
next
  case (Inr x)
  then obtain u name bio img where
    "upd_users (\<lambda>r. usr_id r = u) (set_profile name bio img) s = Inr (snd (update_current_user c e parse now authorization inp s))"
    by (auto simp: update_current_user_def commit_def bindR_Inr_iff split: sum.splits prod.splits)
  then have "session_move (sessions_of s) (sessions_of (snd (update_current_user c e parse now authorization inp s)))"
    by (rule upd_users_edit) simp
  then show ?thesis by (rule r_into_rtranclp)
qed

end
