(* ===== verification/Auth_Props.thy ===== *)
theory Auth_Props
  imports Sessions
begin

text \<open>
  What the account service promises on any interleaving of its requests: the step relation \<open>auth_step\<close> runs
  the transactions of \<open>Auth\<close> with whatever rows their requests read before, and everything else the backend
  does. Its runs are runs of the session machine, from which the single use of refresh tokens, the end of all
  sessions after a change of password and the finality of a withdrawal follow.
\<close>

section \<open>Requests in any order\<close>

inductive auth_step :: "crypto \<Rightarrow> auth_env \<Rightarrow> backend \<Rightarrow> backend \<Rightarrow> bool" for c e where
  registers: "auth_step c e s (snd (register c e now fr inp s))"
| logs_in: "login_tx c e now fr user s = Inr (x, s') \<Longrightarrow> auth_step c e s s'"
| logs_in_socially: "auth_step c e s (snd (social_login c e provs now fr pv inp s))"
| refreshes: "refresh_check c e t0 inp s0 = Inr found \<Longrightarrow> refresh_tx c e now fr found s = Inr (x, s') \<Longrightarrow> auth_step c e s s'"
| revokes: "auth_step c e s (snd (revoke_refresh_token c now v s))"
| changes_password: "change_password_tx c e now fr user password s = Inr (x, s') \<Longrightarrow> auth_step c e s s'"
| leaves: "delete_account_tx now fr user category reason s = Inr (x, s') \<Longrightarrow> auth_step c e s s'"
| verifies: "adult_identity_tx now fr u h s = Inr (x, s') \<Longrightarrow> auth_step c e s s'"
| edits: "auth_step c e s (snd (update_current_user c e parse now authorization inp s))"
| elsewhere: "sessions_of s' = sessions_of s \<Longrightarrow> auth_step c e s s'"

abbreviation auth_run :: "crypto \<Rightarrow> auth_env \<Rightarrow> backend \<Rightarrow> backend \<Rightarrow> bool" where
  "auth_run c e \<equiv> (auth_step c e)\<^sup>*\<^sup>*"

lemma refresh_check_elim:
  assumes "refresh_check c e now inp s = Inr (row, user)"
  obtains token where "required_string ''refreshToken'' (property ''refreshToken'' inp) = Inr token"
    "find_refresh_token c token s = Some (row, user)" "tok_revoked row = None" "row \<in> set (refresh_tokens s)"
    "tok_hash row = hash_token c token" "pbu_id user = tok_user row"
proof -
  obtain token where tok: "required_string ''refreshToken'' (property ''refreshToken'' inp) = Inr token"
    and f: "find_refresh_token c token s = Some (row, user)" and live: "tok_revoked row = None"
    using assms by (auto simp: refresh_check_def bindR_Inr_iff ensure_Inr_iff require_some_Inr_iff)
  then obtain r where "find (\<lambda>t. tok_hash t = hash_token c token \<and> has_user (core_db s) (tok_user t)) (refresh_tokens s) = Some row"
    "find_user (tok_user row) s = Some r" "user = to_public_user r (account_emails (usr_id r) s)"
    by (auto simp: find_refresh_token_def bind_eq_Some_conv)
  then have "row \<in> set (refresh_tokens s)" "tok_hash row = hash_token c token" "pbu_id user = tok_user row"
    by (auto dest!: find_in_set find_user_in)
  with tok f live show ?thesis by (rule that)
qed

lemma auth_run_moves:
  "auth_run c e s s' \<Longrightarrow> sessions_ok (sessions_of s) \<Longrightarrow>
     session_moves (sessions_of s) (sessions_of s') \<and> sessions_ok (sessions_of s')"
proof (induction rule: rtranclp_induct)
  case (step y z)
  have "session_moves (sessions_of y) (sessions_of z)"
    using step.hyps(2)
  proof (cases rule: auth_step.cases)
    case (refreshes t0 inp s0 found now fr x)
    obtain row user where f: "found = (row, user)" by (cases found)
    have "pbu_id (snd found) = tok_user (fst found)" using refreshes(1) unfolding f by (auto elim: refresh_check_elim)
    then show ?thesis using refreshes(2) step by (intro refresh_tx_moves) auto
  qed (use step in \<open>auto intro: session_intros\<close>)
  with step show ?case by (meson rtranclp_trans session_moves_ok)
qed simp

text \<open>On whatever state a request meets, each transaction of the account service is a sequence of moves of the
  session machine.\<close>

lemma step_moves:
  assumes "auth_step c e s s'" "sessions_ok (sessions_of s)"
  shows "session_moves (sessions_of s) (sessions_of s')"
  using auth_run_moves [OF r_into_rtranclp [of "auth_step c e", OF assms(1)] assms(2)] by blast

section \<open>Spent tokens\<close>

lemma run_spent:
  assumes "auth_run c e s s'" "sessions_ok (sessions_of s)" "spent h u (sessions_of s)"
    and "t \<in> set (refresh_tokens s')" "tok_hash t = h" "tok_user t = u"
  shows "tok_revoked t \<noteq> None"
  using auth_run_moves [OF assms(1,2)] session_moves_spent [OF _ assms(3,2)] spent_no_live [OF _ _ assms(4-6)]
  unfolding sessions_of_def by blast

lemma issue_tokens_effect:
  assumes "issue_tokens c e now fr user s = (Inr x, s')"
  shows "users (core_db s') = users (core_db s)" "ath_user x = user" "ath_refresh x = base64url (afr_refresh fr)"
    "\<exists>t. refresh_tokens s' = refresh_tokens s @ [t] \<and> tok_hash t = hash_token c (ath_refresh x) \<and>
       tok_user t = pbu_id user \<and> tok_revoked t = None"
  using assms by (auto simp: issue_tokens_def Let_def bindR_Inr_iff ins_token_Inr_iff split: sum.splits)

text \<open>What a successful refresh leaves: its token revoked, and a new one.\<close>

lemma refresh_elim:
  assumes "refresh c e now fr inp s = (Inr x, s')"
  obtains row user t where "refresh_check c e now inp s = Inr (row, user)" "refresh_tx c e now fr (row, user) s = Inr (x, s')"
    "t \<in> set (refresh_tokens s')" "tok_hash t = tok_hash row" "tok_user t = tok_user row" "tok_revoked t \<noteq> None"
proof -
  obtain row user where f: "refresh_check c e now inp s = Inr (row, user)" "refresh_tx c e now fr (row, user) s = Inr (x, s')"
    using assms by (auto simp: refresh_def commit_def split: sum.splits)
  from f(2) obtain ttl where one: "length (filter (usable_token now ttl row) (refresh_tokens s)) = 1"
    and i: "issue_tokens c e now fr user
        (s\<lparr>refresh_tokens := update_where (usable_token now ttl row) (revoke now) (refresh_tokens s)\<rparr>) = (Inr x, s')"
    by (auto simp: refresh_tx_def bindR_Inr_iff ensure_Inr_iff Let_def issue_tokens_tx_Inr)
  obtain t where "t \<in> set (filter (usable_token now ttl row) (refresh_tokens s))"
    using one by (cases "filter (usable_token now ttl row) (refresh_tokens s)") auto
  then have t: "t \<in> set (refresh_tokens s)" "usable_token now ttl row t" by auto
  then have "revoke now t \<in> set (refresh_tokens s')"
    using issue_tokens_effect(4) [OF i] by (auto simp: set_update_where)
  then show ?thesis using that f t(2) by (auto simp: usable_token_def)
qed

text \<open>A refresh token is good for one exchange: whatever requests follow, the same token is refused, unless its
  hash was issued again to somebody else.\<close>

lemma refresh_once_run:
  assumes "sessions_ok (sessions_of s)" "refresh c e now fr inp s = (Inr x, s1)" "auth_run c e s1 s2"
  shows "fst (refresh c e later fr' inp s2) = Inl (Unauthorized ''Refresh token is invalid'') \<or>
    (\<exists>t \<in> set (refresh_tokens s2). tok_hash t = hash_token c (trim (the (json_text (property ''refreshToken'' inp)))) \<and>
       tok_user t \<noteq> pbu_id (ath_user x))"
proof -
  obtain row user t where f: "refresh_check c e now inp s = Inr (row, user)" "refresh_tx c e now fr (row, user) s = Inr (x, s1)"
    and t: "t \<in> set (refresh_tokens s1)" "tok_hash t = tok_hash row" "tok_user t = tok_user row" "tok_revoked t \<noteq> None"
    using refresh_elim [OF assms(2)] .
  obtain token where tok: "required_string ''refreshToken'' (property ''refreshToken'' inp) = Inr token"
    "tok_hash row = hash_token c token" "pbu_id user = tok_user row"
    using refresh_check_elim [OF f(1)] by metis
  have same: "trim (the (json_text (property ''refreshToken'' inp))) = token"
    using tok(1) by (auto simp: required_string_Inr_iff trimmed_def split: option.splits if_splits)
  have x: "ath_user x = user"
    using f(2) issue_tokens_effect(2) by (auto simp: refresh_tx_def bindR_Inr_iff Let_def issue_tokens_tx_Inr)
  have "auth_step c e s s1" using f by (rule auth_step.refreshes)
  then have ok1: "sessions_ok (sessions_of s1)" using auth_run_moves assms(1) by blast
  have "spent (tok_hash row) (tok_user row) (sessions_of s1)" using t by (auto simp: sessions_of_def)
  note dead = run_spent [OF assms(3) ok1 this]
  show ?thesis
  proof (cases "find_refresh_token c token s2")
    case None
    then show ?thesis by (simp add: refresh_def refresh_check_def tok(1))
  next
    case (Some y)
    obtain q v where y: "y = (q, v)" by (cases y)
    have q: "q \<in> set (refresh_tokens s2)" "tok_hash q = hash_token c token"
      using Some y by (auto simp: find_refresh_token_def bind_eq_Some_conv dest: find_in_set)
    show ?thesis
    proof (cases "tok_user q = tok_user row")
      case True
      then obtain w where "tok_revoked q = Some w" using dead [OF q(1)] q(2) tok(2) by auto
      then show ?thesis using Some y by (simp add: refresh_def refresh_check_def tok(1))
    next
      case False
      then show ?thesis using q x tok(3) same by auto
    qed
  qed
qed

section \<open>Changing the password\<close>

lemma change_password_elim:
  assumes "change_password_tx c e now fr user password s = Inr (x, s')"
  obtains r s3 where "find_user (usr_id user) s = Some r" "issue_tokens c e now fr (to_public_user r []) s3 = (Inr x, s')"
    "users (core_db s3) = update_where (\<lambda>r. usr_id r = usr_id user) (\<lambda>r. r\<lparr>
       usr_password_hash := Some (hash_password c password (base64url (afr_salt fr))),
       usr_password_salt := Some (base64url (afr_salt fr))\<rparr>) (users (core_db s))"
    "refresh_tokens s3 = update_where (\<lambda>t. tok_user t = usr_id user \<and> tok_revoked t = None) (revoke now) (refresh_tokens s)"
proof -
  obtain r where r: "find_user (usr_id user) s = Some r"
    using assms(1) by (cases "find_user (usr_id user) s") (auto simp: change_password_tx_def Let_def)
  define f where "f = (\<lambda>r :: user_row. r\<lparr>usr_password_hash := Some (hash_password c password (base64url (afr_salt fr))),
     usr_password_salt := Some (base64url (afr_salt fr))\<rparr>)"
  define p where "p = (\<lambda>t :: token_row. tok_user t = usr_id user \<and> tok_revoked t = None)"
  obtain row s1 s3 where
    u: "upd_users (\<lambda>r. usr_id r = usr_id user) f s = Inr s1"
    and e: "ins_user_event row (s1\<lparr>refresh_tokens := update_where p (revoke now) (refresh_tokens s1)\<rparr>) = Inr ((), s3)"
    and i: "issue_tokens c e now fr (to_public_user r []) s3 = (Inr x, s')"
    using assms(1) r unfolding change_password_tx_def Let_def f_def p_def
    by (auto simp: bindR_Inr_iff ensure_Inr_iff issue_tokens_tx_Inr split: prod.splits)
  have "users (core_db s3) = update_where (\<lambda>r. usr_id r = usr_id user) f (users (core_db s))"
    "refresh_tokens s3 = update_where p (revoke now) (refresh_tokens s)"
    using u e by (auto simp: ins_user_event_Inr_iff upd_users_Inr_iff)
  with r i show ?thesis unfolding f_def p_def by (rule that)
qed

text \<open>A change of password ends every session of the user: none of the tokens of before is ever live again, and the
  only live token is the one handed out with the new password.\<close>

lemma password_change_run:
  assumes "sessions_ok (sessions_of s)" "change_password_tx c e now fr user password s = Inr (x, s1)" "auth_run c e s1 s2"
  shows "(\<forall>t \<in> set (refresh_tokens s). tok_user t = usr_id user \<longrightarrow>
      (\<forall>q \<in> set (refresh_tokens s2). tok_hash q = tok_hash t \<and> tok_user q = usr_id user \<longrightarrow> tok_revoked q \<noteq> None)) \<and>
    (\<forall>q \<in> set (refresh_tokens s1). tok_user q = usr_id user \<and> tok_revoked q = None \<longrightarrow>
      tok_hash q = hash_token c (ath_refresh x))"
proof -
  obtain r s3 where i: "issue_tokens c e now fr (to_public_user r []) s3 = (Inr x, s1)"
    and ts: "refresh_tokens s3 = update_where (\<lambda>t. tok_user t = usr_id user \<and> tok_revoked t = None) (revoke now) (refresh_tokens s)"
    using change_password_elim [OF assms(2)] .
  obtain new where new: "refresh_tokens s1 = refresh_tokens s3 @ [new]" "tok_hash new = hash_token c (ath_refresh x)"
    using issue_tokens_effect(4) [OF i] by blast
  have ok1: "sessions_ok (sessions_of s1)"
    using auth_run_moves [OF r_into_rtranclp [of "auth_step c e", OF changes_password [OF assms(2)]] assms(1)] by blast
  have dead: "tok_revoked q \<noteq> None"
    if "t \<in> set (refresh_tokens s)" "tok_user t = usr_id user" "q \<in> set (refresh_tokens s2)" "tok_hash q = tok_hash t"
      "tok_user q = usr_id user" for t q
  proof -
    define t' where "t' = (if tok_user t = usr_id user \<and> tok_revoked t = None then revoke now t else t)"
    have "t' \<in> set (refresh_tokens s1)" using that(1) by (auto simp: new ts set_update_where t'_def)
    moreover have "tok_hash t' = tok_hash t" "tok_user t' = usr_id user" "tok_revoked t' \<noteq> None"
      using that(2) by (auto simp: t'_def)
    ultimately have "spent (tok_hash t) (usr_id user) (sessions_of s1)" by (auto simp: sessions_of_def)
    from run_spent [OF assms(3) ok1 this that(3-5)] show ?thesis .
  qed
  moreover have "tok_hash q = hash_token c (ath_refresh x)"
    if "q \<in> set (refresh_tokens s1)" "tok_user q = usr_id user" "tok_revoked q = None" for q
    using that by (auto simp: new ts set_update_where)
  ultimately show ?thesis by blast
qed

section \<open>Withdrawal\<close>

lemma delete_account_elim:
  assumes "delete_account c e now fr authorization inp s = (Inr (), s')"
  obtains user category reason where "delete_account_check c e now authorization inp s = Inr (user, category, reason)"
    "delete_account_tx now fr user category reason s = Inr ((), s')" "user \<in> set (users (core_db s))"
proof -
  obtain user category reason where d: "delete_account_check c e now authorization inp s = Inr (user, category, reason)"
    "delete_account_tx now fr user category reason s = Inr ((), s')"
    using assms by (auto simp: delete_account_def commit_def split: sum.splits)
  moreover have "user \<in> set (users (core_db s))"
    using d(1) by (auto simp: delete_account_check_def bindR_Inr_iff require_some_Inr_iff split: option.splits dest: find_user_in)
  ultimately show ?thesis by (rule that)
qed

lemma gone_unauthorized:
  assumes "distinct (map usr_id (users (core_db s)))" "gone (users (core_db s)) u"
  shows "user_id_from_authorization c e now authorization s \<noteq> Inr u"
proof
  assume "user_id_from_authorization c e now authorization s = Inr u"
  then obtain sub v where v: "find_public_user_by_id sub s = Inr (Some v)" "u = uuid_cast sub"
    by (auto simp: user_id_from_authorization_def bindR_Inr_iff require_some_Inr_iff)
  then obtain r where "find_user u s = Some r" "usr_deleted r = None"
    by (auto simp: find_public_user_by_id_def split: if_splits option.splits)
  with not_gone [OF assms(1)] assms(2) show False by (auto dest!: find_user_in)
qed

lemma gone_email:
  assumes "sessions_ok (us, ts)" "gone us u"
  obtains r where "r \<in> set us" "usr_id r = u" "usr_email r = None" "usr_deleted r \<noteq> None"
  using assms by (auto simp: gone_def)

lemma forget_user_simps [simp]:
  "conversations (forget_user u d) = filter (\<lambda>r. cnv_user r \<noteq> u) (conversations d)"
  "notifications (forget_user u d) = filter (\<lambda>n. ntf_user n \<noteq> u) (notifications d)"
  "follows (forget_user u d) = filter (\<lambda>f. flw_user f \<noteq> u) (follows d)"
  by (simp_all add: forget_user_def Let_def)

lemma delete_account_forgets:
  assumes "delete_account_tx now fr user category reason s = Inr (x, s')"
  shows "\<exists>d. core_db s' = forget_user (usr_id user) d"
    "preferences s' = filter (\<lambda>p. prf_user p \<noteq> usr_id user) (preferences s)"
proof -
  obtain d1 s1 where up: "upd_users (\<lambda>r. usr_id r = usr_id user) (erased now) (s\<lparr>core_db := d1\<rparr>) = Inr s1"
    and s': "s' = s1\<lparr>core_db := forget_user (usr_id user) (core_db s1),
       refresh_tokens := filter (\<lambda>t. tok_user t \<noteq> usr_id user) (refresh_tokens s1),
       preferences := filter (\<lambda>p. prf_user p \<noteq> usr_id user) (preferences s1),
       withdrawals := withdrawals s1 @ [\<lparr>wdr_id = afr_withdrawal fr, wdr_user = usr_id user, wdr_category = category,
          wdr_text = reason, wdr_created = now\<rparr>]\<rparr>"
    using assms unfolding delete_account_tx_def Let_def bindR_Inr_iff by auto
  show "\<exists>d. core_db s' = forget_user (usr_id user) d" unfolding s' by auto
  show "preferences s' = filter (\<lambda>p. prf_user p \<noteq> usr_id user) (preferences s)"
    using up by (simp add: s' upd_users_Inr_iff)
qed

text \<open>A withdrawal is final. It leaves no conversation, notification, follow or preference of the user, and
  whatever follows, the user has no session, no email address and no access token that is accepted.\<close>

lemma withdrawal_run:
  assumes "sessions_ok (sessions_of s)" "delete_account c e now fr authorization inp s = (Inr (), s1)"
    and "delete_account_check c e now authorization inp s = Inr (user, category, reason)" "auth_run c e s1 s2"
  shows "(\<forall>r \<in> set (conversations (core_db s1)). cnv_user r \<noteq> usr_id user) \<and>
    (\<forall>n \<in> set (notifications (core_db s1)). ntf_user n \<noteq> usr_id user) \<and>
    (\<forall>f \<in> set (follows (core_db s1)). flw_user f \<noteq> usr_id user) \<and>
    (\<forall>p \<in> set (preferences s1). prf_user p \<noteq> usr_id user) \<and>
    (\<forall>t \<in> set (refresh_tokens s2). tok_user t \<noteq> usr_id user) \<and>
    (\<exists>r \<in> set (users (core_db s2)). usr_id r = usr_id user \<and> usr_email r = None \<and> usr_deleted r \<noteq> None) \<and>
    (\<forall>later any. user_id_from_authorization c e later any s2 \<noteq> Inr (usr_id user))"
proof -
  have tx: "delete_account_tx now fr user category reason s = Inr ((), s1)" and mem: "user \<in> set (users (core_db s))"
    using delete_account_elim [OF assms(2)] assms(3) by (metis Pair_inject sum.inject(2))+
  have g1: "gone (users (core_db s1)) (usr_id user)" using mem by (simp add: delete_account_sessions [OF tx] gone_erased)
  have ok1: "sessions_ok (sessions_of s1)"
    using auth_run_moves [OF r_into_rtranclp [of "auth_step c e", OF leaves [OF tx]] assms(1)] by blast
  note run = auth_run_moves [OF assms(4) ok1]
  have ok2: "sessions_ok (users (core_db s2), refresh_tokens s2)" using run by (simp add: sessions_of_def)
  have g2: "gone (users (core_db s2)) (usr_id user)"
    using session_moves_gone [OF conjunct1 [OF run]] g1 by (simp add: sessions_of_def)
  obtain d where d: "core_db s1 = forget_user (usr_id user) d" using delete_account_forgets(1) [OF tx] by blast
  have "\<forall>t \<in> set (refresh_tokens s2). tok_user t \<noteq> usr_id user" using ok2 g2 by auto
  moreover have "user_id_from_authorization c e later any s2 \<noteq> Inr (usr_id user)" for later any
    using ok2 g2 by (intro gone_unauthorized) simp_all
  moreover have "\<exists>r \<in> set (users (core_db s2)). usr_id r = usr_id user \<and> usr_email r = None \<and> usr_deleted r \<noteq> None"
    by (rule gone_email [OF ok2 g2]) blast
  ultimately show ?thesis using delete_account_forgets(2) [OF tx] by (simp add: d)
qed

end
