(* ===== verification/Auth_Debts.thy ===== *)
theory Auth_Debts
  imports Auth_Props Credits_Accounts
begin

text \<open>
  The debt that a withdrawal leaves behind: it is kept under the hash of the verified identity and taken over,
  once, by the account that verifies the same identity. Transfers are told apart by a unique ledger reference
  that only names the identity, so an identity can take over a debt once and never again.
\<close>

section \<open>An adjustment moves the paid balance\<close>

lemma adjustment_entry:
  assumes ok: "ledger_ok d" and t: "led_type row = Adjustment" "led_kind row = Some Paid" and new: "led_id row \<notin> led_id ` set (ledger d)"
  shows "get_paid_balance now u (d\<lparr>ledger := ledger d @ [row]\<rparr>) =
    get_paid_balance now u d + (if led_user row = u then led_amount row else 0)"
proof -
  let ?d = "d\<lparr>ledger := ledger d @ [row]\<rparr>"
  have "list_ex (\<lambda>l. led_id l = use_grant x \<and> led_user l = u) (ledger d @ [row]) =
      list_ex (\<lambda>l. led_id l = use_grant x \<and> led_user l = u) (ledger d)" if "x \<in> set (usages d)" for x
  proof -
    have "use_grant x \<in> led_id ` set (ledger d)" using ledger_okD(3) [OF ok that] unfolding usage_ok_def by force
    then have "led_id row \<noteq> use_grant x" using new by metis
    then show ?thesis by simp
  qed
  then have "usage_sums u ?d = usage_sums u d" by (simp add: usage_sums_def cong: filter_cong)
  then have "grant_state now u True ?d = grant_state now u True d"
    using t by (simp add: grant_state_def grant_rows_def recovery_sums_def lock_sums_def)
  moreover have "adjustment_sum u Paid ?d = adjustment_sum u Paid d + (if led_user row = u then led_amount row else 0)"
    using t by (simp add: adjustment_sum_def)
  ultimately show ?thesis by (simp add: get_paid_balance_def balance_breakdown_def Let_def case_prod_beta)
qed

definition debt_of :: "string \<Rightarrow> backend \<Rightarrow> int" where
  "debt_of h s = sum_where (\<lambda>r. ud_hash r = h) ud_debt (debts (core_db s))"

lemma sum_single_key:
  "distinct (map k rs) \<Longrightarrow> sum_where (\<lambda>r. k r = x) v rs = (case find (\<lambda>r. k r = x) rs of Some r \<Rightarrow> v r | None \<Rightarrow> 0)"
proof (induction rs)
  case (Cons a rs)
  then have "find (\<lambda>r. k r = k a) rs = None" unfolding find_None_iff by (metis distinct.simps(2) image_eqI list.set_map list.simps(9))
  with Cons show ?case by (cases "k a = x") auto
qed simp

lemma sum_update_key:
  "distinct (map ud_hash rs) \<Longrightarrow>
   sum_where (\<lambda>r. ud_hash r = h) ud_debt (update_where (\<lambda>r. ud_hash r = g) (\<lambda>r. r\<lparr>ud_debt := ud_debt r + n\<rparr>) rs) =
     sum_where (\<lambda>r. ud_hash r = h) ud_debt rs + (if h = g \<and> g \<in> ud_hash ` set rs then n else 0)"
  by (induction rs) (auto simp: image_iff)

lemma add_debt_sum:
  assumes "add_debt g n d = Inr d'" "distinct (map ud_hash (debts d))"
  shows "sum_where (\<lambda>r. ud_hash r = h) ud_debt (debts d') =
      sum_where (\<lambda>r. ud_hash r = h) ud_debt (debts d) + (if h = g then n else 0)"
  using assms sum_update_key [OF assms(2), of h g n]
  by (auto simp: add_debt_def Let_def res_simps split: if_splits)

section \<open>Withdrawing in debt\<close>

text \<open>A withdrawal needs every payment settled; a debt the user leaves behind is added, in full, to the debt of the
  verified identity, and no other identity's debt changes.\<close>

theorem withdrawal_debt:
  assumes "delete_account_tx now fr user category reason s = Inr ((), s')" "distinct (map ud_hash (debts (core_db s)))"
  shows "get_paid_balance now (usr_id user) (core_db s) \<le> 0 \<and>
    (\<forall>f \<in> set (refunds (core_db s)). locking_refund f \<longrightarrow>
       (\<forall>p \<in> set (purchases (core_db s)). pur_id p = rf_purchase f \<longrightarrow> pur_user p \<noteq> usr_id user)) \<and>
    debt_of h s' = debt_of h s +
      (if identity_hash_of user = Some h \<and> h \<noteq> [] then - get_paid_balance now (usr_id user) (core_db s) else 0)"
proof -
  let ?u = "usr_id user" and ?d = "core_db s"
  let ?debt = "max 0 (- get_paid_balance now ?u ?d)"
  obtain d1 s1 where settled: "\<not> 0 < get_paid_balance now ?u ?d" "\<not> 0 < open_refunds ?u ?d"
    and d1: "(case identity_hash_of user of
               Some h \<Rightarrow> if 0 < ?debt \<and> h \<noteq> [] then add_debt h ?debt ?d else Inr ?d
             | None \<Rightarrow> Inr ?d) = Inr d1"
    and s1: "upd_users (\<lambda>r. usr_id r = ?u) (erased now) (s\<lparr>core_db := d1\<rparr>) = Inr s1"
    and s': "core_db s' = forget_user ?u (core_db s1)"
    using assms(1) unfolding delete_account_tx_def Let_def by (auto simp: bindR_Inr_iff ensure_Inr_iff)
  have "debts (core_db s') = debts d1" using s1 by (simp add: s' upd_users_Inr_iff forget_user_def Let_def)
  then have "debt_of h s' = debt_of h s + (if identity_hash_of user = Some h \<and> h \<noteq> [] then ?debt else 0)"
    using d1 add_debt_sum [OF _ assms(2), of _ ?debt d1 h] settled(1)
    by (auto simp: debt_of_def split: option.splits if_splits)
  moreover have "pur_user p \<noteq> ?u" if "f \<in> set (refunds ?d)" "locking_refund f" "p \<in> set (purchases ?d)" "pur_id p = rf_purchase f" for f p
    using settled(2) that by (auto simp: open_refunds_def filter_empty_conv list_ex_iff)
  ultimately show ?thesis using settled(1) by auto
qed

section \<open>Taking a debt over\<close>

lemma kept_debt_sum: "distinct (map ud_hash (debts (core_db s))) \<Longrightarrow> kept_debt h (core_db s) = debt_of h s"
  unfolding debt_of_def kept_debt_def by (rule sum_single_key [symmetric])

lemma users_balance [simp]: "get_paid_balance now u (d\<lparr>users := us\<rparr>) = get_paid_balance now u d"
  unfolding get_paid_balance_def by (rule balance_cong) simp_all

lemma debts_balance [simp]: "get_paid_balance now u (d\<lparr>debts := ds\<rparr>) = get_paid_balance now u d"
  unfolding get_paid_balance_def by (rule balance_cong) simp_all

text \<open>C26: Verifying an adult identity moves the whole debt kept for it onto the account: the paid balance falls by that
  debt, nobody else's balance changes, nothing is left under the identity and no other identity's debt moves.\<close>

theorem identity_debt_moves:
  assumes "ledger_ok (core_db s)" "distinct (map ud_hash (debts (core_db s)))" "\<forall>r \<in> set (debts (core_db s)). 0 < ud_debt r"
    and "adult_identity_tx now fr u h s = Inr (x, s')"
  shows "adr_applied x = debt_of h s \<and> debt_of h s' = 0 \<and> (\<forall>g. g \<noteq> h \<longrightarrow> debt_of g s' = debt_of g s) \<and>
    get_paid_balance later v (core_db s') = get_paid_balance later v (core_db s) - (if v = u then debt_of h s else 0)"
proof -
  let ?d = "core_db s"
  obtain d debt where x: "adr_applied x = kept_debt h ?d" and d: "take_over_debt now (afr_ledger fr) u h ?d = Inr d"
    and up: "upd_users (\<lambda>r. usr_id r = u) (\<lambda>r. r\<lparr>usr_adult_verified := Some (js_date now), usr_adult_hash := Some h,
       usr_debt_hash := debt\<rparr>) (s\<lparr>core_db := d\<rparr>) = Inr s'"
    by (rule adult_identity_elim [OF assms(4)])
  have n: "kept_debt h ?d = debt_of h s" by (rule kept_debt_sum [OF assms(2)])
  obtain us where s': "core_db s' = d\<lparr>users := us\<rparr>" using up by (simp add: upd_users_Inr_iff)
  have db: "debts (core_db s') = debts d" "get_paid_balance later v (core_db s') = get_paid_balance later v d"
    unfolding s' by simp_all
  show ?thesis
  proof (cases "0 < debt_of h s")
    case True
    let ?row = "debt_entry now (afr_ledger fr) u h (debt_of h s)"
    have ins: "led_id ?row \<notin> led_id ` set (ledger ?d)"
      and dd: "d = ?d\<lparr>ledger := ledger ?d @ [?row], debts := filter (\<lambda>r. ud_hash r \<noteq> h) (debts ?d)\<rparr>"
      using d True by (auto simp: take_over_debt_def n res_simps)
    have "get_paid_balance later v d = get_paid_balance later v (?d\<lparr>ledger := ledger ?d @ [?row]\<rparr>)" by (simp add: dd)
    also have "\<dots> = get_paid_balance later v ?d - (if v = u then debt_of h s else 0)"
      using adjustment_entry [OF assms(1) _ _ ins, of later v] by (simp add: debt_entry_def)
    finally have "get_paid_balance later v d = get_paid_balance later v ?d - (if v = u then debt_of h s else 0)" .
    moreover have "debt_of h s' = 0" by (simp add: debt_of_def db dd sum_where_False)
    moreover have "debt_of g s' = debt_of g s" if "g \<noteq> h" for g
      using that by (auto simp: debt_of_def db dd intro!: sum_where_cong)
    ultimately show ?thesis using x n db(2) by simp
  next
    case False
    then have d': "d = ?d" using d by (simp add: take_over_debt_def n)
    have "0 \<le> debt_of h s" unfolding debt_of_def using assms(3) by (intro sum_where_nonneg) force
    then have z: "debt_of h s = 0" using False by simp
    then show ?thesis using x n by (auto simp: debt_of_def db d')
  qed
qed

text \<open>An identity takes over a debt only once. After a first transfer every verification that finds a debt again
  fails, since the ledger reference of a transfer names only the identity and is unique.\<close>

theorem identity_debt_once:
  assumes "r \<in> set (ledger (core_db s))" "led_ref r = Some (''identity_debt:'' @ h)"
    and "distinct (map ud_hash (debts (core_db s)))" "0 < debt_of h s"
  shows "\<exists>err. adult_identity_tx now fr u h s = Inl err"
proof (rule ccontr)
  assume "\<nexists>err. adult_identity_tx now fr u h s = Inl err"
  then obtain x s' where run: "adult_identity_tx now fr u h s = Inr (x, s')" by (cases "adult_identity_tx now fr u h s") auto
  obtain d where d: "take_over_debt now (afr_ledger fr) u h (core_db s) = Inr d"
    by (rule adult_identity_elim [OF run])
  have "Some (''identity_debt:'' @ h) \<notin> set (map led_ref (ledger (core_db s)))"
    using d assms(4) by (auto simp: take_over_debt_def kept_debt_sum [OF assms(3)] res_simps debt_entry_def)
  then show False using assms(1,2) by (metis image_eqI set_map)
qed

section \<open>Accounts without a password\<close>

text \<open>An account without an email address, as a social login makes it, cannot be closed: every request to delete it
  fails and changes nothing.\<close>

theorem social_cannot_leave:
  assumes "user_id_from_authorization c e now authorization s = Inr u" "find_user u s = Some r" "usr_email r = None"
  shows "\<exists>err. delete_account c e now fr authorization inp s = (Inl err, s)"
proof (cases "delete_account_check c e now authorization inp s")
  case (Inr y)
  then have "\<exists>q. find_user u s = Some q \<and> truthy (usr_email q)"
    unfolding delete_account_check_def assms(1) bindR_simps
    by (cases "json_text (property ''password'' inp)") (auto simp: bindR_Inr_iff require_some_Inr_iff ensure_Inr_iff)
  then show ?thesis using assms(2,3) by simp
qed (simp add: delete_account_def)

end
