(* ===== verification/Auth_Demo.thy ===== *)
theory Auth_Demo
  imports Auth_Debts
begin

text \<open>
  A small state on which the properties of the accounts apply: a user with a password and one session, a user who came
  by a social login, and a debt kept for a withdrawn identity. The functions of the cryptographic library are those of
  \<open>demo_crypto\<close>.
\<close>

definition demo_user :: user_row where
  "demo_user = \<lparr>usr_id = demo_uuid, usr_email = Some ''a@b.kr'',
     usr_password_hash = Some (hash_password demo_crypto ''long-password'' ''salt''), usr_password_salt = Some ''salt'',
     usr_display_name = ''a'', usr_bio = '''', usr_image_url = None, usr_created = 0, usr_deleted = None,
     usr_adult_verified = None, usr_adult_hash = Some ''hash'', usr_debt_hash = None\<rparr>"

definition demo_social_uuid :: uid where
  "demo_social_uuid = ''0192f0a0-2222-7abc-8def-0123456789ab''"

definition demo_social :: user_row where
  "demo_social = demo_user\<lparr>usr_id := demo_social_uuid, usr_email := None, usr_password_hash := None,
     usr_password_salt := None, usr_adult_hash := None\<rparr>"

definition demo_session :: token_row where
  "demo_session = \<lparr>tok_id = ''t1'', tok_user = demo_uuid, tok_hash = hash_token demo_crypto ''token'', tok_revoked = None,
     tok_created = 0\<rparr>"

definition demo_state :: backend where
  "demo_state = empty_backend\<lparr>
     core_db := empty_db\<lparr>users := [demo_user, demo_social],
       debts := [\<lparr>ud_hash = ''other'', ud_debt = 40\<rparr>]\<rparr>,
     refresh_tokens := [demo_session]\<rparr>"

definition demo_fresh :: auth_fresh where
  "demo_fresh = \<lparr>afr_user = ''u9'', afr_account = ''a9'', afr_token = ''t9'', afr_ledger = ''l9'', afr_event = ''e9'',
     afr_withdrawal = ''w9'', afr_consents = (\<lambda>i. ''c''), afr_salt = ''pepper'', afr_refresh = ''fresh bytes'', afr_name = ''n''\<rparr>"

definition demo_token :: "uid \<Rightarrow> string" where
  "demo_token u = projr (issue_access_token demo_crypto demo_auth_env 0 u)"

definition demo_authorization :: "uid \<Rightarrow> string option" where
  "demo_authorization u = Some (''Bearer '' @ demo_token u)"

lemma demo_verified:
  assumes "is_uuid u"
  shows "verify_access_token demo_crypto demo_auth_env 5000 (demo_token u) = Inr u"
proof -
  have "issue_access_token demo_crypto demo_auth_env 0 u = Inr (demo_token u)"
    by (simp add: demo_token_def issue_access_token_def sign_jwt_def jwt_secret_def demo_auth_env_def trimmed_def trim_def
        js_space_def Let_def)
  from verify_issued [OF this assms] show ?thesis by (simp add: unix_seconds_def)
qed

lemma demo_authorized:
  "user_id_from_authorization demo_crypto demo_auth_env 5000 (demo_authorization demo_uuid) demo_state = Inr demo_uuid"
proof -
  have "bearer_token (demo_authorization demo_uuid) = Inr (demo_token demo_uuid)" by code_simp
  moreover have "find_public_user_by_id demo_uuid demo_state = Inr (Some (to_public_user demo_user []))" by code_simp
  moreover have "is_uuid demo_uuid" "uuid_cast demo_uuid = demo_uuid" by code_simp+
  ultimately show ?thesis by (simp add: user_id_from_authorization_def demo_verified)
qed

lemma demo_authorized_social:
  "user_id_from_authorization demo_crypto demo_auth_env 5000 (demo_authorization demo_social_uuid) demo_state = Inr demo_social_uuid"
proof -
  have "bearer_token (demo_authorization demo_social_uuid) = Inr (demo_token demo_social_uuid)" by code_simp
  moreover have "find_public_user_by_id demo_social_uuid demo_state = Inr (Some (to_public_user demo_social []))" by code_simp
  moreover have "is_uuid demo_social_uuid" "uuid_cast demo_social_uuid = demo_social_uuid" by code_simp+
  ultimately show ?thesis by (auto simp: user_id_from_authorization_def demo_verified)
qed

lemma demo_sessions_ok: "sessions_ok (sessions_of demo_state)"
  by code_simp

section \<open>Sessions\<close>

definition demo_refresh :: "json option" where
  "demo_refresh = Some (J_Object [(''refreshToken'', J_String ''token'')])"

definition demo_refreshed :: "auth_tokens res \<times> backend" where
  "demo_refreshed = refresh demo_crypto demo_auth_env 5000 demo_fresh demo_refresh demo_state"

definition demo_changed :: "(auth_tokens \<times> backend) res" where
  "demo_changed = change_password_tx demo_crypto demo_auth_env 5000 demo_fresh demo_user ''new-password'' demo_state"

section \<open>Withdrawal\<close>

definition demo_leave :: "json option" where
  "demo_leave = Some (J_Object [(''password'', J_String ''long-password'')])"

definition demo_left :: "(unit \<times> backend) res" where
  "demo_left = delete_account_tx 5000 demo_fresh demo_user None None demo_state"

lemma demo_leaves:
  "delete_account_check demo_crypto demo_auth_env 5000 (demo_authorization demo_uuid) demo_leave demo_state =
     Inr (demo_user, None, None)"
  "delete_account_tx 5000 demo_fresh demo_user None None demo_state = Inr ((), after demo_left)"
proof -
  have "json_text (property ''password'' demo_leave) = Some ''long-password''"
    "optional_withdrawal_reason (property ''reasonCategory'' demo_leave) = Inr None"
    "optional_reason_text (property ''reasonText'' demo_leave) = Inr None"
    "find_user demo_uuid demo_state = Some demo_user" "truthy (usr_email demo_user)"
    "password_matches demo_crypto ''long-password'' demo_user"
    by code_simp+
  then show "delete_account_check demo_crypto demo_auth_env 5000 (demo_authorization demo_uuid) demo_leave demo_state =
     Inr (demo_user, None, None)"
    by (simp add: delete_account_check_def demo_authorized)
  have "\<not> isl demo_left" by code_simp
  then show "delete_account_tx 5000 demo_fresh demo_user None None demo_state = Inr ((), after demo_left)"
    using run_ok [of demo_left] by (simp add: demo_left_def)
qed

theorem withdrawal_debt_witness:
  "get_paid_balance 5000 demo_uuid (core_db demo_state) \<le> 0 \<and>
    debt_of ''hash'' (after demo_left) = debt_of ''hash'' demo_state - get_paid_balance 5000 demo_uuid (core_db demo_state)"
proof -
  have "distinct (map ud_hash (debts (core_db demo_state)))" by code_simp
  from withdrawal_debt [OF demo_leaves(2) this, of "''hash''"] show ?thesis by (simp add: demo_user_def identity_hash_of_def)
qed

theorem social_cannot_leave_witness:
  "\<exists>err. delete_account demo_crypto demo_auth_env 5000 demo_fresh (demo_authorization demo_social_uuid) demo_leave demo_state =
     (Inl err, demo_state)"
proof (rule social_cannot_leave [OF demo_authorized_social])
  show "find_user demo_social_uuid demo_state = Some demo_social" by code_simp
  show "usr_email demo_social = None" by code_simp
qed

section \<open>Debts\<close>

definition demo_linked :: "(adult_result \<times> backend) res" where
  "demo_linked = adult_identity_tx 5000 demo_fresh demo_social_uuid ''other'' demo_state"

theorem identity_debt_moves_witness:
  "adr_applied (out demo_linked) = debt_of ''other'' demo_state \<and> debt_of ''other'' (after demo_linked) = 0 \<and>
    debt_of ''hash'' (after demo_linked) = debt_of ''hash'' demo_state \<and>
    get_paid_balance 6000 demo_social_uuid (core_db (after demo_linked)) =
      get_paid_balance 6000 demo_social_uuid (core_db demo_state) - debt_of ''other'' demo_state"
proof -
  have ok: "ledger_ok (core_db demo_state)" by code_simp
  have debts: "distinct (map ud_hash (debts (core_db demo_state)))" "\<forall>r \<in> set (debts (core_db demo_state)). 0 < ud_debt r"
    by code_simp+
  have "\<not> isl demo_linked" by code_simp
  then have run: "adult_identity_tx 5000 demo_fresh demo_social_uuid ''other'' demo_state = Inr (out demo_linked, after demo_linked)"
    using run_ok [of demo_linked] by (simp add: demo_linked_def)
  show ?thesis using identity_debt_moves [OF ok debts run, of 6000 demo_social_uuid] by simp
qed

definition demo_in_debt_again :: backend where
  "demo_in_debt_again = (after demo_linked)\<lparr>core_db := (core_db (after demo_linked))\<lparr>debts := debts (core_db demo_state)\<rparr>\<rparr>"

theorem identity_debt_once_witness:
  "\<exists>err. adult_identity_tx 9000 demo_fresh demo_social_uuid ''other'' demo_in_debt_again = Inl err"
proof (rule identity_debt_once)
  show "last (ledger (core_db demo_in_debt_again)) \<in> set (ledger (core_db demo_in_debt_again))" by code_simp
  show "led_ref (last (ledger (core_db demo_in_debt_again))) = Some (''identity_debt:'' @ ''other'')" by code_simp
  show "distinct (map ud_hash (debts (core_db demo_in_debt_again)))" by code_simp
  show "0 < debt_of ''other'' demo_in_debt_again" by code_simp
qed

end
