(* ===== verification/Social.thy ===== *)
theory Social
  imports Backend Js_Number
begin

text \<open>
  The social activity of the characters: \<open>src/character-social/\<close> with the repositories it calls in
  \<open>src/characters/\<close> and \<open>src/posts/\<close>. A due policy schedules a job; a worker claims a job with a lease and runs it in
  one transaction: the character looks at new posts on its interests, likes some of them and follows the authors it liked
  often enough, each within a daily limit. The time zones of the database are the parameter \<open>zones\<close>.
\<close>

section \<open>Options\<close>

record social_options =
  so_enabled :: bool
  so_poll :: int
  so_batch :: int
  so_attempts :: int
  so_lease :: int
  so_backoff :: int
  so_posts :: int
  so_threshold :: int

definition positive :: "string option \<Rightarrow> int \<Rightarrow> int" where
  "positive v fallback =
     (case v of
        None \<Rightarrow> fallback
      | Some t \<Rightarrow> (case to_number t of Js_Int n \<Rightarrow> if 0 < n \<and> n < 2 ^ 53 then n else fallback | Js_Other \<Rightarrow> fallback))"

definition timer_delay :: "string option \<Rightarrow> int \<Rightarrow> int" where
  "timer_delay v fallback = min 2147483647 (positive v fallback)"

definition character_social_worker_options :: "(string \<Rightarrow> string option) \<Rightarrow> social_options" where
  "character_social_worker_options e =
     \<lparr>so_enabled = (e ''CHARACTER_SOCIAL_WORKER_ENABLED'' = Some ''true''),
      so_poll = timer_delay (e ''CHARACTER_SOCIAL_POLL_INTERVAL_MS'') 5000,
      so_batch = positive (e ''CHARACTER_SOCIAL_BATCH_SIZE'') 20,
      so_attempts = positive (e ''CHARACTER_SOCIAL_MAX_ATTEMPTS'') 3,
      so_lease = positive (e ''CHARACTER_SOCIAL_LEASE_MS'') 60000,
      so_backoff = positive (e ''CHARACTER_SOCIAL_RETRY_BACKOFF_MS'') 5000,
      so_posts = positive (e ''CHARACTER_SOCIAL_POSTS_PER_RUN'') 5,
      so_threshold = positive (e ''CHARACTER_SOCIAL_MIN_LIKED_POSTS_TO_FOLLOW'') 3\<rparr>"

section \<open>Inserting what is new\<close>

text \<open>\<open>INSERT ... VALUES ... ON CONFLICT DO NOTHING\<close>: the rows that clash with no row of the table and with no row
  inserted before them.\<close>

fun insertable :: "('r \<Rightarrow> 'r \<Rightarrow> bool) \<Rightarrow> 'r list \<Rightarrow> 'r list \<Rightarrow> 'r list" where
  "insertable clash rows [] = []"
| "insertable clash rows (x # xs) =
     (if list_ex (clash x) rows then insertable clash rows xs else x # insertable clash (rows @ [x]) xs)"

definition has_chr :: "uid \<Rightarrow> backend \<Rightarrow> bool" where
  "has_chr c s \<longleftrightarrow> c \<in> chr_id ` set (characters (core_db s))"

definition has_post :: "uid \<Rightarrow> backend \<Rightarrow> bool" where
  "has_post p s \<longleftrightarrow> p \<in> pst_id ` set (posts (core_db s))"

section \<open>Characters\<close>

record zones =
  zn_valid :: "string \<Rightarrow> bool"
  zn_local :: "string \<Rightarrow> time \<Rightarrow> string"
  zn_day_start :: "string \<Rightarrow> time \<Rightarrow> time"
  zn_day_end :: "string \<Rightarrow> time \<Rightarrow> time"

record activity_context =
  ctx_status :: character_status
  ctx_zone :: "string option"
  ctx_valid :: bool
  ctx_local :: "string option"
  ctx_start :: "time option"
  ctx_end :: "time option"
  ctx_interests :: "string list"

definition find_activity_context :: "zones \<Rightarrow> uid \<Rightarrow> time \<Rightarrow> backend \<Rightarrow> activity_context option" where
  "find_activity_context z c now s =
     map_option (\<lambda>r.
       let zone = (case chr_timezone r of Some t \<Rightarrow> if zn_valid z t then Some t else None | None \<Rightarrow> None)
       in \<lparr>ctx_status = chr_status r,
           ctx_zone = (if truthy (chr_timezone r) then chr_timezone r else None),
           ctx_valid = (zone \<noteq> None),
           ctx_local = map_option (\<lambda>t. zn_local z t now) zone,
           ctx_start = map_option (\<lambda>t. js_date (zn_day_start z t now)) zone,
           ctx_end = map_option (\<lambda>t. js_date (zn_day_end z t now)) zone,
           ctx_interests = (case chr_interests r of Some xs \<Rightarrow> xs | None \<Rightarrow> [])\<rparr>)
       (find (\<lambda>r. chr_id r = c) (characters (core_db s)))"

definition find_active_ids :: "uid list \<Rightarrow> backend \<Rightarrow> uid list" where
  "find_active_ids ids s =
     map chr_id (filter (\<lambda>r. chr_id r \<in> set ids \<and> chr_status r = Active) (characters (core_db s)))"

text \<open>A transaction of one character inside another is only allowed for the same character; the outer one is the
  transaction of both.\<close>

definition with_activity_transaction :: "uid option \<Rightarrow> uid \<Rightarrow> (backend \<Rightarrow> ('a \<times> backend) res) \<Rightarrow> backend \<Rightarrow> ('a \<times> backend) res" where
  "with_activity_transaction outer c work s =
     bindR (ensure (case outer of Some a \<Rightarrow> a = c | None \<Rightarrow> True)
              (Plain_Error ''nested character activity transactions must use the same character'')) (\<lambda>_. work s)"

section \<open>Policies\<close>

definition find_due_character_ids :: "time \<Rightarrow> int \<Rightarrow> backend \<Rightarrow> uid list" where
  "find_due_character_ids now cap s =
     map pol_character (sql_limit cap (sort_key (\<lambda>p. (nulls_last (pol_next p), pol_character p))
       (filter (\<lambda>p. pol_enabled p \<and> (case pol_next p of Some t \<Rightarrow> t \<le> now | None \<Rightarrow> False)) (policies s))))"

definition lock_due :: "uid \<Rightarrow> time \<Rightarrow> backend \<Rightarrow> policy_row option" where
  "lock_due c now s =
     find (\<lambda>p. pol_character p = c \<and> pol_enabled p \<and> (case pol_next p of Some t \<Rightarrow> t \<le> now | None \<Rightarrow> False)) (policies s)"

definition find_for_execution :: "uid \<Rightarrow> backend \<Rightarrow> policy_row option" where
  "find_for_execution c s = find (\<lambda>p. pol_character p = c) (policies s)"

definition advance :: "uid \<Rightarrow> time \<Rightarrow> int \<Rightarrow> backend \<Rightarrow> backend" where
  "advance c now minutes s = s\<lparr>policies :=
     update_where (\<lambda>p. pol_character p = c) (\<lambda>p. p\<lparr>pol_next := Some (now + ms (minutes * 60000))\<rparr>) (policies s)\<rparr>"

definition is_in_window :: "string option \<Rightarrow> string \<Rightarrow> string \<Rightarrow> bool" where
  "is_in_window local from until \<longleftrightarrow>
     (case local of
        None \<Rightarrow> False
      | Some t \<Rightarrow> if t = [] then False
                  else if from < until then from \<le> t \<and> t < until else from \<le> t \<or> t < until)"

definition can_act :: "policy_row option \<Rightarrow> activity_context option \<Rightarrow> bool" where
  "can_act policy ctx \<longleftrightarrow>
     (case (policy, ctx) of
        (Some p, Some x) \<Rightarrow> pol_enabled p \<and> ctx_status x = Active \<and> ctx_zone x \<noteq> None \<and> ctx_valid x \<and>
          ctx_start x \<noteq> None \<and> ctx_end x \<noteq> None \<and> is_in_window (ctx_local x) (pol_start p) (pol_end p)
      | _ \<Rightarrow> False)"

record allowances =
  alw_views :: int
  alw_likes :: int
  alw_follows :: int

definition remaining_allowances :: "policy_row \<Rightarrow> allowances \<Rightarrow> int \<Rightarrow> allowances" where
  "remaining_allowances p used posts_per_run =
     \<lparr>alw_views = min posts_per_run (max 0 (pol_views p - alw_views used)),
      alw_likes = max 0 (pol_likes p - alw_likes used),
      alw_follows = max 0 (pol_follows p - alw_follows used)\<rparr>"

section \<open>Posts and views\<close>

definition normal_interest :: "string \<Rightarrow> string" where
  "normal_interest v = to_lower (case trim v of CHR ''#'' # rest \<Rightarrow> rest | t \<Rightarrow> t)"

definition btrim :: "string \<Rightarrow> string" where
  "btrim v = rev (dropWhile (\<lambda>c. c = CHR '' '') (rev (dropWhile (\<lambda>c. c = CHR '' '') v)))"

definition normal_hashtag :: "string \<Rightarrow> string" where
  "normal_hashtag v = to_lower (case btrim v of CHR ''#'' # rest \<Rightarrow> rest | t \<Rightarrow> t)"

definition tagged_with :: "string list \<Rightarrow> uid \<Rightarrow> backend \<Rightarrow> bool" where
  "tagged_with interests p s \<longleftrightarrow>
     list_ex (\<lambda>x. pht_post x = p \<and>
       list_ex (\<lambda>h. htg_id h = pht_hashtag x \<and> normal_hashtag (htg_name h) \<in> set interests) (hashtags s)) (post_hashtags s)"

definition viewed :: "uid \<Rightarrow> uid \<Rightarrow> backend \<Rightarrow> bool" where
  "viewed c p s \<longleftrightarrow> list_ex (\<lambda>v. viw_character v = c \<and> viw_post v = p) (post_views s)"

definition social_candidate :: "uid \<Rightarrow> string list \<Rightarrow> time \<Rightarrow> backend \<Rightarrow> post_row \<Rightarrow> bool" where
  "social_candidate c interests now s p \<longleftrightarrow>
     list_ex (\<lambda>r. chr_id r = pst_character p \<and> chr_status r = Active) (characters (core_db s)) \<and>
     tagged_with interests (pst_id p) s \<and> pst_character p \<noteq> c \<and> pst_created p \<le> now \<and> \<not> viewed c (pst_id p) s"

definition find_social_candidates :: "uid \<Rightarrow> string list \<Rightarrow> time \<Rightarrow> int \<Rightarrow> backend \<Rightarrow> uid list" where
  "find_social_candidates c raw now cap s =
     (let interests = filter (\<lambda>t. t \<noteq> []) (map normal_interest raw)
      in if cap \<le> 0 \<or> interests = [] then []
         else map pst_id (sql_limit cap (sort_key (\<lambda>p. (- pst_created p, pst_id p))
                (filter (social_candidate c interests now s) (posts (core_db s))))))"

definition in_day :: "time \<Rightarrow> time \<Rightarrow> time \<Rightarrow> bool" where
  "in_day from until t \<longleftrightarrow> from \<le> t \<and> t < until"

definition count_views :: "uid \<Rightarrow> time \<Rightarrow> time \<Rightarrow> backend \<Rightarrow> int" where
  "count_views c from until s =
     int (length (filter (\<lambda>v. viw_character v = c \<and> in_day from until (viw_first v)) (post_views s)))"

definition record_views :: "uid \<Rightarrow> uid list \<Rightarrow> time \<Rightarrow> backend \<Rightarrow> (uid list \<times> backend) res" where
  "record_views c ids now s =
     (let rows = insertable (\<lambda>x y. viw_character x = viw_character y \<and> viw_post x = viw_post y) (post_views s)
                   (map (\<lambda>p. \<lparr>viw_character = c, viw_post = p, viw_first = now\<rparr>) ids)
      in bindR (constrained True True (rows = [] \<or> has_chr c s \<and> (\<forall>r \<in> set rows. has_post (viw_post r) s)))
           (\<lambda>_. Inr (map viw_post rows, s\<lparr>post_views := post_views s @ rows\<rparr>)))"

section \<open>Likes\<close>

definition is_like_of :: "uid \<Rightarrow> reaction_row \<Rightarrow> bool" where
  "is_like_of c r \<longleftrightarrow> rct_character r = Some c \<and> rct_type r = ''like''"

definition count_daily_likes :: "uid \<Rightarrow> time \<Rightarrow> time \<Rightarrow> backend \<Rightarrow> int" where
  "count_daily_likes c from until s =
     int (length (filter (\<lambda>r. is_like_of c r \<and> in_day from until (rct_created r)) (reactions s)))"

definition reaction_clash :: "reaction_row \<Rightarrow> reaction_row \<Rightarrow> bool" where
  "reaction_clash x y \<longleftrightarrow> rct_id x = rct_id y \<or>
     rct_user x \<noteq> None \<and> (rct_post x, rct_user x, rct_type x) = (rct_post y, rct_user y, rct_type y) \<or>
     rct_character x \<noteq> None \<and> (rct_post x, rct_character x, rct_type x) = (rct_post y, rct_character y, rct_type y)"

definition insert_likes :: "(nat \<Rightarrow> uid) \<Rightarrow> uid \<Rightarrow> uid list \<Rightarrow> time \<Rightarrow> backend \<Rightarrow> backend res" where
  "insert_likes ids c ps now s =
     (let rows = insertable reaction_clash (reactions s)
                   (map (\<lambda>(i, p). \<lparr>rct_id = ids i, rct_post = p, rct_character = Some c, rct_user = None,
                            rct_type = ''like'', rct_created = now\<rparr>) (enumerate 0 ps))
      in bindR (constrained True True (rows = [] \<or> has_chr c s \<and> (\<forall>r \<in> set rows. has_post (rct_post r) s)))
           (\<lambda>_. Inr (s\<lparr>reactions := reactions s @ rows\<rparr>)))"

text \<open>\<open>draw i\<close> is the \<open>i\<close>-th \<open>Math.random()\<close>; the probability is the column read into a double.\<close>

definition lucky :: "(nat \<Rightarrow> rat) \<Rightarrow> rat \<Rightarrow> uid list \<Rightarrow> uid list" where
  "lucky draw p ids = map snd (filter (\<lambda>(i, _). draw i < fl p) (enumerate 0 ids))"

definition like_viewed_posts :: "(nat \<Rightarrow> rat) \<Rightarrow> (nat \<Rightarrow> uid) \<Rightarrow> uid \<Rightarrow> uid list \<Rightarrow> rat \<Rightarrow> int \<Rightarrow> time \<Rightarrow> backend \<Rightarrow> backend res" where
  "like_viewed_posts draw ids c ps p cap now s = insert_likes ids c (take (nat cap) (lucky draw p ps)) now s"

definition liked_posts :: "uid \<Rightarrow> uid option \<Rightarrow> backend \<Rightarrow> (uid \<times> uid) list" where
  "liked_posts c cursor s =
     concat (map (\<lambda>r. map (\<lambda>p. (pst_character p, rct_post r))
         (filter (\<lambda>p. pst_id p = rct_post r \<and> pst_character p \<noteq> c \<and>
            (case cursor of None \<Rightarrow> True | Some a \<Rightarrow> a < pst_character p)) (posts (core_db s))))
       (filter (is_like_of c) (reactions s)))"

definition liked_authors :: "uid \<Rightarrow> uid option \<Rightarrow> backend \<Rightarrow> (uid \<times> int) list" where
  "liked_authors c cursor s =
     (let rows = liked_posts c cursor s
      in map (\<lambda>a. (a, int (length (remdups (map snd (filter (\<lambda>x. fst x = a) rows))))))
           (sort (remdups (map fst rows))))"

definition find_liked_author_counts :: "uid \<Rightarrow> uid option \<Rightarrow> int \<Rightarrow> backend \<Rightarrow> (uid \<times> int) list" where
  "find_liked_author_counts c cursor cap s = (if cap \<le> 0 then [] else sql_limit cap (liked_authors c cursor s))"

section \<open>Follows\<close>

definition count_daily_follows :: "uid \<Rightarrow> time \<Rightarrow> time \<Rightarrow> backend \<Rightarrow> int" where
  "count_daily_follows c from until s =
     int (length (filter (\<lambda>f. cfl_follower f = c \<and> in_day from until (cfl_at f)) (character_follows s)))"

definition find_existing :: "uid \<Rightarrow> uid list \<Rightarrow> backend \<Rightarrow> uid list" where
  "find_existing c ids s =
     map cfl_followed (filter (\<lambda>f. cfl_follower f = c \<and> cfl_followed f \<in> set ids) (character_follows s))"

definition insert_follows :: "uid \<Rightarrow> uid list \<Rightarrow> time \<Rightarrow> backend \<Rightarrow> backend res" where
  "insert_follows c ids now s =
     (let rows = insertable (\<lambda>x y. cfl_follower x = cfl_follower y \<and> cfl_followed x = cfl_followed y) (character_follows s)
                   (map (\<lambda>a. \<lparr>cfl_follower = c, cfl_followed = a, cfl_at = now\<rparr>) ids)
      in bindR (ensure (c \<notin> set ids) (Db_Error Check_Violation)) (\<lambda>_.
         bindR (constrained True True (rows = [] \<or> has_chr c s \<and> (\<forall>r \<in> set rows. has_chr (cfl_followed r) s)))
           (\<lambda>_. Inr (s\<lparr>character_follows := character_follows s @ rows\<rparr>))))"

text \<open>A page of the authors a character liked is qualified against the threshold, the active characters and the follows
  that exist.\<close>

definition qualified_of :: "uid \<Rightarrow> int \<Rightarrow> backend \<Rightarrow> (uid \<times> int) list \<Rightarrow> uid list" where
  "qualified_of c threshold s page =
     (let qualified = map fst (filter (\<lambda>(_, n). threshold \<le> n) page);
          active = find_active_ids qualified s;
          existing = find_existing c qualified s
      in filter (\<lambda>a. a \<in> set active \<and> a \<notin> set existing) qualified)"

text \<open>The authors after a cursor: a page moves the cursor past at least one of them, so the loop ends.\<close>

lemma filter_liked_posts:
  "liked_posts c (Some a) s = filter (\<lambda>x. a < fst x) (liked_posts c None s)"
  by (simp add: liked_posts_def filter_concat comp_def filter_map conj_ac cong: filter_cong)

lemma liked_authors_after: "liked_authors c (Some a) s = filter (\<lambda>x. a < fst x) (liked_authors c None s)"
proof -
  define rows where "rows = liked_posts c None s"
  have "filter (\<lambda>x. fst x = b) (filter (\<lambda>x. a < fst x) rows) = filter (\<lambda>x. fst x = b) rows" if "a < b" for b
    using that by (auto intro: filter_cong)
  moreover have "remdups (map fst (filter (\<lambda>x. a < fst x) rows)) = filter (\<lambda>b. a < b) (remdups (map fst rows))"
    by (simp add: filter_map comp_def flip: remdups_filter)
  ultimately show ?thesis
    by (simp add: liked_authors_def filter_liked_posts rows_def [symmetric] Let_def filter_map comp_def filter_sort
        cong: filter_cong map_cong)
qed

lemma liked_authors_sorted: "sorted (map fst (liked_authors c cursor s))" "distinct (map fst (liked_authors c cursor s))"
  by (simp_all add: liked_authors_def Let_def comp_def)


lemma page_advances:
  assumes "page = find_liked_author_counts c cursor n s" "page \<noteq> []"
  shows "length (liked_authors c (Some (fst (last page))) s) < length (liked_authors c cursor s)"
proof -
  define later where "later = liked_authors c cursor s"
  have page: "page = take (nat n) later" and pos: "0 < n" using assms by (auto simp: find_liked_author_counts_def sql_limit_def later_def split: if_splits)
  have mem: "last page \<in> set later" using assms(2) page by (metis in_set_takeD last_in_set)
  have above: "case cursor of None \<Rightarrow> True | Some a \<Rightarrow> a < fst (last page)"
    using mem by (auto simp: later_def liked_authors_after split: option.splits)
  have "liked_authors c (Some (fst (last page))) s = filter (\<lambda>x. fst (last page) < fst x) later"
    using above by (cases cursor) (auto simp: later_def liked_authors_after conj_absorb intro!: filter_cong)
  then show ?thesis using mem unfolding later_def by (auto intro: length_filter_less)
qed

function follow_loop :: "uid \<Rightarrow> int \<Rightarrow> int \<Rightarrow> uid option \<Rightarrow> uid list \<Rightarrow> backend \<Rightarrow> uid list" where
  "follow_loop c threshold cap cursor selected s =
     (if cap \<le> int (length selected) then selected
      else
        (let page = find_liked_author_counts c cursor 100 s in
         if page = [] then selected
         else
           (let selected' = selected @ take (nat (cap - int (length selected))) (qualified_of c threshold s page)
            in if length page < 100 then selected'
               else follow_loop c threshold cap (Some (fst (last page))) selected' s)))"
  by pat_completeness auto
termination
  by (relation "measure (\<lambda>(c, threshold, cap, cursor, selected, s). length (liked_authors c cursor s))")
    (auto intro: page_advances [OF refl])

declare follow_loop.simps [simp del]

definition follow_qualified_authors :: "uid \<Rightarrow> int \<Rightarrow> int \<Rightarrow> time \<Rightarrow> backend \<Rightarrow> backend res" where
  "follow_qualified_authors c threshold cap now s =
     (if cap \<le> 0 then Inr s else insert_follows c (follow_loop c threshold cap None [] s) now s)"

end
