(* ===== verification/Social_Jobs.thy ===== *)
theory Social_Jobs
  imports Social
begin

text \<open>
  The jobs of the social activity and what runs them: \<open>character-social-activity-job.*.ts\<close>,
  \<open>character-social-activity-application.service.ts\<close> and \<open>character-social.worker.ts\<close>. Every transaction is
  one function of the state; a worker that reads the clock anew at every step is any sequence of these transactions, and
  \<open>run_once\<close> is the run at one given instant.
\<close>

section \<open>Jobs\<close>

abbreviation active_job :: "social_job_row \<Rightarrow> bool" where
  "active_job j \<equiv> sjb_status j = Sj_Queued \<or> sjb_status j = Sj_Running"

definition job_clash :: "social_job_row \<Rightarrow> social_job_row \<Rightarrow> bool" where
  "job_clash x y \<longleftrightarrow> sjb_id x = sjb_id y \<or>
     sjb_character x = sjb_character y \<and> (sjb_scheduled x = sjb_scheduled y \<or> active_job x \<and> active_job y)"

definition schedule_job :: "int \<Rightarrow> uid \<Rightarrow> time \<Rightarrow> backend \<Rightarrow> (bool \<times> backend) res" where
  "schedule_job jid c now s =
     (let rows = insertable job_clash (social_jobs s)
                   [\<lparr>sjb_id = jid, sjb_character = c, sjb_scheduled = now, sjb_next = now, sjb_status = Sj_Queued,
                     sjb_attempts = 0, sjb_token = None, sjb_lease = None, sjb_error = None, sjb_finished = None\<rparr>]
      in bindR (constrained True True (rows = [] \<or> has_chr c s))
           (\<lambda>_. Inr (rows \<noteq> [], s\<lparr>social_jobs := social_jobs s @ rows\<rparr>)))"

record social_claim =
  scl_id :: int
  scl_character :: uid
  scl_token :: uid
  scl_attempts :: int

definition find_claim_candidates :: "time \<Rightarrow> int \<Rightarrow> backend \<Rightarrow> (int \<times> uid) list" where
  "find_claim_candidates now n s =
     map (\<lambda>j. (sjb_id j, sjb_character j)) (sql_limit n (sort_key (\<lambda>j. (sjb_next j, sjb_id j))
       (filter (\<lambda>j. sjb_status j = Sj_Queued \<and> sjb_next j \<le> now \<or>
          sjb_status j = Sj_Running \<and> (case sjb_lease j of Some t \<Rightarrow> t \<le> now | None \<Rightarrow> False)) (social_jobs s))))"

text \<open>The locked row is read into JavaScript, so its instants are \<open>Date\<close>s.\<close>

definition eligible :: "time \<Rightarrow> social_job_row \<Rightarrow> bool" where
  "eligible now j \<longleftrightarrow> sjb_status j = Sj_Queued \<and> js_date (sjb_next j) \<le> now \<or>
     sjb_status j = Sj_Running \<and> (case sjb_lease j of Some t \<Rightarrow> js_date t \<le> now | None \<Rightarrow> False)"

definition mark_attempts_exhausted :: "time \<Rightarrow> social_job_row \<Rightarrow> social_job_row" where
  "mark_attempts_exhausted now j = j\<lparr>sjb_status := Sj_Failed, sjb_token := None, sjb_lease := None,
     sjb_finished := Some now, sjb_error := Some ''maximum attempts exhausted after lease expiry''\<rparr>"

definition assign_lease :: "time \<Rightarrow> time \<Rightarrow> uid \<Rightarrow> social_job_row \<Rightarrow> social_job_row" where
  "assign_lease now until token j = j\<lparr>sjb_status := Sj_Running, sjb_attempts := sjb_attempts j + 1,
     sjb_token := Some token, sjb_lease := Some until\<rparr>"

abbreviation upd_job :: "int \<Rightarrow> (social_job_row \<Rightarrow> social_job_row) \<Rightarrow> backend \<Rightarrow> backend" where
  "upd_job i f s \<equiv> s\<lparr>social_jobs := update_where (\<lambda>j. sjb_id j = i) f (social_jobs s)\<rparr>"

definition claim_one :: "social_options \<Rightarrow> uid \<Rightarrow> time \<Rightarrow> int \<times> uid \<Rightarrow> backend \<Rightarrow> social_claim option \<times> backend" where
  "claim_one opts token now cand s =
     (case find (\<lambda>j. sjb_id j = fst cand) (social_jobs s) of
        None \<Rightarrow> (None, s)
      | Some j \<Rightarrow>
          if \<not> eligible now j then (None, s)
          else if so_attempts opts \<le> sjb_attempts j then (None, upd_job (fst cand) (mark_attempts_exhausted now) s)
          else (Some \<lparr>scl_id = fst cand, scl_character = snd cand, scl_token = token, scl_attempts = sjb_attempts j + 1\<rparr>,
                upd_job (fst cand) (assign_lease now (now + ms (so_lease opts)) token) s))"

fun claim_loop :: "social_options \<Rightarrow> uid \<Rightarrow> time \<Rightarrow> (int \<times> uid) list \<Rightarrow> backend \<Rightarrow> social_claim option \<times> backend" where
  "claim_loop opts token now [] s = (None, s)"
| "claim_loop opts token now (cand # rest) s =
     (case claim_one opts token now cand s of
        (Some c, s') \<Rightarrow> (Some c, s')
      | (None, s') \<Rightarrow> claim_loop opts token now rest s')"

definition claim_next :: "social_options \<Rightarrow> uid \<Rightarrow> time \<Rightarrow> backend \<Rightarrow> social_claim option \<times> backend" where
  "claim_next opts token now s = claim_loop opts token now (find_claim_candidates now (so_batch opts) s) s"

definition holds_lease :: "social_claim \<Rightarrow> time \<Rightarrow> social_job_row \<Rightarrow> bool" where
  "holds_lease c now j \<longleftrightarrow> sjb_id j = scl_id c \<and> sjb_status j = Sj_Running \<and> sjb_token j = Some (scl_token c) \<and>
     (case sjb_lease j of Some t \<Rightarrow> now < t | None \<Rightarrow> False)"

definition has_live_lease :: "social_claim \<Rightarrow> time \<Rightarrow> backend \<Rightarrow> bool" where
  "has_live_lease c now s \<longleftrightarrow> list_ex (\<lambda>j. holds_lease c now j \<and> sjb_character j = scl_character c) (social_jobs s)"

definition finish :: "social_claim \<Rightarrow> time \<Rightarrow> social_status \<Rightarrow> backend \<Rightarrow> bool \<times> backend" where
  "finish c now status s =
     (list_ex (holds_lease c now) (social_jobs s),
      s\<lparr>social_jobs := update_where (holds_lease c now) (\<lambda>j. j\<lparr>sjb_status := status, sjb_token := None, sjb_lease := None,
          sjb_finished := Some now, sjb_error := None\<rparr>) (social_jobs s)\<rparr>)"

text \<open>\<open>slice(0, n)\<close> counts UTF-16 units; a character that does not fit as a whole is left out.\<close>

fun utf16_take :: "nat \<Rightarrow> string \<Rightarrow> string" where
  "utf16_take n [] = []"
| "utf16_take n (c # s) = (if utf16_units c \<le> n then c # utf16_take (n - utf16_units c) s else [])"

definition fail_job :: "social_options \<Rightarrow> social_claim \<Rightarrow> time \<Rightarrow> string \<Rightarrow> backend \<Rightarrow> bool \<times> backend" where
  "fail_job opts c now message s =
     (let terminal = so_attempts opts \<le> scl_attempts c
      in (list_ex (holds_lease c now) (social_jobs s),
          s\<lparr>social_jobs := update_where (holds_lease c now) (\<lambda>j. j\<lparr>
              sjb_status := (if terminal then Sj_Failed else Sj_Queued), sjb_token := None, sjb_lease := None,
              sjb_next := now + ms (so_backoff opts), sjb_finished := (if terminal then Some now else None),
              sjb_error := Some (utf16_take 2000 message)\<rparr>) (social_jobs s)\<rparr>))"

section \<open>Scheduling\<close>

definition schedule_tx :: "zones \<Rightarrow> int \<Rightarrow> time \<Rightarrow> uid \<Rightarrow> backend \<Rightarrow> (bool \<times> backend) res" where
  "schedule_tx z jid now c = with_activity_transaction None c (\<lambda>s.
     case lock_due c now s of
       None \<Rightarrow> Inr (False, s)
     | Some p \<Rightarrow>
         (let s1 = advance c now (pol_interval p) s
          in if \<not> can_act (Some p) (find_activity_context z c now s1) then Inr (False, s1)
             else schedule_job jid c now s1))"

fun schedule_loop :: "zones \<Rightarrow> (nat \<Rightarrow> int) \<Rightarrow> time \<Rightarrow> uid list \<Rightarrow> backend \<Rightarrow> int res \<times> backend" where
  "schedule_loop z jids now [] s = (Inr 0, s)"
| "schedule_loop z jids now (c # cs) s =
     (case commit (schedule_tx z (jids (length cs)) now c) s of
        (Inl e, s1) \<Rightarrow> (Inl e, s1)
      | (Inr b, s1) \<Rightarrow>
          (case schedule_loop z jids now cs s1 of
             (Inl e, s2) \<Rightarrow> (Inl e, s2)
           | (Inr n, s2) \<Rightarrow> (Inr (n + (if b then 1 else 0)), s2)))"

definition schedule_due_activities :: "social_options \<Rightarrow> zones \<Rightarrow> (nat \<Rightarrow> int) \<Rightarrow> time \<Rightarrow> backend \<Rightarrow> int res \<times> backend" where
  "schedule_due_activities opts z jids now s = schedule_loop z jids now (find_due_character_ids now (so_batch opts) s) s"

section \<open>Running a job\<close>

record social_fresh =
  sfr_token :: uid
  sfr_draws :: "nat \<Rightarrow> rat"
  sfr_likes :: "nat \<Rightarrow> uid"

definition used_allowances :: "uid \<Rightarrow> time \<Rightarrow> time \<Rightarrow> backend \<Rightarrow> allowances" where
  "used_allowances c from until s =
     \<lparr>alw_views = count_views c from until s, alw_likes = count_daily_likes c from until s,
      alw_follows = count_daily_follows c from until s\<rparr>"

definition act :: "social_options \<Rightarrow> social_fresh \<Rightarrow> uid \<Rightarrow> policy_row \<Rightarrow> activity_context \<Rightarrow> time \<Rightarrow> backend \<Rightarrow> backend res" where
  "act opts fr c p x now s =
     (let left = remaining_allowances p (used_allowances c (the (ctx_start x)) (the (ctx_end x)) s) (so_posts opts);
          candidates = find_social_candidates c (ctx_interests x) now (alw_views left) s
      in bindR (record_views c candidates now s) (\<lambda>(seen, s1).
         bindR (like_viewed_posts (sfr_draws fr) (sfr_likes fr) c seen (pol_probability p) (alw_likes left) now s1) (\<lambda>s2.
         follow_qualified_authors c (so_threshold opts) (alw_follows left) now s2)))"

definition process_claimed_activity :: "social_options \<Rightarrow> zones \<Rightarrow> social_fresh \<Rightarrow> social_claim \<Rightarrow> time \<Rightarrow> time \<Rightarrow> backend \<Rightarrow>
    (bool \<times> backend) res" where
  "process_claimed_activity opts z fr claim now later = with_activity_transaction None (scl_character claim) (\<lambda>s.
     if \<not> has_live_lease claim now s then Inr (False, s)
     else
       (let c = scl_character claim; policy = find_for_execution c s; ctx = find_activity_context z c now s
        in if \<not> can_act policy ctx then Inr (finish claim later Sj_Cancelled s)
           else bindR (act opts fr c (the policy) (the ctx) now s) (\<lambda>s1.
                case finish claim later Sj_Completed s1 of (finished, s2) \<Rightarrow>
                bindR (ensure finished (Plain_Error ''character social lease expired before completion'')) (\<lambda>_.
                Inr (True, s2)))))"

text \<open>The text of an error, \<open>error.message\<close>, is the parameter \<open>msg\<close>.\<close>

definition process_next_activity :: "social_options \<Rightarrow> zones \<Rightarrow> (api_error \<Rightarrow> string) \<Rightarrow> social_fresh \<Rightarrow> time \<Rightarrow> backend \<Rightarrow>
    bool res \<times> backend" where
  "process_next_activity opts z msg fr now s =
     (case claim_next opts (sfr_token fr) now s of
        (None, s1) \<Rightarrow> (Inr False, s1)
      | (Some claim, s1) \<Rightarrow>
          (case commit (process_claimed_activity opts z fr claim now now) s1 of
             (Inl e, s2) \<Rightarrow> (Inl e, snd (fail_job opts claim now (msg e) s2))
           | (Inr _, s2) \<Rightarrow> (Inr True, s2)))"

section \<open>The worker\<close>

function run_loop :: "social_options \<Rightarrow> zones \<Rightarrow> (api_error \<Rightarrow> string) \<Rightarrow> (int \<Rightarrow> social_fresh) \<Rightarrow> time \<Rightarrow> int \<Rightarrow> backend \<Rightarrow> int \<times> backend" where
  "run_loop opts z msg fr now processed s =
     (if so_batch opts \<le> processed then (processed, s)
      else
        (case process_next_activity opts z msg (fr processed) now s of
           (Inr False, s') \<Rightarrow> (processed, s')
         | (_, s') \<Rightarrow> run_loop opts z msg fr now (processed + 1) s'))"
  by pat_completeness auto
termination
  by (relation "measure (\<lambda>(opts, z, msg, fr, now, processed, s). nat (so_batch opts - processed))") auto

declare run_loop.simps [simp del]

definition run_once :: "social_options \<Rightarrow> zones \<Rightarrow> (api_error \<Rightarrow> string) \<Rightarrow> (nat \<Rightarrow> int) \<Rightarrow> (int \<Rightarrow> social_fresh) \<Rightarrow> time \<Rightarrow> backend \<Rightarrow>
    int res \<times> backend" where
  "run_once opts z msg jids fr now s =
     (case schedule_due_activities opts z jids now s of
        (Inl e, s1) \<Rightarrow> (Inl e, s1)
      | (Inr _, s1) \<Rightarrow> (case run_loop opts z msg fr now 0 s1 of (n, s2) \<Rightarrow> (Inr n, s2)))"

end
