(* ===== verification/Social_Follows.thy ===== *)
theory Social_Follows
  imports Social_Jobs
begin

text \<open>
  What one run of a character's social activity does to the tables: whom it follows, page after page, against a reference
  over the sets of likes and follows; which posts it looks at and likes; and its daily limits.
\<close>

section \<open>The authors to follow\<close>

definition liked_posts_of :: "uid \<Rightarrow> uid \<Rightarrow> backend \<Rightarrow> uid set" where
  "liked_posts_of c a s = {rct_post r | r. r \<in> set (reactions s) \<and> is_like_of c r \<and>
     (\<exists>p \<in> set (posts (core_db s)). pst_id p = rct_post r \<and> pst_character p = a)}"

definition active_chr :: "uid \<Rightarrow> backend \<Rightarrow> bool" where
  "active_chr a s \<longleftrightarrow> (\<exists>r \<in> set (characters (core_db s)). chr_id r = a \<and> chr_status r = Active)"

definition follows_chr :: "uid \<Rightarrow> uid \<Rightarrow> backend \<Rightarrow> bool" where
  "follows_chr c a s \<longleftrightarrow> (\<exists>f \<in> set (character_follows s). cfl_follower f = c \<and> cfl_followed f = a)"

definition authors_to_follow :: "uid \<Rightarrow> int \<Rightarrow> backend \<Rightarrow> uid list" where
  "authors_to_follow c threshold s = sorted_list_of_set
     {a \<in> pst_character ` set (posts (core_db s)). a \<noteq> c \<and> liked_posts_of c a s \<noteq> {} \<and>
        threshold \<le> int (card (liked_posts_of c a s)) \<and> active_chr a s \<and> \<not> follows_chr c a s}"

lemma qualified_of_eq:
  "qualified_of c threshold s page =
     filter (\<lambda>a. active_chr a s \<and> \<not> follows_chr c a s) (map fst (filter (\<lambda>x. threshold \<le> snd x) page))"
proof -
  define q where "q = map fst (filter (\<lambda>x. threshold \<le> snd x) page)"
  have "a \<in> set (find_active_ids q s) \<longleftrightarrow> active_chr a s" "a \<in> set (find_existing c q s) \<longleftrightarrow> follows_chr c a s" if "a \<in> set q" for a
    using that by (auto simp: find_active_ids_def find_existing_def active_chr_def follows_chr_def)
  then show ?thesis
    unfolding qualified_of_def case_prod_beta' q_def [symmetric] Let_def by (intro filter_cong) auto
qed

lemma qualified_of_append: "qualified_of c threshold s (xs @ ys) = qualified_of c threshold s xs @ qualified_of c threshold s ys"
  by (simp add: qualified_of_eq)

lemma sorted_last: "sorted (map f (xs @ [x])) \<Longrightarrow> y \<in> set (xs @ [x]) \<Longrightarrow> f y \<le> f x"
  by (auto simp: sorted_append)

lemma strictly_sorted_drop:
  fixes f :: "'a \<Rightarrow> 'b :: linorder"
  assumes "sorted (map f xs)" "distinct (map f xs)" "0 < n" "xs \<noteq> []"
  shows "filter (\<lambda>x. f (last (take n xs)) < f x) xs = drop n xs"
proof -
  let ?a = "take n xs" and ?b = "drop n xs"
  have ne: "?a \<noteq> []" using assms(3,4) by simp
  then have a: "butlast ?a @ [last ?a] = ?a" by simp
  have sd: "sorted (map f ?a @ map f ?b)" "distinct (map f ?a @ map f ?b)"
    using assms(1,2) by (simp_all flip: map_append)
  have mem: "last ?a \<in> set ?a" using ne by simp
  have le: "f x \<le> f (last ?a)" if "x \<in> set ?a" for x
    using sorted_last [of f "butlast ?a" "last ?a" x] sd(1) that unfolding a by (simp add: sorted_append)
  have gt: "f (last ?a) < f x" if "x \<in> set ?b" for x
  proof -
    have "f (last ?a) \<le> f x" using sd(1) mem that by (simp add: sorted_append)
    moreover have "f (last ?a) \<noteq> f x" using sd(2) mem that by auto
    ultimately show ?thesis by simp
  qed
  have "filter (\<lambda>x. f (last ?a) < f x) ?a = []" "filter (\<lambda>x. f (last ?a) < f x) ?b = ?b"
    using le gt by (simp_all add: filter_empty_conv filter_id_conv leD)
  then show ?thesis by (metis append_take_drop_id filter_append append_Nil)
qed

lemma next_page:
  assumes "page = find_liked_author_counts c cursor 100 s" "page \<noteq> []"
  shows "liked_authors c cursor s = page @ liked_authors c (Some (fst (last page))) s"
proof -
  let ?l = "liked_authors c cursor s"
  have page: "page = take 100 ?l" using assms(1) by (simp add: find_liked_author_counts_def sql_limit_def)
  then have ne: "?l \<noteq> []" using assms(2) by auto
  have "last page \<in> set ?l" using assms(2) page by (metis in_set_takeD last_in_set)
  then have "liked_authors c (Some (fst (last page))) s = filter (\<lambda>x. fst (last page) < fst x) ?l"
    by (cases cursor) (auto simp: liked_authors_after intro!: filter_cong)
  also have "\<dots> = drop 100 ?l"
    using strictly_sorted_drop [OF liked_authors_sorted _ ne, of 100] by (simp add: page)
  finally show ?thesis by (simp add: page)
qed

lemma follow_loop_eq:
  "int (length selected) \<le> cap \<Longrightarrow>
   follow_loop c threshold cap cursor selected s =
     take (nat cap) (selected @ qualified_of c threshold s (liked_authors c cursor s))"
proof (induction c threshold cap cursor selected s rule: follow_loop.induct)
  case (1 c threshold cap cursor selected s)
  define page where "page = find_liked_author_counts c cursor 100 s"
  define more where "more = take (nat (cap - int (length selected))) (qualified_of c threshold s page)"
  have split: "liked_authors c cursor s = page @ liked_authors c (Some (fst (last page))) s" if "page \<noteq> []"
    using next_page [OF page_def that] .
  have short: "liked_authors c cursor s = page" if "length page < 100"
    using that by (simp add: page_def find_liked_author_counts_def sql_limit_def)
  have fits: "int (length (selected @ more)) \<le> cap" using 1(2) by (simp add: more_def)
  have cut: "nat (cap - int (length selected)) = nat cap - length selected" by simp
  show ?case
  proof (cases "cap \<le> int (length selected) \<or> page = []")
    case True
    then show ?thesis using 1(2) short by (auto simp: follow_loop.simps [of c] page_def qualified_of_eq)
  next
    case False
    then have step: "follow_loop c threshold cap cursor selected s =
        (if length page < 100 then selected @ more
         else follow_loop c threshold cap (Some (fst (last page))) (selected @ more) s)"
      by (simp add: follow_loop.simps [of c threshold cap cursor] page_def more_def Let_def)
    show ?thesis
    proof (cases "length page < 100")
      case True
      then show ?thesis using 1(2) short by (simp add: step more_def cut)
    next
      case long: False
      have "follow_loop c threshold cap (Some (fst (last page))) (selected @ more) s =
          take (nat cap) ((selected @ more) @ qualified_of c threshold s (liked_authors c (Some (fst (last page))) s))"
        using 1(1) [OF _ page_def _ _ long] False fits unfolding more_def by simp
      also have "\<dots> = take (nat cap) (selected @ qualified_of c threshold s (liked_authors c cursor s))"
        using split False 1(2) by (simp add: qualified_of_append more_def cut min_def)
      finally show ?thesis using long by (simp add: step)
    qed
  qed
qed

lemma liked_authors_set:
  "set (liked_authors c None s) = {(a, int (card (liked_posts_of c a s))) | a.
     a \<in> pst_character ` set (posts (core_db s)) \<and> a \<noteq> c \<and> liked_posts_of c a s \<noteq> {}}"
proof -
  define rows where "rows = liked_posts c None s"
  have rows: "(a, p) \<in> set rows \<longleftrightarrow> a \<noteq> c \<and> p \<in> liked_posts_of c a s" for a p
    by (auto simp: rows_def liked_posts_def liked_posts_of_def)
  have "set (map snd (filter (\<lambda>x. fst x = a) rows)) = liked_posts_of c a s" if "a \<noteq> c" for a
    using that by (simp add: set_eq_iff image_iff Bex_def split_paired_Ex rows)
  then have card: "length (remdups (map snd (filter (\<lambda>x. fst x = a) rows))) = card (liked_posts_of c a s)" if "a \<noteq> c" for a
    using that by (metis length_remdups_card_conv)
  have authors: "a \<in> fst ` set rows \<longleftrightarrow> a \<in> pst_character ` set (posts (core_db s)) \<and> a \<noteq> c \<and> liked_posts_of c a s \<noteq> {}" for a
    using rows by (fastforce simp: liked_posts_of_def image_iff)
  then have A: "fst ` set rows = {a \<in> pst_character ` set (posts (core_db s)). a \<noteq> c \<and> liked_posts_of c a s \<noteq> {}}" by blast
  show ?thesis
    unfolding liked_authors_def rows_def [symmetric] Let_def set_map set_sort set_remdups A using card by auto
qed

lemma authors_to_follow_eq: "qualified_of c threshold s (liked_authors c None s) = authors_to_follow c threshold s"
proof -
  define q where "q = qualified_of c threshold s (liked_authors c None s)"
  have sd: "sorted q" "distinct q"
    using liked_authors_sorted [of c None s]
    by (auto simp: q_def qualified_of_eq distinct_map_filter intro: sorted_wrt_filter sorted_filter)
  have "set q = {a \<in> pst_character ` set (posts (core_db s)). a \<noteq> c \<and> liked_posts_of c a s \<noteq> {} \<and>
        threshold \<le> int (card (liked_posts_of c a s)) \<and> active_chr a s \<and> \<not> follows_chr c a s}"
    by (auto simp: q_def qualified_of_eq liked_authors_set image_iff)
  then show ?thesis
    unfolding authors_to_follow_def q_def [symmetric] using sd by (metis sorted_list_of_set_unique finite_set
        sorted_list_of_set.idem_if_sorted_distinct)
qed

lemma follow_loop_authors: "follow_loop c threshold cap None [] s = take (nat cap) (authors_to_follow c threshold s)"
proof (cases "cap \<le> 0")
  case True
  then show ?thesis by (simp add: follow_loop.simps)
next
  case False
  then show ?thesis using follow_loop_eq [of "[]" cap c threshold None s] by (simp add: authors_to_follow_eq)
qed

text \<open>C28: Reading the liked authors in pages of a hundred follows exactly the authors one query over the whole tables would
  pick: those with enough liked posts who are active and not followed yet, in the order of their ids, up to the limit.\<close>

theorem followed_authors_exact:
  "follow_qualified_authors c threshold cap now s = insert_follows c (take (nat cap) (authors_to_follow c threshold s)) now s"
  by (cases "cap \<le> 0") (simp_all add: follow_qualified_authors_def follow_loop_authors insert_follows_def)

section \<open>One run\<close>

lemma set_insertable: "set (insertable clash rows xs) \<subseteq> set xs" and length_insertable: "length (insertable clash rows xs) \<le> length xs"
  by (induction clash rows xs rule: insertable.induct) (auto simp: le_SucI)

lemma insertable_fresh: "x \<in> set (insertable clash rows xs) \<Longrightarrow> \<not> list_ex (clash x) rows"
  by (induction clash rows xs rule: insertable.induct) (auto split: if_splits)

lemma record_views_effect:
  assumes "record_views c ids now s = Inr (seen, s')"
  obtains rows where "s' = s\<lparr>post_views := post_views s @ rows\<rparr>" "seen = map viw_post rows" "length rows \<le> length ids"
    "\<forall>r \<in> set rows. viw_character r = c \<and> viw_first r = now \<and> viw_post r \<in> set ids \<and> \<not> viewed c (viw_post r) s"
proof
  let ?rows = "insertable (\<lambda>x y. viw_character x = viw_character y \<and> viw_post x = viw_post y) (post_views s)
    (map (\<lambda>p. \<lparr>viw_character = c, viw_post = p, viw_first = now\<rparr>) ids)"
  show "s' = s\<lparr>post_views := post_views s @ ?rows\<rparr>" "seen = map viw_post ?rows"
    using assms by (auto simp: record_views_def Let_def bindR_Inr_iff)
  show "length ?rows \<le> length ids" by (rule order_trans [OF length_insertable]) simp
  have rows: "set ?rows \<subseteq> (\<lambda>p. \<lparr>viw_character = c, viw_post = p, viw_first = now\<rparr>) ` set ids"
    unfolding set_map [symmetric] by (rule set_insertable)
  show "\<forall>r \<in> set ?rows. viw_character r = c \<and> viw_first r = now \<and> viw_post r \<in> set ids \<and> \<not> viewed c (viw_post r) s"
  proof
    fix r
    assume r: "r \<in> set ?rows"
    then obtain p where "r = \<lparr>viw_character = c, viw_post = p, viw_first = now\<rparr>" "p \<in> set ids" using rows by blast
    with insertable_fresh [OF r]
    show "viw_character r = c \<and> viw_first r = now \<and> viw_post r \<in> set ids \<and> \<not> viewed c (viw_post r) s"
      by (auto simp: viewed_def list_ex_iff)
  qed
qed

lemma enumerate_members: "set (map snd (filter p (enumerate 0 xs))) \<subseteq> set xs"
  by (auto simp: in_set_enumerate_eq)

lemma like_viewed_posts_effect:
  assumes "like_viewed_posts draw ids c seen p cap now s = Inr s'"
  obtains rows where "s' = s\<lparr>reactions := reactions s @ rows\<rparr>" "length rows \<le> nat cap"
    "\<forall>r \<in> set rows. is_like_of c r \<and> rct_created r = now \<and> rct_post r \<in> set seen"
proof
  let ?ps = "take (nat cap) (lucky draw p seen)"
  let ?new = "map (\<lambda>(i, p). \<lparr>rct_id = ids i, rct_post = p, rct_character = Some c, rct_user = None,
                            rct_type = ''like'', rct_created = now\<rparr>) (enumerate 0 ?ps)"
  let ?rows = "insertable reaction_clash (reactions s) ?new"
  show "s' = s\<lparr>reactions := reactions s @ ?rows\<rparr>"
    using assms by (auto simp: like_viewed_posts_def insert_likes_def Let_def bindR_Inr_iff)
  show "length ?rows \<le> nat cap" using length_insertable [of reaction_clash "reactions s" ?new] by simp
  have "set ?ps \<subseteq> set seen" using enumerate_members set_take_subset unfolding lucky_def by fast
  moreover have "\<forall>r \<in> set ?new. is_like_of c r \<and> rct_created r = now \<and> rct_post r \<in> set ?ps"
    by (auto simp: is_like_of_def in_set_enumerate_eq simp del: nth_take)
  ultimately have "\<forall>r \<in> set ?new. is_like_of c r \<and> rct_created r = now \<and> rct_post r \<in> set seen" by blast
  then show "\<forall>r \<in> set ?rows. is_like_of c r \<and> rct_created r = now \<and> rct_post r \<in> set seen"
    using set_insertable by fast
qed

lemma insert_follows_effect:
  assumes "insert_follows c ids now s = Inr s'"
  obtains rows where "s' = s\<lparr>character_follows := character_follows s @ rows\<rparr>" "length rows \<le> length ids"
    "\<forall>f \<in> set rows. cfl_follower f = c \<and> cfl_at f = now \<and> cfl_followed f \<in> set ids"
proof
  let ?rows = "insertable (\<lambda>x y. cfl_follower x = cfl_follower y \<and> cfl_followed x = cfl_followed y) (character_follows s)
    (map (\<lambda>a. \<lparr>cfl_follower = c, cfl_followed = a, cfl_at = now\<rparr>) ids)"
  show "s' = s\<lparr>character_follows := character_follows s @ ?rows\<rparr>"
    using assms by (auto simp: insert_follows_def Let_def bindR_Inr_iff)
  show "length ?rows \<le> length ids" by (rule order_trans [OF length_insertable]) simp
  have "set ?rows \<subseteq> (\<lambda>a. \<lparr>cfl_follower = c, cfl_followed = a, cfl_at = now\<rparr>) ` set ids"
    unfolding set_map [symmetric] by (rule set_insertable)
  then show "\<forall>f \<in> set ?rows. cfl_follower f = c \<and> cfl_at f = now \<and> cfl_followed f \<in> set ids" by auto
qed

lemma follow_effect:
  assumes "follow_qualified_authors c threshold cap now s = Inr s'"
  obtains rows where "s' = s\<lparr>character_follows := character_follows s @ rows\<rparr>" "length rows \<le> nat cap"
    "\<forall>f \<in> set rows. cfl_follower f = c \<and> cfl_at f = now \<and> cfl_followed f \<in> set (authors_to_follow c threshold s)"
proof (cases "cap \<le> 0")
  case True
  then show ?thesis using assms by (intro that [of "[]"]) (simp_all add: follow_qualified_authors_def)
next
  case False
  then have "insert_follows c (take (nat cap) (authors_to_follow c threshold s)) now s = Inr s'"
    using assms by (simp add: follow_qualified_authors_def follow_loop_authors)
  then obtain rows where "s' = s\<lparr>character_follows := character_follows s @ rows\<rparr>"
    "length rows \<le> length (take (nat cap) (authors_to_follow c threshold s))"
    "\<forall>f \<in> set rows. cfl_follower f = c \<and> cfl_at f = now \<and> cfl_followed f \<in> set (take (nat cap) (authors_to_follow c threshold s))"
    by (rule insert_follows_effect)
  then show ?thesis by (intro that) (auto dest: in_set_takeD)
qed

text \<open>A run that gets to act, with the rows it adds.\<close>

lemma act_effect:
  assumes "act opts fr c p x now s = Inr s'" "used = used_allowances c (the (ctx_start x)) (the (ctx_end x)) s"
  obtains vs ls fs where
    "s' = s\<lparr>post_views := post_views s @ vs, reactions := reactions s @ ls, character_follows := character_follows s @ fs\<rparr>"
    "int (length vs) \<le> max 0 (min (so_posts opts) (pol_views p - alw_views used))"
    "int (length ls) \<le> max 0 (pol_likes p - alw_likes used)" "int (length fs) \<le> max 0 (pol_follows p - alw_follows used)"
    "\<forall>v \<in> set vs. viw_character v = c \<and> viw_first v = now \<and> \<not> viewed c (viw_post v) s \<and>
       (\<exists>q \<in> set (posts (core_db s)). pst_id q = viw_post v \<and>
          social_candidate c (filter (\<lambda>t. t \<noteq> []) (map normal_interest (ctx_interests x))) now s q)"
    "\<forall>r \<in> set ls. is_like_of c r \<and> rct_created r = now \<and> rct_post r \<in> viw_post ` set vs"
    "\<forall>f \<in> set fs. cfl_follower f = c \<and> cfl_at f = now \<and>
       cfl_followed f \<in> set (authors_to_follow c (so_threshold opts) (s\<lparr>reactions := reactions s @ ls\<rparr>))"
proof -
  define left where "left = remaining_allowances p used (so_posts opts)"
  define ids where "ids = find_social_candidates c (ctx_interests x) now (alw_views left) s"
  obtain seen s1 s2 where 1: "record_views c ids now s = Inr (seen, s1)"
    and 2: "like_viewed_posts (sfr_draws fr) (sfr_likes fr) c seen (pol_probability p) (alw_likes left) now s1 = Inr s2"
    and 3: "follow_qualified_authors c (so_threshold opts) (alw_follows left) now s2 = Inr s'"
    using assms unfolding act_def Let_def left_def [symmetric, unfolded assms(2)] ids_def [symmetric]
    by (auto simp: bindR_Inr_iff)
  obtain vs where v: "s1 = s\<lparr>post_views := post_views s @ vs\<rparr>" "seen = map viw_post vs" "length vs \<le> length ids"
    "\<forall>r \<in> set vs. viw_character r = c \<and> viw_first r = now \<and> viw_post r \<in> set ids \<and> \<not> viewed c (viw_post r) s"
    by (rule record_views_effect [OF 1])
  obtain ls where l: "s2 = s1\<lparr>reactions := reactions s1 @ ls\<rparr>" "length ls \<le> nat (alw_likes left)"
    "\<forall>r \<in> set ls. is_like_of c r \<and> rct_created r = now \<and> rct_post r \<in> set seen"
    by (rule like_viewed_posts_effect [OF 2])
  obtain fs where f: "s' = s2\<lparr>character_follows := character_follows s2 @ fs\<rparr>" "length fs \<le> nat (alw_follows left)"
    "\<forall>f \<in> set fs. cfl_follower f = c \<and> cfl_at f = now \<and> cfl_followed f \<in> set (authors_to_follow c (so_threshold opts) s2)"
    by (rule follow_effect [OF 3])
  have ids: "length ids \<le> nat (alw_views left)"
    "\<forall>i \<in> set ids. \<exists>q \<in> set (posts (core_db s)). pst_id q = i \<and>
       social_candidate c (filter (\<lambda>t. t \<noteq> []) (map normal_interest (ctx_interests x))) now s q"
    by (auto simp: ids_def find_social_candidates_def Let_def sql_limit_def dest!: in_set_takeD)
  have same: "authors_to_follow c n s2 = authors_to_follow c n (s\<lparr>reactions := reactions s @ ls\<rparr>)" for n
    by (simp add: authors_to_follow_def liked_posts_of_def active_chr_def follows_chr_def v(1) l(1))
  show ?thesis
  proof (rule that)
    show "s' = s\<lparr>post_views := post_views s @ vs, reactions := reactions s @ ls, character_follows := character_follows s @ fs\<rparr>"
      by (simp add: v(1) l(1) f(1))
    show "int (length vs) \<le> max 0 (min (so_posts opts) (pol_views p - alw_views used))"
      using v(3) ids(1) by (auto simp: left_def remaining_allowances_def)
    show "int (length ls) \<le> max 0 (pol_likes p - alw_likes used)" using l(2) by (auto simp: left_def remaining_allowances_def)
    show "int (length fs) \<le> max 0 (pol_follows p - alw_follows used)" using f(2) by (auto simp: left_def remaining_allowances_def)
  qed (use v(2,4) ids(2) l(3) f(3) same in \<open>auto dest!: in_set_takeD\<close>)
qed

lemma process_elim:
  assumes "process_claimed_activity opts z fr claim now later s = Inr (b, s')"
  obtains "s' = s" | "s' = snd (finish claim later Sj_Cancelled s)"
  | p x s1 where "find_for_execution (scl_character claim) s = Some p" "find_activity_context z (scl_character claim) now s = Some x"
      "can_act (Some p) (Some x)" "act opts fr (scl_character claim) p x now s = Inr s1"
      "s' = snd (finish claim later Sj_Completed s1)" "has_live_lease claim now s"
proof -
  let ?c = "scl_character claim"
  have run: "(if \<not> has_live_lease claim now s then Inr (False, s)
      else if \<not> can_act (find_for_execution ?c s) (find_activity_context z ?c now s) then Inr (finish claim later Sj_Cancelled s)
      else bindR (act opts fr ?c (the (find_for_execution ?c s)) (the (find_activity_context z ?c now s)) now s) (\<lambda>s1.
           case finish claim later Sj_Completed s1 of (finished, s2) \<Rightarrow>
           bindR (ensure finished (Plain_Error ''character social lease expired before completion'')) (\<lambda>_. Inr (True, s2)))) = Inr (b, s')"
    using assms unfolding process_claimed_activity_def with_activity_transaction_def Let_def by simp
  show ?thesis
  proof (cases "\<not> has_live_lease claim now s \<or> \<not> can_act (find_for_execution ?c s) (find_activity_context z ?c now s)")
    case True
    then have "s' = s \<or> s' = snd (finish claim later Sj_Cancelled s)" using run by (auto split: if_splits)
    then show ?thesis using that(1,2) by blast
  next
    case False
    then obtain p x where px: "find_for_execution ?c s = Some p" "find_activity_context z ?c now s = Some x" "can_act (Some p) (Some x)"
      by (auto simp: can_act_def split: option.splits)
    then have "bindR (act opts fr ?c p x now s) (\<lambda>s1. case finish claim later Sj_Completed s1 of (finished, s2) \<Rightarrow>
        bindR (ensure finished (Plain_Error ''character social lease expired before completion'')) (\<lambda>_. Inr (True, s2))) = Inr (b, s')"
      using run False by simp
    then obtain s1 where a: "act opts fr ?c p x now s = Inr s1"
      and f: "(case finish claim later Sj_Completed s1 of (finished, s2) \<Rightarrow>
        bindR (ensure finished (Plain_Error ''character social lease expired before completion'')) (\<lambda>_. Inr (True, s2))) = Inr (b, s')"
      unfolding bindR_Inr_iff by blast
    have "s' = snd (finish claim later Sj_Completed s1)"
      using f by (cases "finish claim later Sj_Completed s1") (auto simp: bindR_Inr_iff)
    with a px False show ?thesis by (intro that(3)) simp_all
  qed
qed

lemma finish_simps [simp]:
  "post_views (snd (finish claim now st s)) = post_views s" "reactions (snd (finish claim now st s)) = reactions s"
  "character_follows (snd (finish claim now st s)) = character_follows s"
  "count_views c from until (snd (finish claim now st s)) = count_views c from until s"
  "count_daily_likes c from until (snd (finish claim now st s)) = count_daily_likes c from until s"
  "count_daily_follows c from until (snd (finish claim now st s)) = count_daily_follows c from until s"
  by (simp_all add: finish_def count_views_def count_daily_likes_def count_daily_follows_def)

text \<open>C29: A run never takes a character over its daily limits of views, likes and follows, nor looks at more posts than a
  run may.\<close>

theorem activity_within_limits:
  assumes "process_claimed_activity opts z fr claim now later s = Inr (b, s')"
    and "find_for_execution (scl_character claim) s = Some p" "find_activity_context z (scl_character claim) now s = Some x"
    and "ctx_start x = Some from" "ctx_end x = Some until"
  shows "count_views (scl_character claim) from until s' \<le> max (count_views (scl_character claim) from until s) (pol_views p) \<and>
    count_daily_likes (scl_character claim) from until s' \<le> max (count_daily_likes (scl_character claim) from until s) (pol_likes p) \<and>
    count_daily_follows (scl_character claim) from until s' \<le> max (count_daily_follows (scl_character claim) from until s) (pol_follows p) \<and>
    int (length (post_views s')) \<le> int (length (post_views s)) + max 0 (so_posts opts)"
  using assms(1)
proof (cases rule: process_elim)
  case (3 q y s1)
  let ?c = "scl_character claim"
  have px: "q = p" "y = x" using 3(1,2) assms(2,3) by simp_all
  obtain vs ls fs where s1: "s1 = s\<lparr>post_views := post_views s @ vs, reactions := reactions s @ ls, character_follows := character_follows s @ fs\<rparr>"
    and n: "int (length vs) \<le> max 0 (min (so_posts opts) (pol_views p - count_views ?c from until s))"
      "int (length ls) \<le> max 0 (pol_likes p - count_daily_likes ?c from until s)"
      "int (length fs) \<le> max 0 (pol_follows p - count_daily_follows ?c from until s)"
    by (rule act_effect [OF 3(4) refl]) (simp add: px assms(4,5) used_allowances_def)
  have "length (filter f vs) \<le> length vs" "length (filter g ls) \<le> length ls" "length (filter h fs) \<le> length fs" for f g h by simp_all
  then have "count_views ?c from until s1 \<le> count_views ?c from until s + int (length vs)"
    "count_daily_likes ?c from until s1 \<le> count_daily_likes ?c from until s + int (length ls)"
    "count_daily_follows ?c from until s1 \<le> count_daily_follows ?c from until s + int (length fs)"
    by (simp_all add: s1 count_views_def count_daily_likes_def count_daily_follows_def)
  with n show ?thesis by (auto simp: 3(5) s1)
qed simp_all

text \<open>A run looks at posts of other, active characters that carry one of the character's interests and that it has not
  looked at before, likes only posts it looked at in this run, and follows only the authors it liked often enough.\<close>

theorem activity_rows:
  assumes "process_claimed_activity opts z fr claim now later s = Inr (b, s')"
    and "find_activity_context z (scl_character claim) now s = Some x"
  shows "(\<forall>v \<in> set (post_views s') - set (post_views s). viw_character v = scl_character claim \<and> viw_first v = now \<and>
      \<not> viewed (scl_character claim) (viw_post v) s \<and>
      (\<exists>q \<in> set (posts (core_db s)). pst_id q = viw_post v \<and>
         social_candidate (scl_character claim) (filter (\<lambda>t. t \<noteq> []) (map normal_interest (ctx_interests x))) now s q)) \<and>
    (\<forall>r \<in> set (reactions s') - set (reactions s). is_like_of (scl_character claim) r \<and> rct_created r = now \<and>
      \<not> viewed (scl_character claim) (rct_post r) s \<and> viewed (scl_character claim) (rct_post r) s') \<and>
    (\<forall>f \<in> set (character_follows s') - set (character_follows s). cfl_follower f = scl_character claim \<and> cfl_at f = now \<and>
      cfl_followed f \<in> set (authors_to_follow (scl_character claim) (so_threshold opts) (s\<lparr>reactions := reactions s'\<rparr>)))"
  using assms(1)
proof (cases rule: process_elim)
  case (3 q y s1)
  let ?c = "scl_character claim"
  have x: "y = x" using 3(2) assms(2) by simp
  obtain vs ls fs where s1: "s1 = s\<lparr>post_views := post_views s @ vs, reactions := reactions s @ ls, character_follows := character_follows s @ fs\<rparr>"
    and v: "\<forall>v \<in> set vs. viw_character v = ?c \<and> viw_first v = now \<and> \<not> viewed ?c (viw_post v) s \<and>
       (\<exists>q \<in> set (posts (core_db s)). pst_id q = viw_post v \<and>
          social_candidate ?c (filter (\<lambda>t. t \<noteq> []) (map normal_interest (ctx_interests x))) now s q)"
    and l: "\<forall>r \<in> set ls. is_like_of ?c r \<and> rct_created r = now \<and> rct_post r \<in> viw_post ` set vs"
    and f: "\<forall>f \<in> set fs. cfl_follower f = ?c \<and> cfl_at f = now \<and>
       cfl_followed f \<in> set (authors_to_follow ?c (so_threshold opts) (s\<lparr>reactions := reactions s @ ls\<rparr>))"
    by (rule act_effect [OF 3(4) refl]) (simp add: x)
  have s': "post_views s' = post_views s @ vs" "reactions s' = reactions s @ ls" "character_follows s' = character_follows s @ fs"
    by (simp_all add: 3(5) s1)
  have "\<not> viewed ?c (rct_post r) s \<and> viewed ?c (rct_post r) s'" if "r \<in> set ls" for r
  proof -
    have "rct_post r \<in> viw_post ` set vs" using l that by blast
    then obtain w where w: "w \<in> set vs" "rct_post r = viw_post w" by blast
    then have "viewed ?c (viw_post w) s'" using v by (auto simp: viewed_def s' list_ex_iff)
    then show ?thesis using v w by simp
  qed
  then show ?thesis using v l f by (auto simp: s')
qed auto

end
