(* ===== verification/Social_Props.thy ===== *)
theory Social_Props
  imports Social_Follows
begin

text \<open>
  The jobs of the social activity on any interleaving of workers: \<open>social_step\<close> runs the transactions at any instants
  and with any claims, fresh or stale, and everything else the backend does. A claim draws a new uuid as its lease token;
  \<open>used\<close> are tokens that are not drawn again.
\<close>

section \<open>Steps\<close>

inductive social_step :: "social_options \<Rightarrow> zones \<Rightarrow> uid set \<Rightarrow> backend \<Rightarrow> backend \<Rightarrow> bool" for opts z used where
  schedules: "schedule_tx z jid now c s = Inr (b, s') \<Longrightarrow> social_step opts z used s s'"
| claims: "token \<notin> used \<Longrightarrow> claim_one opts token (js_date now) cand s = (x, s') \<Longrightarrow> social_step opts z used s s'"
| processes: "process_claimed_activity opts z fr claim now later s = Inr (b, s') \<Longrightarrow> social_step opts z used s s'"
| fails: "fail_job opts claim now message s = (b, s') \<Longrightarrow> social_step opts z used s s'"
| elsewhere: "social_jobs s' = social_jobs s \<Longrightarrow> social_step opts z used s s'"

abbreviation social_run :: "social_options \<Rightarrow> zones \<Rightarrow> uid set \<Rightarrow> backend \<Rightarrow> backend \<Rightarrow> bool" where
  "social_run opts z used \<equiv> (social_step opts z used)\<^sup>*\<^sup>*"

text \<open>The rows of a table that obeys its constraints, with no more attempts than allowed and leases that end on a whole
  millisecond, as JavaScript wrote them.\<close>

definition social_job_ok :: "social_options \<Rightarrow> social_job_row \<Rightarrow> bool" where
  "social_job_ok opts j \<longleftrightarrow> 0 \<le> sjb_attempts j \<and> sjb_attempts j \<le> so_attempts opts \<and>
     (sjb_status j = Sj_Running \<longleftrightarrow> sjb_token j \<noteq> None) \<and> (sjb_token j = None \<longleftrightarrow> sjb_lease j = None) \<and>
     (sjb_finished j = None \<longleftrightarrow> active_job j) \<and> (case sjb_lease j of None \<Rightarrow> True | Some t \<Rightarrow> js_date t = t)"

definition social_jobs_ok :: "social_options \<Rightarrow> social_job_row list \<Rightarrow> bool" where
  "social_jobs_ok opts js \<longleftrightarrow> distinct (map sjb_id js) \<and> distinct (map sjb_character (filter active_job js)) \<and>
     (\<forall>j \<in> set js. social_job_ok opts j)"

section \<open>What a transaction does to the jobs\<close>

text \<open>Every transaction adds one queued job of a character without an active one, or changes active jobs only, keeping their
  ids and characters.\<close>

inductive job_move :: "social_options \<Rightarrow> uid set \<Rightarrow> social_job_row list \<Rightarrow> social_job_row list \<Rightarrow> bool" for opts used where
  unmoved: "job_move opts used js js"
| queued: "sjb_id j \<notin> sjb_id ` set js \<Longrightarrow> sjb_status j = Sj_Queued \<Longrightarrow> sjb_attempts j = 0 \<Longrightarrow> sjb_token j = None \<Longrightarrow>
    sjb_lease j = None \<Longrightarrow> sjb_finished j = None \<Longrightarrow> \<forall>k \<in> set js. active_job k \<longrightarrow> sjb_character k \<noteq> sjb_character j \<Longrightarrow>
    job_move opts used js (js @ [j])"
| leased: "token \<notin> used \<Longrightarrow> j \<in> set js \<Longrightarrow> sjb_id j = i \<Longrightarrow> active_job j \<Longrightarrow> sjb_attempts j < so_attempts opts \<Longrightarrow> js_date until = until \<Longrightarrow>
    job_move opts used js (update_where (\<lambda>k. sjb_id k = i) (assign_lease now until token) js)"
| let_go: "(\<And>j. p j \<Longrightarrow> j \<in> set js \<Longrightarrow> active_job j) \<Longrightarrow>
    (\<And>j. sjb_id (f j) = sjb_id j \<and> sjb_character (f j) = sjb_character j \<and> sjb_attempts (f j) = sjb_attempts j \<and>
       sjb_status (f j) \<noteq> Sj_Running \<and> sjb_token (f j) = None \<and> sjb_lease (f j) = None \<and>
       (sjb_finished (f j) = None \<longleftrightarrow> active_job (f j))) \<Longrightarrow>
    job_move opts used js (update_where p f js)"

lemma schedule_tx_jobs:
  assumes "schedule_tx z jid now c s = Inr (b, s')"
  obtains "social_jobs s' = social_jobs s"
  | j where "social_jobs s' = social_jobs s @ [j]" "\<not> list_ex (job_clash j) (social_jobs s)" "sjb_status j = Sj_Queued"
      "sjb_attempts j = 0" "sjb_token j = None" "sjb_lease j = None" "sjb_finished j = None"
proof -
  have "social_jobs s' = social_jobs s \<or> (\<exists>s1. social_jobs s1 = social_jobs s \<and> schedule_job jid c now s1 = Inr (b, s'))"
    using assms by (auto simp: schedule_tx_def with_activity_transaction_def Let_def advance_def split: option.splits if_splits)
  then show ?thesis
  proof
    assume "\<exists>s1. social_jobs s1 = social_jobs s \<and> schedule_job jid c now s1 = Inr (b, s')"
    then have "social_jobs s' = social_jobs s \<or> (\<exists>j. social_jobs s' = social_jobs s @ [j] \<and> \<not> list_ex (job_clash j) (social_jobs s) \<and>
        sjb_status j = Sj_Queued \<and> sjb_attempts j = 0 \<and> sjb_token j = None \<and> sjb_lease j = None \<and> sjb_finished j = None)"
      by (auto simp: schedule_job_def Let_def bindR_Inr_iff split: if_splits)
    then show ?thesis using that by blast
  qed (use that in blast)
qed

lemma schedule_tx_move:
  assumes "schedule_tx z jid now c s = Inr (b, s')" shows "job_move opts used (social_jobs s) (social_jobs s')"
  using assms
proof (cases rule: schedule_tx_jobs)
  case (2 j)
  show ?thesis unfolding 2(1) by (rule queued) (use 2 in \<open>auto simp: list_ex_iff job_clash_def\<close>)
qed (simp add: unmoved)

lemma claim_one_move:
  assumes "claim_one opts token (js_date now) cand s = (x, s')" "token \<notin> used" "distinct (map sjb_id (social_jobs s))"
  shows "job_move opts used (social_jobs s) (social_jobs s')"
proof (cases "find (\<lambda>j. sjb_id j = fst cand) (social_jobs s)")
  case None
  then show ?thesis using assms by (simp add: claim_one_def unmoved)
next
  case (Some j)
  then have j: "j \<in> set (social_jobs s)" "sjb_id j = fst cand" by (auto dest: find_in_set)
  show ?thesis
  proof (cases "eligible (js_date now) j")
    case False
    then show ?thesis using assms Some by (simp add: claim_one_def unmoved)
  next
    case True
    then have a: "active_job j" by (auto simp: eligible_def)
    have whole: "js_date (js_date now + ms (so_lease opts)) = js_date now + ms (so_lease opts)" by (simp add: js_date_def ms_def)
    show ?thesis
    proof (cases "so_attempts opts \<le> sjb_attempts j")
      case False
      then have "s' = upd_job (fst cand) (assign_lease (js_date now) (js_date now + ms (so_lease opts)) token) s"
        using assms True Some by (auto simp: claim_one_def)
      then show ?thesis using leased [OF assms(2) j a _ whole] False by simp
    next
      case over: True
      then have s': "s' = upd_job (fst cand) (mark_attempts_exhausted (js_date now)) s"
        using assms True Some by (auto simp: claim_one_def)
      have "active_job k" if "sjb_id k = fst cand" "k \<in> set (social_jobs s)" for k
        using unique_key_eq [OF assms(3) j(1) that(2)] that(1) j(2) a by simp
      then have "job_move opts used (social_jobs s) (update_where (\<lambda>k. sjb_id k = fst cand) (mark_attempts_exhausted (js_date now)) (social_jobs s))"
        by (intro let_go) (auto simp: mark_attempts_exhausted_def)
      then show ?thesis by (simp add: s')
    qed
  qed
qed

lemma finish_move:
  assumes "st = Sj_Completed \<or> st = Sj_Cancelled"
  shows "job_move opts used (social_jobs s) (social_jobs (snd (finish claim later st s)))"
  unfolding finish_def snd_conv by (simp, rule let_go) (use assms in \<open>auto simp: holds_lease_def\<close>)

lemma fail_job_move:
  assumes "fail_job opts claim now message s = (b, s')"
  shows "job_move opts used (social_jobs s) (social_jobs s')"
  using assms unfolding fail_job_def Let_def by (auto simp: holds_lease_def intro!: let_go)

lemma act_jobs: "act opts fr c p x now s = Inr s' \<Longrightarrow> social_jobs s' = social_jobs s"
  by (erule act_effect [OF _ refl]) simp

lemma process_move:
  assumes "process_claimed_activity opts z fr claim now later s = Inr (b, s')"
  shows "job_move opts used (social_jobs s) (social_jobs s')"
  using assms
proof (cases rule: process_elim)
  case (3 p x s1)
  then show ?thesis using finish_move [of Sj_Completed opts used s1 claim later] by (simp add: act_jobs)
qed (simp_all add: unmoved finish_move)

lemma social_step_move:
  assumes "social_step opts z used s s'" "distinct (map sjb_id (social_jobs s))"
  shows "job_move opts used (social_jobs s) (social_jobs s')"
  using assms
proof (cases rule: social_step.cases)
  case elsewhere
  then show ?thesis by (simp add: unmoved)
qed (auto intro: schedule_tx_move claim_one_move process_move fail_job_move assms(2))

section \<open>Invariants of the jobs\<close>

lemma active_characters_update:
  assumes "\<And>j. j \<in> set js \<Longrightarrow> p j \<Longrightarrow> active_job j" "\<And>j. sjb_character (f j) = sjb_character j"
    and "distinct (map sjb_character (filter active_job js))"
  shows "distinct (map sjb_character (filter active_job (update_where p f js)))"
  using assms
proof (induction js)
  case (Cons a js)
  have "sjb_character ` set (filter active_job (update_where p f js)) \<subseteq> sjb_character ` set (filter active_job js)"
    using Cons.prems(1,2) by (auto simp: set_update_where image_iff)
  then show ?case using Cons by auto
qed simp

lemma job_move_ok:
  assumes "job_move opts used js js'" "social_jobs_ok opts js" "0 \<le> so_attempts opts"
  shows "social_jobs_ok opts js'"
  using assms(1)
proof cases
  case (queued j)
  then show ?thesis using assms(2,3) by (auto simp: social_jobs_ok_def social_job_ok_def)
next
  case (leased token j i until now)
  have one: "k = j" if "sjb_id k = i" "k \<in> set js" for k
    using assms(2) leased(3,4) that by (auto simp: social_jobs_ok_def intro: unique_key_eq)
  have p: "active_job k" if "sjb_id k = i" "k \<in> set js" for k using one [OF that] leased(5) by simp
  have "distinct (map sjb_character (filter active_job js'))" unfolding leased(1)
    by (rule active_characters_update) (use assms(2) p in \<open>auto simp: social_jobs_ok_def assign_lease_def\<close>)
  moreover have "social_job_ok opts k" if k: "k \<in> set js'" for k
  proof -
    obtain q where q: "q \<in> set js" "k = (if sjb_id q = i then assign_lease now until token q else q)"
      using k unfolding leased(1) by (auto simp: set_update_where)
    have ok: "social_job_ok opts q" using assms(2) q(1) by (simp add: social_jobs_ok_def)
    show ?thesis
    proof (cases "sjb_id q = i")
      case True
      then have "q = j" by (rule one [OF _ q(1)])
      then show ?thesis using ok q(2) True leased(5-7) by (auto simp: social_job_ok_def assign_lease_def)
    qed (use ok q(2) in simp)
  qed
  ultimately show ?thesis using assms(2) unfolding leased(1) by (simp add: social_jobs_ok_def assign_lease_def)
next
  case (let_go p f)
  have "distinct (map sjb_character (filter active_job js'))" unfolding let_go(1)
    by (rule active_characters_update) (use assms(2) let_go(2,3) in \<open>auto simp: social_jobs_ok_def\<close>)
  moreover have "social_job_ok opts k" if "k \<in> set js'" for k
    using that assms(2) let_go(2,3) unfolding let_go(1) by (auto simp: set_update_where social_jobs_ok_def social_job_ok_def)
  ultimately show ?thesis using assms(2) let_go(3) unfolding let_go(1) by (simp add: social_jobs_ok_def)
qed (use assms in simp)

lemma job_move_final:
  assumes "job_move opts used js js'" "distinct (map sjb_id js)" "j \<in> set js" "\<not> active_job j"
  shows "j \<in> set js'"
  using assms(1)
proof cases
  case (leased token k i until)
  have "sjb_id j \<noteq> i" using unique_key_eq [OF assms(2,3) leased(3)] leased(4,5) assms(4) by auto
  then show ?thesis using assms(3) unfolding leased(1) by (force simp: set_update_where)
next
  case (let_go p f)
  have "\<not> p j" using let_go(2) assms(3,4) by blast
  then show ?thesis using assms(3) unfolding let_go(1) by (force simp: set_update_where)
qed (use assms in simp_all)

lemma social_run_ok:
  assumes "social_run opts z used s s'" "social_jobs_ok opts (social_jobs s)" "0 \<le> so_attempts opts"
  shows "social_jobs_ok opts (social_jobs s')"
  using assms
proof (induction rule: rtranclp_induct)
  case (step y w)
  then show ?case using social_step_move [OF step(2), THEN job_move_ok] by (simp add: social_jobs_ok_def)
qed

text \<open>C30: In every reachable state a character has at most one active job, no job has had more attempts than allowed, a job
  holds a lease exactly while it runs, and a job that is completed, failed or cancelled is never touched again.\<close>

theorem social_jobs_invariant:
  assumes "social_run opts z used s s'" "social_jobs_ok opts (social_jobs s)" "0 \<le> so_attempts opts"
  shows "social_jobs_ok opts (social_jobs s') \<and> (\<forall>j \<in> set (social_jobs s). \<not> active_job j \<longrightarrow> j \<in> set (social_jobs s'))"
  using assms
proof (induction rule: rtranclp_induct)
  case (step y w)
  have ok: "social_jobs_ok opts (social_jobs y)" using step by blast
  then have d: "distinct (map sjb_id (social_jobs y))" by (simp add: social_jobs_ok_def)
  note m = social_step_move [OF step(2) d]
  show ?case using step job_move_ok [OF m ok] job_move_final [OF m d] by blast
qed simp

section \<open>Leases\<close>

lemma claim_one_elim:
  assumes "claim_one opts token now cand s = (Some c, s')"
  obtains j where "j \<in> set (social_jobs s)" "sjb_id j = fst cand" "eligible now j" "scl_id c = fst cand" "scl_token c = token"
    "s' = upd_job (fst cand) (assign_lease now (now + ms (so_lease opts)) token) s" "find (\<lambda>j. sjb_id j = fst cand) (social_jobs s) = Some j"
  using assms unfolding claim_one_def
  by (cases "find (\<lambda>j. sjb_id j = fst cand) (social_jobs s)") (auto split: if_splits dest: find_in_set)

text \<open>C31: While a lease lasts nobody else gets the job or another job of the same character, and a claim of another job leaves
  the leased one as it is.\<close>

theorem social_lease_exclusive:
  assumes "social_jobs_ok opts (social_jobs s)" "j \<in> set (social_jobs s)" "holds_lease claim (js_date now) j"
    and "claim_one opts token (js_date now) cand s = (Some other, s')"
  shows "scl_id other \<noteq> scl_id claim \<and> j \<in> set (social_jobs s') \<and>
    (\<forall>k \<in> set (social_jobs s'). sjb_id k = scl_id other \<longrightarrow> sjb_character k \<noteq> sjb_character j)"
proof -
  obtain q where q: "q \<in> set (social_jobs s)" "sjb_id q = fst cand" "eligible (js_date now) q" "scl_id other = fst cand"
    and s': "s' = upd_job (fst cand) (assign_lease (js_date now) (js_date now + ms (so_lease opts)) token) s"
    using claim_one_elim [OF assms(4)] by metis
  have d: "distinct (map sjb_id (social_jobs s))" "distinct (map sjb_character (filter active_job (social_jobs s)))"
    and ok: "social_job_ok opts j"
    using assms(1,2) by (auto simp: social_jobs_ok_def)
  obtain t where t: "sjb_lease j = Some t" "js_date now < t" "sjb_status j = Sj_Running" "sjb_id j = scl_id claim"
    using assms(3) by (auto simp: holds_lease_def split: option.splits)
  then have "\<not> eligible (js_date now) j" using ok by (auto simp: eligible_def social_job_ok_def)
  then have ne: "q \<noteq> j" using q(3) by blast
  then have id: "fst cand \<noteq> scl_id claim" using unique_key_eq [OF d(1) q(1) assms(2)] q(2) t(4) by metis
  have "active_job q" using q(3) by (auto simp: eligible_def)
  then have chr: "sjb_character q \<noteq> sjb_character j"
    using unique_key_eq [OF d(2), of q j] q(1) assms(2) t(3) ne by auto
  have "sjb_character k \<noteq> sjb_character j" if k: "k \<in> set (social_jobs s')" "sjb_id k = fst cand" for k
  proof -
    obtain r where r: "r \<in> set (social_jobs s)" "sjb_id r = fst cand" "sjb_character r = sjb_character k"
      using k by (auto simp: s' set_update_where assign_lease_def split: if_splits)
    then show ?thesis using unique_key_eq [OF d(1) r(1) q(1)] q(2) chr by simp
  qed
  moreover have "j \<in> set (social_jobs s')" using assms(2) id t(4) by (force simp: s' set_update_where)
  ultimately show ?thesis using id q(4) by simp
qed

lemma job_move_token:
  assumes "job_move opts used js js'" "token \<in> used" "\<forall>j \<in> set js. sjb_token j \<noteq> Some token"
  shows "\<forall>j \<in> set js'. sjb_token j \<noteq> Some token"
  using assms by cases (auto simp: set_update_where assign_lease_def)

text \<open>A worker whose job was taken over, finished or given up changes nothing any more, whatever happened since: neither
  does its run act, nor does it finish or fail the job of another worker.\<close>

theorem social_lease_lost:
  assumes "social_run opts z {scl_token claim} s s'" "distinct (map sjb_id (social_jobs s))"
    and "\<forall>j \<in> set (social_jobs s). sjb_token j \<noteq> Some (scl_token claim)"
  shows "process_claimed_activity opts z fr claim now later s' = Inr (False, s') \<and> fail_job opts claim now message s' = (False, s')"
proof -
  have "distinct (map sjb_id (social_jobs s')) \<and> (\<forall>j \<in> set (social_jobs s'). sjb_token j \<noteq> Some (scl_token claim))"
    using assms
  proof (induction rule: rtranclp_induct)
    case (step y w)
    then have d: "distinct (map sjb_id (social_jobs y))" by blast
    note m = social_step_move [OF step(2) d]
    have "distinct (map sjb_id (social_jobs w))"
      using m d by cases (auto simp: assign_lease_def)
    then show ?case using job_move_token [OF m] step by blast
  qed simp
  then have no: "\<forall>j \<in> set (social_jobs s'). \<not> holds_lease claim now j" by (auto simp: holds_lease_def)
  then have "\<not> has_live_lease claim now s'" "\<not> list_ex (holds_lease claim now) (social_jobs s')"
    by (auto simp: has_live_lease_def list_ex_iff)
  moreover have "update_where (holds_lease claim now) f (social_jobs s') = social_jobs s'" for f
    using no by (intro update_where_id) auto
  ultimately show ?thesis
    by (simp add: process_claimed_activity_def with_activity_transaction_def fail_job_def Let_def)
qed

section \<open>The worker\<close>

definition attempts_made :: "backend \<Rightarrow> int" where
  "attempts_made s = sum_list (map sjb_attempts (social_jobs s))"

lemma assign_lease_attempts [simp]: "sjb_attempts (assign_lease now until token j) = sjb_attempts j + 1"
  by (simp add: assign_lease_def)

lemma attempts_lease:
  assumes "distinct (map sjb_id js)" "j \<in> set js" "sjb_id j = i"
  shows "sum_list (map sjb_attempts (update_where (\<lambda>k. sjb_id k = i) (assign_lease now until token) js)) =
    sum_list (map sjb_attempts js) + 1"
  using assms
proof (induction js)
  case (Cons a js)
  show ?case
  proof (cases "sjb_id a = i")
    case True
    then have "update_where (\<lambda>k. sjb_id k = i) (assign_lease now until token) js = js"
      using Cons.prems(1) by (intro update_where_id) (auto simp: image_iff)
    with True show ?thesis by simp
  next
    case False
    with Cons show ?thesis by auto
  qed
qed simp

lemma claim_loop_attempts:
  assumes "claim_loop opts token now cands s = (x, s')" "distinct (map sjb_id (social_jobs s))"
  shows "attempts_made s' = attempts_made s + (if x = None then 0 else 1) \<and> distinct (map sjb_id (social_jobs s'))"
  using assms
proof (induction opts token now cands s rule: claim_loop.induct)
  case (2 opts token now cand rest s)
  obtain y s1 where one: "claim_one opts token now cand s = (y, s1)" by fastforce
  show ?case
  proof (cases y)
    case None
    then have "attempts_made s1 = attempts_made s \<and> distinct (map sjb_id (social_jobs s1))"
      using one 2(3) by (auto simp: claim_one_def attempts_made_def mark_attempts_exhausted_def split: option.splits if_splits)
    then show ?thesis using 2(1) [OF one [symmetric] None] 2(2) one None by simp
  next
    case (Some c)
    obtain j where "j \<in> set (social_jobs s)" "sjb_id j = fst cand"
      "s1 = upd_job (fst cand) (assign_lease now (now + ms (so_lease opts)) token) s"
      using claim_one_elim [OF one [unfolded Some]] by metis
    then have "attempts_made s1 = attempts_made s + 1" "distinct (map sjb_id (social_jobs s1))"
      using attempts_lease [OF 2(3)] 2(3) by (simp_all add: attempts_made_def assign_lease_def)
    then show ?thesis using 2(2) one Some by auto
  qed
qed simp

lemma finish_attempts [simp]:
  "attempts_made (snd (finish claim now st s)) = attempts_made s"
  "map sjb_id (social_jobs (snd (finish claim now st s))) = map sjb_id (social_jobs s)"
  by (simp_all add: finish_def attempts_made_def)

lemma fail_job_attempts [simp]:
  "attempts_made (snd (fail_job opts claim now message s)) = attempts_made s"
  "map sjb_id (social_jobs (snd (fail_job opts claim now message s))) = map sjb_id (social_jobs s)"
  by (simp_all add: fail_job_def Let_def attempts_made_def)

lemma process_attempts:
  assumes "process_claimed_activity opts z fr claim now later s = Inr (b, s')"
  shows "attempts_made s' = attempts_made s \<and> map sjb_id (social_jobs s') = map sjb_id (social_jobs s)"
  using assms
proof (cases rule: process_elim)
  case (3 p x s1)
  then show ?thesis using act_jobs [OF 3(4)] by (simp add: attempts_made_def [of s1] attempts_made_def [of s])
qed simp_all

lemma process_next_attempts:
  assumes "process_next_activity opts z msg fr now s = (r, s')" "distinct (map sjb_id (social_jobs s))"
  shows "attempts_made s' = attempts_made s + (if r = Inr False then 0 else 1) \<and> distinct (map sjb_id (social_jobs s'))"
proof -
  obtain x s1 where c: "claim_next opts (sfr_token fr) now s = (x, s1)" by fastforce
  have 1: "attempts_made s1 = attempts_made s + (if x = None then 0 else 1)" "distinct (map sjb_id (social_jobs s1))"
    using claim_loop_attempts [OF c [unfolded claim_next_def] assms(2)] by simp_all
  show ?thesis
  proof (cases x)
    case None
    then show ?thesis using assms(1) c 1 by (simp add: process_next_activity_def)
  next
    case (Some claim)
    show ?thesis
    proof (cases "process_claimed_activity opts z fr claim now now s1")
      case (Inl e)
      then show ?thesis using assms(1) c 1 Some by (auto simp: process_next_activity_def)
    next
      case (Inr y)
      obtain b s2 where y: "y = (b, s2)" by (cases y)
      then have "r = Inr True" "s' = s2" using assms(1) c Some Inr by (simp_all add: process_next_activity_def)
      then show ?thesis using process_attempts [OF Inr [unfolded y]] 1 Some by simp
    qed
  qed
qed

lemma run_loop_attempts:
  assumes "run_loop opts z msg fr now processed s = (n, s')" "distinct (map sjb_id (social_jobs s))"
  shows "attempts_made s' = attempts_made s + (n - processed) \<and> processed \<le> n \<and> n \<le> max processed (so_batch opts)"
  using assms
proof (induction opts z msg fr now processed s rule: run_loop.induct)
  case (1 opts z msg fr now processed s)
  show ?case
  proof (cases "so_batch opts \<le> processed")
    case True
    then show ?thesis using "1.prems"(1) by (simp add: run_loop.simps [of opts z msg fr now processed])
  next
    case False
    obtain r s1 where p: "process_next_activity opts z msg (fr processed) now s = (r, s1)" by fastforce
    note a = process_next_attempts [OF p "1.prems"(2)]
    show ?thesis
    proof (cases "r = Inr False")
      case True
      then show ?thesis using "1.prems"(1) p a False by (simp add: run_loop.simps [of opts z msg fr now processed])
    next
      case more: False
      then have "run_loop opts z msg fr now (processed + 1) s1 = (n, s')"
        using "1.prems"(1) p False by (cases r) (auto simp: run_loop.simps [of opts z msg fr now processed] split: bool.splits)
      then have "attempts_made s' = attempts_made s1 + (n - (processed + 1)) \<and> processed + 1 \<le> n \<and> n \<le> max (processed + 1) (so_batch opts)"
        using 1 p False more a by (cases r) auto
      then show ?thesis using a more False by auto
    qed
  qed
qed

lemma schedule_loop_steps:
  assumes "schedule_loop z jids now cs s = (r, s')" "distinct (map sjb_id (social_jobs s))"
  shows "social_run opts z used s s' \<and> attempts_made s' = attempts_made s \<and> distinct (map sjb_id (social_jobs s'))"
  using assms
proof (induction z jids now cs s arbitrary: r rule: schedule_loop.induct)
  case (2 z jids now c cs s)
  show ?case
  proof (cases "schedule_tx z (jids (length cs)) now c s")
    case (Inl e)
    then show ?thesis using 2 by simp
  next
    case (Inr y)
    obtain b s1 where y: "y = (b, s1)" by (cases y)
    note tx = Inr [unfolded y]
    have "attempts_made s1 = attempts_made s \<and> distinct (map sjb_id (social_jobs s1))"
      using tx 2(3) by (cases rule: schedule_tx_jobs) (auto simp: attempts_made_def job_clash_def list_ex_iff)
    then have a: "attempts_made s1 = attempts_made s" "distinct (map sjb_id (social_jobs s1))" by blast+
    obtain q where q: "schedule_loop z jids now cs s1 = (q, s')"
      using 2(2) tx by (auto split: prod.splits sum.splits)
    have "social_run opts z used s1 s' \<and> attempts_made s' = attempts_made s1 \<and> distinct (map sjb_id (social_jobs s'))"
      by (rule 2(1) [OF _ _ q a(2)]) (use tx in simp_all)
    moreover have "social_step opts z used s s1" using tx by (rule schedules)
    ultimately show ?thesis using a(1) by (auto intro: converse_rtranclp_into_rtranclp)
  qed
qed simp

lemma claim_loop_steps:
  "claim_loop opts token (js_date now) cands s = (x, s') \<Longrightarrow> token \<notin> used \<Longrightarrow> social_run opts z used s s'"
proof (induction opts token "js_date now" cands s rule: claim_loop.induct)
  case (2 opts token cand rest s)
  obtain y s1 where one: "claim_one opts token (js_date now) cand s = (y, s1)" by fastforce
  then have "social_step opts z used s s1" using 2(3) by (intro claims)
  moreover have "social_run opts z used s1 s'"
    using 2(1) [OF one [symmetric]] 2(2,3) one by (cases y) auto
  ultimately show ?case by (rule converse_rtranclp_into_rtranclp)
qed simp

lemma process_next_steps:
  assumes "process_next_activity opts z msg fr (js_date now) s = (r, s')" "sfr_token fr \<notin> used"
  shows "social_run opts z used s s'"
proof -
  obtain x s1 where c: "claim_next opts (sfr_token fr) (js_date now) s = (x, s1)" by fastforce
  have 1: "social_run opts z used s s1" using claim_loop_steps [OF c [unfolded claim_next_def] assms(2)] .
  have "social_run opts z used s1 s'"
  proof (cases x)
    case (Some claim)
    show ?thesis
    proof (cases "process_claimed_activity opts z fr claim (js_date now) (js_date now) s1")
      case (Inl e)
      then have "s' = snd (fail_job opts claim (js_date now) (msg e) s1)"
        using assms(1) c Some by (auto simp: process_next_activity_def)
      then show ?thesis using fails [of opts claim "js_date now" "msg e" s1] by (metis r_into_rtranclp prod.collapse)
    next
      case (Inr y)
      then have "social_step opts z used s1 s'"
        using assms(1) c Some by (cases y) (auto simp: process_next_activity_def intro: processes)
      then show ?thesis by (rule r_into_rtranclp)
    qed
  qed (use assms(1) c in \<open>simp add: process_next_activity_def\<close>)
  with 1 show ?thesis by (rule rtranclp_trans)
qed

lemma run_loop_steps:
  assumes "run_loop opts z msg fr (js_date now) processed s = (n, s')" "\<forall>i. sfr_token (fr i) \<notin> used"
  shows "social_run opts z used s s'"
  using assms
proof (induction opts z msg fr "js_date now" processed s rule: run_loop.induct)
  case (1 opts z msg fr processed s)
  obtain r s1 where p: "process_next_activity opts z msg (fr processed) (js_date now) s = (r, s1)" by fastforce
  have one: "social_run opts z used s s1" using process_next_steps [OF p] "1.prems"(2) by blast
  show ?case
  proof (cases "so_batch opts \<le> processed \<or> r = Inr False")
    case True
    then show ?thesis using "1.prems"(1) p one by (auto simp: run_loop.simps [of opts z msg fr "js_date now" processed] split: if_splits)
  next
    case False
    then have "run_loop opts z msg fr (js_date now) (processed + 1) s1 = (n, s')"
      using "1.prems"(1) p by (cases r) (auto simp: run_loop.simps [of opts z msg fr "js_date now" processed] split: bool.splits)
    then have "social_run opts z used s1 s'" using 1 p False by (cases r) auto
    with one show ?thesis by (rule rtranclp_trans)
  qed
qed

lemma attempts_bound:
  assumes "social_jobs_ok opts (social_jobs s)"
  shows "attempts_made s \<le> so_attempts opts * int (length (social_jobs s))"
proof -
  have "sum_list (map sjb_attempts js) \<le> so_attempts opts * int (length js)" if "\<forall>j \<in> set js. sjb_attempts j \<le> so_attempts opts" for js
    using that by (induction js) (auto simp: algebra_simps)
  then show ?thesis using assms by (auto simp: attempts_made_def social_jobs_ok_def social_job_ok_def)
qed

text \<open>C32: A run of the worker ends: it processes at most a batch, every processed activity uses up one of the attempts of a job,
  and the jobs have only so many attempts, so that without new jobs the worker soon finds nothing to do.\<close>

theorem worker_terminates:
  assumes "run_once opts z msg jids fr (js_date now) s = (Inr n, s')" "social_jobs_ok opts (social_jobs s)" "0 \<le> so_attempts opts"
  shows "0 \<le> n \<and> n \<le> max 0 (so_batch opts) \<and> attempts_made s' = attempts_made s + n \<and>
    attempts_made s' \<le> so_attempts opts * int (length (social_jobs s'))"
proof -
  obtain m s1 where sch: "schedule_due_activities opts z jids (js_date now) s = (Inr m, s1)"
    and loop: "run_loop opts z msg fr (js_date now) 0 s1 = (n, s')"
    using assms(1) by (auto simp: run_once_def split: prod.splits sum.splits)
  have d: "distinct (map sjb_id (social_jobs s))" using assms(2) by (simp add: social_jobs_ok_def)
  have 1: "social_run opts z {} s s1" "attempts_made s1 = attempts_made s" "distinct (map sjb_id (social_jobs s1))"
    using schedule_loop_steps [OF sch [unfolded schedule_due_activities_def] d] by blast+
  have 2: "attempts_made s' = attempts_made s1 + n" "0 \<le> n" "n \<le> max 0 (so_batch opts)"
    using run_loop_attempts [OF loop 1(3)] by auto
  have "social_run opts z {} s1 s'" using run_loop_steps [OF loop] by simp
  then have "social_run opts z {} s s'" using 1(1) by simp
  then have "social_jobs_ok opts (social_jobs s')" using social_run_ok assms(2,3) by blast
  from attempts_bound [OF this] show ?thesis using 1(2) 2 by simp
qed

end
