(* ===== verification/Social_Demo.thy ===== *)
theory Social_Demo
  imports Social_Props
begin

text \<open>
  A small world on which the properties of the social activity apply: two active characters in one time zone, a post of
  each on a common interest, and a due policy of each.
\<close>

definition demo_zones :: zones where
  "demo_zones = \<lparr>zn_valid = (\<lambda>t. t = ''Asia/Seoul''), zn_local = (\<lambda>_ _. ''12:00:00''), zn_day_start = (\<lambda>_ _. 0),
     zn_day_end = (\<lambda>_ _. 86400000000)\<rparr>"

definition demo_opts :: social_options where
  "demo_opts = (character_social_worker_options (\<lambda>_. None))\<lparr>so_threshold := 1\<rparr>"

definition demo_fresh_social :: "uid \<Rightarrow> social_fresh" where
  "demo_fresh_social token = \<lparr>sfr_token = token, sfr_draws = (\<lambda>_. 0), sfr_likes = (\<lambda>i. ''like'')\<rparr>"

definition demo_character :: "uid \<Rightarrow> character_row" where
  "demo_character i = \<lparr>chr_id = i, chr_public = i, chr_name = i, chr_bio = '''', chr_interests = Some [''#Art''], chr_status = Active,
     chr_created = 0, chr_crop_x = 0, chr_crop_y = 0, chr_crop_zoom = 1, chr_image = None, chr_timezone = Some ''Asia/Seoul''\<rparr>"

definition demo_policy :: "uid \<Rightarrow> policy_row" where
  "demo_policy c = \<lparr>pol_character = c, pol_enabled = True, pol_start = ''09:00:00'', pol_end = ''18:00:00'', pol_interval = 30,
     pol_views = 3, pol_likes = 2, pol_follows = 1, pol_probability = 1 / 2, pol_next = Some 0\<rparr>"

definition demo_world :: backend where
  "demo_world = empty_backend\<lparr>
     core_db := empty_db\<lparr>characters := [demo_character ''a'', demo_character ''b''],
       posts := [\<lparr>pst_id = ''pa'', pst_character = ''a'', pst_type = Feed_Post, pst_content = ''x'', pst_created = 10\<rparr>,
                 \<lparr>pst_id = ''pb'', pst_character = ''b'', pst_type = Feed_Post, pst_content = ''y'', pst_created = 20\<rparr>]\<rparr>,
     hashtags := [\<lparr>htg_id = ''h'', htg_name = ''art''\<rparr>],
     post_hashtags := [\<lparr>pht_post = ''pa'', pht_hashtag = ''h''\<rparr>, \<lparr>pht_post = ''pb'', pht_hashtag = ''h''\<rparr>],
     policies := [demo_policy ''a'', demo_policy ''b'']\<rparr>"

definition demo_due :: backend where
  "demo_due = snd (schedule_due_activities demo_opts demo_zones (\<lambda>i. int i) 5000 demo_world)"

definition demo_claimed :: "social_claim option \<times> backend" where
  "demo_claimed = claim_one demo_opts ''t1'' (js_date 6000) (1, ''a'') demo_due"

definition demo_claim :: social_claim where
  "demo_claim = the (fst demo_claimed)"

definition demo_acted :: "(bool \<times> backend) res" where
  "demo_acted = process_claimed_activity demo_opts demo_zones (demo_fresh_social ''t1'') demo_claim 7000 8000 (snd demo_claimed)"

lemma demo_acted_rows:
  "map viw_post (post_views (after demo_acted)) = [''pb'']" "map rct_post (reactions (after demo_acted)) = [''pb'']"
  "map cfl_followed (character_follows (after demo_acted)) = [''b'']" "map sjb_status (social_jobs (after demo_acted)) = [Sj_Completed, Sj_Queued]"
  by code_simp+

lemma demo_acted_run:
  "process_claimed_activity demo_opts demo_zones (demo_fresh_social ''t1'') demo_claim 7000 8000 (snd demo_claimed) =
     Inr (out demo_acted, after demo_acted)"
proof -
  have "\<not> isl demo_acted" by code_simp
  then show ?thesis using run_ok [of demo_acted] by (simp add: demo_acted_def)
qed

lemma demo_context:
  "find_for_execution (scl_character demo_claim) (snd demo_claimed) \<noteq> None"
  "find_activity_context demo_zones (scl_character demo_claim) 7000 (snd demo_claimed) \<noteq> None"
  "ctx_start (the (find_activity_context demo_zones (scl_character demo_claim) 7000 (snd demo_claimed))) = Some 0"
  "ctx_end (the (find_activity_context demo_zones (scl_character demo_claim) 7000 (snd demo_claimed))) = Some 86400000000"
  by code_simp+

theorem activity_within_limits_witness:
  "count_views (scl_character demo_claim) 0 86400000000 (after demo_acted)
     \<le> max (count_views (scl_character demo_claim) 0 86400000000 (snd demo_claimed))
         (pol_views (the (find_for_execution (scl_character demo_claim) (snd demo_claimed))))"
proof -
  obtain p x where p: "find_for_execution (scl_character demo_claim) (snd demo_claimed) = Some p"
    and x: "find_activity_context demo_zones (scl_character demo_claim) 7000 (snd demo_claimed) = Some x"
    using demo_context(1,2) by auto
  show ?thesis using activity_within_limits [OF demo_acted_run p x] demo_context(3,4) by (simp add: p x)
qed

theorem activity_rows_witness:
  "list_all (\<lambda>r. r \<in> set (reactions (snd demo_claimed)) \<or>
     is_like_of (scl_character demo_claim) r \<and> \<not> viewed (scl_character demo_claim) (rct_post r) (snd demo_claimed) \<and>
     viewed (scl_character demo_claim) (rct_post r) (after demo_acted)) (reactions (after demo_acted))"
proof -
  obtain x where x: "find_activity_context demo_zones (scl_character demo_claim) 7000 (snd demo_claimed) = Some x"
    using demo_context(2) by auto
  show ?thesis using activity_rows [OF demo_acted_run x] unfolding list_all_iff by blast
qed

lemma demo_due_ok: "social_jobs_ok demo_opts (social_jobs demo_due)" "0 \<le> so_attempts demo_opts"
  by code_simp+

theorem social_jobs_invariant_witness:
  "social_jobs_ok demo_opts (social_jobs (snd demo_claimed)) \<and>
    list_all (\<lambda>j. \<not> active_job j \<longrightarrow> j \<in> set (social_jobs (snd demo_claimed))) (social_jobs demo_due)"
  unfolding list_all_iff
proof (rule social_jobs_invariant [OF _ demo_due_ok])
  show "social_run demo_opts demo_zones {} demo_due (snd demo_claimed)"
    by (rule r_into_rtranclp, rule social_step.claims [of "''t1''" _ _ 6000 "(1, ''a'')" _ "fst demo_claimed"])
      (simp_all add: demo_claimed_def)
qed

definition demo_other :: "social_claim option \<times> backend" where
  "demo_other = claim_one demo_opts ''t2'' (js_date 7000) (0, ''b'') (snd demo_claimed)"

theorem social_lease_exclusive_witness:
  "scl_id (the (fst demo_other)) \<noteq> scl_id demo_claim \<and> hd (social_jobs (snd demo_claimed)) \<in> set (social_jobs (snd demo_other)) \<and>
    list_all (\<lambda>k. sjb_id k = scl_id (the (fst demo_other)) \<longrightarrow>
       sjb_character k \<noteq> sjb_character (hd (social_jobs (snd demo_claimed)))) (social_jobs (snd demo_other))"
  unfolding list_all_iff
proof (rule social_lease_exclusive)
  show "social_jobs_ok demo_opts (social_jobs (snd demo_claimed))" by code_simp
  show "hd (social_jobs (snd demo_claimed)) \<in> set (social_jobs (snd demo_claimed))" by code_simp
  show "holds_lease demo_claim (js_date 7000) (hd (social_jobs (snd demo_claimed)))" by code_simp
  have "fst demo_other \<noteq> None" by code_simp
  then show "claim_one demo_opts ''t2'' (js_date 7000) (0, ''b'') (snd demo_claimed) = (Some (the (fst demo_other)), snd demo_other)"
    unfolding demo_other_def by (auto simp: prod_eq_iff)
qed

definition demo_taken_over :: backend where
  "demo_taken_over = snd (claim_one demo_opts ''t3'' (js_date 90000000) (1, ''a'') (snd demo_claimed))"

theorem social_lease_lost_witness:
  "process_claimed_activity demo_opts demo_zones (demo_fresh_social ''t1'') demo_claim 90000000 90000000 demo_taken_over = Inr (False, demo_taken_over) \<and>
    fail_job demo_opts demo_claim 90000000 ''late'' demo_taken_over = (False, demo_taken_over)"
proof (rule social_lease_lost [OF rtranclp.rtrancl_refl])
  show "distinct (map sjb_id (social_jobs demo_taken_over))" by code_simp
  show "\<forall>j \<in> set (social_jobs demo_taken_over). sjb_token j \<noteq> Some (scl_token demo_claim)" by code_simp
qed

definition demo_run :: "int res \<times> backend" where
  "demo_run = run_once demo_opts demo_zones (\<lambda>_. ''error'') (\<lambda>i. int i) (\<lambda>i. demo_fresh_social (show_int i)) (js_date 5000) demo_world"

theorem worker_terminates_witness:
  "0 \<le> projr (fst demo_run) \<and> projr (fst demo_run) \<le> max 0 (so_batch demo_opts) \<and>
    attempts_made (snd demo_run) = attempts_made demo_world + projr (fst demo_run) \<and>
    attempts_made (snd demo_run) \<le> so_attempts demo_opts * int (length (social_jobs (snd demo_run)))"
proof (rule worker_terminates)
  have "\<not> isl (fst demo_run)" by code_simp
  then show "run_once demo_opts demo_zones (\<lambda>_. ''error'') (\<lambda>i. int i) (\<lambda>i. demo_fresh_social (show_int i)) (js_date 5000) demo_world =
      (Inr (projr (fst demo_run)), snd demo_run)"
    unfolding demo_run_def by (metis prod.collapse sum.collapse(2))
  show "social_jobs_ok demo_opts (social_jobs demo_world)" by code_simp
  show "0 \<le> so_attempts demo_opts" by (rule demo_due_ok)
qed

end
