(* ===== verification/Support.thy ===== *)
theory Support
  imports Reactions Check_In
begin

text \<open>
  The support of the users: inquiries (\<open>src/inquiries/inquiries.service.ts\<close>), reports (\<open>src/reports/reports.service.ts\<close>),
  notices (\<open>src/notices/notices.service.ts\<close>) and frequent questions (\<open>src/faqs/faqs.service.ts\<close>). Inquiries are
  answered elsewhere.
\<close>

section \<open>Inquiries\<close>

record inquiry_item =
  iqi_id :: uid
  iqi_category :: string
  iqi_body :: string
  iqi_status :: inquiry_status
  iqi_answered :: "time option"
  iqi_created :: time

record inquiry_detail = inquiry_item +
  iqd_answer :: "string option"

definition inquiry_categories :: "string list" where
  "inquiry_categories = [''account'', ''credit'', ''bug'', ''content'', ''etc'']"

definition max_inquiry_body_length :: nat where
  "max_inquiry_body_length = 2000"

definition daily_inquiry_limit :: nat where
  "daily_inquiry_limit = 10"

definition inquiry_list_item :: "inquiry_row \<Rightarrow> inquiry_item" where
  "inquiry_list_item r = \<lparr>iqi_id = inq_id r, iqi_category = inq_category r, iqi_body = inq_body r, iqi_status = inq_status r,
     iqi_answered = map_option js_date (inq_answered r), iqi_created = js_date (inq_created r)\<rparr>"

definition required_category :: "json option \<Rightarrow> string res" where
  "required_category v = (case v of
       Some (J_String c) \<Rightarrow> bindR (ensure (c \<in> set inquiry_categories) (Bad_Request ''category is invalid'')) (\<lambda>_. Inr c)
     | _ \<Rightarrow> Inl (Bad_Request ''category is invalid''))"

definition required_body :: "json option \<Rightarrow> string res" where
  "required_body v =
     bindR (require_some (trimmed (json_text v)) (Bad_Request ''body is required'')) (\<lambda>t.
     bindR (ensure (utf16_length t \<le> max_inquiry_body_length)
              (Bad_Request (''body must be at most '' @ show_int (int max_inquiry_body_length) @ '' characters''))) (\<lambda>_. Inr t))"

definition kst_day_start :: "time \<Rightarrow> time" where
  "kst_day_start now =
     (let kst_offset = ms (9 * 60 * 60 * 1000); day = ms (24 * 60 * 60 * 1000)
      in (js_date now + kst_offset) div day * day - kst_offset)"

definition on_kst_day :: "time \<Rightarrow> time \<Rightarrow> bool" where
  "on_kst_day now t \<longleftrightarrow> kst_day_start now \<le> t \<and> t < kst_day_start now + ms (24 * 60 * 60 * 1000)"

definition ins_inquiry :: "inquiry_row \<Rightarrow> backend \<Rightarrow> (inquiry_row \<times> backend) res" where
  "ins_inquiry row s =
     bindR (constrained True (inq_id row \<notin> inq_id ` set (inquiries s)) (has_user (core_db s) (inq_user row)))
       (\<lambda>_. Inr (row, s\<lparr>inquiries := inquiries s @ [row]\<rparr>))"

text \<open>
  The transaction waits for the lock of the user and only then reads the clock, \<open>now\<close>, for the day it counts; the row it inserts carries
  \<open>CURRENT_TIMESTAMP\<close>, the instant \<open>started\<close> at which the transaction began.
\<close>

definition create_inquiry ::
    "time \<Rightarrow> time \<Rightarrow> uid \<Rightarrow> uid \<Rightarrow> json option \<Rightarrow> json option \<Rightarrow> backend \<Rightarrow> (inquiry_item \<times> backend) res" where
  "create_inquiry started now i u category body s =
     bindR (required_category category) (\<lambda>c.
     bindR (required_body body) (\<lambda>t.
     bindR (ensure (length (filter (\<lambda>r. inq_user r = u \<and> on_kst_day now (inq_created r)) (inquiries s)) < daily_inquiry_limit)
              (Too_Many_Requests ''Too many inquiries today'')) (\<lambda>_.
     bindR (ins_inquiry \<lparr>inq_id = i, inq_user = u, inq_category = c, inq_body = t, inq_status = Inq_Submitted,
              inq_answer = None, inq_answered = None, inq_created = started\<rparr> s) (\<lambda>(r, s1).
     Inr (inquiry_list_item r, s1)))))"

definition inquiry_key :: "inquiry_row \<Rightarrow> time \<times> uid" where
  "inquiry_key r = (inq_created r, inq_id r)"

text \<open>A cursor that names no row of the user gives an empty page.\<close>

definition list_inquiries_page :: "uid \<Rightarrow> page_input \<Rightarrow> backend \<Rightarrow> inquiry_item page res" where
  "list_inquiries_page u inp s =
     bindR (decode_cursor (pg_cursor inp)) (\<lambda>cursor_id.
     let cursor = Option.bind cursor_id (\<lambda>i. find (\<lambda>r. inq_id r = uuid_cast i \<and> inq_user r = u) (inquiries s));
         rows = sql_limit (pg_limit inp + 1) (rev (sort_key inquiry_key (filter (\<lambda>r. inq_user r = u \<and>
           (case cursor_id of None \<Rightarrow> True
            | Some i \<Rightarrow> (case cursor of
                None \<Rightarrow> False
              | Some c \<Rightarrow> inq_created r < js_date (inq_created c) \<or>
                         inq_created r = js_date (inq_created c) \<and> inq_id r < uuid_cast i))) (inquiries s))))
     in Inr (page_from_rows iqi_id (map inquiry_list_item rows) (pg_limit inp)))"

definition own_inquiry :: "uid \<Rightarrow> string \<Rightarrow> inquiry_row \<Rightarrow> bool" where
  "own_inquiry u i r \<longleftrightarrow> inq_id r = uuid_cast i \<and> inq_user r = u"

definition find_inquiry :: "uid \<Rightarrow> string \<Rightarrow> backend \<Rightarrow> inquiry_detail option" where
  "find_inquiry u i s =
     (if \<not> is_uuid i then None
      else map_option (\<lambda>r. inquiry_item.extend (inquiry_list_item r) \<lparr>iqd_answer = inq_answer r\<rparr>)
        (find (own_inquiry u i) (inquiries s)))"

text \<open>
  Deleting reads the inquiry and then deletes it if it is still unanswered: two statements, between which it can be answered.
  The first reads \<open>s\<close>, the second finds \<open>s'\<close>.
\<close>

definition delete_inquiry_check :: "uid \<Rightarrow> string \<Rightarrow> backend \<Rightarrow> unit res" where
  "delete_inquiry_check u i s =
     bindR (ensure (is_uuid i) (Not_Found ''Inquiry not found'')) (\<lambda>_.
     bindR (require_some (find (own_inquiry u i) (inquiries s)) (Not_Found ''Inquiry not found'')) (\<lambda>r.
     ensure (inq_status r = Inq_Submitted) (Conflict ''Inquiry already answered'')))"

definition delete_submitted :: "uid \<Rightarrow> string \<Rightarrow> backend \<Rightarrow> (unit \<times> backend) res" where
  "delete_submitted u i s =
     bindR (ensure (list_ex (\<lambda>r. own_inquiry u i r \<and> inq_status r = Inq_Submitted) (inquiries s)) (Conflict ''Inquiry already answered'')) (\<lambda>_.
     Inr ((), s\<lparr>inquiries := filter (\<lambda>r. \<not> (own_inquiry u i r \<and> inq_status r = Inq_Submitted)) (inquiries s)\<rparr>))"

definition delete_inquiry :: "uid \<Rightarrow> string \<Rightarrow> backend \<Rightarrow> backend \<Rightarrow> (unit \<times> backend) res" where
  "delete_inquiry u i s s' = bindR (delete_inquiry_check u i s) (\<lambda>_. delete_submitted u i s')"

section \<open>Reports\<close>

record report_receipt =
  rrc_id :: uid
  rrc_status :: report_status
  rrc_created :: time

record report_detail =
  rpd_id :: uid
  rpd_type :: report_target
  rpd_target :: uid
  rpd_reason :: string
  rpd_details :: "string option"
  rpd_resolution :: "string option"
  rpd_status :: report_status
  rpd_created :: time
  rpd_updated :: time

definition parse_report_target :: "json option \<Rightarrow> report_target res" where
  "parse_report_target v =
     (if v = Some (J_String ''character'') then Inr Rp_Character else if v = Some (J_String ''post'') then Inr Rp_Post
      else if v = Some (J_String ''message'') then Inr Rp_Message else Inl (Bad_Request ''Invalid report target type''))"

definition target_exists :: "uid \<Rightarrow> report_target \<Rightarrow> string \<Rightarrow> db \<Rightarrow> bool" where
  "target_exists u k t s \<longleftrightarrow> is_uuid t \<and> (case k of
       Rp_Character \<Rightarrow> list_ex (\<lambda>r. chr_id r = uuid_cast t) (characters s)
     | Rp_Post \<Rightarrow> list_ex (\<lambda>r. pst_id r = uuid_cast t) (posts s)
     | Rp_Message \<Rightarrow> list_ex (\<lambda>m. msg_id m = uuid_cast t \<and>
         list_ex (\<lambda>c. cnv_id c = msg_conversation m \<and> cnv_user c = u) (conversations s)) (messages s))"

definition to_receipt :: "report_row \<Rightarrow> report_receipt" where
  "to_receipt r = \<lparr>rrc_id = rpt_id r, rrc_status = rpt_status r, rrc_created = js_date (rpt_created r)\<rparr>"

definition to_detail :: "report_row \<Rightarrow> report_detail" where
  "to_detail r = \<lparr>rpd_id = rpt_id r, rpd_type = rpt_type r, rpd_target = rpt_target r, rpd_reason = rpt_reason r,
     rpd_details = rpt_details r, rpd_resolution = rpt_resolution r, rpd_status = rpt_status r,
     rpd_created = js_date (rpt_created r), rpd_updated = js_date (rpt_updated r)\<rparr>"

definition ins_report :: "report_row \<Rightarrow> backend \<Rightarrow> (report_row \<times> backend) res" where
  "ins_report row s =
     bindR (constrained True (rpt_id row \<notin> rpt_id ` set (reports s)) (has_user (core_db s) (rpt_user row)))
       (\<lambda>_. Inr (row, s\<lparr>reports := reports s @ [row]\<rparr>))"

record report_input =
  rpi_type :: "json option"
  rpi_target :: "json option"
  rpi_reason :: "json option"
  rpi_details :: "json option"

definition create_report :: "time \<Rightarrow> uid \<Rightarrow> uid \<Rightarrow> report_input \<Rightarrow> backend \<Rightarrow> (report_receipt \<times> backend) res" where
  "create_report now i u inp s =
     bindR (parse_report_target (rpi_type inp)) (\<lambda>k.
     bindR (ensure (case rpi_details inp of None \<Rightarrow> True | Some J_Null \<Rightarrow> True | Some (J_String _) \<Rightarrow> True | _ \<Rightarrow> False)
              (Bad_Request ''Report details must be a string'')) (\<lambda>_.
     bindR (require_some (trimmed (json_text (rpi_reason inp))) (Bad_Request ''Report reason is required'')) (\<lambda>reason.
     bindR (require_some (trimmed (json_text (rpi_target inp))) (Bad_Request ''Report target is required'')) (\<lambda>t.
     bindR (ensure (target_exists u k t (core_db s)) (Bad_Request ''Report target not found'')) (\<lambda>_.
     bindR (ins_report \<lparr>rpt_id = i, rpt_user = u, rpt_type = k, rpt_target = uuid_cast t, rpt_reason = reason,
              rpt_details = trimmed (json_text (rpi_details inp)), rpt_resolution = None, rpt_status = Rp_Submitted,
              rpt_created = now, rpt_updated = js_date now\<rparr> s) (\<lambda>(r, s1).
     Inr (to_receipt r, s1)))))))"

definition find_report_for_user :: "uid \<Rightarrow> string \<Rightarrow> backend \<Rightarrow> report_detail option" where
  "find_report_for_user u i s =
     (if \<not> is_uuid i then None
      else map_option to_detail (find (\<lambda>r. rpt_id r = uuid_cast i \<and> rpt_user r = u) (reports s)))"

section \<open>Notices\<close>

record notice_item =
  nti_id :: uid
  nti_title :: string
  nti_pinned :: bool
  nti_published :: time

definition max_pinned_notices :: int where
  "max_pinned_notices = 20"

definition notice_key :: "notice_row \<Rightarrow> time \<times> uid" where
  "notice_key r = (case ntc_published r of Some t \<Rightarrow> t | None \<Rightarrow> 0, ntc_id r)"

definition notice_list_item :: "notice_row \<Rightarrow> notice_item" where
  "notice_list_item r = \<lparr>nti_id = ntc_id r, nti_title = ntc_title r, nti_pinned = ntc_pinned r,
     nti_published = js_date (fst (notice_key r))\<rparr>"

definition published_by :: "time \<Rightarrow> notice_row \<Rightarrow> bool" where
  "published_by now r \<longleftrightarrow> (case ntc_published r of Some t \<Rightarrow> t \<le> js_date now | None \<Rightarrow> False)"

definition notices_where :: "(notice_row \<Rightarrow> bool) \<Rightarrow> int \<Rightarrow> backend \<Rightarrow> notice_row list" where
  "notices_where q n s = sql_limit n (rev (sort_key notice_key (filter q (notices s))))"

text \<open>The pinned notices come with the first page only.\<close>

definition list_published_notices :: "time \<Rightarrow> page_input \<Rightarrow> backend \<Rightarrow> (notice_item list option \<times> notice_item page) res" where
  "list_published_notices now inp s =
     bindR (decode_cursor (pg_cursor inp)) (\<lambda>cursor_id.
     let cursor = Option.bind cursor_id (\<lambda>i. find (\<lambda>r. ntc_id r = uuid_cast i) (notices s));
         behind = (\<lambda>r. case cursor_id of
             None \<Rightarrow> True
           | Some i \<Rightarrow> (case Option.bind cursor ntc_published of
               None \<Rightarrow> False
             | Some t \<Rightarrow> fst (notice_key r) < js_date t \<or> fst (notice_key r) = js_date t \<and> ntc_id r < uuid_cast i))
     in Inr ((if cursor_id = None
              then Some (map notice_list_item (notices_where (\<lambda>r. published_by now r \<and> ntc_pinned r) max_pinned_notices s))
              else None),
             page_from_rows nti_id (map notice_list_item
               (notices_where (\<lambda>r. published_by now r \<and> \<not> ntc_pinned r \<and> behind r) (pg_limit inp + 1) s)) (pg_limit inp)))"

definition find_published_notice :: "time \<Rightarrow> string \<Rightarrow> backend \<Rightarrow> (notice_item \<times> string) option" where
  "find_published_notice now i s =
     (if \<not> is_uuid i then None
      else map_option (\<lambda>r. (notice_list_item r, ntc_body r))
        (find (\<lambda>r. ntc_id r = uuid_cast i \<and> published_by now r) (notices s)))"

section \<open>Frequent questions\<close>

record faq_item =
  fqi_id :: uid
  fqi_category :: string
  fqi_question :: string
  fqi_answer :: string
  fqi_order :: int

definition max_faq_items :: int where
  "max_faq_items = 200"

definition faq_item_of :: "faq_row \<Rightarrow> faq_item" where
  "faq_item_of r = \<lparr>fqi_id = faq_id r, fqi_category = faq_category r, fqi_question = faq_question r, fqi_answer = faq_answer r,
     fqi_order = faq_order r\<rparr>"

definition list_published_faqs :: "string option \<Rightarrow> backend \<Rightarrow> faq_item list" where
  "list_published_faqs category s =
     map faq_item_of (sql_limit max_faq_items (sort_key (\<lambda>r. (faq_order r, - faq_created r))
       (filter (\<lambda>r. faq_published r \<and> (case trimmed category of None \<Rightarrow> True | Some c \<Rightarrow> faq_category r = c)) (faqs s))))"

end
