(* ===== verification/Requests.thy ===== *)
theory Requests
  imports Auth Checkout Check_In Ledger_Pages Messages Notifications Feed Support
begin

text \<open>
  What stands between a request and the services: the classes that describe the bodies (\<open>src/*/dto/*.ts\<close>), the validation pipe that
  \<open>src/core/core.module.ts\<close> installs with \<open>whitelist\<close>, and the guards the controllers share. The pipe is a parameter: it takes a
  description and a body, and answers with an error or with the body it lets through.
\<close>

section \<open>Descriptions of bodies\<close>

datatype rule =
    Is_Optional | Is_String | Is_Not_Empty | Is_Number | Is_Object | Is_Array | Matches string | Allowed
  | Nested_Each "(string \<times> rule list) list"

type_synonym dto = "(string \<times> rule list) list"

definition consent_input_dto :: dto where
  "consent_input_dto = [(''type'', [Allowed]), (''agreed'', [Allowed])]"

definition update_consents_dto :: dto where
  "update_consents_dto = [(''consents'', [Is_Optional, Is_Array, Nested_Each consent_input_dto])]"

definition update_auth_user_dto :: dto where
  "update_auth_user_dto = [(''displayName'', [Is_Optional, Is_String]), (''bio'', [Is_Optional, Is_String]),
     (''profileImageUrl'', [Is_Optional, Is_String])]"

definition register_dto :: dto where
  "register_dto = [(''email'', [Is_Optional, Is_String]), (''password'', [Is_Optional, Is_String]),
     (''displayName'', [Is_Optional, Is_String]), (''consents'', [Is_Optional, Is_Array, Nested_Each consent_input_dto])]"

definition login_dto :: dto where
  "login_dto = [(''email'', [Is_Optional, Is_String]), (''password'', [Allowed])]"

definition social_login_dto :: dto where
  "social_login_dto = [(''idToken'', [Is_Optional, Is_String]), (''displayName'', [Is_Optional, Is_String]),
     (''consents'', [Is_Optional, Is_Array, Nested_Each consent_input_dto])]"

definition refresh_token_dto :: dto where
  "refresh_token_dto = [(''refreshToken'', [Is_Optional, Is_String])]"

definition change_password_dto :: dto where
  "change_password_dto = [(''currentPassword'', [Is_Optional, Is_String]), (''newPassword'', [Is_Optional, Is_String])]"

definition delete_account_dto :: dto where
  "delete_account_dto = [(''password'', [Is_Optional, Is_String]), (''reasonCategory'', [Is_Optional, Is_String]),
     (''reasonText'', [Is_Optional, Is_String])]"

definition local_adult_verification_dto :: dto where
  "local_adult_verification_dto = [(''providerIdentityKey'', [Is_Optional, Is_String])]"

definition spend_credits_dto :: dto where
  "spend_credits_dto = [(''amount'', [Is_Optional, Is_Number]), (''reason'', [Is_Optional, Is_String])]"

definition check_in_query_dto :: dto where
  "check_in_query_dto = [(''month'', [Is_Optional, Matches (''^'' @ [CHR 0x5C] @ ''d{4}-(0[1-9]|1[0-2])$'')])]"

definition client_event_dto :: dto where
  "client_event_dto = [(''eventType'', [Is_Optional, Is_String]), (''targetType'', [Is_Optional, Is_String]),
     (''targetId'', [Is_Optional, Is_String]), (''metadata'', [Is_Optional, Is_Object])]"

definition follow_character_dto :: dto where
  "follow_character_dto = [(''characterId'', [Is_String, Is_Not_Empty])]"

definition create_inquiry_dto :: dto where
  "create_inquiry_dto = [(''category'', [Is_Optional, Is_String]), (''body'', [Is_Optional, Is_String])]"

definition send_message_dto :: dto where
  "send_message_dto = [(''characterId'', [Is_String, Is_Not_Empty]), (''body'', [Is_Optional, Is_String])]"

definition mark_conversation_read_dto :: dto where
  "mark_conversation_read_dto = [(''characterId'', [Is_String, Is_Not_Empty])]"

definition retry_reply_dto :: dto where
  "retry_reply_dto = [(''turnId'', [Is_String, Is_Not_Empty])]"

definition create_post_comment_dto :: dto where
  "create_post_comment_dto = [(''body'', [Is_Optional, Is_String])]"

definition post_reaction_request_dto :: dto where
  "post_reaction_request_dto = [(''reactionType'', [Is_Optional, Is_String])]"

definition create_purchase_checkout_dto :: dto where
  "create_purchase_checkout_dto = [(''productId'', [Is_String, Is_Not_Empty]), (''successUrl'', [Is_Optional, Is_String]),
     (''returnUrl'', [Is_Optional, Is_String])]"

definition verify_in_app_purchase_dto :: dto where
  "verify_in_app_purchase_dto = [(''productId'', [Is_String, Is_Not_Empty]), (''proof'', [Is_String, Is_Not_Empty])]"

definition request_purchase_refund_dto :: dto where
  "request_purchase_refund_dto = [(''idempotencyKey'', [Is_String, Is_Not_Empty])]"

definition create_report_dto :: dto where
  "create_report_dto = [(''targetType'', [Is_String, Is_Not_Empty]), (''targetId'', [Is_String, Is_Not_Empty]),
     (''reason'', [Is_String, Is_Not_Empty]), (''details'', [Is_Optional, Is_String])]"

section \<open>The application and a call\<close>

text \<open>The configuration and the libraries, and what a call brings with it: its header, the instants it reads and the ids it draws.\<close>

record app =
  app_crypto :: crypto
  app_auth :: auth_env
  app_pay :: env
  app_gateway :: gateway
  app_url :: "string \<Rightarrow> url option"
  app_media :: media_env
  app_social :: "social_provider list"
  app_hmac :: "string \<Rightarrow> string \<Rightarrow> 8 word list"
  app_is_ip :: "string \<Rightarrow> bool"
  app_pipe :: "dto \<Rightarrow> json option \<Rightarrow> json res"
  app_describe :: "api_error \<Rightarrow> string"

record call =
  call_authorization :: "string option"
  call_time :: "nat \<Rightarrow> time"
  call_id :: "nat \<Rightarrow> uid"
  call_auth :: auth_fresh
  call_pay :: fresh
  call_chat :: message_ids

type_synonym 'a handler = "backend \<Rightarrow> 'a res \<times> backend"

definition answering :: "(backend \<Rightarrow> 'a res) \<Rightarrow> 'a handler" where
  "answering f s = (f s, s)"

definition refuse_with :: "api_error \<Rightarrow> 'a handler" where
  "refuse_with err s = (Inl err, s)"

definition in_core :: "(db \<Rightarrow> 'a res \<times> db) \<Rightarrow> 'a handler" where
  "in_core f s = (case f (core_db s) of (r, d) \<Rightarrow> (r, s\<lparr>core_db := d\<rparr>))"

text \<open>The pipe comes before the handler, and most handlers look at the session first.\<close>

definition with_body :: "app \<Rightarrow> dto \<Rightarrow> json option \<Rightarrow> (json \<Rightarrow> 'a handler) \<Rightarrow> 'a handler" where
  "with_body a d body k s = (case app_pipe a d body of Inl err \<Rightarrow> (Inl err, s) | Inr j \<Rightarrow> k j s)"

definition signed_in :: "app \<Rightarrow> call \<Rightarrow> (uid \<Rightarrow> 'a handler) \<Rightarrow> 'a handler" where
  "signed_in a c k s =
     (case user_id_from_authorization (app_crypto a) (app_auth a) (call_time c 0) (call_authorization c) s of
        Inl err \<Rightarrow> (Inl err, s) | Inr u \<Rightarrow> k u s)"

definition paged :: "string option \<Rightarrow> string option \<Rightarrow> (page_input \<Rightarrow> 'a handler) \<Rightarrow> 'a handler" where
  "paged cursor limit k s = (case parse_page_query cursor limit of Inl err \<Rightarrow> (Inl err, s) | Inr inp \<Rightarrow> k inp s)"

definition unless_missing :: "(backend \<Rightarrow> bool) \<Rightarrow> string \<Rightarrow> 'a handler \<Rightarrow> 'a handler" where
  "unless_missing present message k s = (if present s then k s else (Inl (Not_Found message), s))"

definition found :: "(backend \<Rightarrow> 'a option) \<Rightarrow> string \<Rightarrow> 'a handler" where
  "found f message = answering (\<lambda>s. require_some (f s) (Not_Found message))"

section \<open>Fields of a body\<close>

definition text_field :: "string \<Rightarrow> json \<Rightarrow> string" where
  "text_field k j = (case json_text (json_field k j) of Some t \<Rightarrow> t | None \<Rightarrow> [])"

definition number_field :: "string \<Rightarrow> json \<Rightarrow> js_number" where
  "number_field k j = (case json_field k j of Some (J_Number t) \<Rightarrow> to_number t | _ \<Rightarrow> Js_Other)"

text \<open>\<open>{ ...fs, ...body }\<close>: a later field replaces an earlier one of its name.\<close>

definition spread :: "(string \<times> json) list \<Rightarrow> json \<Rightarrow> json" where
  "spread fs body = J_Object (fs @ (case body of J_Object gs \<Rightarrow> gs | _ \<Rightarrow> []))"

text \<open>
  What the documentation of the pipe says of \<open>whitelist\<close>: the body it lets through has only the fields of its description.
\<close>

definition whitelisting :: "(dto \<Rightarrow> json option \<Rightarrow> json res) \<Rightarrow> bool" where
  "whitelisting pipe \<longleftrightarrow> (\<forall>d body j. pipe d body = Inr j \<longrightarrow> (case j of J_Object gs \<Rightarrow> fst ` set gs \<subseteq> fst ` set d | _ \<Rightarrow> True))"

end
