(* ===== verification/Api.thy ===== *)
theory Api
  imports Requests
begin

text \<open>
  The HTTP interface, a definition per controller method (\<open>src/*/*.controller.ts\<close>), and \<open>handle\<close>, the dispatch of a request to its
  handler with the body of the answer dropped. Events that a request leaves behind for later (\<open>void ...\<close>) are not part of it.
\<close>

section \<open>Accounts\<close>

definition auth_register :: "app \<Rightarrow> call \<Rightarrow> json option \<Rightarrow> auth_tokens handler" where
  "auth_register a c body = with_body a register_dto body (\<lambda>b.
     register (app_crypto a) (app_auth a) (call_time c 0) (call_auth c) (Some b))"

definition auth_login :: "app \<Rightarrow> call \<Rightarrow> json option \<Rightarrow> auth_tokens handler" where
  "auth_login a c body = with_body a login_dto body (\<lambda>b. login (app_crypto a) (app_auth a) (call_time c 0) (call_auth c) (Some b))"

definition auth_social_login :: "app \<Rightarrow> call \<Rightarrow> string \<Rightarrow> json option \<Rightarrow> auth_tokens handler" where
  "auth_social_login a c provider body = with_body a social_login_dto body (\<lambda>b.
     social_login (app_crypto a) (app_auth a) (app_social a) (call_time c 0) (call_auth c) (Some (J_String provider)) (Some b))"

definition auth_refresh :: "app \<Rightarrow> call \<Rightarrow> json option \<Rightarrow> auth_tokens handler" where
  "auth_refresh a c body = with_body a refresh_token_dto body (\<lambda>b.
     refresh (app_crypto a) (app_auth a) (call_time c 0) (call_auth c) (Some b))"

definition auth_me :: "app \<Rightarrow> call \<Rightarrow> public_user handler" where
  "auth_me a c = answering (current_user_from_authorization (app_crypto a) (app_auth a) (call_time c 0) (call_authorization c))"

definition auth_update_me :: "app \<Rightarrow> call \<Rightarrow> json option \<Rightarrow> public_user handler" where
  "auth_update_me a c body = with_body a update_auth_user_dto body (\<lambda>b.
     update_current_user (app_crypto a) (app_auth a) (app_url a) (call_time c 0) (call_authorization c) (Some b))"

definition auth_delete_me :: "app \<Rightarrow> call \<Rightarrow> json option \<Rightarrow> unit handler" where
  "auth_delete_me a c body = with_body a delete_account_dto body (\<lambda>b.
     delete_account (app_crypto a) (app_auth a) (call_time c 0) (call_auth c) (call_authorization c) (Some b))"

definition auth_change_password :: "app \<Rightarrow> call \<Rightarrow> json option \<Rightarrow> auth_tokens handler" where
  "auth_change_password a c body = with_body a change_password_dto body (\<lambda>b.
     change_password (app_crypto a) (app_auth a) (call_time c 0) (call_auth c) (call_authorization c) (Some b))"

definition auth_verify_adult_identity :: "app \<Rightarrow> call \<Rightarrow> json option \<Rightarrow> adult_result handler" where
  "auth_verify_adult_identity a c body = with_body a local_adult_verification_dto body (\<lambda>b.
     verify_adult_identity (app_crypto a) (app_auth a) (call_time c 0) (call_auth c) (call_authorization c) (Some b))"

definition auth_revoke_session :: "app \<Rightarrow> call \<Rightarrow> json option \<Rightarrow> unit handler" where
  "auth_revoke_session a c body = with_body a refresh_token_dto body (\<lambda>b.
     revoke_refresh_token (app_crypto a) (call_time c 0) (json_field ''refreshToken'' b))"

section \<open>Consents and terms\<close>

definition consents_list :: "app \<Rightarrow> call \<Rightarrow> consent_status list handler" where
  "consents_list a c = signed_in a c (\<lambda>u. answering (\<lambda>s. Inr (list_user_consents (call_time c 1) u s)))"

definition consents_update :: "app \<Rightarrow> call \<Rightarrow> json option \<Rightarrow> consent_status list handler" where
  "consents_update a c body = with_body a update_consents_dto body (\<lambda>b. signed_in a c (\<lambda>u.
     commit (update_user_consents (call_time c 1) (call_id c) u (json_field ''consents'' b))))"

definition terms_list :: "call \<Rightarrow> document_summary list handler" where
  "terms_list c = answering (\<lambda>s. Inr (list_effective_documents (call_time c 0) s))"

definition terms_get :: "call \<Rightarrow> string \<Rightarrow> (document_summary \<times> string) handler" where
  "terms_get c t = answering (\<lambda>s. bindR (find_effective_document (call_time c 0) (Some (J_String t)) s) (\<lambda>d.
     require_some d (Not_Found ''Terms document not found'')))"

section \<open>Credits and check-ins\<close>

definition credits_spend :: "app \<Rightarrow> call \<Rightarrow> json option \<Rightarrow> credit_record handler" where
  "credits_spend a c body = with_body a spend_credits_dto body (\<lambda>b. signed_in a c (\<lambda>u.
     in_core (commit (spend_credits (call_time c 1) (call_id c 0) u (number_field ''amount'' b) (json_text (json_field ''reason'' b))))))"

definition credits_balance :: "app \<Rightarrow> call \<Rightarrow> balance_view handler" where
  "credits_balance a c = signed_in a c (\<lambda>u. answering (\<lambda>s. Inr (get_balance (call_time c 1) u (core_db s))))"

definition credits_ledger :: "app \<Rightarrow> call \<Rightarrow> string option \<Rightarrow> string option \<Rightarrow> credit_record page handler" where
  "credits_ledger a c cursor limit = signed_in a c (\<lambda>u. paged cursor limit (\<lambda>inp.
     answering (\<lambda>s. list_entries_page u inp (core_db s))))"

definition check_in_status_of :: "app \<Rightarrow> call \<Rightarrow> string option \<Rightarrow> check_in_status handler" where
  "check_in_status_of a c month =
     with_body a check_in_query_dto (Some (J_Object (case month of None \<Rightarrow> [] | Some m \<Rightarrow> [(''month'', J_String m)]))) (\<lambda>q.
     signed_in a c (\<lambda>u. answering (\<lambda>s. get_check_in_status (call_time c 1) u (json_text (json_field ''month'' q)) (core_db s))))"

definition check_in_now :: "app \<Rightarrow> call \<Rightarrow> check_in_result handler" where
  "check_in_now a c = signed_in a c (\<lambda>u. in_core (commit (check_in (call_time c 1) (call_id c 0) (call_id c 1) u)))"

section \<open>Characters, follows and events\<close>

definition characters_list :: "app \<Rightarrow> character_card list handler" where
  "characters_list a = answering (\<lambda>s. Inr (list_characters (app_media a) s))"

definition characters_posts :: "app \<Rightarrow> string \<Rightarrow> string option \<Rightarrow> string option \<Rightarrow> post_view page handler" where
  "characters_posts a i cursor limit = unless_missing (has_active_character i) ''Character not found'' (paged cursor limit (\<lambda>inp.
     answering (list_character_posts_page (app_media a) i inp)))"

definition characters_stories :: "app \<Rightarrow> call \<Rightarrow> string \<Rightarrow> string option \<Rightarrow> string option \<Rightarrow> story_view page handler" where
  "characters_stories a c i cursor limit = unless_missing (has_active_character i) ''Character not found'' (paged cursor limit (\<lambda>inp.
     answering (list_character_stories_page (app_media a) (call_time c 0) i inp)))"

definition characters_relationship :: "app \<Rightarrow> call \<Rightarrow> string \<Rightarrow> relationship handler" where
  "characters_relationship a c i = signed_in a c (\<lambda>u. answering (get_character_relationship u i))"

definition characters_get :: "app \<Rightarrow> string \<Rightarrow> character_card handler" where
  "characters_get a i = found (find_character (app_media a) i) ''Character not found''"

definition follows_follow :: "app \<Rightarrow> call \<Rightarrow> json option \<Rightarrow> character_follow handler" where
  "follows_follow a c body = with_body a follow_character_dto body (\<lambda>b. signed_in a c (\<lambda>u.
     commit (follow_character (call_time c 1) (call_id c 0) u (text_field ''characterId'' b))))"

definition follows_list :: "app \<Rightarrow> call \<Rightarrow> character_follow list handler" where
  "follows_list a c = signed_in a c (\<lambda>u. answering (\<lambda>s. Inr (list_followed_characters u s)))"

definition follows_unfollow :: "app \<Rightarrow> call \<Rightarrow> json option \<Rightarrow> bool handler" where
  "follows_unfollow a c body = with_body a follow_character_dto body (\<lambda>b. signed_in a c (\<lambda>u.
     commit (unfollow_character u (text_field ''characterId'' b))))"

definition events_record :: "app \<Rightarrow> call \<Rightarrow> json option \<Rightarrow> user_event handler" where
  "events_record a c body = with_body a client_event_dto body (\<lambda>b. signed_in a c (\<lambda>u.
     commit (record_client_event (call_time c 1) (call_id c 0) u \<lparr>evi_type = json_field ''eventType'' b,
       evi_target_type = json_field ''targetType'' b, evi_target = json_field ''targetId'' b, evi_metadata = json_field ''metadata'' b\<rparr>)))"

section \<open>Posts, the feed, stories and search\<close>

definition posts_list :: "app \<Rightarrow> post_filters \<Rightarrow> string option \<Rightarrow> string option \<Rightarrow> post_view page handler" where
  "posts_list a f cursor limit = paged cursor limit (\<lambda>inp. answering (list_posts_page (app_media a) f inp))"

definition posts_comments :: "string \<Rightarrow> string option \<Rightarrow> string option \<Rightarrow> comment_view page handler" where
  "posts_comments p cursor limit = unless_missing (has_visible_post p) ''Post not found'' (paged cursor limit (\<lambda>inp.
     answering (list_post_comments_page p inp)))"

definition posts_comment :: "app \<Rightarrow> call \<Rightarrow> string \<Rightarrow> json option \<Rightarrow> comment_view handler" where
  "posts_comment a c p body = with_body a create_post_comment_dto body (\<lambda>b. unless_missing (has_visible_post p) ''Post not found''
     (signed_in a c (\<lambda>u. commit (create_user_comment (call_time c 1) (call_id c 0) p u (json_field ''body'' b)))))"

definition posts_reactions :: "string \<Rightarrow> (reaction_view list \<times> (string \<times> int option) list) handler" where
  "posts_reactions p = unless_missing (has_visible_post p) ''Post not found'' (answering (list_post_reactions p))"

definition posts_react :: "app \<Rightarrow> call \<Rightarrow> string \<Rightarrow> json option \<Rightarrow> reaction_view handler" where
  "posts_react a c p body = with_body a post_reaction_request_dto body (\<lambda>b. unless_missing (has_visible_post p) ''Post not found''
     (signed_in a c (\<lambda>u. commit (create_user_reaction (call_time c 1) (call_id c 0) p u (json_field ''reactionType'' b)))))"

definition posts_unreact :: "app \<Rightarrow> call \<Rightarrow> string \<Rightarrow> json option \<Rightarrow> bool handler" where
  "posts_unreact a c p body = with_body a post_reaction_request_dto body (\<lambda>b. unless_missing (has_visible_post p) ''Post not found''
     (signed_in a c (\<lambda>u. commit (delete_user_reaction p u (json_field ''reactionType'' b)))))"

definition posts_get :: "app \<Rightarrow> string \<Rightarrow> post_view handler" where
  "posts_get a p = found (find_post (app_media a) p) ''Post not found''"

definition feed_get :: "app \<Rightarrow> call \<Rightarrow> string option \<Rightarrow> string option \<Rightarrow> post_view page handler" where
  "feed_get a c cursor limit s =
     (case optional_user_id_from_authorization (app_crypto a) (app_auth a) (call_time c 0) (call_authorization c) s of
        Inl err \<Rightarrow> (Inl err, s)
      | Inr u \<Rightarrow> paged cursor limit (\<lambda>inp. answering (get_feed_page (app_media a) u inp)) s)"

definition stories_list :: "app \<Rightarrow> call \<Rightarrow> string option \<Rightarrow> string option \<Rightarrow> story_view page handler" where
  "stories_list a c cursor limit = paged cursor limit (\<lambda>inp. answering (list_stories_page (app_media a) (call_time c 0) inp))"

section \<open>Messages and notifications\<close>

definition messages_send :: "app \<Rightarrow> call \<Rightarrow> json option \<Rightarrow> (uid \<times> message_view list) handler" where
  "messages_send a c body = with_body a send_message_dto body (\<lambda>b. signed_in a c (\<lambda>u.
     in_core (send_message (app_url a) (app_describe a) (call_time c 1) (call_time c 2) (call_time c 3) (call_chat c) u
       (text_field ''characterId'' b) (json_text (json_field ''body'' b)))))"

definition messages_retry :: "app \<Rightarrow> call \<Rightarrow> json option \<Rightarrow> (string \<times> reply_status) handler" where
  "messages_retry a c body = with_body a retry_reply_dto body (\<lambda>b. signed_in a c (\<lambda>u.
     in_core (retry_reply (call_time c 1) (call_time c 2) (call_time c 3) (call_chat c) u (json_text (json_field ''turnId'' b)))))"

definition messages_read :: "app \<Rightarrow> call \<Rightarrow> json option \<Rightarrow> (uid \<times> time) handler" where
  "messages_read a c body = with_body a mark_conversation_read_dto body (\<lambda>b. signed_in a c (\<lambda>u.
     in_core (commit (mark_conversation_read (call_time c 1) u (text_field ''characterId'' b)))))"

definition messages_conversations :: "app \<Rightarrow> call \<Rightarrow> string option \<Rightarrow> string option \<Rightarrow> conversation_view page handler" where
  "messages_conversations a c cursor limit = signed_in a c (\<lambda>u. paged cursor limit (\<lambda>inp.
     answering (\<lambda>s. list_conversations_page (app_url a) u inp (core_db s))))"

definition messages_get :: "app \<Rightarrow> call \<Rightarrow> string \<Rightarrow> string option \<Rightarrow> string option \<Rightarrow> message_view page handler" where
  "messages_get a c i cursor limit = signed_in a c (\<lambda>u. paged cursor limit (\<lambda>inp.
     answering (\<lambda>s. get_messages_page (app_url a) u i inp (core_db s))))"

definition parse_unread_only :: "string option \<Rightarrow> bool option res" where
  "parse_unread_only v =
     (if v = None then Inr None else if v = Some ''true'' then Inr (Some True) else if v = Some ''false'' then Inr (Some False)
      else Inl (Bad_Request ''unreadOnly must be true or false''))"

definition notifications_sync :: "app \<Rightarrow> call \<Rightarrow> sync_result handler" where
  "notifications_sync a c = signed_in a c (\<lambda>u. in_core (commit (sync_follow_notifications (call_time c 1) (call_id c) u)))"

definition notifications_list :: "app \<Rightarrow> call \<Rightarrow> string option \<Rightarrow> string option \<Rightarrow> string option \<Rightarrow> notification_view page handler" where
  "notifications_list a c cursor limit unread = signed_in a c (\<lambda>u. paged cursor limit (\<lambda>inp. answering (\<lambda>s.
     bindR (parse_unread_only unread) (\<lambda>only. list_notifications_page u (only = Some True) inp (core_db s)))))"

definition notifications_read :: "app \<Rightarrow> call \<Rightarrow> string \<Rightarrow> (uid \<times> time) handler" where
  "notifications_read a c i = signed_in a c (\<lambda>u. in_core (\<lambda>d. case mark_notification_read (call_time c 1) u i d of (r, d') \<Rightarrow>
     (require_some r (Not_Found ''Notification not found''), d')))"

section \<open>Purchases and payments\<close>

definition purchases_products :: "app \<Rightarrow> string option \<Rightarrow> product_view list handler" where
  "purchases_products a channel = answering (\<lambda>s.
     bindR (case channel of
              None \<Rightarrow> Inr Web
            | Some t \<Rightarrow> if t = ''web'' then Inr Web else if t = ''apple'' then Inr Apple else if t = ''google'' then Inr Google
                        else Inl (Bad_Request ''Invalid purchase channel''))
       (\<lambda>ch. list_products (app_pay a) ch (core_db s)))"

definition purchases_account_token :: "app \<Rightarrow> call \<Rightarrow> account_tokens handler" where
  "purchases_account_token a c = signed_in a c (\<lambda>u. answering (\<lambda>_. account_token (app_pay a) (app_hmac a) u))"

definition purchases_checkout_of :: "app \<Rightarrow> call \<Rightarrow> string \<Rightarrow> purchase_summary handler" where
  "purchases_checkout_of a c checkout = signed_in a c (\<lambda>u.
     in_core (commit (get_by_checkout_id (app_pay a) (app_gateway a) (call_time c 1) (call_pay c) u checkout)))"

definition checkout_customer_ip :: "(string \<Rightarrow> bool) \<Rightarrow> string option \<Rightarrow> string option" where
  "checkout_customer_ip is_ip v =
     (case v of
        None \<Rightarrow> None
      | Some t \<Rightarrow> (let n = (if prefixed ''::ffff:'' t then drop 7 t else t) in if n \<noteq> [] \<and> is_ip n then Some n else None))"

definition purchases_checkout :: "app \<Rightarrow> call \<Rightarrow> string option \<Rightarrow> string option \<Rightarrow> json option \<Rightarrow> checkout_view handler" where
  "purchases_checkout a c key ip body = with_body a create_purchase_checkout_dto body (\<lambda>b. signed_in a c (\<lambda>u.
     in_core (create_checkout (app_pay a) (app_gateway a) (app_url a) (call_time c 1) (call_id c 0) (call_id c 1) (text_field ''productId'' b)
       (case key of Some k \<Rightarrow> k | None \<Rightarrow> [])
       \<lparr>ci_user = u, ci_ip = checkout_customer_ip (app_is_ip a) ip, ci_success = json_text (json_field ''successUrl'' b),
        ci_return = json_text (json_field ''returnUrl'' b)\<rparr>)))"

text \<open>The body is spread behind the user and the channel and would replace them.\<close>

definition purchases_verify :: "app \<Rightarrow> call \<Rightarrow> payment_channel \<Rightarrow> json option \<Rightarrow> purchase_summary handler" where
  "purchases_verify a c channel body = with_body a verify_in_app_purchase_dto body (\<lambda>b. signed_in a c (\<lambda>u.
     let inp = spread [(''userId'', J_String u), (''channel'', J_String (case channel of Apple \<Rightarrow> ''apple'' | _ \<Rightarrow> ''google''))] b in
     (case (if text_field ''channel'' inp = ''apple'' then Some Apple
            else if text_field ''channel'' inp = ''google'' then Some Google
            else if text_field ''channel'' inp = ''web'' then Some Web else None) of
        None \<Rightarrow> refuse_with (Db_Error Invalid_Text)
      | Some ch \<Rightarrow>
          in_core (commit (verify_in_app (app_pay a) (app_gateway a) (app_hmac a) (call_time c 1) (call_id c 0) (call_id c 1) (call_id c 2) (call_id c 3)
            (text_field ''userId'' inp) ch (text_field ''productId'' inp) (text_field ''proof'' inp))))))"

definition purchases_verify_apple :: "app \<Rightarrow> call \<Rightarrow> json option \<Rightarrow> purchase_summary handler" where
  "purchases_verify_apple a c body = purchases_verify a c Apple body"

definition purchases_verify_google :: "app \<Rightarrow> call \<Rightarrow> json option \<Rightarrow> purchase_summary handler" where
  "purchases_verify_google a c body = purchases_verify a c Google body"

definition purchases_list :: "app \<Rightarrow> call \<Rightarrow> string option \<Rightarrow> string option \<Rightarrow> purchase_summary page handler" where
  "purchases_list a c cursor limit = signed_in a c (\<lambda>u. paged cursor limit (\<lambda>inp.
     answering (\<lambda>s. list_purchases_page u inp (core_db s))))"

text \<open>A malformed purchase id is refused by PostgreSQL.\<close>

definition purchases_refund_quote :: "app \<Rightarrow> call \<Rightarrow> string \<Rightarrow> refund_quote handler" where
  "purchases_refund_quote a c p = signed_in a c (\<lambda>u. answering (\<lambda>s.
     bindR (uuid_param p) (\<lambda>i. refund_quote_with_client (app_pay a) (call_time c 1) u i (core_db s))))"

definition purchases_refund :: "app \<Rightarrow> call \<Rightarrow> string \<Rightarrow> json option \<Rightarrow> refund_row handler" where
  "purchases_refund a c p body = with_body a request_purchase_refund_dto body (\<lambda>b. signed_in a c (\<lambda>u.
     let inp = spread [(''userId'', J_String u), (''purchaseId'', J_String p)] b; key = text_field ''idempotencyKey'' inp in
     if trim key \<noteq> [] \<and> \<not> is_uuid (text_field ''purchaseId'' inp) then refuse_with (Db_Error Invalid_Text)
     else in_core (request_refund (app_pay a) (app_gateway a) (call_time c 1) (call_pay c) (text_field ''userId'' inp)
            (uuid_cast (text_field ''purchaseId'' inp)) key)))"

definition payments_webhook :: "app \<Rightarrow> call \<Rightarrow> string \<Rightarrow> string \<Rightarrow> (string \<times> string) list \<Rightarrow> event_outcome handler" where
  "payments_webhook a c path_provider raw headers =
     in_core (commit (apply_provider_event (app_pay a) (app_gateway a) (call_time c 0) (call_pay c)
       (if path_provider = ''google'' then ''google_play'' else path_provider) raw headers))"

section \<open>Support\<close>

definition inquiries_create :: "app \<Rightarrow> call \<Rightarrow> json option \<Rightarrow> inquiry_item handler" where
  "inquiries_create a c body = with_body a create_inquiry_dto body (\<lambda>b. signed_in a c (\<lambda>u.
     commit (create_inquiry (call_time c 1) (call_time c 2) (call_id c 0) u (json_field ''category'' b) (json_field ''body'' b))))"

definition inquiries_list :: "app \<Rightarrow> call \<Rightarrow> string option \<Rightarrow> string option \<Rightarrow> inquiry_item page handler" where
  "inquiries_list a c cursor limit = signed_in a c (\<lambda>u. paged cursor limit (\<lambda>inp. answering (list_inquiries_page u inp)))"

definition inquiries_get :: "app \<Rightarrow> call \<Rightarrow> string \<Rightarrow> inquiry_detail handler" where
  "inquiries_get a c i = signed_in a c (\<lambda>u. found (find_inquiry u i) ''Inquiry not found'')"

definition inquiries_delete :: "app \<Rightarrow> call \<Rightarrow> string \<Rightarrow> unit handler" where
  "inquiries_delete a c i = signed_in a c (\<lambda>u s. commit (delete_inquiry u i s) s)"

definition reports_create :: "app \<Rightarrow> call \<Rightarrow> json option \<Rightarrow> report_receipt handler" where
  "reports_create a c body = with_body a create_report_dto body (\<lambda>b. signed_in a c (\<lambda>u.
     commit (create_report (call_time c 1) (call_id c 0) u \<lparr>rpi_type = json_field ''targetType'' b, rpi_target = json_field ''targetId'' b,
       rpi_reason = json_field ''reason'' b, rpi_details = json_field ''details'' b\<rparr>)))"

definition reports_get :: "app \<Rightarrow> call \<Rightarrow> string \<Rightarrow> report_detail handler" where
  "reports_get a c i = signed_in a c (\<lambda>u. found (find_report_for_user u i) ''Report not found'')"

definition notices_list :: "call \<Rightarrow> string option \<Rightarrow> string option \<Rightarrow> (notice_item list option \<times> notice_item page) handler" where
  "notices_list c cursor limit = paged cursor limit (\<lambda>inp. answering (list_published_notices (call_time c 0) inp))"

definition notices_get :: "call \<Rightarrow> string \<Rightarrow> (notice_item \<times> string) handler" where
  "notices_get c i = found (find_published_notice (call_time c 0) i) ''Notice not found''"

definition faqs_list :: "string option \<Rightarrow> faq_item list handler" where
  "faqs_list category = answering (\<lambda>s. Inr (list_published_faqs category s))"

section \<open>Dispatch\<close>

datatype account_request =
    Register "json option"
  | Login "json option"
  | Social_Login string "json option"
  | Refresh "json option"
  | Me
  | Update_Me "json option"
  | Delete_Me "json option"
  | Change_Password "json option"
  | Verify_Adult "json option"
  | Revoke_Session "json option"

datatype credit_request =
    List_Consents
  | Update_Consents "json option"
  | List_Terms
  | Get_Terms string
  | Spend "json option"
  | Balance
  | Ledger "string option" "string option"
  | Check_In_Status "string option"
  | Check_In_Today

datatype character_request =
    List_Characters
  | Character_Posts string "string option" "string option"
  | Character_Stories string "string option" "string option"
  | Relationship string
  | Get_Character string
  | Follow "json option"
  | List_Follows
  | Unfollow "json option"
  | Record_Event "json option"

datatype post_request =
    List_Posts post_filters "string option" "string option"
  | List_Comments string "string option" "string option"
  | Comment string "json option"
  | List_Reactions string
  | React string "json option"
  | Unreact string "json option"
  | Get_Post string
  | Get_Feed "string option" "string option"
  | List_Stories "string option" "string option"
  | Search "string option" "string option" "string option"
  | Hashtag_Posts string "string option" "string option"

datatype chat_request =
    Send_Message "json option"
  | Retry_Reply "json option"
  | Read_Conversation "json option"
  | List_Conversations "string option" "string option"
  | Get_Messages string "string option" "string option"
  | Sync_Notifications
  | List_Notifications "string option" "string option" "string option"
  | Read_Notification string

datatype shop_request =
    List_Products "string option"
  | Account_Token
  | Get_Checkout string
  | Create_Checkout "string option" "string option" "json option"
  | Verify_Apple "json option"
  | Verify_Google "json option"
  | List_Purchases "string option" "string option"
  | Refund_Quote string
  | Request_Refund string "json option"
  | Webhook string string "(string \<times> string) list"

datatype support_request =
    Create_Inquiry "json option"
  | List_Inquiries "string option" "string option"
  | Get_Inquiry string
  | Delete_Inquiry string
  | Create_Report "json option"
  | Get_Report string
  | List_Notices "string option" "string option"
  | Get_Notice string
  | List_Faqs "string option"
  | Health

datatype request =
    On_Account account_request
  | On_Credits credit_request
  | On_Characters character_request
  | On_Posts post_request
  | On_Chat chat_request
  | On_Shop shop_request
  | On_Support support_request

definition ack :: "'a handler \<Rightarrow> unit handler" where
  "ack h s = (case h s of (r, s') \<Rightarrow> (bindR r (\<lambda>_. Inr ()), s'))"

primrec handle_account :: "app \<Rightarrow> call \<Rightarrow> account_request \<Rightarrow> unit handler" where
  "handle_account a c (Register b) = ack (auth_register a c b)"
| "handle_account a c (Login b) = ack (auth_login a c b)"
| "handle_account a c (Social_Login p b) = ack (auth_social_login a c p b)"
| "handle_account a c (Refresh b) = ack (auth_refresh a c b)"
| "handle_account a c Me = ack (auth_me a c)"
| "handle_account a c (Update_Me b) = ack (auth_update_me a c b)"
| "handle_account a c (Delete_Me b) = ack (auth_delete_me a c b)"
| "handle_account a c (Change_Password b) = ack (auth_change_password a c b)"
| "handle_account a c (Verify_Adult b) = ack (auth_verify_adult_identity a c b)"
| "handle_account a c (Revoke_Session b) = ack (auth_revoke_session a c b)"

primrec handle_credits :: "app \<Rightarrow> call \<Rightarrow> credit_request \<Rightarrow> unit handler" where
  "handle_credits a c List_Consents = ack (consents_list a c)"
| "handle_credits a c (Update_Consents b) = ack (consents_update a c b)"
| "handle_credits a c List_Terms = ack (terms_list c)"
| "handle_credits a c (Get_Terms t) = ack (terms_get c t)"
| "handle_credits a c (Spend b) = ack (credits_spend a c b)"
| "handle_credits a c Balance = ack (credits_balance a c)"
| "handle_credits a c (Ledger k n) = ack (credits_ledger a c k n)"
| "handle_credits a c (Check_In_Status m) = ack (check_in_status_of a c m)"
| "handle_credits a c Check_In_Today = ack (check_in_now a c)"

primrec handle_characters :: "app \<Rightarrow> call \<Rightarrow> character_request \<Rightarrow> unit handler" where
  "handle_characters a c List_Characters = ack (characters_list a)"
| "handle_characters a c (Character_Posts i k n) = ack (characters_posts a i k n)"
| "handle_characters a c (Character_Stories i k n) = ack (characters_stories a c i k n)"
| "handle_characters a c (Relationship i) = ack (characters_relationship a c i)"
| "handle_characters a c (Get_Character i) = ack (characters_get a i)"
| "handle_characters a c (Follow b) = ack (follows_follow a c b)"
| "handle_characters a c List_Follows = ack (follows_list a c)"
| "handle_characters a c (Unfollow b) = ack (follows_unfollow a c b)"
| "handle_characters a c (Record_Event b) = ack (events_record a c b)"

primrec handle_posts :: "app \<Rightarrow> call \<Rightarrow> post_request \<Rightarrow> unit handler" where
  "handle_posts a c (List_Posts f k n) = ack (posts_list a f k n)"
| "handle_posts a c (List_Comments p k n) = ack (posts_comments p k n)"
| "handle_posts a c (Comment p b) = ack (posts_comment a c p b)"
| "handle_posts a c (List_Reactions p) = ack (posts_reactions p)"
| "handle_posts a c (React p b) = ack (posts_react a c p b)"
| "handle_posts a c (Unreact p b) = ack (posts_unreact a c p b)"
| "handle_posts a c (Get_Post p) = ack (posts_get a p)"
| "handle_posts a c (Get_Feed k n) = ack (feed_get a c k n)"
| "handle_posts a c (List_Stories k n) = ack (stories_list a c k n)"
| "handle_posts a c (Search q t n) = ack (answering (search (app_media a) q t n))"
| "handle_posts a c (Hashtag_Posts t k n) = ack (answering (list_hashtag_posts (app_media a) t k n))"

primrec handle_chat :: "app \<Rightarrow> call \<Rightarrow> chat_request \<Rightarrow> unit handler" where
  "handle_chat a c (Send_Message b) = ack (messages_send a c b)"
| "handle_chat a c (Retry_Reply b) = ack (messages_retry a c b)"
| "handle_chat a c (Read_Conversation b) = ack (messages_read a c b)"
| "handle_chat a c (List_Conversations k n) = ack (messages_conversations a c k n)"
| "handle_chat a c (Get_Messages i k n) = ack (messages_get a c i k n)"
| "handle_chat a c Sync_Notifications = ack (notifications_sync a c)"
| "handle_chat a c (List_Notifications k n u) = ack (notifications_list a c k n u)"
| "handle_chat a c (Read_Notification i) = ack (notifications_read a c i)"

primrec handle_shop :: "app \<Rightarrow> call \<Rightarrow> shop_request \<Rightarrow> unit handler" where
  "handle_shop a c (List_Products ch) = ack (purchases_products a ch)"
| "handle_shop a c Account_Token = ack (purchases_account_token a c)"
| "handle_shop a c (Get_Checkout i) = ack (purchases_checkout_of a c i)"
| "handle_shop a c (Create_Checkout key ip b) = ack (purchases_checkout a c key ip b)"
| "handle_shop a c (Verify_Apple b) = ack (purchases_verify_apple a c b)"
| "handle_shop a c (Verify_Google b) = ack (purchases_verify_google a c b)"
| "handle_shop a c (List_Purchases k n) = ack (purchases_list a c k n)"
| "handle_shop a c (Refund_Quote p) = ack (purchases_refund_quote a c p)"
| "handle_shop a c (Request_Refund p b) = ack (purchases_refund a c p b)"
| "handle_shop a c (Webhook p raw hs) = ack (payments_webhook a c p raw hs)"

primrec handle_support :: "app \<Rightarrow> call \<Rightarrow> support_request \<Rightarrow> unit handler" where
  "handle_support a c (Create_Inquiry b) = ack (inquiries_create a c b)"
| "handle_support a c (List_Inquiries k n) = ack (inquiries_list a c k n)"
| "handle_support a c (Get_Inquiry i) = ack (inquiries_get a c i)"
| "handle_support a c (Delete_Inquiry i) = ack (inquiries_delete a c i)"
| "handle_support a c (Create_Report b) = ack (reports_create a c b)"
| "handle_support a c (Get_Report i) = ack (reports_get a c i)"
| "handle_support a c (List_Notices k n) = ack (notices_list c k n)"
| "handle_support a c (Get_Notice i) = ack (notices_get c i)"
| "handle_support a c (List_Faqs q) = ack (faqs_list q)"
| "handle_support a c Health = ack (answering (\<lambda>_. Inr ()))"

primrec handle :: "app \<Rightarrow> call \<Rightarrow> request \<Rightarrow> unit handler" where
  "handle a c (On_Account r) = handle_account a c r"
| "handle a c (On_Credits r) = handle_credits a c r"
| "handle a c (On_Characters r) = handle_characters a c r"
| "handle a c (On_Posts r) = handle_posts a c r"
| "handle a c (On_Chat r) = handle_chat a c r"
| "handle a c (On_Shop r) = handle_shop a c r"
| "handle a c (On_Support r) = handle_support a c r"

end
