(* ===== verification/Api_Props.thy ===== *)
theory Api_Props
  imports Api
begin

text \<open>
  What holds of every request: which of them need a session, which of them leave the state as it is, and that a body cannot choose
  the user it acts for.
\<close>

section \<open>Which requests are which\<close>

definition private_account :: "account_request \<Rightarrow> bool" where
  "private_account r = (case r of Register _ \<Rightarrow> False | Login _ \<Rightarrow> False | Social_Login _ _ \<Rightarrow> False | Refresh _ \<Rightarrow> False
     | Revoke_Session _ \<Rightarrow> False | _ \<Rightarrow> True)"

definition private_credits :: "credit_request \<Rightarrow> bool" where
  "private_credits r = (case r of List_Terms \<Rightarrow> False | Get_Terms _ \<Rightarrow> False | _ \<Rightarrow> True)"

definition private_characters :: "character_request \<Rightarrow> bool" where
  "private_characters r = (case r of List_Characters \<Rightarrow> False | Character_Posts _ _ _ \<Rightarrow> False | Character_Stories _ _ _ \<Rightarrow> False
     | Get_Character _ \<Rightarrow> False | _ \<Rightarrow> True)"

definition private_posts :: "post_request \<Rightarrow> bool" where
  "private_posts r = (case r of Comment _ _ \<Rightarrow> True | React _ _ \<Rightarrow> True | Unreact _ _ \<Rightarrow> True | _ \<Rightarrow> False)"

definition private_shop :: "shop_request \<Rightarrow> bool" where
  "private_shop r = (case r of List_Products _ \<Rightarrow> False | Webhook _ _ _ \<Rightarrow> False | _ \<Rightarrow> True)"

definition private_support :: "support_request \<Rightarrow> bool" where
  "private_support r = (case r of List_Notices _ _ \<Rightarrow> False | Get_Notice _ \<Rightarrow> False | List_Faqs _ \<Rightarrow> False | Health \<Rightarrow> False | _ \<Rightarrow> True)"

primrec private_request :: "request \<Rightarrow> bool" where
  "private_request (On_Account r) = private_account r"
| "private_request (On_Credits r) = private_credits r"
| "private_request (On_Characters r) = private_characters r"
| "private_request (On_Posts r) = private_posts r"
| "private_request (On_Chat r) = True"
| "private_request (On_Shop r) = private_shop r"
| "private_request (On_Support r) = private_support r"

text \<open>The requests of the method GET, but for the one that asks for a checkout: it fetches and books a payment that has arrived.\<close>

definition reading_account :: "account_request \<Rightarrow> bool" where
  "reading_account r = (case r of Me \<Rightarrow> True | _ \<Rightarrow> False)"

definition reading_credits :: "credit_request \<Rightarrow> bool" where
  "reading_credits r = (case r of Update_Consents _ \<Rightarrow> False | Spend _ \<Rightarrow> False | Check_In_Today \<Rightarrow> False | _ \<Rightarrow> True)"

definition reading_characters :: "character_request \<Rightarrow> bool" where
  "reading_characters r = (case r of Follow _ \<Rightarrow> False | Unfollow _ \<Rightarrow> False | Record_Event _ \<Rightarrow> False | _ \<Rightarrow> True)"

definition reading_posts :: "post_request \<Rightarrow> bool" where
  "reading_posts r = (case r of Comment _ _ \<Rightarrow> False | React _ _ \<Rightarrow> False | Unreact _ _ \<Rightarrow> False | _ \<Rightarrow> True)"

definition reading_chat :: "chat_request \<Rightarrow> bool" where
  "reading_chat r = (case r of List_Conversations _ _ \<Rightarrow> True | Get_Messages _ _ _ \<Rightarrow> True | List_Notifications _ _ _ \<Rightarrow> True | _ \<Rightarrow> False)"

definition reading_shop :: "shop_request \<Rightarrow> bool" where
  "reading_shop r = (case r of List_Products _ \<Rightarrow> True | Account_Token \<Rightarrow> True | List_Purchases _ _ \<Rightarrow> True | Refund_Quote _ \<Rightarrow> True
     | _ \<Rightarrow> False)"

definition reading_support :: "support_request \<Rightarrow> bool" where
  "reading_support r = (case r of Create_Inquiry _ \<Rightarrow> False | Delete_Inquiry _ \<Rightarrow> False | Create_Report _ \<Rightarrow> False | _ \<Rightarrow> True)"

primrec reading_request :: "request \<Rightarrow> bool" where
  "reading_request (On_Account r) = reading_account r"
| "reading_request (On_Credits r) = reading_credits r"
| "reading_request (On_Characters r) = reading_characters r"
| "reading_request (On_Posts r) = reading_posts r"
| "reading_request (On_Chat r) = reading_chat r"
| "reading_request (On_Shop r) = reading_shop r"
| "reading_request (On_Support r) = reading_support r"

section \<open>A refused handler\<close>

definition refuses :: "backend \<Rightarrow> 'a handler \<Rightarrow> bool" where
  "refuses s h \<longleftrightarrow> isl (fst (h s)) \<and> snd (h s) = s"

definition no_session :: "app \<Rightarrow> call \<Rightarrow> backend \<Rightarrow> bool" where
  "no_session a c s \<longleftrightarrow> isl (user_id_from_authorization (app_crypto a) (app_auth a) (call_time c 0) (call_authorization c) s)"

named_theorems refusing \<open>handlers that refuse a call without a session\<close>

lemma refuses_signed_in [refusing]: "no_session a c s \<Longrightarrow> refuses s (signed_in a c k)"
  by (auto simp: no_session_def refuses_def signed_in_def split: sum.splits)

lemma refuses_with_body [refusing]: "(\<And>b. refuses s (k b)) \<Longrightarrow> refuses s (with_body a d body k)"
  by (auto simp: refuses_def with_body_def split: sum.splits)

lemma refuses_unless_missing [refusing]: "refuses s h \<Longrightarrow> refuses s (unless_missing p m h)"
  by (auto simp: refuses_def unless_missing_def)

lemma refuses_answering: "isl (f s) \<Longrightarrow> refuses s (answering f)"
  by (simp add: refuses_def answering_def)

lemma refuses_ack [simp]: "refuses s (ack h) = refuses s h"
  by (auto simp: refuses_def ack_def bindR_def split: prod.splits sum.splits)

lemma refuses_commit: "isl (m s) \<Longrightarrow> refuses s (commit m)"
  by (auto simp: refuses_def commit_def split: sum.splits)

lemma isl_bindR_left: "isl r \<Longrightarrow> isl (bindR r k)"
  by (cases r) auto

lemma isl_bindR_right: "(\<And>x. isl (k x)) \<Longrightarrow> isl (bindR r k)"
  by (cases r) auto

lemma refuses_accounts [refusing]:
  assumes "no_session a c s"
  shows "refuses s (auth_me a c)" and "refuses s (auth_update_me a c b)" and "refuses s (auth_delete_me a c b)"
    and "refuses s (auth_change_password a c b)" and "refuses s (auth_verify_adult_identity a c b)"
proof -
  obtain err where e: "user_id_from_authorization (app_crypto a) (app_auth a) (call_time c 0) (call_authorization c) s = Inl err"
    using assms by (cases "user_id_from_authorization (app_crypto a) (app_auth a) (call_time c 0) (call_authorization c) s")
      (simp_all add: no_session_def)
  show "refuses s (auth_me a c)"
    unfolding auth_me_def by (rule refuses_answering) (simp add: current_user_from_authorization_def e)
  show "refuses s (auth_update_me a c b)"
    unfolding auth_update_me_def
    by (rule refuses_with_body) (simp add: update_current_user_def refuses_def commit_def e)
  show "refuses s (auth_delete_me a c b)"
    unfolding auth_delete_me_def
    by (rule refuses_with_body) (simp add: delete_account_def delete_account_check_def e refuses_def)
  show "refuses s (auth_change_password a c b)"
    unfolding auth_change_password_def
    by (rule refuses_with_body) (simp add: change_password_def change_password_check_def e refuses_def)
  show "refuses s (auth_verify_adult_identity a c b)"
    unfolding auth_verify_adult_identity_def
    by (rule refuses_with_body) (auto simp: verify_adult_identity_def e refuses_def commit_def bindR_def split: sum.splits)
qed

lemmas session_handlers =
  consents_list_def consents_update_def credits_spend_def credits_balance_def credits_ledger_def check_in_status_of_def check_in_now_def
  characters_relationship_def follows_follow_def follows_list_def follows_unfollow_def events_record_def
  posts_comment_def posts_react_def posts_unreact_def
  messages_send_def messages_retry_def messages_read_def messages_conversations_def messages_get_def
  notifications_sync_def notifications_list_def notifications_read_def
  purchases_account_token_def purchases_checkout_of_def purchases_checkout_def purchases_verify_def purchases_verify_apple_def
  purchases_verify_google_def purchases_list_def purchases_refund_quote_def purchases_refund_def
  inquiries_create_def inquiries_list_def inquiries_get_def inquiries_delete_def reports_create_def reports_get_def

text \<open>C20: A request that needs a session is refused without one, whatever its body, and leaves the state as it is.\<close>

theorem private_requests_need_session:
  assumes "private_request r"
    and "user_id_from_authorization (app_crypto a) (app_auth a) (call_time c 0) (call_authorization c) s = Inl err"
  shows "isl (fst (handle a c r s)) \<and> snd (handle a c r s) = s"
proof -
  have n: "no_session a c s" by (simp add: no_session_def assms(2))
  have "refuses s (handle a c r)"
  proof (cases r)
    case (On_Account q)
    with assms(1) n show ?thesis by (cases q) (auto simp: private_account_def intro: refusing)
  next
    case (On_Credits q)
    with assms(1) n show ?thesis by (cases q) (auto simp: private_credits_def session_handlers intro: refusing)
  next
    case (On_Characters q)
    with assms(1) n show ?thesis by (cases q) (auto simp: private_characters_def session_handlers intro: refusing)
  next
    case (On_Posts q)
    with assms(1) n show ?thesis by (cases q) (auto simp: private_posts_def session_handlers intro: refusing)
  next
    case (On_Chat q)
    with n show ?thesis by (cases q) (auto simp: session_handlers intro: refusing)
  next
    case (On_Shop q)
    with assms(1) n show ?thesis by (cases q) (auto simp: private_shop_def session_handlers intro: refusing)
  next
    case (On_Support q)
    with assms(1) n show ?thesis by (cases q) (auto simp: private_support_def session_handlers intro: refusing)
  qed
  then show ?thesis by (simp add: refuses_def)
qed

section \<open>Reads\<close>

definition leaves_alone :: "'a handler \<Rightarrow> bool" where
  "leaves_alone h \<longleftrightarrow> (\<forall>s. snd (h s) = s)"

named_theorems leaving \<open>handlers that leave the state as it is\<close>

lemma leaves_answering [leaving]: "leaves_alone (answering f)" and leaves_found [leaving]: "leaves_alone (found g m)"
  by (simp_all add: leaves_alone_def answering_def found_def)

lemma leaves_ack [simp]: "leaves_alone (ack h) = leaves_alone h"
  by (simp add: leaves_alone_def ack_def case_prod_beta)

lemma leaves_with_body [leaving]: "(\<And>b. leaves_alone (k b)) \<Longrightarrow> leaves_alone (with_body a d body k)"
  and leaves_signed_in [leaving]: "(\<And>u. leaves_alone (f u)) \<Longrightarrow> leaves_alone (signed_in a c f)"
  and leaves_paged [leaving]: "(\<And>q. leaves_alone (g q)) \<Longrightarrow> leaves_alone (paged cursor limit g)"
  and leaves_unless_missing [leaving]: "leaves_alone h \<Longrightarrow> leaves_alone (unless_missing p m h)"
  by (auto simp: leaves_alone_def with_body_def signed_in_def paged_def unless_missing_def split: sum.splits)

lemma leaves_feed [leaving]: "leaves_alone (feed_get a c cursor limit)"
  using leaves_paged [OF leaves_answering] by (auto simp: leaves_alone_def feed_get_def split: sum.splits)

lemmas public_handlers =
  auth_me_def terms_list_def terms_get_def characters_list_def characters_posts_def characters_stories_def characters_get_def
  posts_list_def posts_comments_def posts_reactions_def posts_get_def stories_list_def purchases_products_def
  notices_list_def notices_get_def faqs_list_def

text \<open>Reading changes nothing: a GET request, but for the one for a checkout, leaves the whole state as it is.\<close>

lemma reads_change_nothing:
  assumes "reading_request r"
  shows "snd (handle a c r s) = s"
proof -
  have "leaves_alone (handle a c r)"
  proof (cases r)
    case (On_Account q)
    with assms show ?thesis by (cases q) (auto simp: reading_account_def public_handlers intro: leaving)
  next
    case (On_Credits q)
    with assms show ?thesis by (cases q) (auto simp: reading_credits_def public_handlers session_handlers intro: leaving)
  next
    case (On_Characters q)
    with assms show ?thesis by (cases q) (auto simp: reading_characters_def public_handlers session_handlers intro: leaving)
  next
    case (On_Posts q)
    with assms show ?thesis by (cases q) (auto simp: reading_posts_def public_handlers intro: leaving)
  next
    case (On_Chat q)
    with assms show ?thesis by (cases q) (auto simp: reading_chat_def session_handlers intro: leaving)
  next
    case (On_Shop q)
    with assms show ?thesis by (cases q) (auto simp: reading_shop_def public_handlers session_handlers intro: leaving)
  next
    case (On_Support q)
    with assms show ?thesis by (cases q) (auto simp: reading_support_def public_handlers session_handlers intro: leaving)
  qed
  then show ?thesis by (simp add: leaves_alone_def)
qed

section \<open>Bearer tokens\<close>

lemma base64url_no_space: "CHR '' '' \<notin> set (base64url xs)"
proof -
  have "CHR '' '' \<notin> set b64_alphabet" by (simp add: b64_alphabet_def)
  moreover have "\<forall>n \<in> set (b64_sextets (map of_char xs)). n < length b64_alphabet"
    using b64_sextets_less [of "map of_char xs"] by (auto simp: b64_alphabet_def)
  ultimately show ?thesis unfolding base64url_def b64_char_def by (auto simp: in_set_conv_nth)
qed

lemma bearer_issued:
  assumes "issue_access_token c e now u = Inr token"
  shows "bearer_token (Some (''Bearer '' @ token)) = Inr token"
proof -
  have t: "CHR '' '' \<notin> set token" "token \<noteq> []"
    using assms base64url_no_space
    by (auto simp: issue_access_token_def sign_jwt_def res_simps Let_def jwt_signature_def signing_input_def)
  have "split_on (CHR '' '') (''Bearer'' @ CHR '' '' # token) = [''Bearer'', token]"
    using t(1) by (subst split_on_append) (simp_all add: split_on_single)
  with t(2) show ?thesis by (simp add: bearer_token_def)
qed

text \<open>C18: The access token that is issued to a user, sent as a bearer token, lets the call act as exactly that user for fifteen minutes,
  whatever happened to the sessions since, unless the account has been deleted; afterwards it is refused as expired.
\<close>

theorem access_token_authorizes:
  assumes "issue_access_token c e now u = Inr token" "canonical u" "0 \<le> now" "unix_seconds now < 2 ^ 52"
  shows "user_id_from_authorization c e later (Some (''Bearer '' @ token)) s =
    (if unix_seconds now + 15 * 60 \<le> unix_seconds later then Inl (Unauthorized ''Access token is expired'')
     else case find_user u s of
         Some r \<Rightarrow> if usr_deleted r = None then Inr u else Inl invalid_token
       | None \<Rightarrow> Inl invalid_token)"
proof -
  have u: "is_uuid u" "uuid_cast u = u" using assms(2) by (simp_all add: canonical_def)
  have v: "verify_access_token c e later token =
      (if unix_seconds later < unix_seconds now + 15 * 60 then Inr u else Inl (Unauthorized ''Access token is expired''))"
    using verify_issued [OF assms(1) u(1) assms(3,4)] .
  show ?thesis
    unfolding user_id_from_authorization_def bearer_issued [OF assms(1)]
    using u by (simp add: v find_public_user_by_id_def require_some_def split: option.splits)
qed

section \<open>Whom a body acts for\<close>

lemma text_field_spread:
  assumes "whitelisting pipe" "pipe d body = Inr b" "k \<notin> fst ` set d"
  shows "text_field k (spread fs b) = text_field k (J_Object fs)"
proof (cases b)
  case (J_Object gs)
  then have "k \<notin> fst ` set gs" using assms by (force simp: whitelisting_def)
  then have "map_of (rev gs) k = None" by (simp add: map_of_eq_None_iff)
  then show ?thesis using J_Object by (simp add: text_field_def spread_def map_add_def)
qed (simp_all add: text_field_def spread_def)

lemma text_field_own:
  assumes "k \<notin> fst ` set fs"
  shows "text_field k (spread fs b) = text_field k b"
proof -
  have "map_of (rev fs) k = None" using assms by (simp add: map_of_eq_None_iff)
  then show ?thesis by (cases b) (simp_all add: text_field_def spread_def map_add_def split: option.splits)
qed

text \<open>C19: The controllers of the purchases spread the body behind the user of the session and the channel, where its fields would replace
  them. With a pipe that lets through only described fields, both endpoints verify a receipt, and the refund endpoint refunds, for
  the user of the session, on the channel and the purchase of the path.
\<close>

theorem body_cannot_choose_user:
  assumes "whitelisting (app_pipe a)"
    and "user_id_from_authorization (app_crypto a) (app_auth a) (call_time c 0) (call_authorization c) s = Inr u"
    and "app_pipe a verify_in_app_purchase_dto body = Inr b"
    and "app_pipe a request_purchase_refund_dto refund_body = Inr rb" and "is_uuid p"
  shows "purchases_verify_apple a c body s =
      in_core (commit (verify_in_app (app_pay a) (app_gateway a) (app_hmac a) (call_time c 1) (call_id c 0) (call_id c 1) (call_id c 2)
        (call_id c 3) u Apple (text_field ''productId'' b) (text_field ''proof'' b))) s \<and>
    purchases_verify_google a c body s =
      in_core (commit (verify_in_app (app_pay a) (app_gateway a) (app_hmac a) (call_time c 1) (call_id c 0) (call_id c 1) (call_id c 2)
        (call_id c 3) u Google (text_field ''productId'' b) (text_field ''proof'' b))) s \<and>
    purchases_refund a c p refund_body s =
      in_core (request_refund (app_pay a) (app_gateway a) (call_time c 1) (call_pay c) u (uuid_cast p) (text_field ''idempotencyKey'' rb)) s"
proof -
  note keep = text_field_spread [OF assms(1,3)] and own = text_field_own
  have v: "text_field ''userId'' (spread [(''userId'', J_String u), (''channel'', J_String ch)] b) = u"
    "text_field ''channel'' (spread [(''userId'', J_String u), (''channel'', J_String ch)] b) = ch"
    "text_field ''productId'' (spread [(''userId'', J_String u), (''channel'', J_String ch)] b) = text_field ''productId'' b"
    "text_field ''proof'' (spread [(''userId'', J_String u), (''channel'', J_String ch)] b) = text_field ''proof'' b" for ch
    by (simp_all add: keep own verify_in_app_purchase_dto_def) (simp_all add: text_field_def)
  have w: "text_field ''userId'' (spread [(''userId'', J_String u), (''purchaseId'', J_String p)] rb) = u"
    "text_field ''purchaseId'' (spread [(''userId'', J_String u), (''purchaseId'', J_String p)] rb) = p"
    "text_field ''idempotencyKey'' (spread [(''userId'', J_String u), (''purchaseId'', J_String p)] rb) = text_field ''idempotencyKey'' rb"
    by (simp_all add: text_field_spread [OF assms(1,4)] own request_purchase_refund_dto_def) (simp_all add: text_field_def)
  have apple: "purchases_verify_apple a c body s =
      in_core (commit (verify_in_app (app_pay a) (app_gateway a) (app_hmac a) (call_time c 1) (call_id c 0) (call_id c 1) (call_id c 2)
        (call_id c 3) u Apple (text_field ''productId'' b) (text_field ''proof'' b))) s"
    by (simp add: purchases_verify_apple_def purchases_verify_def with_body_def signed_in_def assms(2,3) Let_def v)
  have google: "purchases_verify_google a c body s =
      in_core (commit (verify_in_app (app_pay a) (app_gateway a) (app_hmac a) (call_time c 1) (call_id c 0) (call_id c 1) (call_id c 2)
        (call_id c 3) u Google (text_field ''productId'' b) (text_field ''proof'' b))) s"
    by (simp add: purchases_verify_google_def purchases_verify_def with_body_def signed_in_def assms(2,3) Let_def v)
  have refund: "purchases_refund a c p refund_body s =
      in_core (request_refund (app_pay a) (app_gateway a) (call_time c 1) (call_pay c) u (uuid_cast p) (text_field ''idempotencyKey'' rb)) s"
    using assms(5) by (simp add: purchases_refund_def with_body_def signed_in_def assms(2,4) Let_def w)
  show ?thesis by (intro conjI apple google refund)
qed

end
