(* ===== verification/Api_Ledger.thy ===== *)
theory Api_Ledger
  imports Api_Props Event_Props Checkout_Props Reply_Worker
begin

text \<open>
  No request breaks the ledger: \<open>ledger_ok\<close>, the invariant of \<open>Credits_Inv\<close>, is kept by every handler. The handlers are taken apart by
  the lemmas of \<open>keeping\<close>; what is left is a lemma for each service that writes.
\<close>

section \<open>States with the same ledger\<close>

definition ledger_part :: "db \<Rightarrow> ledger_row list \<times> usage_row list \<times> reservation_row list \<times> refund_row list" where
  "ledger_part d = (ledger d, usages d, reservations d, refunds d)"

lemma ledger_part_ok: "ledger_part d' = ledger_part d \<Longrightarrow> ledger_ok d' = ledger_ok d"
  by (rule ledger_ok_cong) (simp_all add: ledger_part_def)

lemma ledger_part_update [simp]:
  "ledger_part (d\<lparr>users := us\<rparr>) = ledger_part d"
  "ledger_part (d\<lparr>debts := ds\<rparr>) = ledger_part d"
  "ledger_part (d\<lparr>notifications := ns\<rparr>) = ledger_part d"
  "ledger_part (d\<lparr>follows := fs\<rparr>) = ledger_part d"
  "ledger_part (d\<lparr>conversations := cs\<rparr>) = ledger_part d"
  "ledger_part (d\<lparr>messages := ms'\<rparr>) = ledger_part d"
  "ledger_part (d\<lparr>jobs := js\<rparr>) = ledger_part d"
  "ledger_part (d\<lparr>logs := ls\<rparr>) = ledger_part d"
  "ledger_part (d\<lparr>purchases := ps\<rparr>) = ledger_part d"
  "ledger_part (d\<lparr>payments := ys\<rparr>) = ledger_part d"
  by (simp_all add: ledger_part_def)

lemma forget_user_ledger [simp]: "ledger_part (forget_user u d) = ledger_part d"
  by (simp add: forget_user_def ledger_part_def Let_def)

section \<open>Handlers that keep the ledger\<close>

definition keeps_ledger :: "'a handler \<Rightarrow> bool" where
  "keeps_ledger h \<longleftrightarrow> (\<forall>s. ledger_ok (core_db s) \<longrightarrow> ledger_ok (core_db (snd (h s))))"

named_theorems keeping \<open>handlers that keep the ledger\<close>

lemma keeps_alone: "leaves_alone h \<Longrightarrow> keeps_ledger h"
  by (simp add: leaves_alone_def keeps_ledger_def)

lemma keeps_ack [simp]: "keeps_ledger (ack h) = keeps_ledger h"
  by (simp add: keeps_ledger_def ack_def case_prod_beta)

lemma keeps_refuse [keeping]: "keeps_ledger (refuse_with err)"
  by (simp add: keeps_ledger_def refuse_with_def)

lemma keeps_with_body [keeping]: "(\<And>b. keeps_ledger (k b)) \<Longrightarrow> keeps_ledger (with_body a d body k)"
  and keeps_signed_in [keeping]: "(\<And>u. keeps_ledger (f u)) \<Longrightarrow> keeps_ledger (signed_in a c f)"
  and keeps_unless_missing [keeping]: "keeps_ledger h \<Longrightarrow> keeps_ledger (unless_missing p m h)"
  by (auto simp: keeps_ledger_def with_body_def signed_in_def unless_missing_def split: sum.splits)

lemma keeps_commit:
  "(\<And>s x s'. ledger_ok (core_db s) \<Longrightarrow> tx s = Inr (x, s') \<Longrightarrow> ledger_ok (core_db s')) \<Longrightarrow> keeps_ledger (commit tx)"
  by (auto simp: keeps_ledger_def commit_def split: sum.splits)

lemma keeps_in_core:
  "(\<And>d. ledger_ok d \<Longrightarrow> ledger_ok (snd (f d))) \<Longrightarrow> keeps_ledger (in_core f)"
  by (auto simp: keeps_ledger_def in_core_def case_prod_beta)

lemma keeps_in_core_commit:
  assumes "\<And>d x d'. ledger_ok d \<Longrightarrow> tx d = Inr (x, d') \<Longrightarrow> ledger_ok d'"
  shows "keeps_ledger (in_core (commit tx))"
  by (rule keeps_in_core) (auto simp: commit_def split: sum.splits intro: assms)

text \<open>Handlers that write neither the core tables nor the refresh tokens.\<close>

definition core_of :: "backend \<Rightarrow> db \<times> token_row list" where
  "core_of s = (core_db s, refresh_tokens s)"

lemma core_of_eq: "core_of s' = core_of s \<longleftrightarrow> core_db s' = core_db s \<and> refresh_tokens s' = refresh_tokens s"
  by (simp add: core_of_def)

definition leaves_core :: "'a handler \<Rightarrow> bool" where
  "leaves_core h \<longleftrightarrow> (\<forall>s. core_of (snd (h s)) = core_of s)"

lemma keeps_beside: "leaves_core h \<Longrightarrow> keeps_ledger h"
  by (simp add: leaves_core_def keeps_ledger_def core_of_eq)

lemma leaves_core_alone: "leaves_alone h \<Longrightarrow> leaves_core h"
  by (simp add: leaves_alone_def leaves_core_def)

lemma leaves_core_commit: "(\<And>s x s'. tx s = Inr (x, s') \<Longrightarrow> core_of s' = core_of s) \<Longrightarrow> leaves_core (commit tx)"
  by (auto simp: leaves_core_def commit_def split: sum.splits)

lemma leaves_core_with_body: "(\<And>b. leaves_core (k b)) \<Longrightarrow> leaves_core (with_body a d body k)"
  and leaves_core_signed_in: "(\<And>u. leaves_core (f u)) \<Longrightarrow> leaves_core (signed_in a c f)"
  and leaves_core_unless_missing: "leaves_core h \<Longrightarrow> leaves_core (unless_missing p m h)"
  by (auto simp: leaves_core_def with_body_def signed_in_def unless_missing_def split: sum.splits)

lemmas core_leaving = leaves_core_with_body leaves_core_signed_in leaves_core_unless_missing leaves_core_commit

section \<open>Accounts\<close>

lemma issue_tokens_core: "core_db (snd (issue_tokens c e now fr user s)) = core_db s"
  by (auto simp: issue_tokens_def Let_def ins_token_Inr_iff split: sum.splits)

lemma issue_tokens_tx_core: "issue_tokens_tx c e now fr user s = Inr (x, s') \<Longrightarrow> core_db s' = core_db s"
  using issue_tokens_core [of c e now fr user s] by (auto simp: issue_tokens_tx_def split: prod.splits sum.splits)

lemma record_consents_core: "record_consents now ids u rs s = Inr (x, s') \<Longrightarrow> core_of s' = core_of s"
  by (auto simp: record_consents_def ins_consents_Inr_iff core_of_def split: if_splits)

lemma ins_user_ledger: "ins_user row s = Inr (r, s') \<Longrightarrow> ledger_part (core_db s') = ledger_part (core_db s)"
  by (auto simp: ins_user_Inr_iff)

lemma upd_users_ledger: "upd_users p f s = Inr s' \<Longrightarrow> ledger_part (core_db s') = ledger_part (core_db s)"
  by (auto simp: upd_users_Inr_iff)

lemma register_tx_ledger:
  assumes "register_tx now fr row cs s = Inr (user, s')"
  shows "ledger_part (core_db s') = ledger_part (core_db s)"
proof -
  obtain s1 x where "ins_user row s = Inr (user, s1)" "record_consents now (afr_consents fr) (usr_id user) cs s1 = Inr (x, s')"
    using assms by (auto simp: register_tx_def create_auth_user_def bindR_Inr_iff split: sum.splits api_error.splits sqlstate.splits)
  then show ?thesis using record_consents_core ins_user_ledger by (metis core_of_eq)
qed

lemma social_tx_ledger:
  assumes "social_tx now fr provider identity inp s = Inr (user, s')"
  shows "ledger_part (core_db s') = ledger_part (core_db s)"
proof (cases "find_social_account provider (sid_account identity) s")
  case (Some x)
  then show ?thesis using assms by (cases x) (auto simp: social_tx_def split: if_splits)
next
  case None
  then show ?thesis
    using assms
    by (auto simp: social_tx_def bindR_Inr_iff ins_account_Inr_iff Let_def core_of_eq dest!: record_consents_core ins_user_ledger)
qed

lemma greet_ok:
  assumes "ledger_ok (core_db s)"
  shows "ledger_ok (core_db (snd (greet c e now fr user s)))"
proof (cases "on_core (grant_signup_bonus now (afr_ledger fr) (pbu_id user)) s")
  case (Inr x)
  then obtain r d where x: "x = (r, s\<lparr>core_db := d\<rparr>)" and g: "grant_signup_bonus now (afr_ledger fr) (pbu_id user) (core_db s) = Inr (r, d)"
    by (cases x) (auto simp: on_core_Inr_iff)
  have "ledger_ok d" using assms g by (rule grant_signup_bonus_ok)
  then show ?thesis by (simp add: greet_def Inr x issue_tokens_core)
qed (simp add: greet_def assms)

lemma keeps_register [keeping]: "keeps_ledger (auth_register a c body)"
  unfolding auth_register_def
proof (rule keeps_with_body)
  fix b
  show "keeps_ledger (register (app_crypto a) (app_auth a) (call_time c 0) (call_auth c) (Some b))"
    by (auto simp: keeps_ledger_def register_def commit_def Let_def split: sum.splits
        intro!: greet_ok dest!: register_tx_ledger ledger_part_ok)
qed

lemma keeps_social_login [keeping]: "keeps_ledger (auth_social_login a c provider body)"
  unfolding auth_social_login_def
proof (rule keeps_with_body)
  fix b
  show "keeps_ledger (social_login (app_crypto a) (app_auth a) (app_social a) (call_time c 0) (call_auth c) (Some (J_String provider)) (Some b))"
    by (auto simp: keeps_ledger_def social_login_def commit_def split: sum.splits
        intro!: greet_ok dest!: social_tx_ledger ledger_part_ok)
qed

lemma login_tx_core: "login_tx c e now fr user s = Inr (x, s') \<Longrightarrow> core_db s' = core_db s"
  by (auto simp: login_tx_def bindR_Inr_iff dest: issue_tokens_tx_core)

lemma refresh_tx_core: "refresh_tx c e now fr f s = Inr (x, s') \<Longrightarrow> core_db s' = core_db s"
  by (auto simp: refresh_tx_def bindR_Inr_iff Let_def dest!: issue_tokens_tx_core)

lemma change_password_tx_ledger:
  "change_password_tx c e now fr user password s = Inr (x, s') \<Longrightarrow> ledger_part (core_db s') = ledger_part (core_db s)"
  by (auto simp: change_password_tx_def bindR_Inr_iff Let_def ins_user_event_Inr_iff split: option.splits
      dest!: issue_tokens_tx_core upd_users_ledger)

lemma add_debt_ledger: "add_debt h n d = Inr d' \<Longrightarrow> ledger_part d' = ledger_part d"
  by (auto simp: add_debt_def bindR_Inr_iff Let_def)

lemma delete_account_tx_ledger:
  assumes "delete_account_tx now fr user category reason s = Inr (x, s')"
  shows "ledger_part (core_db s') = ledger_part (core_db s)"
  using assms
  by (auto simp: delete_account_tx_def bindR_Inr_iff Let_def split: option.splits if_splits
      dest!: add_debt_ledger upd_users_ledger)

lemma take_over_debt_ok:
  assumes "ledger_ok d" "take_over_debt now lid u h d = Inr d'"
  shows "ledger_ok d'"
  using assms ledger_part_ok [OF ledger_part_update(2)]
  by (auto simp: take_over_debt_def bindR_Inr_iff ins_ledger_Inr_iff debt_entry_def split: if_splits intro!: ledger_ok_add_entry)

lemma adult_identity_tx_ok:
  assumes "ledger_ok (core_db s)" "adult_identity_tx now fr u h s = Inr (x, s')"
  shows "ledger_ok (core_db s')"
  using assms
  by (auto simp: adult_identity_tx_def bindR_Inr_iff Let_def dest!: upd_users_ledger ledger_part_ok intro: take_over_debt_ok)

lemma keeps_accounts [keeping]:
  "keeps_ledger (auth_login a c body)" "keeps_ledger (auth_refresh a c body)" "keeps_ledger (auth_update_me a c body)"
  "keeps_ledger (auth_delete_me a c body)" "keeps_ledger (auth_change_password a c body)"
  "keeps_ledger (auth_verify_adult_identity a c body)" "keeps_ledger (auth_revoke_session a c body)"
proof -
  show "keeps_ledger (auth_login a c body)"
    unfolding auth_login_def
    by (rule keeps_with_body) (auto simp: keeps_ledger_def login_def commit_def split: sum.splits dest!: login_tx_core)
  show "keeps_ledger (auth_refresh a c body)"
    unfolding auth_refresh_def
    by (rule keeps_with_body) (auto simp: keeps_ledger_def refresh_def commit_def split: sum.splits dest!: refresh_tx_core)
  show "keeps_ledger (auth_update_me a c body)"
    unfolding auth_update_me_def update_current_user_def
    by (rule keeps_with_body, unfold keeps_ledger_def)
      (auto simp: commit_def bindR_Inr_iff split: sum.splits dest!: upd_users_ledger ledger_part_ok)
  show "keeps_ledger (auth_delete_me a c body)"
    unfolding auth_delete_me_def
    by (rule keeps_with_body)
      (auto simp: keeps_ledger_def delete_account_def commit_def split: sum.splits dest!: delete_account_tx_ledger ledger_part_ok)
  show "keeps_ledger (auth_change_password a c body)"
    unfolding auth_change_password_def
    by (rule keeps_with_body)
      (auto simp: keeps_ledger_def change_password_def commit_def split: sum.splits dest!: change_password_tx_ledger ledger_part_ok)
  show "keeps_ledger (auth_verify_adult_identity a c body)"
    unfolding auth_verify_adult_identity_def
    by (rule keeps_with_body)
      (auto simp: keeps_ledger_def verify_adult_identity_def apply_verified_adult_identity_def commit_def bindR_Inr_iff
        split: sum.splits intro: adult_identity_tx_ok)
  show "keeps_ledger (auth_revoke_session a c body)"
    unfolding auth_revoke_session_def
    by (rule keeps_with_body) (auto simp: keeps_ledger_def revoke_refresh_token_def Let_def split: sum.splits)
qed

section \<open>The other areas\<close>

lemma leaves_core_consents: "leaves_core (consents_update a c body)"
  unfolding consents_update_def
  by (intro core_leaving) (auto simp: update_user_consents_def bindR_Inr_iff Let_def split: if_splits dest!: record_consents_core)

lemma record_event_core: "record_event now i u inp s = Inr (x, s') \<Longrightarrow> core_of s' = core_of s"
  by (auto simp: record_event_def store_event_def bindR_Inr_iff ins_user_event_Inr_iff core_of_def)

lemma leaves_core_events: "leaves_core (events_record a c body)"
  unfolding events_record_def
  by (intro core_leaving) (auto simp: record_client_event_def store_event_def bindR_Inr_iff ins_user_event_Inr_iff core_of_def)

lemma leaves_core_posts:
  "leaves_core (posts_comment a c p body)" "leaves_core (posts_react a c p body)" "leaves_core (posts_unreact a c p body)"
proof -
  show "leaves_core (posts_comment a c p body)"
    unfolding posts_comment_def
    by (intro core_leaving) (auto simp: create_user_comment_def ins_comment_def bindR_Inr_iff core_of_def)
  show "leaves_core (posts_react a c p body)"
    unfolding posts_react_def
    by (intro core_leaving) (auto simp: create_user_reaction_def ins_reaction_def bindR_Inr_iff core_of_def split: option.splits)
  show "leaves_core (posts_unreact a c p body)"
    unfolding posts_unreact_def
    by (intro core_leaving) (auto simp: delete_user_reaction_def bindR_Inr_iff core_of_def)
qed

lemma leaves_core_support:
  "leaves_core (inquiries_create a c body)" "leaves_core (inquiries_delete a c i)" "leaves_core (reports_create a c body)"
proof -
  show "leaves_core (inquiries_create a c body)"
    unfolding inquiries_create_def
    by (intro core_leaving) (auto simp: create_inquiry_def ins_inquiry_def bindR_Inr_iff core_of_def)
  show "leaves_core (inquiries_delete a c i)"
    unfolding inquiries_delete_def
    by (intro leaves_core_signed_in)
      (auto simp: leaves_core_def delete_inquiry_def delete_submitted_def commit_def bindR_Inr_iff core_of_def split: sum.splits)
  show "leaves_core (reports_create a c body)"
    unfolding reports_create_def
    by (intro core_leaving) (auto simp: create_report_def ins_report_def bindR_Inr_iff core_of_def)
qed

lemmas beside_handlers = leaves_core_consents leaves_core_events leaves_core_posts leaves_core_support

lemmas keeps_beside_handlers [keeping] = beside_handlers [THEN keeps_beside]

lemma keeps_credits [keeping]: "keeps_ledger (credits_spend a c body)" "keeps_ledger (check_in_now a c)"
proof -
  show "keeps_ledger (credits_spend a c body)"
    unfolding credits_spend_def by (intro keeping keeps_in_core_commit) (rule spend_credits_ok)
  show "keeps_ledger (check_in_now a c)"
    unfolding check_in_now_def by (intro keeping keeps_in_core_commit) (rule check_in_ok)
qed

lemma follow_character_ledger:
  assumes "follow_character now i u ch s = Inr (x, s')"
  shows "ledger_part (core_db s') = ledger_part (core_db s) \<and> users (core_db s') = users (core_db s) \<and> refresh_tokens s' = refresh_tokens s"
proof -
  obtain f s1 where f: "upsert_follow now u ch s = (f, s1)" by (cases "upsert_follow now u ch s")
  have "core_of s' = core_of s1"
    using assms by (auto simp: follow_character_def bindR_Inr_iff f split: sum.splits dest: record_event_core)
  then show ?thesis
    using f by (auto simp: core_of_eq upsert_follow_def Let_def split: option.splits)
qed

lemma keeps_characters [keeping]: "keeps_ledger (follows_follow a c body)" "keeps_ledger (follows_unfollow a c body)"
proof -
  show "keeps_ledger (follows_follow a c body)"
    unfolding follows_follow_def
    by (intro keeping keeps_commit) (auto dest!: follow_character_ledger ledger_part_ok)
  show "keeps_ledger (follows_unfollow a c body)"
    unfolding follows_unfollow_def
    by (intro keeping keeps_commit) (auto simp: unfollow_character_def bindR_Inr_iff ledger_part_ok [OF ledger_part_update(4)])
qed

section \<open>Messages and notifications\<close>

lemma log_failure_ledger [simp]: "ledger_part (log_failure text context d) = ledger_part d"
  by (simp add: log_failure_def)

lemma append_message_ledger:
  "append_message parse now i conversation sender body x job d = Inr (m, d') \<Longrightarrow> ledger_part d' = ledger_part d"
  by (auto simp: append_message_def bindR_Inr_iff ins_message_Inr_iff)

lemma find_or_create_ledger: "find_or_create_conversation now i u ch d = Inr (r, d') \<Longrightarrow> ledger_part d' = ledger_part d"
  by (auto simp: find_or_create_conversation_def ins_conversation_def bindR_Inr_iff split: option.splits)

lemma send_tx_ledger:
  assumes "send_tx parse now ids u ch body reference d = Inr (x, d')"
  shows "ledger_part d' = ledger_part d"
  using assms
  by (auto simp: send_tx_def bindR_Inr_iff ins_job_Inr_iff Let_def dest!: find_or_create_ledger append_message_ledger)

lemma release_quietly_ok: "ledger_ok d \<Longrightarrow> ledger_ok (release_quietly now reference d)"
  by (auto simp: release_quietly_def commit_def release_reservation_def bindR_Inr_iff split: sum.splits prod.splits intro: release_in_tx_ok)

lemma chat_reservation_ok: "ledger_ok d \<Longrightarrow> chat_reservation now ids u d = Inr (r, d') \<Longrightarrow> ledger_ok d'"
  unfolding chat_reservation_def by (rule reserve_credits_ok)

lemma send_message_ok:
  assumes "ledger_ok d"
  shows "ledger_ok (snd (send_message parse describe t1 t2 t3 ids u ch raw d))"
proof (cases "trimmed raw = None \<or> \<not> has_character ch d \<or> isl (chat_reservation t1 ids u d)")
  case True
  then show ?thesis using assms by (auto simp: send_message_def commit_def split: option.splits sum.splits)
next
  case False
  then obtain body r d1 where b: "trimmed raw = Some body" "has_character ch d" and r: "chat_reservation t1 ids u d = Inr (r, d1)"
    by (cases "chat_reservation t1 ids u d") auto
  have ok: "ledger_ok d1" using assms r by (rule chat_reservation_ok)
  show ?thesis
  proof (cases "send_tx parse t2 ids u ch body (crr_ref r) d1")
    case (Inl err)
    then show ?thesis
      using release_quietly_ok [OF ok] ledger_part_ok [OF log_failure_ledger] by (simp add: send_message_def b r)
  next
    case (Inr x)
    then obtain v d2 where x: "x = (v, d2)" by (cases x) auto
    with Inr ok ledger_part_ok [OF send_tx_ledger] show ?thesis by (cases v) (auto simp: send_message_def b r)
  qed
qed

lemma requeue_ledger: "ledger_part (snd (requeue now i reference d)) = ledger_part d"
  by (simp add: requeue_def Let_def)

lemma retry_reply_ok:
  assumes "ledger_ok d"
  shows "ledger_ok (snd (retry_reply t1 t2 t3 ids u raw d))"
proof -
  define turn where "turn = (case raw of Some x \<Rightarrow> trim x | None \<Rightarrow> [])"
  show ?thesis
  proof (cases "isl (retryable_job u turn d) \<or> isl (chat_reservation t1 ids u d)")
    case True
    then show ?thesis
      using assms by (auto simp: retry_reply_def Let_def turn_def [symmetric] commit_def split: sum.splits)
  next
    case False
    then obtain job r d1 where j: "retryable_job u turn d = Inr job" and r: "chat_reservation t1 ids u d = Inr (r, d1)"
      by (cases "retryable_job u turn d"; cases "chat_reservation t1 ids u d") auto
    obtain hit d2 where q: "requeue t2 (job_id job) (crr_ref r) d1 = (hit, d2)" by (cases "requeue t2 (job_id job) (crr_ref r) d1")
    have "ledger_ok d2"
      using chat_reservation_ok [OF assms r] ledger_part_ok [OF requeue_ledger, of t2 "job_id job" "crr_ref r" d1] q by simp
    then show ?thesis
      by (cases hit) (simp_all add: retry_reply_def turn_def [symmetric] j r q release_quietly_ok)
  qed
qed

lemma sync_ledger: "sync_follow_notifications now ids u d = Inr (x, d') \<Longrightarrow> ledger_part d' = ledger_part d"
  by (auto simp: sync_follow_notifications_def ins_notifications_def bindR_Inr_iff Let_def split: if_splits)

lemma keeps_chat [keeping]:
  "keeps_ledger (messages_send a c body)" "keeps_ledger (messages_retry a c body)" "keeps_ledger (messages_read a c body)"
  "keeps_ledger (notifications_sync a c)" "keeps_ledger (notifications_read a c i)"
proof -
  show "keeps_ledger (messages_send a c body)"
    unfolding messages_send_def by (intro keeping keeps_in_core) (rule send_message_ok)
  show "keeps_ledger (messages_retry a c body)"
    unfolding messages_retry_def by (intro keeping keeps_in_core) (rule retry_reply_ok)
  show "keeps_ledger (messages_read a c body)"
    unfolding messages_read_def
    by (intro keeping keeps_in_core_commit)
      (auto simp: mark_conversation_read_def bindR_Inr_iff ledger_part_ok [OF ledger_part_update(5)])
  show "keeps_ledger (notifications_sync a c)"
    unfolding notifications_sync_def by (intro keeping keeps_in_core_commit) (auto dest!: sync_ledger ledger_part_ok)
  show "keeps_ledger (notifications_read a c i)"
    unfolding notifications_read_def
    by (intro keeping keeps_in_core)
      (auto simp: mark_notification_read_def Let_def ledger_part_ok [OF ledger_part_update(3)] split: list.splits)
qed

section \<open>Purchases\<close>

lemma store_checkout_ok: "ledger_ok d \<Longrightarrow> store_checkout now i v d = Inr (x, d') \<Longrightarrow> ledger_ok d'"
  by (auto simp: store_checkout_def bindR_Inr_iff dest: upd_payments_ok)

lemma ensure_checkout_ok:
  assumes "ledger_ok d"
  shows "ledger_ok (snd (ensure_checkout e g now inp (q, y) d))"
proof -
  have "ledger_ok (claim_payment now i d)" for i
    using assms by (simp add: claim_payment_def ledger_part_ok [OF ledger_part_update(10)])
  then show ?thesis
    using assms
    by (auto simp: ensure_checkout_def Let_def commit_def split: option.splits sum.splits intro: store_checkout_ok)
qed

lemma checkout_purchase_tx_ok:
  assumes "ledger_ok d" "checkout_purchase_tx e now pid yid u code key product m prov d = Inr (x, d')"
  shows "ledger_ok d'"
proof -
  have "ledger_part d' = ledger_part d"
    using assms(2)
    by (auto simp: checkout_purchase_tx_def bindR_Inr_iff ins_purchase_Inr_iff ins_payment_Inr_iff split: option.splits)
  then show ?thesis using assms(1) ledger_part_ok by metis
qed

lemma create_checkout_ok:
  assumes "ledger_ok d"
  shows "ledger_ok (snd (create_checkout e g parse now pid yid code key inp d))"
  using assms
  by (auto simp: create_checkout_def Let_def commit_def split: option.splits sum.splits
      intro!: ensure_checkout_ok intro: checkout_purchase_tx_ok)

lemma get_by_checkout_id_ok: "ledger_ok d \<Longrightarrow> get_by_checkout_id e g now fr u i d = Inr (x, d') \<Longrightarrow> ledger_ok d'"
  by (auto simp: get_by_checkout_id_def bindR_Inr_iff Let_def split: if_splits option.splits intro: apply_event_ok)

lemma verify_in_app_ok: "ledger_ok d \<Longrightarrow> verify_in_app e g h now pid yid enid lid u ch code proof d = Inr (x, d') \<Longrightarrow> ledger_ok d'"
  by (auto simp: verify_in_app_def bindR_Inr_iff intro: verified_tx_ok)

lemma apply_provider_event_ok: "ledger_ok d \<Longrightarrow> apply_provider_event e g now fr pr raw hs d = Inr (x, d') \<Longrightarrow> ledger_ok d'"
  by (auto simp: apply_provider_event_def bindR_Inr_iff intro: apply_event_ok)

lemma keeps_verify [keeping]: "keeps_ledger (purchases_verify a c ch body)"
  unfolding purchases_verify_def Let_def
  by (rule keeps_with_body, rule keeps_signed_in)
    (auto intro!: keeps_refuse keeps_in_core_commit intro: verify_in_app_ok split: option.splits)

lemma keeps_shop [keeping]:
  "keeps_ledger (purchases_checkout_of a c i)" "keeps_ledger (purchases_checkout a c key ip body)"
  "keeps_ledger (purchases_verify_apple a c body)" "keeps_ledger (purchases_verify_google a c body)"
  "keeps_ledger (purchases_refund a c p body)" "keeps_ledger (payments_webhook a c pr raw hs)"
proof -
  show "keeps_ledger (purchases_checkout_of a c i)"
    unfolding purchases_checkout_of_def by (intro keeping keeps_in_core_commit) (rule get_by_checkout_id_ok)
  show "keeps_ledger (purchases_checkout a c key ip body)"
    unfolding purchases_checkout_def by (intro keeping keeps_in_core) (rule create_checkout_ok)
  show "keeps_ledger (purchases_verify_apple a c body)" "keeps_ledger (purchases_verify_google a c body)"
    unfolding purchases_verify_apple_def purchases_verify_google_def by (rule keeps_verify)+
  show "keeps_ledger (purchases_refund a c p body)"
    unfolding purchases_refund_def Let_def
    by (rule keeps_with_body, rule keeps_signed_in) (auto intro!: keeps_refuse keeps_in_core request_refund_ok)
  show "keeps_ledger (payments_webhook a c pr raw hs)"
    unfolding payments_webhook_def by (intro keeps_in_core_commit) (rule apply_provider_event_ok)
qed

section \<open>Every request\<close>

lemma keeps_handle: "keeps_ledger (handle a c r)"
proof (cases "reading_request r")
  case True
  then show ?thesis by (intro keeps_alone) (simp add: leaves_alone_def reads_change_nothing)
next
  case False
  then show ?thesis
  proof (cases r)
    case (On_Account q)
    with False show ?thesis by (cases q) (auto simp: reading_account_def intro: keeping)
  next
    case (On_Credits q)
    with False show ?thesis by (cases q) (auto simp: reading_credits_def intro: keeping)
  next
    case (On_Characters q)
    with False show ?thesis by (cases q) (auto simp: reading_characters_def intro: keeping)
  next
    case (On_Posts q)
    with False show ?thesis by (cases q) (auto simp: reading_posts_def intro: keeping)
  next
    case (On_Chat q)
    with False show ?thesis by (cases q) (auto simp: reading_chat_def intro: keeping)
  next
    case (On_Shop q)
    with False show ?thesis by (cases q) (auto simp: reading_shop_def intro: keeping)
  next
    case (On_Support q)
    with False show ?thesis by (cases q) (auto simp: reading_support_def intro: keeping)
  qed
qed

end
