(* ===== verification/Service.thy ===== *)
theory Service
  imports Api_Ledger Social_Jobs
begin

text \<open>
  The whole service as a step relation: the requests, what they leave behind for later, and the two workers. \<open>ledger_ok\<close> is an invariant
  of it.
\<close>

inductive service_step :: "app \<Rightarrow> worker_options \<Rightarrow> backend \<Rightarrow> backend \<Rightarrow> bool" for a opts where
  request: "service_step a opts s (snd (handle a c r s))"
| interests: "service_step a opts s (update_preferences (app_media a) ids v s)"
| behaviour: "service_step a opts s (snd (commit (record_event now i u inp) s))"
| claims: "service_step a opts s (s\<lparr>core_db := snd (tick_claims opts now lock_free (core_db s))\<rparr>)"
| reply: "service_step a opts s
    (s\<lparr>core_db := snd (process_job (app_url a) error_name opts agent t1 t2 t3 mid lid claimed (core_db s))\<rparr>)"
| social: "service_step a opts s (snd (run_once so z msg jids fr now s))"

abbreviation service_run :: "app \<Rightarrow> worker_options \<Rightarrow> backend \<Rightarrow> backend \<Rightarrow> bool" where
  "service_run a opts \<equiv> (service_step a opts)\<^sup>*\<^sup>*"

section \<open>What the workers leave to the ledger\<close>

lemma upsert_hashtags_core: "core_of (snd (upsert_hashtags ids names s)) = core_of s"
proof (induction names arbitrary: s)
  case (Cons name names)
  obtain i s1 where "upsert_hashtag (ids (length names)) name s = (i, s1)" by fastforce
  moreover from this have "core_of s1 = core_of s" by (auto simp: core_of_def upsert_hashtag_def split: option.splits)
  ultimately show ?case using Cons.IH [of s1] by (simp add: case_prod_beta)
qed simp

lemma add_preferences_core: "core_of (fold (add_preference u w) hs s) = core_of s"
  by (induction hs arbitrary: s) (simp_all add: add_preference_def core_of_def)

lemma update_preferences_core: "core_of (update_preferences e ids v s) = core_of s"
  using upsert_hashtags_core add_preferences_core
  by (auto simp: update_preferences_def increase_hashtag_preferences_def Let_def case_prod_beta split: option.splits)

lemma claim_ledger: "claim opts now lock_free i conversation d = Inr (c, d') \<Longrightarrow> ledger_part d' = ledger_part d"
  by (auto simp: claim_def bindR_Inr_iff Let_def split: if_splits option.splits)

lemma claim_all_ledger: "ledger_part (snd (claim_all opts now free cs d)) = ledger_part d"
proof (induction opts now free cs d rule: claim_all.induct)
  case (2 opts now free i conversation rest d)
  have "ledger_part (snd (commit (claim opts now (free conversation) i conversation) d)) = ledger_part d"
    by (auto simp: commit_def split: sum.splits dest: claim_ledger)
  with 2 show ?case by (auto split: prod.splits sum.splits option.splits)
qed simp

lemma complete_tx_ok: "ledger_ok d \<Longrightarrow> complete_tx parse now mid lid c reply d = Inr (x, d') \<Longrightarrow> ledger_ok d'"
  by (auto simp: complete_tx_def bindR_Inr_iff Let_def ledger_part_ok [OF ledger_part_update(7)] split: if_splits
      dest!: append_message_ledger ledger_part_ok intro: capture_with_client_ok)

lemma finalize_failure_ok:
  assumes "ledger_ok d"
  shows "ledger_ok (snd (finalize_failure now c reason d))"
proof -
  have "ledger_ok d'" if "finalize_tx now c reason d = Inr (x, d')" for x d'
    using that assms
    by (auto simp: finalize_tx_def bindR_Inr_iff Let_def ledger_part_ok [OF ledger_part_update(7)] split: if_splits
        dest!: release_in_tx_ok [rotated])
  with assms show ?thesis
    by (auto simp: finalize_failure_def commit_def ledger_part_ok [OF log_failure_ledger] split: sum.splits)
qed

lemma handle_failure_ok: "ledger_ok d \<Longrightarrow> ledger_ok (snd (handle_failure opts now c err d))"
  by (simp add: handle_failure_def Let_def finalize_failure_ok requeue_later_def ledger_part_ok [OF ledger_part_update(7)])

lemma process_job_ok:
  assumes "ledger_ok d"
  shows "ledger_ok (snd (process_job parse error_name opts agent t1 t2 t3 mid lid c d))"
proof -
  have "ledger_ok (snd (commit (complete_tx parse t2 mid lid c reply) d))" for reply
    using assms by (auto simp: commit_def split: sum.splits intro: complete_tx_ok)
  with assms show ?thesis
    by (auto simp: process_job_def finalize_failure_ok handle_failure_ok commit_def split: sum.splits)
      (metis complete_tx_ok)
qed

section \<open>The social worker\<close>

lemma schedule_tx_core: "schedule_tx z jid now c s = Inr (b, s') \<Longrightarrow> core_of s' = core_of s"
  by (auto simp: schedule_tx_def with_activity_transaction_def advance_def schedule_job_def bindR_Inr_iff Let_def core_of_def
      split: option.splits if_splits)

lemma schedule_loop_core: "core_of (snd (schedule_loop z jids now cs s)) = core_of s"
proof (induction z jids now cs s rule: schedule_loop.induct)
  case (2 z jids now c cs s)
  have "core_of (snd (commit (schedule_tx z (jids (length cs)) now c) s)) = core_of s"
    by (auto simp: commit_def split: sum.splits dest: schedule_tx_core)
  with 2 show ?case by (auto split: prod.splits sum.splits)
qed simp

lemma claim_loop_core: "core_of (snd (claim_loop opts token now cs s)) = core_of s"
proof (induction opts token now cs s rule: claim_loop.induct)
  case (2 opts token now cand rest s)
  have "core_of (snd (claim_one opts token now cand s)) = core_of s"
    by (auto simp: claim_one_def core_of_def split: option.splits)
  with 2 show ?case by (auto split: prod.splits option.splits)
qed simp

lemma act_core: "act opts fr c p x now s = Inr s' \<Longrightarrow> core_of s' = core_of s"
  by (auto simp: act_def record_views_def like_viewed_posts_def insert_likes_def follow_qualified_authors_def insert_follows_def
      bindR_Inr_iff Let_def core_of_def split: if_splits)

lemma process_claimed_core:
  assumes "process_claimed_activity opts z fr lease now later s = Inr (b, s')"
  shows "core_of s' = core_of s"
  using assms
  by (auto simp: process_claimed_activity_def with_activity_transaction_def finish_def Let_def bindR_Inr_iff core_of_eq split: if_splits
      dest!: act_core)

lemma process_next_core: "core_of (snd (process_next_activity opts z msg fr now s)) = core_of s"
proof -
  obtain cl s1 where c: "claim_next opts (sfr_token fr) now s = (cl, s1)" by fastforce
  have s1: "core_of s1 = core_of s"
    using claim_loop_core [of opts "sfr_token fr" now _ s] c unfolding claim_next_def by (metis snd_conv)
  show ?thesis
  proof (cases cl)
    case (Some lease)
    have "core_of (snd (commit (process_claimed_activity opts z fr lease now now) s1)) = core_of s1"
      by (auto simp: commit_def split: sum.splits dest: process_claimed_core)
    with s1 show ?thesis
      by (auto simp: process_next_activity_def c Some fail_job_def Let_def core_of_def split: prod.splits sum.splits)
  qed (simp add: process_next_activity_def c s1)
qed

lemma run_loop_core: "core_of (snd (run_loop opts z msg fr now n s)) = core_of s"
proof (induction opts z msg fr now n s rule: run_loop.induct)
  case (1 opts z msg fr now n s)
  obtain r s' where p: "process_next_activity opts z msg (fr n) now s = (r, s')" by fastforce
  have s': "core_of s' = core_of s" using process_next_core [of opts z msg "fr n" now s] p by simp
  show ?case
  proof (cases "so_batch opts \<le> n \<or> r = Inr False")
    case True
    with p s' show ?thesis by (subst run_loop.simps) auto
  next
    case False
    then have "run_loop opts z msg fr now n s = run_loop opts z msg fr now (n + 1) s'"
      using p by (subst run_loop.simps) (auto split: sum.splits bool.splits)
    moreover have "core_of (snd (run_loop opts z msg fr now (n + 1) s')) = core_of s'"
      using 1 [OF _ p [symmetric]] False by (cases r) auto
    ultimately show ?thesis using s' by simp
  qed
qed

lemma run_once_core: "core_of (snd (run_once opts z msg jids fr now s)) = core_of s"
proof -
  obtain r s1 where p: "schedule_due_activities opts z jids now s = (r, s1)" by fastforce
  have "core_of s1 = core_of s"
    using schedule_loop_core [of z jids now _ s] p unfolding schedule_due_activities_def by (metis snd_conv)
  then show ?thesis using p run_loop_core by (auto simp: run_once_def case_prod_beta split: sum.splits)
qed

section \<open>The invariant\<close>

lemma service_step_ok:
  assumes "service_step a opts s s'" "ledger_ok (core_db s)"
  shows "ledger_ok (core_db s')"
  using assms(1)
proof cases
  case (request c r)
  then show ?thesis using keeps_handle [of a c r] assms(2) by (simp add: keeps_ledger_def)
next
  case (interests ids v)
  then show ?thesis using assms(2) update_preferences_core [of "app_media a" ids v s] by (simp add: core_of_eq)
next
  case (behaviour now i u inp)
  then show ?thesis using assms(2) by (auto simp: commit_def core_of_eq split: sum.splits dest!: record_event_core)
next
  case (claims now lock_free)
  then show ?thesis using assms(2) ledger_part_ok [OF claim_all_ledger] by (simp add: tick_claims_def)
next
  case (reply error_name agent t1 t2 t3 mid lid claimed)
  then show ?thesis using assms(2) by (simp add: process_job_ok)
next
  case (social so z msg jids fr now)
  then show ?thesis using assms(2) run_once_core [of so z msg jids fr now s] by (simp add: core_of_eq)
qed

text \<open>C3: Whatever requests arrive, in whatever order and with whatever bodies, and however the workers run between them, the ledger stays
  sound: ids are unique, no grant is used beyond its amount, every usage is exactly covered by allocations to grants of its user, and
  the reservations and the locks of refunds stay well-formed.
\<close>

theorem service_keeps_ledger:
  assumes "service_run a opts s s'" "ledger_ok (core_db s)"
  shows "ledger_ok (core_db s')"
  using assms(1)
proof (induction rule: rtranclp_induct)
  case (step y z)
  then show ?case by (auto intro: service_step_ok)
qed (rule assms(2))

end
