(* ===== verification/Service_Sessions.thy ===== *)
theory Service_Sessions
  imports Service Auth_Props
begin

text \<open>
  The whole service against the session machine of \<open>Sessions\<close>: a request of the account service is one of its transactions, and every
  other step leaves users and refresh tokens as they are. What \<open>Auth_Props\<close> proves of sequences of transactions therefore holds of the
  service.
\<close>

section \<open>What leaves the users alone\<close>

named_theorems same_users \<open>operations that leave the users alone\<close>

lemma ins_users [same_users]:
  "ins_ledger l d = Inr (l', d') \<Longrightarrow> users d' = users d"
  "ins_usages us d = Inr d' \<Longrightarrow> users d' = users d"
  "ins_reservation v d = Inr (v', d') \<Longrightarrow> users d' = users d"
  "ins_check_in k d = Inr d' \<Longrightarrow> users d' = users d"
  "ins_purchase q d = Inr (q', d') \<Longrightarrow> users d' = users d"
  "ins_payment y d = Inr (y', d') \<Longrightarrow> users d' = users d"
  "ins_payment_entry n d = Inr d' \<Longrightarrow> users d' = users d"
  "ins_refund f d = Inr (f', d') \<Longrightarrow> users d' = users d"
  "ins_notification t d = Inr (t', d') \<Longrightarrow> users d' = users d"
  "ins_job j d = Inr (j', d') \<Longrightarrow> users d' = users d"
  "ins_message m d = Inr (m', d') \<Longrightarrow> users d' = users d"
  "upd_payments p g d = Inr d' \<Longrightarrow> users d' = users d"
  "upd_refunds z h d = Inr d' \<Longrightarrow> users d' = users d"
  by (auto simp: res_simps)

lemma update_users [simp]:
  "users (update_reservations p f d) = users d"
  "users (set_purchase_status now st i d) = users d"
  "users (upd_event i h d) = users d"
  "users (event_processed now i d) = users d"
  "users (snd (fail_provider_event now i c d)) = users d"
  "users (snd (inbox_upsert i provider ev d)) = users d"
  "users (log_failure text context d) = users d"
  "users (claim_payment now i d) = users d"
  by (auto simp: update_reservations_def set_purchase_status_def upd_event_def event_processed_def fail_provider_event_def inbox_upsert_def
      log_failure_def claim_payment_def Let_def split: option.splits)

lemma write_usage_users [same_users]: "write_usage row allocs d = Inr d' \<Longrightarrow> users d' = users d"
  by (auto simp: write_usage_def bindR_Inr_iff split: if_splits dest!: same_users)

lemma record_refund_recovery_users [same_users]: "record_refund_recovery now lid u p n rf why d = Inr (x, d') \<Longrightarrow> users d' = users d"
  by (auto simp: record_refund_recovery_def bindR_Inr_iff dest!: same_users)

lemma create_notification_users [same_users]: "create_notification now i inp d = Inr (x, d') \<Longrightarrow> users d' = users d"
  by (auto simp: create_notification_def bindR_Inr_iff dest!: same_users)

lemma grant_with_client_users [same_users]: "grant_with_client now lid inp d = Inr (x, d') \<Longrightarrow> users d' = users d"
  by (elim grant_with_client_elim) (auto dest!: same_users)

lemma spend_credits_users [same_users]: "spend_credits now lid u n why d = Inr (x, d') \<Longrightarrow> users d' = users d"
  by (elim spend_credits_elim) (rule write_usage_users)

lemma check_in_users [same_users]: "check_in now cid lid u d = Inr (x, d') \<Longrightarrow> users d' = users d"
  by (elim check_in_elim) (auto dest!: grant_with_client_users)

lemma reserve_tx_users [same_users]: "reserve_tx now rid u a reference expires d = Inr (x, d') \<Longrightarrow> users d' = users d"
  by (cases a) (auto simp: reserve_tx_def Let_def bindR_Inr_iff split: option.splits if_splits dest!: ins_users(3))

lemma chat_reservation_users [same_users]: "chat_reservation now ids u d = Inr (x, d') \<Longrightarrow> users d' = users d"
  by (auto simp: chat_reservation_def reserve_credits_def dest!: reserve_tx_users)

lemma capture_in_tx_users [same_users]: "capture_in_tx now lid ref d = Inr (x, d') \<Longrightarrow> users d' = users d"
  by (cases x) (auto elim!: capture_in_tx_elim dest!: write_usage_users)

lemma capture_with_client_users [same_users]: "capture_with_client now lid ref d = Inr (x, d') \<Longrightarrow> users d' = users d"
  by (auto simp: capture_with_client_def bindR_Inr_iff split: prod.splits if_splits dest!: capture_in_tx_users)

lemma release_in_tx_users [same_users]: "release_in_tx now ref d = Inr (x, d') \<Longrightarrow> users d' = users d"
  by (auto simp: release_in_tx_def bindR_Inr_iff Let_def split: if_splits list.splits)

lemma release_quietly_users [simp]: "users (release_quietly now ref d) = users d"
  by (auto simp: release_quietly_def commit_def release_reservation_def split: sum.splits dest!: release_in_tx_users)

lemma complete_refund_users [same_users]:
  "complete_refund_with_client e now fr i ev d = Inr (x, d') \<Longrightarrow> users d' = users d"
  by (auto simp: complete_refund_with_client_def bindR_Inr_iff Let_def split: if_splits
      dest!: record_refund_recovery_users create_notification_users ins_users(7,12,13))

lemma reversal_tx_users [same_users]: "reversal_tx now lid u why row i upd entry d = Inr d' \<Longrightarrow> users d' = users d"
  by (auto simp: reversal_tx_def bindR_Inr_iff map_sum_Inr_iff split: if_splits
      dest!: record_refund_recovery_users ins_users(7,8,12))

lemma force_reversal_users [same_users]: "force_reversal now fr ev y q d = Inr d' \<Longrightarrow> users d' = users d"
  by (auto simp: force_reversal_def bindR_Inr_iff Let_def split: if_splits dest!: reversal_tx_users)

lemma reverse_part_users [same_users]: "reverse_part now fr ev net refunded previous y q d = Inr d' \<Longrightarrow> users d' = users d"
  by (auto simp: reverse_part_def bindR_Inr_iff Let_def split: if_splits dest!: reversal_tx_users)

lemma capture_payment_users [same_users]: "capture_payment e now fr ev y q d = Inr d' \<Longrightarrow> users d' = users d"
  by (auto simp: capture_payment_def bindR_Inr_iff dest!: grant_with_client_users create_notification_users ins_users(7,12))

lemma apply_cumulative_refund_users [same_users]:
  "apply_cumulative_refund e now fr ev net refunded y q d = Inr (x, d') \<Longrightarrow> users d' = users d"
  by (auto simp: apply_cumulative_refund_def bindR_Inr_iff Let_def split: if_splits option.splits
      dest!: complete_refund_users reverse_part_users)

lemma event_effect_users [same_users]: "event_effect e now fr ev y q d = Inr (x, d') \<Longrightarrow> users d' = users d"
  by (auto simp: event_effect_def bindR_Inr_iff split: event_type.splits option.splits if_splits
      dest!: complete_refund_users force_reversal_users capture_payment_users apply_cumulative_refund_users ins_users(12))

lemma apply_event_users [same_users]:
  assumes "apply_event e now fr provider ev d = Inr (x, d')"
  shows "users d' = users d"
  using assms
proof (cases rule: apply_event_elim)
  case (applied inbox s1 y q rejected s2)
  have "users s1 = users d" using arg_cong [OF applied(1), of "\<lambda>r. users (snd r)"] by simp
  moreover have "users s2 = users s1" using event_effect_users [OF applied(6)] by simp
  moreover have "users d' = users s2"
    using applied(7) by (cases rejected) (simp_all, metis update_users(5) snd_conv)
  ultimately show ?thesis by simp
qed (auto dest: arg_cong [of "inbox_upsert _ _ _ _" _ "\<lambda>r. users (snd r)"])

lemma verified_tx_users [same_users]:
  assumes "verified_tx now pid yid enid lid u ch code product external v d = Inr (x, d')"
  shows "users d' = users d"
proof (cases "find_payment (\<lambda>y. pay_provider y = vp_provider v \<and> pay_tx_key y = Some (vp_tx_key v)) d")
  case (Some z)
  then show ?thesis using assms by (cases z) (auto simp: verified_tx_def bindR_Inr_iff)
next
  case None
  with assms show ?thesis
    by (auto simp: verified_tx_def bindR_Inr_iff dest!: grant_with_client_users ins_users(5,6,7))
qed

lemma refund_prepare_users [same_users]: "refund_prepare e now fr u p key d = Inr (x, d') \<Longrightarrow> users d' = users d"
  by (cases x) (auto elim!: refund_prepare_elim)

lemma refund_settle_users: "users (snd (refund_settle e now fr i result d)) = users d"
  by (auto simp: refund_settle_def commit_def split: sum.splits dest!: ins_users(13) complete_refund_users)

lemma refund_continue_users: "users (snd (refund_continue e g now fr (f, q, y) new d)) = users d"
  by (auto simp: refund_continue_def commit_def refund_settle_users split: sum.splits option.splits dest!: complete_refund_users)

lemma request_refund_users: "users (snd (request_refund e g now fr u p key d)) = users d"
proof (cases "refund_prepare e now fr u p (trim key) d")
  case (Inr z)
  obtain f q y new d1 where z: "z = (((f, q, y), new), d1)" by (metis surj_pair)
  have "users d1 = users d" using refund_prepare_users Inr z by blast
  then show ?thesis using Inr z by (simp add: request_refund_def Let_def refund_continue_users)
qed (simp add: request_refund_def Let_def)

lemma ensure_checkout_users: "users (snd (ensure_checkout e g now inp (q, y) d)) = users d"
  by (auto simp: ensure_checkout_def store_checkout_def commit_def Let_def bindR_Inr_iff split: option.splits sum.splits
      dest!: ins_users(12))

lemma checkout_purchase_tx_users: "checkout_purchase_tx e now pid yid u code key product m prov d = Inr (x, d') \<Longrightarrow> users d' = users d"
  by (auto simp: checkout_purchase_tx_def bindR_Inr_iff split: option.splits dest!: ins_users(5,6))

lemma create_checkout_users: "users (snd (create_checkout e g parse now pid yid code key inp d)) = users d"
  by (auto simp: create_checkout_def commit_def Let_def ensure_checkout_users split: option.splits sum.splits
      dest!: checkout_purchase_tx_users)

lemma get_by_checkout_id_users [same_users]: "get_by_checkout_id e g now fr u i d = Inr (x, d') \<Longrightarrow> users d' = users d"
  by (auto simp: get_by_checkout_id_def bindR_Inr_iff Let_def split: if_splits option.splits dest!: apply_event_users)

lemma verify_in_app_users [same_users]:
  "verify_in_app e g h now pid yid enid lid u ch code proof d = Inr (x, d') \<Longrightarrow> users d' = users d"
  by (auto simp: verify_in_app_def bindR_Inr_iff dest!: verified_tx_users)

lemma apply_provider_event_users [same_users]: "apply_provider_event e g now fr pr raw hs d = Inr (x, d') \<Longrightarrow> users d' = users d"
  by (auto simp: apply_provider_event_def bindR_Inr_iff dest!: apply_event_users)

section \<open>Messages, notifications and the worker\<close>

lemma append_message_users [same_users]: "append_message parse now i cv sender body y job d = Inr (x, d') \<Longrightarrow> users d' = users d"
  by (auto simp: append_message_def bindR_Inr_iff dest!: ins_users(11))

lemma send_tx_users [same_users]: "send_tx parse now ids u ch body ref d = Inr (x, d') \<Longrightarrow> users d' = users d"
  by (auto simp: send_tx_def find_or_create_conversation_def ins_conversation_def bindR_Inr_iff Let_def split: option.splits
      dest!: append_message_users ins_users(10))

lemma send_message_users: "users (snd (send_message parse describe t1 t2 t3 ids u ch raw d)) = users d"
  by (auto simp: send_message_def commit_def split: option.splits sum.splits dest!: chat_reservation_users send_tx_users)

lemma retry_reply_users: "users (snd (retry_reply t1 t2 t3 ids u raw d)) = users d"
  by (auto simp: retry_reply_def requeue_def commit_def Let_def split: sum.splits bool.splits dest!: chat_reservation_users)

lemma sync_users [same_users]: "sync_follow_notifications now ids u d = Inr (x, d') \<Longrightarrow> users d' = users d"
  by (auto simp: sync_follow_notifications_def ins_notifications_def bindR_Inr_iff Let_def split: if_splits)

lemma complete_tx_users [same_users]: "complete_tx parse now mid lid cl reply d = Inr (x, d') \<Longrightarrow> users d' = users d"
  by (auto simp: complete_tx_def bindR_Inr_iff Let_def split: if_splits dest!: append_message_users capture_with_client_users)

lemma finalize_failure_users: "users (snd (finalize_failure now cl reason d)) = users d"
  by (auto simp: finalize_failure_def finalize_tx_def commit_def bindR_Inr_iff Let_def split: sum.splits if_splits dest!: release_in_tx_users)

lemma handle_failure_users: "users (snd (handle_failure opts now cl err d)) = users d"
  by (simp add: handle_failure_def finalize_failure_users requeue_later_def Let_def)

lemma process_job_users: "users (snd (process_job parse name opts agent t1 t2 t3 mid lid cl d)) = users d"
  by (auto simp: process_job_def finalize_failure_users handle_failure_users commit_def split: sum.splits dest!: complete_tx_users)

lemma claim_all_users: "users (snd (claim_all opts now free cs d)) = users d"
proof (induction opts now free cs d rule: claim_all.induct)
  case (2 opts now free i conversation rest d)
  have "users (snd (commit (claim opts now (free conversation) i conversation) d)) = users d"
    by (auto simp: commit_def claim_def bindR_Inr_iff Let_def split: sum.splits if_splits option.splits)
  with 2 show ?case by (auto split: prod.splits sum.splits option.splits)
qed simp

section \<open>Requests beside the accounts\<close>

definition keeps_sessions :: "'a handler \<Rightarrow> bool" where
  "keeps_sessions h \<longleftrightarrow> (\<forall>s. sessions_of (snd (h s)) = sessions_of s)"

named_theorems elsewhere_intros \<open>handlers that leave users and refresh tokens alone\<close>

lemma elsewhere_core: "leaves_core h \<Longrightarrow> keeps_sessions h"
  by (simp add: leaves_core_def keeps_sessions_def core_of_eq sessions_of_def)

lemma elsewhere_ack [simp]: "keeps_sessions (ack h) = keeps_sessions h"
  by (simp add: keeps_sessions_def ack_def case_prod_beta)

lemma elsewhere_refuse [elsewhere_intros]: "keeps_sessions (refuse_with err)"
  by (simp add: keeps_sessions_def refuse_with_def)

lemma elsewhere_with_body [elsewhere_intros]: "(\<And>b. keeps_sessions (k b)) \<Longrightarrow> keeps_sessions (with_body a d body k)"
  and elsewhere_signed_in [elsewhere_intros]: "(\<And>u. keeps_sessions (f u)) \<Longrightarrow> keeps_sessions (signed_in a c f)"
  by (auto simp: keeps_sessions_def with_body_def signed_in_def split: sum.splits)

lemma elsewhere_in_core: "(\<And>d. users (snd (f d)) = users d) \<Longrightarrow> keeps_sessions (in_core f)"
  by (simp add: keeps_sessions_def in_core_def sessions_of_def case_prod_beta)

lemma elsewhere_in_core_commit: "(\<And>d x d'. tx d = Inr (x, d') \<Longrightarrow> users d' = users d) \<Longrightarrow> keeps_sessions (in_core (commit tx))"
  by (rule elsewhere_in_core) (auto simp: commit_def split: sum.splits)

lemmas elsewhere_beside [elsewhere_intros] = beside_handlers [THEN elsewhere_core]

lemma elsewhere_writes [elsewhere_intros]:
  "keeps_sessions (credits_spend a c body)" "keeps_sessions (check_in_now a c)" "keeps_sessions (follows_follow a c body)"
  "keeps_sessions (follows_unfollow a c body)" "keeps_sessions (messages_send a c body)" "keeps_sessions (messages_retry a c body)"
  "keeps_sessions (messages_read a c body)" "keeps_sessions (notifications_sync a c)" "keeps_sessions (notifications_read a c i)"
proof -
  show "keeps_sessions (credits_spend a c body)"
    unfolding credits_spend_def by (intro elsewhere_intros elsewhere_in_core_commit) (rule spend_credits_users)
  show "keeps_sessions (check_in_now a c)"
    unfolding check_in_now_def by (intro elsewhere_intros elsewhere_in_core_commit) (rule check_in_users)
  show "keeps_sessions (follows_follow a c body)"
    unfolding follows_follow_def
    by (intro elsewhere_intros)
      (auto simp: keeps_sessions_def commit_def sessions_of_def split: sum.splits dest!: follow_character_ledger)
  show "keeps_sessions (follows_unfollow a c body)"
    unfolding follows_unfollow_def
    by (intro elsewhere_intros)
      (auto simp: keeps_sessions_def commit_def unfollow_character_def bindR_Inr_iff sessions_of_def split: sum.splits)
  show "keeps_sessions (messages_send a c body)"
    unfolding messages_send_def by (intro elsewhere_intros elsewhere_in_core) (rule send_message_users)
  show "keeps_sessions (messages_retry a c body)"
    unfolding messages_retry_def by (intro elsewhere_intros elsewhere_in_core) (rule retry_reply_users)
  show "keeps_sessions (messages_read a c body)"
    unfolding messages_read_def
    by (intro elsewhere_intros elsewhere_in_core_commit) (auto simp: mark_conversation_read_def bindR_Inr_iff)
  show "keeps_sessions (notifications_sync a c)"
    unfolding notifications_sync_def by (intro elsewhere_intros elsewhere_in_core_commit) (rule sync_users)
  show "keeps_sessions (notifications_read a c i)"
    unfolding notifications_read_def
    by (intro elsewhere_intros elsewhere_in_core) (auto simp: mark_notification_read_def Let_def split: list.splits)
qed

lemma elsewhere_verify: "keeps_sessions (purchases_verify a c ch body)"
  unfolding purchases_verify_def Let_def
  by (rule elsewhere_with_body, rule elsewhere_signed_in)
    (auto intro!: elsewhere_refuse elsewhere_in_core_commit intro: verify_in_app_users split: option.splits)

lemma elsewhere_shop [elsewhere_intros]:
  "keeps_sessions (purchases_checkout_of a c i)" "keeps_sessions (purchases_checkout a c key ip body)"
  "keeps_sessions (purchases_verify_apple a c body)" "keeps_sessions (purchases_verify_google a c body)"
  "keeps_sessions (purchases_refund a c p body)" "keeps_sessions (payments_webhook a c pr raw hs)"
proof -
  show "keeps_sessions (purchases_checkout_of a c i)"
    unfolding purchases_checkout_of_def by (intro elsewhere_intros elsewhere_in_core_commit) (rule get_by_checkout_id_users)
  show "keeps_sessions (purchases_checkout a c key ip body)"
    unfolding purchases_checkout_def by (intro elsewhere_intros elsewhere_in_core) (rule create_checkout_users)
  show "keeps_sessions (purchases_verify_apple a c body)" "keeps_sessions (purchases_verify_google a c body)"
    unfolding purchases_verify_apple_def purchases_verify_google_def by (rule elsewhere_verify)+
  show "keeps_sessions (purchases_refund a c p body)"
    unfolding purchases_refund_def Let_def
    by (rule elsewhere_with_body, rule elsewhere_signed_in) (auto intro!: elsewhere_refuse elsewhere_in_core request_refund_users)
  show "keeps_sessions (payments_webhook a c pr raw hs)"
    unfolding payments_webhook_def by (intro elsewhere_in_core_commit) (rule apply_provider_event_users)
qed

lemma elsewhere_request:
  assumes "\<And>q. r \<noteq> On_Account q"
  shows "keeps_sessions (handle a c r)"
proof (cases "reading_request r")
  case True
  then show ?thesis by (intro elsewhere_core leaves_core_alone) (simp add: leaves_alone_def reads_change_nothing)
next
  case False
  then show ?thesis
  proof (cases r)
    case (On_Account q)
    with assms [of q] show ?thesis by simp
  next
    case (On_Credits q)
    with False show ?thesis by (cases q) (auto simp: reading_credits_def intro: elsewhere_intros)
  next
    case (On_Characters q)
    with False show ?thesis by (cases q) (auto simp: reading_characters_def intro: elsewhere_intros)
  next
    case (On_Posts q)
    with False show ?thesis by (cases q) (auto simp: reading_posts_def intro: elsewhere_intros)
  next
    case (On_Chat q)
    with False show ?thesis by (cases q) (auto simp: reading_chat_def intro: elsewhere_intros)
  next
    case (On_Shop q)
    with False show ?thesis by (cases q) (auto simp: reading_shop_def intro: elsewhere_intros)
  next
    case (On_Support q)
    with False show ?thesis by (cases q) (auto simp: reading_support_def intro: elsewhere_intros)
  qed
qed

section \<open>Requests of the account service\<close>

abbreviation accounts :: "app \<Rightarrow> backend \<Rightarrow> backend \<Rightarrow> bool" where
  "accounts a \<equiv> auth_step (app_crypto a) (app_auth a)"

lemma ack_state [simp]: "snd (ack h s) = snd (h s)"
  by (simp add: ack_def case_prod_beta)

lemma accounts_unchanged: "accounts a s s"
  by (rule auth_step.elsewhere) simp

lemma accounts_with_body: "(\<And>b. accounts a s (snd (k b s))) \<Longrightarrow> accounts a s (snd (with_body a d body k s))"
  by (auto simp: with_body_def accounts_unchanged split: sum.splits)

lemma accounts_commit: "(\<And>x s'. tx s = Inr (x, s') \<Longrightarrow> accounts a s s') \<Longrightarrow> accounts a s (snd (commit tx s))"
  by (auto simp: commit_def accounts_unchanged split: sum.splits)

lemma accounts_login: "accounts a s (snd (login (app_crypto a) (app_auth a) now fr inp s))"
  by (auto simp: login_def accounts_unchanged split: sum.splits intro!: accounts_commit intro: auth_step.logs_in)

lemma accounts_refresh: "accounts a s (snd (refresh (app_crypto a) (app_auth a) now fr inp s))"
proof (cases "refresh_check (app_crypto a) (app_auth a) now inp s")
  case (Inr f)
  then show ?thesis by (auto simp: refresh_def intro!: accounts_commit intro: auth_step.refreshes)
qed (simp add: refresh_def accounts_unchanged)

lemma accounts_change_password: "accounts a s (snd (change_password (app_crypto a) (app_auth a) now fr au inp s))"
  by (auto simp: change_password_def accounts_unchanged split: sum.splits intro!: accounts_commit intro: auth_step.changes_password)

lemma accounts_delete: "accounts a s (snd (delete_account (app_crypto a) (app_auth a) now fr au inp s))"
  by (auto simp: delete_account_def accounts_unchanged split: sum.splits intro!: accounts_commit intro: auth_step.leaves)

lemma accounts_verify: "accounts a s (snd (verify_adult_identity (app_crypto a) (app_auth a) now fr au inp s))"
  unfolding verify_adult_identity_def
  by (rule accounts_commit) (auto simp: bindR_Inr_iff apply_verified_adult_identity_def intro: auth_step.verifies)

lemma accounts_request: "accounts a s (snd (handle a c (On_Account q) s))"
proof (cases "reading_account q")
  case True
  then show ?thesis by (simp add: reads_change_nothing accounts_unchanged del: handle.simps)
next
  case False
  then show ?thesis
    by (cases q)
      (auto simp: reading_account_def auth_register_def auth_login_def auth_social_login_def auth_refresh_def auth_update_me_def
        auth_delete_me_def auth_change_password_def auth_verify_adult_identity_def auth_revoke_session_def
        intro!: accounts_with_body auth_step.registers auth_step.logs_in_socially auth_step.revokes auth_step.edits
          accounts_login accounts_refresh accounts_change_password accounts_delete accounts_verify)
qed

lemma service_accounts:
  assumes "service_step a opts s s'"
  shows "accounts a s s'"
  using assms
proof cases
  case (request c r)
  show ?thesis
  proof (cases "\<exists>q. r = On_Account q")
    case True
    then show ?thesis using accounts_request request by auto
  next
    case False
    then have "keeps_sessions (handle a c r)" by (intro elsewhere_request) auto
    then show ?thesis unfolding request by (intro auth_step.elsewhere) (simp add: keeps_sessions_def)
  qed
next
  case (interests ids v)
  then show ?thesis using update_preferences_core [of "app_media a" ids v s] by (intro auth_step.elsewhere) (simp add: core_of_eq sessions_of_def)
next
  case (behaviour now i u inp)
  then show ?thesis
    by (intro auth_step.elsewhere) (auto simp: commit_def core_of_eq sessions_of_def split: sum.splits dest!: record_event_core)
next
  case (claims now lock_free)
  then show ?thesis by (intro auth_step.elsewhere) (simp add: sessions_of_def tick_claims_def claim_all_users)
next
  case (reply error_name agent t1 t2 t3 mid lid claimed)
  then show ?thesis by (intro auth_step.elsewhere) (simp add: sessions_of_def process_job_users)
next
  case (social so z msg jids fr now)
  then show ?thesis using run_once_core [of so z msg jids fr now s] by (intro auth_step.elsewhere) (simp add: core_of_eq sessions_of_def)
qed

lemma service_run_accounts: "service_run a opts s s' \<Longrightarrow> auth_run (app_crypto a) (app_auth a) s s'"
  by (induction rule: rtranclp_induct) (auto intro: service_accounts rtranclp.rtrancl_into_rtrancl)

section \<open>Sessions of the whole service\<close>



text \<open>C23: A refresh token is good for one exchange: whatever the service does after it was exchanged, the same body is refused, unless the
  hash of the token was issued again to somebody else.
\<close>

theorem refresh_single_use:
  assumes "sessions_ok (sessions_of s)" "auth_refresh a c body s = (Inr x, s1)" "app_pipe a refresh_token_dto body = Inr b"
    and "service_run a opts s1 s2"
  shows "fst (auth_refresh a later body s2) = Inl (Unauthorized ''Refresh token is invalid'') \<or>
    (\<exists>t \<in> set (refresh_tokens s2). tok_hash t = hash_token (app_crypto a) (trim (the (json_text (property ''refreshToken'' (Some b))))) \<and>
       tok_user t \<noteq> pbu_id (ath_user x))"
proof -
  have "refresh (app_crypto a) (app_auth a) (call_time c 0) (call_auth c) (Some b) s = (Inr x, s1)"
    using assms(2,3) by (simp add: auth_refresh_def with_body_def)
  from refresh_once_run [OF assms(1) this service_run_accounts [OF assms(4)]] show ?thesis
    by (simp add: auth_refresh_def with_body_def assms(3))
qed

text \<open>C24: A change of password ends every session of the user: whatever the service does afterwards, none of the tokens of before is live
  again, and the only live token right after it is the one handed out with the new password.
\<close>

theorem password_change_ends_sessions:
  assumes "sessions_ok (sessions_of s)" "auth_change_password a c body s = (Inr x, s1)" "service_run a opts s1 s2"
  shows "(\<forall>t \<in> set (refresh_tokens s). tok_user t = pbu_id (ath_user x) \<longrightarrow>
      (\<forall>q \<in> set (refresh_tokens s2). tok_hash q = tok_hash t \<and> tok_user q = pbu_id (ath_user x) \<longrightarrow> tok_revoked q \<noteq> None)) \<and>
    (\<forall>q \<in> set (refresh_tokens s1). tok_user q = pbu_id (ath_user x) \<and> tok_revoked q = None \<longrightarrow>
      tok_hash q = hash_token (app_crypto a) (ath_refresh x))"
proof -
  obtain user password where tx:
    "change_password_tx (app_crypto a) (app_auth a) (call_time c 0) (call_auth c) user password s = Inr (x, s1)"
    using assms(2) by (auto simp: auth_change_password_def with_body_def change_password_def commit_def split: sum.splits)
  then obtain r s3 where "find_user (usr_id user) s = Some r"
    "issue_tokens (app_crypto a) (app_auth a) (call_time c 0) (call_auth c) (to_public_user r []) s3 = (Inr x, s1)"
    by (rule change_password_elim)
  then have "pbu_id (ath_user x) = usr_id user"
    using issue_tokens_effect(2) by (auto simp: to_public_user_def dest!: find_user_in)
  with password_change_run [OF assms(1) tx service_run_accounts [OF assms(3)]] show ?thesis by simp
qed


end
