(* ===== verification/Feed_Props.thy ===== *)
theory Feed_Props
  imports Feed "HOL-Library.Multiset"
begin

text \<open>
  What the feed promises: its contents and their order by a score that is said over the tables of follows and preferences, its
  pages, which meet the contract of \<open>Page\<close> although they are cut from a list in memory, and how the readers' events move the
  preferences that rank it.
\<close>

section \<open>The feed\<close>

lemma find_index_nth:
  assumes "distinct (map k xs)" "i < length xs"
  shows "find_index (\<lambda>p. k p = k (xs ! i)) xs = Some i"
  using assms
proof (induction xs arbitrary: i)
  case (Cons x xs)
  show ?case
  proof (cases i)
    case (Suc j)
    then have "k x \<noteq> k (xs ! j)" using Cons.prems by (auto simp: image_iff)
    then show ?thesis using Cons Suc by simp
  qed simp
qed simp

definition canonical_posts :: "backend \<Rightarrow> bool" where
  "canonical_posts s \<longleftrightarrow> distinct (map pst_id (posts (core_db s))) \<and> list_all (\<lambda>r. canonical (pst_id r)) (posts (core_db s))"

lemma feed_posts_shown: "filter (\<lambda>p. pvw_type p = Feed_Post) (list_posts e s) =
    map (to_post e s) (sort_key (\<lambda>r. - pst_created r) (filter (\<lambda>r. author_active s r \<and> pst_type r = Feed_Post) (posts (core_db s))))"
  by (simp add: list_posts_def visible_posts_def filter_map filter_sort o_def to_post_def conj_commute)

lemma get_feed_mset: "mset (get_feed e u s) =
    image_mset (to_post e s) (filter_mset (\<lambda>r. author_active s r \<and> pst_type r = Feed_Post) (mset (posts (core_db s))))"
  by (simp add: get_feed_def feed_posts_shown)

lemma feed_ids:
  assumes "canonical_posts s"
  shows "distinct (map pvw_id (get_feed e u s))" "p \<in> set (get_feed e u s) \<Longrightarrow> is_uuid (pvw_id p)"
proof -
  let ?rows = "filter (\<lambda>r. author_active s r \<and> pst_type r = Feed_Post) (posts (core_db s))"
  have "mset (map pvw_id (get_feed e u s)) = mset (map pst_id ?rows)"
    by (simp add: get_feed_mset image_mset.compositionality o_def to_post_def)
  moreover have "distinct (map pst_id ?rows)"
    using assms by (simp add: canonical_posts_def distinct_map_filter)
  ultimately show "distinct (map pvw_id (get_feed e u s))" by (metis mset_eq_imp_distinct_iff)
  show "is_uuid (pvw_id p)" if "p \<in> set (get_feed e u s)"
  proof -
    have "p \<in># mset (get_feed e u s)" using that by simp
    then show ?thesis unfolding get_feed_mset using assms
      by (auto simp: canonical_posts_def list_all_iff canonical_def to_post_def)
  qed
qed

interpretation feed_pages: paged_listing
  "\<lambda>(e, u, s) c n. get_feed_page e u \<lparr>pg_cursor = c, pg_limit = n\<rparr> s" "\<lambda>(e, u, s). get_feed e u s" pvw_id
  "\<lambda>(e, u, s). canonical_posts s"
proof (unfold_locales, goal_cases)
  case (1 x n)
  then show ?case by (auto simp: get_feed_page_def decode_cursor_None)
next
  case (2 x n i)
  obtain e u s where x: "x = (e, u, s)" by (cases x) auto
  then have i: "i < length (get_feed e u s)" and ok: "canonical_posts s" using 2 by auto
  have "decode_cursor (Some (encode_cursor (pvw_id (get_feed e u s ! i)))) = Inr (Some (pvw_id (get_feed e u s ! i)))"
    using feed_ids(2) [OF ok nth_mem [OF i]] by (simp add: cursor_roundtrip)
  then show ?case using find_index_nth [OF feed_ids(1) [OF ok] i] x by (simp add: get_feed_page_def)
qed

text \<open>C34: Following \<open>nextCursor\<close> from the first page shows the whole ranked feed, every post once, for any page size.\<close>

theorem feed_pages_complete:
  assumes "canonical_posts s" "0 < n"
  shows "follow_pages (\<lambda>c. get_feed_page e u \<lparr>pg_cursor = c, pg_limit = n\<rparr> s) (Suc (length (get_feed e u s))) None = Inr (get_feed e u s)"
  using feed_pages.all_pages [of "(e, u, s)" n] assms by simp

section \<open>Preferences\<close>

text \<open>What the feed reads of a reader's preference for a hashtag.\<close>

definition preference_of :: "uid \<Rightarrow> string \<Rightarrow> backend \<Rightarrow> rat option" where
  "preference_of u h s = map_of (rev (hashtag_preferences_for u s)) h"

text \<open>The keys of the two tables: hashtags by id and by name, preferences by user and hashtag.\<close>

definition preference_keys :: "backend \<Rightarrow> bool" where
  "preference_keys s \<longleftrightarrow> distinct (map htg_id (hashtags s)) \<and> distinct (map htg_name (hashtags s)) \<and>
     distinct (map (\<lambda>p. (prf_user p, prf_hashtag p)) (preferences s)) \<and>
     (\<forall>p \<in> set (preferences s). prf_hashtag p \<in> htg_id ` set (hashtags s))"

definition hashtag_id :: "string \<Rightarrow> backend \<Rightarrow> uid option" where
  "hashtag_id name s = map_option htg_id (find (\<lambda>h. htg_name h = name) (hashtags s))"

definition score_of :: "uid \<Rightarrow> uid \<Rightarrow> backend \<Rightarrow> rat option" where
  "score_of u i s = map_option prf_score (find (\<lambda>p. prf_user p = u \<and> prf_hashtag p = i) (preferences s))"

lemma find_keyed_iff:
  assumes "distinct (map k xs)"
  shows "find (\<lambda>r. k r = v) xs = Some x \<longleftrightarrow> x \<in> set xs \<and> k x = v"
  using find_unique [OF assms] find_in_set [of "\<lambda>r. k r = v" xs x] by metis

lemma hashtag_id_iff:
  assumes "preference_keys s"
  shows "hashtag_id n s = Some i \<longleftrightarrow> (\<exists>h \<in> set (hashtags s). htg_name h = n \<and> htg_id h = i)"
proof -
  have d: "distinct (map htg_name (hashtags s))" using assms by (simp add: preference_keys_def)
  show ?thesis
    by (auto simp: hashtag_id_def find_keyed_iff [OF d])
qed

lemma score_of_iff:
  assumes "preference_keys s"
  shows "score_of u i s = Some x \<longleftrightarrow> (\<exists>p \<in> set (preferences s). prf_user p = u \<and> prf_hashtag p = i \<and> prf_score p = x)"
proof -
  have d: "distinct (map (\<lambda>p. (prf_user p, prf_hashtag p)) (preferences s))" using assms by (simp add: preference_keys_def)
  then show ?thesis using find_keyed_iff [OF d, of "(u, i)"] by (auto simp: score_of_def)
qed

lemma preference_of_iff:
  assumes "preference_keys s"
  shows "preference_of u n s = Some x \<longleftrightarrow> (\<exists>i. hashtag_id n s = Some i \<and> score_of u i s = Some x)"
proof -
  let ?l = "hashtag_preferences_for u s"
  have m: "(n, x) \<in> set ?l \<longleftrightarrow> (\<exists>i. hashtag_id n s = Some i \<and> score_of u i s = Some x)" for n x
    by (auto simp: hashtag_preferences_for_def hashtag_id_iff [OF assms] score_of_iff [OF assms])
  have f: "x = y" if "(n, x) \<in> set ?l" "(n, y) \<in> set ?l" for x y using that unfolding m by auto
  have "map_of (rev ?l) n = Some x \<longleftrightarrow> (n, x) \<in> set ?l"
  proof
    assume "(n, x) \<in> set ?l"
    then obtain y where "map_of (rev ?l) n = Some y" using weak_map_of_SomeI [of n x "rev ?l"] by auto
    moreover from this have "(n, y) \<in> set ?l" by (auto dest: map_of_SomeD)
    ultimately show "map_of (rev ?l) n = Some x" using f \<open>(n, x) \<in> set ?l\<close> by metis
  qed (auto dest: map_of_SomeD)
  then show ?thesis unfolding preference_of_def m .
qed

lemma preference_of_eq:
  assumes "preference_keys s"
  shows "preference_of u n s = Option.bind (hashtag_id n s) (\<lambda>i. score_of u i s)"
proof (cases "preference_of u n s")
  case (Some x)
  then show ?thesis using preference_of_iff [OF assms, of u n x] by auto
next
  case None
  then have "\<not> (hashtag_id n s = Some i \<and> score_of u i s = Some x)" for i x using preference_of_iff [OF assms, of u n x] by auto
  then show ?thesis using None by (cases "hashtag_id n s") (auto, metis not_None_eq)
qed


lemma upsert_hashtag_effect:
  assumes keys: "preference_keys s" and i: "i \<notin> htg_id ` set (hashtags s)" and run: "upsert_hashtag i n s = (j, s1)"
  shows "preference_keys s1" "preferences s1 = preferences s" "core_db s1 = core_db s" "hashtag_id n s1 = Some j"
    "m \<noteq> n \<Longrightarrow> hashtag_id m s1 = hashtag_id m s" "j = (case hashtag_id n s of Some x \<Rightarrow> x | None \<Rightarrow> i)"
    "htg_id ` set (hashtags s) \<subseteq> htg_id ` set (hashtags s1)" "htg_id ` set (hashtags s1) \<subseteq> insert i (htg_id ` set (hashtags s))"
proof -
  consider (old) h where "find (\<lambda>h. htg_name h = n) (hashtags s) = Some h" "j = htg_id h" "s1 = s"
    | (new) "find (\<lambda>h. htg_name h = n) (hashtags s) = None" "j = i" "s1 = s\<lparr>hashtags := hashtags s @ [\<lparr>htg_id = i, htg_name = n\<rparr>]\<rparr>"
    using run by (auto simp: upsert_hashtag_def split: option.splits)
  then have "preference_keys s1 \<and> preferences s1 = preferences s \<and> core_db s1 = core_db s \<and> hashtag_id n s1 = Some j \<and>
    (m \<noteq> n \<longrightarrow> hashtag_id m s1 = hashtag_id m s) \<and> j = (case hashtag_id n s of Some x \<Rightarrow> x | None \<Rightarrow> i) \<and>
    htg_id ` set (hashtags s) \<subseteq> htg_id ` set (hashtags s1) \<and> htg_id ` set (hashtags s1) \<subseteq> insert i (htg_id ` set (hashtags s))"
  proof cases
    case old
    then show ?thesis using keys by (auto simp: hashtag_id_def)
  next
    case new
    then have n: "n \<notin> htg_name ` set (hashtags s)" by (auto simp: find_None_iff_all)
    then have "preference_keys s1" using keys i new(3) by (auto simp: preference_keys_def image_iff)
    moreover have "hashtag_id n s1 = Some i" "m \<noteq> n \<Longrightarrow> hashtag_id m s1 = hashtag_id m s"
      using new by (auto simp: hashtag_id_def find_append split: option.splits)
    ultimately show ?thesis using new by (auto simp: hashtag_id_def)
  qed
  then show "preference_keys s1" "preferences s1 = preferences s" "core_db s1 = core_db s" "hashtag_id n s1 = Some j"
    "m \<noteq> n \<Longrightarrow> hashtag_id m s1 = hashtag_id m s" "j = (case hashtag_id n s of Some x \<Rightarrow> x | None \<Rightarrow> i)"
    "htg_id ` set (hashtags s) \<subseteq> htg_id ` set (hashtags s1)" "htg_id ` set (hashtags s1) \<subseteq> insert i (htg_id ` set (hashtags s))"
    by blast+
qed

lemma upsert_hashtags_effect:
  assumes "preference_keys s" "upsert_hashtags ids names s = (is, s1)" "distinct names"
    and "\<And>k. k < length names \<Longrightarrow> ids k \<notin> htg_id ` set (hashtags s)" "inj_on ids {..<length names}"
  shows "preference_keys s1 \<and> preferences s1 = preferences s \<and> core_db s1 = core_db s \<and>
    map (\<lambda>n. hashtag_id n s1) names = map Some is \<and> (\<forall>n. n \<notin> set names \<longrightarrow> hashtag_id n s1 = hashtag_id n s) \<and>
    (\<forall>n \<in> set names. case hashtag_id n s of Some x \<Rightarrow> hashtag_id n s1 = Some x | None \<Rightarrow> the (hashtag_id n s1) \<notin> htg_id ` set (hashtags s))"
  using assms
proof (induction names arbitrary: s "is" s1)
  case (Cons n names)
  obtain j t js where step: "upsert_hashtag (ids (length names)) n s = (j, t)" "upsert_hashtags ids names t = (js, s1)" "is = j # js"
    using Cons.prems(2) by (auto split: prod.splits)
  have i: "ids (length names) \<notin> htg_id ` set (hashtags s)" using Cons.prems(4) [of "length names"] by simp
  note t = upsert_hashtag_effect [OF Cons.prems(1) i step(1)]
  have fresh: "ids k \<notin> htg_id ` set (hashtags t)" if "k < length names" for k
    using that t(8) Cons.prems(4) [of k] inj_onD [OF Cons.prems(5), of k "length names"] by auto
  have "inj_on ids {..<length names}" using Cons.prems(5) by (auto simp: inj_on_def)
  note IH = Cons.IH [OF t(1) step(2) _ fresh this]
  have n: "n \<notin> set names" "distinct names" using Cons.prems(3) by auto
  have "hashtag_id n s1 = Some j" using IH n t(4) by auto
  moreover have "(case hashtag_id m s of Some x \<Rightarrow> hashtag_id m s1 = Some x | None \<Rightarrow> the (hashtag_id m s1) \<notin> htg_id ` set (hashtags s))"
    if "m \<in> set names" for m
  proof -
    have "m \<noteq> n" using that n by auto
    then have "hashtag_id m t = hashtag_id m s" using t(5) by simp
    then show ?thesis using IH n(2) that t(7) by (auto split: option.splits dest!: bspec [of _ _ m])
  qed
  ultimately show ?case using IH n t i step(3) by (auto split: option.splits)
qed simp

lemma find_map_kept: "(\<And>x. q (f x) = q x) \<Longrightarrow> find q (map f xs) = map_option f (find q xs)"
  by (induction xs) auto

lemma add_preference_effect:
  fixes w :: rat
  assumes keys: "preference_keys s" and i: "i \<in> htg_id ` set (hashtags s)" and u: "has_user (core_db s) u"
  defines "s' \<equiv> add_preference u w i s"
  shows "preference_keys s'" "hashtags s' = hashtags s" "core_db s' = core_db s"
    "score_of v j s' = (if v = u \<and> j = i then Some (case score_of u i s of None \<Rightarrow> w | Some x \<Rightarrow> fl (x + w)) else score_of v j s)"
proof -
  let ?q = "\<lambda>p. prf_user p = u \<and> prf_hashtag p = i"
  have "preference_keys s' \<and> hashtags s' = hashtags s \<and> core_db s' = core_db s \<and>
    score_of v j s' = (if v = u \<and> j = i then Some (case score_of u i s of None \<Rightarrow> w | Some x \<Rightarrow> fl (x + w)) else score_of v j s)"
  proof (cases "list_ex ?q (preferences s)")
    case True
    then obtain p where p: "find ?q (preferences s) = Some p"
      by (cases "find ?q (preferences s)") (auto simp: find_None_iff_all list_ex_iff)
    have s': "s' = s\<lparr>preferences := update_where ?q (\<lambda>p. p\<lparr>prf_score := fl (prf_score p + w)\<rparr>) (preferences s)\<rparr>"
      using True by (simp add: s'_def add_preference_def)
    have "map (\<lambda>p. (prf_user p, prf_hashtag p)) (preferences s') = map (\<lambda>p. (prf_user p, prf_hashtag p)) (preferences s)"
      by (auto simp: s' update_where_def)
    moreover have "\<forall>p \<in> set (preferences s'). prf_hashtag p \<in> htg_id ` set (hashtags s)"
      using keys by (auto simp: s' set_update_where preference_keys_def)
    ultimately have "preference_keys s'" using keys by (simp add: preference_keys_def s')
    moreover have "find (\<lambda>p. prf_user p = v \<and> prf_hashtag p = j) (preferences s') =
      map_option (\<lambda>p. if ?q p then p\<lparr>prf_score := fl (prf_score p + w)\<rparr> else p) (find (\<lambda>p. prf_user p = v \<and> prf_hashtag p = j) (preferences s))"
      unfolding s' update_where_def by (simp, rule find_map_kept) simp
    ultimately show ?thesis using p find_in_set [OF p]
      by (auto simp: s' score_of_def option.map_comp o_def dest: find_in_set intro!: option.map_cong)
  next
    case False
    have s': "s' = s\<lparr>preferences := preferences s @ [\<lparr>prf_user = u, prf_hashtag = i, prf_score = w\<rparr>]\<rparr>"
      using False u by (simp add: s'_def add_preference_def)
    have n: "find ?q (preferences s) = None" using False by (auto simp: find_None_iff_all list_ex_iff)
    have "preference_keys s'" using keys i False by (auto simp: s' preference_keys_def list_ex_iff)
    then show ?thesis using n by (auto simp: s' score_of_def find_append split: option.splits)
  qed
  then show "preference_keys s'" "hashtags s' = hashtags s" "core_db s' = core_db s"
    "score_of v j s' = (if v = u \<and> j = i then Some (case score_of u i s of None \<Rightarrow> w | Some x \<Rightarrow> fl (x + w)) else score_of v j s)"
    by blast+
qed

lemma add_preferences_effect:
  assumes "preference_keys s" "set hs \<subseteq> htg_id ` set (hashtags s)" "has_user (core_db s) u" "distinct hs"
  shows "preference_keys (fold (add_preference u w) hs s) \<and> hashtags (fold (add_preference u w) hs s) = hashtags s \<and>
    score_of v j (fold (add_preference u w) hs s) =
      (if v = u \<and> j \<in> set hs then Some (case score_of u j s of None \<Rightarrow> w | Some x \<Rightarrow> fl (x + w)) else score_of v j s)"
  using assms
proof (induction hs arbitrary: s)
  case (Cons i hs)
  have i: "i \<in> htg_id ` set (hashtags s)" using Cons.prems(2) by simp
  note e = add_preference_effect [OF Cons.prems(1) i Cons.prems(3)]
  have "set hs \<subseteq> htg_id ` set (hashtags (add_preference u w i s))" "has_user (core_db (add_preference u w i s)) u" "distinct hs"
    using Cons.prems e(2,3) by auto
  from Cons.IH [OF e(1) this] show ?case using Cons.prems(4) by (auto simp: e(2,4))
qed simp

lemma hashtag_id_inj:
  assumes "preference_keys s" "hashtag_id m s = Some i" "hashtag_id n s = Some i"
  shows "m = n"
proof -
  obtain h g where "h \<in> set (hashtags s)" "htg_name h = m" "htg_id h = i" "g \<in> set (hashtags s)" "htg_name g = n" "htg_id g = i"
    using assms(2,3) unfolding hashtag_id_iff [OF assms(1)] by auto
  moreover have "inj_on htg_id (set (hashtags s))" using assms(1) by (simp add: preference_keys_def distinct_map)
  ultimately show ?thesis by (metis inj_onD)
qed

lemma increase_hashtag_preferences_effect:
  fixes w :: rat
  assumes keys: "preference_keys s" and names: "distinct names" and user: "has_user (core_db s) u"
    and fresh: "\<And>k. k < length names \<Longrightarrow> ids k \<notin> htg_id ` set (hashtags s)" "inj_on ids {..<length names}"
  defines "s' \<equiv> increase_hashtag_preferences ids u names w s"
  shows "preference_of v n s' = (if v = u \<and> n \<in> set names
    then Some (case preference_of u n s of None \<Rightarrow> w | Some x \<Rightarrow> fl (x + w)) else preference_of v n s)"
proof -
  obtain hs s1 where up: "upsert_hashtags ids names s = (hs, s1)" by fastforce
  have U: "preference_keys s1" "preferences s1 = preferences s" "core_db s1 = core_db s"
    "map (\<lambda>n. hashtag_id n s1) names = map Some hs" "\<And>n. n \<notin> set names \<Longrightarrow> hashtag_id n s1 = hashtag_id n s"
    "\<And>n. n \<in> set names \<Longrightarrow> case hashtag_id n s of Some x \<Rightarrow> hashtag_id n s1 = Some x | None \<Rightarrow> the (hashtag_id n s1) \<notin> htg_id ` set (hashtags s)"
    using upsert_hashtags_effect [OF keys up names fresh] by blast+
  have ids: "i \<in> set hs \<longleftrightarrow> (\<exists>n \<in> set names. hashtag_id n s1 = Some i)" for i
  proof -
    have "Some i \<in> set (map Some hs) \<longleftrightarrow> Some i \<in> set (map (\<lambda>n. hashtag_id n s1) names)" unfolding U(4) ..
    then show ?thesis by (simp add: image_iff) metis
  qed
  have "distinct (map (\<lambda>n. hashtag_id n s1) names)"
  proof -
    have "inj_on (\<lambda>n. hashtag_id n s1) (set names)"
    proof (rule inj_onI)
      fix m n assume mn: "m \<in> set names" "n \<in> set names" "hashtag_id m s1 = hashtag_id n s1"
      have "hashtag_id m s1 \<in> Some ` set hs" using mn(1) arg_cong [OF U(4), of set] by auto
      then show "m = n" using mn(3) hashtag_id_inj [OF U(1), of m _ n] by auto
    qed
    then show ?thesis using names by (simp add: distinct_map)
  qed
  then have d: "distinct hs" unfolding U(4) by (simp add: distinct_map)
  have sub: "set hs \<subseteq> htg_id ` set (hashtags s1)" using ids by (auto simp: hashtag_id_iff [OF U(1)])
  have user1: "has_user (core_db s1) u" using user U(3) by simp
  have s': "s' = fold (add_preference u w) hs s1" by (simp add: s'_def increase_hashtag_preferences_def up)
  have F: "preference_keys s'" "hashtags s' = hashtags s1"
    "score_of v i s' = (if v = u \<and> i \<in> set hs then Some (case score_of u i s1 of None \<Rightarrow> w | Some x \<Rightarrow> fl (x + w)) else score_of v i s1)" for i
    using add_preferences_effect [OF U(1) sub user1 d, of w v] unfolding s' by blast+
  have same: "hashtag_id m s' = hashtag_id m s1" for m by (simp add: hashtag_id_def F(2))
  have score: "score_of x i s1 = score_of x i s" for x i by (simp add: score_of_def U(2))
  have new: "score_of x i s = None" if "i \<notin> htg_id ` set (hashtags s)" for x i
    using keys that by (auto simp: score_of_def find_None_iff_all preference_keys_def)
  show ?thesis
  proof (cases "n \<in> set names")
    case True
    then have "hashtag_id n s1 \<in> Some ` set hs" using arg_cong [OF U(4), of set] by auto
    then obtain i where i: "hashtag_id n s1 = Some i" "i \<in> set hs" by auto
    have "score_of x i s = preference_of x n s" for x
      using U(6) [OF True] i new [of i x] by (auto simp: preference_of_eq [OF keys] split: option.splits)
    then show ?thesis using i True by (auto simp: preference_of_eq [OF F(1)] same F(3) score)
  next
    case False
    have "i \<notin> set hs" if "hashtag_id n s1 = Some i" for i
      using that False hashtag_id_inj [OF U(1), of n i] ids by blast
    then show ?thesis using False U(5) [OF False]
      by (auto simp: preference_of_eq [OF F(1)] preference_of_eq [OF keys] same F(3) score split: Option.bind_splits)
  qed
qed

text \<open>What a reader does with a post or a character adds the weight of the event, once, to the reader's preference for
  each of its hashtags, as the feed reads it; every other preference, of this reader and of the others, stays as it is.\<close>

theorem preferences_accumulate:
  assumes "preference_keys s" "has_user (core_db s) (uve_user v)" "event_weight (uve_type v) = Some w"
    and "inj ids" "list_all (\<lambda>h. htg_id h \<notin> range ids) (hashtags s)"
  shows "preference_of u h (update_preferences e ids v s) =
    (if u = uve_user v \<and> h \<in> set (hashtags_for e v s)
     then Some (case preference_of u h s of None \<Rightarrow> w | Some x \<Rightarrow> fl (x + w)) else preference_of u h s)"
proof (cases "hashtags_for e v s = []")
  case True
  then show ?thesis using assms(3) by (simp add: update_preferences_def)
next
  case False
  have "distinct (hashtags_for e v s)" by (simp add: hashtags_for_def clean_hashtags_def)
  moreover have "ids k \<notin> htg_id ` set (hashtags s)" for k using assms(5) by (auto simp: list_all_iff) (metis rangeI)
  moreover have "inj_on ids {..<length (hashtags_for e v s)}" using assms(4) by (rule inj_on_subset) simp
  ultimately have "preference_of u h (increase_hashtag_preferences ids (uve_user v) (hashtags_for e v s) w s) =
    (if u = uve_user v \<and> h \<in> set (hashtags_for e v s)
     then Some (case preference_of (uve_user v) h s of None \<Rightarrow> w | Some x \<Rightarrow> fl (x + w)) else preference_of u h s)"
    by (intro increase_hashtag_preferences_effect [OF assms(1) _ assms(2)])
  then show ?thesis using assms(3) False by (auto simp: update_preferences_def)
qed

section \<open>Rounded sums\<close>

lemma ilog2_unique:
  assumes "2 powi e \<le> x" "x < 2 powi (e + 1)"
  shows "ilog2 x = e"
proof -
  have x: "0 < x" using assms(1) by (rule less_le_trans [rotated]) simp
  have "a < b + 1" if "2 powi a \<le> x" "x < 2 powi (b + 1)" for a b :: int
  proof (rule ccontr)
    assume "\<not> a < b + 1"
    then have "(2::rat) powi (b + 1) \<le> 2 powi a" by (intro power_int_increasing) auto
    with that show False by simp
  qed
  from this [OF assms(1) ilog2_bounds(2) [OF x]] this [OF ilog2_bounds(1) [OF x] assms(2)] show ?thesis by simp
qed

lemma fl_exact:
  assumes "2 ^ 52 \<le> n" "n < 2 ^ 53"
  shows "fl (of_int n * 2 powi k) = of_int n * 2 powi k"
proof -
  have p: "(2::rat) ^ 52 \<le> of_int n" "of_int n < (2::rat) ^ 53"
    using assms by (metis of_int_le_iff of_int_numeral of_int_power, metis of_int_less_iff of_int_numeral of_int_power)
  have "(2::rat) powi (k + 52) = 2 ^ 52 * 2 powi k" "(2::rat) powi (k + 52 + 1) = 2 ^ 53 * 2 powi k"
    by (simp_all add: power_int_add)
  then have "ilog2 (of_int n * 2 powi k) = k + 52"
    using p by (intro ilog2_unique) simp_all
  moreover have "0 < of_int n * (2::rat) powi k" using p(1) by (intro mult_pos_pos less_le_trans [OF _ p(1)]) simp_all
  ultimately show ?thesis by (simp add: fl_def Let_def)
qed

lemma fl_form:
  assumes "0 < x"
  obtains n k where "fl x = of_int n * 2 powi k" "2 ^ 52 \<le> n" "n \<le> 2 ^ 53"
proof -
  let ?k = "ilog2 x - 52"
  let ?y = "x / 2 powi ?k"
  have "(2::rat) powi (ilog2 x) = 2 ^ 52 * 2 powi ?k" "(2::rat) powi (ilog2 x + 1) = 2 ^ 53 * 2 powi ?k"
    by (simp_all add: power_int_diff power_int_add)
  then have y: "2 ^ 52 \<le> ?y" "?y < 2 ^ 53"
    using ilog2_bounds [OF assms] by (simp_all add: field_simps)
  have "(2 :: int) ^ 52 \<le> \<lfloor>?y\<rfloor>" using y(1) by (simp add: le_floor_iff)
  then have "2 ^ 52 \<le> round_even ?y" using floor_le_round_even [of ?y] by linarith
  moreover have "round_even ?y \<le> 2 ^ 53"
  proof -
    have "of_int (round_even ?y) < (2 :: rat) ^ 53 + 1" using round_even_error(1) [of ?y] y(2) by linarith
    moreover have "(2 :: rat) ^ 53 + 1 = of_int (2 ^ 53 + 1)" by (simp only: of_int_add of_int_power of_int_numeral of_int_1)
    ultimately have "round_even ?y < 2 ^ 53 + 1" by (simp only: of_int_less_iff)
    then show ?thesis by linarith
  qed
  moreover have "fl x = of_int (round_even ?y) * 2 powi ?k" using assms by (simp add: fl_def Let_def)
  ultimately show ?thesis using that by blast
qed

lemma fl_nonneg: "0 \<le> x \<Longrightarrow> 0 \<le> fl x"
proof (cases "x = 0")
  case False
  assume "0 \<le> x"
  with False have "0 < x" by simp
  then obtain n k where n: "fl x = of_int n * 2 powi k" "2 ^ 52 \<le> n" "n \<le> 2 ^ 53" by (rule fl_form)
  have "0 \<le> n" using n(2) by (rule order_trans [rotated]) simp
  then show ?thesis unfolding n(1) by simp
qed (simp add: fl_def)

lemma fl_fl:
  assumes "0 \<le> x"
  shows "fl (fl x) = fl x"
proof (cases "x = 0")
  case False
  with assms have "0 < x" by simp
  then obtain n k where n: "fl x = of_int n * 2 powi k" "2 ^ 52 \<le> n" "n \<le> 2 ^ 53" by (rule fl_form)
  show ?thesis
  proof (cases "n = 2 ^ 53")
    case True
    then have "fl x = of_int (2 ^ 52) * 2 powi (k + 1)" unfolding n(1) by (simp add: power_int_add)
    then show ?thesis using fl_exact [of "2 ^ 52" "k + 1"] by simp
  next
    case False
    then show ?thesis using fl_exact [of n k] n by simp
  qed
qed (simp add: fl_def)

lemma fl_less_boost:
  assumes "0 \<le> a" "a + 1 < 2 ^ 53" "fl a = a"
  shows "fl a < fl (a + 1)"
proof -
  have "of_int (\<lfloor>a\<rfloor> + 1) \<le> fl (a + 1)" using assms by (intro fl_ge_int) auto
  moreover have "a < of_int (\<lfloor>a\<rfloor> + 1)" by linarith
  ultimately show ?thesis using assms(3) by simp
qed
section \<open>The score\<close>

text \<open>
  The score of a post for a reader, said over the tables: the reader's preferences for its hashtags, added up in doubles, and
  one point when the reader follows its author, who is active.
\<close>

definition reader_follows :: "uid option \<Rightarrow> uid \<Rightarrow> backend \<Rightarrow> bool" where
  "reader_follows u c s \<longleftrightarrow>
     (\<exists>f \<in> set (follows (core_db s)). u = Some (flw_user f) \<and> flw_character f = c) \<and>
     (\<exists>r \<in> set (characters (core_db s)). chr_id r = c \<and> chr_status r = Active)"

definition tag_points :: "uid option \<Rightarrow> string \<Rightarrow> backend \<Rightarrow> rat" where
  "tag_points u h s =
     (case u of
        None \<Rightarrow> 0
      | Some i \<Rightarrow> (case Option.bind (hashtag_id h s) (\<lambda>j. score_of i j s) of None \<Rightarrow> 0 | Some x \<Rightarrow> x))"

definition interest :: "uid option \<Rightarrow> backend \<Rightarrow> post_view \<Rightarrow> rat" where
  "interest u s p = foldl (\<lambda>x h. fl (x + tag_points u h s)) 0 (pvw_hashtags p)"

definition feed_points :: "uid option \<Rightarrow> backend \<Rightarrow> post_view \<Rightarrow> rat" where
  "feed_points u s p = fl (interest u s p + (if reader_follows u (pvw_character p) s then 1 else 0))"

lemma followed_ids_iff: "c \<in> set (followed_character_ids i s) \<longleftrightarrow> reader_follows (Some i) c s"
  by (auto simp: followed_character_ids_def active_follows_def active_characters_def reader_follows_def list_ex_iff)

lemma feed_scores_points:
  assumes "preference_keys s"
  shows "feed_scores u s p = feed_points u s p"
proof (cases u)
  case None
  then show ?thesis
    by (simp add: feed_scores_def feed_score_def hashtag_affinity_def feed_points_def interest_def tag_points_def
        reader_follows_def foldl_conv_fold)
next
  case (Some i)
  have "(case map_of (rev (hashtag_preferences_for i s)) h of Some x \<Rightarrow> x | None \<Rightarrow> 0) = tag_points u h s" for h
    using preference_of_eq [OF assms, of i h] Some by (simp add: preference_of_def tag_points_def split: option.splits)
  with Some show ?thesis
    by (simp add: feed_scores_def feed_score_def hashtag_affinity_def feed_points_def interest_def followed_ids_iff
        foldl_conv_fold)
qed

lemma tag_points_nonneg:
  assumes "\<forall>x \<in> set (preferences s). 0 \<le> prf_score x"
  shows "0 \<le> tag_points u h s"
  using assms by (auto simp: tag_points_def score_of_def split: option.splits bind_splits dest!: find_in_set)

lemma interest_double:
  assumes "\<forall>x \<in> set (preferences s). 0 \<le> prf_score x"
  shows "0 \<le> interest u s p \<and> fl (interest u s p) = interest u s p"
proof -
  have "0 \<le> foldl (\<lambda>x h. fl (x + tag_points u h s)) 0 hs \<and>
      fl (foldl (\<lambda>x h. fl (x + tag_points u h s)) 0 hs) = foldl (\<lambda>x h. fl (x + tag_points u h s)) 0 hs" for hs
  proof (induction hs rule: rev_induct)
    case Nil
    show ?case by (simp add: fl_def)
  next
    case (snoc h hs)
    then have "0 \<le> foldl (\<lambda>x h. fl (x + tag_points u h s)) 0 hs + tag_points u h s"
      using tag_points_nonneg [OF assms, of u h] by simp
    then show ?case by (simp add: fl_nonneg fl_fl)
  qed
  then show ?thesis unfolding interest_def by blast
qed

text \<open>C33: The feed of a reader is exactly the feed posts of active characters, each once, in the order of their score as the
  tables give it: the reader's preferences for the hashtags and one point for an author the reader follows, and the newer
  post first among equals. So of two posts with the same hashtags the one of a followed author comes before the other's.\<close>

theorem feed_ranked:
  assumes "preference_keys s" "\<forall>x \<in> set (preferences s). 0 \<le> prf_score x"
  shows "mset (get_feed e u s) =
      image_mset (to_post e s) (filter_mset (\<lambda>r. author_active s r \<and> pst_type r = Feed_Post) (mset (posts (core_db s)))) \<and>
    sorted_wrt (\<lambda>p q. feed_points u s q < feed_points u s p \<or>
      feed_points u s q = feed_points u s p \<and> pvw_created q \<le> pvw_created p) (get_feed e u s) \<and>
    sorted_wrt (\<lambda>p q. pvw_hashtags p = pvw_hashtags q \<and> interest u s q + 1 < 2 ^ 53 \<and> reader_follows u (pvw_character q) s \<longrightarrow>
      reader_follows u (pvw_character p) s) (get_feed e u s)"
proof (intro conjI)
  let ?key = "\<lambda>p. (- feed_points u s p, - pvw_created p)"
  have "sorted_wrt (\<lambda>p q. ?key p \<le> ?key q) (get_feed e u s)"
    unfolding get_feed_def feed_scores_points [OF assms(1)] by (rule sorted_map [THEN iffD1]) (rule sorted_sort_key)
  then show order: "sorted_wrt (\<lambda>p q. feed_points u s q < feed_points u s p \<or>
      feed_points u s q = feed_points u s p \<and> pvw_created q \<le> pvw_created p) (get_feed e u s)"
    by (rule sorted_wrt_mono_rel [rotated]) (simp add: less_eq_prod_def less_le_not_le, linarith)
  have boost: "feed_points u s p < feed_points u s q"
    if "pvw_hashtags p = pvw_hashtags q" "interest u s q + 1 < 2 ^ 53" "reader_follows u (pvw_character q) s"
      "\<not> reader_follows u (pvw_character p) s" for p q
  proof -
    have "interest u s p = interest u s q" using that(1) by (simp add: interest_def)
    then show ?thesis
      using that interest_double [OF assms(2), of u q] fl_less_boost [of "interest u s q"] by (simp add: feed_points_def)
  qed
  from order show "sorted_wrt (\<lambda>p q. pvw_hashtags p = pvw_hashtags q \<and> interest u s q + 1 < 2 ^ 53 \<and>
      reader_follows u (pvw_character q) s \<longrightarrow> reader_follows u (pvw_character p) s) (get_feed e u s)"
    by (rule sorted_wrt_mono_rel [rotated]) (use boost in force)
qed (rule get_feed_mset)

end
