(* ===== verification/Content_Props.thy ===== *)
theory Content_Props
  imports Feed "HOL-Library.Sublist"
begin

text \<open>
  What the readers find: the searches against the containment of texts, the addresses of stored files against a decoder, and
  the pages of posts, comments and stories, all instances of \<open>keyset_listing\<close>.
\<close>

section \<open>Search\<close>

definition like_literal :: "char \<Rightarrow> bool" where
  "like_literal c \<longleftrightarrow> c \<noteq> CHR ''%'' \<and> c \<noteq> CHR ''_'' \<and> c \<noteq> CHR 0x5C"

text \<open>A text without wildcards that starts with a character of its own.\<close>

definition plain_term :: "string \<Rightarrow> bool" where
  "plain_term t \<longleftrightarrow> t \<noteq> [] \<and> \<not> continuation_byte (hd t) \<and> list_all like_literal t"

lemma like_anything [simp]: "like_match ''%'' s"
proof (induction s rule: length_induct)
  case (1 s)
  show ?case
  proof (cases s)
    case (Cons x t)
    have "length (rest_of_char t) < length s" using length_rest_of_char [of t] Cons by simp
    then show ?thesis using 1 Cons by simp
  qed simp
qed

lemma like_prefix: "list_all like_literal t \<Longrightarrow> like_match (t @ ''%'') s \<longleftrightarrow> prefix t s"
proof (induction t arbitrary: s)
  case (Cons c t)
  then show ?case by (cases s) (auto simp: like_literal_def)
qed (simp del: like_match.simps)

lemma rest_of_char_sublist:
  assumes "t \<noteq> []" "\<not> continuation_byte (hd t)"
  shows "sublist t (rest_of_char s) \<longleftrightarrow> sublist t s"
proof
  assume "sublist t (rest_of_char s)"
  then show "sublist t s"
    using suffix_dropWhile [of continuation_byte s] by (auto simp: rest_of_char_def intro: sublist_order.order_trans suffix_imp_sublist)
next
  assume "sublist t s"
  then obtain a b where s: "s = a @ t @ b" by (auto simp: sublist_def)
  obtain c t' where "t = c # t'" "\<not> continuation_byte c" using assms by (cases t) auto
  then show "sublist t (rest_of_char s)"
    unfolding rest_of_char_def s by (simp add: dropWhile_append sublist_def) (metis append_Nil append_Cons append_assoc)
qed

lemma like_containing:
  assumes "plain_term t"
  shows "like_match (''%'' @ t @ ''%'') s \<longleftrightarrow> sublist t s"
proof (induction s rule: length_induct)
  case (1 s)
  have lit: "list_all like_literal t" and ne: "t \<noteq> []" and hd: "\<not> continuation_byte (hd t)" using assms by (auto simp: plain_term_def)
  show ?case
  proof (cases s)
    case Nil
    then show ?thesis using like_prefix [OF lit, of "[]"] ne by simp
  next
    case (Cons x r)
    have "length (rest_of_char r) < length s" using length_rest_of_char [of r] Cons by simp
    then have "like_match (''%'' @ t @ ''%'') (rest_of_char r) \<longleftrightarrow> sublist t r"
      using 1 rest_of_char_sublist [OF ne hd] by simp
    then have "like_match (''%'' @ t @ ''%'') s \<longleftrightarrow> prefix t s \<or> sublist t r"
      using like_prefix [OF lit, of s] Cons by simp
    then show ?thesis using Cons by (simp add: sublist_Cons_right)
  qed
qed

lemma like_literal_code: "like_literal c \<longleftrightarrow> (of_char c :: nat) \<notin> {37, 95, 92}"
proof -
  have "c = d \<longleftrightarrow> (of_char c :: nat) = of_char d" for d by simp
  from this [of "CHR ''%''"] this [of "CHR ''_''"] this [of "CHR 0x5C"] show ?thesis by (simp add: like_literal_def)
qed

lemma lower_char_kept [simp]:
  "like_literal c \<Longrightarrow> like_literal (to_lower_char c)" "continuation_byte (to_lower_char c) = continuation_byte c"
  by (auto simp: like_literal_code continuation_byte_def to_lower_char_def Let_def)

lemma plain_term_lower: "plain_term t \<Longrightarrow> plain_term (to_lower t)"
  by (cases t) (auto simp: plain_term_def to_lower_def list.pred_map o_def elim: list.pred_mono_strong)

definition has_text :: "string \<Rightarrow> string \<Rightarrow> bool" where
  "has_text t v \<longleftrightarrow> sublist (to_lower t) (to_lower v)"

lemma ilike_containing: "plain_term t \<Longrightarrow> ilike v (containing t) \<longleftrightarrow> has_text t v"
proof -
  assume "plain_term t"
  moreover have "to_lower (containing t) = ''%'' @ to_lower t @ ''%''"
    by (simp add: containing_def to_lower_def to_lower_char_def)
  ultimately show ?thesis
    using like_containing [OF plain_term_lower, of t "to_lower v"] by (simp add: ilike_def has_text_def del: like_match.simps)
qed

section \<open>Media addresses\<close>

definition hex_digit_value :: "char \<Rightarrow> nat" where
  "hex_digit_value c = (if CHR ''A'' \<le> c then of_char c - 55 else of_char c - 48)"

fun uri_decode :: "string \<Rightarrow> string" where
  "uri_decode (c # a # b # s) =
     (if c = CHR ''%'' then char_of (16 * hex_digit_value a + hex_digit_value b) # uri_decode s else c # uri_decode (a # b # s))"
| "uri_decode s = s"

lemma uri_decode_plain: "c \<noteq> CHR ''%'' \<Longrightarrow> uri_decode (c # s) = c # uri_decode s"
  by (cases s rule: uri_decode.cases) (auto split: list.splits)

lemma below_16: "n < 16 \<Longrightarrow> n \<in> {0, 1, 2, 3, 4, 5, 6, 7, 8, 9, 10, 11, 12, 13, 14, 15 :: nat}"
  by simp arith

lemma hex_digit_of_upper: "n < 16 \<Longrightarrow> hex_digit_value (upper_hex n) = n"
  using below_16 [of n] by (auto simp: hex_digit_value_def upper_hex_def less_eq_char_def)

lemma uri_decode_encoded: "uri_decode (encode_uri_component t @ s) = t @ uri_decode s"
proof (induction t)
  case (Cons c t)
  have "(of_char c :: nat) < 256" by simp
  then have "(of_char c :: nat) div 16 < 16" "(of_char c :: nat) mod 16 < 16" by linarith+
  moreover have "uri_plain c \<Longrightarrow> c \<noteq> CHR ''%''" by (auto simp: uri_plain_def b64_alphabet_def)
  ultimately show ?case using Cons by (simp add: encode_uri_component_def uri_decode_plain hex_digit_of_upper Let_def)
qed (simp add: encode_uri_component_def)

lemma slash_joined_Cons: "xs \<noteq> [] \<Longrightarrow> slash_joined (x # xs) = x @ CHR ''/'' # slash_joined xs"
  by (cases xs) auto

lemma slash_joined_split: "slash_joined (split_on (CHR ''/'') k) = k"
proof (induction k)
  case (Cons x k)
  have "slash_joined ((y # ys) # zs) = y # slash_joined (ys # zs)" for y ys zs by (cases zs) auto
  with Cons show ?case by (cases "split_on (CHR ''/'') k") (auto simp: slash_joined_Cons)
qed simp

lemma uri_decode_path: "xs \<noteq> [] \<Longrightarrow> uri_decode (slash_joined (map encode_uri_component xs)) = slash_joined xs"
proof (induction xs rule: slash_joined.induct)
  case (2 x)
  then show ?case using uri_decode_encoded [of x "[]"] by simp
qed (simp_all add: uri_decode_encoded uri_decode_plain)

text \<open>The characters of an address that need no quoting in a link.\<close>

definition uri_safe :: "char \<Rightarrow> bool" where
  "uri_safe c \<longleftrightarrow> uri_plain c \<or> c = CHR ''%'' \<or> c = CHR ''/''"

lemma encoded_safe: "list_all uri_safe (encode_uri_component t)"
proof -
  have hex: "n < 16 \<Longrightarrow> uri_safe (upper_hex n)" for n
    using below_16 [of n] by (auto simp: uri_safe_def uri_plain_def upper_hex_def b64_alphabet_def)
  have "uri_safe (upper_hex ((of_char c :: nat) div 16))" "uri_safe (upper_hex ((of_char c :: nat) mod 16))" for c :: char
  proof -
    have "(of_char c :: nat) < 256" by simp
    then have "(of_char c :: nat) div 16 < 16" "(of_char c :: nat) mod 16 < 16" by linarith+
    then show "uri_safe (upper_hex ((of_char c :: nat) div 16))" "uri_safe (upper_hex ((of_char c :: nat) mod 16))" using hex by blast+
  qed
  then show ?thesis by (induction t) (auto simp: encode_uri_component_def uri_safe_def Let_def)
qed

lemma path_safe: "list_all uri_safe (slash_joined (map encode_uri_component xs))"
  by (induction xs rule: slash_joined.induct) (auto simp: encoded_safe, simp add: uri_safe_def)

text \<open>C36: The address of a stored file is the public base and a path in which no character needs quoting, and the path, decoded,
  is the storage key again: different keys never share an address.\<close>

theorem media_url_names_key:
  assumes "\<not> is_http_url e (trim raw)" "media_base e \<noteq> []" "media_key (trim raw) key \<noteq> []"
  shows "\<exists>path. public_media_url e raw key = media_base e @ CHR ''/'' # path \<and> list_all uri_safe path \<and>
    uri_decode path = media_key (trim raw) key"
  using assms uri_decode_path [of "split_on (CHR ''/'') (media_key (trim raw) key)"] path_safe
  by (simp add: public_media_url_def Let_def slash_joined_split)

section \<open>Pages\<close>

interpretation post_pages: keyset_listing post_key "\<lambda>(e, cond, s) r. author_active s r \<and> cond r"
  "\<lambda>(e, cond, s). posts (core_db s)" "\<lambda>(e, cond, s). to_post e s" pvw_id
  "\<lambda>(e, cond, s) c n. list_posts_where e (\<lambda>_. cond) \<lparr>pg_cursor = c, pg_limit = n\<rparr> s"
  by unfold_locales (auto simp: list_posts_where_def post_key_def to_post_def)

interpretation comment_pages: keyset_listing comment_key "\<lambda>(p, s) r. cmt_post r = p \<and> visible_author s (cmt_character r)"
  "\<lambda>(p, s). comments s" "\<lambda>(p, s). to_post_comment" cvw_id "\<lambda>(p, s) c n. comments_page p \<lparr>pg_cursor = c, pg_limit = n\<rparr> s"
  by unfold_locales (auto simp: comments_page_def comment_key_def to_post_comment_def)

interpretation story_pages: keyset_listing story_key "\<lambda>(e, now, c, s). active_story now c s" "\<lambda>(e, now, c, s). stories (core_db s)"
  "\<lambda>(e, now, c, s). to_story e s" svw_id "\<lambda>(e, now, c, s) k n. list_active_stories_page e now c \<lparr>pg_cursor = k, pg_limit = n\<rparr> s"
  by unfold_locales (auto simp: list_active_stories_page_def story_key_def to_story_def)

definition settled_posts :: "backend \<Rightarrow> bool" where
  "settled_posts s \<longleftrightarrow> keyset_ms post_key (\<lambda>_. True) (posts (core_db s))"

lemma keyset_ms_mono: "keyset_ms key base rows \<Longrightarrow> (\<And>r. base' r \<Longrightarrow> base r) \<Longrightarrow> keyset_ms key base' rows"
  by (auto simp: keyset_ms_def)

text \<open>Following \<open>nextCursor\<close> through the posts a filter selects shows exactly those posts of active characters, newest
  first and each once, for every combination of filters and any page size.\<close>

theorem filtered_posts_complete:
  assumes "settled_posts s" "post_conditions f s = Inr cond" "0 < n"
  defines "chosen \<equiv> newest_first post_key (\<lambda>r. author_active s r \<and> cond r) (posts (core_db s))"
  shows "follow_pages (\<lambda>c. list_posts_page e f \<lparr>pg_cursor = c, pg_limit = n\<rparr> s) (Suc (length chosen)) None = Inr (map (to_post e s) chosen)"
proof -
  have "post_pages.settled (e, cond, s)"
    using assms(1) unfolding post_pages.settled_def settled_posts_def prod.case by (rule keyset_ms_mono) simp
  from post_pages.all_pages [OF this assms(3)] show ?thesis
    using assms(2) by (simp add: list_posts_page_def post_pages.listed_def chosen_def)
qed

text \<open>The stories of all characters, followed through \<open>nextCursor\<close> at one instant, are exactly the unexpired stories of
  active characters, newest first and each once.\<close>

theorem stories_complete:
  fixes now :: time
  assumes "keyset_ms story_key (\<lambda>_. True) (stories (core_db s))" "0 < n"
  defines "shown \<equiv> newest_first story_key (active_story now None s) (stories (core_db s))"
  shows "follow_pages (\<lambda>c. list_stories_page e now \<lparr>pg_cursor = c, pg_limit = n\<rparr> s) (Suc (length shown)) None = Inr (map (to_story e s) shown)"
proof -
  have "story_pages.settled (e, now, None, s)"
    using assms(1) unfolding story_pages.settled_def prod.case by (rule keyset_ms_mono) simp
  from story_pages.all_pages [OF this assms(2)] show ?thesis
    by (simp add: list_stories_page_def story_pages.listed_def shown_def)
qed

text \<open>C35: A search for a text without wildcards finds in the posts exactly those of active characters whose content or one of
  whose hashtags contains the text, without regard to the case of letters, newest first up to the limit.\<close>

theorem post_search_exact:
  assumes "parse_query raw = Inr q" "plain_term (trim q)" "parse_limit raw_limit = Inr n"
  shows "search e raw (Some ''post'') raw_limit s = Inr \<lparr>srr_characters = [],
    srr_posts = map (to_post e s) (take (nat n) (sort_key (\<lambda>r. - pst_created r)
      (filter (\<lambda>r. has_text (trim q) (pst_content r) \<or> tagged (has_text (trim q)) s r) (visible_posts s)))),
    srr_hashtags = []\<rparr>"
proof -
  have "(\<lambda>h. ilike h (containing (trim q))) = has_text (trim q)" using ilike_containing [OF assms(2)] by auto
  then show ?thesis
    using assms(1,3) ilike_containing [OF assms(2)]
    by (simp add: search_def parse_target_type_def should_search_def search_posts_def Let_def sql_limit_def)
qed

end
