(* ===== verification/Support_Props.thy ===== *)
theory Support_Props
  imports Support
begin

text \<open>
  What the support promises: the daily limit of inquiries over any run of requests and how far late requests go past it,
  answers that are never lost, reports that only their reporter reads, and the pages of inquiries and notices, which answer an
  unknown cursor with an empty page.
\<close>

section \<open>The daily limit\<close>

definition inquiries_on :: "uid \<Rightarrow> int \<Rightarrow> backend \<Rightarrow> nat" where
  "inquiries_on u d s = length (filter (\<lambda>r. inq_user r = u \<and> kst_day (inq_created r) = d) (inquiries s))"

lemma kst_day_truncated: "kst_day (js_date t) = kst_day t"
proof -
  have d: "x div 86400000000 = x div 1000 div 86400000" for x :: int using zdiv_zmult2_eq [of 86400000 x 1000] by simp
  have "(t div 1000 * 1000 + 32400000000) div 1000 = (t + 32400000000) div 1000"
    using div_mult_self1 [of 1000 t 32400000] div_mult_self1 [of 1000 "t div 1000 * 1000" 32400000] by simp
  then show ?thesis by (simp add: kst_day_def js_date_def ms_def d)
qed

lemma on_kst_day_iff: "on_kst_day now t \<longleftrightarrow> kst_day t = kst_day now"
proof -
  let ?day = "ms (24 * 60 * 60 * 1000)" and ?t = "t + ms (9 * 60 * 60 * 1000)"
  have pos: "0 < ?day" by (simp add: ms_def)
  have d: "on_kst_day now t \<longleftrightarrow> kst_day now * ?day \<le> ?t \<and> ?t < kst_day now * ?day + ?day"
    unfolding on_kst_day_def kst_day_start_def Let_def kst_day_truncated [of now, symmetric] unfolding kst_day_def by auto
  have "?t = kst_day t * ?day + ?t mod ?day" unfolding kst_day_def by simp
  moreover have "0 \<le> ?t mod ?day" "?t mod ?day < ?day" using pos by simp_all
  ultimately have b: "kst_day t * ?day \<le> ?t" "?t < (kst_day t + 1) * ?day" by (simp_all add: algebra_simps)
  show ?thesis
  proof
    assume "on_kst_day now t"
    then have "kst_day now * ?day < (kst_day t + 1) * ?day" "kst_day t * ?day < (kst_day now + 1) * ?day"
      using b unfolding d by (simp_all add: algebra_simps)
    then show "kst_day t = kst_day now" using pos by (simp add: mult_less_cancel_right)
  qed (use b in \<open>simp add: d algebra_simps\<close>)
qed

lemma create_inquiry_elim:
  assumes "create_inquiry started now i u category body s = Inr (x, s')"
  obtains r where "inquiries s' = inquiries s @ [r]" "inq_id r = i" "inq_user r = u" "inq_status r = Inq_Submitted" "inq_created r = started"
    "inquiries_on u (kst_day now) s < daily_inquiry_limit" "i \<notin> inq_id ` set (inquiries s)" "s' = s\<lparr>inquiries := inquiries s'\<rparr>"
proof -
  obtain c t y where lim: "inquiries_on u (kst_day now) s < daily_inquiry_limit"
    and ins: "ins_inquiry \<lparr>inq_id = i, inq_user = u, inq_category = c, inq_body = t, inq_status = Inq_Submitted, inq_answer = None,
      inq_answered = None, inq_created = started\<rparr> s = Inr (y, s')"
    using assms unfolding create_inquiry_def on_kst_day_iff
    by (clarsimp simp: bindR_Inr_iff ensure_Inr_iff inquiries_on_def)
  define r where "r = \<lparr>inq_id = i, inq_user = u, inq_category = c, inq_body = t, inq_status = Inq_Submitted, inq_answer = None,
      inq_answered = None, inq_created = started\<rparr>"
  have "s' = s\<lparr>inquiries := inquiries s @ [r]\<rparr>" "i \<notin> inq_id ` set (inquiries s)"
    using ins unfolding ins_inquiry_def r_def [symmetric] by (simp_all add: res_simps) (auto simp: r_def)
  then show ?thesis using lim by (intro that [of r]) (simp_all add: r_def)
qed

text \<open>
  What happens to the table of inquiries: requests of the users, answers given elsewhere, and whatever leaves it alone. The
  transaction of a request begins at one instant and reads its clock at another, as they come.
\<close>

inductive desk_step :: "backend \<Rightarrow> backend \<Rightarrow> bool" where
  Deleted: "delete_submitted u i s = Inr (x, s') \<Longrightarrow> desk_step s s'"
| Answered: "desk_step s (s\<lparr>inquiries := update_where (\<lambda>r. inq_id r = i)
    (\<lambda>r. r\<lparr>inq_status := Inq_Answered, inq_answer := Some t, inq_answered := Some now\<rparr>) (inquiries s)\<rparr>)"
| Elsewhere: "inquiries s' = inquiries s \<Longrightarrow> desk_step s s'"

inductive inquiry_step :: "backend \<Rightarrow> backend \<Rightarrow> bool" where
  Created: "create_inquiry started now i u category body s = Inr (x, s') \<Longrightarrow> inquiry_step s s'"
| Desk: "desk_step s s' \<Longrightarrow> inquiry_step s s'"

text \<open>A run with a record of the requests it accepted: the user, the start of the transaction and its clock.\<close>

inductive inquiry_run :: "backend \<Rightarrow> (uid \<times> time \<times> time) list \<Rightarrow> backend \<Rightarrow> bool" for s0 where
  Start: "inquiry_run s0 [] s0"
| Accepted: "inquiry_run s0 asked s \<Longrightarrow> create_inquiry started now i u category body s = Inr (x, s') \<Longrightarrow>
    inquiry_run s0 ((u, started, now) # asked) s'"
| Other: "inquiry_run s0 asked s \<Longrightarrow> desk_step s s' \<Longrightarrow> inquiry_run s0 asked s'"

lemma inquiries_on_desk:
  assumes "desk_step s s'"
  shows "inquiries_on u d s' \<le> inquiries_on u d s"
  using assms
proof (induction rule: desk_step.induct)
  case (Deleted v i s x s')
  then have "inquiries s' = filter (\<lambda>r. \<not> (own_inquiry v i r \<and> inq_status r = Inq_Submitted)) (inquiries s)"
    by (auto simp: delete_submitted_def bindR_Inr_iff)
  moreover have "length (filter p (filter q xs)) \<le> length (filter p xs)" for p q and xs :: "inquiry_row list" by (induction xs) auto
  ultimately show ?case unfolding inquiries_on_def by (simp only:)
next
  case (Answered s i now t)
  have same: "length (filter p (update_where q f xs)) = length (filter p xs)" if "\<And>r. p (f r) = p r"
    for p q f and xs :: "inquiry_row list"
    by (induction xs) (auto simp: update_where_def that)
  show ?case by (simp add: same inquiries_on_def)
qed (simp add: inquiries_on_def)

lemma inquiries_on_created:
  assumes "create_inquiry started now i v category body s = Inr (x, s')"
  shows "inquiries_on u d s' = inquiries_on u d s + (if u = v \<and> d = kst_day started then 1 else 0)"
    and "inquiries_on v (kst_day now) s < daily_inquiry_limit"
  using assms by (auto elim!: create_inquiry_elim simp: inquiries_on_def)

text \<open>C37: Whatever requests, deletions and answers follow one another, the inquiries of a user dated on one day of Seoul
  are at most ten and one more for every accepted request whose transaction began on that day and whose clock was read on
  another: ten when every request is processed within its day.\<close>

theorem inquiry_limit_kept:
  assumes "inquiry_run s asked s'" "\<forall>u d. inquiries_on u d s \<le> daily_inquiry_limit"
  shows "inquiries_on u d s' \<le> daily_inquiry_limit +
    length (filter (\<lambda>(v, started, now). v = u \<and> kst_day started = d \<and> kst_day now \<noteq> d) asked)"
  using assms(1)
proof (induction arbitrary: u d rule: inquiry_run.induct)
  case Start
  show ?case using assms(2) by simp
next
  case (Accepted asked s started now i v category body x s')
  from inquiries_on_created(1) [OF Accepted(2), of u d] inquiries_on_created(2) [OF Accepted(2)] Accepted.IH [of u d]
  show ?case by auto
next
  case (Other asked s s')
  from inquiries_on_desk [OF Other(2), of u d] Other.IH [of u d] show ?case by linarith
qed

text \<open>A request that begins before midnight and gets its lock after it is counted on the new day but dated on the old one: it is
  accepted however many inquiries the old day has.\<close>

theorem inquiry_limit_missed:
  assumes "kst_day started \<noteq> kst_day now" "inquiries_on u (kst_day now) s < daily_inquiry_limit"
    and "required_category category = Inr c" "required_body body = Inr t" "has_user (core_db s) u" "i \<notin> inq_id ` set (inquiries s)"
  shows "\<exists>x s'. create_inquiry started now i u category body s = Inr (x, s') \<and>
    inquiries_on u (kst_day started) s' = Suc (inquiries_on u (kst_day started) s)"
proof -
  let ?r = "create_inquiry started now i u category body s"
  have ok: "\<not> isl ?r"
    using assms unfolding create_inquiry_def ins_inquiry_def by (simp add: inquiries_on_def on_kst_day_iff ensure_def)
  then have run: "?r = Inr (out ?r, after ?r)" by (rule run_ok)
  then obtain r where "inquiries (after ?r) = inquiries s @ [r]" "inq_user r = u" "inq_created r = started"
    by (elim create_inquiry_elim) auto
  then have "inquiries_on u (kst_day started) (after ?r) = Suc (inquiries_on u (kst_day started) s)" by (simp add: inquiries_on_def)
  with run show ?thesis by blast
qed

section \<open>Answers are kept\<close>

definition answered_as :: "inquiry_row \<Rightarrow> inquiry_row \<Rightarrow> bool" where
  "answered_as r q \<longleftrightarrow> inq_status q = Inq_Answered \<and> inq_id q = inq_id r \<and> inq_user q = inq_user r \<and> inq_body q = inq_body r \<and>
     inq_category q = inq_category r \<and> inq_created q = inq_created r"

lemma answered_step:
  assumes "inquiry_step s s'" "q \<in> set (inquiries s)" "answered_as r q"
  shows "\<exists>q' \<in> set (inquiries s'). answered_as r q'"
  using assms
proof (induction rule: inquiry_step.induct)
  case (Created started now i v category body s x s')
  then obtain n where "inquiries s' = inquiries s @ [n]" by (elim create_inquiry_elim) auto
  then show ?case using Created by auto
next
  case (Desk s s')
  then show ?case
  proof (induction rule: desk_step.induct)
    case (Deleted v i s x s')
    then have "inquiries s' = filter (\<lambda>r. \<not> (own_inquiry v i r \<and> inq_status r = Inq_Submitted)) (inquiries s)"
      by (auto simp: delete_submitted_def bindR_Inr_iff)
    then have "q \<in> set (inquiries s')" using Deleted(2,3) by (auto simp: answered_as_def)
    then show ?case using Deleted(3) by blast
  next
    case (Answered s i now t)
    then show ?case
      by (intro bexI [of _ "if inq_id q = i then q\<lparr>inq_status := Inq_Answered, inq_answer := Some t, inq_answered := Some now\<rparr> else q"])
        (auto simp: set_update_where answered_as_def)
  qed auto
qed

text \<open>C38: An answered inquiry is never lost, however deletions and answers interleave: a deletion that read it before it was
  answered fails, and what was asked and by whom stays on record.\<close>

theorem answered_inquiry_kept:
  assumes "r \<in> set (inquiries s)" "inq_status r = Inq_Answered" "inquiry_step\<^sup>*\<^sup>* s s'"
  shows "(\<exists>q \<in> set (inquiries s'). answered_as r q) \<and>
    (distinct (map inq_id (inquiries s')) \<longrightarrow> canonical (inq_id r) \<longrightarrow> (\<forall>u before. isl (delete_inquiry u (inq_id r) before s')))"
proof -
  have "\<exists>q \<in> set (inquiries s'). answered_as r q" using assms(3)
  proof (induction rule: rtranclp_induct)
    case base
    then show ?case using assms(1,2) by (intro bexI [of _ r]) (auto simp: answered_as_def)
  next
    case (step t s')
    then show ?case using answered_step by blast
  qed
  moreover have "isl (delete_inquiry u (inq_id r) before s')"
    if "distinct (map inq_id (inquiries s'))" "canonical (inq_id r)" "q \<in> set (inquiries s')" "answered_as r q" for u before q
  proof -
    have "\<not> (own_inquiry u (inq_id r) p \<and> inq_status p = Inq_Submitted)" if "p \<in> set (inquiries s')" for p
    proof
      assume p: "own_inquiry u (inq_id r) p \<and> inq_status p = Inq_Submitted"
      then have "inq_id p = inq_id q" using \<open>canonical (inq_id r)\<close> \<open>answered_as r q\<close> by (simp add: own_inquiry_def canonical_def answered_as_def)
      then have "p = q" using \<open>distinct _\<close> that \<open>q \<in> _\<close> by (auto simp: distinct_map dest: inj_onD)
      then show False using p \<open>answered_as r q\<close> by (simp add: answered_as_def)
    qed
    then have "\<not> list_ex (\<lambda>p. own_inquiry u (inq_id r) p \<and> inq_status p = Inq_Submitted) (inquiries s')" by (auto simp: list_ex_iff)
    then show ?thesis by (cases "delete_inquiry_check u (inq_id r) before") (auto simp: delete_inquiry_def delete_submitted_def ensure_def)
  qed
  ultimately show ?thesis by blast
qed

section \<open>Reports\<close>

lemma create_report_elim:
  assumes "create_report now i u inp s = Inr (x, s')"
  obtains k reason t where "parse_report_target (rpi_type inp) = Inr k" "trimmed (json_text (rpi_reason inp)) = Some reason"
    "trimmed (json_text (rpi_target inp)) = Some t" "target_exists u k t (core_db s)" "i \<notin> rpt_id ` set (reports s)"
    "s' = s\<lparr>reports := reports s @ [\<lparr>rpt_id = i, rpt_user = u, rpt_type = k, rpt_target = uuid_cast t, rpt_reason = reason,
       rpt_details = trimmed (json_text (rpi_details inp)), rpt_resolution = None, rpt_status = Rp_Submitted,
       rpt_created = now, rpt_updated = js_date now\<rparr>]\<rparr>"
proof -
  obtain k reason t y where f: "parse_report_target (rpi_type inp) = Inr k" "trimmed (json_text (rpi_reason inp)) = Some reason"
    "trimmed (json_text (rpi_target inp)) = Some t" "target_exists u k t (core_db s)"
    and ins: "ins_report \<lparr>rpt_id = i, rpt_user = u, rpt_type = k, rpt_target = uuid_cast t, rpt_reason = reason,
       rpt_details = trimmed (json_text (rpi_details inp)), rpt_resolution = None, rpt_status = Rp_Submitted,
       rpt_created = now, rpt_updated = js_date now\<rparr> s = Inr (y, s')"
    using assms unfolding create_report_def by (clarsimp simp: bindR_Inr_iff ensure_Inr_iff require_some_Inr_iff)
  from ins show ?thesis by (intro that [OF f]) (auto simp: ins_report_def res_simps)
qed

text \<open>C39: A report is read back by its reporter as it was submitted, trimmed, and by nobody else; and a message can only be reported
  by the user in whose conversation it stands.\<close>

theorem report_private:
  assumes "create_report now i u inp s = Inr (x, s')" "canonical i"
  shows "(\<exists>d. find_report_for_user v i s' = (if v = u then Some d else None) \<and>
      Some (rpd_reason d) = trimmed (json_text (rpi_reason inp)) \<and> rpd_details d = trimmed (json_text (rpi_details inp)) \<and>
      Some (rpd_target d) = map_option uuid_cast (trimmed (json_text (rpi_target inp))) \<and> rpd_status d = Rp_Submitted \<and>
      (case rpd_type d of
         Rp_Message \<Rightarrow> list_ex (\<lambda>m. msg_id m = rpd_target d \<and>
           list_ex (\<lambda>c. cnv_id c = msg_conversation m \<and> cnv_user c = u) (conversations (core_db s))) (messages (core_db s))
       | Rp_Post \<Rightarrow> rpd_target d \<in> pst_id ` set (posts (core_db s))
       | Rp_Character \<Rightarrow> rpd_target d \<in> chr_id ` set (characters (core_db s))))"
proof -
  obtain k reason t where f: "parse_report_target (rpi_type inp) = Inr k" "trimmed (json_text (rpi_reason inp)) = Some reason"
    "trimmed (json_text (rpi_target inp)) = Some t" "target_exists u k t (core_db s)" "i \<notin> rpt_id ` set (reports s)"
    and s': "s' = s\<lparr>reports := reports s @ [\<lparr>rpt_id = i, rpt_user = u, rpt_type = k, rpt_target = uuid_cast t, rpt_reason = reason,
       rpt_details = trimmed (json_text (rpi_details inp)), rpt_resolution = None, rpt_status = Rp_Submitted,
       rpt_created = now, rpt_updated = js_date now\<rparr>]\<rparr>"
    by (rule create_report_elim [OF assms(1)])
  define d where "d = to_detail (last (reports s'))"
  have "find (\<lambda>r. rpt_id r = i \<and> rpt_user r = v) (reports s) = None" using f(5) by (auto simp: find_None_iff_all)
  then have "find_report_for_user v i s' = (if v = u then Some d else None)"
    using assms(2) by (auto simp: find_report_for_user_def s' find_append canonical_def d_def)
  moreover have d: "rpd_type d = k" "rpd_target d = uuid_cast t" "rpd_reason d = reason" "rpd_status d = Rp_Submitted"
    "rpd_details d = trimmed (json_text (rpi_details inp))"
    by (simp_all add: d_def s' to_detail_def)
  moreover have "case rpd_type d of
         Rp_Message \<Rightarrow> list_ex (\<lambda>m. msg_id m = rpd_target d \<and>
           list_ex (\<lambda>c. cnv_id c = msg_conversation m \<and> cnv_user c = u) (conversations (core_db s))) (messages (core_db s))
       | Rp_Post \<Rightarrow> rpd_target d \<in> pst_id ` set (posts (core_db s))
       | Rp_Character \<Rightarrow> rpd_target d \<in> chr_id ` set (characters (core_db s))"
    unfolding d using f(4) by (cases k) (auto simp: target_exists_def list_ex_iff intro: rev_image_eqI)
  ultimately show ?thesis using f(2,3) by auto
qed

section \<open>Pages\<close>

text \<open>Behind a listed row the pages are the keyset pages of the row's own condition.\<close>

lemma keyset_rows_after:
  assumes "keyset_ms key base rows" "i < length (newest_first key base rows)"
  defines "c \<equiv> newest_first key base rows ! i"
  shows "sql_limit (n + 1) (rev (sort_key key (filter (\<lambda>r. base r \<and> (fst (key r) < js_date (fst (key c)) \<or>
      fst (key r) = js_date (fst (key c)) \<and> snd (key r) < snd (key c))) rows))) =
    take (nat (n + 1)) (drop (Suc i) (newest_first key base rows))"
    and "c \<in> set rows" "base c" "is_uuid (snd (key c))" "uuid_cast (snd (key c)) = snd (key c)" "js_date (fst (key c)) = fst (key c)"
proof -
  have "c \<in> set (newest_first key base rows)" using assms(2) by (simp add: c_def)
  then show c: "c \<in> set rows" "base c" by (auto simp: newest_first_def)
  then show u: "is_uuid (snd (key c))" "uuid_cast (snd (key c)) = snd (key c)" "js_date (fst (key c)) = fst (key c)"
    using assms(1) by (auto simp: keyset_ms_def canonical_def)
  have "find (\<lambda>x. snd (key x) = snd (key c) \<and> base x) rows = Some c"
    using find_unique_and [of "\<lambda>r. snd (key r)" rows c base] assms(1) c by (simp add: keyset_ms_def)
  then show "sql_limit (n + 1) (rev (sort_key key (filter (\<lambda>r. base r \<and> (fst (key r) < js_date (fst (key c)) \<or>
      fst (key r) = js_date (fst (key c)) \<and> snd (key r) < snd (key c))) rows))) =
    take (nat (n + 1)) (drop (Suc i) (newest_first key base rows))"
    using keyset_next [OF assms(1,2), of n] u unfolding c_def [symmetric] by (simp add: keyset_page_def case_prod_beta)
qed

abbreviation listed_notice :: "time \<Rightarrow> notice_row \<Rightarrow> bool" where
  "listed_notice now r \<equiv> published_by now r \<and> \<not> ntc_pinned r"

interpretation notice_pages: paged_listing
  "\<lambda>(now, s) c n. bindR (list_published_notices now \<lparr>pg_cursor = c, pg_limit = n\<rparr> s) (\<lambda>(_, p). Inr p)"
  "\<lambda>(now, s). map notice_list_item (newest_first notice_key (listed_notice now) (notices s))" nti_id
  "\<lambda>(now, s). keyset_ms notice_key (listed_notice now) (notices s)"
proof (unfold_locales, goal_cases)
  case (1 x n)
  then show ?case
    by (auto simp: list_published_notices_def decode_cursor_None notices_where_def newest_first_def sql_limit_def take_map)
next
  case (2 x n i)
  obtain now s where x: "x = (now, s)" by (cases x) auto
  let ?l = "newest_first notice_key (listed_notice now) (notices s)"
  have ok: "keyset_ms notice_key (listed_notice now) (notices s)" and i: "i < length ?l" using 2 x by auto
  note c = keyset_rows_after [OF ok i]
  have id: "nti_id (notice_list_item r) = snd (notice_key r)" "ntc_id r = snd (notice_key r)" for r
    by (simp_all add: notice_list_item_def notice_key_def)
  have "ntc_id = (\<lambda>r. snd (notice_key r))" by (rule ext) (rule id(2))
  then have "distinct (map ntc_id (notices s))" using ok by (simp add: keyset_ms_def)
  then have f: "find (\<lambda>r. ntc_id r = ntc_id (?l ! i)) (notices s) = Some (?l ! i)" using c(2) by (rule find_unique)
  obtain t where t: "ntc_published (?l ! i) = Some t" using c(3) by (auto simp: published_by_def split: option.splits)
  then have "fst (notice_key (?l ! i)) = t" by (simp add: notice_key_def)
  then have "list_published_notices now \<lparr>pg_cursor = Some (encode_cursor (ntc_id (?l ! i))), pg_limit = n\<rparr> s =
      Inr (None, page_from_rows nti_id (map notice_list_item (take (nat (n + 1)) (drop (Suc i) ?l))) n)"
    using c(1) [of n] c(4,5,6) f t
    by (simp add: list_published_notices_def cursor_roundtrip Let_def notices_where_def id flip: id(2))
  then show ?case using i x by (simp add: id take_map drop_map)
qed

text \<open>Following \<open>nextCursor\<close> through the notices at one instant shows every published notice once: the pinned ones, up to
  twenty, beside the first page and only there, the others newest first.\<close>

theorem notices_complete:
  assumes "keyset_ms notice_key (listed_notice now) (notices s)" "0 < n"
  shows "follow_pages (\<lambda>c. bindR (list_published_notices now \<lparr>pg_cursor = c, pg_limit = n\<rparr> s) (\<lambda>(_, p). Inr p))
      (Suc (length (newest_first notice_key (listed_notice now) (notices s)))) None =
      Inr (map notice_list_item (newest_first notice_key (listed_notice now) (notices s))) \<and>
    (\<exists>p. list_published_notices now \<lparr>pg_cursor = None, pg_limit = n\<rparr> s =
      Inr (Some (map notice_list_item (take 20 (newest_first notice_key (\<lambda>r. published_by now r \<and> ntc_pinned r) (notices s)))), p)) \<and>
    (\<forall>c pinned p. list_published_notices now \<lparr>pg_cursor = Some (encode_cursor c), pg_limit = n\<rparr> s = Inr (pinned, p) \<and> is_uuid c \<longrightarrow> pinned = None)"
proof (intro conjI allI impI)
  show "follow_pages (\<lambda>c. bindR (list_published_notices now \<lparr>pg_cursor = c, pg_limit = n\<rparr> s) (\<lambda>(_, p). Inr p))
      (Suc (length (newest_first notice_key (listed_notice now) (notices s)))) None =
      Inr (map notice_list_item (newest_first notice_key (listed_notice now) (notices s)))"
    using notice_pages.all_pages [of "(now, s)" n] assms by simp
  show "\<exists>p. list_published_notices now \<lparr>pg_cursor = None, pg_limit = n\<rparr> s =
      Inr (Some (map notice_list_item (take 20 (newest_first notice_key (\<lambda>r. published_by now r \<and> ntc_pinned r) (notices s)))), p)"
    by (simp add: list_published_notices_def decode_cursor_None notices_where_def newest_first_def sql_limit_def max_pinned_notices_def)
  show "pinned = None" if "list_published_notices now \<lparr>pg_cursor = Some (encode_cursor c), pg_limit = n\<rparr> s = Inr (pinned, p) \<and> is_uuid c" for c pinned p
    using conjunct1 [OF that] by (simp add: list_published_notices_def cursor_roundtrip [OF conjunct2 [OF that]] Let_def)
qed

interpretation inquiry_pages: paged_listing
  "\<lambda>(u, s) c n. list_inquiries_page u \<lparr>pg_cursor = c, pg_limit = n\<rparr> s"
  "\<lambda>(u, s). map inquiry_list_item (newest_first inquiry_key (\<lambda>r. inq_user r = u) (inquiries s))" iqi_id
  "\<lambda>(u, s). keyset_ms inquiry_key (\<lambda>r. inq_user r = u) (inquiries s)"
proof (unfold_locales, goal_cases)
  case (1 x n)
  then show ?case
    by (auto simp: list_inquiries_page_def decode_cursor_None newest_first_def sql_limit_def take_map)
next
  case (2 x n i)
  obtain u s where x: "x = (u, s)" by (cases x) auto
  let ?l = "newest_first inquiry_key (\<lambda>r. inq_user r = u) (inquiries s)"
  have ok: "keyset_ms inquiry_key (\<lambda>r. inq_user r = u) (inquiries s)" and i: "i < length ?l" using 2 x by auto
  note c = keyset_rows_after [OF ok i]
  have id: "iqi_id (inquiry_list_item r) = snd (inquiry_key r)" "inq_id r = snd (inquiry_key r)" "inq_created r = fst (inquiry_key r)" for r
    by (simp_all add: inquiry_list_item_def inquiry_key_def)
  have "find (\<lambda>r. snd (inquiry_key r) = snd (inquiry_key (?l ! i)) \<and> inq_user r = u) (inquiries s) = Some (?l ! i)"
    using find_unique_and [of "\<lambda>r. snd (inquiry_key r)" "inquiries s" "?l ! i" "\<lambda>r. inq_user r = u"] ok c(2,3) by (simp add: keyset_ms_def)
  then have "list_inquiries_page u \<lparr>pg_cursor = Some (encode_cursor (snd (inquiry_key (?l ! i)))), pg_limit = n\<rparr> s =
      Inr (page_from_rows iqi_id (map inquiry_list_item (take (nat (n + 1)) (drop (Suc i) ?l))) n)"
    using c(1) [of n] c(4,5,6) by (simp add: list_inquiries_page_def cursor_roundtrip Let_def id(2,3))
  then show ?case using i x by (simp add: id take_map drop_map)
qed

end
