(* ===== verification/Reader_Demo.thy ===== *)
theory Reader_Demo
  imports Feed_Props Content_Props Support_Props
begin

text \<open>
  A small world on which the properties of the readers' side and of the support apply: a reader, an active and a retired
  character, three posts with hashtags and a picture, a story, notices and inquiries.
\<close>

definition demo_id :: "string \<Rightarrow> uid" where
  "demo_id d = ''00000000-0000-7000-8000-00000000000'' @ d"

definition demo_reader :: user_row where
  "demo_reader = \<lparr>usr_id = demo_id ''1'', usr_email = None, usr_password_hash = None, usr_password_salt = None, usr_display_name = ''Ana'',
     usr_bio = [], usr_image_url = None, usr_created = 0, usr_deleted = None, usr_adult_verified = None, usr_adult_hash = None, usr_debt_hash = None\<rparr>"

definition demo_author :: "string \<Rightarrow> character_status \<Rightarrow> character_row" where
  "demo_author d st = \<lparr>chr_id = demo_id d, chr_public = ''mina'' @ d, chr_name = ''Mina'', chr_bio = [], chr_interests = Some [''art''],
     chr_status = st, chr_created = 0, chr_crop_x = 0, chr_crop_y = 0, chr_crop_zoom = 1, chr_image = None, chr_timezone = None\<rparr>"

definition demo_post :: "string \<Rightarrow> string \<Rightarrow> string \<Rightarrow> int \<Rightarrow> post_row" where
  "demo_post d author content t = \<lparr>pst_id = demo_id d, pst_character = demo_id author, pst_type = Feed_Post, pst_content = content, pst_created = ms t\<rparr>"

definition demo_reading :: backend where
  "demo_reading = empty_backend\<lparr>
     core_db := empty_db\<lparr>users := [demo_reader], characters := [demo_author ''2'' Active, demo_author ''3'' Inactive],
       posts := [demo_post ''4'' ''2'' ''A Quiet Sea'' 1, demo_post ''5'' ''2'' ''night'' 2, demo_post ''6'' ''3'' ''the sea'' 3],
       stories := [\<lparr>sty_id = demo_id ''7'', sty_character = demo_id ''2'', sty_media = demo_id ''8'', sty_caption = [], sty_created = ms 5, sty_expires = ms 90\<rparr>,
                   \<lparr>sty_id = demo_id ''9'', sty_character = demo_id ''2'', sty_media = demo_id ''8'', sty_caption = [], sty_created = ms 4, sty_expires = ms 9\<rparr>]\<rparr>,
     hashtags := [\<lparr>htg_id = demo_id ''a'', htg_name = ''sea''\<rparr>],
     post_hashtags := [\<lparr>pht_post = demo_id ''4'', pht_hashtag = demo_id ''a''\<rparr>],
     preferences := [\<lparr>prf_user = demo_id ''1'', prf_hashtag = demo_id ''a'', prf_score = 1\<rparr>],
     media_files := [\<lparr>med_id = demo_id ''8'', med_type = Image, med_url = ''x.png'', med_key = Some ''/sea side/x.png'', med_width = None, med_height = None, med_duration = None\<rparr>],
     notices := [\<lparr>ntc_id = demo_id ''b'', ntc_title = ''one'', ntc_body = [], ntc_pinned = False, ntc_published = Some (ms 1)\<rparr>,
                 \<lparr>ntc_id = demo_id ''c'', ntc_title = ''two'', ntc_body = [], ntc_pinned = True, ntc_published = Some (ms 2)\<rparr>,
                 \<lparr>ntc_id = demo_id ''d'', ntc_title = ''later'', ntc_body = [], ntc_pinned = False, ntc_published = None\<rparr>]\<rparr>"

definition demo_media :: media_env where
  "demo_media = \<lparr>me_parse = (\<lambda>_. None), me_base = Some ''https://cdn.example/''\<rparr>"

theorem feed_pages_complete_witness:
  "follow_pages (\<lambda>c. get_feed_page demo_media (Some (demo_id ''1'')) \<lparr>pg_cursor = c, pg_limit = 1\<rparr> demo_reading)
     (Suc (length (get_feed demo_media (Some (demo_id ''1'')) demo_reading))) None = Inr (get_feed demo_media (Some (demo_id ''1'')) demo_reading) \<and>
   map pvw_content (get_feed demo_media (Some (demo_id ''1'')) demo_reading) = [''A Quiet Sea'', ''night'']"
proof
  have "canonical_posts demo_reading" by code_simp
  then show "follow_pages (\<lambda>c. get_feed_page demo_media (Some (demo_id ''1'')) \<lparr>pg_cursor = c, pg_limit = 1\<rparr> demo_reading)
     (Suc (length (get_feed demo_media (Some (demo_id ''1'')) demo_reading))) None = Inr (get_feed demo_media (Some (demo_id ''1'')) demo_reading)"
    by (rule feed_pages_complete) simp
  show "map pvw_content (get_feed demo_media (Some (demo_id ''1'')) demo_reading) = [''A Quiet Sea'', ''night'']" by code_simp
qed

text \<open>Two active authors, the second of whom the reader follows; the newest post is neither followed nor tagged.\<close>

definition demo_ranked :: backend where
  "demo_ranked = demo_reading\<lparr>core_db := (core_db demo_reading)\<lparr>characters := [demo_author ''2'' Active, demo_author ''3'' Active],
       follows := [\<lparr>flw_user = demo_id ''1'', flw_character = demo_id ''3'', flw_created = ms 1, flw_notified = ms 1\<rparr>],
       posts := [demo_post ''4'' ''2'' ''A Quiet Sea'' 1, demo_post ''5'' ''2'' ''night'' 9, demo_post ''6'' ''3'' ''the shore'' 3]\<rparr>,
     preferences := [\<lparr>prf_user = demo_id ''1'', prf_hashtag = demo_id ''a'', prf_score = 2\<rparr>]\<rparr>"

theorem feed_ranked_witness:
  "map pvw_content (get_feed demo_media (Some (demo_id ''1'')) demo_ranked) = [''A Quiet Sea'', ''the shore'', ''night''] \<and>
   map (feed_points (Some (demo_id ''1'')) demo_ranked) (get_feed demo_media (Some (demo_id ''1'')) demo_ranked) = [2, 1, 0] \<and>
   sorted_wrt (\<lambda>p q. feed_points (Some (demo_id ''1'')) demo_ranked q < feed_points (Some (demo_id ''1'')) demo_ranked p \<or>
      feed_points (Some (demo_id ''1'')) demo_ranked q = feed_points (Some (demo_id ''1'')) demo_ranked p \<and> pvw_created q \<le> pvw_created p)
     (get_feed demo_media (Some (demo_id ''1'')) demo_ranked)"
proof (intro conjI)
  have "preference_keys demo_ranked" "\<forall>x \<in> set (preferences demo_ranked). 0 \<le> prf_score x"
    unfolding preference_keys_def Ball_set_list_all by code_simp+
  from feed_ranked [OF this, of demo_media "Some (demo_id ''1'')"]
  show "sorted_wrt (\<lambda>p q. feed_points (Some (demo_id ''1'')) demo_ranked q < feed_points (Some (demo_id ''1'')) demo_ranked p \<or>
      feed_points (Some (demo_id ''1'')) demo_ranked q = feed_points (Some (demo_id ''1'')) demo_ranked p \<and> pvw_created q \<le> pvw_created p)
     (get_feed demo_media (Some (demo_id ''1'')) demo_ranked)" by (elim conjE)
  show "map pvw_content (get_feed demo_media (Some (demo_id ''1'')) demo_ranked) = [''A Quiet Sea'', ''the shore'', ''night'']" by code_simp
  show "map (feed_points (Some (demo_id ''1'')) demo_ranked) (get_feed demo_media (Some (demo_id ''1'')) demo_ranked) = [2, 1, 0]" by code_simp
qed

definition demo_event :: user_event where
  "demo_event = \<lparr>uve_user = demo_id ''1'', uve_type = ''post_open'', uve_target_type = ''post'', uve_target = demo_id ''4'', uve_metadata = None\<rparr>"

theorem preferences_accumulate_witness:
  "preference_of (demo_id ''1'') ''sea'' demo_reading = Some 1 \<and>
   preference_of (demo_id ''1'') ''sea'' (update_preferences demo_media (\<lambda>n. replicate n CHR ''x'') demo_event demo_reading) = Some 2"
proof
  show one: "preference_of (demo_id ''1'') ''sea'' demo_reading = Some 1" by code_simp
  have "preference_keys demo_reading" unfolding preference_keys_def Ball_set_list_all by code_simp
  moreover have "has_user (core_db demo_reading) (uve_user demo_event)" "event_weight (uve_type demo_event) = Some 1" by code_simp+
  moreover have "inj (\<lambda>n. replicate n CHR ''x'')" by (rule injI) (metis length_replicate)
  moreover have "demo_id ''a'' \<notin> range (\<lambda>n. replicate n CHR ''x'')"
  proof
    assume "demo_id ''a'' \<in> range (\<lambda>n. replicate n CHR ''x'')"
    then have "set (demo_id ''a'') \<subseteq> {CHR ''x''}" by (auto split: if_splits)
    then show False by (simp add: demo_id_def)
  qed
  then have "list_all (\<lambda>h. htg_id h \<notin> range (\<lambda>n. replicate n CHR ''x'')) (hashtags demo_reading)" by (simp add: demo_reading_def)
  ultimately have "preference_of (demo_id ''1'') ''sea'' (update_preferences demo_media (\<lambda>n. replicate n CHR ''x'') demo_event demo_reading) =
    (if demo_id ''1'' = uve_user demo_event \<and> ''sea'' \<in> set (hashtags_for demo_media demo_event demo_reading)
     then Some (case preference_of (demo_id ''1'') ''sea'' demo_reading of None \<Rightarrow> 1 | Some x \<Rightarrow> fl (x + 1))
     else preference_of (demo_id ''1'') ''sea'' demo_reading)"
    by (rule preferences_accumulate)
  moreover have "hashtags_for demo_media demo_event demo_reading = [''sea'']" "uve_user demo_event = demo_id ''1''" "fl (1 + 1) = 2" by code_simp+
  ultimately show "preference_of (demo_id ''1'') ''sea'' (update_preferences demo_media (\<lambda>n. replicate n CHR ''x'') demo_event demo_reading) = Some 2"
    using one by simp
qed

theorem media_url_names_key_witness:
  "public_media_url demo_media ''x.png'' (Some ''/sea side/x.png'') = ''https://cdn.example/sea%20side/x.png'' \<and>
   (\<exists>path. public_media_url demo_media ''x.png'' (Some ''/sea side/x.png'') = media_base demo_media @ CHR ''/'' # path \<and>
      uri_decode path = ''sea side/x.png'')"
proof
  show "public_media_url demo_media ''x.png'' (Some ''/sea side/x.png'') = ''https://cdn.example/sea%20side/x.png''" by code_simp
  have "\<not> is_http_url demo_media (trim ''x.png'')" "media_base demo_media \<noteq> []" by code_simp+
  moreover have "media_key (trim ''x.png'') (Some ''/sea side/x.png'') = ''sea side/x.png''" by code_simp
  ultimately show "\<exists>path. public_media_url demo_media ''x.png'' (Some ''/sea side/x.png'') = media_base demo_media @ CHR ''/'' # path \<and>
      uri_decode path = ''sea side/x.png''"
    using media_url_names_key [of demo_media "''x.png''" "Some ''/sea side/x.png''"] by auto
qed

definition demo_filters :: post_filters where
  "demo_filters = \<lparr>pfl_character = None, pfl_type = Some ''feed'', pfl_hashtag = Some '' sea '', pfl_media = None\<rparr>"

theorem filtered_posts_complete_witness:
  "\<exists>chosen. map pst_id chosen = [demo_id ''4''] \<and>
     follow_pages (\<lambda>c. list_posts_page demo_media demo_filters \<lparr>pg_cursor = c, pg_limit = 1\<rparr> demo_reading) (Suc (length chosen)) None =
       Inr (map (to_post demo_media demo_reading) chosen)"
proof (intro exI conjI)
  have "\<not> isl (post_conditions demo_filters demo_reading)" by code_simp
  then have cond: "post_conditions demo_filters demo_reading = Inr (projr (post_conditions demo_filters demo_reading))"
    by (cases "post_conditions demo_filters demo_reading") auto
  have "settled_posts demo_reading" unfolding settled_posts_def keyset_ms_def Ball_set_list_all by code_simp
  from filtered_posts_complete [OF this cond]
  show "follow_pages (\<lambda>c. list_posts_page demo_media demo_filters \<lparr>pg_cursor = c, pg_limit = 1\<rparr> demo_reading)
      (Suc (length (newest_first post_key (\<lambda>r. author_active demo_reading r \<and> projr (post_conditions demo_filters demo_reading) r)
        (posts (core_db demo_reading))))) None =
    Inr (map (to_post demo_media demo_reading) (newest_first post_key
      (\<lambda>r. author_active demo_reading r \<and> projr (post_conditions demo_filters demo_reading) r) (posts (core_db demo_reading))))"
    by simp
  show "map pst_id (newest_first post_key (\<lambda>r. author_active demo_reading r \<and> projr (post_conditions demo_filters demo_reading) r)
      (posts (core_db demo_reading))) = [demo_id ''4'']" by code_simp
qed

theorem stories_complete_witness:
  "follow_pages (\<lambda>c. list_stories_page demo_media (ms 10) \<lparr>pg_cursor = c, pg_limit = 1\<rparr> demo_reading) 2 None =
     Inr [to_story demo_media demo_reading (hd (stories (core_db demo_reading)))]"
proof -
  have "keyset_ms story_key (\<lambda>_. True) (stories (core_db demo_reading))" unfolding keyset_ms_def Ball_set_list_all by code_simp
  moreover have "newest_first story_key (active_story (ms 10) None demo_reading) (stories (core_db demo_reading)) =
      [hd (stories (core_db demo_reading))]" by code_simp
  ultimately show ?thesis using stories_complete [where s = demo_reading and n = 1 and now = "ms 10" and e = demo_media] by (simp add: numeral_2_eq_2)
qed

theorem post_search_exact_witness:
  "map pvw_id (srr_posts (projr (search demo_media (Some ''#SEA'') (Some ''post'') None demo_reading))) = [demo_id ''4''] \<and>
   search demo_media (Some ''#SEA'') (Some ''post'') None demo_reading = Inr \<lparr>srr_characters = [],
     srr_posts = map (to_post demo_media demo_reading) (take 10 (sort_key (\<lambda>r. - pst_created r)
       (filter (\<lambda>r. has_text ''SEA'' (pst_content r) \<or> tagged (has_text ''SEA'') demo_reading r) (visible_posts demo_reading)))),
     srr_hashtags = []\<rparr>"
proof
  show "map pvw_id (srr_posts (projr (search demo_media (Some ''#SEA'') (Some ''post'') None demo_reading))) = [demo_id ''4'']" by code_simp
  have "parse_query (Some ''#SEA'') = Inr ''SEA''" "plain_term (trim ''SEA'')" "parse_limit None = Inr 10" "trim ''SEA'' = ''SEA''" by code_simp+
  then show "search demo_media (Some ''#SEA'') (Some ''post'') None demo_reading = Inr \<lparr>srr_characters = [],
     srr_posts = map (to_post demo_media demo_reading) (take 10 (sort_key (\<lambda>r. - pst_created r)
       (filter (\<lambda>r. has_text ''SEA'' (pst_content r) \<or> tagged (has_text ''SEA'') demo_reading r) (visible_posts demo_reading)))),
     srr_hashtags = []\<rparr>"
    using post_search_exact [of "Some ''#SEA''" "''SEA''" None 10 demo_media demo_reading] by simp
qed

definition demo_reaction :: "(reaction_view \<times> backend) res" where
  "demo_reaction = create_user_reaction (ms 20) (demo_id ''e'') (demo_id ''4'') (demo_id ''1'') (Some (J_String '' like '')) demo_reading"

theorem reaction_taken_back_witness:
  "map rct_type (reactions (after demo_reaction)) = [''like''] \<and>
   (\<exists>y. create_user_reaction (ms 30) (demo_id ''f'') (demo_id ''4'') (demo_id ''1'') (Some (J_String '' like '')) (after demo_reaction) = Inr (y, after demo_reaction)) \<and>
   (\<exists>s2. delete_user_reaction (demo_id ''4'') (demo_id ''1'') (Some (J_String '' like '')) (after demo_reaction) = Inr (True, s2) \<and> reactions s2 = [])"
proof -
  have "\<not> isl demo_reaction" by code_simp
  then have run: "create_user_reaction (ms 20) (demo_id ''e'') (demo_id ''4'') (demo_id ''1'') (Some (J_String '' like '')) demo_reading =
      Inr (out demo_reaction, after demo_reaction)" using run_ok [of demo_reaction] by (simp add: demo_reaction_def)
  have t: "trimmed (json_text (Some (J_String '' like ''))) = Some ''like''" by code_simp
  have none: "reactions demo_reading = []" by code_simp
  have shown: "map rct_type (reactions (after demo_reaction)) = [''like'']" by code_simp
  show ?thesis using reaction_taken_back [OF run t, of "ms 30" "demo_id ''f''"] shown by (simp add: none)
qed

section \<open>Support\<close>

definition demo_asked :: "(inquiry_item \<times> backend) res" where
  "demo_asked = create_inquiry (ms 1000) (ms 1001) (demo_id ''a'') (demo_id ''1'') (Some (J_String ''bug'')) (Some (J_String '' it broke '')) demo_reading"

lemma demo_asked_run:
  "create_inquiry (ms 1000) (ms 1001) (demo_id ''a'') (demo_id ''1'') (Some (J_String ''bug'')) (Some (J_String '' it broke '')) demo_reading =
     Inr (out demo_asked, after demo_asked)"
proof -
  have "\<not> isl demo_asked" by code_simp
  then show ?thesis using run_ok [of demo_asked] by (simp add: demo_asked_def)
qed

definition demo_full_day :: backend where
  "demo_full_day = demo_reading\<lparr>inquiries := map (\<lambda>n. \<lparr>inq_id = replicate n CHR ''q'', inq_user = demo_id ''1'', inq_category = ''bug'', inq_body = ''x'',
     inq_status = Inq_Submitted, inq_answer = None, inq_answered = None, inq_created = ms (int n)\<rparr>) [0..<10]\<rparr>"

definition demo_late :: "(inquiry_item \<times> backend) res" where
  "demo_late = create_inquiry (ms 53999999) (ms 54000000) (demo_id ''a'') (demo_id ''1'') (Some (J_String ''bug'')) (Some (J_String ''late'')) demo_full_day"

text \<open>A full day, a request of that day that is counted after its midnight, and one that is counted before and refused.\<close>

theorem inquiry_limit_kept_witness:
  "inquiries_on (demo_id ''1'') 0 (after demo_late) \<le> daily_inquiry_limit + 1 \<and> inquiries_on (demo_id ''1'') 0 (after demo_late) = 11 \<and>
   isl (create_inquiry (ms 53999998) (ms 53999999) (demo_id ''b'') (demo_id ''1'') (Some (J_String ''bug'')) (Some (J_String ''in time'')) (after demo_late))"
proof (intro conjI)
  have "\<not> isl demo_late" by code_simp
  then have "create_inquiry (ms 53999999) (ms 54000000) (demo_id ''a'') (demo_id ''1'') (Some (J_String ''bug'')) (Some (J_String ''late'')) demo_full_day =
      Inr (out demo_late, after demo_late)" using run_ok [of demo_late] by (simp add: demo_late_def)
  from inquiry_run.Accepted [OF inquiry_run.Start this]
  have run: "inquiry_run demo_full_day [(demo_id ''1'', ms 53999999, ms 54000000)] (after demo_late)" .
  have start: "inquiries_on u d demo_full_day \<le> daily_inquiry_limit" for u d
    using length_filter_le [of "\<lambda>r. inq_user r = u \<and> kst_day (inq_created r) = d" "inquiries demo_full_day"]
    by (simp add: inquiries_on_def demo_full_day_def daily_inquiry_limit_def)
  have "kst_day (ms 53999999) = 0" "kst_day (ms 54000000) \<noteq> 0" by code_simp+
  with inquiry_limit_kept [OF run, of "demo_id ''1''" 0] start
  show "inquiries_on (demo_id ''1'') 0 (after demo_late) \<le> daily_inquiry_limit + 1" by simp
  show "inquiries_on (demo_id ''1'') 0 (after demo_late) = 11"
    "isl (create_inquiry (ms 53999998) (ms 53999999) (demo_id ''b'') (demo_id ''1'') (Some (J_String ''bug'')) (Some (J_String ''in time'')) (after demo_late))"
    by code_simp+
qed

theorem inquiry_limit_missed_witness:
  "\<exists>x s'. create_inquiry (ms 53999999) (ms 54000000) (demo_id ''a'') (demo_id ''1'') (Some (J_String ''bug'')) (Some (J_String ''late'')) demo_full_day = Inr (x, s') \<and>
     inquiries_on (demo_id ''1'') 0 s' = 11"
proof -
  have "kst_day (ms 53999999) \<noteq> kst_day (ms 54000000)"
    "inquiries_on (demo_id ''1'') (kst_day (ms 54000000)) demo_full_day < daily_inquiry_limit"
    "required_category (Some (J_String ''bug'')) = Inr ''bug''" "required_body (Some (J_String ''late'')) = Inr ''late''"
    "has_user (core_db demo_full_day) (demo_id ''1'')" "demo_id ''a'' \<notin> inq_id ` set (inquiries demo_full_day)"
    by code_simp+
  from inquiry_limit_missed [OF this] obtain x s' where
    "create_inquiry (ms 53999999) (ms 54000000) (demo_id ''a'') (demo_id ''1'') (Some (J_String ''bug'')) (Some (J_String ''late'')) demo_full_day = Inr (x, s')"
    "inquiries_on (demo_id ''1'') (kst_day (ms 53999999)) s' = Suc (inquiries_on (demo_id ''1'') (kst_day (ms 53999999)) demo_full_day)"
    by blast
  moreover have "kst_day (ms 53999999) = 0" "inquiries_on (demo_id ''1'') 0 demo_full_day = 10" by code_simp+
  ultimately show ?thesis by auto
qed

definition demo_answered :: backend where
  "demo_answered = (after demo_asked)\<lparr>inquiries := update_where (\<lambda>r. inq_id r = demo_id ''a'')
    (\<lambda>r. r\<lparr>inq_status := Inq_Answered, inq_answer := Some ''fixed'', inq_answered := Some 5\<rparr>) (inquiries (after demo_asked))\<rparr>"

theorem answered_inquiry_kept_witness:
  "isl (delete_inquiry (demo_id ''1'') (demo_id ''a'') (after demo_asked) demo_answered) \<and>
   \<not> isl (delete_inquiry (demo_id ''1'') (demo_id ''a'') (after demo_asked) (after demo_asked))"
proof
  let ?r = "hd (inquiries demo_answered)"
  have "?r \<in> set (inquiries demo_answered)" "inq_status ?r = Inq_Answered" "distinct (map inq_id (inquiries demo_answered))"
    "canonical (inq_id ?r)" and i: "inq_id ?r = demo_id ''a''"
    by code_simp+
  then show "isl (delete_inquiry (demo_id ''1'') (demo_id ''a'') (after demo_asked) demo_answered)"
    using answered_inquiry_kept [of ?r demo_answered demo_answered] by simp
  show "\<not> isl (delete_inquiry (demo_id ''1'') (demo_id ''a'') (after demo_asked) (after demo_asked))" by code_simp
qed

definition demo_report :: report_input where
  "demo_report = \<lparr>rpi_type = Some (J_String ''post''), rpi_target = Some (J_String (demo_id ''4'')), rpi_reason = Some (J_String '' spam ''), rpi_details = None\<rparr>"

definition demo_reported :: "(report_receipt \<times> backend) res" where
  "demo_reported = create_report (ms 1) (demo_id ''a'') (demo_id ''1'') demo_report demo_reading"

theorem report_private_witness:
  "find_report_for_user (demo_id ''2'') (demo_id ''a'') (after demo_reported) = None \<and>
   map_option rpd_reason (find_report_for_user (demo_id ''1'') (demo_id ''a'') (after demo_reported)) = Some ''spam''"
proof -
  have "\<not> isl demo_reported" "canonical (demo_id ''a'')" by code_simp+
  then have run: "create_report (ms 1) (demo_id ''a'') (demo_id ''1'') demo_report demo_reading = Inr (out demo_reported, after demo_reported)"
    using run_ok [of demo_reported] by (simp add: demo_reported_def)
  have "trimmed (json_text (rpi_reason demo_report)) = Some ''spam''" "demo_id ''2'' \<noteq> demo_id ''1''" by code_simp+
  then show ?thesis
    using report_private [OF run \<open>canonical (demo_id ''a'')\<close>, of "demo_id ''1''"] report_private [OF run \<open>canonical (demo_id ''a'')\<close>, of "demo_id ''2''"]
    by auto
qed

theorem notices_complete_witness:
  "follow_pages (\<lambda>c. bindR (list_published_notices (ms 9) \<lparr>pg_cursor = c, pg_limit = 1\<rparr> demo_reading) (\<lambda>(_, p). Inr p)) 2 None =
     Inr [notice_list_item (hd (notices demo_reading))] \<and>
   (\<exists>p. list_published_notices (ms 9) \<lparr>pg_cursor = None, pg_limit = 1\<rparr> demo_reading = Inr (Some [notice_list_item (notices demo_reading ! 1)], p))"
proof -
  have "keyset_ms notice_key (listed_notice (ms 9)) (notices demo_reading)" unfolding keyset_ms_def Ball_set_list_all by code_simp
  moreover have "newest_first notice_key (listed_notice (ms 9)) (notices demo_reading) = [hd (notices demo_reading)]"
    "newest_first notice_key (\<lambda>r. published_by (ms 9) r \<and> ntc_pinned r) (notices demo_reading) = [notices demo_reading ! 1]" by code_simp+
  ultimately show ?thesis using notices_complete [where s = demo_reading and n = 1 and now = "ms 9"] by (simp add: numeral_2_eq_2)
qed

end
