(* ===== verification/Api_Demo.thy ===== *)
theory Api_Demo
  imports Service_Sessions Auth_Demo Reader_Demo
begin

text \<open>
  A small application on which the properties of the requests apply: the cryptographic functions and the state of \<open>Auth_Demo\<close>, a pipe
  that keeps the described fields of an object, and payment services that know nothing.
\<close>

definition demo_gateway :: gateway where
  "demo_gateway = \<lparr>gw_polar_checkouts = (\<lambda>_. Inr []), gw_polar_create = (\<lambda>_ _. Inl (Service_Unavailable '''')),
     gw_polar_checkout = (\<lambda>_. Inl (Service_Unavailable '''')), gw_polar_orders = (\<lambda>_. Inr []),
     gw_polar_refund = (\<lambda>_ _ _. Inl (Service_Unavailable '''')), gw_polar_verify = (\<lambda>_ _ _. None),
     gw_apple_transaction = (\<lambda>_. None), gw_apple_notification = (\<lambda>_. None), gw_google_fetch = (\<lambda>_ _ _. None),
     gw_google_consume = (\<lambda>_ _ _. Inr ()), gw_google_trusted = (\<lambda>_. False), gw_google_message = (\<lambda>_. None), gw_google_parse = (\<lambda>_. None)\<rparr>"

definition demo_pipe :: "dto \<Rightarrow> json option \<Rightarrow> json res" where
  "demo_pipe d body = Inr (J_Object (case body of Some (J_Object gs) \<Rightarrow> filter (\<lambda>g. fst g \<in> set (map fst d)) gs | _ \<Rightarrow> []))"

definition demo_app :: app where
  "demo_app = \<lparr>app_crypto = demo_crypto, app_auth = demo_auth_env, app_pay = demo_env, app_gateway = demo_gateway, app_url = (\<lambda>_. None),
     app_media = demo_media, app_social = [], app_hmac = (\<lambda>_ _. replicate 32 0xAB), app_is_ip = (\<lambda>_. False), app_pipe = demo_pipe,
     app_describe = (\<lambda>_. [])\<rparr>"

definition demo_call :: "string option \<Rightarrow> call" where
  "demo_call auth = \<lparr>call_authorization = auth, call_time = (\<lambda>_. 5000), call_id = (\<lambda>n. replicate (n + 1) CHR ''i''), call_auth = Auth_Demo.demo_fresh,
     call_pay = Purchase_Props.demo_fresh,
     call_chat = \<lparr>mi_reservation = ''r'', mi_reference = ''f'', mi_conversation = ''c'', mi_message = ''m'', mi_job = ''j''\<rparr>\<rparr>"

lemma demo_pipe_whitelists: "whitelisting demo_pipe"
  by (auto simp: whitelisting_def demo_pipe_def)

theorem private_requests_need_session_witness:
  "isl (fst (handle demo_app (demo_call None) (On_Credits Check_In_Today) demo_state)) \<and>
   snd (handle demo_app (demo_call None) (On_Credits Check_In_Today) demo_state) = demo_state"
  using private_requests_need_session [of "On_Credits Check_In_Today" demo_app "demo_call None" demo_state "Unauthorized ''Bearer token is required''"]
  by (simp add: private_credits_def user_id_from_authorization_def bearer_token_def demo_call_def)

theorem access_token_authorizes_witness:
  "user_id_from_authorization demo_crypto demo_auth_env 899000000 (Some (''Bearer '' @ demo_token Tokens.demo_uuid)) demo_state =
    (if unix_seconds 0 + 15 * 60 \<le> unix_seconds 899000000 then Inl (Unauthorized ''Access token is expired'')
     else case find_user Tokens.demo_uuid demo_state of
         Some r \<Rightarrow> if usr_deleted r = None then Inr Tokens.demo_uuid else Inl invalid_token
       | None \<Rightarrow> Inl invalid_token)"
proof (rule access_token_authorizes)
  show "issue_access_token demo_crypto demo_auth_env 0 Tokens.demo_uuid = Inr (demo_token Tokens.demo_uuid)"
    by (simp add: demo_token_def issue_access_token_def sign_jwt_def jwt_secret_def demo_auth_env_def trimmed_def trim_def
        js_space_def Let_def)
  show "canonical Tokens.demo_uuid" by code_simp
qed (simp_all add: unix_seconds_def)

text \<open>A body that names another user.\<close>

definition demo_body :: "json option" where
  "demo_body = Some (J_Object [(''userId'', J_String demo_social_uuid), (''productId'', J_String ''credits_500''), (''proof'', J_String ''receipt''),
     (''idempotencyKey'', J_String ''key'')])"

theorem body_cannot_choose_user_witness:
  "purchases_verify_apple demo_app (demo_call (demo_authorization Tokens.demo_uuid)) demo_body demo_state =
     in_core (commit (verify_in_app demo_env demo_gateway (\<lambda>_ _. replicate 32 0xAB) 5000 ''i'' ''ii'' ''iii'' ''iiii'' Tokens.demo_uuid Apple
       ''credits_500'' ''receipt'')) demo_state"
proof -
  let ?a = demo_app and ?c = "demo_call (demo_authorization Tokens.demo_uuid)"
  have w: "whitelisting (app_pipe ?a)" by (simp add: demo_app_def demo_pipe_whitelists)
  have u: "user_id_from_authorization (app_crypto ?a) (app_auth ?a) (call_time ?c 0) (call_authorization ?c) demo_state = Inr Tokens.demo_uuid"
    using demo_authorized by (simp add: demo_app_def demo_call_def)
  have b: "app_pipe ?a verify_in_app_purchase_dto demo_body =
      Inr (J_Object [(''productId'', J_String ''credits_500''), (''proof'', J_String ''receipt'')])"
    "app_pipe ?a request_purchase_refund_dto demo_body = Inr (J_Object [(''idempotencyKey'', J_String ''key'')])"
    by (simp_all add: demo_app_def demo_pipe_def demo_body_def verify_in_app_purchase_dto_def request_purchase_refund_dto_def)
  have p: "is_uuid Tokens.demo_uuid" by code_simp
  have n: "replicate 1 CHR ''i'' = ''i''" "replicate 2 CHR ''i'' = ''ii''" "replicate 3 CHR ''i'' = ''iii''" "replicate 4 CHR ''i'' = ''iiii''"
    by (simp_all add: numeral_eq_Suc)
  show ?thesis
    using body_cannot_choose_user [OF w u b p, THEN conjunct1] n
    by (simp add: demo_app_def demo_call_def text_field_def numeral_eq_Suc)
qed

theorem service_keeps_ledger_witness:
  "ledger_ok (core_db (snd (handle demo_app (demo_call (demo_authorization Tokens.demo_uuid)) (On_Credits Check_In_Today) demo_state)))"
proof -
  let ?c = "demo_call (demo_authorization Tokens.demo_uuid)"
  have "service_run demo_app (message_reply_worker_options (\<lambda>_. None)) demo_state
      (snd (handle demo_app ?c (On_Credits Check_In_Today) demo_state))"
    by (rule r_into_rtranclp) (rule service_step.request)
  moreover have "ledger_ok (core_db demo_state)" by code_simp
  ultimately show ?thesis by (rule service_keeps_ledger)
qed

section \<open>Sessions\<close>

abbreviation demo_worker :: worker_options where
  "demo_worker \<equiv> message_reply_worker_options (\<lambda>_. None)"

lemma demo_checked_in:
  "service_run demo_app demo_worker s (snd (handle demo_app (demo_call None) (On_Credits Check_In_Today) s))"
  by (rule r_into_rtranclp) (rule service_step.request)



theorem refresh_single_use_witness:
  "fst (auth_refresh demo_app (demo_call None) demo_refresh
       (snd (handle demo_app (demo_call None) (On_Credits Check_In_Today) (snd demo_refreshed)))) = Inl (Unauthorized ''Refresh token is invalid'') \<or>
    (\<exists>t \<in> set (refresh_tokens (snd (handle demo_app (demo_call None) (On_Credits Check_In_Today) (snd demo_refreshed)))).
       tok_hash t = hash_token (app_crypto demo_app) (trim (the (json_text (property ''refreshToken'' (Some (the demo_refresh)))))) \<and>
       tok_user t \<noteq> pbu_id (ath_user (projr (fst demo_refreshed))))"
proof (rule refresh_single_use [OF demo_sessions_ok _ _ demo_checked_in])
  show p: "app_pipe demo_app refresh_token_dto demo_refresh = Inr (the demo_refresh)"
    by (simp add: demo_app_def demo_pipe_def demo_refresh_def refresh_token_dto_def)
  have "\<not> isl (fst demo_refreshed)" by code_simp
  then have "refresh demo_crypto demo_auth_env 5000 Auth_Demo.demo_fresh demo_refresh demo_state =
      (Inr (projr (fst demo_refreshed)), snd demo_refreshed)"
    unfolding demo_refreshed_def by (metis prod.collapse sum.collapse(2))
  then show "auth_refresh demo_app (demo_call None) demo_refresh demo_state = (Inr (projr (fst demo_refreshed)), snd demo_refreshed)"
    using p by (simp add: auth_refresh_def with_body_def) (simp add: demo_app_def demo_call_def demo_refresh_def)
qed

definition demo_new_password :: "json option" where
  "demo_new_password = Some (J_Object [(''currentPassword'', J_String ''long-password''), (''newPassword'', J_String ''new-password'')])"

lemma demo_change_checked:
  "change_password_check demo_crypto demo_auth_env 5000 (demo_authorization Tokens.demo_uuid) demo_new_password demo_state =
     Inr (demo_user, ''new-password'')"
proof -
  have "find_user Tokens.demo_uuid demo_state = Some demo_user" "has_password demo_user"
    "json_text (property ''currentPassword'' demo_new_password) = Some ''long-password''"
    "assert_password (property ''newPassword'' demo_new_password) = Inr ''new-password''"
    "password_matches demo_crypto ''long-password'' demo_user"
    by code_simp+
  then show ?thesis by (simp add: change_password_check_def demo_authorized)
qed

theorem password_change_ends_sessions_witness:
  "list_all (\<lambda>t. tok_user t = pbu_id (ath_user (out demo_changed)) \<longrightarrow>
      (\<forall>q \<in> set (refresh_tokens (after demo_changed)). tok_hash q = tok_hash t \<and> tok_user q = pbu_id (ath_user (out demo_changed)) \<longrightarrow> tok_revoked q \<noteq> None))
      (refresh_tokens demo_state) \<and>
    list_all (\<lambda>q. tok_user q = pbu_id (ath_user (out demo_changed)) \<and> tok_revoked q = None \<longrightarrow>
      tok_hash q = hash_token demo_crypto (ath_refresh (out demo_changed))) (refresh_tokens (after demo_changed))"
proof -
  have "\<not> isl demo_changed" by code_simp
  then have "change_password_tx demo_crypto demo_auth_env 5000 Auth_Demo.demo_fresh demo_user ''new-password'' demo_state =
      Inr (out demo_changed, after demo_changed)"
    using run_ok [of demo_changed] by (simp add: demo_changed_def)
  then have "change_password demo_crypto demo_auth_env 5000 Auth_Demo.demo_fresh (demo_authorization Tokens.demo_uuid) demo_new_password demo_state =
      (Inr (out demo_changed), after demo_changed)"
    by (simp add: change_password_def demo_change_checked)
  moreover have "app_pipe demo_app change_password_dto demo_new_password = Inr (the demo_new_password)"
    by (simp add: demo_app_def demo_pipe_def demo_new_password_def change_password_dto_def)
  ultimately have "auth_change_password demo_app (demo_call (demo_authorization Tokens.demo_uuid)) demo_new_password demo_state =
      (Inr (out demo_changed), after demo_changed)"
    by (simp add: auth_change_password_def with_body_def) (simp add: demo_app_def demo_call_def demo_new_password_def)
  from password_change_ends_sessions [OF demo_sessions_ok this rtranclp.rtrancl_refl] show ?thesis
    unfolding list_all_iff by (simp add: demo_app_def)
qed


end
