(* ===== verification/Migrations.thy ===== *)
theory Migrations
  imports Schema "HOL-Library.Word" "HOL-Library.Sublist"
begin

text \<open>
  The migration runner, \<open>scripts/db-migrations.mjs\<close>: with \<open>--baseline\<close> it compares the system catalogue of an existing database with the
  snapshot of the approved baseline and registers that baseline as applied. The catalogue is a record of the tables the queries read;
  \<open>format_type\<close> of PostgreSQL and the \<open>migrate\<close> of the driver are parameters. Strings of this script are lists of UTF-16 units.
\<close>

section \<open>Identifiers\<close>

type_synonym jstring = "16 word list"

definition ascii :: "string \<Rightarrow> jstring" where
  "ascii t = map of_char t"

definition high_surrogate :: "16 word \<Rightarrow> bool" where
  "high_surrogate c \<longleftrightarrow> 0xD800 \<le> c \<and> c < 0xDC00"

definition low_surrogate :: "16 word \<Rightarrow> bool" where
  "low_surrogate c \<longleftrightarrow> 0xDC00 \<le> c \<and> c < 0xE000"

text \<open>\<open>Buffer.byteLength\<close>: a lone surrogate is encoded as U+FFFD, in three bytes.\<close>

fun byte_length :: "jstring \<Rightarrow> nat" where
  "byte_length [] = 0"
| "byte_length [c] = (if c < 0x80 then 1 else if c < 0x800 then 2 else 3)"
| "byte_length (c # d # cs) =
     (if c < 0x80 then 1 + byte_length (d # cs)
      else if c < 0x800 then 2 + byte_length (d # cs)
      else if high_surrogate c \<and> low_surrogate d then 4 + byte_length cs
      else 3 + byte_length (d # cs))"

function truncate_identifier :: "jstring \<Rightarrow> jstring" where
  "truncate_identifier v = (if 63 < byte_length v then truncate_identifier (butlast v) else v)"
  by pat_completeness auto
termination
proof (relation "measure length")
  show "(butlast v, v) \<in> measure length" if "63 < byte_length v" for v
    using that by (cases v) auto
qed simp

declare truncate_identifier.simps [simp del]

section \<open>Comparing sets\<close>

text \<open>
  What a row of a comparison holds; \<open>JSON.stringify\<close> takes different rows to different keys, so the keys are the rows themselves. The
  message quotes five rows of each side, the error here carries them all.
\<close>

datatype cell = Name jstring | Names "jstring list" | Flag bool | Code string | Null

datatype migration_error =
    Preflight_Failed string "cell list list" "cell list list"
  | Already_Recorded "string list"
  | Legacy_Unfinished string "string list"
  | Created_Concurrently
  | Bad_Baseline
  | No_Database_Url
  | Unknown_Arguments "string list"
  | Migration_Failed string

definition as_set :: "'a list \<Rightarrow> 'a list" where
  "as_set xs = rev (remdups (rev xs))"

definition compare_sets :: "string \<Rightarrow> cell list list \<Rightarrow> cell list list \<Rightarrow> migration_error + unit" where
  "compare_sets label expected actual =
     (let missing = filter (\<lambda>v. v \<notin> set actual) (as_set expected); unexpected = filter (\<lambda>v. v \<notin> set expected) (as_set actual) in
      if missing = [] \<and> unexpected = [] then Inr () else Inl (Preflight_Failed label missing unexpected))"

section \<open>The snapshot\<close>

datatype entity =
    Schema_Entity jstring
  | Table_Entity jstring bool
  | Column_Entity jstring jstring jstring "jstring option" nat bool
  | Enum_Entity jstring "jstring list"
  | Index_Entity jstring jstring bool
  | Pk_Entity jstring jstring "jstring list"
  | Fk_Entity jstring jstring "jstring list" jstring "jstring list" jstring jstring
  | Check_Entity jstring jstring

definition expected_column_type :: "jstring \<Rightarrow> jstring option \<Rightarrow> nat \<Rightarrow> jstring" where
  "expected_column_type t schema dims =
     (let base = (if t = ascii ''bigserial'' then ascii ''bigint'' else t);
          qualified = (case schema of None \<Rightarrow> base | Some n \<Rightarrow> if n = [] then base else n @ ascii ''.'' @ base)
      in qualified @ concat (replicate dims (ascii ''[]'')))"

definition comparable_enum :: "jstring \<Rightarrow> jstring list \<Rightarrow> cell list" where
  "comparable_enum name vs = [Name name, Names (if name = ascii ''generation_job_status'' then sort vs else vs)]"

definition expected_tables :: "entity list \<Rightarrow> cell list list" where
  "expected_tables es = concat (map (\<lambda>e. case e of Table_Entity n rls \<Rightarrow> [[Name n, Flag rls]] | _ \<Rightarrow> []) es)"

definition expected_columns :: "entity list \<Rightarrow> cell list list" where
  "expected_columns es = concat (map (\<lambda>e. case e of
     Column_Entity t n ty schema dims nn \<Rightarrow> [[Name t, Name n, Name (expected_column_type ty schema dims), Flag nn]] | _ \<Rightarrow> []) es)"

definition expected_enums :: "entity list \<Rightarrow> cell list list" where
  "expected_enums es = concat (map (\<lambda>e. case e of Enum_Entity n vs \<Rightarrow> [comparable_enum n vs] | _ \<Rightarrow> []) es)"

definition expected_indexes :: "entity list \<Rightarrow> cell list list" where
  "expected_indexes es = concat (map (\<lambda>e. case e of
     Index_Entity t n uq \<Rightarrow> [[Name t, Name (truncate_identifier n), Flag uq]] | _ \<Rightarrow> []) es)"

definition expected_primary_keys :: "entity list \<Rightarrow> cell list list" where
  "expected_primary_keys es = concat (map (\<lambda>e. case e of
     Pk_Entity t n cs \<Rightarrow> [[Name t, Name (truncate_identifier n), Names cs]] | _ \<Rightarrow> []) es)"

definition expected_foreign_keys :: "entity list \<Rightarrow> cell list list" where
  "expected_foreign_keys es = concat (map (\<lambda>e. case e of
     Fk_Entity t n cs t' cs' on_upd on_del \<Rightarrow>
       [[Name t, Name (truncate_identifier n), Names cs, Name t', Names cs', Name on_upd, Name on_del]] | _ \<Rightarrow> []) es)"

definition expected_checks :: "entity list \<Rightarrow> cell list list" where
  "expected_checks es = concat (map (\<lambda>e. case e of Check_Entity t n \<Rightarrow> [[Name t, Name (truncate_identifier n)]] | _ \<Rightarrow> []) es)"

section \<open>The catalogue\<close>

record pg_class =
  cls_oid :: nat
  cls_name :: jstring
  cls_namespace :: nat
  cls_kind :: char
  cls_rls :: bool

record pg_attribute =
  att_rel :: nat
  att_name :: jstring
  att_type :: nat
  att_typmod :: int
  att_num :: int
  att_not_null :: bool
  att_dropped :: bool

record pg_type =
  typ_oid :: nat
  typ_name :: jstring
  typ_namespace :: nat

record pg_enum =
  enm_type :: nat
  enm_label :: jstring
  enm_sort :: rat

record pg_index =
  idx_rel :: nat
  idx_index :: nat
  idx_unique :: bool
  idx_primary :: bool

record pg_constraint =
  con_type :: char
  con_name :: jstring
  con_rel :: nat
  con_key :: "int list"
  con_frel :: nat
  con_fkey :: "int list"
  con_on_update :: char
  con_on_delete :: char

record catalog =
  cat_namespaces :: "(nat \<times> jstring) list"
  cat_classes :: "pg_class list"
  cat_attributes :: "pg_attribute list"
  cat_types :: "pg_type list"
  cat_enums :: "pg_enum list"
  cat_indexes :: "pg_index list"
  cat_constraints :: "pg_constraint list"

text \<open>Oids are unique, so a join on one has at most one partner.\<close>

definition in_opod :: "catalog \<Rightarrow> nat \<Rightarrow> bool" where
  "in_opod k i \<longleftrightarrow> (i, ascii ''opod'') \<in> set (cat_namespaces k)"

definition own_class :: "catalog \<Rightarrow> pg_class \<Rightarrow> bool" where
  "own_class k c \<longleftrightarrow> in_opod k (cls_namespace c) \<and> cls_name c \<noteq> ascii ''_prisma_migrations''"

definition own_table :: "catalog \<Rightarrow> pg_class \<Rightarrow> bool" where
  "own_table k c \<longleftrightarrow> own_class k c \<and> cls_kind c \<in> {CHR ''r'', CHR ''p''}"

definition actual_tables :: "catalog \<Rightarrow> cell list list" where
  "actual_tables k = map (\<lambda>c. [Name (cls_name c), Flag (cls_rls c)]) (filter (own_table k) (cat_classes k))"

definition actual_columns :: "(nat \<Rightarrow> int \<Rightarrow> jstring) \<Rightarrow> catalog \<Rightarrow> cell list list" where
  "actual_columns format_type k =
     [[Name (cls_name c), Name (att_name a),
       Name (if in_opod k (typ_namespace t) then ascii ''opod.'' @ typ_name t else format_type (att_type a) (att_typmod a)), Flag (att_not_null a)].
      c \<leftarrow> filter (own_table k) (cat_classes k),
      a \<leftarrow> filter (\<lambda>a. att_rel a = cls_oid c \<and> 0 < att_num a \<and> \<not> att_dropped a) (cat_attributes k),
      t \<leftarrow> filter (\<lambda>t. typ_oid t = att_type a \<and> list_ex (\<lambda>n. fst n = typ_namespace t) (cat_namespaces k)) (cat_types k)]"

definition actual_enums :: "catalog \<Rightarrow> cell list list" where
  "actual_enums k =
     (let rows = [(typ_name t, e). t \<leftarrow> filter (\<lambda>t. in_opod k (typ_namespace t)) (cat_types k), e \<leftarrow> filter (\<lambda>e. enm_type e = typ_oid t) (cat_enums k)]
      in map (\<lambda>n. comparable_enum n (map (enm_label \<circ> snd) (sort_key (enm_sort \<circ> snd) (filter (\<lambda>r. fst r = n) rows))))
           (remdups (map fst rows)))"

definition actual_indexes :: "catalog \<Rightarrow> cell list list" where
  "actual_indexes k =
     [[Name (cls_name c), Name (cls_name d), Flag (idx_unique i)].
      i \<leftarrow> filter (\<lambda>i. \<not> idx_primary i) (cat_indexes k),
      c \<leftarrow> filter (\<lambda>c. cls_oid c = idx_rel i \<and> own_class k c) (cat_classes k),
      d \<leftarrow> filter (\<lambda>d. cls_oid d = idx_index i) (cat_classes k)]"

definition columns_at :: "catalog \<Rightarrow> nat \<Rightarrow> int list \<Rightarrow> jstring list" where
  "columns_at k r nums = concat (map (\<lambda>n. map att_name (filter (\<lambda>a. att_rel a = r \<and> att_num a = n) (cat_attributes k))) nums)"

definition rule_name :: "char \<Rightarrow> cell" where
  "rule_name c =
     (if c = CHR ''a'' then Name (ascii ''NO ACTION'') else if c = CHR ''r'' then Name (ascii ''RESTRICT'')
      else if c = CHR ''c'' then Name (ascii ''CASCADE'') else if c = CHR ''n'' then Name (ascii ''SET NULL'')
      else if c = CHR ''d'' then Name (ascii ''SET DEFAULT'') else Null)"

definition constraints_of :: "char \<Rightarrow> catalog \<Rightarrow> (pg_constraint \<times> pg_class) list" where
  "constraints_of t k =
     [(con, c). con \<leftarrow> filter (\<lambda>con. con_type con = t) (cat_constraints k),
        c \<leftarrow> filter (\<lambda>c. cls_oid c = con_rel con \<and> own_class k c) (cat_classes k)]"

definition actual_primary_keys :: "catalog \<Rightarrow> cell list list" where
  "actual_primary_keys k = map (\<lambda>(con, c). [Name (cls_name c), Name (con_name con), Names (columns_at k (con_rel con) (con_key con))])
     (constraints_of CHR ''p'' k)"

definition target_name :: "catalog \<Rightarrow> nat \<Rightarrow> cell" where
  "target_name k i = (case find (\<lambda>c. cls_oid c = i) (cat_classes k) of None \<Rightarrow> Null | Some c \<Rightarrow> Name (cls_name c))"

definition actual_foreign_keys :: "catalog \<Rightarrow> cell list list" where
  "actual_foreign_keys k = map (\<lambda>(con, c). [Name (cls_name c), Name (con_name con), Names (columns_at k (con_rel con) (con_key con)),
       target_name k (con_frel con), Names (columns_at k (con_frel con) (con_fkey con)), rule_name (con_on_update con), rule_name (con_on_delete con)])
     (constraints_of CHR ''f'' k)"

definition actual_checks :: "catalog \<Rightarrow> cell list list" where
  "actual_checks k = map (\<lambda>(con, c). [Name (cls_name c), Name (con_name con)]) (constraints_of CHR ''c'' k)"

section \<open>The preflight\<close>

record drizzle_row =
  drz_hash :: string
  drz_created :: int
  drz_name :: "string option"
  drz_applied :: time

record legacy_row =
  lgm_name :: string
  lgm_started :: time
  lgm_finished :: "time option"
  lgm_rolled_back :: "time option"

text \<open>What the script sees of a database; \<open>None\<close> is a relation that does not exist.\<close>

record target =
  tgt_catalog :: catalog
  tgt_drizzle :: "drizzle_row list option"
  tgt_legacy :: "string \<Rightarrow> legacy_row list option"
  tgt_db :: db

definition assert_no_recorded :: "target \<Rightarrow> migration_error + unit" where
  "assert_no_recorded s = (case tgt_drizzle s of
     None \<Rightarrow> Inr ()
   | Some rows \<Rightarrow> if rows = [] then Inr ()
       else Inl (Already_Recorded (map (\<lambda>r. case drz_name r of None \<Rightarrow> ''<unnamed>'' | Some n \<Rightarrow> n) rows)))"

definition unfinished :: "legacy_row \<Rightarrow> bool" where
  "unfinished r \<longleftrightarrow> lgm_finished r = None \<and> lgm_rolled_back r = None"

definition assert_legacy_complete :: "string \<Rightarrow> target \<Rightarrow> migration_error + unit" where
  "assert_legacy_complete schema s = (case tgt_legacy s schema of
     None \<Rightarrow> Inr ()
   | Some rows \<Rightarrow> (let bad = sort_key lgm_started (filter unfinished rows) in
       if bad = [] then Inr () else Inl (Legacy_Unfinished (schema @ ''._prisma_migrations'') (map lgm_name bad))))"

definition assert_legacy_migrations_complete :: "target \<Rightarrow> migration_error + unit" where
  "assert_legacy_migrations_complete s =
     bindR (assert_legacy_complete ''opod'' s) (\<lambda>_. assert_legacy_complete ''public'' s)"

definition assert_baseline_schema :: "(nat \<Rightarrow> int \<Rightarrow> jstring) \<Rightarrow> entity list \<Rightarrow> target \<Rightarrow> migration_error + unit" where
  "assert_baseline_schema format_type es s =
     (let k = tgt_catalog s in
      bindR (compare_sets ''tables'' (expected_tables es) (actual_tables k)) (\<lambda>_.
      bindR (compare_sets ''columns'' (expected_columns es) (actual_columns format_type k)) (\<lambda>_.
      bindR (compare_sets ''enums'' (expected_enums es) (actual_enums k)) (\<lambda>_.
      bindR (compare_sets ''indexes'' (expected_indexes es) (actual_indexes k)) (\<lambda>_.
      bindR (compare_sets ''primary keys'' (expected_primary_keys es) (actual_primary_keys k)) (\<lambda>_.
      bindR (compare_sets ''foreign keys'' (expected_foreign_keys es) (actual_foreign_keys k)) (\<lambda>_.
      compare_sets ''checks'' (expected_checks es) (actual_checks k))))))))"

definition product_codes :: "string list" where
  "product_codes = [''credits_500'', ''credits_1050'', ''credits_3300'', ''credits_5750'']"

definition seeded_products :: "db \<Rightarrow> string list" where
  "seeded_products d = filter (\<lambda>c. c \<in> set product_codes) (map prd_code (products d))"

definition seeded_mappings :: "db \<Rightarrow> string list" where
  "seeded_mappings d = map pm_provider_product (filter (\<lambda>m. pm_channel m = Web \<and> pm_provider m = ''local'' \<and>
     pm_environment m = ''development'' \<and> pm_provider_product m \<in> set product_codes) (mappings d))"

definition assert_baseline_seeds :: "target \<Rightarrow> migration_error + unit" where
  "assert_baseline_seeds s =
     (let codes = map (\<lambda>c. [Code c]) in
      bindR (compare_sets ''credit product seeds'' (codes product_codes) (codes (seeded_products (tgt_db s)))) (\<lambda>_.
      compare_sets ''payment mapping seeds'' (codes product_codes) (codes (seeded_mappings (tgt_db s)))))"

section \<open>Registering the baseline\<close>

record migration_file =
  mig_name :: string
  mig_hash :: string
  mig_millis :: int

definition baseline_name :: string where
  "baseline_name = ''20260831062118_baseline''"

definition baseline_hash :: string where
  "baseline_hash = ''b9a479b5aac45c7f633e3749f561b6eff6c80c9eb01a60c4410f67b49def3350''"

definition register_baseline :: "time \<Rightarrow> migration_file \<Rightarrow> target \<Rightarrow> migration_error + unit \<times> target" where
  "register_baseline now m s =
     (let rows = (case tgt_drizzle s of None \<Rightarrow> [] | Some rows \<Rightarrow> rows) in
      if rows \<noteq> [] then Inl Created_Concurrently
      else Inr ((), s\<lparr>tgt_drizzle := Some (rows @ [\<lparr>drz_hash = mig_hash m, drz_created = mig_millis m, drz_name = Some (mig_name m),
                                                  drz_applied = now\<rparr>])\<rparr>))"

definition baseline_preflight :: "(nat \<Rightarrow> int \<Rightarrow> jstring) \<Rightarrow> entity list \<Rightarrow> target \<Rightarrow> migration_error + unit" where
  "baseline_preflight format_type es s =
     bindR (assert_no_recorded s) (\<lambda>_.
     bindR (assert_legacy_migrations_complete s) (\<lambda>_.
     bindR (assert_baseline_schema format_type es s) (\<lambda>_. assert_baseline_seeds s)))"

text \<open>
  The queries of the preflight run outside a transaction: what they see is \<open>s\<close>, what the registration meets is \<open>s'\<close>. The advisory lock
  keeps other runs of the script out, not other sessions.
\<close>

definition check_arguments :: "string option \<Rightarrow> string list \<Rightarrow> migration_file list \<Rightarrow> migration_error + bool \<times> migration_file" where
  "check_arguments url args files =
     bindR (case trimmed url of None \<Rightarrow> Inl No_Database_Url | Some _ \<Rightarrow> Inr ()) (\<lambda>_.
     let unknown = filter (\<lambda>x. x \<noteq> ''--baseline'') args in
     bindR (if unknown \<noteq> [] then Inl (Unknown_Arguments unknown) else Inr ()) (\<lambda>_.
     case find (\<lambda>m. mig_name m = baseline_name) files of
       None \<Rightarrow> Inl Bad_Baseline
     | Some m \<Rightarrow> if mig_hash m \<noteq> baseline_hash then Inl Bad_Baseline else Inr (''--baseline'' \<in> set args, m)))"

definition run_migrations ::
    "(target \<Rightarrow> (migration_error + unit) \<times> target) \<Rightarrow> (nat \<Rightarrow> int \<Rightarrow> jstring) \<Rightarrow> entity list \<Rightarrow> time \<Rightarrow> string option \<Rightarrow> string list \<Rightarrow>
     migration_file list \<Rightarrow> target \<Rightarrow> target \<Rightarrow> (migration_error + unit) \<times> target" where
  "run_migrations migrate format_type es now url args files s s' =
     (case check_arguments url args files of
        Inl err \<Rightarrow> (Inl err, s')
      | Inr (baseline_mode, m) \<Rightarrow>
          if \<not> baseline_mode then migrate s'
          else (case baseline_preflight format_type es s of
                  Inl err \<Rightarrow> (Inl err, s')
                | Inr _ \<Rightarrow> commit (register_baseline now m) s'))"

end
