(* ===== verification/Migration_Props.thy ===== *)
theory Migration_Props
  imports Migrations
begin

text \<open>
  The comparison is equality of sets, an identifier is cut to its longest beginning that fits, and a baseline is registered exactly when
  everything the preflight compares agrees.
\<close>

section \<open>Identifiers\<close>

lemma byte_length_snoc: "byte_length xs < byte_length (xs @ [x])"
  by (induction xs rule: byte_length.induct) auto

lemma byte_length_append: "byte_length xs \<le> byte_length (xs @ ys)"
proof (induction ys rule: rev_induct)
  case (snoc y ys)
  then show ?case using byte_length_snoc [of "xs @ ys" y] by simp
qed simp

lemma byte_length_prefix: "prefix xs ys \<Longrightarrow> byte_length xs \<le> byte_length ys"
  using byte_length_append by (auto elim: prefixE)

lemma byte_length_ascii: "\<forall>c \<in> set xs. c < 0x80 \<Longrightarrow> byte_length xs = length xs"
  by (induction xs rule: byte_length.induct) auto

lemma truncated_fits: "byte_length (truncate_identifier v) \<le> 63"
  by (induction v rule: truncate_identifier.induct) (subst truncate_identifier.simps, simp)

lemma truncated_prefix: "prefix (truncate_identifier v) v"
proof (induction v rule: truncate_identifier.induct)
  case (1 v)
  show ?case
  proof (cases "63 < byte_length v")
    case True
    then show ?thesis using 1 prefix_order.trans [OF _ prefixeq_butlast] by (subst truncate_identifier.simps) simp
  qed (subst truncate_identifier.simps, simp)
qed

lemma truncated_longest: "prefix w v \<Longrightarrow> byte_length w \<le> 63 \<Longrightarrow> prefix w (truncate_identifier v)"
proof (induction v rule: truncate_identifier.induct)
  case (1 v)
  show ?case
  proof (cases "63 < byte_length v")
    case True
    then have "w \<noteq> v" using 1(3) by auto
    then have "prefix w (butlast v)" using 1(2) by (cases v rule: rev_cases) auto
    with True 1 show ?thesis by (subst truncate_identifier.simps) simp
  next
    case False
    then show ?thesis using 1(2) by (subst truncate_identifier.simps) simp
  qed
qed

text \<open>PostgreSQL cuts a name of ASCII characters in the same place.\<close>

lemma truncate_ascii:
  assumes "\<forall>c \<in> set v. c < 0x80"
  shows "truncate_identifier v = take 63 v"
proof -
  have "\<forall>c \<in> set (truncate_identifier v). c < 0x80" using assms truncated_prefix set_mono_prefix by blast
  then have "length (truncate_identifier v) \<le> 63" using truncated_fits [of v] byte_length_ascii by metis
  moreover have "prefix (take 63 v) (truncate_identifier v)"
  proof (rule truncated_longest [OF take_is_prefix])
    show "byte_length (take 63 v) \<le> 63" using assms byte_length_ascii [of "take 63 v"] by (metis in_set_takeD length_take min.cobounded2)
  qed
  ultimately show ?thesis
    using truncated_prefix [of v] by (metis append_eq_conv_conj prefix_def prefix_order.antisym take_all_iff take_append take_is_prefix prefix_length_le nat_le_linear take_all)
qed

text \<open>An index or constraint name of the snapshot is compared after cutting it to the longest beginning of at most 63 bytes of UTF-8,
  where PostgreSQL keeps at most 63 bytes.
\<close>

theorem identifier_truncated:
  assumes "prefix w v" "byte_length w \<le> 63"
  shows "byte_length (truncate_identifier v) \<le> 63 \<and> prefix (truncate_identifier v) v \<and> prefix w (truncate_identifier v)"
  using truncated_fits truncated_prefix truncated_longest [OF assms] by blast

section \<open>The preflight\<close>

lemma as_set_set [simp]: "set (as_set xs) = set xs"
  by (simp add: as_set_def)

lemma compare_sets_iff: "compare_sets label e a = Inr x \<longleftrightarrow> set e = set a"
  by (auto simp: compare_sets_def Let_def filter_empty_conv)

definition legacy_finished :: "string \<Rightarrow> target \<Rightarrow> bool" where
  "legacy_finished schema s \<longleftrightarrow> (case tgt_legacy s schema of None \<Rightarrow> True | Some rows \<Rightarrow> \<not> list_ex unfinished rows)"

definition schema_matches :: "(nat \<Rightarrow> int \<Rightarrow> jstring) \<Rightarrow> entity list \<Rightarrow> catalog \<Rightarrow> bool" where
  "schema_matches format_type es k \<longleftrightarrow>
     set (expected_tables es) = set (actual_tables k) \<and> set (expected_columns es) = set (actual_columns format_type k) \<and>
     set (expected_enums es) = set (actual_enums k) \<and> set (expected_indexes es) = set (actual_indexes k) \<and>
     set (expected_primary_keys es) = set (actual_primary_keys k) \<and>
     set (expected_foreign_keys es) = set (actual_foreign_keys k) \<and> set (expected_checks es) = set (actual_checks k)"

definition unrecorded :: "target \<Rightarrow> bool" where
  "unrecorded s \<longleftrightarrow> tgt_drizzle s = None \<or> tgt_drizzle s = Some []"

lemma assert_legacy_iff: "assert_legacy_complete schema s = Inr x \<longleftrightarrow> legacy_finished schema s"
proof -
  have "sort_key lgm_started (filter unfinished rows) = [] \<longleftrightarrow> \<not> list_ex unfinished rows" for rows
    by (metis filter_empty_conv list_ex_iff set_empty set_sort)
  then show ?thesis by (simp add: assert_legacy_complete_def legacy_finished_def Let_def split: option.splits)
qed

lemma assert_seeds_iff:
  "assert_baseline_seeds s = Inr x \<longleftrightarrow>
     set product_codes \<subseteq> set (seeded_products (tgt_db s)) \<and> set product_codes \<subseteq> set (seeded_mappings (tgt_db s))"
proof -
  have inj: "(\<lambda>c. [Code c]) ` A = (\<lambda>c. [Code c]) ` B \<longleftrightarrow> A = B" for A B
    by (rule inj_image_eq_iff) (simp add: inj_def)
  have "set (seeded_products (tgt_db s)) \<subseteq> set product_codes" "set (seeded_mappings (tgt_db s)) \<subseteq> set product_codes"
    unfolding seeded_products_def seeded_mappings_def by auto
  then show ?thesis
    unfolding assert_baseline_seeds_def Let_def bindR_Inr_iff compare_sets_iff set_map inj by auto
qed

lemma preflight_iff:
  "baseline_preflight format_type es s = Inr x \<longleftrightarrow>
     unrecorded s \<and> legacy_finished ''opod'' s \<and> legacy_finished ''public'' s \<and> schema_matches format_type es (tgt_catalog s) \<and>
     set product_codes \<subseteq> set (seeded_products (tgt_db s)) \<and> set product_codes \<subseteq> set (seeded_mappings (tgt_db s))"
proof -
  have "assert_no_recorded s = Inr y \<longleftrightarrow> unrecorded s" for y
    by (auto simp: assert_no_recorded_def unrecorded_def split: option.splits)
  then show ?thesis
    by (simp add: baseline_preflight_def assert_legacy_migrations_complete_def assert_baseline_schema_def schema_matches_def
        bindR_Inr_iff compare_sets_iff assert_legacy_iff assert_seeds_iff Let_def)
qed

definition recorded :: "time \<Rightarrow> migration_file \<Rightarrow> drizzle_row" where
  "recorded now m = \<lparr>drz_hash = mig_hash m, drz_created = mig_millis m, drz_name = Some (mig_name m), drz_applied = now\<rparr>"

lemma register_elim:
  "commit (register_baseline now m) s = (if unrecorded s then (Inr (), s\<lparr>tgt_drizzle := Some [recorded now m]\<rparr>) else (Inl Created_Concurrently, s))"
  by (auto simp: commit_def register_baseline_def unrecorded_def recorded_def Let_def split: option.splits)

text \<open>C40: With \<open>--baseline\<close> the script registers the approved baseline exactly when no migration is recorded, before and at the registration,
  no legacy migration is unfinished, tables, columns, enums, indexes, primary and foreign keys and checks agree with the snapshot as
  sets, and the products and their local mappings are there. Then its row is the only recorded one; otherwise the database is left as
  it is.
\<close>

theorem baseline_registered_exactly:
  fixes migrate format_type es now url args files
  defines "run \<equiv> run_migrations migrate format_type es now url args files"
  assumes "check_arguments url args files = Inr (True, m)"
  shows "run s s' = (if unrecorded s \<and> legacy_finished ''opod'' s \<and> legacy_finished ''public'' s \<and>
         schema_matches format_type es (tgt_catalog s) \<and> set product_codes \<subseteq> set (seeded_products (tgt_db s)) \<and>
         set product_codes \<subseteq> set (seeded_mappings (tgt_db s)) \<and> unrecorded s'
       then (Inr (), s'\<lparr>tgt_drizzle := Some [recorded now m]\<rparr>)
       else (Inl (projl (fst (run s s'))), s')) \<and>
     mig_name m = baseline_name \<and> mig_hash m = baseline_hash"
proof -
  note pre = preflight_iff [of format_type es s "()"]
  have "mig_name m = baseline_name \<and> mig_hash m = baseline_hash"
    using assms(2) by (auto simp: check_arguments_def bindR_Inr_iff Let_def split: option.splits if_splits dest!: find_Some_iff [THEN iffD1])
  moreover have "run s s' = (if unrecorded s \<and> legacy_finished ''opod'' s \<and> legacy_finished ''public'' s \<and>
         schema_matches format_type es (tgt_catalog s) \<and> set product_codes \<subseteq> set (seeded_products (tgt_db s)) \<and>
         set product_codes \<subseteq> set (seeded_mappings (tgt_db s)) \<and> unrecorded s'
       then (Inr (), s'\<lparr>tgt_drizzle := Some [recorded now m]\<rparr>)
       else (Inl (projl (fst (run s s'))), s'))"
  proof (cases "baseline_preflight format_type es s")
    case (Inl err)
    then show ?thesis using pre by (auto simp: run_def run_migrations_def assms(2))
  next
    case (Inr x)
    then show ?thesis using pre by (auto simp: run_def run_migrations_def assms(2) register_elim)
  qed
  ultimately show ?thesis by blast
qed

section \<open>A database to register\<close>

theorem identifier_truncated_witness:
  "byte_length (truncate_identifier (replicate 62 0x61 @ [0xD83D, 0xDE00])) \<le> 63 \<and>
   prefix (truncate_identifier (replicate 62 0x61 @ [0xD83D, 0xDE00])) (replicate 62 0x61 @ [0xD83D, 0xDE00]) \<and>
   prefix (replicate 62 0x61) (truncate_identifier (replicate 62 0x61 @ [0xD83D, 0xDE00]))"
proof (rule identifier_truncated)
  show "byte_length (replicate 62 0x61) \<le> 63" by (subst byte_length_ascii) auto
qed simp

definition demo_snapshot :: "entity list" where
  "demo_snapshot = [Schema_Entity (ascii ''opod''), Table_Entity (ascii ''t'') False,
     Column_Entity (ascii ''t'') (ascii ''id'') (ascii ''uuid'') None 0 True, Pk_Entity (ascii ''t'') (ascii ''k'') [ascii ''id'']]"

definition demo_catalog :: catalog where
  "demo_catalog = \<lparr>cat_namespaces = [(1, ascii ''opod''), (2, ascii ''pg_catalog'')],
     cat_classes = [\<lparr>cls_oid = 10, cls_name = ascii ''t'', cls_namespace = 1, cls_kind = CHR ''r'', cls_rls = False\<rparr>],
     cat_attributes = [\<lparr>att_rel = 10, att_name = ascii ''id'', att_type = 20, att_typmod = -1, att_num = 1, att_not_null = True, att_dropped = False\<rparr>],
     cat_types = [\<lparr>typ_oid = 20, typ_name = ascii ''uuid'', typ_namespace = 2\<rparr>], cat_enums = [], cat_indexes = [],
     cat_constraints = [\<lparr>con_type = CHR ''p'', con_name = ascii ''k'', con_rel = 10, con_key = [1], con_frel = 0, con_fkey = [],
       con_on_update = CHR '' '', con_on_delete = CHR '' ''\<rparr>]\<rparr>"

definition demo_target :: target where
  "demo_target = \<lparr>tgt_catalog = demo_catalog, tgt_drizzle = None, tgt_legacy = (\<lambda>_. None),
     tgt_db = empty_db\<lparr>products := map (\<lambda>c. \<lparr>prd_id = c, prd_code = c, prd_name = c, prd_credits = 1, prd_active = True, prd_order = 0\<rparr>) product_codes,
       mappings := map (\<lambda>c. \<lparr>pm_id = c, pm_product = c, pm_channel = Web, pm_provider = ''local'', pm_environment = ''development'',
         pm_provider_product = c, pm_price = None, pm_currency = None, pm_active = True\<rparr>) product_codes\<rparr>\<rparr>"

definition demo_baseline :: migration_file where
  "demo_baseline = \<lparr>mig_name = baseline_name, mig_hash = baseline_hash, mig_millis = 1\<rparr>"

theorem baseline_registered_exactly_witness:
  "run_migrations (\<lambda>s. (Inr (), s)) (\<lambda>_ _. ascii ''uuid'') demo_snapshot 5 (Some ''postgres://db'') [''--baseline''] [demo_baseline] demo_target demo_target =
     (Inr (), demo_target\<lparr>tgt_drizzle := Some [recorded 5 demo_baseline]\<rparr>)"
proof -
  have a: "check_arguments (Some ''postgres://db'') [''--baseline''] [demo_baseline] = Inr (True, demo_baseline)" by code_simp
  have legacy: "unrecorded demo_target" "legacy_finished ''opod'' demo_target" "legacy_finished ''public'' demo_target"
    by (simp_all add: unrecorded_def legacy_finished_def demo_target_def)
  have k: "truncate_identifier (ascii ''k'') = ascii ''k''"
    by (subst truncate_ascii) (simp_all add: ascii_def of_char_def)
  have names: "ascii ''t'' \<noteq> ascii ''_prisma_migrations''" "ascii ''pg_catalog'' \<noteq> ascii ''opod''" "ascii ''uuid'' \<noteq> ascii ''bigserial''"
    by (simp_all add: ascii_def)
  have schema: "schema_matches (\<lambda>_ _. ascii ''uuid'') demo_snapshot (tgt_catalog demo_target)"
    using names
    by (simp add: schema_matches_def demo_snapshot_def demo_target_def demo_catalog_def k expected_tables_def expected_columns_def
        expected_enums_def expected_indexes_def expected_primary_keys_def expected_foreign_keys_def expected_checks_def
        expected_column_type_def actual_tables_def actual_columns_def actual_enums_def actual_indexes_def actual_primary_keys_def
        actual_foreign_keys_def actual_checks_def constraints_of_def columns_at_def own_table_def own_class_def in_opod_def Let_def)
  have seeds: "set product_codes \<subseteq> set (seeded_products (tgt_db demo_target))" "set product_codes \<subseteq> set (seeded_mappings (tgt_db demo_target))"
    unfolding seeded_products_def seeded_mappings_def demo_target_def by (auto simp: product_codes_def)
  show ?thesis
    using baseline_registered_exactly [OF a, of "\<lambda>s. (Inr (), s)" "\<lambda>_ _. ascii ''uuid''" demo_snapshot 5 demo_target demo_target]
      legacy schema seeds by simp
qed

end
