(* ===== verification/Spec2Isabelle.thy ===== *)
theory Spec2Isabelle
  imports Check_In Ledger_Pages Notification_Runs Purchase_Props Event_Props Checkout_Props
    Reply_Props Message_Pages Consent_Props Auth_Demo Social_Demo
    Api_Demo Migration_Props
begin

text \<open>
  The OPOD service backend (\<open>src/src\<close>, NestJS over PostgreSQL through Drizzle): users buy, earn and spend
  credits, follow characters, write to them and read their posts, while the characters like and follow each
  other. This library models its services as functions on the database they share, its controllers as functions
  on requests, and proves what they promise, each alone and all together.

  \<^bold>\<open>The parts and how they interact.\<close> A request passes the validation pipe and, where it needs one, the check of its
  bearer token, and is then answered by one service (\<open>src/*/*.controller.ts\<close>). The credit ledger
  (\<open>credits.service.ts\<close>) is the centre: an append-only table of grants and charges, with reservations that hold
  credits until they are captured or released. Purchases (\<open>purchases.service.ts\<close>) grant paid credits when a payment
  provider reports a payment, lock them while a refund is under way and take them back when it completes. The
  providers (\<open>payments/\<close>) check and translate what the stores and the web provider send. Check-ins and sign-up give
  free credits. Messages to a character (\<open>messages/\<close>) reserve the price of a reply and queue a job; a worker claims
  the job, asks the agent, and in one transaction stores the reply and captures the reservation. Accounts
  (\<open>auth/\<close>) register, log in, exchange refresh tokens, verify an identity and withdraw; a withdrawal leaves the debts
  of an identity behind for its next account. Posts, reactions, the feed, stories and the search (\<open>posts/\<close>, \<open>feed/\<close>,
  \<open>stories/\<close>, \<open>search/\<close>, \<open>characters/\<close>) are what users read; the events they leave (\<open>events/\<close>) rank their feed. A second
  worker (\<open>character-social/\<close>) lets characters view, like and follow within daily limits. Notifications, reports,
  inquiries, notices and questions (\<open>notifications/\<close>, \<open>reports/\<close>, \<open>inquiries/\<close>, \<open>notices/\<close>, \<open>faqs/\<close>) complete the service.

  \<^bold>\<open>The state.\<close> \<open>Schema\<close> holds one record per table of the money and message services with the columns they use,
  the enums as datatypes, and \<open>db\<close>, the record of these tables, each the list of its rows in insertion order. The
  \<open>ins_*\<close> and \<open>upd_*\<close> functions are INSERT and UPDATE with the checks of \<open>core/database/schema.ts\<close>:
  integer range, unique indexes, foreign keys; a violation is \<open>Db_Error\<close> with its SQLSTATE. \<open>Backend\<close> adds the other
  tables: \<open>backend\<close> is their record with a \<open>db\<close> inside, so what is proved of \<open>db\<close> stays true of it. An instant
  is a number of microseconds, as in a \<open>timestamptz(6)\<close>; \<open>js_date\<close> drops what a JavaScript \<open>Date\<close> does not
  keep. Every operation takes the instant and the fresh ids it uses as arguments.

  \<^bold>\<open>Effects and errors.\<close> An operation returns \<open>'a res\<close>, the HTTP exception or a value; a transaction
  \<open>db \<Rightarrow> ('a \<times> db) res\<close> has no state when it fails, and \<open>commit\<close> turns it into the rollback. Operations that
  commit more than once (a checkout, a refund request, a registration) return the result beside the
  state. The advisory locks that serialise the transactions of a user or a payment are the atomicity of a
  transaction; where the code leaves a gap between two transactions, the model has two functions and the
  theorems say what can happen in between (\<open>settle_race\<close>, \<open>stale_claim_leaks\<close>, \<open>answered_inquiry_kept\<close>).

  \<^bold>\<open>The theories.\<close>
  \<^item> \<open>Prelude\<close>: results, strings, sums over lists, updates by condition. \<open>Js_Number\<close>: doubles as far as the
    program uses them (rounding to 53 bits, exactness below \<open>2 ^ 53\<close>).
  \<^item> \<open>Schema\<close>, \<open>Backend\<close>: the tables.
  \<^item> \<open>Credits\<close>: \<open>credits.service.ts\<close> and \<open>credit-pricing.ts\<close>. \<open>Credits_Laws\<close> shows what an allocation takes
    from which grant, \<open>Credits_Inv\<close> the invariant \<open>ledger_ok\<close> of the ledger and that every operation keeps it,
    \<open>Credits_Accounts\<close> and \<open>Credits_Balance\<close> what a balance is and how every kind of row moves it, \<open>Credits_Props\<close>
    the properties of the operations.
  \<^item> \<open>Check_In\<close>: check-ins and the calendar of Seoul.
  \<^item> \<open>Cursor\<close>, \<open>Page\<close>, \<open>Keyset\<close>: \<open>shared/utils/page.ts\<close> down to base64url and JSON; the locale \<open>paged_listing\<close>
    is the contract of a listing and proves that its pages, followed, show everything once; the locale
    \<open>keyset_listing\<close> is the query most services write, and meets the contract when creation instants are whole
    milliseconds. \<open>Ledger_Pages\<close>, \<open>Notification_Props\<close>, \<open>Checkout_Props\<close>, \<open>Message_Pages\<close>, \<open>Content_Props\<close>, \<open>Feed_Props\<close>
    and \<open>Support_Props\<close> interpret them on the endpoints.
  \<^item> \<open>Providers\<close>, \<open>Payments\<close>: the adapters of Polar, the App Store, Google Play and the local provider, and the
    dispatch to them with the guard of the environment.
  \<^item> \<open>Purchases\<close>, \<open>Purchase_Events\<close>, \<open>Checkout\<close>: \<open>purchases.service.ts\<close>: refunds, provider events, checkouts and
    in-app purchases. \<open>Purchase_Inv\<close> shows that they keep \<open>ledger_ok\<close>, \<open>Purchase_Locks\<close> how a lock moves the
    balance, \<open>Purchase_Props\<close>, \<open>Event_Props\<close> and \<open>Checkout_Props\<close> hold the properties.
  \<^item> \<open>Notifications\<close>, \<open>Notification_Props\<close>: \<open>notifications.service.ts\<close>; \<open>Notification_Runs\<close> follows the syncs of one user over
    a run of the backend.
  \<^item> \<open>Experience\<close>: the validation of what a character's message carries. \<open>Messages\<close>, \<open>Reply_Provider\<close>, \<open>Reply_Worker\<close>:
    the service, the call to the agent and the worker. \<open>Reply_Effects\<close> says what each transaction does to the
    reservations, jobs and messages; \<open>Reply_Steps\<close> is the step relation of requests, workers and the rest of the
    backend on any interleaving, with crashes, and the invariant \<open>reply_inv\<close> of the reachable states; \<open>Reply_Leases\<close> says how
    far a lease excludes other claims and what a worker that outlives its lease breaks, \<open>Reply_Props\<close> holds the other
    properties, \<open>Reply_Demo\<close> the concrete runs behind their witnesses.
  \<^item> \<open>Consents\<close>, \<open>Consent_Props\<close>: \<open>consents.service.ts\<close>, the documents in force and the answers to them.
  \<^item> \<open>Tokens\<close>, \<open>Auth\<close>: \<open>auth.service.ts\<close> with its access tokens and passwords, and the Google adapter. \<open>Sessions\<close> is
    the abstract machine of users and refresh tokens, with its invariants; \<open>Auth_Props\<close> shows that the transactions
    of \<open>Auth\<close>, on any interleaving, are runs of it; \<open>Auth_Debts\<close> follows the debts of an identity; \<open>Auth_Demo\<close> is a
    small state for the witnesses.
  \<^item> \<open>Social\<close>, \<open>Social_Jobs\<close>: the social activity of the characters, its policies and repositories, the jobs with their
    leases and the worker's batch. \<open>Social_Follows\<close> shows that the paged choice of authors is one query, \<open>Social_Props\<close>
    the invariant of the jobs, the limits of a run and its end; \<open>Social_Demo\<close> the witnesses.
  \<^item> \<open>Content\<close>, \<open>Reactions\<close>, \<open>Feed\<close>: characters, posts with their media and hashtags, stories, the search with \<open>ILIKE\<close>,
    comments and reactions, events, follows and the ranked feed. \<open>Content_Props\<close> and \<open>Feed_Props\<close> hold the properties.
  \<^item> \<open>Support\<close>, \<open>Support_Props\<close>: reports, inquiries with their daily limit, notices and questions. \<open>Reader_Demo\<close> is a
    small world for the witnesses of the readers' side and of the support.
  \<^item> \<open>Requests\<close>, \<open>Api\<close>: the descriptions of bodies (\<open>src/*/dto/*.ts\<close>), the pipe and the session in front of a
    handler, a definition per controller method, and \<open>handle\<close>, the dispatch of a request. \<open>Api_Props\<close> says which requests
    need a session and which change nothing, and that a bearer token acts for its user only; \<open>Api_Ledger\<close> that
    no request breaks the ledger.
  \<^item> \<open>Service\<close>: the step relation \<open>service_step\<close> of the whole backend, requests, what they leave behind for later and
    both workers, and the ledger as its invariant. \<open>Service_Sessions\<close>: the runs of the whole service are runs of the
    session machine, with what that means for refresh tokens, passwords and withdrawals. \<open>Api_Demo\<close>: their witnesses.
  \<^item> \<open>Migrations\<close>, \<open>Migration_Props\<close>: \<open>scripts/db-migrations.mjs\<close>, the comparison of an existing database with the approved
    baseline and its registration.

  \<^bold>\<open>Parameters.\<close> The SDKs of the providers (\<open>gateway\<close>), their signature checks, SHA-256, HMAC-SHA256, scrypt and random
  bytes (\<open>crypto\<close>, \<open>auth_fresh\<close>), Google's token check, \<open>new URL\<close>, \<open>isIP\<close>, the validation pipe (\<open>app_pipe\<close>), the time zones of
  PostgreSQL (\<open>zones\<close>), its \<open>format_type\<close> and the \<open>migrate\<close> of the driver are arguments of the definitions that use them.
  Assumed are only the length of a MAC in \<open>account_token_format\<close> and, in \<open>body_cannot_choose_user\<close>, what the documentation of the
  pipe says of \<open>whitelist\<close> (\<open>whitelisting\<close>). The environment variables are the records \<open>env\<close>, \<open>auth_env\<close> and \<open>media_env\<close>.

  \<^bold>\<open>Termination and bounds.\<close> Most loops run over a list or the digits of a number and are structurally recursive. The
  matching of \<open>ILIKE\<close> (\<open>like_match\<close>) ends by the lengths of pattern and text, the paged choice of authors (\<open>follow_loop\<close>) because
  every page leaves fewer authors, the worker's batch (\<open>run_loop\<close>) by what is left of it, and the cutting of an identifier by
  its length. \<open>follow_pages\<close> takes the number of pages it may follow, and the listing theorems say that the number
  of rows is enough. Column ranges are checked by the inserts and updates.

  \<^bold>\<open>Not modelled.\<close> The framework wiring (modules, interceptors, logging, the connection pool), the documentation decorators
  and the shapes of answers (\<open>shared/swagger.ts\<close>), the timers that repeat the workers' ticks, and the tables only the admin and the agent
  services use.
\<close>

end
